(* ===== verification/Js_Prelude.thy ===== *)
theory Js_Prelude
  imports Main "HOL-Library.Multiset"
begin

text \<open>
  Shared base of the development: what the TypeScript sources use of JavaScript and its standard
  library, as HOL definitions that compute, and the generic lemmas the components rest on.

  \<^item> A thrown exception is a value of \<open>js_error\<close>. A function that returns a value is a
    \<open>result\<close> (\<open>Inl\<close> the exception); a \<open>void\<close> validator is a \<open>check\<close>, where
    \<open>None\<close> means that it returned and \<open>Some e\<close> that it threw \<open>e\<close>. A sequence of
    throwing statements is \<open>first_error\<close> over their checks.
  \<^item> Numbers are \<open>int\<close>. The sources reject every number for which
    \<open>Number.isSafeInteger\<close> is false before they compute with it, so the fractional values,
    infinities and NaN that \<open>int\<close> leaves out never reach the modelled arithmetic.
    Sums and differences of two safe integers are only compared or tested for safety: rounding to
    a double is monotone and is exact up to \<open>2 ^ 53\<close>, so the comparisons agree.
  \<^item> Strings are lists of code units, of which HOL's \<open>char\<close> holds the first 256.
  \<^item> \<open>Array.prototype.sort\<close> is a stable sort by a comparator, \<open>Set\<close> and \<open>Map\<close>
    keep insertion order.
\<close>

named_theorems check_simps \<open>unfolding rules for validators written as checks\<close>
named_theorems json_shapes \<open>the JSON projections of the model's records\<close>

section \<open>Exceptions, results and checks\<close>

datatype js_error = TypeError string | Error string

type_synonym 'a result = "js_error + 'a"
type_synonym check = "js_error option"

definition fail_if :: "bool \<Rightarrow> js_error \<Rightarrow> check" where
  "fail_if b e = (if b then Some e else None)"

fun first_error :: "check list \<Rightarrow> check" where
  "first_error [] = None"
| "first_error (None # cs) = first_error cs"
| "first_error (Some e # cs) = Some e"

definition and_then :: "'a result \<Rightarrow> ('a \<Rightarrow> 'b result) \<Rightarrow> 'b result" where
  "and_then r f = (case r of Inl e \<Rightarrow> Inl e | Inr x \<Rightarrow> f x)"

definition after_check :: "check \<Rightarrow> 'a result \<Rightarrow> 'a result" where
  "after_check c r = (case c of Some e \<Rightarrow> Inl e | None \<Rightarrow> r)"

definition check_option :: "('a \<Rightarrow> check) \<Rightarrow> 'a option \<Rightarrow> check" where
  "check_option f x = (case x of None \<Rightarrow> None | Some y \<Rightarrow> f y)"

lemma fail_if_None [simp]: "fail_if b e = None \<longleftrightarrow> \<not> b"
  by (simp add: fail_if_def)

lemma fail_if_Some [simp]: "fail_if b e = Some e' \<longleftrightarrow> b \<and> e' = e"
  by (auto simp: fail_if_def)

lemma first_error_Cons [simp]:
  "first_error (c # cs) = (case c of None \<Rightarrow> first_error cs | Some e \<Rightarrow> Some e)"
  by (cases c) simp_all

declare first_error.simps(2,3) [simp del]

lemma first_error_append [simp]:
  "first_error (cs @ ds) = (case first_error cs of None \<Rightarrow> first_error ds | Some e \<Rightarrow> Some e)"
  by (induction cs) (auto split: option.splits)

lemma first_error_None_iff: "first_error cs = None \<longleftrightarrow> (\<forall>c\<in>set cs. c = None)"
  by (induction cs) (auto split: option.splits)

lemma first_error_map_None_iff:
  "first_error (map f xs) = None \<longleftrightarrow> (\<forall>x\<in>set xs. f x = None)"
  by (simp add: first_error_None_iff)

lemma option_case_None_iff:
  "(case c of None \<Rightarrow> d | Some e \<Rightarrow> Some e) = None \<longleftrightarrow> c = None \<and> d = None"
  by (cases c) simp_all

lemma check_option_None_iff: "check_option f x = None \<longleftrightarrow> (\<forall>y. x = Some y \<longrightarrow> f y = None)"
  by (cases x) (simp_all add: check_option_def)

lemma check_option_simps [simp]:
  "check_option f None = None" "check_option f (Some y) = f y"
  by (simp_all add: check_option_def)

lemma and_then_simps [simp]:
  "and_then (Inl e) f = Inl e" "and_then (Inr x) f = f x"
  by (simp_all add: and_then_def)

lemma and_then_Inr_iff: "and_then r f = Inr y \<longleftrightarrow> (\<exists>x. r = Inr x \<and> f x = Inr y)"
  by (cases r) simp_all

lemma after_check_simps [simp]:
  "after_check (Some e) r = Inl e" "after_check None r = r"
  by (simp_all add: after_check_def)

lemma after_check_Inr_iff: "after_check c r = Inr y \<longleftrightarrow> c = None \<and> r = Inr y"
  by (cases c) simp_all

lemmas result_iffs = and_then_Inr_iff after_check_Inr_iff option_case_None_iff
  check_option_None_iff first_error_map_None_iff

lemmas [check_simps] = result_iffs

section \<open>Numbers\<close>

definition MAX_SAFE_INTEGER :: int where
  "MAX_SAFE_INTEGER = 9007199254740991"

definition is_safe_integer :: "int \<Rightarrow> bool" where
  "is_safe_integer v \<longleftrightarrow> - MAX_SAFE_INTEGER \<le> v \<and> v \<le> MAX_SAFE_INTEGER"

text \<open>BigInt division truncates toward zero.\<close>

definition bigint_div :: "int \<Rightarrow> int \<Rightarrow> int" where
  "bigint_div a b = sgn a * sgn b * (\<bar>a\<bar> div \<bar>b\<bar>)"

lemma bigint_div_nonneg: "0 \<le> a \<Longrightarrow> 0 < b \<Longrightarrow> bigint_div a b = a div b"
  by (cases "a = 0") (simp_all add: bigint_div_def)

definition digit_char :: "nat \<Rightarrow> char" where
  "digit_char d = ''0123456789'' ! d"

fun nat_digits :: "nat \<Rightarrow> string" where
  "nat_digits n = (if n < 10 then [digit_char n] else nat_digits (n div 10) @ [digit_char (n mod 10)])"

declare nat_digits.simps [simp del]

text \<open>Number to string, as \<open>String(n)\<close>, \<open>JSON.stringify(n)\<close> and \<open>join\<close> print integers.\<close>

definition js_number :: "int \<Rightarrow> string" where
  "js_number i = (if i < 0 then CHR ''-'' # nat_digits (nat (- i)) else nat_digits (nat i))"

section \<open>Strings\<close>

definition code_unit :: "char \<Rightarrow> nat" where
  "code_unit c = of_char c"

lemma code_unit_inject [simp]: "code_unit a = code_unit b \<longleftrightarrow> a = b"
  by (simp add: code_unit_def)

text \<open>White space and line terminators removed by \<open>String.prototype.trim\<close>.\<close>

definition js_whitespace :: "char \<Rightarrow> bool" where
  "js_whitespace c \<longleftrightarrow> code_unit c \<in> {9, 10, 11, 12, 13, 32, 160}"

definition js_trim :: "string \<Rightarrow> string" where
  "js_trim s = rev (dropWhile js_whitespace (rev (dropWhile js_whitespace s)))"

text \<open>The order of \<open><\<close> on strings and of the default \<open>sort()\<close>: code units, shorter first.\<close>

fun compare_units :: "string \<Rightarrow> string \<Rightarrow> int" where
  "compare_units [] [] = 0"
| "compare_units [] (y # ys) = -1"
| "compare_units (x # xs) [] = 1"
| "compare_units (x # xs) (y # ys) =
     (if code_unit x < code_unit y then -1
      else if code_unit y < code_unit x then 1
      else compare_units xs ys)"

fun js_join :: "string \<Rightarrow> string list \<Rightarrow> string" where
  "js_join sep [] = []"
| "js_join sep [x] = x"
| "js_join sep (x # y # ys) = x @ sep @ js_join sep (y # ys)"

definition hex_chars :: string where
  "hex_chars = ''0123456789abcdef''"

definition hex_string :: "string \<Rightarrow> bool" where
  "hex_string s \<longleftrightarrow> list_all (\<lambda>c. c \<in> set hex_chars) s"

definition zero_digest :: string where
  "zero_digest = replicate 64 (CHR ''0'')"

text \<open>The regular expression \<open>^[a-f0-9]{64}$\<close>.\<close>

definition is_sha256 :: "string \<Rightarrow> bool" where
  "is_sha256 s \<longleftrightarrow> length s = 64 \<and> hex_string s"

definition printable_id_char :: "char \<Rightarrow> bool" where
  "printable_id_char c \<longleftrightarrow> 33 \<le> code_unit c \<and> code_unit c \<le> 126 \<and> code_unit c \<noteq> 92"

text \<open>The regular expression \<open>^[\x21-\x5b\x5d-\x7e]{1,160}$\<close>.\<close>

definition is_identifier :: "string \<Rightarrow> bool" where
  "is_identifier s \<longleftrightarrow> 1 \<le> length s \<and> length s \<le> 160 \<and> list_all printable_id_char s"

lemma compare_units_refl [simp]: "compare_units s s = 0"
  by (induction s) simp_all

lemma compare_units_eq_0_iff [simp]: "compare_units s t = 0 \<longleftrightarrow> s = t"
proof (induction s t rule: compare_units.induct)
  case (4 x xs y ys)
  then show ?case using code_unit_inject[of x y] by (auto simp del: code_unit_inject)
qed simp_all

lemma compare_units_antisym: "compare_units t s = - compare_units s t"
  by (induction s t rule: compare_units.induct) auto

lemma compare_units_Cons_le:
  "compare_units (x # xs) (y # ys) \<le> 0 \<longleftrightarrow>
     code_unit x < code_unit y \<or> x = y \<and> compare_units xs ys \<le> 0"
  using code_unit_inject[of x y] by (auto simp del: code_unit_inject)

lemma compare_units_trans:
  "compare_units s t \<le> 0 \<Longrightarrow> compare_units t u \<le> 0 \<Longrightarrow> compare_units s u \<le> 0"
proof (induction s t arbitrary: u rule: compare_units.induct)
  case (2 y ys)
  then show ?case by (cases u) simp_all
next
  case (4 x xs y ys)
  note IH = "4.IH" and prems = "4.prems"
  show ?case
  proof (cases u)
    case (Cons z zs)
    have "code_unit x < code_unit z \<or> x = z \<and> compare_units xs zs \<le> 0"
      using prems IH[of zs] unfolding Cons compare_units_Cons_le by auto
    then show ?thesis unfolding Cons compare_units_Cons_le .
  qed (use prems in simp)
qed simp_all

section \<open>Sorting with a comparator\<close>

text \<open>
  \<open>xs.sort(cmp)\<close>. ECMAScript requires a stable sort; for a consistent comparator the result is
  unique, and insertion from the right computes it.
\<close>

fun js_insert :: "('a \<Rightarrow> 'a \<Rightarrow> int) \<Rightarrow> 'a \<Rightarrow> 'a list \<Rightarrow> 'a list" where
  "js_insert cmp x [] = [x]"
| "js_insert cmp x (y # ys) = (if cmp x y \<le> 0 then x # y # ys else y # js_insert cmp x ys)"

fun js_sort :: "('a \<Rightarrow> 'a \<Rightarrow> int) \<Rightarrow> 'a list \<Rightarrow> 'a list" where
  "js_sort cmp [] = []"
| "js_sort cmp (x # xs) = js_insert cmp x (js_sort cmp xs)"

text \<open>The comparator idiom \<open>first || second\<close>.\<close>

definition or_else :: "int \<Rightarrow> int \<Rightarrow> int" where
  "or_else a b = (if a \<noteq> 0 then a else b)"

lemma mset_js_insert [simp]: "mset (js_insert cmp x ys) = add_mset x (mset ys)"
  by (induction ys) auto

lemma mset_js_sort [simp]: "mset (js_sort cmp xs) = mset xs"
  by (induction xs) auto

lemma set_js_sort [simp]: "set (js_sort cmp xs) = set xs"
  using mset_js_sort by (metis set_mset_mset)

lemma length_js_sort [simp]: "length (js_sort cmp xs) = length xs"
  using mset_js_sort by (metis size_mset)

lemma distinct_js_sort [simp]: "distinct (js_sort cmp xs) \<longleftrightarrow> distinct xs"
  using mset_js_sort by (metis mset_eq_imp_distinct_iff)

lemma js_sort_Nil_iff [simp]: "js_sort cmp xs = [] \<longleftrightarrow> xs = []"
  using length_js_sort by (metis length_0_conv)

text \<open>
  What a caller promises of its comparator on the values it sorts, and what the sort then gives.
\<close>

locale comparator =
  fixes cmp :: "'a \<Rightarrow> 'a \<Rightarrow> int" and A :: "'a set"
  assumes total: "a \<in> A \<Longrightarrow> b \<in> A \<Longrightarrow> cmp a b \<le> 0 \<or> cmp b a \<le> 0"
    and trans: "a \<in> A \<Longrightarrow> b \<in> A \<Longrightarrow> c \<in> A \<Longrightarrow> cmp a b \<le> 0 \<Longrightarrow> cmp b c \<le> 0 \<Longrightarrow> cmp a c \<le> 0"
begin

lemma sorted_insert:
  "x \<in> A \<Longrightarrow> set ys \<subseteq> A \<Longrightarrow> sorted_wrt (\<lambda>a b. cmp a b \<le> 0) ys
   \<Longrightarrow> sorted_wrt (\<lambda>a b. cmp a b \<le> 0) (js_insert cmp x ys)"
proof (induction ys)
  case (Cons y ys)
  have set_ins: "set (js_insert cmp x ys) = insert x (set ys)"
    using mset_js_insert by (metis set_mset_add_mset_insert set_mset_mset)
  show ?case
  proof (cases "cmp x y \<le> 0")
    case True
    with Cons.prems show ?thesis by (auto intro: trans)
  next
    case False
    with Cons total[of x y] show ?thesis by (auto simp: set_ins)
  qed
qed simp

lemma sorted_sort:
  "set xs \<subseteq> A \<Longrightarrow> sorted_wrt (\<lambda>a b. cmp a b \<le> 0) (js_sort cmp xs)"
  by (induction xs) (auto intro!: sorted_insert)

lemma hd_sort_least:
  assumes "set xs \<subseteq> A" and "x \<in> set xs"
  shows "hd (js_sort cmp xs) \<in> set xs \<and> cmp (hd (js_sort cmp xs)) x \<le> 0"
proof -
  obtain y ys where s: "js_sort cmp xs = y # ys"
    using assms(2) by (metis js_sort_Nil_iff list.exhaust list.set_cases empty_iff empty_set)
  with assms have "x \<in> set (y # ys)" "set (y # ys) = set xs"
    using set_js_sort[of cmp xs] by auto
  moreover have "cmp y y \<le> 0" using total assms(1) \<open>set (y # ys) = set xs\<close> by auto
  ultimately show ?thesis using sorted_sort[OF assms(1)] s by auto
qed

end

locale strict_comparator = comparator +
  assumes strict: "a \<in> A \<Longrightarrow> b \<in> A \<Longrightarrow> cmp a b \<le> 0 \<Longrightarrow> cmp b a \<le> 0 \<Longrightarrow> a = b"
begin

lemma sorted_unique:
  "sorted_wrt (\<lambda>a b. cmp a b \<le> 0) xs \<Longrightarrow> sorted_wrt (\<lambda>a b. cmp a b \<le> 0) ys
   \<Longrightarrow> mset xs = mset ys \<Longrightarrow> set xs \<subseteq> A \<Longrightarrow> xs = ys"
proof (induction xs arbitrary: ys)
  case (Cons x xs)
  then obtain y ys' where ys: "ys = y # ys'"
    by (cases ys) auto
  have sets: "set ys = insert x (set xs)"
    using Cons.prems(3) by (metis list.set(2) set_mset_mset)
  have "x = y \<or> (y \<in> set xs \<and> x \<in> set ys')"
    using sets ys Cons.prems(3) by auto
  then have "x = y"
    using Cons.prems ys by (auto intro!: strict)
  with Cons ys show ?case by auto
qed simp

lemma sort_cong:
  "mset xs = mset ys \<Longrightarrow> set xs \<subseteq> A \<Longrightarrow> js_sort cmp xs = js_sort cmp ys"
  by (rule sorted_unique) (auto intro!: sorted_sort dest: mset_eq_setD)

lemma sort_sorted:
  "sorted_wrt (\<lambda>a b. cmp a b \<le> 0) xs \<Longrightarrow> set xs \<subseteq> A \<Longrightarrow> js_sort cmp xs = xs"
  by (rule sorted_unique) (auto intro!: sorted_sort)

end

interpretation units: strict_comparator compare_units UNIV
proof unfold_locales
  show "compare_units a b \<le> 0 \<or> compare_units b a \<le> 0" for a b
    using compare_units_antisym[of a b] by linarith
  show "compare_units a b \<le> 0 \<Longrightarrow> compare_units b a \<le> 0 \<Longrightarrow> a = b" for a b
    using compare_units_antisym[of a b] compare_units_eq_0_iff[of a b] by linarith
qed (rule compare_units_trans)

section \<open>Sets and maps in insertion order\<close>

definition js_set_add :: "'a list \<Rightarrow> 'a \<Rightarrow> 'a list" where
  "js_set_add s x = (if x \<in> set s then s else s @ [x])"

text \<open>\<open>[...new Set(xs)]\<close>: first occurrences, in order.\<close>

definition js_set :: "'a list \<Rightarrow> 'a list" where
  "js_set xs = foldl js_set_add [] xs"

lemma foldl_js_set_add:
  "set (foldl js_set_add s xs) = set s \<union> set xs"
  "distinct s \<Longrightarrow> distinct (foldl js_set_add s xs)"
  by (induction xs arbitrary: s) (auto simp: js_set_add_def)

lemma set_js_set [simp]: "set (js_set xs) = set xs"
  by (simp add: js_set_def foldl_js_set_add)

lemma distinct_js_set [simp]: "distinct (js_set xs)"
  by (simp add: js_set_def foldl_js_set_add)

lemma length_js_set: "length (js_set xs) = card (set xs)"
  by (metis distinct_card distinct_js_set set_js_set)

text \<open>The uniqueness test \<open>new Set(xs).size !== xs.length\<close>.\<close>

lemma length_js_set_eq_iff [simp]: "length (js_set xs) = length xs \<longleftrightarrow> distinct xs"
  by (metis card_distinct distinct_card length_js_set)

lemma foldl_js_set_add_distinct:
  "distinct (s @ xs) \<Longrightarrow> foldl js_set_add s xs = s @ xs"
  by (induction xs arbitrary: s) (auto simp: js_set_add_def)

lemma js_set_distinct [simp]: "distinct xs \<Longrightarrow> js_set xs = xs"
  by (simp add: js_set_def foldl_js_set_add_distinct)

lemma length_js_set_le1_iff: "length (js_set xs) \<le> 1 \<longleftrightarrow> (\<forall>x\<in>set xs. \<forall>y\<in>set xs. x = y)"
  by (auto simp: length_js_set card_le_Suc0_iff_eq)

type_synonym ('k, 'v) js_map = "('k \<times> 'v) list"

definition map_get :: "('k, 'v) js_map \<Rightarrow> 'k \<Rightarrow> 'v option" where
  "map_get m k = map_of m k"

fun map_set :: "'k \<Rightarrow> 'v \<Rightarrow> ('k, 'v) js_map \<Rightarrow> ('k, 'v) js_map" where
  "map_set k v [] = [(k, v)]"
| "map_set k v ((k', v') # m) = (if k' = k then (k, v) # m else (k', v') # map_set k v m)"

definition map_keys :: "('k, 'v) js_map \<Rightarrow> 'k list" where
  "map_keys m = map fst m"

definition map_values :: "('k, 'v) js_map \<Rightarrow> 'v list" where
  "map_values m = map snd m"

text \<open>
  The contract of \<open>Map\<close> that its clients use, and the index built by storing every element of a
  list under its key.
\<close>

locale keyed_store =
  fixes empty :: 'm and get :: "'m \<Rightarrow> 'k \<Rightarrow> 'v option" and put :: "'k \<Rightarrow> 'v \<Rightarrow> 'm \<Rightarrow> 'm"
    and keys :: "'m \<Rightarrow> 'k list" and ok :: "'m \<Rightarrow> bool"
  assumes get_empty: "get empty k = None"
    and get_put: "get (put k v m) k' = (if k' = k then Some v else get m k')"
    and ok_empty: "ok empty"
    and ok_put: "ok m \<Longrightarrow> ok (put k v m)"
    and distinct_keys: "ok m \<Longrightarrow> distinct (keys m)"
    and set_keys: "set (keys m) = {k. get m k \<noteq> None}"
begin

lemma ok_index: "ok m \<Longrightarrow> ok (fold (\<lambda>x. put (key x) (val x)) xs m)"
  by (induction xs arbitrary: m) (auto intro: ok_put)

lemma get_index:
  "get (fold (\<lambda>x. put (key x) (val x)) xs m) k =
     (case filter (\<lambda>x. key x = k) xs of [] \<Rightarrow> get m k | ys \<Rightarrow> Some (val (last ys)))"
  by (induction xs arbitrary: m) (auto simp: get_put split: list.splits)

lemma get_index_inj:
  assumes "inj_on key (set xs)"
  shows "get (fold (\<lambda>x. put (key x) x) xs empty) k = Some x \<longleftrightarrow> x \<in> set xs \<and> key x = k"
proof -
  have all: "y \<in> set (filter (\<lambda>x. key x = k) xs) \<longleftrightarrow> y \<in> set xs \<and> key y = k" for y
    by auto
  show ?thesis
  proof (cases "filter (\<lambda>x. key x = k) xs")
    case Nil
    then show ?thesis using all[of x] by (simp add: get_index get_empty)
  next
    case (Cons y ys)
    then have l: "last (y # ys) \<in> set xs" "key (last (y # ys)) = k"
      using all[of "last (y # ys)"] by (metis last_in_set list.distinct(1))+
    have "get (fold (\<lambda>x. put (key x) x) xs empty) k = Some (last (y # ys))"
      using Cons by (simp only: get_index list.case)
    then show ?thesis
      using l inj_onD[OF assms, of x "last (y # ys)"] by (simp only: option.inject) metis
  qed
qed

lemma keys_index:
  "set (keys (fold (\<lambda>x. put (key x) x) xs empty)) = key ` set xs"
  by (auto simp: set_keys get_index get_empty filter_empty_conv split: list.splits)

end

lemma map_set_keys: "map fst (map_set k v m) = (if k \<in> fst ` set m then map fst m else map fst m @ [k])"
  by (induction k v m rule: map_set.induct) auto

lemma map_of_map_set: "map_of (map_set k v m) k' = (if k' = k then Some v else map_of m k')"
  by (induction k v m rule: map_set.induct) auto

interpretation jsmap: keyed_store "[]" map_get map_set map_keys "\<lambda>m. distinct (map_keys m)"
proof unfold_locales
  show "distinct (map_keys m) \<Longrightarrow> distinct (map_keys (map_set k v m))"
    for m :: "('k, 'v) js_map" and k v
    by (simp add: map_keys_def map_set_keys)
  show "set (map_keys m) = {k. map_get m k \<noteq> None}" for m :: "('k, 'v) js_map"
    by (simp add: map_keys_def map_get_def map_of_eq_None_iff)
qed (simp_all add: map_get_def map_of_map_set map_keys_def)

text \<open>
  The indexing loops of the sources: an element whose key is taken must equal the stored one.
\<close>

fun index_by :: "('a \<Rightarrow> 'k) \<Rightarrow> ('a \<Rightarrow> check) \<Rightarrow> js_error \<Rightarrow> 'a list \<Rightarrow> ('k, 'a) js_map
    \<Rightarrow> ('k, 'a) js_map result" where
  "index_by key chk conflict [] m = Inr m"
| "index_by key chk conflict (x # xs) m =
     after_check (chk x)
       (after_check (fail_if (case map_get m (key x) of None \<Rightarrow> False | Some y \<Rightarrow> y \<noteq> x) conflict)
         (index_by key chk conflict xs (map_set (key x) x m)))"

lemma index_by_Inr_iff:
  "index_by key chk conflict xs m = Inr m' \<longleftrightarrow>
     (\<forall>x\<in>set xs. chk x = None) \<and> inj_on key (set xs) \<and>
     (\<forall>x\<in>set xs. \<forall>y. map_get m (key x) = Some y \<longrightarrow> y = x) \<and>
     m' = fold (\<lambda>x. map_set (key x) x) xs m"
proof (induction xs arbitrary: m)
  case (Cons x xs)
  show ?case
    unfolding index_by.simps after_check_Inr_iff fail_if_None Cons.IH
    by (auto simp: jsmap.get_put inj_on_def split: if_splits option.splits)
qed (auto simp: inj_on_def)

lemma index_by_empty_iff:
  "index_by key chk conflict xs [] = Inr m' \<longleftrightarrow>
     (\<forall>x\<in>set xs. chk x = None) \<and> inj_on key (set xs) \<and> m' = fold (\<lambda>x. map_set (key x) x) xs []"
  by (auto simp: index_by_Inr_iff jsmap.get_empty)

end
