(* ===== verification/Canonical_Json.thy ===== *)
theory Canonical_Json
  imports Js_Prelude
begin

text \<open>
  Canonical JSON and the content digests made from it. \<open>canonicalStringify\<close> is the serializer of
  \<open>validation.ts\<close>; \<open>canonicalSha256\<close> is that of \<open>rd-entry-policy.ts\<close>, with the platform's
  SHA-256 a parameter. The main fact is that serialization is injective up to the order of object
  keys, so two values have the same identifier only if the platform's SHA-256 collides.
\<close>

section \<open>Values and their text\<close>

datatype json =
    JNull
  | JBool bool
  | JNum int
  | JStr string
  | JArr "json list"
  | JObj "(string \<times> json) list"

definition hex_digit :: "nat \<Rightarrow> char" where
  "hex_digit n = hex_chars ! n"

text \<open>\<open>JSON.stringify\<close> of one code unit inside a string.\<close>

definition json_escape :: "char \<Rightarrow> string" where
  "json_escape c =
     (if c = CHR 0x22 then [CHR 0x5C, CHR 0x22]
      else if c = CHR 0x5C then [CHR 0x5C, CHR 0x5C]
      else if c = CHR 0x08 then [CHR 0x5C, CHR ''b'']
      else if c = CHR 0x0C then [CHR 0x5C, CHR ''f'']
      else if c = CHR 0x0A then [CHR 0x5C, CHR ''n'']
      else if c = CHR 0x0D then [CHR 0x5C, CHR ''r'']
      else if c = CHR 0x09 then [CHR 0x5C, CHR ''t'']
      else if code_unit c < 32
        then [CHR 0x5C, CHR ''u'', CHR ''0'', CHR ''0'',
              hex_digit (code_unit c div 16), hex_digit (code_unit c mod 16)]
      else [c])"

definition json_quote :: "string \<Rightarrow> string" where
  "json_quote s = CHR 0x22 # concat (map json_escape s) @ [CHR 0x22]"

definition key_order :: "string \<times> 'a \<Rightarrow> string \<times> 'b \<Rightarrow> int" where
  "key_order p q = compare_units (fst p) (fst q)"

fun canonicalStringify :: "json \<Rightarrow> string" where
  "canonicalStringify JNull = ''null''"
| "canonicalStringify (JBool b) = (if b then ''true'' else ''false'')"
| "canonicalStringify (JNum n) = js_number n"
| "canonicalStringify (JStr s) = json_quote s"
| "canonicalStringify (JArr vs) = ''['' @ js_join '','' (map canonicalStringify vs) @ '']''"
| "canonicalStringify (JObj kvs) =
     ''{'' @ js_join '','' (map (\<lambda>(k, t). json_quote k @ '':'' @ t)
       (js_sort key_order (map (\<lambda>(k, v). (k, canonicalStringify v)) kvs))) @ ''}''"

text \<open>Two object literals that differ only in key order are the same canonical value.\<close>

fun sort_keys :: "json \<Rightarrow> json" where
  "sort_keys (JArr vs) = JArr (map sort_keys vs)"
| "sort_keys (JObj kvs) = JObj (js_sort key_order (map (\<lambda>(k, v). (k, sort_keys v)) kvs))"
| "sort_keys v = v"

section \<open>Digests\<close>

text \<open>
  What the sources take from the platform: SHA-256 of a byte string (\<open>crypto.subtle.digest\<close>)
  and the locale-sensitive string comparison \<open>String.prototype.localeCompare\<close>.
\<close>

record platform =
  sha256 :: "nat list \<Rightarrow> nat list"
  localeCompare :: "string \<Rightarrow> string \<Rightarrow> int"

text \<open>\<open>TextEncoder\<close>: UTF-8, one byte below 128 and two for the code units 128 to 255.\<close>

definition utf8_unit :: "char \<Rightarrow> nat list" where
  "utf8_unit c = (if code_unit c < 128 then [code_unit c]
     else [192 + code_unit c div 64, 128 + code_unit c mod 64])"

definition utf8_encode :: "string \<Rightarrow> nat list" where
  "utf8_encode s = concat (map utf8_unit s)"

definition hex_byte :: "nat \<Rightarrow> string" where
  "hex_byte b = [hex_digit (b div 16), hex_digit (b mod 16)]"

definition sha256Hex :: "platform \<Rightarrow> string \<Rightarrow> string" where
  "sha256Hex P s = concat (map hex_byte (sha256 P (utf8_encode s)))"

definition canonicalSha256 :: "platform \<Rightarrow> json \<Rightarrow> string" where
  "canonicalSha256 P v = sha256Hex P (canonicalStringify v)"

text \<open>
  What is documented of the two: SHA-256 yields 32 bytes, and the collation orders lowercase
  hexadecimal strings by their characters, digits before letters.
\<close>

definition sha256_width :: "platform \<Rightarrow> bool" where
  "sha256_width P \<longleftrightarrow> (\<forall>bs. length (sha256 P bs) = 32 \<and> (\<forall>b\<in>set (sha256 P bs). b < 256))"

definition collates_hex :: "platform \<Rightarrow> bool" where
  "collates_hex P \<longleftrightarrow> (\<forall>s t. hex_string s \<longrightarrow> hex_string t \<longrightarrow>
     sgn (localeCompare P s t) = sgn (compare_units s t))"

section \<open>Serialization is injective\<close>

lemma code_unit_less_256: "code_unit c < 256"
  by (simp add: code_unit_def)

lemma char_of_code_unit [simp]: "char_of (code_unit c) = c"
  by (simp add: code_unit_def)

definition hex_value :: "char \<Rightarrow> nat" where
  "hex_value c = (if code_unit c < 58 then code_unit c - 48 else code_unit c - 87)"

lemma all_less_16: "(\<forall>n<16. P n) \<longleftrightarrow> list_all P [0..<16]" for P :: "nat \<Rightarrow> bool"
  by (auto simp: list_all_iff)

lemma hex_value_hex_digit [simp]: "n < 16 \<Longrightarrow> hex_value (hex_digit n) = n"
proof -
  have "\<forall>n<16. hex_value (hex_digit n) = n"
    unfolding all_less_16 by code_simp
  then show "n < 16 \<Longrightarrow> hex_value (hex_digit n) = n" by blast
qed

lemma hex_digit_in: "n < 16 \<Longrightarrow> hex_digit n \<in> set hex_chars"
  unfolding hex_digit_def by (rule nth_mem) (simp add: hex_chars_def)

lemma hex_digit_inject: "m < 16 \<Longrightarrow> n < 16 \<Longrightarrow> hex_digit m = hex_digit n \<longleftrightarrow> m = n"
  by (metis hex_value_hex_digit)

text \<open>Reading one escaped code unit back.\<close>

definition json_unescape :: "string \<Rightarrow> char \<times> string" where
  "json_unescape s =
     (if hd s \<noteq> CHR 0x5C then (hd s, tl s)
      else case s ! 1 of
          CHR ''b'' \<Rightarrow> (CHR 0x08, drop 2 s)
        | CHR ''f'' \<Rightarrow> (CHR 0x0C, drop 2 s)
        | CHR ''n'' \<Rightarrow> (CHR 0x0A, drop 2 s)
        | CHR ''r'' \<Rightarrow> (CHR 0x0D, drop 2 s)
        | CHR ''t'' \<Rightarrow> (CHR 0x09, drop 2 s)
        | CHR ''u'' \<Rightarrow> (char_of (16 * hex_value (s ! 4) + hex_value (s ! 5)), drop 6 s)
        | c \<Rightarrow> (c, drop 2 s))"

lemma json_unescape_escape [simp]: "json_unescape (json_escape c @ r) = (c, r)"
proof (cases "code_unit c < 32")
  case True
  then have "code_unit c div 16 < 16" by simp
  then show ?thesis
    by (simp add: json_escape_def json_unescape_def drop_Suc numeral_eq_Suc div_mult_mod_eq
        mult.commute flip: numeral_eq_Suc)
qed (simp add: json_escape_def json_unescape_def)

lemma json_escape_inject: "json_escape c @ r = json_escape d @ s \<longleftrightarrow> c = d \<and> r = s"
  by (metis json_unescape_escape prod.inject)

lemma json_escape_hd: "json_escape c \<noteq> []" "hd (json_escape c) \<noteq> CHR 0x22"
  by (simp_all add: json_escape_def)

lemma json_escape_Cons: "\<exists>a as. json_escape c = a # as \<and> a \<noteq> CHR 0x22"
  using json_escape_hd[of c] by (cases "json_escape c") auto

lemma json_quote_inject: "json_quote s @ r = json_quote t @ r' \<longleftrightarrow> s = t \<and> r = r'"
proof -
  let ?body = "\<lambda>s r. concat (map json_escape s) @ CHR 0x22 # r"
  have "?body s r = ?body t r' \<Longrightarrow> s = t \<and> r = r'"
  proof (induction s arbitrary: t)
    case Nil
    show ?case
    proof (cases t)
      case (Cons d t')
      with Nil json_escape_Cons[of d] show ?thesis by auto
    qed (use Nil in simp)
  next
    case (Cons c s)
    show ?case
    proof (cases t)
      case Nil
      with Cons.prems json_escape_Cons[of c] show ?thesis by auto
    next
      case (Cons d t')
      with Cons.prems have "json_escape c @ ?body s r = json_escape d @ ?body t' r'" by simp
      then have "c = d" "?body s r = ?body t' r'" by (simp_all only: json_escape_inject)
      with Cons.IH[of t'] Cons show ?thesis by simp
    qed
  qed
  then show ?thesis by (auto simp: json_quote_def)
qed

subsection \<open>Numbers\<close>

definition is_digit :: "char \<Rightarrow> bool" where
  "is_digit c \<longleftrightarrow> 48 \<le> code_unit c \<and> code_unit c \<le> 57"

definition digits_value :: "string \<Rightarrow> nat" where
  "digits_value = foldl (\<lambda>a c. 10 * a + (code_unit c - 48)) 0"

lemma digit_char_code: "d < 10 \<Longrightarrow> code_unit (digit_char d) = 48 + d"
proof -
  have "list_all (\<lambda>d. code_unit (digit_char d) = 48 + d) [0..<10]" by code_simp
  then show "d < 10 \<Longrightarrow> code_unit (digit_char d) = 48 + d" by (simp add: list_all_iff)
qed

lemma is_digit_digit_char [simp]: "d < 10 \<Longrightarrow> is_digit (digit_char d)"
  by (simp add: is_digit_def digit_char_code)

lemma digits_value_snoc: "digits_value (s @ [c]) = 10 * digits_value s + (code_unit c - 48)"
  by (simp add: digits_value_def)

lemma nat_digits_props:
  "nat_digits n \<noteq> [] \<and> list_all is_digit (nat_digits n) \<and> digits_value (nat_digits n) = n"
proof (induction n rule: nat_digits.induct)
  case (1 n)
  show ?case
  proof (cases "n < 10")
    case True
    then show ?thesis
      by (simp add: nat_digits.simps[of n] digits_value_def digit_char_code)
  next
    case False
    with 1 show ?thesis
      by (simp add: nat_digits.simps[of n] digits_value_snoc digit_char_code)
  qed
qed

lemma nat_digits_inject: "nat_digits m = nat_digits n \<longleftrightarrow> m = n"
  by (metis nat_digits_props)

text \<open>What can follow a value inside a text: nothing, a separator or a closing bracket.\<close>

definition ends_value :: "string \<Rightarrow> bool" where
  "ends_value r \<longleftrightarrow> r = [] \<or> hd r \<in> {CHR '','', CHR '']'', CHR ''}''}"

lemma takeWhile_digits: "ends_value r \<Longrightarrow> takeWhile is_digit (nat_digits n @ r) = nat_digits n"
proof -
  assume r: "ends_value r"
  have "takeWhile is_digit r = []"
    using r by (cases r) (auto simp: ends_value_def is_digit_def code_unit_def)
  moreover have "\<forall>c\<in>set (nat_digits n). is_digit c"
    using nat_digits_props[of n] by (simp add: list_all_iff)
  ultimately show ?thesis by simp
qed

lemma nat_digits_delimited:
  "nat_digits m @ r = nat_digits n @ s \<Longrightarrow> ends_value r \<Longrightarrow> ends_value s \<Longrightarrow> m = n \<and> r = s"
  by (metis append_same_eq nat_digits_inject same_append_eq takeWhile_digits)

lemma nat_digits_hd: "\<exists>c cs. nat_digits n = c # cs \<and> is_digit c"
  using nat_digits_props[of n] by (cases "nat_digits n") auto

lemma not_digit_minus: "\<not> is_digit CHR ''-''"
  by (simp add: is_digit_def code_unit_def)

lemma js_number_delimited:
  assumes "js_number m @ r = js_number n @ s" "ends_value r" "ends_value s"
  shows "m = n \<and> r = s"
proof -
  have sign: "m < 0 \<longleftrightarrow> n < 0"
    using assms(1) nat_digits_hd[of "nat m"] nat_digits_hd[of "nat n"] not_digit_minus
    by (auto simp: js_number_def split: if_splits)
  show ?thesis
  proof (cases "m < 0")
    case True
    with assms sign show ?thesis
      using nat_digits_delimited[of "nat (- m)" r "nat (- n)" s] by (auto simp: js_number_def)
  next
    case False
    with assms sign show ?thesis
      using nat_digits_delimited[of "nat m" r "nat n" s] by (auto simp: js_number_def)
  qed
qed

lemma js_number_inject: "js_number m = js_number n \<longleftrightarrow> m = n"
  using js_number_delimited[of m "[]" n "[]"] by (auto simp: ends_value_def)

subsection \<open>Whole values\<close>

text \<open>The text of a value whose keys are already in order.\<close>

fun json_text :: "json \<Rightarrow> string" where
  "json_text JNull = ''null''"
| "json_text (JBool b) = (if b then ''true'' else ''false'')"
| "json_text (JNum n) = js_number n"
| "json_text (JStr s) = json_quote s"
| "json_text (JArr vs) = ''['' @ js_join '','' (map json_text vs) @ '']''"
| "json_text (JObj kvs) =
     ''{'' @ js_join '','' (map (\<lambda>(k, v). json_quote k @ '':'' @ json_text v) kvs) @ ''}''"

lemma js_insert_map_values:
  "js_insert key_order (k, f v) (map (\<lambda>(k, v). (k, f v)) kvs)
     = map (\<lambda>(k, v). (k, f v)) (js_insert key_order (k, v) kvs)"
  by (induction kvs) (auto simp: key_order_def)

lemma js_sort_map_values:
  "js_sort key_order (map (\<lambda>(k, v). (k, f v)) kvs) = map (\<lambda>(k, v). (k, f v)) (js_sort key_order kvs)"
  by (induction kvs) (auto simp: js_insert_map_values)

lemma canonicalStringify_json_text: "canonicalStringify v = json_text (sort_keys v)"
proof (induction v)
  case (JArr vs)
  then show ?case by (simp cong: map_cong)
next
  case (JObj kvs)
  then have eq: "map (\<lambda>(k, v). (k, canonicalStringify v)) kvs
      = map (\<lambda>(k, v). (k, json_text (sort_keys v))) kvs"
    by (auto intro!: map_cong)
  show ?case
    unfolding canonicalStringify.simps sort_keys.simps json_text.simps eq js_sort_map_values
    by (simp add: case_prod_unfold comp_def)
qed simp_all

text \<open>The first character of a text tells its constructor.\<close>

definition number_start :: "char \<Rightarrow> bool" where
  "number_start c \<longleftrightarrow> c = CHR ''-'' \<or> is_digit c"

fun starts_as :: "json \<Rightarrow> char \<Rightarrow> bool" where
  "starts_as JNull c \<longleftrightarrow> c = CHR ''n''"
| "starts_as (JBool b) c \<longleftrightarrow> c = (if b then CHR ''t'' else CHR ''f'')"
| "starts_as (JNum n) c \<longleftrightarrow> number_start c"
| "starts_as (JStr s) c \<longleftrightarrow> c = CHR 0x22"
| "starts_as (JArr vs) c \<longleftrightarrow> c = CHR ''[''"
| "starts_as (JObj kvs) c \<longleftrightarrow> c = CHR ''{''"

lemma number_start_codes:
  "\<not> number_start CHR ''n''" "\<not> number_start CHR ''t''" "\<not> number_start CHR ''f''"
  "\<not> number_start CHR 0x22" "\<not> number_start CHR ''[''" "\<not> number_start CHR ''{''"
  "\<not> number_start CHR '']''" "\<not> number_start CHR ''}''" "\<not> number_start CHR '',''"
  by (simp_all add: number_start_def is_digit_def code_unit_def)

lemma json_text_starts: "\<exists>c cs. json_text v = c # cs \<and> starts_as v c"
proof (cases v)
  case (JNum n)
  then show ?thesis
    using nat_digits_hd[of "nat n"] by (auto simp: js_number_def number_start_def)
qed (auto simp: json_quote_def)

lemma starts_as_not_closing: "starts_as v c \<Longrightarrow> c \<noteq> CHR '']'' \<and> c \<noteq> CHR ''}''"
  by (cases v) (auto simp: number_start_codes)

lemma js_join_items:
  assumes "\<And>x. x \<in> set xs \<Longrightarrow> \<exists>c cs. f x = c # cs \<and> c \<noteq> z"
    and "\<And>y. y \<in> set ys \<Longrightarrow> \<exists>c cs. f y = c # cs \<and> c \<noteq> z"
    and "\<And>x y r s. x \<in> set xs \<Longrightarrow> ends_value r \<Longrightarrow> ends_value s \<Longrightarrow> f x @ r = f y @ s \<Longrightarrow> x = y \<and> r = s"
    and "z \<in> {CHR '']'', CHR ''}''}"
  shows "js_join '','' (map f xs) @ z # r = js_join '','' (map f ys) @ z # s \<Longrightarrow> xs = ys \<and> r = s"
  using assms(1-3)
proof (induction xs arbitrary: ys)
  case Nil
  then show ?case by (cases "('','', map f ys)" rule: js_join.cases) fastforce+
next
  case (Cons x xs)
  let ?rest = "\<lambda>xs r. (if xs = [] then z # r else CHR '','' # js_join '','' (map f xs) @ z # r)"
  have split: "js_join '','' (map f (x # xs)) @ z # r = f x @ ?rest xs r" for x xs r
    by (cases xs) simp_all
  have ends: "ends_value (?rest xs r)" for xs r
    using assms(4) by (auto simp: ends_value_def)
  obtain y ys' where ys: "ys = y # ys'"
    using Cons.prems(1) Cons.prems(2)[of x] by (cases ys) (auto simp: split simp del: list.map(2))
  have "x = y \<and> ?rest xs r = ?rest ys' s"
    using Cons.prems(1) ends by (intro Cons.prems(4)) (auto simp: ys split simp del: list.map)
  then have "x = y" and rest: "?rest xs r = ?rest ys' s" by simp_all
  from rest have "xs = [] \<longleftrightarrow> ys' = []"
    using assms(4) by (auto split: if_splits)
  with rest have "js_join '','' (map f xs) @ z # r = js_join '','' (map f ys') @ z # s"
    by (auto split: if_splits)
  then have "xs = ys' \<and> r = s"
  proof (rule Cons.IH)
    show "\<exists>c cs. f x = c # cs \<and> c \<noteq> z" if "x \<in> set xs" for x
      using that by (intro Cons.prems(2)) simp
    show "\<exists>c cs. f y = c # cs \<and> c \<noteq> z" if "y \<in> set ys'" for y
      using that by (intro Cons.prems(3)) (simp add: ys)
  qed (rule Cons.prems(4), simp_all)
  with \<open>x = y\<close> ys show ?case by simp
qed

lemma json_text_same_start:
  "json_text v @ r = json_text w @ s \<Longrightarrow> \<exists>c. starts_as v c \<and> starts_as w c"
  using json_text_starts[of v] json_text_starts[of w] by auto

lemma json_text_delimited:
  "json_text v @ r = json_text w @ s \<Longrightarrow> ends_value r \<Longrightarrow> ends_value s \<Longrightarrow> v = w \<and> r = s"
proof (induction v arbitrary: w r s)
  case JNull
  with json_text_same_start[OF JNull.prems(1)] show ?case
    by (cases w) (auto simp: number_start_codes split: if_splits)
next
  case (JBool b)
  with json_text_same_start[OF JBool.prems(1)] show ?case
    by (cases w) (auto simp: number_start_codes split: if_splits)
next
  case (JNum n)
  with json_text_same_start[OF JNum.prems(1)] show ?case
    by (cases w) (auto simp: number_start_codes split: if_splits dest: js_number_delimited)
next
  case (JStr t)
  with json_text_same_start[OF JStr.prems(1)] show ?case
    by (cases w) (auto simp: number_start_codes json_quote_inject split: if_splits)
next
  case (JArr vs)
  from json_text_same_start[OF JArr.prems(1)] obtain ws where w: "w = JArr ws"
    by (cases w) (auto simp: number_start_codes split: if_splits)
  have starts: "\<exists>c cs. json_text v = c # cs \<and> c \<noteq> CHR '']''" for v
    using json_text_starts[of v] starts_as_not_closing by blast
  have "js_join '','' (map json_text vs) @ CHR '']'' # r
      = js_join '','' (map json_text ws) @ CHR '']'' # s"
    using JArr.prems(1) w by simp
  then have "vs = ws \<and> r = s"
    by (rule js_join_items[OF starts starts, rotated -1]) (simp_all add: JArr.IH)
  with w show ?case by simp
next
  case (JObj kvs)
  from json_text_same_start[OF JObj.prems(1)] obtain ws where w: "w = JObj ws"
    by (cases w) (auto simp: number_start_codes split: if_splits)
  let ?item = "\<lambda>(k, v). json_quote k @ '':'' @ json_text v"
  have starts: "\<exists>c cs. ?item x = c # cs \<and> c \<noteq> CHR ''}''" for x
    by (cases x) (simp add: json_quote_def)
  have inj: "x = y \<and> r = s"
    if "x \<in> set kvs" "ends_value r" "ends_value s" "?item x @ r = ?item y @ s" for x y r s
  proof -
    obtain k v l w where xy: "x = (k, v)" "y = (l, w)" by (metis surj_pair)
    with that(4) have "json_quote k @ '':'' @ json_text v @ r = json_quote l @ '':'' @ json_text w @ s"
      by simp
    then have "k = l" "json_text v @ r = json_text w @ s"
      by (simp_all only: json_quote_inject same_append_eq)
    then show ?thesis
      using JObj.IH[OF that(1), of v r w s] that(2,3) xy by (simp add: snds.simps)
  qed
  have "js_join '','' (map ?item kvs) @ CHR ''}'' # r = js_join '','' (map ?item ws) @ CHR ''}'' # s"
    using JObj.prems(1) w by simp
  then have "kvs = ws \<and> r = s"
    by (rule js_join_items[OF starts starts inj, rotated -1]) simp_all
  with w show ?case by simp
qed

lemma canonicalStringify_inject:
  "canonicalStringify v = canonicalStringify w \<longleftrightarrow> sort_keys v = sort_keys w"
  using json_text_delimited[of "sort_keys v" "[]" "sort_keys w" "[]"]
  by (auto simp: canonicalStringify_json_text ends_value_def)

subsection \<open>Digests of distinct values\<close>

lemma utf8_unit_inject: "utf8_unit c @ r = utf8_unit d @ s \<longleftrightarrow> c = d \<and> r = s"
proof -
  have "code_unit c = code_unit d \<and> r = s" if eq: "utf8_unit c @ r = utf8_unit d @ s"
  proof (cases "code_unit c < 128"; cases "code_unit d < 128")
    assume "\<not> code_unit c < 128" "\<not> code_unit d < 128"
    with eq have "code_unit c div 64 = code_unit d div 64" "code_unit c mod 64 = code_unit d mod 64"
      and "r = s"
      by (simp_all add: utf8_unit_def)
    then show ?thesis by (metis div_mult_mod_eq)
  qed (use eq in \<open>simp_all add: utf8_unit_def\<close>)
  then show ?thesis by auto
qed

lemma utf8_unit_not_Nil [simp]: "utf8_unit c \<noteq> []"
  by (simp add: utf8_unit_def)

lemma utf8_encode_inject: "utf8_encode s = utf8_encode t \<longleftrightarrow> s = t"
proof (induction s arbitrary: t)
  case Nil
  then show ?case by (cases t) (auto simp: utf8_encode_def)
next
  case (Cons c s)
  then show ?case by (cases t) (auto simp: utf8_encode_def utf8_unit_inject)
qed

lemma hex_byte_inject: "a < 256 \<Longrightarrow> b < 256 \<Longrightarrow> hex_byte a = hex_byte b \<longleftrightarrow> a = b"
proof -
  assume "a < 256" "b < 256"
  then have "hex_byte a = hex_byte b \<longleftrightarrow> a div 16 = b div 16 \<and> a mod 16 = b mod 16"
    by (simp add: hex_byte_def hex_digit_inject less_mult_imp_div_less)
  also have "\<dots> \<longleftrightarrow> a = b" by (metis div_mult_mod_eq)
  finally show ?thesis .
qed

lemma hex_bytes_inject:
  "\<forall>a\<in>set xs. a < 256 \<Longrightarrow> \<forall>b\<in>set ys. b < 256 \<Longrightarrow>
   concat (map hex_byte xs) = concat (map hex_byte ys) \<longleftrightarrow> xs = ys"
proof (induction xs arbitrary: ys)
  case Nil
  then show ?case by (cases ys) (auto simp: hex_byte_def)
next
  case (Cons x xs)
  then show ?case
  proof (cases ys)
    case (Cons y ys')
    have "concat (map hex_byte (x # xs)) = concat (map hex_byte (y # ys')) \<longleftrightarrow>
        hex_byte x = hex_byte y \<and> concat (map hex_byte xs) = concat (map hex_byte ys')"
      by (simp add: hex_byte_def)
    with Cons Cons.prems Cons.IH[of ys'] show ?thesis by (simp add: hex_byte_inject)
  qed (simp add: hex_byte_def)
qed

lemma canonicalSha256_collision:
  assumes "sha256_width P" and "canonicalSha256 P v = canonicalSha256 P w"
  shows "sort_keys v = sort_keys w \<or>
    (utf8_encode (canonicalStringify v) \<noteq> utf8_encode (canonicalStringify w) \<and>
     sha256 P (utf8_encode (canonicalStringify v)) = sha256 P (utf8_encode (canonicalStringify w)))"
  using assms hex_bytes_inject[of "sha256 P (utf8_encode (canonicalStringify v))"
      "sha256 P (utf8_encode (canonicalStringify w))"]
  by (auto simp: canonicalSha256_def sha256Hex_def sha256_width_def utf8_encode_inject
      canonicalStringify_inject)

lemma hex_byte_hex_string: "b < 256 \<Longrightarrow> hex_string (hex_byte b) \<and> length (hex_byte b) = 2"
  by (simp add: hex_string_def hex_byte_def hex_digit_in less_mult_imp_div_less)

lemma is_sha256_sha256Hex: "sha256_width P \<Longrightarrow> is_sha256 (sha256Hex P s)"
proof -
  assume P: "sha256_width P"
  let ?bs = "sha256 P (utf8_encode s)"
  have bytes: "length ?bs = 32" "\<forall>b\<in>set ?bs. b < 256"
    using P by (simp_all add: sha256_width_def)
  have "length (concat (map hex_byte bs)) = 2 * length bs" for bs
    by (induction bs) (simp_all add: hex_byte_def)
  moreover have "\<forall>b\<in>set bs. b < 256 \<Longrightarrow> hex_string (concat (map hex_byte bs))" for bs
    using hex_byte_hex_string by (induction bs) (auto simp: hex_string_def list_all_iff)
  ultimately show ?thesis
    using bytes by (simp add: is_sha256_def sha256Hex_def)
qed

lemma is_sha256_canonicalSha256: "sha256_width P \<Longrightarrow> is_sha256 (canonicalSha256 P v)"
  by (simp add: canonicalSha256_def is_sha256_sha256Hex)

subsection \<open>Collation of digests\<close>

lemma collates_hexD:
  "collates_hex P \<Longrightarrow> hex_string s \<Longrightarrow> hex_string t \<Longrightarrow>
   (localeCompare P s t \<le> 0 \<longleftrightarrow> compare_units s t \<le> 0) \<and>
   (localeCompare P s t = 0 \<longleftrightarrow> s = t)"
  unfolding collates_hex_def
  by (metis compare_units_eq_0_iff linorder_not_less sgn_0_0 sgn_1_pos sgn_greater)

lemma locale_strict_comparator:
  assumes "collates_hex P" and "\<And>x. x \<in> A \<Longrightarrow> hex_string (key x)" and "inj_on key A"
  shows "strict_comparator (\<lambda>x y. localeCompare P (key x) (key y)) A"
proof unfold_locales
  show "localeCompare P (key a) (key b) \<le> 0 \<or> localeCompare P (key b) (key a) \<le> 0"
    if "a \<in> A" "b \<in> A" for a b
    using that units.total[of "key a" "key b"] assms(2) collates_hexD[OF assms(1)] by auto
  show "localeCompare P (key a) (key c) \<le> 0"
    if "a \<in> A" "b \<in> A" "c \<in> A" "localeCompare P (key a) (key b) \<le> 0"
      "localeCompare P (key b) (key c) \<le> 0" for a b c
    using that compare_units_trans[of "key a" "key b" "key c"] assms(2)
      collates_hexD[OF assms(1)] by auto
  show "a = b" if "a \<in> A" "b \<in> A" "localeCompare P (key a) (key b) \<le> 0"
      "localeCompare P (key b) (key a) \<le> 0" for a b
    using that units.strict[of "key a" "key b"] assms(2) collates_hexD[OF assms(1)]
      inj_onD[OF assms(3), of a b] by auto
qed

subsection \<open>The hypotheses on the platform can hold\<close>

text \<open>
  A platform for concrete runs: a 16-bit checksum padded to 32 bytes in the place of SHA-256, and
  the order of code units for the collation.
\<close>

fun checksum :: "nat \<Rightarrow> nat list \<Rightarrow> nat" where
  "checksum h [] = h"
| "checksum h (b # bs) = checksum ((31 * h + b) mod 65536) bs"

definition sample_platform :: platform where
  "sample_platform = \<lparr>sha256 = (\<lambda>bs. let h = checksum 7 bs in h div 256 # h mod 256 # replicate 30 1),
     localeCompare = compare_units\<rparr>"

lemma checksum_bound: "h < 65536 \<Longrightarrow> checksum h bs < 65536"
  by (induction h bs rule: checksum.induct) simp_all

lemma sample_platform_width: "sha256_width sample_platform"
  using checksum_bound[of 7] by (auto simp: sha256_width_def sample_platform_def Let_def less_mult_imp_div_less)

lemma sample_platform_collates: "collates_hex sample_platform"
  by (simp add: collates_hex_def sample_platform_def)

end
