(* ===== verification/Rd_Domain.thy ===== *)
theory Rd_Domain
  imports Canonical_Json
begin

text \<open>
  The contract-v3 entry domain of \<open>rd-entry-domain-v3.ts\<close>: candles, proofs, setup facts,
  candidates, evidence, selections and evaluations; their content-derived identifiers; and the
  validators that guard the input of an evaluation and its result.

  A string-literal union of the source is a datatype, \<open>T | null\<close> is \<open>'a option\<close>, a readonly
  interface is a record. The validators' run-time type tests (enum membership, \<open>typeof\<close>, exact
  key sets) hold of every value of these types and are left out; every test on numbers, strings,
  chronology, uniqueness, order and cross-reference is kept, with its error message.
\<close>

section \<open>Data\<close>

datatype entry_model = BOC | DIR_CLOSE | HTF_FLIP
datatype boc_tier = HTF_TIMED | DISCRETIONARY_5M
datatype replayability = REPLAYABLE | LIVE_EXACT_NON_REPLAYABLE
datatype direction = LONG | SHORT
datatype candidate_state = MATCHED | BLOCKED | REJECTED
datatype fidelity = EXACT | CALIBRATED | DISCRETIONARY | UNRESOLVED
datatype liquidity_cohort = ONE_CANDLE | TWO_PLUS_CANDLES
datatype proof_plane = CONFIRMED_5M | LOWER_TIMEFRAME_REPLAY | REALTIME_TICK | EXTERNAL_ARCHIVED_TICK
datatype ambiguity_code = SHADOW_SAME_CHILD_BAR_ORDER | SHADOW_MISSING_INTRABAR_COVERAGE
  | SHADOW_REALTIME_ONLY_NOT_REPLAYABLE
datatype selection_action = OBSERVE | PAPER_ELIGIBLE | SHADOW_ONLY | NO_ACTION
datatype selection_reason = ONLY_EXACT_TRIGGER | EARLIEST_EXACT_TRIGGER
  | FALLBACK_TO_CONFIRMED_CLOSE | CO_TRIGGER_SAME_EVENT | CO_TRIGGER_PRICE_CONFLICT
  | NO_EXACT_CANDIDATE | SETUP_INVALIDATED | NO_CANDIDATE

record ordered_candle =
  open_epoch :: int
  close_epoch :: int
  open_ticks :: int
  high_ticks :: int
  low_ticks :: int
  close_ticks :: int

record boc_proof =
  bp_reference_candle :: ordered_candle
  bp_trigger_candle_open_epoch :: int
  bp_trigger_epoch :: int
  bp_trigger_sequence :: int
  bp_trigger_ticks :: int
  bp_htf_boundary_epoch :: "int option"
  bp_htf_context_minutes :: "int list"
  bp_proof_plane :: proof_plane
  bp_replayability :: replayability
  bp_fidelity :: fidelity
  bp_coverage_start_epoch :: int
  bp_coverage_end_epoch :: int
  bp_is_realtime :: bool

record flip_proof =
  fp_event_anchor_epoch :: int
  fp_trigger_epoch :: int
  fp_trigger_sequence :: int
  fp_trigger_ticks :: int
  fp_htf_open_ticks :: int
  fp_htf_context_minutes :: "int list"
  fp_proof_plane :: proof_plane
  fp_replayability :: replayability
  fp_fidelity :: fidelity
  fp_coverage_start_epoch :: int
  fp_coverage_end_epoch :: int
  fp_is_realtime :: bool
  fp_contact_candle :: "ordered_candle option"
  fp_recross_candle :: "ordered_candle option"
  fp_coverage_gap_detected :: bool
  fp_full_lifecycle_ordered :: bool
  fp_destination_seen_before_contact :: bool
  fp_ambiguity_codes :: "ambiguity_code list"

record setup_facts =
  su_setup_id :: string
  su_direction :: direction
  su_zone_top_ticks :: int
  su_zone_bottom_ticks :: int
  su_zone_engaged_epoch :: "int option"
  su_invalidated_before_entry :: bool
  su_common_fidelity :: fidelity
  su_liquidity_cohort :: liquidity_cohort
  su_one_candle_enabled :: bool

record match_request =
  rq_setup :: setup_facts
  rq_boc_proof :: "boc_proof option"
  rq_directional_close :: bool
  rq_confirmed_bar :: "ordered_candle option"
  rq_close_trigger_sequence :: int
  rq_htf_flip_proof :: "flip_proof option"
  rq_observed_at_epoch :: int

record candidate =
  cd_candidate_id :: string
  cd_setup_id :: string
  cd_model :: entry_model
  cd_state :: candidate_state
  cd_direction :: direction
  cd_event_anchor_epoch :: int
  cd_trigger_ordinal :: int
  cd_boc_tier :: "boc_tier option"
  cd_reference_candle_open_epoch :: "int option"
  cd_source_claim_ids :: "string list"
  cd_observed_at_epoch :: int

record evidence =
  ev_evidence_id :: string
  ev_candidate_id :: string
  ev_observed_trigger_epoch :: "int option"
  ev_trigger_sequence :: int
  ev_observed_trigger_ticks :: "int option"
  ev_htf_context_minutes :: "int list"
  ev_fidelity :: fidelity
  ev_proof_plane :: proof_plane
  ev_replayability :: replayability
  ev_coverage_start_epoch :: int
  ev_coverage_end_epoch :: int
  ev_ambiguity_codes :: "ambiguity_code list"
  ev_boc_tier :: "boc_tier option"
  ev_reference_candle_open_epoch :: "int option"
  ev_reference_candle_open_ticks :: "int option"
  ev_reference_candle_high_ticks :: "int option"
  ev_reference_candle_low_ticks :: "int option"
  ev_reference_candle_close_ticks :: "int option"
  ev_htf_open_ticks :: "int option"
  ev_contact_candle :: "ordered_candle option"
  ev_recross_candle :: "ordered_candle option"
  ev_coverage_gap_detected :: "bool option"
  ev_full_lifecycle_ordered :: "bool option"
  ev_destination_seen_before_contact :: "bool option"
  ev_passed_rule_ids :: "string list"
  ev_failed_rule_ids :: "string list"
  ev_source_claim_ids :: "string list"
  ev_payload_sha256 :: string
  ev_observed_at_epoch :: int

record selection =
  sl_selection_id :: string
  sl_setup_id :: string
  sl_policy_version :: string
  sl_revision :: int
  sl_candidate_ids_considered :: "string list"
  sl_canonical_candidate_id :: "string option"
  sl_canonical_evidence_id :: "string option"
  sl_canonical_model :: "entry_model option"
  sl_reason :: selection_reason
  sl_fidelity :: "fidelity option"
  sl_action :: selection_action
  sl_co_triggered_models :: "entry_model list"
  sl_evaluated_at_epoch :: int

record evaluation =
  el_candidates :: "candidate list"
  el_evidence :: "evidence list"
  el_selection :: selection

record opened_seed =
  os_confirmed_bar :: ordered_candle
  os_trigger_sequence :: int
  os_revision :: int
  os_evaluated_at_epoch :: int

text \<open>
  \<open>liquidity_cohort\<close> and \<open>one_candle_enabled\<close> are optional in the source and accepted only
  together, so the pair is one optional field.
\<close>

record arbitration_input =
  ai_setup_id :: string
  ai_direction :: direction
  ai_zone_top_ticks :: int
  ai_zone_bottom_ticks :: int
  ai_zone_engaged_epoch :: "int option"
  ai_common_fidelity :: fidelity
  ai_cohort :: "(liquidity_cohort \<times> bool) option"
  ai_setup_invalidated :: bool
  ai_boc_proof :: "boc_proof option"
  ai_directional_close :: bool
  ai_confirmed_bar :: "ordered_candle option"
  ai_close_trigger_sequence :: int
  ai_htf_flip_proof :: "flip_proof option"
  ai_observed_at_epoch :: int
  ai_policy_version :: string
  ai_revision :: int
  ai_evaluated_at_epoch :: int
  ai_opened_selection_seed :: "opened_seed option"

definition POLICY_VERSION_V3 :: string where
  "POLICY_VERSION_V3 = ''rd-entry-arbitration-v3''"

definition SOURCE_CLAIMS_BOC_HTF_TIMED :: "string list" where
  "SOURCE_CLAIMS_BOC_HTF_TIMED =
     [''discretionary-break-2025-11'', ''reject-non-htf-break-2026-05'', ''htf-timed-boc-2026-06'']"

definition SOURCE_CLAIMS_BOC_DISCRETIONARY_5M :: "string list" where
  "SOURCE_CLAIMS_BOC_DISCRETIONARY_5M = [''discretionary-break-2025-11'']"

definition SOURCE_CLAIMS_DIR_CLOSE :: "string list" where
  "SOURCE_CLAIMS_DIR_CLOSE =
     [''standard-close-2024-03'', ''closure-or-flip-2025-03'', ''directional-close-2025-08'',
      ''directional-close-required-2026-06'', ''model-continuation-2026-07'']"

definition SOURCE_CLAIMS_HTF_FLIP :: "string list" where
  "SOURCE_CLAIMS_HTF_FLIP =
     [''htf-flip-2024-03'', ''htf-context-set-2025-08'', ''htf-flip-definition-2025-08'',
      ''pure-flip-narrowing-2026-05'', ''model-continuation-2026-07'']"

fun EXPECTED_RULES :: "entry_model \<Rightarrow> string" where
  "EXPECTED_RULES BOC = ''ENTRY_BOC_HTF_TIMED''"
| "EXPECTED_RULES DIR_CLOSE = ''ENTRY_DIR_CLOSE''"
| "EXPECTED_RULES HTF_FLIP = ''ENTRY_HTF_FLIP''"

text \<open>The wire spelling of the enumerations that enter an identifier.\<close>

fun model_name :: "entry_model \<Rightarrow> string" where
  "model_name BOC = ''BOC''"
| "model_name DIR_CLOSE = ''DIR_CLOSE''"
| "model_name HTF_FLIP = ''HTF_FLIP''"

fun tier_name :: "boc_tier \<Rightarrow> string" where
  "tier_name HTF_TIMED = ''HTF_TIMED''"
| "tier_name DISCRETIONARY_5M = ''DISCRETIONARY_5M''"

fun replayability_name :: "replayability \<Rightarrow> string" where
  "replayability_name REPLAYABLE = ''REPLAYABLE''"
| "replayability_name LIVE_EXACT_NON_REPLAYABLE = ''LIVE_EXACT_NON_REPLAYABLE''"

fun direction_name :: "direction \<Rightarrow> string" where
  "direction_name LONG = ''LONG''"
| "direction_name SHORT = ''SHORT''"

fun fidelity_name :: "fidelity \<Rightarrow> string" where
  "fidelity_name EXACT = ''EXACT''"
| "fidelity_name CALIBRATED = ''CALIBRATED''"
| "fidelity_name DISCRETIONARY = ''DISCRETIONARY''"
| "fidelity_name UNRESOLVED = ''UNRESOLVED''"

fun plane_name :: "proof_plane \<Rightarrow> string" where
  "plane_name CONFIRMED_5M = ''CONFIRMED_5M''"
| "plane_name LOWER_TIMEFRAME_REPLAY = ''LOWER_TIMEFRAME_REPLAY''"
| "plane_name REALTIME_TICK = ''REALTIME_TICK''"
| "plane_name EXTERNAL_ARCHIVED_TICK = ''EXTERNAL_ARCHIVED_TICK''"

fun ambiguity_name :: "ambiguity_code \<Rightarrow> string" where
  "ambiguity_name SHADOW_SAME_CHILD_BAR_ORDER = ''SHADOW_SAME_CHILD_BAR_ORDER''"
| "ambiguity_name SHADOW_MISSING_INTRABAR_COVERAGE = ''SHADOW_MISSING_INTRABAR_COVERAGE''"
| "ambiguity_name SHADOW_REALTIME_ONLY_NOT_REPLAYABLE = ''SHADOW_REALTIME_ONLY_NOT_REPLAYABLE''"

fun action_name :: "selection_action \<Rightarrow> string" where
  "action_name OBSERVE = ''OBSERVE''"
| "action_name PAPER_ELIGIBLE = ''PAPER_ELIGIBLE''"
| "action_name SHADOW_ONLY = ''SHADOW_ONLY''"
| "action_name NO_ACTION = ''NONE''"

fun reason_name :: "selection_reason \<Rightarrow> string" where
  "reason_name ONLY_EXACT_TRIGGER = ''ONLY_EXACT_TRIGGER''"
| "reason_name EARLIEST_EXACT_TRIGGER = ''EARLIEST_EXACT_TRIGGER''"
| "reason_name FALLBACK_TO_CONFIRMED_CLOSE = ''FALLBACK_TO_CONFIRMED_CLOSE''"
| "reason_name CO_TRIGGER_SAME_EVENT = ''CO_TRIGGER_SAME_EVENT''"
| "reason_name CO_TRIGGER_PRICE_CONFLICT = ''CO_TRIGGER_PRICE_CONFLICT''"
| "reason_name NO_EXACT_CANDIDATE = ''NO_EXACT_CANDIDATE''"
| "reason_name SETUP_INVALIDATED = ''SETUP_INVALIDATED''"
| "reason_name NO_CANDIDATE = ''NO_CANDIDATE''"

section \<open>Content-derived identifiers\<close>

definition j_opt :: "('a \<Rightarrow> json) \<Rightarrow> 'a option \<Rightarrow> json" where
  "j_opt f x = (case x of None \<Rightarrow> JNull | Some y \<Rightarrow> f y)"

definition j_strings :: "string list \<Rightarrow> json" where
  "j_strings xs = JArr (map JStr xs)"

definition candle_json :: "ordered_candle \<Rightarrow> json" where
  "candle_json c = JObj
     [(''open_epoch'', JNum (open_epoch c)), (''close_epoch'', JNum (close_epoch c)),
      (''open_ticks'', JNum (open_ticks c)), (''high_ticks'', JNum (high_ticks c)),
      (''low_ticks'', JNum (low_ticks c)), (''close_ticks'', JNum (close_ticks c))]"

text \<open>The identity fields of a candidate, as \<open>Pick<EntryCandidateV3, ...>\<close> selects them.\<close>

record candidate_identity =
  id_setup_id :: string
  id_model :: entry_model
  id_direction :: direction
  id_event_anchor_epoch :: int
  id_trigger_ordinal :: int
  id_boc_tier :: "boc_tier option"
  id_reference_candle_open_epoch :: "int option"

definition candidate_identity_json :: "candidate_identity \<Rightarrow> json" where
  "candidate_identity_json i = JObj
     [(''boc_tier'', j_opt (JStr \<circ> tier_name) (id_boc_tier i)),
      (''direction'', JStr (direction_name (id_direction i))),
      (''event_anchor_epoch'', JNum (id_event_anchor_epoch i)),
      (''model'', JStr (model_name (id_model i))),
      (''reference_candle_open_epoch'', j_opt JNum (id_reference_candle_open_epoch i)),
      (''setup_id'', JStr (id_setup_id i)),
      (''trigger_ordinal'', JNum (id_trigger_ordinal i))]"

definition candidateIdV3 :: "platform \<Rightarrow> candidate_identity \<Rightarrow> string" where
  "candidateIdV3 P i = canonicalSha256 P (candidate_identity_json i)"

text \<open>The payload digest covers every field but the identifiers and the observation time.\<close>

definition evidence_payload_json :: "evidence \<Rightarrow> json" where
  "evidence_payload_json e = JObj
     [(''ambiguity_codes'', j_strings (map ambiguity_name (ev_ambiguity_codes e))),
      (''boc_tier'', j_opt (JStr \<circ> tier_name) (ev_boc_tier e)),
      (''candidate_id'', JStr (ev_candidate_id e)),
      (''contact_candle'', j_opt candle_json (ev_contact_candle e)),
      (''coverage_end_epoch'', JNum (ev_coverage_end_epoch e)),
      (''coverage_gap_detected'', j_opt JBool (ev_coverage_gap_detected e)),
      (''coverage_start_epoch'', JNum (ev_coverage_start_epoch e)),
      (''destination_seen_before_contact'', j_opt JBool (ev_destination_seen_before_contact e)),
      (''failed_rule_ids'', j_strings (ev_failed_rule_ids e)),
      (''fidelity'', JStr (fidelity_name (ev_fidelity e))),
      (''full_lifecycle_ordered'', j_opt JBool (ev_full_lifecycle_ordered e)),
      (''htf_context_minutes'', JArr (map JNum (ev_htf_context_minutes e))),
      (''htf_open_ticks'', j_opt JNum (ev_htf_open_ticks e)),
      (''observed_trigger_epoch'', j_opt JNum (ev_observed_trigger_epoch e)),
      (''observed_trigger_ticks'', j_opt JNum (ev_observed_trigger_ticks e)),
      (''passed_rule_ids'', j_strings (ev_passed_rule_ids e)),
      (''proof_plane'', JStr (plane_name (ev_proof_plane e))),
      (''reference_candle_close_ticks'', j_opt JNum (ev_reference_candle_close_ticks e)),
      (''reference_candle_high_ticks'', j_opt JNum (ev_reference_candle_high_ticks e)),
      (''reference_candle_low_ticks'', j_opt JNum (ev_reference_candle_low_ticks e)),
      (''reference_candle_open_epoch'', j_opt JNum (ev_reference_candle_open_epoch e)),
      (''reference_candle_open_ticks'', j_opt JNum (ev_reference_candle_open_ticks e)),
      (''recross_candle'', j_opt candle_json (ev_recross_candle e)),
      (''replayability'', JStr (replayability_name (ev_replayability e))),
      (''source_claim_ids'', j_strings (ev_source_claim_ids e)),
      (''trigger_sequence'', JNum (ev_trigger_sequence e))]"

definition evidencePayloadSha256V3 :: "platform \<Rightarrow> evidence \<Rightarrow> string" where
  "evidencePayloadSha256V3 P e = canonicalSha256 P (evidence_payload_json e)"

definition evidence_identity_json :: "evidence \<Rightarrow> json" where
  "evidence_identity_json e = JObj
     [(''candidate_id'', JStr (ev_candidate_id e)),
      (''coverage_end_epoch'', JNum (ev_coverage_end_epoch e)),
      (''coverage_start_epoch'', JNum (ev_coverage_start_epoch e)),
      (''observed_trigger_epoch'', j_opt JNum (ev_observed_trigger_epoch e)),
      (''payload_sha256'', JStr (ev_payload_sha256 e)),
      (''proof_plane'', JStr (plane_name (ev_proof_plane e))),
      (''trigger_sequence'', JNum (ev_trigger_sequence e))]"

definition evidenceIdV3 :: "platform \<Rightarrow> evidence \<Rightarrow> string" where
  "evidenceIdV3 P e = canonicalSha256 P (evidence_identity_json e)"

definition selection_identity_json :: "selection \<Rightarrow> json" where
  "selection_identity_json s = JObj
     [(''action'', JStr (action_name (sl_action s))),
      (''candidate_ids_considered'', j_strings (sl_candidate_ids_considered s)),
      (''canonical_candidate_id'', j_opt JStr (sl_canonical_candidate_id s)),
      (''canonical_evidence_id'', j_opt JStr (sl_canonical_evidence_id s)),
      (''co_triggered_models'', j_strings (map model_name (sl_co_triggered_models s))),
      (''fidelity'', j_opt (JStr \<circ> fidelity_name) (sl_fidelity s)),
      (''policy_version'', JStr (sl_policy_version s)),
      (''reason'', JStr (reason_name (sl_reason s))),
      (''revision'', JNum (sl_revision s)),
      (''setup_id'', JStr (sl_setup_id s))]"

definition selectionIdV3 :: "platform \<Rightarrow> selection \<Rightarrow> string" where
  "selectionIdV3 P s = canonicalSha256 P (selection_identity_json s)"

section \<open>Identifiers determine identities\<close>

lemma model_name_inject [simp]: "model_name a = model_name b \<longleftrightarrow> a = b"
  by (cases a; cases b) simp_all

lemma tier_name_inject [simp]: "tier_name a = tier_name b \<longleftrightarrow> a = b"
  by (cases a; cases b) simp_all

lemma direction_name_inject [simp]: "direction_name a = direction_name b \<longleftrightarrow> a = b"
  by (cases a; cases b) simp_all

lemma j_opt_inject:
  "(\<And>x. f x \<noteq> JNull) \<Longrightarrow> (\<And>x y. f x = f y \<longleftrightarrow> x = y) \<Longrightarrow> j_opt f a = j_opt f b \<longleftrightarrow> a = b"
  by (cases a; cases b) (auto simp: j_opt_def dest: sym)

lemma sort_keys_j_opt:
  "sort_keys (j_opt JNum a) = j_opt JNum a"
  "sort_keys (j_opt (JStr \<circ> tier_name) b) = j_opt (JStr \<circ> tier_name) b"
  by (cases a; simp add: j_opt_def) (cases b; simp add: j_opt_def)

lemma candidate_identity_json_inject:
  "sort_keys (candidate_identity_json i) = sort_keys (candidate_identity_json j) \<longleftrightarrow> i = j"
proof -
  have "sort_keys (candidate_identity_json k) = candidate_identity_json k" for k
    by (simp add: candidate_identity_json_def key_order_def code_unit_def sort_keys_j_opt)
  then show ?thesis
    by (auto simp: candidate_identity_json_def j_opt_inject intro: candidate_identity.equality)
qed

text \<open>
  The bytes an identifier hashes. Where SHA-256 does not collide on the identities at hand, the
  identifiers are as distinct as the identities.
\<close>

definition candidate_identity_bytes :: "candidate_identity \<Rightarrow> nat list" where
  "candidate_identity_bytes i = utf8_encode (canonicalStringify (candidate_identity_json i))"

definition evidence_identity_bytes :: "evidence \<Rightarrow> nat list" where
  "evidence_identity_bytes e = utf8_encode (canonicalStringify (evidence_identity_json e))"

lemma candidateIdV3_eqD:
  assumes "sha256_width P" and "candidateIdV3 P i = candidateIdV3 P j"
    and "inj_on (sha256 P) (candidate_identity_bytes ` {i, j})"
  shows "i = j"
proof -
  have "sha256 P (candidate_identity_bytes i) = sha256 P (candidate_identity_bytes j) \<longrightarrow>
      candidate_identity_bytes i = candidate_identity_bytes j"
    using assms(3) by (simp add: inj_on_def)
  with canonicalSha256_collision[OF assms(1) assms(2)[unfolded candidateIdV3_def]] show ?thesis
    unfolding candidate_identity_bytes_def candidate_identity_json_inject by argo
qed

lemma evidence_identity_json_candidate:
  assumes "sort_keys (evidence_identity_json e) = sort_keys (evidence_identity_json f)"
  shows "ev_candidate_id e = ev_candidate_id f"
proof -
  have "sort_keys (evidence_identity_json k) = evidence_identity_json k" for k
    by (simp add: evidence_identity_json_def key_order_def code_unit_def sort_keys_j_opt)
  with assms show ?thesis by (simp add: evidence_identity_json_def)
qed

lemma evidenceIdV3_eqD:
  assumes "sha256_width P" and "evidenceIdV3 P e = evidenceIdV3 P f"
    and "inj_on (sha256 P) (evidence_identity_bytes ` {e, f})"
  shows "ev_candidate_id e = ev_candidate_id f"
proof -
  have "sha256 P (evidence_identity_bytes e) = sha256 P (evidence_identity_bytes f) \<longrightarrow>
      evidence_identity_bytes e = evidence_identity_bytes f"
    using assms(3) by (simp add: inj_on_def)
  with canonicalSha256_collision[OF assms(1) assms(2)[unfolded evidenceIdV3_def]]
  have "sort_keys (evidence_identity_json e) = sort_keys (evidence_identity_json f)"
    unfolding evidence_identity_bytes_def by argo
  then show ?thesis by (rule evidence_identity_json_candidate)
qed

end
