(* ===== verification/Rd_Validate.thy ===== *)
theory Rd_Validate
  imports Rd_Domain
begin

text \<open>
  The validators of \<open>rd-entry-domain-v3.ts\<close>, each the sequence of its throwing statements in the
  source's order. \<open>accepts\<close> lemmas read a validator as the conjunction of what it demands.
\<close>

section \<open>Elementary checks\<close>

definition safeInteger :: "int \<Rightarrow> string \<Rightarrow> int option \<Rightarrow> check" where
  "safeInteger value name minimum =
     fail_if (\<not> is_safe_integer value \<or> (case minimum of None \<Rightarrow> False | Some m \<Rightarrow> value < m))
       (TypeError (name @ '' must be a safe integer''))"

definition unique :: "string list \<Rightarrow> string \<Rightarrow> check" where
  "unique values name =
     fail_if (list_ex (\<lambda>v. v = []) values \<or> length (js_set values) \<noteq> length values)
       (TypeError (name @ '' must contain unique non-empty strings''))"

definition digest :: "string \<Rightarrow> string \<Rightarrow> check" where
  "digest value name = fail_if (\<not> is_sha256 value \<or> value = zero_digest)
     (TypeError (name @ '' must be a nonzero lowercase SHA-256''))"

definition max3 :: "int \<Rightarrow> int \<Rightarrow> int \<Rightarrow> int" where
  "max3 a b c = max a (max b c)"

definition min3 :: "int \<Rightarrow> int \<Rightarrow> int \<Rightarrow> int" where
  "min3 a b c = min a (min b c)"

definition validateOrderedCandleV3 :: "ordered_candle \<Rightarrow> string \<Rightarrow> check" where
  "validateOrderedCandleV3 c name = first_error
     [safeInteger (open_epoch c) (name @ ''.open_epoch'') (Some 0),
      safeInteger (close_epoch c) (name @ ''.close_epoch'') (Some 0),
      safeInteger (open_ticks c) (name @ ''.open_ticks'') None,
      safeInteger (high_ticks c) (name @ ''.high_ticks'') None,
      safeInteger (low_ticks c) (name @ ''.low_ticks'') None,
      safeInteger (close_ticks c) (name @ ''.close_ticks'') None,
      fail_if (close_epoch c \<le> open_epoch c \<or>
          high_ticks c < max3 (open_ticks c) (close_ticks c) (low_ticks c) \<or>
          low_ticks c > min3 (open_ticks c) (close_ticks c) (high_ticks c))
        (TypeError (name @ '' chronology or OHLC is invalid''))]"

definition join_numbers :: "int list \<Rightarrow> string" where
  "join_numbers xs = js_join '','' (map js_number xs)"

definition supported_context :: "int \<Rightarrow> bool" where
  "supported_context m \<longleftrightarrow> m = 15 \<or> m = 30 \<or> m = 60"

definition contexts_unordered :: "int list \<Rightarrow> bool" where
  "contexts_unordered value \<longleftrightarrow>
     join_numbers (js_sort (\<lambda>a b. a - b) value) \<noteq> join_numbers value"

definition validateContextsV3 :: "int list \<Rightarrow> string \<Rightarrow> check" where
  "validateContextsV3 value name =
     fail_if (3 < length value \<or> list_ex (\<lambda>m. \<not> supported_context m) value \<or>
         contexts_unordered value \<or> length (js_set value) \<noteq> length value)
       (TypeError (name @ '' must be sorted unique supported HTF contexts''))"

section \<open>Proofs and arbitration input\<close>

definition validateLiquidityCohortV3 :: "setup_facts \<Rightarrow> check" where
  "validateLiquidityCohortV3 setup =
     fail_if ((su_liquidity_cohort setup = ONE_CANDLE \<and>
           (\<not> su_one_candle_enabled setup \<or> su_common_fidelity setup = EXACT)) \<or>
         (su_liquidity_cohort setup = TWO_PLUS_CANDLES \<and> su_common_fidelity setup = DISCRETIONARY))
       (TypeError ''invalid liquidity cohort'')"

definition validateBocProofV3 :: "boc_proof \<Rightarrow> int \<Rightarrow> check" where
  "validateBocProofV3 p observedAt = first_error
     [validateOrderedCandleV3 (bp_reference_candle p) ''reference_candle'',
      safeInteger (bp_trigger_candle_open_epoch p) ''trigger_candle_open_epoch'' (Some 0),
      safeInteger (bp_trigger_epoch p) ''trigger_epoch'' (Some 0),
      safeInteger (bp_trigger_sequence p) ''trigger_sequence'' (Some 0),
      safeInteger (bp_trigger_ticks p) ''trigger_ticks'' None,
      check_option (\<lambda>b. safeInteger b ''htf_boundary_epoch'' (Some 0)) (bp_htf_boundary_epoch p),
      validateContextsV3 (bp_htf_context_minutes p) ''htf_context_minutes'',
      safeInteger (bp_coverage_start_epoch p) ''coverage_start_epoch'' (Some 0),
      safeInteger (bp_coverage_end_epoch p) ''coverage_end_epoch'' (Some 0),
      fail_if (bp_coverage_end_epoch p \<le> bp_coverage_start_epoch p \<or>
          bp_coverage_end_epoch p > observedAt \<or>
          bp_trigger_epoch p < bp_coverage_start_epoch p \<or>
          bp_trigger_epoch p > bp_coverage_end_epoch p \<or>
          close_epoch (bp_reference_candle p) - open_epoch (bp_reference_candle p) \<noteq> 300 \<or>
          open_epoch (bp_reference_candle p) mod 300 \<noteq> 0 \<or>
          bp_trigger_candle_open_epoch p mod 300 \<noteq> 0 \<or>
          close_epoch (bp_reference_candle p) > bp_trigger_candle_open_epoch p \<or>
          bp_trigger_epoch p < bp_trigger_candle_open_epoch p \<or>
          bp_trigger_epoch p \<ge> bp_trigger_candle_open_epoch p + 300)
        (TypeError ''BOC proof chronology is invalid'')]"

definition validateCoveredCandle :: "flip_proof \<Rightarrow> string \<Rightarrow> ordered_candle \<Rightarrow> check" where
  "validateCoveredCandle p name c = first_error
     [validateOrderedCandleV3 c name,
      fail_if (open_epoch c < fp_coverage_start_epoch p \<or> close_epoch c > fp_coverage_end_epoch p)
        (TypeError (name @ '' lies outside coverage''))]"

definition validateFlipProofV3 :: "flip_proof \<Rightarrow> int \<Rightarrow> check" where
  "validateFlipProofV3 p observedAt = first_error
     [safeInteger (fp_event_anchor_epoch p) ''event_anchor_epoch'' (Some 0),
      safeInteger (fp_trigger_epoch p) ''trigger_epoch'' (Some 0),
      safeInteger (fp_trigger_sequence p) ''trigger_sequence'' (Some 0),
      safeInteger (fp_coverage_start_epoch p) ''coverage_start_epoch'' (Some 0),
      safeInteger (fp_coverage_end_epoch p) ''coverage_end_epoch'' (Some 0),
      safeInteger (fp_trigger_ticks p) ''trigger_ticks'' None,
      safeInteger (fp_htf_open_ticks p) ''htf_open_ticks'' None,
      validateContextsV3 (fp_htf_context_minutes p) ''htf_context_minutes'',
      fail_if (length (js_set (fp_ambiguity_codes p)) \<noteq> length (fp_ambiguity_codes p))
        (TypeError ''HTF flip proof enums are unsupported''),
      fail_if (fp_coverage_end_epoch p \<le> fp_coverage_start_epoch p \<or>
          fp_coverage_end_epoch p > observedAt \<or>
          fp_trigger_epoch p < fp_coverage_start_epoch p \<or>
          fp_trigger_epoch p > fp_coverage_end_epoch p)
        (TypeError ''HTF flip coverage is invalid''),
      check_option (validateCoveredCandle p ''contact_candle'') (fp_contact_candle p),
      check_option (validateCoveredCandle p ''recross_candle'') (fp_recross_candle p),
      fail_if (fp_recross_candle p \<noteq> None \<and> fp_contact_candle p = None)
        (TypeError ''recross_candle requires contact_candle''),
      check_option (\<lambda>contact. fail_if (fp_event_anchor_epoch p > open_epoch contact)
          (TypeError ''HTF anchor must precede contact'')) (fp_contact_candle p),
      check_option (\<lambda>contact. check_option (\<lambda>recross.
          fail_if (close_epoch contact > open_epoch recross \<or>
              fp_trigger_epoch p \<noteq> close_epoch recross \<or> fp_trigger_ticks p \<noteq> close_ticks recross)
            (TypeError ''HTF flip trigger must equal the retained recross market close''))
          (fp_recross_candle p)) (fp_contact_candle p),
      fail_if (list_ex (\<lambda>m. fp_trigger_epoch p \<ge> fp_event_anchor_epoch p + m * 60)
          (fp_htf_context_minutes p))
        (TypeError ''HTF trigger lies outside context'')]"

definition input_cohort :: "arbitration_input \<Rightarrow> liquidity_cohort" where
  "input_cohort i = (case ai_cohort i of None \<Rightarrow> TWO_PLUS_CANDLES | Some (c, _) \<Rightarrow> c)"

definition input_one_candle :: "arbitration_input \<Rightarrow> bool" where
  "input_one_candle i = (case ai_cohort i of None \<Rightarrow> False | Some (_, e) \<Rightarrow> e)"

definition input_setup :: "arbitration_input \<Rightarrow> setup_facts" where
  "input_setup i = \<lparr>su_setup_id = ai_setup_id i, su_direction = ai_direction i,
     su_zone_top_ticks = ai_zone_top_ticks i, su_zone_bottom_ticks = ai_zone_bottom_ticks i,
     su_zone_engaged_epoch = ai_zone_engaged_epoch i,
     su_invalidated_before_entry = ai_setup_invalidated i,
     su_common_fidelity = ai_common_fidelity i, su_liquidity_cohort = input_cohort i,
     su_one_candle_enabled = input_one_candle i\<rparr>"

definition aligned_five_minute :: "ordered_candle \<Rightarrow> bool" where
  "aligned_five_minute c \<longleftrightarrow> close_epoch c - open_epoch c = 300 \<and> open_epoch c mod 300 = 0"

definition validateOpenedSeed :: "arbitration_input \<Rightarrow> opened_seed \<Rightarrow> check" where
  "validateOpenedSeed i seed = first_error
     [fail_if (input_cohort i = ONE_CANDLE)
        (TypeError ''one-candle setup cannot have an opened selection''),
      validateOrderedCandleV3 (os_confirmed_bar seed) ''opened confirmed_bar'',
      fail_if (\<not> aligned_five_minute (os_confirmed_bar seed))
        (TypeError ''opened confirmed bar must be aligned five-minute''),
      safeInteger (os_trigger_sequence seed) ''opened trigger_sequence'' (Some 0),
      safeInteger (os_revision seed) ''opened revision'' (Some 0),
      safeInteger (os_evaluated_at_epoch seed) ''opened evaluated_at_epoch'' (Some 0),
      fail_if (os_evaluated_at_epoch seed > ai_evaluated_at_epoch i)
        (TypeError ''opened selection cannot follow evaluation'')]"

definition validateEntryArbitrationInputV3 :: "arbitration_input \<Rightarrow> check" where
  "validateEntryArbitrationInputV3 i = first_error
     [fail_if (ai_setup_id i = [] \<or> js_trim (ai_setup_id i) \<noteq> ai_setup_id i \<or>
          ai_policy_version i \<noteq> POLICY_VERSION_V3)
        (TypeError ''entry arbitration input enums are unsupported''),
      safeInteger (ai_zone_top_ticks i) ''zone_top_ticks'' None,
      safeInteger (ai_zone_bottom_ticks i) ''zone_bottom_ticks'' None,
      fail_if (ai_zone_top_ticks i \<le> ai_zone_bottom_ticks i) (TypeError ''zone geometry is inverted''),
      check_option (\<lambda>e. safeInteger e ''zone_engaged_epoch'' (Some 0)) (ai_zone_engaged_epoch i),
      validateLiquidityCohortV3 (input_setup i),
      safeInteger (ai_close_trigger_sequence i) ''close_trigger_sequence'' (Some 0),
      safeInteger (ai_observed_at_epoch i) ''observed_at_epoch'' (Some 0),
      safeInteger (ai_revision i) ''revision'' (Some 0),
      safeInteger (ai_evaluated_at_epoch i) ''evaluated_at_epoch'' (Some 0),
      fail_if (ai_observed_at_epoch i > ai_evaluated_at_epoch i)
        (TypeError ''observation cannot follow evaluation''),
      fail_if (ai_directional_close i \<noteq> (ai_confirmed_bar i \<noteq> None))
        (TypeError ''directional_close and confirmed_bar must pair''),
      check_option (\<lambda>bar. first_error
          [validateOrderedCandleV3 bar ''confirmed_bar'',
           fail_if (\<not> aligned_five_minute bar)
             (TypeError ''confirmed close must be an aligned five-minute bar'')]) (ai_confirmed_bar i),
      check_option (\<lambda>p. validateBocProofV3 p (ai_observed_at_epoch i)) (ai_boc_proof i),
      check_option (\<lambda>p. validateFlipProofV3 p (ai_observed_at_epoch i)) (ai_htf_flip_proof i),
      check_option (validateOpenedSeed i) (ai_opened_selection_seed i)]"

section \<open>Candidates and evidence\<close>

definition validateEntryCandidateV3 :: "candidate \<Rightarrow> check" where
  "validateEntryCandidateV3 c = first_error
     [digest (cd_candidate_id c) ''candidate_id'',
      fail_if (cd_setup_id c = []) (TypeError ''candidate enum or identity field is invalid''),
      safeInteger (cd_event_anchor_epoch c) ''event_anchor_epoch'' (Some 0),
      safeInteger (cd_trigger_ordinal c) ''trigger_ordinal'' (Some 1),
      safeInteger (cd_observed_at_epoch c) ''observed_at_epoch'' (Some 0),
      fail_if (if cd_model c = BOC
          then cd_boc_tier c = None \<or> cd_reference_candle_open_epoch c = None
          else cd_boc_tier c \<noteq> None \<or> cd_reference_candle_open_epoch c \<noteq> None)
        (TypeError ''candidate BOC identity fields are inconsistent''),
      check_option (\<lambda>e. safeInteger e ''reference_candle_open_epoch'' (Some 0))
        (cd_reference_candle_open_epoch c),
      unique (cd_source_claim_ids c) ''source_claim_ids'']"

definition exactEvidenceRuleIsConsistent :: "candidate \<Rightarrow> evidence \<Rightarrow> bool" where
  "exactEvidenceRuleIsConsistent c e \<longleftrightarrow>
     ev_passed_rule_ids e = [EXPECTED_RULES (cd_model c)] \<and> ev_failed_rule_ids e = []"

definition expectedSourceClaimsV3 :: "candidate \<Rightarrow> string list" where
  "expectedSourceClaimsV3 c =
     (case cd_model c of
        BOC \<Rightarrow> if cd_boc_tier c = Some HTF_TIMED then SOURCE_CLAIMS_BOC_HTF_TIMED
               else SOURCE_CLAIMS_BOC_DISCRETIONARY_5M
      | DIR_CLOSE \<Rightarrow> SOURCE_CLAIMS_DIR_CLOSE
      | HTF_FLIP \<Rightarrow> SOURCE_CLAIMS_HTF_FLIP)"

text \<open>The five reference values of BOC evidence, and the reference OHLC test on them.\<close>

definition evidence_reference_values :: "evidence \<Rightarrow> int option list" where
  "evidence_reference_values e =
     [ev_reference_candle_open_epoch e, ev_reference_candle_open_ticks e,
      ev_reference_candle_high_ticks e, ev_reference_candle_low_ticks e,
      ev_reference_candle_close_ticks e]"

fun validateReferenceValues :: "int option list \<Rightarrow> check" where
  "validateReferenceValues [Some openEpoch, Some op, Some high, Some low, Some close] = first_error
     [safeInteger openEpoch ''reference_candle_open_epoch'' (Some 0),
      safeInteger op ''reference_candle_open_ticks'' None,
      safeInteger high ''reference_candle_high_ticks'' None,
      safeInteger low ''reference_candle_low_ticks'' None,
      safeInteger close ''reference_candle_close_ticks'' None,
      fail_if (high < max3 op close low \<or> low > min3 op close high)
        (TypeError ''reference OHLC is invalid'')]"
| "validateReferenceValues _ = Some (TypeError ''BOC evidence requires complete reference OHLC'')"

text \<open>The flip lifecycle fields of evidence: all present or all absent.\<close>

definition flip_fields_present :: "evidence \<Rightarrow> bool list" where
  "flip_fields_present e =
     [ev_htf_open_ticks e \<noteq> None, ev_contact_candle e \<noteq> None, ev_recross_candle e \<noteq> None,
      ev_coverage_gap_detected e \<noteq> None, ev_full_lifecycle_ordered e \<noteq> None,
      ev_destination_seen_before_contact e \<noteq> None]"

definition validateFlipFields :: "evidence \<Rightarrow> check" where
  "validateFlipFields e =
     (if \<not> list_ex id (flip_fields_present e) then None
      else case (ev_contact_candle e, ev_recross_candle e) of
          (Some contact, Some recross) \<Rightarrow>
            if list_all id (flip_fields_present e) then first_error
              [validateOrderedCandleV3 contact ''contact_candle'',
               validateOrderedCandleV3 recross ''recross_candle'',
               fail_if (close_epoch contact > open_epoch recross \<or>
                   ev_observed_trigger_epoch e \<noteq> Some (close_epoch recross) \<or>
                   ev_observed_trigger_ticks e \<noteq> Some (close_ticks recross))
                 (TypeError ''flip lifecycle chronology is inconsistent'')]
            else Some (TypeError ''flip evidence lifecycle fields must be complete'')
        | _ \<Rightarrow> Some (TypeError ''flip evidence lifecycle fields must be complete''))"

definition expectedReplayability :: "proof_plane \<Rightarrow> replayability" where
  "expectedReplayability p = (if p = REALTIME_TICK then LIVE_EXACT_NON_REPLAYABLE else REPLAYABLE)"

definition validateEntryEvidenceV3 :: "evidence \<Rightarrow> check" where
  "validateEntryEvidenceV3 e = first_error
     [digest (ev_evidence_id e) ''evidence_id'',
      digest (ev_candidate_id e) ''candidate_id'',
      digest (ev_payload_sha256 e) ''payload_sha256'',
      fail_if ((ev_observed_trigger_epoch e = None) \<noteq> (ev_observed_trigger_ticks e = None))
        (TypeError ''trigger epoch and ticks must pair''),
      safeInteger (ev_trigger_sequence e) ''trigger_sequence'' (Some 0),
      safeInteger (ev_coverage_start_epoch e) ''coverage_start_epoch'' (Some 0),
      safeInteger (ev_coverage_end_epoch e) ''coverage_end_epoch'' (Some 0),
      safeInteger (ev_observed_at_epoch e) ''observed_at_epoch'' (Some 0),
      fail_if (ev_coverage_end_epoch e \<le> ev_coverage_start_epoch e \<or>
          ev_coverage_end_epoch e > ev_observed_at_epoch e)
        (TypeError ''evidence fidelity, plane, or coverage is invalid''),
      check_option (\<lambda>t. fail_if (t < ev_coverage_start_epoch e \<or> t > ev_coverage_end_epoch e \<or>
          t > ev_observed_at_epoch e) (TypeError ''trigger lies outside causal coverage''))
        (ev_observed_trigger_epoch e),
      fail_if (contexts_unordered (ev_htf_context_minutes e) \<or>
          length (js_set (ev_htf_context_minutes e)) \<noteq> length (ev_htf_context_minutes e) \<or>
          list_ex (\<lambda>m. \<not> supported_context m) (ev_htf_context_minutes e))
        (TypeError ''HTF contexts must be sorted, unique, and supported''),
      unique (map ambiguity_name (ev_ambiguity_codes e)) ''ambiguity_codes'',
      unique (ev_passed_rule_ids e) ''passed_rule_ids'',
      unique (ev_failed_rule_ids e) ''failed_rule_ids'',
      unique (ev_source_claim_ids e) ''source_claim_ids'',
      fail_if (list_ex (\<lambda>r. r \<in> set (ev_failed_rule_ids e)) (ev_passed_rule_ids e) \<or>
          (ev_fidelity e = EXACT \<and> (ev_failed_rule_ids e \<noteq> [] \<or> ev_passed_rule_ids e = [])))
        (TypeError ''evidence rule results are inconsistent''),
      (if ev_boc_tier e = None
       then fail_if (list_ex (\<lambda>v. v \<noteq> None) (evidence_reference_values e))
         (TypeError ''BOC evidence requires complete reference OHLC'')
       else validateReferenceValues (evidence_reference_values e)),
      validateFlipFields e,
      fail_if (ev_fidelity e = EXACT \<and> ev_replayability e \<noteq> expectedReplayability (ev_proof_plane e))
        (TypeError ''exact proof plane and replayability are inconsistent'')]"

section \<open>Selections and evaluations\<close>

fun emptyActions :: "selection_reason \<Rightarrow> selection_action option" where
  "emptyActions CO_TRIGGER_PRICE_CONFLICT = Some SHADOW_ONLY"
| "emptyActions NO_EXACT_CANDIDATE = Some SHADOW_ONLY"
| "emptyActions SETUP_INVALIDATED = Some NO_ACTION"
| "emptyActions NO_CANDIDATE = Some NO_ACTION"
| "emptyActions _ = None"

definition canonicalReasons :: "selection_reason list" where
  "canonicalReasons = [ONLY_EXACT_TRIGGER, EARLIEST_EXACT_TRIGGER, FALLBACK_TO_CONFIRMED_CLOSE,
     CO_TRIGGER_SAME_EVENT]"

definition sort_models :: "entry_model list \<Rightarrow> entry_model list" where
  "sort_models ms = js_sort (\<lambda>a b. compare_units (model_name a) (model_name b)) ms"

definition join_strings :: "string list \<Rightarrow> string" where
  "join_strings xs = js_join '','' xs"

definition validateSelectionShapeV3 :: "selection \<Rightarrow> check" where
  "validateSelectionShapeV3 s = first_error
     [digest (sl_selection_id s) ''selection_id'',
      fail_if (sl_policy_version s \<noteq> POLICY_VERSION_V3 \<or> sl_setup_id s = [])
        (TypeError ''selection identity is invalid''),
      safeInteger (sl_revision s) ''revision'' (Some 0),
      safeInteger (sl_evaluated_at_epoch s) ''evaluated_at_epoch'' (Some 0),
      unique (sl_candidate_ids_considered s) ''candidate_ids_considered'',
      fail_if (join_strings (js_sort compare_units (sl_candidate_ids_considered s))
          \<noteq> join_strings (sl_candidate_ids_considered s))
        (TypeError ''candidate IDs considered must be sorted''),
      fail_if ((sl_canonical_candidate_id s = None) \<noteq> (sl_canonical_evidence_id s = None) \<or>
          (sl_canonical_candidate_id s = None) \<noteq> (sl_canonical_model s = None))
        (TypeError ''canonical selection pointers and model must agree''),
      check_option (\<lambda>c. digest c ''canonical_candidate_id'') (sl_canonical_candidate_id s),
      check_option (\<lambda>e. digest e ''canonical_evidence_id'') (sl_canonical_evidence_id s),
      fail_if (join_strings (map model_name (sort_models (js_set (sl_co_triggered_models s))))
          \<noteq> join_strings (map model_name (sl_co_triggered_models s)))
        (TypeError ''co-triggered models must be sorted and unique''),
      (if sl_canonical_candidate_id s \<noteq> None
       then fail_if (sl_fidelity s \<noteq> Some EXACT \<or> sl_action s \<noteq> PAPER_ELIGIBLE \<or>
            sl_reason s \<notin> set canonicalReasons)
          (TypeError ''canonical action, reason, and fidelity are inconsistent'')
       else fail_if (sl_fidelity s \<noteq> None \<or> emptyActions (sl_reason s) \<noteq> Some (sl_action s))
          (TypeError ''canonical-null action, reason, and fidelity are inconsistent'')),
      fail_if (if sl_reason s = CO_TRIGGER_SAME_EVENT
          then length (sl_co_triggered_models s) < 2 else length (sl_co_triggered_models s) \<noteq> 0)
        (TypeError ''co-trigger fields are inconsistent'')]"

definition exactCloseCheck :: "candidate \<Rightarrow> evidence \<Rightarrow> check" where
  "exactCloseCheck c e =
     fail_if (cd_model c = DIR_CLOSE \<and>
         (cd_event_anchor_epoch c \<noteq> ev_coverage_start_epoch e \<or>
          ev_coverage_end_epoch e - ev_coverage_start_epoch e \<noteq> 300 \<or>
          ev_observed_trigger_epoch e \<noteq> Some (ev_coverage_end_epoch e)))
       (TypeError ''exact close evidence must cover one five-minute bar'')"

definition exactBocCheck :: "candidate \<Rightarrow> evidence \<Rightarrow> check" where
  "exactBocCheck c e =
     (if cd_model c \<noteq> BOC then None
      else case (cd_reference_candle_open_epoch c, ev_reference_candle_open_epoch e,
                 ev_observed_trigger_epoch e) of
          (Some candidateRef, Some evidenceRef, Some trigger) \<Rightarrow>
            let triggerOpen = trigger div 300 * 300 in
            fail_if (cd_event_anchor_epoch c \<noteq> candidateRef \<or> candidateRef mod 300 \<noteq> 0 \<or>
                evidenceRef \<noteq> candidateRef \<or> evidenceRef + 300 > triggerOpen \<or>
                ev_htf_context_minutes e = [] \<or>
                list_ex (\<lambda>m. triggerOpen mod (m * 60) \<noteq> 0) (ev_htf_context_minutes e))
              (TypeError ''exact BOC evidence violates causal HTF timing'')
        | _ \<Rightarrow> Some (TypeError ''exact BOC evidence requires reference and trigger epochs''))"

definition exactFlipCheck :: "candidate \<Rightarrow> evidence \<Rightarrow> check" where
  "exactFlipCheck c e =
     (if cd_model c \<noteq> HTF_FLIP then None
      else case (ev_htf_open_ticks e, ev_contact_candle e, ev_recross_candle e,
                 ev_observed_trigger_epoch e) of
          (Some htfOpen, Some contact, Some recross, Some trigger) \<Rightarrow> first_error
            [fail_if (ev_coverage_gap_detected e \<noteq> Some False \<or>
                ev_full_lifecycle_ordered e \<noteq> Some True \<or>
                ev_destination_seen_before_contact e \<noteq> Some False \<or>
                cd_event_anchor_epoch c > open_epoch contact \<or>
                ev_htf_context_minutes e = [] \<or>
                list_ex (\<lambda>m. trigger \<ge> cd_event_anchor_epoch c + m * 60) (ev_htf_context_minutes e))
               (TypeError ''exact flip evidence lacks ordered lifecycle chronology''),
             fail_if (case cd_direction c of LONG \<Rightarrow> high_ticks contact > htfOpen
                 | SHORT \<Rightarrow> low_ticks contact < htfOpen)
               (TypeError ''flip contact already crossed the HTF open''),
             fail_if (\<not> (case cd_direction c of LONG \<Rightarrow> close_ticks recross > htfOpen
                 | SHORT \<Rightarrow> close_ticks recross < htfOpen))
               (TypeError ''flip actual close did not cross the HTF open'')]
        | _ \<Rightarrow> Some (TypeError ''exact flip evidence lacks ordered lifecycle chronology''))"

definition candidates_by_id :: "candidate list \<Rightarrow> (string, candidate) js_map" where
  "candidates_by_id cs = fold (\<lambda>c. map_set (cd_candidate_id c) c) cs []"

definition evidence_by_id :: "evidence list \<Rightarrow> (string, evidence) js_map" where
  "evidence_by_id es = fold (\<lambda>e. map_set (ev_evidence_id e) e) es []"

definition validateEvidenceOfCandidate :: "(string, candidate) js_map \<Rightarrow> evidence \<Rightarrow> check" where
  "validateEvidenceOfCandidate candidateById e =
     (case map_get candidateById (ev_candidate_id e) of
        None \<Rightarrow> Some (TypeError ''evidence references unknown candidate'')
      | Some c \<Rightarrow> first_error
          [fail_if (ev_source_claim_ids e \<noteq> expectedSourceClaimsV3 c)
             (TypeError ''source claims conflict with candidate model''),
           fail_if (ev_fidelity e = EXACT \<and> \<not> exactEvidenceRuleIsConsistent c e)
             (TypeError ''exact evidence rule results conflict with candidate model''),
           (if ev_fidelity e \<noteq> EXACT then None
            else first_error [exactCloseCheck c e, exactBocCheck c e, exactFlipCheck c e])])"

definition validateCanonicalSelection :: "evaluation \<Rightarrow> check" where
  "validateCanonicalSelection v =
     (let s = el_selection v in
      case sl_canonical_candidate_id s of
        None \<Rightarrow> None
      | Some cid \<Rightarrow>
          (case (map_get (candidates_by_id (el_candidates v)) cid,
                 case sl_canonical_evidence_id s of None \<Rightarrow> None
                   | Some eid \<Rightarrow> map_get (evidence_by_id (el_evidence v)) eid) of
             (Some c, Some e) \<Rightarrow> first_error
               [fail_if (ev_candidate_id e \<noteq> cd_candidate_id c \<or>
                   sl_canonical_model s \<noteq> Some (cd_model c) \<or> sl_fidelity s \<noteq> Some (ev_fidelity e))
                  (TypeError ''canonical selection graph is inconsistent''),
                fail_if (sl_action s = PAPER_ELIGIBLE \<and>
                   (cd_state c \<noteq> MATCHED \<or> ev_fidelity e \<noteq> EXACT \<or> \<not> exactEvidenceRuleIsConsistent c e))
                  (TypeError ''paper eligible selection requires matched exact evidence''),
                (if cd_model c \<noteq> HTF_FLIP then None
                 else case (ev_contact_candle e, ev_observed_trigger_epoch e) of
                     (Some contact, Some trigger) \<Rightarrow>
                       fail_if (cd_event_anchor_epoch c > open_epoch contact \<or>
                           ev_htf_context_minutes e = [] \<or>
                           list_ex (\<lambda>m. trigger \<ge> cd_event_anchor_epoch c + m * 60)
                             (ev_htf_context_minutes e))
                         (TypeError ''canonical flip violates anchor chronology'')
                   | _ \<Rightarrow> Some (TypeError ''canonical flip violates anchor chronology''))]
           | _ \<Rightarrow> Some (TypeError ''canonical selection graph is inconsistent'')))"

definition validateEntryEvaluationV3 :: "evaluation \<Rightarrow> check" where
  "validateEntryEvaluationV3 v =
     (let candidateIds = map cd_candidate_id (el_candidates v);
          evidenceIds = map ev_evidence_id (el_evidence v);
          s = el_selection v in
      first_error
       (map validateEntryCandidateV3 (el_candidates v) @ map validateEntryEvidenceV3 (el_evidence v) @
        [validateSelectionShapeV3 s,
         fail_if (list_ex (\<lambda>c. cd_observed_at_epoch c > sl_evaluated_at_epoch s) (el_candidates v) \<or>
             list_ex (\<lambda>e. ev_observed_at_epoch e > sl_evaluated_at_epoch s) (el_evidence v))
           (TypeError ''records cannot be observed after selection evaluation''),
         fail_if (join_strings candidateIds \<noteq> join_strings (js_sort compare_units candidateIds) \<or>
             join_strings evidenceIds \<noteq> join_strings (js_sort compare_units evidenceIds) \<or>
             length (js_set candidateIds) \<noteq> length candidateIds \<or>
             length (js_set evidenceIds) \<noteq> length evidenceIds \<or>
             join_strings (sl_candidate_ids_considered s) \<noteq> join_strings candidateIds)
           (TypeError ''evaluation records must be unique, sorted, and selected'')] @
        map (\<lambda>c. fail_if (cd_source_claim_ids c \<noteq> expectedSourceClaimsV3 c)
            (TypeError ''source claims conflict with candidate model'')) (el_candidates v) @
        map (validateEvidenceOfCandidate (candidates_by_id (el_candidates v))) (el_evidence v) @
        [validateCanonicalSelection v]))"

end
