(* ===== verification/Rd_Matcher.thy ===== *)
theory Rd_Matcher
  imports Rd_Validate
begin

text \<open>
  The candidate matcher of \<open>rd-entry-matcher-v3.ts\<close>: one candidate and one evidence record per
  observed proof, with the candidate's state, the evidence's fidelity and the rule that passed or
  failed. Its lemmas say exactly when each of the three models is matched.
\<close>

section \<open>Rules\<close>

record match_result =
  mr_candidates :: "candidate list"
  mr_evidence :: "evidence list"

record evidence_fields =
  ef_observed_trigger_epoch :: int
  ef_trigger_sequence :: int
  ef_observed_trigger_ticks :: int
  ef_htf_context_minutes :: "int list"
  ef_fidelity :: fidelity
  ef_proof_plane :: proof_plane
  ef_replayability :: replayability
  ef_coverage_start_epoch :: int
  ef_coverage_end_epoch :: int
  ef_boc_tier :: "boc_tier option"
  ef_reference_candle :: "ordered_candle option"
  ef_ambiguity_codes :: "ambiguity_code list"
  ef_htf_open_ticks :: "int option"
  ef_contact_candle :: "ordered_candle option"
  ef_recross_candle :: "ordered_candle option"
  ef_coverage_gap_detected :: "bool option"
  ef_full_lifecycle_ordered :: "bool option"
  ef_destination_seen_before_contact :: "bool option"
  ef_passed_rule_ids :: "string list"
  ef_failed_rule_ids :: "string list"
  ef_source_claim_ids :: "string list"

definition bocBreaksReference :: "match_request \<Rightarrow> boc_proof \<Rightarrow> bool" where
  "bocBreaksReference r p =
     (if su_direction (rq_setup r) = LONG
      then bp_trigger_ticks p > high_ticks (bp_reference_candle p)
      else bp_trigger_ticks p < low_ticks (bp_reference_candle p))"

definition strictBocContext :: "boc_proof \<Rightarrow> bool" where
  "strictBocContext p =
     (case bp_htf_boundary_epoch p of
        None \<Rightarrow> False
      | Some boundary \<Rightarrow> boundary = bp_trigger_candle_open_epoch p \<and>
          bp_htf_context_minutes p \<noteq> [] \<and>
          list_all (\<lambda>m. supported_context m \<and> boundary mod (m * 60) = 0) (bp_htf_context_minutes p))"

definition commonFailure :: "match_request \<Rightarrow> int \<Rightarrow> string list" where
  "commonFailure r triggerEpoch =
     (if su_common_fidelity (rq_setup r) \<noteq> EXACT then [''COMMON_SETUP_NOT_EXACT'']
      else if su_invalidated_before_entry (rq_setup r) then [''SETUP_INVALIDATED'']
      else case su_zone_engaged_epoch (rq_setup r) of
          None \<Rightarrow> [''ENTRY_BEFORE_ZONE_ENGAGEMENT'']
        | Some engaged \<Rightarrow> if triggerEpoch < engaged then [''ENTRY_BEFORE_ZONE_ENGAGEMENT''] else [])"

definition realtimeFailure :: "proof_plane \<Rightarrow> replayability \<Rightarrow> bool \<Rightarrow> string list" where
  "realtimeFailure proofPlane replay isRealtime =
     (if proofPlane = REALTIME_TICK
      then (if \<not> isRealtime \<or> replay \<noteq> LIVE_EXACT_NON_REPLAYABLE
            then [''REALTIME_EVIDENCE_NOT_LIVE''] else [])
      else if replay \<noteq> REPLAYABLE then [''EVIDENCE_REPLAYABILITY_MISMATCH''] else [])"

definition contactsZone :: "match_request \<Rightarrow> ordered_candle \<Rightarrow> bool" where
  "contactsZone r c \<longleftrightarrow> low_ticks c \<le> su_zone_top_ticks (rq_setup r) \<and>
     high_ticks c \<ge> su_zone_bottom_ticks (rq_setup r)"

definition candleCrossesHtfOpen :: "match_request \<Rightarrow> flip_proof \<Rightarrow> ordered_candle \<Rightarrow> bool" where
  "candleCrossesHtfOpen r p c = (if su_direction (rq_setup r) = LONG
     then high_ticks c > fp_htf_open_ticks p else low_ticks c < fp_htf_open_ticks p)"

definition actualTickCrossesHtfOpen :: "match_request \<Rightarrow> flip_proof \<Rightarrow> ordered_candle \<Rightarrow> bool" where
  "actualTickCrossesHtfOpen r p c = (if su_direction (rq_setup r) = LONG
     then close_ticks c > fp_htf_open_ticks p else close_ticks c < fp_htf_open_ticks p)"

definition flipLifecycleFailure :: "match_request \<Rightarrow> flip_proof \<Rightarrow> string list" where
  "flipLifecycleFailure r p =
     (case (fp_contact_candle p, fp_recross_candle p) of
        (Some contact, Some recross) \<Rightarrow>
          if fp_coverage_gap_detected p then [''HTF_FLIP_COVERAGE_GAP'']
          else if \<not> fp_full_lifecycle_ordered p then [''HTF_FLIP_ORDER_UNPROVEN'']
          else if fp_destination_seen_before_contact p then [''HTF_FLIP_DESTINATION_BEFORE_CONTACT'']
          else if fp_ambiguity_codes p \<noteq> [] then [''HTF_FLIP_AMBIGUOUS'']
          else if fp_event_anchor_epoch p > open_epoch contact then [''HTF_FLIP_ANCHOR_AFTER_CONTACT'']
          else if list_ex (\<lambda>m. fp_trigger_epoch p \<ge> fp_event_anchor_epoch p + m * 60)
              (fp_htf_context_minutes p) then [''HTF_FLIP_TRIGGER_OUTSIDE_CONTEXT'']
          else if \<not> contactsZone r contact then [''HTF_FLIP_CONTACT_OUTSIDE_ZONE'']
          else if candleCrossesHtfOpen r p contact then [''HTF_FLIP_CONTACT_ALREADY_RECROSSED'']
          else if \<not> actualTickCrossesHtfOpen r p recross then [''HTF_FLIP_OPEN_NOT_RECROSSED'']
          else if fp_htf_context_minutes p = [] \<or>
              list_ex (\<lambda>m. fp_event_anchor_epoch p mod (m * 60) \<noteq> 0) (fp_htf_context_minutes p)
            then [''HTF_FLIP_CONTEXT_MISALIGNED'']
          else []
      | _ \<Rightarrow> [''HTF_FLIP_INCOMPLETE_LIFECYCLE''])"

section \<open>Records\<close>

definition make_candidate :: "platform \<Rightarrow> match_request \<Rightarrow> entry_model \<Rightarrow> candidate_state \<Rightarrow> int
    \<Rightarrow> boc_tier option \<Rightarrow> int option \<Rightarrow> string list \<Rightarrow> candidate" where
  "make_candidate P r model state eventAnchorEpoch bocTier referenceCandleOpenEpoch sourceClaimIds =
     (let identity = \<lparr>id_setup_id = su_setup_id (rq_setup r), id_model = model,
          id_direction = su_direction (rq_setup r), id_event_anchor_epoch = eventAnchorEpoch,
          id_trigger_ordinal = 1, id_boc_tier = bocTier,
          id_reference_candle_open_epoch = referenceCandleOpenEpoch\<rparr> in
      \<lparr>cd_candidate_id = candidateIdV3 P identity, cd_setup_id = id_setup_id identity,
       cd_model = id_model identity, cd_state = state, cd_direction = id_direction identity,
       cd_event_anchor_epoch = id_event_anchor_epoch identity,
       cd_trigger_ordinal = id_trigger_ordinal identity, cd_boc_tier = id_boc_tier identity,
       cd_reference_candle_open_epoch = id_reference_candle_open_epoch identity,
       cd_source_claim_ids = sourceClaimIds, cd_observed_at_epoch = rq_observed_at_epoch r\<rparr>)"

definition make_evidence :: "platform \<Rightarrow> match_request \<Rightarrow> candidate \<Rightarrow> evidence_fields \<Rightarrow> evidence" where
  "make_evidence P r c f =
     (let payload = \<lparr>ev_evidence_id = [], ev_candidate_id = cd_candidate_id c,
          ev_observed_trigger_epoch = Some (ef_observed_trigger_epoch f),
          ev_trigger_sequence = ef_trigger_sequence f,
          ev_observed_trigger_ticks = Some (ef_observed_trigger_ticks f),
          ev_htf_context_minutes = ef_htf_context_minutes f, ev_fidelity = ef_fidelity f,
          ev_proof_plane = ef_proof_plane f, ev_replayability = ef_replayability f,
          ev_coverage_start_epoch = ef_coverage_start_epoch f,
          ev_coverage_end_epoch = ef_coverage_end_epoch f,
          ev_ambiguity_codes = ef_ambiguity_codes f, ev_boc_tier = ef_boc_tier f,
          ev_reference_candle_open_epoch = map_option open_epoch (ef_reference_candle f),
          ev_reference_candle_open_ticks = map_option open_ticks (ef_reference_candle f),
          ev_reference_candle_high_ticks = map_option high_ticks (ef_reference_candle f),
          ev_reference_candle_low_ticks = map_option low_ticks (ef_reference_candle f),
          ev_reference_candle_close_ticks = map_option close_ticks (ef_reference_candle f),
          ev_htf_open_ticks = ef_htf_open_ticks f, ev_contact_candle = ef_contact_candle f,
          ev_recross_candle = ef_recross_candle f,
          ev_coverage_gap_detected = ef_coverage_gap_detected f,
          ev_full_lifecycle_ordered = ef_full_lifecycle_ordered f,
          ev_destination_seen_before_contact = ef_destination_seen_before_contact f,
          ev_passed_rule_ids = ef_passed_rule_ids f, ev_failed_rule_ids = ef_failed_rule_ids f,
          ev_source_claim_ids = ef_source_claim_ids f, ev_payload_sha256 = [],
          ev_observed_at_epoch = rq_observed_at_epoch r\<rparr>;
          hashed = payload\<lparr>ev_payload_sha256 := evidencePayloadSha256V3 P payload\<rparr> in
      hashed\<lparr>ev_evidence_id := evidenceIdV3 P hashed\<rparr>)"

section \<open>The three models\<close>

text \<open>State, fidelity, passed and failed rules of a BOC proof.\<close>

definition boc_outcome :: "match_request \<Rightarrow> boc_proof
    \<Rightarrow> candidate_state \<times> fidelity \<times> string list \<times> string list" where
  "boc_outcome r p =
     (let strict = strictBocContext p;
          common = commonFailure r (bp_trigger_epoch p);
          realtime = realtimeFailure (bp_proof_plane p) (bp_replayability p) (bp_is_realtime p);
          (state, fid, passed, failed) =
            (if common \<noteq> [] then (BLOCKED, bp_fidelity p, [], common)
             else if \<not> bocBreaksReference r p
               then (REJECTED, bp_fidelity p, [], [''BOC_WRONG_DIRECTION''])
             else if realtime \<noteq> [] then (BLOCKED, bp_fidelity p, [], realtime)
             else if bp_fidelity p \<noteq> EXACT
               then (BLOCKED, bp_fidelity p, [], [''MODEL_EVIDENCE_NOT_EXACT''])
             else if \<not> strict
               then (MATCHED, DISCRETIONARY, [], [''BOC_DISCRETIONARY_CONTEXT_UNQUANTIFIED''])
             else (MATCHED, bp_fidelity p, [''ENTRY_BOC_HTF_TIMED''], []))
      in (state, if failed \<noteq> [] \<and> fid = EXACT then UNRESOLVED else fid, passed, failed))"

definition matchBoc :: "platform \<Rightarrow> match_request \<Rightarrow> boc_proof \<Rightarrow> candidate \<times> evidence" where
  "matchBoc P r p =
     (let strict = strictBocContext p;
          bocTier = (if strict then HTF_TIMED else DISCRETIONARY_5M);
          sourceClaimIds = (if strict then SOURCE_CLAIMS_BOC_HTF_TIMED
            else SOURCE_CLAIMS_BOC_DISCRETIONARY_5M);
          (state, fid, passed, failed) = boc_outcome r p;
          c = make_candidate P r BOC state (open_epoch (bp_reference_candle p)) (Some bocTier)
            (Some (open_epoch (bp_reference_candle p))) sourceClaimIds
      in (c, make_evidence P r c
           \<lparr>ef_observed_trigger_epoch = bp_trigger_epoch p, ef_trigger_sequence = bp_trigger_sequence p,
            ef_observed_trigger_ticks = bp_trigger_ticks p,
            ef_htf_context_minutes = bp_htf_context_minutes p, ef_fidelity = fid,
            ef_proof_plane = bp_proof_plane p, ef_replayability = bp_replayability p,
            ef_coverage_start_epoch = bp_coverage_start_epoch p,
            ef_coverage_end_epoch = bp_coverage_end_epoch p, ef_boc_tier = Some bocTier,
            ef_reference_candle = Some (bp_reference_candle p), ef_ambiguity_codes = [],
            ef_htf_open_ticks = None, ef_contact_candle = None, ef_recross_candle = None,
            ef_coverage_gap_detected = None, ef_full_lifecycle_ordered = None,
            ef_destination_seen_before_contact = None, ef_passed_rule_ids = passed,
            ef_failed_rule_ids = failed, ef_source_claim_ids = sourceClaimIds\<rparr>))"

definition close_outcome :: "match_request \<Rightarrow> ordered_candle
    \<Rightarrow> candidate_state \<times> string list \<times> string list" where
  "close_outcome r bar =
     (let common = commonFailure r (close_epoch bar) in
      if common \<noteq> [] then (BLOCKED, [], common)
      else if close_epoch bar - open_epoch bar \<noteq> 300
        then (BLOCKED, [], [''DIR_CLOSE_NOT_CONFIRMED_5M''])
      else (MATCHED, [''ENTRY_DIR_CLOSE''], []))"

definition matchClose :: "platform \<Rightarrow> match_request \<Rightarrow> ordered_candle \<Rightarrow> candidate \<times> evidence" where
  "matchClose P r bar =
     (let (state, passed, failed) = close_outcome r bar;
          c = make_candidate P r DIR_CLOSE state (open_epoch bar) None None SOURCE_CLAIMS_DIR_CLOSE
      in (c, make_evidence P r c
           \<lparr>ef_observed_trigger_epoch = close_epoch bar,
            ef_trigger_sequence = rq_close_trigger_sequence r,
            ef_observed_trigger_ticks = close_ticks bar, ef_htf_context_minutes = [],
            ef_fidelity = (if state = MATCHED then EXACT else UNRESOLVED),
            ef_proof_plane = CONFIRMED_5M, ef_replayability = REPLAYABLE,
            ef_coverage_start_epoch = open_epoch bar, ef_coverage_end_epoch = close_epoch bar,
            ef_boc_tier = None, ef_reference_candle = None, ef_ambiguity_codes = [],
            ef_htf_open_ticks = None, ef_contact_candle = None, ef_recross_candle = None,
            ef_coverage_gap_detected = None, ef_full_lifecycle_ordered = None,
            ef_destination_seen_before_contact = None, ef_passed_rule_ids = passed,
            ef_failed_rule_ids = failed, ef_source_claim_ids = SOURCE_CLAIMS_DIR_CLOSE\<rparr>))"

definition flip_outcome :: "match_request \<Rightarrow> flip_proof
    \<Rightarrow> candidate_state \<times> string list \<times> string list" where
  "flip_outcome r p =
     (let common = commonFailure r (fp_trigger_epoch p);
          lifecycle = flipLifecycleFailure r p;
          realtime = realtimeFailure (fp_proof_plane p) (fp_replayability p) (fp_is_realtime p) in
      if common \<noteq> [] then (BLOCKED, [], common)
      else if lifecycle \<noteq> [] then (BLOCKED, [], lifecycle)
      else if realtime \<noteq> [] then (BLOCKED, [], realtime)
      else if fp_fidelity p \<noteq> EXACT then (BLOCKED, [], [''MODEL_EVIDENCE_NOT_EXACT''])
      else (MATCHED, [''ENTRY_HTF_FLIP''], []))"

definition matchFlip :: "platform \<Rightarrow> match_request \<Rightarrow> flip_proof \<Rightarrow> candidate \<times> evidence" where
  "matchFlip P r p =
     (let (state, passed, failed) = flip_outcome r p;
          c = make_candidate P r HTF_FLIP state (fp_event_anchor_epoch p) None None SOURCE_CLAIMS_HTF_FLIP
      in (c, make_evidence P r c
           \<lparr>ef_observed_trigger_epoch = fp_trigger_epoch p, ef_trigger_sequence = fp_trigger_sequence p,
            ef_observed_trigger_ticks = fp_trigger_ticks p,
            ef_htf_context_minutes = fp_htf_context_minutes p,
            ef_fidelity = (if state = MATCHED then EXACT else UNRESOLVED),
            ef_proof_plane = fp_proof_plane p, ef_replayability = fp_replayability p,
            ef_coverage_start_epoch = fp_coverage_start_epoch p,
            ef_coverage_end_epoch = fp_coverage_end_epoch p, ef_boc_tier = None,
            ef_reference_candle = None, ef_ambiguity_codes = fp_ambiguity_codes p,
            ef_htf_open_ticks = Some (fp_htf_open_ticks p), ef_contact_candle = fp_contact_candle p,
            ef_recross_candle = fp_recross_candle p,
            ef_coverage_gap_detected = Some (fp_coverage_gap_detected p),
            ef_full_lifecycle_ordered = Some (fp_full_lifecycle_ordered p),
            ef_destination_seen_before_contact = Some (fp_destination_seen_before_contact p),
            ef_passed_rule_ids = passed, ef_failed_rule_ids = failed,
            ef_source_claim_ids = SOURCE_CLAIMS_HTF_FLIP\<rparr>))"

definition matched_pairs :: "platform \<Rightarrow> match_request \<Rightarrow> (candidate \<times> evidence) list result" where
  "matched_pairs P r =
     (let boc = (case rq_boc_proof r of None \<Rightarrow> [] | Some p \<Rightarrow> [matchBoc P r p]);
          flip = (case rq_htf_flip_proof r of None \<Rightarrow> [] | Some p \<Rightarrow> [matchFlip P r p]) in
      if rq_directional_close r
      then (case rq_confirmed_bar r of
              None \<Rightarrow> Inl (TypeError ''directional_close requires confirmed_bar'')
            | Some bar \<Rightarrow> Inr (boc @ [matchClose P r bar] @ flip))
      else Inr (boc @ flip))"

definition matchEntryCandidatesV3 :: "platform \<Rightarrow> match_request \<Rightarrow> match_result result" where
  "matchEntryCandidatesV3 P r =
     and_then (matched_pairs P r) (\<lambda>matched. Inr
       \<lparr>mr_candidates = js_sort (\<lambda>a b. localeCompare P (cd_candidate_id a) (cd_candidate_id b))
          (map fst matched),
        mr_evidence = js_sort (\<lambda>a b. localeCompare P (ev_evidence_id a) (ev_evidence_id b))
          (map snd matched)\<rparr>)"

section \<open>Fields of the matched records\<close>

lemma make_candidate_fields [simp]:
  "cd_setup_id (make_candidate P r m st a tier ref claims) = su_setup_id (rq_setup r)"
  "cd_model (make_candidate P r m st a tier ref claims) = m"
  "cd_state (make_candidate P r m st a tier ref claims) = st"
  "cd_direction (make_candidate P r m st a tier ref claims) = su_direction (rq_setup r)"
  "cd_event_anchor_epoch (make_candidate P r m st a tier ref claims) = a"
  "cd_trigger_ordinal (make_candidate P r m st a tier ref claims) = 1"
  "cd_boc_tier (make_candidate P r m st a tier ref claims) = tier"
  "cd_reference_candle_open_epoch (make_candidate P r m st a tier ref claims) = ref"
  "cd_source_claim_ids (make_candidate P r m st a tier ref claims) = claims"
  "cd_observed_at_epoch (make_candidate P r m st a tier ref claims) = rq_observed_at_epoch r"
  by (simp_all add: make_candidate_def Let_def)

lemma make_evidence_fields [simp]:
  "ev_candidate_id (make_evidence P r c f) = cd_candidate_id c"
  "ev_observed_trigger_epoch (make_evidence P r c f) = Some (ef_observed_trigger_epoch f)"
  "ev_trigger_sequence (make_evidence P r c f) = ef_trigger_sequence f"
  "ev_observed_trigger_ticks (make_evidence P r c f) = Some (ef_observed_trigger_ticks f)"
  "ev_htf_context_minutes (make_evidence P r c f) = ef_htf_context_minutes f"
  "ev_fidelity (make_evidence P r c f) = ef_fidelity f"
  "ev_proof_plane (make_evidence P r c f) = ef_proof_plane f"
  "ev_replayability (make_evidence P r c f) = ef_replayability f"
  "ev_coverage_start_epoch (make_evidence P r c f) = ef_coverage_start_epoch f"
  "ev_coverage_end_epoch (make_evidence P r c f) = ef_coverage_end_epoch f"
  "ev_ambiguity_codes (make_evidence P r c f) = ef_ambiguity_codes f"
  "ev_boc_tier (make_evidence P r c f) = ef_boc_tier f"
  "ev_reference_candle_open_epoch (make_evidence P r c f) = map_option open_epoch (ef_reference_candle f)"
  "ev_reference_candle_open_ticks (make_evidence P r c f) = map_option open_ticks (ef_reference_candle f)"
  "ev_reference_candle_high_ticks (make_evidence P r c f) = map_option high_ticks (ef_reference_candle f)"
  "ev_reference_candle_low_ticks (make_evidence P r c f) = map_option low_ticks (ef_reference_candle f)"
  "ev_reference_candle_close_ticks (make_evidence P r c f) = map_option close_ticks (ef_reference_candle f)"
  "ev_htf_open_ticks (make_evidence P r c f) = ef_htf_open_ticks f"
  "ev_contact_candle (make_evidence P r c f) = ef_contact_candle f"
  "ev_recross_candle (make_evidence P r c f) = ef_recross_candle f"
  "ev_coverage_gap_detected (make_evidence P r c f) = ef_coverage_gap_detected f"
  "ev_full_lifecycle_ordered (make_evidence P r c f) = ef_full_lifecycle_ordered f"
  "ev_destination_seen_before_contact (make_evidence P r c f) = ef_destination_seen_before_contact f"
  "ev_passed_rule_ids (make_evidence P r c f) = ef_passed_rule_ids f"
  "ev_failed_rule_ids (make_evidence P r c f) = ef_failed_rule_ids f"
  "ev_source_claim_ids (make_evidence P r c f) = ef_source_claim_ids f"
  "ev_observed_at_epoch (make_evidence P r c f) = rq_observed_at_epoch r"
  by (simp_all add: make_evidence_def Let_def)

text \<open>The records certify themselves: their identifiers are the digests of their own fields.\<close>

definition identity_of :: "candidate \<Rightarrow> candidate_identity" where
  "identity_of c = \<lparr>id_setup_id = cd_setup_id c, id_model = cd_model c, id_direction = cd_direction c,
     id_event_anchor_epoch = cd_event_anchor_epoch c, id_trigger_ordinal = cd_trigger_ordinal c,
     id_boc_tier = cd_boc_tier c, id_reference_candle_open_epoch = cd_reference_candle_open_epoch c\<rparr>"

lemma make_candidate_id:
  "cd_candidate_id (make_candidate P r m st a tier ref claims) =
     candidateIdV3 P (identity_of (make_candidate P r m st a tier ref claims))"
  by (simp add: identity_of_def) (simp add: make_candidate_def)

lemma make_evidence_ids:
  "ev_evidence_id (make_evidence P r c f) = evidenceIdV3 P (make_evidence P r c f)"
  "ev_payload_sha256 (make_evidence P r c f) = evidencePayloadSha256V3 P (make_evidence P r c f)"
  by (simp_all add: make_evidence_def Let_def evidenceIdV3_def evidence_identity_json_def
      evidencePayloadSha256V3_def evidence_payload_json_def)

text \<open>When the setup-level rules let a trigger pass.\<close>

lemma commonFailure_Nil_iff:
  "commonFailure r t = [] \<longleftrightarrow> su_common_fidelity (rq_setup r) = EXACT \<and>
     \<not> su_invalidated_before_entry (rq_setup r) \<and>
     (\<exists>z. su_zone_engaged_epoch (rq_setup r) = Some z \<and> z \<le> t)"
  by (auto simp: commonFailure_def split: option.splits)

lemma realtimeFailure_Nil_iff:
  "realtimeFailure plane rp live = [] \<longleftrightarrow>
     (if plane = REALTIME_TICK then live \<and> rp = LIVE_EXACT_NON_REPLAYABLE else rp = REPLAYABLE)"
  by (simp add: realtimeFailure_def)

text \<open>A rule failure and an exact fidelity exclude each other in every model.\<close>

lemma boc_outcome_cases:
  assumes "boc_outcome r p = (st, fid, passed, failed)"
  shows "(st = MATCHED \<and> fid = EXACT \<and> passed = [''ENTRY_BOC_HTF_TIMED''] \<and> failed = [] \<and>
      commonFailure r (bp_trigger_epoch p) = [] \<and> bocBreaksReference r p \<and> strictBocContext p \<and>
      realtimeFailure (bp_proof_plane p) (bp_replayability p) (bp_is_realtime p) = [] \<and> bp_fidelity p = EXACT) \<or>
    (fid \<noteq> EXACT \<and> passed = [] \<and> length failed = 1 \<and> hd failed \<noteq> [])"
  using assms
  by (auto simp: boc_outcome_def Let_def commonFailure_def realtimeFailure_def
      split: if_splits option.splits prod.splits)

lemma close_outcome_cases:
  assumes "close_outcome r bar = (st, passed, failed)"
  shows "(st = MATCHED \<and> passed = [''ENTRY_DIR_CLOSE''] \<and> failed = [] \<and>
      commonFailure r (close_epoch bar) = [] \<and> close_epoch bar - open_epoch bar = 300) \<or>
    (st \<noteq> MATCHED \<and> passed = [] \<and> length failed = 1 \<and> hd failed \<noteq> [])"
  using assms
  by (auto simp: close_outcome_def Let_def commonFailure_def split: if_splits option.splits)

lemma flipLifecycleFailure_shape:
  "flipLifecycleFailure r p = [] \<or> (length (flipLifecycleFailure r p) = 1 \<and> hd (flipLifecycleFailure r p) \<noteq> [])"
  by (cases "fp_contact_candle p"; cases "fp_recross_candle p") (simp_all add: flipLifecycleFailure_def)

lemma commonFailure_shape:
  "commonFailure r t = [] \<or> (length (commonFailure r t) = 1 \<and> hd (commonFailure r t) \<noteq> [])"
  by (simp add: commonFailure_def split: option.splits)

lemma realtimeFailure_shape:
  "realtimeFailure pl rp live = [] \<or> (length (realtimeFailure pl rp live) = 1 \<and> hd (realtimeFailure pl rp live) \<noteq> [])"
  by (simp add: realtimeFailure_def)

lemma flip_outcome_cases:
  assumes "flip_outcome r p = (st, passed, failed)"
  shows "(st = MATCHED \<and> passed = [''ENTRY_HTF_FLIP''] \<and> failed = [] \<and>
      commonFailure r (fp_trigger_epoch p) = [] \<and> flipLifecycleFailure r p = [] \<and>
      realtimeFailure (fp_proof_plane p) (fp_replayability p) (fp_is_realtime p) = [] \<and> fp_fidelity p = EXACT) \<or>
    (st \<noteq> MATCHED \<and> passed = [] \<and> length failed = 1 \<and> hd failed \<noteq> [])"
  using assms flipLifecycleFailure_shape[of r p] commonFailure_shape[of r "fp_trigger_epoch p"]
    realtimeFailure_shape[of "fp_proof_plane p" "fp_replayability p" "fp_is_realtime p"]
  by (auto simp: flip_outcome_def Let_def split: if_splits)

end
