(* ===== verification/Rd_Arbitrator.thy ===== *)
theory Rd_Arbitrator
  imports Rd_Matcher
begin

text \<open>
  The arbitrator of \<open>rd-entry-arbitrator-v3.ts\<close>: which evidence is exact and eligible, which
  eligible candidate is canonical, and the composed evaluation
  \<open>evaluateEntryV3Bundle\<close> = validate input, match, arbitrate, validate result. The lemmas say what a
  paper-eligible selection guarantees, that the choice is the earliest exact trigger and that it
  does not depend on the order in which records are presented.
\<close>

section \<open>Chronology of events\<close>

definition eventKey :: "evidence \<Rightarrow> (int \<times> int) result" where
  "eventKey e = (case ev_observed_trigger_epoch e of
     None \<Rightarrow> Inl (TypeError ''eligible evidence requires trigger epoch'')
   | Some t \<Rightarrow> Inr (t, ev_trigger_sequence e))"

definition compareEvent :: "evidence \<Rightarrow> evidence \<Rightarrow> int result" where
  "compareEvent left right =
     and_then (eventKey left) (\<lambda>a. and_then (eventKey right) (\<lambda>b.
       Inr (or_else (fst a - fst b) (snd a - snd b))))"

text \<open>
  The comparators handed to \<open>sort\<close>. They are applied to exact eligible evidence only, whose
  trigger epoch is present, so \<open>compareEvent\<close> does not throw there (\<open>compareEvent_eligible\<close>).
\<close>

definition event_order :: "evidence \<Rightarrow> evidence \<Rightarrow> int" where
  "event_order left right = (case compareEvent left right of Inl _ \<Rightarrow> 0 | Inr d \<Rightarrow> d)"

definition evidence_order :: "platform \<Rightarrow> evidence \<Rightarrow> evidence \<Rightarrow> int" where
  "evidence_order P left right =
     or_else (event_order left right) (localeCompare P (ev_evidence_id left) (ev_evidence_id right))"

type_synonym eligible_pair = "candidate \<times> evidence"

definition pair_order :: "platform \<Rightarrow> eligible_pair \<Rightarrow> eligible_pair \<Rightarrow> int" where
  "pair_order P left right =
     or_else (event_order (snd left) (snd right))
       (localeCompare P (cd_candidate_id (fst left)) (cd_candidate_id (fst right)))"

section \<open>Exact eligibility\<close>

definition eligible_boc :: "candidate \<Rightarrow> evidence \<Rightarrow> int \<Rightarrow> bool" where
  "eligible_boc c e trigger =
     (case (cd_reference_candle_open_epoch c, ev_reference_candle_open_epoch e) of
        (Some candidateRef, Some evidenceRef) \<Rightarrow>
          let triggerOpen = trigger div 300 * 300 in
          cd_boc_tier c = Some HTF_TIMED \<and> cd_event_anchor_epoch c = candidateRef \<and>
          candidateRef mod 300 = 0 \<and> evidenceRef + 300 \<le> triggerOpen \<and>
          ev_htf_context_minutes e \<noteq> [] \<and>
          list_all (\<lambda>m. triggerOpen mod (m * 60) = 0) (ev_htf_context_minutes e)
      | _ \<Rightarrow> False)"

definition eligible_close :: "candidate \<Rightarrow> evidence \<Rightarrow> int \<Rightarrow> bool" where
  "eligible_close c e trigger \<longleftrightarrow> cd_event_anchor_epoch c = ev_coverage_start_epoch e \<and>
     ev_coverage_end_epoch e - ev_coverage_start_epoch e = 300 \<and> trigger = ev_coverage_end_epoch e"

definition eligible_flip :: "candidate \<Rightarrow> evidence \<Rightarrow> int \<Rightarrow> bool" where
  "eligible_flip c e trigger =
     (case (ev_htf_open_ticks e, ev_contact_candle e, ev_recross_candle e) of
        (Some htfOpen, Some contact, Some recross) \<Rightarrow>
          ev_coverage_gap_detected e = Some False \<and> ev_full_lifecycle_ordered e = Some True \<and>
          ev_destination_seen_before_contact e = Some False \<and>
          (if cd_direction c = LONG then close_ticks recross > htfOpen
           else close_ticks recross < htfOpen) \<and>
          \<not> (if cd_direction c = LONG then high_ticks contact > htfOpen
             else low_ticks contact < htfOpen) \<and>
          cd_event_anchor_epoch c \<le> open_epoch contact \<and> ev_htf_context_minutes e \<noteq> [] \<and>
          list_all (\<lambda>m. trigger < cd_event_anchor_epoch c + m * 60) (ev_htf_context_minutes e)
      | _ \<Rightarrow> False)"

definition eligible_plane :: "candidate \<Rightarrow> evidence \<Rightarrow> bool" where
  "eligible_plane c e \<longleftrightarrow>
     ev_proof_plane e = LOWER_TIMEFRAME_REPLAY \<or> ev_proof_plane e = EXTERNAL_ARCHIVED_TICK \<or>
     (ev_proof_plane e = REALTIME_TICK \<and> ev_replayability e = LIVE_EXACT_NON_REPLAYABLE) \<or>
     (cd_model c = DIR_CLOSE \<and> ev_proof_plane e = CONFIRMED_5M \<and> ev_replayability e = REPLAYABLE)"

definition exactEligibleV3 :: "candidate \<Rightarrow> evidence \<Rightarrow> bool" where
  "exactEligibleV3 c e =
     (case ev_observed_trigger_epoch e of
        None \<Rightarrow> False
      | Some trigger \<Rightarrow>
          cd_state c = MATCHED \<and> ev_fidelity e = EXACT \<and> ev_ambiguity_codes e = [] \<and>
          ev_passed_rule_ids e = [EXPECTED_RULES (cd_model c)] \<and> ev_failed_rule_ids e = [] \<and>
          ev_boc_tier e = cd_boc_tier c \<and>
          ev_reference_candle_open_epoch e = cd_reference_candle_open_epoch c \<and>
          (case cd_model c of BOC \<Rightarrow> eligible_boc c e trigger | DIR_CLOSE \<Rightarrow> eligible_close c e trigger
             | HTF_FLIP \<Rightarrow> eligible_flip c e trigger) \<and>
          (cd_model c = HTF_FLIP \<or> \<not> list_ex id (flip_fields_present e)) \<and>
          eligible_plane c e)"

section \<open>Arbitration\<close>

definition make_selection :: "platform \<Rightarrow> string \<Rightarrow> int \<Rightarrow> int \<Rightarrow> string list \<Rightarrow> eligible_pair option
    \<Rightarrow> selection_reason \<Rightarrow> selection_action \<Rightarrow> entry_model list \<Rightarrow> selection" where
  "make_selection P setupId revision evaluatedAt candidateIds canonical reason action coTriggered =
     (let identity = \<lparr>sl_selection_id = [], sl_setup_id = setupId,
          sl_policy_version = POLICY_VERSION_V3, sl_revision = revision,
          sl_candidate_ids_considered = candidateIds,
          sl_canonical_candidate_id = map_option (cd_candidate_id \<circ> fst) canonical,
          sl_canonical_evidence_id = map_option (ev_evidence_id \<circ> snd) canonical,
          sl_canonical_model = map_option (cd_model \<circ> fst) canonical, sl_reason = reason,
          sl_fidelity = map_option (ev_fidelity \<circ> snd) canonical, sl_action = action,
          sl_co_triggered_models = coTriggered, sl_evaluated_at_epoch = evaluatedAt\<rparr>
      in identity\<lparr>sl_selection_id := selectionIdV3 P identity\<rparr>)"

text \<open>The loop that collects the exact eligible evidence of each candidate.\<close>

fun group_eligible :: "(string, candidate) js_map \<Rightarrow> evidence list
    \<Rightarrow> (string, evidence list) js_map \<Rightarrow> (string, evidence list) js_map result" where
  "group_eligible candidatesById [] grouped = Inr grouped"
| "group_eligible candidatesById (item # items) grouped =
     (case map_get candidatesById (ev_candidate_id item) of
        None \<Rightarrow> Inl (TypeError ''evidence references unknown candidate'')
      | Some c \<Rightarrow> group_eligible candidatesById items
          (if exactEligibleV3 c item
           then map_set (cd_candidate_id c)
             ((case map_get grouped (cd_candidate_id c) of None \<Rightarrow> [] | Some vs \<Rightarrow> vs) @ [item]) grouped
           else grouped))"

definition eligible_pairs :: "platform \<Rightarrow> (string, candidate) js_map
    \<Rightarrow> (string, evidence list) js_map \<Rightarrow> eligible_pair list" where
  "eligible_pairs P candidatesById grouped =
     js_sort (pair_order P)
       (map (\<lambda>(candidateId, values).
          (the (map_get candidatesById candidateId), hd (js_sort (evidence_order P) values))) grouped)"

definition earliest_pairs :: "eligible_pair list \<Rightarrow> eligible_pair list" where
  "earliest_pairs eligible =
     filter (\<lambda>p. eventKey (snd p) = eventKey (snd (hd eligible))) eligible"

definition hasBlockedAggressive :: "candidate list \<Rightarrow> eligible_pair list \<Rightarrow> bool" where
  "hasBlockedAggressive candidates eligible =
     (let eligibleIds = js_set (map (cd_candidate_id \<circ> fst) eligible) in
      list_ex (\<lambda>c. (cd_model c = BOC \<or> cd_model c = HTF_FLIP) \<and>
        cd_candidate_id c \<notin> set eligibleIds) candidates)"

text \<open>Everything after the records are indexed: a selection for every case.\<close>

definition decide :: "platform \<Rightarrow> string \<Rightarrow> bool \<Rightarrow> int \<Rightarrow> int \<Rightarrow> liquidity_cohort
    \<Rightarrow> (string, candidate) js_map \<Rightarrow> eligible_pair list \<Rightarrow> selection" where
  "decide P setupId invalidated revision evaluatedAt cohort candidatesById eligible =
     (let candidateIds = js_sort compare_units (map_keys candidatesById);
          select = make_selection P setupId revision evaluatedAt candidateIds;
          earliest = earliest_pairs eligible;
          models = js_set (map (cd_model \<circ> fst) earliest) in
      if invalidated then select None SETUP_INVALIDATED NO_ACTION []
      else if candidatesById = [] then select None NO_CANDIDATE NO_ACTION []
      else if eligible = [] then select None NO_EXACT_CANDIDATE SHADOW_ONLY []
      else if cohort = ONE_CANDLE then select None NO_EXACT_CANDIDATE SHADOW_ONLY []
      else if 1 < length models then
        (if 1 < length (js_set (map (ev_observed_trigger_ticks \<circ> snd) earliest))
         then select None CO_TRIGGER_PRICE_CONFLICT SHADOW_ONLY []
         else select (Some (hd (js_sort
                (\<lambda>l r. localeCompare P (cd_candidate_id (fst l)) (cd_candidate_id (fst r))) earliest)))
              CO_TRIGGER_SAME_EVENT PAPER_ELIGIBLE (sort_models models))
      else
        (let canonical = hd earliest in
         select (Some canonical)
           (if cd_model (fst canonical) = DIR_CLOSE \<and>
               hasBlockedAggressive (map_values candidatesById) eligible
            then FALLBACK_TO_CONFIRMED_CLOSE
            else if length candidatesById = 1 then ONLY_EXACT_TRIGGER
            else EARLIEST_EXACT_TRIGGER)
           PAPER_ELIGIBLE []))"

definition index_candidates :: "string \<Rightarrow> candidate list \<Rightarrow> (string, candidate) js_map result" where
  "index_candidates setupId candidates =
     index_by cd_candidate_id
       (\<lambda>c. fail_if (cd_setup_id c \<noteq> setupId)
          (TypeError ''candidate setup_id conflicts with arbitration''))
       (TypeError ''candidate identity conflict'') candidates []"

definition index_evidence :: "evidence list \<Rightarrow> (string, evidence) js_map result" where
  "index_evidence evidence =
     index_by ev_evidence_id (\<lambda>_. None) (TypeError ''evidence identity conflict'') evidence []"

definition arbitrateEntryCandidatesV3 :: "platform \<Rightarrow> string \<Rightarrow> candidate list \<Rightarrow> evidence list
    \<Rightarrow> bool \<Rightarrow> int \<Rightarrow> int \<Rightarrow> selection option \<Rightarrow> liquidity_cohort \<Rightarrow> selection result" where
  "arbitrateEntryCandidatesV3 P setupId candidates evidence invalidated revision evaluatedAt opened cohort =
     after_check
       (fail_if (setupId = [] \<or> js_trim setupId \<noteq> setupId \<or> \<not> is_safe_integer revision \<or> revision < 0 \<or>
           \<not> is_safe_integer evaluatedAt \<or> evaluatedAt < 0 \<or>
           list_ex (\<lambda>c. cd_observed_at_epoch c > evaluatedAt) candidates \<or>
           list_ex (\<lambda>e. ev_observed_at_epoch e > evaluatedAt) evidence)
         (TypeError ''invalid v3 arbitration request''))
       (case opened of
          Some s \<Rightarrow>
            after_check
              (fail_if (cohort = ONE_CANDLE \<or> sl_setup_id s \<noteq> setupId \<or>
                  sl_action s \<noteq> PAPER_ELIGIBLE \<or> sl_evaluated_at_epoch s > evaluatedAt)
                (TypeError ''invalid opened v3 selection''))
              (Inr s)
        | None \<Rightarrow>
            and_then (index_candidates setupId candidates) (\<lambda>candidatesById.
            and_then (index_evidence evidence) (\<lambda>evidenceById.
            and_then (group_eligible candidatesById (map_values evidenceById) []) (\<lambda>grouped.
            Inr (decide P setupId invalidated revision evaluatedAt cohort candidatesById
                  (eligible_pairs P candidatesById grouped))))))"

section \<open>Evaluation of a bundle\<close>

definition match_request_of :: "arbitration_input \<Rightarrow> match_request" where
  "match_request_of i = \<lparr>rq_setup = input_setup i, rq_boc_proof = ai_boc_proof i,
     rq_directional_close = ai_directional_close i, rq_confirmed_bar = ai_confirmed_bar i,
     rq_close_trigger_sequence = ai_close_trigger_sequence i,
     rq_htf_flip_proof = ai_htf_flip_proof i, rq_observed_at_epoch = ai_observed_at_epoch i\<rparr>"

definition evaluateWithoutOpenedSeed :: "platform \<Rightarrow> arbitration_input \<Rightarrow> evaluation result" where
  "evaluateWithoutOpenedSeed P i =
     and_then (matchEntryCandidatesV3 P (match_request_of i)) (\<lambda>matched.
     and_then (arbitrateEntryCandidatesV3 P (ai_setup_id i) (mr_candidates matched)
         (mr_evidence matched) (ai_setup_invalidated i) (ai_revision i) (ai_evaluated_at_epoch i)
         None (input_cohort i)) (\<lambda>s.
     let result = \<lparr>el_candidates = mr_candidates matched, el_evidence = mr_evidence matched,
           el_selection = s\<rparr>
     in after_check (validateEntryEvaluationV3 result) (Inr result)))"

definition seeded_input :: "arbitration_input \<Rightarrow> opened_seed \<Rightarrow> arbitration_input" where
  "seeded_input i seed = i\<lparr>ai_common_fidelity := EXACT, ai_setup_invalidated := False,
     ai_boc_proof := None, ai_directional_close := True,
     ai_confirmed_bar := Some (os_confirmed_bar seed),
     ai_close_trigger_sequence := os_trigger_sequence seed, ai_htf_flip_proof := None,
     ai_observed_at_epoch := os_evaluated_at_epoch seed, ai_revision := os_revision seed,
     ai_evaluated_at_epoch := os_evaluated_at_epoch seed, ai_opened_selection_seed := None\<rparr>"

definition evaluateEntryV3Bundle :: "platform \<Rightarrow> arbitration_input \<Rightarrow> evaluation result" where
  "evaluateEntryV3Bundle P i =
     after_check (validateEntryArbitrationInputV3 i)
       (case ai_opened_selection_seed i of
          None \<Rightarrow> evaluateWithoutOpenedSeed P i
        | Some seed \<Rightarrow> evaluateWithoutOpenedSeed P (seeded_input i seed))"

section \<open>The order of eligible evidence\<close>

definition trigger_key :: "evidence \<Rightarrow> int \<times> int" where
  "trigger_key e = (the (ev_observed_trigger_epoch e), ev_trigger_sequence e)"

definition key_le :: "int \<times> int \<Rightarrow> int \<times> int \<Rightarrow> bool" where
  "key_le a b \<longleftrightarrow> fst a < fst b \<or> fst a = fst b \<and> snd a \<le> snd b"

definition triggered :: "evidence \<Rightarrow> bool" where
  "triggered e \<longleftrightarrow> ev_observed_trigger_epoch e \<noteq> None"

lemma exactEligibleV3_triggered: "exactEligibleV3 c e \<Longrightarrow> triggered e"
  by (auto simp: exactEligibleV3_def triggered_def split: option.splits)

lemma eventKey_triggered: "triggered e \<Longrightarrow> eventKey e = Inr (trigger_key e)"
  by (auto simp: eventKey_def triggered_def trigger_key_def)

lemma compareEvent_eligible:
  assumes "exactEligibleV3 c e" and "exactEligibleV3 d f"
  shows "\<exists>n. compareEvent e f = Inr n"
  using assms[THEN exactEligibleV3_triggered] by (simp add: compareEvent_def eventKey_triggered)

lemma event_order_le_iff:
  "triggered e \<Longrightarrow> triggered f \<Longrightarrow> event_order e f \<le> 0 \<longleftrightarrow> key_le (trigger_key e) (trigger_key f)"
  by (auto simp: event_order_def compareEvent_def eventKey_triggered or_else_def key_le_def)

lemma event_order_eq_iff:
  "triggered e \<Longrightarrow> triggered f \<Longrightarrow> event_order e f = 0 \<longleftrightarrow> trigger_key e = trigger_key f"
  by (auto simp: event_order_def compareEvent_def eventKey_triggered or_else_def prod_eq_iff)

lemma key_le_linear:
  "key_le a b \<or> key_le b a"
  "key_le a b \<Longrightarrow> key_le b c \<Longrightarrow> key_le a c"
  "key_le a b \<Longrightarrow> key_le b a \<Longrightarrow> a = b"
  by (auto simp: key_le_def prod_eq_iff)

lemma key_le_refl [simp]: "key_le a a"
  by (simp add: key_le_def)

lemma or_else_le_iff: "or_else a b \<le> 0 \<longleftrightarrow> a < 0 \<or> a = 0 \<and> b \<le> (0::int)"
  by (auto simp: or_else_def)

text \<open>Sorting by event first and by an identifier on ties is strict when the identifier is.\<close>

lemma event_then_id_strict:
  assumes ids: "strict_comparator cmp A" and trig: "\<And>x. x \<in> A \<Longrightarrow> triggered (ev x)"
  shows "strict_comparator (\<lambda>x y. or_else (event_order (ev x) (ev y)) (cmp x y)) A"
proof -
  let ?k = "\<lambda>x. trigger_key (ev x)"
  have le: "or_else (event_order (ev x) (ev y)) (cmp x y) \<le> 0 \<longleftrightarrow>
      key_le (?k x) (?k y) \<and> (?k x = ?k y \<longrightarrow> cmp x y \<le> 0)" if "x \<in> A" "y \<in> A" for x y
    using that[THEN trig] event_order_le_iff[of "ev x" "ev y"] event_order_eq_iff[of "ev x" "ev y"]
    by (auto simp: or_else_le_iff)
  show ?thesis
  proof (unfold_locales, goal_cases)
    case (1 a b)
    then show ?case
      using key_le_linear(1,3)[of "?k a" "?k b"] comparator.total[OF strict_comparator.axioms(1)[OF ids], of a b]
      by (auto simp: le)
  next
    case (2 a b c)
    then show ?case
      using key_le_linear(2)[of "?k a" "?k b" "?k c"] key_le_linear(3)[of "?k a" "?k b"]
        comparator.trans[OF strict_comparator.axioms(1)[OF ids], of a b c]
      by (auto simp: le)
  next
    case (3 a b)
    then show ?case
      using key_le_linear(3)[of "?k a" "?k b"] strict_comparator.strict[OF ids, of a b] by (auto simp: le)
  qed
qed

section \<open>Grouping\<close>

definition eligible_in :: "(string, candidate) js_map \<Rightarrow> evidence \<Rightarrow> bool" where
  "eligible_in cb e = (case map_get cb (ev_candidate_id e) of None \<Rightarrow> False | Some c \<Rightarrow> exactEligibleV3 c e)"

definition group_values :: "(string, evidence list) js_map \<Rightarrow> string \<Rightarrow> evidence list" where
  "group_values g k = (case map_get g k of None \<Rightarrow> [] | Some vs \<Rightarrow> vs)"

definition keyed_by_id :: "(string, candidate) js_map \<Rightarrow> bool" where
  "keyed_by_id cb \<longleftrightarrow> (\<forall>k c. map_get cb k = Some c \<longrightarrow> cd_candidate_id c = k)"

definition nonempty_groups :: "(string, evidence list) js_map \<Rightarrow> bool" where
  "nonempty_groups g \<longleftrightarrow> distinct (map_keys g) \<and> (\<forall>k. map_get g k \<noteq> Some [])"

lemma nonempty_groups_put:
  "nonempty_groups g \<Longrightarrow> vs \<noteq> [] \<Longrightarrow> nonempty_groups (map_set k vs g)"
  by (auto simp: nonempty_groups_def jsmap.ok_put jsmap.get_put)

lemma group_values_put: "group_values (map_set k vs g) k' = (if k' = k then vs else group_values g k')"
  by (simp add: group_values_def jsmap.get_put)

lemma group_eligible_Inr:
  assumes "keyed_by_id cb"
  shows "group_eligible cb es g = Inr g' \<Longrightarrow> nonempty_groups g \<Longrightarrow>
    (\<forall>e\<in>set es. map_get cb (ev_candidate_id e) \<noteq> None) \<and> nonempty_groups g' \<and>
    (\<forall>k. group_values g' k =
      group_values g k @ filter (\<lambda>e. ev_candidate_id e = k \<and> eligible_in cb e) es)"
proof (induction es arbitrary: g)
  case (Cons e es)
  then obtain c where c: "map_get cb (ev_candidate_id e) = Some c"
    by (auto split: option.splits)
  with assms have id: "cd_candidate_id c = ev_candidate_id e" by (auto simp: keyed_by_id_def)
  show ?case
  proof (cases "exactEligibleV3 c e")
    case True
    let ?g = "map_set (ev_candidate_id e) (group_values g (ev_candidate_id e) @ [e]) g"
    have "group_eligible cb es ?g = Inr g'"
      using Cons.prems(1) c id True by (simp add: group_values_def)
    from Cons.IH[OF this] Cons.prems(2) c True show ?thesis
      by (auto simp: nonempty_groups_put group_values_put eligible_in_def)
  next
    case False
    with Cons.prems c have "group_eligible cb es g = Inr g'" by simp
    from Cons.IH[OF this Cons.prems(2)] c False show ?thesis
      by (simp add: eligible_in_def)
  qed
qed simp

lemma group_eligible_total:
  "\<forall>e\<in>set es. map_get cb (ev_candidate_id e) \<noteq> None \<Longrightarrow> \<exists>g'. group_eligible cb es g = Inr g'"
  by (induction es arbitrary: g) (auto split: option.splits)


section \<open>What the loops compute\<close>

text \<open>
  Specification over the sets of records: the exact eligible evidence of a candidate, its first
  piece, and the pairs the arbitrator compares.
\<close>

definition hex_ids :: "candidate list \<Rightarrow> evidence list \<Rightarrow> bool" where
  "hex_ids cs es \<longleftrightarrow> list_all (\<lambda>c. hex_string (cd_candidate_id c)) cs \<and>
     list_all (\<lambda>e. hex_string (ev_evidence_id e)) es"

definition eligible_of :: "evidence set \<Rightarrow> candidate \<Rightarrow> evidence set" where
  "eligible_of E c = {e \<in> E. ev_candidate_id e = cd_candidate_id c \<and> exactEligibleV3 c e}"

definition spec_pairs :: "platform \<Rightarrow> candidate set \<Rightarrow> evidence set \<Rightarrow> eligible_pair set" where
  "spec_pairs P C E = {(c, e). c \<in> C \<and> e \<in> eligible_of E c \<and>
     (\<forall>f\<in>eligible_of E c. evidence_order P e f \<le> 0)}"

lemma eligible_of_triggered: "e \<in> eligible_of E c \<Longrightarrow> triggered e"
  by (auto simp: eligible_of_def dest: exactEligibleV3_triggered)

lemma evidence_order_strict:
  assumes "collates_hex P" and "inj_on ev_evidence_id A"
    and "\<And>e. e \<in> A \<Longrightarrow> hex_string (ev_evidence_id e)" and "\<And>e. e \<in> A \<Longrightarrow> triggered e"
  shows "strict_comparator (evidence_order P) A"
  using event_then_id_strict[OF locale_strict_comparator[OF assms(1,3,2)], of "\<lambda>e. e"] assms(4)
  by (simp add: evidence_order_def[abs_def])

lemma pair_order_strict:
  assumes "collates_hex P" and "inj_on (\<lambda>p. cd_candidate_id (fst p)) A"
    and "\<And>p. p \<in> A \<Longrightarrow> hex_string (cd_candidate_id (fst p))" and "\<And>p. p \<in> A \<Longrightarrow> triggered (snd p)"
  shows "strict_comparator (pair_order P) A"
  using event_then_id_strict[OF locale_strict_comparator[OF assms(1,3,2)], of snd] assms(4)
  by (simp add: pair_order_def[abs_def])

lemma index_candidates_Inr_iff:
  "index_candidates setupId cs = Inr m \<longleftrightarrow>
     (\<forall>c\<in>set cs. cd_setup_id c = setupId) \<and> inj_on cd_candidate_id (set cs) \<and> m = candidates_by_id cs"
  by (auto simp: index_candidates_def index_by_empty_iff candidates_by_id_def)

lemma index_evidence_Inr_iff:
  "index_evidence es = Inr m \<longleftrightarrow> inj_on ev_evidence_id (set es) \<and> m = evidence_by_id es"
  by (auto simp: index_evidence_def index_by_empty_iff evidence_by_id_def)

lemma map_get_candidates_by_id:
  "inj_on cd_candidate_id (set cs) \<Longrightarrow>
   map_get (candidates_by_id cs) k = Some c \<longleftrightarrow> c \<in> set cs \<and> cd_candidate_id c = k"
  by (simp add: candidates_by_id_def jsmap.get_index_inj)

lemma keyed_candidates_by_id: "inj_on cd_candidate_id (set cs) \<Longrightarrow> keyed_by_id (candidates_by_id cs)"
  by (simp add: keyed_by_id_def map_get_candidates_by_id)

lemma map_values_index:
  assumes "inj_on key (set xs)"
  shows "set (map_values (fold (\<lambda>x. map_set (key x) x) xs [])) = set xs"
    and "distinct (map_values (fold (\<lambda>x. map_set (key x) x) xs []))"
proof -
  let ?m = "fold (\<lambda>x. map_set (key x) x) xs []"
  have keys: "distinct (map_keys ?m)" by (rule jsmap.ok_index) (simp add: jsmap.ok_empty)
  then have mem: "(k, x) \<in> set ?m \<longleftrightarrow> x \<in> set xs \<and> key x = k" for k x
    using jsmap.get_index_inj[OF assms, of k x] by (simp add: map_get_def map_keys_def)
  then show "set (map_values ?m) = set xs" by (force simp: map_values_def)
  have "inj_on snd (set ?m)" using mem by (auto simp: inj_on_def)
  with keys show "distinct (map_values ?m)"
    by (simp add: map_values_def map_keys_def distinct_map)
qed

lemma evidence_values:
  assumes "inj_on ev_evidence_id (set es)"
  shows "set (map_values (evidence_by_id es)) = set es"
  using map_values_index(1)[OF assms] by (simp add: evidence_by_id_def)

lemma candidate_values:
  assumes "inj_on cd_candidate_id (set cs)"
  shows "set (map_values (candidates_by_id cs)) = set cs"
    and "distinct (map_values (candidates_by_id cs))"
  using map_values_index[OF assms] by (simp_all add: candidates_by_id_def)

lemma group_known_iff:
  assumes "inj_on cd_candidate_id (set cs)" and "inj_on ev_evidence_id (set es)"
  shows "(\<exists>g. group_eligible (candidates_by_id cs) (map_values (evidence_by_id es)) [] = Inr g) \<longleftrightarrow>
     ev_candidate_id ` set es \<subseteq> cd_candidate_id ` set cs" (is "?l \<longleftrightarrow> ?r")
proof -
  have known: "map_get (candidates_by_id cs) k \<noteq> None \<longleftrightarrow> k \<in> cd_candidate_id ` set cs" for k
    using map_get_candidates_by_id[OF assms(1), of k] by force
  have start: "nonempty_groups []" by (simp add: nonempty_groups_def jsmap.get_empty map_keys_def)
  have all: "?r \<longleftrightarrow> (\<forall>e\<in>set (map_values (evidence_by_id es)).
      map_get (candidates_by_id cs) (ev_candidate_id e) \<noteq> None)"
    by (simp only: evidence_values[OF assms(2)] known image_subset_iff)
  have "?l \<Longrightarrow> ?r"
    unfolding all using group_eligible_Inr[OF keyed_candidates_by_id[OF assms(1)] _ start] by auto
  moreover have "?r \<Longrightarrow> ?l"
    unfolding all by (rule group_eligible_total)
  ultimately show ?thesis by (rule iffI)
qed

lemma grouped_members:
  assumes cs: "inj_on cd_candidate_id (set cs)" and es: "inj_on ev_evidence_id (set es)"
    and g: "group_eligible (candidates_by_id cs) (map_values (evidence_by_id es)) [] = Inr g"
  shows "distinct (map fst g)"
    and "(k, vs) \<in> set g \<Longrightarrow> \<exists>c\<in>set cs. cd_candidate_id c = k \<and> set vs = eligible_of (set es) c \<and> vs \<noteq> []"
    and "c \<in> set cs \<Longrightarrow> eligible_of (set es) c \<noteq> {} \<Longrightarrow>
      \<exists>vs. (cd_candidate_id c, vs) \<in> set g \<and> set vs = eligible_of (set es) c \<and> vs \<noteq> []"
proof -
  let ?cb = "candidates_by_id cs" and ?vs = "map_values (evidence_by_id es)"
  have "nonempty_groups []" by (simp add: nonempty_groups_def jsmap.get_empty map_keys_def)
  from group_eligible_Inr[OF keyed_candidates_by_id[OF cs] g this]
  have ne: "nonempty_groups g"
    and vals: "group_values g k = filter (\<lambda>e. ev_candidate_id e = k \<and> eligible_in ?cb e) ?vs" for k
    by (simp_all add: group_values_def jsmap.get_empty)
  show dist: "distinct (map fst g)" using ne by (simp add: nonempty_groups_def map_keys_def)
  have get: "(k, vs) \<in> set g \<longleftrightarrow> vs \<noteq> [] \<and> group_values g k = vs" for k vs
  proof -
    have "(k, vs) \<in> set g \<longleftrightarrow> map_get g k = Some vs"
      using map_of_eq_Some_iff[OF dist] by (simp add: map_get_def)
    with ne show ?thesis by (auto simp: nonempty_groups_def group_values_def split: option.splits)
  qed
  have elig: "set (group_values g (cd_candidate_id c)) = eligible_of (set es) c" if "c \<in> set cs" for c
    using that map_get_candidates_by_id[OF cs, of "cd_candidate_id c" c]
    by (auto simp: vals eligible_in_def eligible_of_def evidence_values[OF es])
  show "(k, vs) \<in> set g \<Longrightarrow> \<exists>c\<in>set cs. cd_candidate_id c = k \<and> set vs = eligible_of (set es) c \<and> vs \<noteq> []"
  proof -
    assume "(k, vs) \<in> set g"
    then have vs: "vs \<noteq> []" "group_values g k = vs" by (simp_all add: get)
    then have "hd vs \<in> set (filter (\<lambda>e. ev_candidate_id e = k \<and> eligible_in ?cb e) ?vs)"
      using vals[of k] hd_in_set[of vs] by simp
    then obtain e where "ev_candidate_id e = k" "eligible_in ?cb e" by auto
    then obtain c where "c \<in> set cs" "cd_candidate_id c = k"
      by (auto simp: eligible_in_def map_get_candidates_by_id[OF cs] split: option.splits)
    with elig[of c] vs show ?thesis by auto
  qed
  show "\<exists>vs. (cd_candidate_id c, vs) \<in> set g \<and> set vs = eligible_of (set es) c \<and> vs \<noteq> []"
    if "c \<in> set cs" "eligible_of (set es) c \<noteq> {}"
    using elig[OF that(1)] that(2) by (auto simp: get)
qed


definition eligible_list :: "platform \<Rightarrow> candidate list \<Rightarrow> evidence list \<Rightarrow> eligible_pair list" where
  "eligible_list P cs es = eligible_pairs P (candidates_by_id cs)
     (projr (group_eligible (candidates_by_id cs) (map_values (evidence_by_id es)) []))"

text \<open>The request guard and the consistency of the records, as one predicate of sets.\<close>

definition records_ok :: "string \<Rightarrow> candidate set \<Rightarrow> evidence set \<Rightarrow> int \<Rightarrow> int \<Rightarrow> bool" where
  "records_ok setupId C E revision evaluatedAt \<longleftrightarrow>
     setupId \<noteq> [] \<and> js_trim setupId = setupId \<and> is_safe_integer revision \<and> 0 \<le> revision \<and>
     is_safe_integer evaluatedAt \<and> 0 \<le> evaluatedAt \<and>
     (\<forall>c\<in>C. cd_observed_at_epoch c \<le> evaluatedAt \<and> cd_setup_id c = setupId) \<and>
     (\<forall>e\<in>E. ev_observed_at_epoch e \<le> evaluatedAt) \<and>
     inj_on cd_candidate_id C \<and> inj_on ev_evidence_id E \<and>
     ev_candidate_id ` E \<subseteq> cd_candidate_id ` C"

lemma arbitrate_Inr_iff:
  "arbitrateEntryCandidatesV3 P setupId cs es invalidated revision evaluatedAt None cohort = Inr s \<longleftrightarrow>
     records_ok setupId (set cs) (set es) revision evaluatedAt \<and>
     s = decide P setupId invalidated revision evaluatedAt cohort (candidates_by_id cs)
           (eligible_list P cs es)" (is "?l \<longleftrightarrow> ?r")
proof -
  let ?group = "group_eligible (candidates_by_id cs) (map_values (evidence_by_id es)) []"
  let ?inj = "inj_on cd_candidate_id (set cs) \<and> inj_on ev_evidence_id (set es)"
  let ?known = "ev_candidate_id ` set es \<subseteq> cd_candidate_id ` set cs"
  let ?result = "decide P setupId invalidated revision evaluatedAt cohort (candidates_by_id cs)
           (eligible_list P cs es)"
  have group: "?inj \<and> (\<exists>g. ?group = Inr g \<and>
      decide P setupId invalidated revision evaluatedAt cohort (candidates_by_id cs)
        (eligible_pairs P (candidates_by_id cs) g) = s) \<longleftrightarrow> ?inj \<and> ?known \<and> s = ?result"
    using group_known_iff[of cs es] by (auto simp: eligible_list_def)
  have "?l \<longleftrightarrow> setupId \<noteq> [] \<and> js_trim setupId = setupId \<and> is_safe_integer revision \<and> 0 \<le> revision \<and>
     is_safe_integer evaluatedAt \<and> 0 \<le> evaluatedAt \<and>
     (\<forall>c\<in>set cs. cd_observed_at_epoch c \<le> evaluatedAt) \<and>
     (\<forall>e\<in>set es. ev_observed_at_epoch e \<le> evaluatedAt) \<and> (\<forall>c\<in>set cs. cd_setup_id c = setupId) \<and>
     (?inj \<and> (\<exists>g. ?group = Inr g \<and>
      decide P setupId invalidated revision evaluatedAt cohort (candidates_by_id cs)
        (eligible_pairs P (candidates_by_id cs) g) = s))"
    unfolding arbitrateEntryCandidatesV3_def after_check_Inr_iff and_then_Inr_iff option.case
      index_candidates_Inr_iff index_evidence_Inr_iff fail_if_None
    by (auto simp: list_ex_iff not_less)
  then show ?thesis unfolding group records_ok_def by blast
qed

text \<open>On hexadecimal identifiers the sorted list of pairs is the specified set, in order.\<close>

lemma eligible_of_strict:
  assumes "collates_hex P" and "hex_ids cs es" and "inj_on ev_evidence_id (set es)"
  shows "strict_comparator (evidence_order P) (eligible_of (set es) c)"
proof -
  have sub: "eligible_of (set es) c \<subseteq> set es" by (auto simp: eligible_of_def)
  show ?thesis
    using assms(2) sub eligible_of_triggered inj_on_subset[OF assms(3) sub]
    by (intro evidence_order_strict[OF assms(1)]) (auto simp: hex_ids_def list_all_iff)
qed

lemma least_evidence:
  assumes "strict_comparator (evidence_order P) A" and vs: "set vs = A" "vs \<noteq> []"
  shows "e = hd (js_sort (evidence_order P) vs) \<longleftrightarrow> e \<in> A \<and> (\<forall>f\<in>A. evidence_order P e f \<le> 0)"
proof -
  let ?h = "hd (js_sort (evidence_order P) vs)"
  have "?h \<in> A \<and> evidence_order P ?h f \<le> 0" if "f \<in> A" for f
    using comparator.hd_sort_least[OF strict_comparator.axioms(1)[OF assms(1)], of vs f] that vs by auto
  moreover have "A \<noteq> {}" using vs by auto
  ultimately show ?thesis
    using strict_comparator.strict[OF assms(1), of e ?h] by blast
qed

lemma spec_pairs_strict:
  assumes "collates_hex P" and hex: "hex_ids cs es"
    and inj: "inj_on cd_candidate_id (set cs)" "inj_on ev_evidence_id (set es)"
  shows "strict_comparator (pair_order P) (spec_pairs P (set cs) (set es))"
proof -
  let ?S = "spec_pairs P (set cs) (set es)"
  have fst_ok: "fst p \<in> set cs \<and> triggered (snd p)" if "p \<in> ?S" for p
    using that by (auto simp: spec_pairs_def dest: eligible_of_triggered)
  have "inj_on (\<lambda>p. cd_candidate_id (fst p)) ?S"
  proof (rule inj_onI)
    fix p q assume pq: "p \<in> ?S" "q \<in> ?S" "cd_candidate_id (fst p) = cd_candidate_id (fst q)"
    with fst_ok inj(1) have fst: "fst p = fst q" by (auto simp: inj_on_def)
    then have "snd p = snd q"
      using pq strict_comparator.strict[OF eligible_of_strict[OF assms(1,2) inj(2)], of "snd p" "fst p" "snd q"]
      by (auto simp: spec_pairs_def)
    with fst show "p = q" by (simp add: prod_eq_iff)
  qed
  then show ?thesis
    using fst_ok hex by (intro pair_order_strict[OF assms(1)]) (auto simp: hex_ids_def list_all_iff)
qed

definition first_pair :: "platform \<Rightarrow> candidate list \<Rightarrow> string \<times> evidence list \<Rightarrow> eligible_pair" where
  "first_pair P cs = (\<lambda>(k, vs). (the (map_get (candidates_by_id cs) k), hd (js_sort (evidence_order P) vs)))"

lemma grouped_pairs:
  assumes "collates_hex P" and hex: "hex_ids cs es"
    and inj: "inj_on cd_candidate_id (set cs)" "inj_on ev_evidence_id (set es)"
    and g: "group_eligible (candidates_by_id cs) (map_values (evidence_by_id es)) [] = Inr g"
  shows "set (map (first_pair P cs) g) = spec_pairs P (set cs) (set es)"
    and "distinct (map (first_pair P cs) g)"
proof -
  let ?S = "spec_pairs P (set cs) (set es)"
  have get: "map_get (candidates_by_id cs) (cd_candidate_id c) = Some c" if "c \<in> set cs" for c
    using that by (simp add: map_get_candidates_by_id[OF inj(1)])
  note members = grouped_members[OF inj g]
  note least = least_evidence[OF eligible_of_strict[OF assms(1,2) inj(2)]]
  show "set (map (first_pair P cs) g) = ?S"
  proof (intro equalityI subsetI)
    fix p assume "p \<in> set (map (first_pair P cs) g)"
    then obtain k vs where kv: "(k, vs) \<in> set g" and p: "p = first_pair P cs (k, vs)" by auto
    obtain c where c: "c \<in> set cs" "cd_candidate_id c = k" "set vs = eligible_of (set es) c" "vs \<noteq> []"
      using members(2)[OF kv] by auto
    with p get[of c] show "p \<in> ?S"
      using least[OF c(3,4), THEN iffD1, OF refl] by (simp add: spec_pairs_def first_pair_def)
  next
    fix p assume p: "p \<in> ?S"
    then obtain c e where ce: "p = (c, e)" "c \<in> set cs" "eligible_of (set es) c \<noteq> {}"
      by (auto simp: spec_pairs_def)
    obtain vs where vs: "(cd_candidate_id c, vs) \<in> set g" "set vs = eligible_of (set es) c" "vs \<noteq> []"
      using members(3)[OF ce(2,3)] by auto
    have "p = first_pair P cs (cd_candidate_id c, vs)"
      using p ce get[of c] least[OF vs(2,3)] by (simp add: spec_pairs_def first_pair_def)
    with vs(1) show "p \<in> set (map (first_pair P cs) g)" by (simp only: set_map image_eqI)
  qed
  have "inj_on (first_pair P cs) (set g)"
  proof (rule inj_onI)
    fix p q assume pq: "p \<in> set g" "q \<in> set g" "first_pair P cs p = first_pair P cs q"
    obtain k vs l ws where kl: "p = (k, vs)" "q = (l, ws)" by (metis surj_pair)
    with members(2)[of k vs] members(2)[of l ws] pq get have "k = l" by (fastforce simp: first_pair_def)
    with kl pq members(1) show "p = q" by (metis eq_key_imp_eq_value)
  qed
  then show "distinct (map (first_pair P cs) g)"
    using members(1) by (simp add: distinct_map)
qed

lemma eligible_list_props:
  assumes "collates_hex P" and "hex_ids cs es"
    and inj: "inj_on cd_candidate_id (set cs)" "inj_on ev_evidence_id (set es)"
    and known: "ev_candidate_id ` set es \<subseteq> cd_candidate_id ` set cs"
  shows "set (eligible_list P cs es) = spec_pairs P (set cs) (set es)"
    and "distinct (eligible_list P cs es)"
    and "sorted_wrt (\<lambda>a b. pair_order P a b \<le> 0) (eligible_list P cs es)"
proof -
  obtain g where g: "group_eligible (candidates_by_id cs) (map_values (evidence_by_id es)) [] = Inr g"
    using group_known_iff[OF inj] known by auto
  note pairs = grouped_pairs[OF assms(1,2) inj g]
  have el: "eligible_list P cs es = js_sort (pair_order P) (map (first_pair P cs) g)"
    by (simp add: eligible_list_def eligible_pairs_def g first_pair_def)
  show "set (eligible_list P cs es) = spec_pairs P (set cs) (set es)"
    by (simp only: el set_js_sort pairs(1))
  show "distinct (eligible_list P cs es)"
    by (simp only: el distinct_js_sort pairs(2))
  show "sorted_wrt (\<lambda>a b. pair_order P a b \<le> 0) (eligible_list P cs es)"
    unfolding el using comparator.sorted_sort[OF strict_comparator.axioms(1)[OF spec_pairs_strict[OF assms(1,2) inj]]]
    by (simp only: pairs(1) subset_refl)
qed

lemma eligible_list_cong:
  assumes "collates_hex P" and "hex_ids cs es" and "hex_ids cs' es'"
    and inj: "inj_on cd_candidate_id (set cs)" "inj_on ev_evidence_id (set es)"
    and known: "ev_candidate_id ` set es \<subseteq> cd_candidate_id ` set cs"
    and sets: "set cs' = set cs" "set es' = set es"
  shows "eligible_list P cs' es' = eligible_list P cs es"
proof -
  note a = eligible_list_props[OF assms(1,2) inj known]
  note b = eligible_list_props[OF assms(1,3) inj[folded sets] known[folded sets]]
  have "mset (eligible_list P cs' es') = mset (eligible_list P cs es)"
    using a b sets by (simp add: set_eq_iff_mset_eq_distinct[symmetric])
  with a b sets show ?thesis
    by (intro strict_comparator.sorted_unique[OF spec_pairs_strict[OF assms(1,2) inj]]) simp_all
qed

section \<open>The decision\<close>

definition spec_earliest :: "eligible_pair set \<Rightarrow> eligible_pair set" where
  "spec_earliest S = {p \<in> S. \<forall>q\<in>S. key_le (trigger_key (snd p)) (trigger_key (snd q))}"

lemma make_selection_fields [simp]:
  "sl_setup_id (make_selection P i r t ids can rsn act cos) = i"
  "sl_policy_version (make_selection P i r t ids can rsn act cos) = POLICY_VERSION_V3"
  "sl_revision (make_selection P i r t ids can rsn act cos) = r"
  "sl_candidate_ids_considered (make_selection P i r t ids can rsn act cos) = ids"
  "sl_canonical_candidate_id (make_selection P i r t ids can rsn act cos) = map_option (cd_candidate_id \<circ> fst) can"
  "sl_canonical_evidence_id (make_selection P i r t ids can rsn act cos) = map_option (ev_evidence_id \<circ> snd) can"
  "sl_canonical_model (make_selection P i r t ids can rsn act cos) = map_option (cd_model \<circ> fst) can"
  "sl_reason (make_selection P i r t ids can rsn act cos) = rsn"
  "sl_fidelity (make_selection P i r t ids can rsn act cos) = map_option (ev_fidelity \<circ> snd) can"
  "sl_action (make_selection P i r t ids can rsn act cos) = act"
  "sl_co_triggered_models (make_selection P i r t ids can rsn act cos) = cos"
  "sl_evaluated_at_epoch (make_selection P i r t ids can rsn act cos) = t"
  by (simp_all add: make_selection_def Let_def)

lemma earliest_pairs_set:
  assumes sorted: "sorted_wrt (\<lambda>a b. pair_order P a b \<le> 0) l" and trig: "\<forall>p\<in>set l. triggered (snd p)"
  shows "set (earliest_pairs l) = spec_earliest (set l)"
proof (cases l)
  case (Cons x xs)
  have least: "key_le (trigger_key (snd x)) (trigger_key (snd p))" if "p \<in> set l" for p :: eligible_pair
  proof (cases "p = x")
    case False
    with that Cons sorted have "pair_order P x p \<le> 0" by simp
    then have "event_order (snd x) (snd p) \<le> 0" by (auto simp: pair_order_def or_else_le_iff)
    then show ?thesis using event_order_le_iff[of "snd x" "snd p"] trig that Cons by auto
  qed simp
  have key: "eventKey (snd p) = eventKey (snd (hd l)) \<longleftrightarrow> trigger_key (snd p) = trigger_key (snd x)"
    if "p \<in> set l" for p
    using that trig Cons by (auto simp: eventKey_triggered)
  have "p \<in> set (earliest_pairs l) \<longleftrightarrow> p \<in> spec_earliest (set l)" for p
  proof -
    have "p \<in> set (earliest_pairs l) \<longleftrightarrow> p \<in> set l \<and> trigger_key (snd p) = trigger_key (snd x)"
      using key[of p] by (auto simp: earliest_pairs_def)
    also have "\<dots> \<longleftrightarrow> p \<in> set l \<and> (\<forall>q\<in>set l. key_le (trigger_key (snd p)) (trigger_key (snd q)))"
      using least key_le_linear(3) Cons by (metis list.set_intros(1))
    finally show ?thesis by (simp add: spec_earliest_def)
  qed
  then show ?thesis by blast
qed (simp add: earliest_pairs_def spec_earliest_def)

lemma earliest_pairs_Cons: "l \<noteq> [] \<Longrightarrow> hd (earliest_pairs l) = hd l \<and> earliest_pairs l \<noteq> []"
  by (cases l) (simp_all add: earliest_pairs_def)

lemma many_iff: "1 < length (js_set xs) \<longleftrightarrow> (\<exists>x\<in>set xs. \<exists>y\<in>set xs. x \<noteq> y)"
  using length_js_set_le1_iff[of xs] by (auto simp: not_le[symmetric])

definition many_models :: "eligible_pair set \<Rightarrow> bool" where
  "many_models S \<longleftrightarrow> (\<exists>p\<in>S. \<exists>q\<in>S. cd_model (fst p) \<noteq> cd_model (fst q))"

definition many_prices :: "eligible_pair set \<Rightarrow> bool" where
  "many_prices S \<longleftrightarrow> (\<exists>p\<in>S. \<exists>q\<in>S. ev_observed_trigger_ticks (snd p) \<noteq> ev_observed_trigger_ticks (snd q))"

definition price_conflict :: "eligible_pair set \<Rightarrow> bool" where
  "price_conflict S \<longleftrightarrow> many_models (spec_earliest S) \<and> many_prices (spec_earliest S)"

lemma many_models_iff:
  "1 < length (js_set (map (cd_model \<circ> fst) l)) \<longleftrightarrow> many_models (set l)"
  unfolding many_iff by (simp add: many_models_def)

lemma many_prices_iff:
  "1 < length (js_set (map (ev_observed_trigger_ticks \<circ> snd) l)) \<longleftrightarrow> many_prices (set l)"
  unfolding many_iff by (simp add: many_prices_def)

text \<open>The co-triggered models of a selection are sorted, distinct, and listed only for that reason.\<close>

interpretation models: strict_comparator "\<lambda>a b. compare_units (model_name a) (model_name b)" UNIV
proof unfold_locales
  show "a = b" if "compare_units (model_name a) (model_name b) \<le> 0"
      "compare_units (model_name b) (model_name a) \<le> 0" for a b
    using units.strict[OF _ _ that] by simp
qed (use units.total compare_units_trans in auto)

definition co_triggers_ok :: "selection_reason \<Rightarrow> entry_model list \<Rightarrow> bool" where
  "co_triggers_ok reason cos \<longleftrightarrow> sort_models (js_set cos) = cos \<and>
     (if reason = CO_TRIGGER_SAME_EVENT then 2 \<le> length cos else cos = [])"

lemma sort_models_idem: "sort_models (js_set (sort_models (js_set ms))) = sort_models (js_set ms)"
  unfolding sort_models_def
  by (simp, rule models.sort_sorted[OF models.sorted_sort]) simp_all

lemma decide_chosen:
  assumes "\<not> dead" "cb \<noteq> []" "l \<noteq> []" "coh = TWO_PLUS_CANDLES"
    and "\<not> (many_models (set (earliest_pairs l)) \<and> many_prices (set (earliest_pairs l)))"
  shows "\<exists>p\<in>set (earliest_pairs l). \<exists>reason\<in>set canonicalReasons. \<exists>cos. co_triggers_ok reason cos \<and>
    decide P i dead r t coh cb l = make_selection P i r t (js_sort compare_units (map_keys cb))
      (Some p) reason PAPER_ELIGIBLE cos"
proof (cases "many_models (set (earliest_pairs l))")
  case True
  let ?srt = "js_sort (\<lambda>l r. localeCompare P (cd_candidate_id (fst l)) (cd_candidate_id (fst r)))
    (earliest_pairs l)"
  let ?ms = "js_set (map (cd_model \<circ> fst) (earliest_pairs l))"
  have "decide P i dead r t coh cb l = make_selection P i r t (js_sort compare_units (map_keys cb))
      (Some (hd ?srt)) CO_TRIGGER_SAME_EVENT PAPER_ELIGIBLE (sort_models ?ms)"
    using assms True by (simp only: decide_def Let_def many_models_iff many_prices_iff if_False if_True
        HOL.simp_thms liquidity_cohort.distinct)
  moreover have "hd ?srt \<in> set (earliest_pairs l)"
    using hd_in_set[of ?srt] earliest_pairs_Cons[OF assms(3)] by simp
  moreover have "co_triggers_ok CO_TRIGGER_SAME_EVENT (sort_models ?ms)"
    using True sort_models_idem many_models_iff[of "earliest_pairs l"]
    by (simp add: co_triggers_ok_def) (simp add: sort_models_def)
  moreover have "CO_TRIGGER_SAME_EVENT \<in> set canonicalReasons" by (simp add: canonicalReasons_def)
  ultimately show ?thesis by blast
next
  case False
  define reason where "reason = (if cd_model (fst (hd (earliest_pairs l))) = DIR_CLOSE \<and>
      hasBlockedAggressive (map_values cb) l then FALLBACK_TO_CONFIRMED_CLOSE
    else if length cb = 1 then ONLY_EXACT_TRIGGER else EARLIEST_EXACT_TRIGGER)"
  have "decide P i dead r t coh cb l = make_selection P i r t (js_sort compare_units (map_keys cb))
      (Some (hd (earliest_pairs l))) reason PAPER_ELIGIBLE []"
    using assms(1-4) unfolding decide_def Let_def many_models_iff reason_def if_not_P[OF False] by simp
  moreover have "reason \<in> set canonicalReasons" by (simp add: reason_def canonicalReasons_def)
  moreover have "co_triggers_ok reason []"
    by (simp add: co_triggers_ok_def reason_def sort_models_def)
  ultimately show ?thesis using earliest_pairs_Cons[OF assms(3)] hd_in_set by blast
qed

text \<open>The form of every selection the arbitrator makes.\<close>

lemma decide_form:
  "\<exists>can reason act cos. decide P i dead r t coh cb l =
      make_selection P i r t (js_sort compare_units (map_keys cb)) can reason act cos \<and>
    co_triggers_ok reason cos \<and> (can = None \<longrightarrow> emptyActions reason = Some act) \<and>
    (\<forall>p. can = Some p \<longrightarrow> p \<in> set l \<and> act = PAPER_ELIGIBLE \<and> reason \<in> set canonicalReasons)"
proof -
  let ?m = "make_selection P i r t (js_sort compare_units (map_keys cb))"
  let ?conflict = "many_models (set (earliest_pairs l)) \<and> many_prices (set (earliest_pairs l))"
  have empty: "co_triggers_ok SETUP_INVALIDATED []" "co_triggers_ok NO_CANDIDATE []"
    "co_triggers_ok NO_EXACT_CANDIDATE []" "co_triggers_ok CO_TRIGGER_PRICE_CONFLICT []"
    by (simp_all add: co_triggers_ok_def sort_models_def)
  have sub: "set (earliest_pairs l) \<subseteq> set l" by (auto simp: earliest_pairs_def)
  note d = decide_def[of P i dead r t coh cb l, unfolded Let_def many_models_iff many_prices_iff]
  consider "dead" | "\<not> dead" "cb = []" | "\<not> dead" "cb \<noteq> []" "l = [] \<or> coh = ONE_CANDLE"
    | "\<not> dead" "cb \<noteq> []" "l \<noteq> []" "coh = TWO_PLUS_CANDLES" "?conflict"
    | "\<not> dead" "cb \<noteq> []" "l \<noteq> []" "coh = TWO_PLUS_CANDLES" "\<not> ?conflict"
    by (cases coh) auto
  then show ?thesis
  proof cases
    case 1
    then have "decide P i dead r t coh cb l = ?m None SETUP_INVALIDATED NO_ACTION []" unfolding d by simp
    with empty(1) show ?thesis by force
  next
    case 2
    then have "decide P i dead r t coh cb l = ?m None NO_CANDIDATE NO_ACTION []" unfolding d by simp
    with empty(2) show ?thesis by force
  next
    case 3
    then have "decide P i dead r t coh cb l = ?m None NO_EXACT_CANDIDATE SHADOW_ONLY []" unfolding d by auto
    with empty(3) show ?thesis by force
  next
    case 4
    then have "decide P i dead r t coh cb l = ?m None CO_TRIGGER_PRICE_CONFLICT SHADOW_ONLY []"
      unfolding d by simp
    with empty(4) show ?thesis by force
  next
    case 5
    from decide_chosen[OF this, of P i r t] sub show ?thesis by blast
  qed
qed

text \<open>One case rule for the whole decision.\<close>

lemma decide_cases:
  assumes "set (earliest_pairs l) = spec_earliest (set l)" and "s = decide P i dead r t coh cb l"
  obtains
    (invalidated) "dead" "sl_action s = NO_ACTION" "sl_reason s = SETUP_INVALIDATED"
      "sl_canonical_candidate_id s = None"
  | (no_candidate) "\<not> dead" "cb = []" "sl_action s = NO_ACTION" "sl_reason s = NO_CANDIDATE"
      "sl_canonical_candidate_id s = None"
  | (no_exact) "\<not> dead" "cb \<noteq> []" "l = [] \<or> coh = ONE_CANDLE" "sl_action s = SHADOW_ONLY"
      "sl_reason s = NO_EXACT_CANDIDATE" "sl_canonical_candidate_id s = None"
  | (conflict) "\<not> dead" "cb \<noteq> []" "l \<noteq> []" "coh = TWO_PLUS_CANDLES" "price_conflict (set l)"
      "sl_action s = SHADOW_ONLY" "sl_reason s = CO_TRIGGER_PRICE_CONFLICT"
      "sl_canonical_candidate_id s = None"
  | (chosen) p where "\<not> dead" "cb \<noteq> []" "l \<noteq> []" "coh = TWO_PLUS_CANDLES" "\<not> price_conflict (set l)"
      "p \<in> spec_earliest (set l)" "sl_action s = PAPER_ELIGIBLE" "sl_reason s \<in> set canonicalReasons"
      "sl_canonical_candidate_id s = Some (cd_candidate_id (fst p))"
      "sl_canonical_evidence_id s = Some (ev_evidence_id (snd p))"
      "sl_canonical_model s = Some (cd_model (fst p))" "sl_fidelity s = Some (ev_fidelity (snd p))"
proof -
  note d = decide_def[of P i dead r t coh cb l, unfolded Let_def many_models_iff many_prices_iff assms(1)]
  consider "dead" | "\<not> dead" "cb = []" | "\<not> dead" "cb \<noteq> []" "l = [] \<or> coh = ONE_CANDLE"
    | "\<not> dead" "cb \<noteq> []" "l \<noteq> []" "coh = TWO_PLUS_CANDLES" "price_conflict (set l)"
    | "\<not> dead" "cb \<noteq> []" "l \<noteq> []" "coh = TWO_PLUS_CANDLES" "\<not> price_conflict (set l)"
    by (cases coh) auto
  then show ?thesis
  proof cases
    case 1 show ?thesis by (insert 1, intro invalidated, unfold assms(2) d) simp_all
  next
    case 2 show ?thesis by (insert 2, intro no_candidate, unfold assms(2) d) simp_all
  next
    case 3 show ?thesis by (insert 3, intro no_exact, unfold assms(2) d) auto
  next
    case 4 show ?thesis by (insert 4, intro conflict, unfold assms(2) d price_conflict_def) auto
  next
    case 5
    then obtain p reason cos where "p \<in> spec_earliest (set l)" "reason \<in> set canonicalReasons"
      and "s = make_selection P i r t (js_sort compare_units (map_keys cb)) (Some p) reason PAPER_ELIGIBLE cos"
      using decide_chosen[of dead cb l coh P i r t] unfolding price_conflict_def assms by blast
    with 5 show ?thesis by (intro chosen[of p]) simp_all
  qed
qed

section \<open>Properties of the arbitrator\<close>

lemma spec_pairs_triggered: "p \<in> spec_pairs P C E \<Longrightarrow> triggered (snd p)"
  by (auto simp: spec_pairs_def dest: eligible_of_triggered)

lemma candidates_by_id_Nil_iff: "candidates_by_id cs = [] \<longleftrightarrow> cs = []"
proof
  assume "candidates_by_id cs = []"
  then have "cd_candidate_id ` set cs = {}"
    using jsmap.keys_index[of cd_candidate_id cs] by (simp add: candidates_by_id_def map_keys_def)
  then show "cs = []" by simp
qed (simp add: candidates_by_id_def)

lemma arbitrated_list:
  assumes "arbitrateEntryCandidatesV3 P i cs es dead r t None coh = Inr s"
    and "collates_hex P" and "hex_ids cs es"
  shows "set (eligible_list P cs es) = spec_pairs P (set cs) (set es)"
    and "set (earliest_pairs (eligible_list P cs es)) = spec_earliest (spec_pairs P (set cs) (set es))"
    and "s = decide P i dead r t coh (candidates_by_id cs) (eligible_list P cs es)"
proof -
  have ok: "records_ok i (set cs) (set es) r t" and
    s: "s = decide P i dead r t coh (candidates_by_id cs) (eligible_list P cs es)"
    using assms(1) by (simp_all add: arbitrate_Inr_iff)
  then have "inj_on cd_candidate_id (set cs)" "inj_on ev_evidence_id (set es)"
    "ev_candidate_id ` set es \<subseteq> cd_candidate_id ` set cs"
    by (simp_all add: records_ok_def)
  note el = eligible_list_props[OF assms(2,3) this]
  show "set (eligible_list P cs es) = spec_pairs P (set cs) (set es)" by (rule el(1))
  show "set (earliest_pairs (eligible_list P cs es)) = spec_earliest (spec_pairs P (set cs) (set es))"
    using earliest_pairs_set[OF el(3)] el(1) spec_pairs_triggered by simp
  show "s = decide P i dead r t coh (candidates_by_id cs) (eligible_list P cs es)" by (rule s)
qed

lemma spec_pairs_candidate: "spec_pairs P C E \<noteq> {} \<Longrightarrow> C \<noteq> {}"
  by (auto simp: spec_pairs_def)

lemma spec_pairs_below:
  assumes "collates_hex P" and "hex_ids cs es" and "inj_on ev_evidence_id (set es)"
    and "c \<in> set cs" and e: "e \<in> eligible_of (set es) c"
  shows "\<exists>f. (c, f) \<in> spec_pairs P (set cs) (set es) \<and> key_le (trigger_key f) (trigger_key e)"
proof -
  let ?vs = "filter (\<lambda>e. ev_candidate_id e = cd_candidate_id c \<and> exactEligibleV3 c e) es"
  let ?f = "hd (js_sort (evidence_order P) ?vs)"
  have vs: "set ?vs = eligible_of (set es) c" by (auto simp: eligible_of_def)
  then have "?vs \<noteq> []" using e by (metis empty_iff empty_set)
  from least_evidence[OF eligible_of_strict[OF assms(1-3)] vs this, of ?f]
  have f: "?f \<in> eligible_of (set es) c" "\<forall>x\<in>eligible_of (set es) c. evidence_order P ?f x \<le> 0"
    by simp_all
  then have "event_order ?f e \<le> 0" using e by (auto simp: evidence_order_def or_else_le_iff)
  then have "key_le (trigger_key ?f) (trigger_key e)"
    using event_order_le_iff[of ?f e] f(1) e eligible_of_triggered by blast
  with f assms(4) show ?thesis by (auto simp: spec_pairs_def)
qed

lemma paper_iff_spec:
  assumes "arbitrateEntryCandidatesV3 P i cs es dead r t None coh = Inr s"
    and "collates_hex P" and "hex_ids cs es"
  shows "sl_action s = PAPER_ELIGIBLE \<longleftrightarrow> \<not> dead \<and> coh = TWO_PLUS_CANDLES \<and>
    spec_pairs P (set cs) (set es) \<noteq> {} \<and> \<not> price_conflict (spec_pairs P (set cs) (set es))"
proof -
  note l = arbitrated_list[OF assms]
  have "candidates_by_id cs \<noteq> []" if "eligible_list P cs es \<noteq> []"
    using that l(1) spec_pairs_candidate[of P "set cs" "set es"]
    by (metis candidates_by_id_Nil_iff set_empty)
  then show ?thesis
    unfolding l(1)[symmetric]
    by (cases rule: decide_cases[OF l(2)[folded l(1)] l(3)]) auto
qed

lemma spec_pairs_nonempty_iff:
  assumes "collates_hex P" and "hex_ids cs es" and "inj_on ev_evidence_id (set es)"
  shows "spec_pairs P (set cs) (set es) \<noteq> {} \<longleftrightarrow>
    (\<exists>c\<in>set cs. \<exists>e\<in>set es. ev_candidate_id e = cd_candidate_id c \<and> exactEligibleV3 c e)"
proof -
  have "spec_pairs P (set cs) (set es) \<noteq> {} \<longleftrightarrow> (\<exists>c\<in>set cs. eligible_of (set es) c \<noteq> {})"
    using spec_pairs_below[OF assms] by (fastforce simp: spec_pairs_def)
  then show ?thesis by (auto simp: eligible_of_def)
qed

text \<open>
  C3. When is a setup traded on paper. For records with hexadecimal identifiers, an arbitration
  without an opened selection returns the action \<open>PAPER_ELIGIBLE\<close> exactly when the setup is not
  invalidated, its liquidity cohort has two or more candles, some candidate has exact eligible
  evidence, and the earliest eligible triggers of different models do not disagree on the price.
\<close>

theorem arbitrate_paper_eligible_iff:
  assumes "arbitrateEntryCandidatesV3 P i cs es dead r t None coh = Inr s"
    and "collates_hex P" and "hex_ids cs es"
  shows "sl_action s = PAPER_ELIGIBLE \<longleftrightarrow>
    \<not> dead \<and> coh = TWO_PLUS_CANDLES \<and> (\<exists>c\<in>set cs. \<exists>e\<in>set es.
      ev_candidate_id e = cd_candidate_id c \<and> exactEligibleV3 c e) \<and>
    \<not> price_conflict (spec_pairs P (set cs) (set es))"
proof -
  have "inj_on ev_evidence_id (set es)"
    using assms(1) by (simp add: arbitrate_Inr_iff records_ok_def)
  from paper_iff_spec[OF assms] spec_pairs_nonempty_iff[OF assms(2,3) this] show ?thesis by simp
qed

text \<open>
  C10. What a paper-eligible selection points to: a submitted candidate and a submitted piece of its
  own evidence that is exact and eligible, with the model and the fidelity \<open>EXACT\<close> recorded; and no
  exact eligible evidence of any submitted candidate triggered earlier (by epoch, then sequence).
\<close>

theorem arbitrate_canonical_is_earliest:
  assumes "arbitrateEntryCandidatesV3 P i cs es dead r t None coh = Inr s"
    and "collates_hex P" and "hex_ids cs es" and "sl_action s = PAPER_ELIGIBLE"
  shows "\<exists>c\<in>set cs. \<exists>e\<in>set es. sl_canonical_candidate_id s = Some (cd_candidate_id c) \<and>
    sl_canonical_evidence_id s = Some (ev_evidence_id e) \<and> sl_canonical_model s = Some (cd_model c) \<and>
    sl_fidelity s = Some EXACT \<and> ev_candidate_id e = cd_candidate_id c \<and> exactEligibleV3 c e \<and>
    (\<forall>d\<in>set cs. \<forall>f\<in>set es. ev_candidate_id f = cd_candidate_id d \<and> exactEligibleV3 d f \<longrightarrow>
       key_le (trigger_key e) (trigger_key f))"
proof -
  note l = arbitrated_list[OF assms(1-3)]
  have inj: "inj_on ev_evidence_id (set es)"
    using assms(1) by (simp add: arbitrate_Inr_iff records_ok_def)
  obtain c e where p: "(c, e) \<in> spec_earliest (spec_pairs P (set cs) (set es))"
    and s: "sl_canonical_candidate_id s = Some (cd_candidate_id c)"
      "sl_canonical_evidence_id s = Some (ev_evidence_id e)"
      "sl_canonical_model s = Some (cd_model c)" "sl_fidelity s = Some (ev_fidelity e)"
    by (cases rule: decide_cases[OF l(2)[folded l(1)] l(3)]) (use assms(4) l(1) in auto)
  have ce: "c \<in> set cs" "e \<in> eligible_of (set es) c"
    using p by (auto simp: spec_earliest_def spec_pairs_def)
  then have e: "e \<in> set es" "ev_candidate_id e = cd_candidate_id c" "exactEligibleV3 c e" "ev_fidelity e = EXACT"
    by (auto simp: eligible_of_def exactEligibleV3_def split: option.splits)
  have "key_le (trigger_key e) (trigger_key f)" if "d \<in> set cs" "f \<in> eligible_of (set es) d" for d f
    using spec_pairs_below[OF assms(2,3) inj that] p key_le_linear(2)[of "trigger_key e"]
    by (fastforce simp: spec_earliest_def)
  with ce(1) e s show ?thesis
    unfolding eligible_of_def by (intro bexI[of _ c] bexI[of _ e]) auto
qed

lemma candidate_keys:
  assumes "inj_on cd_candidate_id (set cs)"
  shows "set (map_keys (candidates_by_id cs)) = cd_candidate_id ` set cs"
    and "distinct (map_keys (candidates_by_id cs))"
  unfolding candidates_by_id_def
  by (rule jsmap.keys_index, rule jsmap.ok_index, rule jsmap.ok_empty)

lemma decide_cong:
  assumes "mset (map_keys cb) = mset (map_keys cb')" and "set (map_values cb) = set (map_values cb')"
  shows "decide P i dead r t coh cb l = decide P i dead r t coh cb' l"
proof -
  have len: "length cb = length cb'"
    using assms(1) by (metis length_map map_keys_def size_mset)
  then have nil: "cb = [] \<longleftrightarrow> cb' = []" by (metis length_0_conv)
  have ids: "js_sort compare_units (map_keys cb) = js_sort compare_units (map_keys cb')"
    using assms(1) by (rule units.sort_cong) simp
  have blocked: "hasBlockedAggressive (map_values cb) l = hasBlockedAggressive (map_values cb') l"
    using assms(2) by (simp add: hasBlockedAggressive_def Let_def list_ex_iff)
  show ?thesis unfolding decide_def ids len nil blocked by (rule refl)
qed

lemma arbitrate_set_cong:
  assumes "arbitrateEntryCandidatesV3 P i cs es dead r t None coh = Inr s"
    and "collates_hex P" and "hex_ids cs es"
    and sets: "set cs' = set cs" "set es' = set es"
  shows "arbitrateEntryCandidatesV3 P i cs' es' dead r t None coh = Inr s"
proof -
  have ok: "records_ok i (set cs) (set es) r t"
    and s: "s = decide P i dead r t coh (candidates_by_id cs) (eligible_list P cs es)"
    using assms(1) by (simp_all add: arbitrate_Inr_iff)
  then have inj: "inj_on cd_candidate_id (set cs)" "inj_on ev_evidence_id (set es)"
    and known: "ev_candidate_id ` set es \<subseteq> cd_candidate_id ` set cs"
    by (simp_all add: records_ok_def)
  have "hex_ids cs' es'" using assms(3) sets by (simp add: hex_ids_def list_all_iff)
  from eligible_list_cong[OF assms(2,3) this inj known sets]
  have el: "eligible_list P cs' es' = eligible_list P cs es" .
  have inj': "inj_on cd_candidate_id (set cs')" using inj(1) sets(1) by simp
  have "mset (map_keys (candidates_by_id cs)) = mset (map_keys (candidates_by_id cs'))"
    using candidate_keys[OF inj(1)] candidate_keys[OF inj'] sets(1)
    by (simp add: set_eq_iff_mset_eq_distinct[symmetric])
  moreover have "set (map_values (candidates_by_id cs)) = set (map_values (candidates_by_id cs'))"
    using candidate_values(1)[OF inj(1)] candidate_values(1)[OF inj'] sets(1) by simp
  ultimately have "s = decide P i dead r t coh (candidates_by_id cs') (eligible_list P cs' es')"
    using s el decide_cong by metis
  with ok sets show ?thesis by (simp add: arbitrate_Inr_iff)
qed

text \<open>
  C11. Arbitration is a function of the sets of records. Presenting the same candidates and evidence
  in another order, or with repetitions, gives the same selection, identifier included: the sorts
  remove the order of arrival and the maps remove the repetitions.
\<close>

theorem arbitrate_order_independent:
  assumes "arbitrateEntryCandidatesV3 P i cs es dead r t None coh = Inr s"
    and "collates_hex P" and "hex_ids cs es"
    and sets: "set cs' = set cs" "set es' = set es"
  shows "arbitrateEntryCandidatesV3 P i cs' es' dead r t None coh = Inr s"
  using assms by (rule arbitrate_set_cong)

end
