(* ===== verification/Rd_Pipeline.thy ===== *)
theory Rd_Pipeline
  imports Rd_Arbitrator
begin

text \<open>
  Matcher, arbitrator and validators together: what a paper-eligible evaluation says about the
  market proofs it was given, when an evaluation completes, and when an accepted input is lost
  because the result validator rejects what the matcher produced.
\<close>

section \<open>Exact eligibility of matched records\<close>

text \<open>The market conditions of the three entry models, read off the request.\<close>

definition setup_allows :: "match_request \<Rightarrow> int \<Rightarrow> bool" where
  "setup_allows r t \<longleftrightarrow> su_common_fidelity (rq_setup r) = EXACT \<and>
     \<not> su_invalidated_before_entry (rq_setup r) \<and>
     (case su_zone_engaged_epoch (rq_setup r) of None \<Rightarrow> False | Some z \<Rightarrow> z \<le> t)"

definition plane_proves :: "proof_plane \<Rightarrow> replayability \<Rightarrow> bool \<Rightarrow> bool" where
  "plane_proves plane rp live \<longleftrightarrow>
     (plane = REALTIME_TICK \<and> live \<and> rp = LIVE_EXACT_NON_REPLAYABLE) \<or>
     (plane \<in> {LOWER_TIMEFRAME_REPLAY, EXTERNAL_ARCHIVED_TICK} \<and> rp = REPLAYABLE)"

definition boc_holds :: "match_request \<Rightarrow> boc_proof \<Rightarrow> bool" where
  "boc_holds r p \<longleftrightarrow> setup_allows r (bp_trigger_epoch p) \<and> bocBreaksReference r p \<and>
     strictBocContext p \<and> bp_fidelity p = EXACT \<and>
     plane_proves (bp_proof_plane p) (bp_replayability p) (bp_is_realtime p)"

definition close_holds :: "match_request \<Rightarrow> ordered_candle \<Rightarrow> bool" where
  "close_holds r bar \<longleftrightarrow> setup_allows r (close_epoch bar) \<and> close_epoch bar - open_epoch bar = 300"

definition flip_holds :: "match_request \<Rightarrow> flip_proof \<Rightarrow> bool" where
  "flip_holds r p \<longleftrightarrow> setup_allows r (fp_trigger_epoch p) \<and> flipLifecycleFailure r p = [] \<and>
     fp_fidelity p = EXACT \<and> plane_proves (fp_proof_plane p) (fp_replayability p) (fp_is_realtime p)"

lemma commonFailure_iff: "commonFailure r t = [] \<longleftrightarrow> setup_allows r t"
  by (auto simp: commonFailure_Nil_iff setup_allows_def split: option.split)

lemma realtime_plane_iff:
  "realtimeFailure pl rp live = [] \<and> pl \<noteq> CONFIRMED_5M \<longleftrightarrow> plane_proves pl rp live"
  by (cases pl) (auto simp: realtimeFailure_Nil_iff plane_proves_def)

lemma trigger_open:
  assumes "a mod 300 = 0" and "a \<le> t" and "t < a + (300::int)"
  shows "t div 300 * 300 = a"
proof -
  obtain k where k: "a = 300 * k" using assms(1) by auto
  then have "t div 300 = k" using assms(2,3) by (intro int_div_pos_eq[where r = "t - a"]) auto
  with k show ?thesis by simp
qed

lemma safeInteger_None_iff:
  "safeInteger v name m = None \<longleftrightarrow> is_safe_integer v \<and> (\<forall>k. m = Some k \<longrightarrow> k \<le> v)"
  by (auto simp: safeInteger_def split: option.splits)

lemma boc_proof_chronology:
  assumes "validateBocProofV3 p obs = None"
  shows "open_epoch (bp_reference_candle p) mod 300 = 0" "bp_trigger_candle_open_epoch p mod 300 = 0"
    "open_epoch (bp_reference_candle p) + 300 \<le> bp_trigger_candle_open_epoch p"
    "bp_trigger_candle_open_epoch p \<le> bp_trigger_epoch p"
    "bp_trigger_epoch p < bp_trigger_candle_open_epoch p + 300"
    "bp_coverage_start_epoch p \<le> bp_trigger_epoch p" "bp_trigger_epoch p \<le> bp_coverage_end_epoch p"
    "bp_coverage_start_epoch p < bp_coverage_end_epoch p" "bp_coverage_end_epoch p \<le> obs"
  using assms by (auto simp: validateBocProofV3_def option_case_None_iff)

lemma boc_outcome_holds:
  assumes "commonFailure r (bp_trigger_epoch p) = []" "bocBreaksReference r p" "strictBocContext p"
    "realtimeFailure (bp_proof_plane p) (bp_replayability p) (bp_is_realtime p) = []" "bp_fidelity p = EXACT"
  shows "boc_outcome r p = (MATCHED, EXACT, [''ENTRY_BOC_HTF_TIMED''], [])"
  using assms by (simp add: boc_outcome_def Let_def)

lemma strict_contexts:
  "strictBocContext p \<Longrightarrow> bp_htf_context_minutes p \<noteq> [] \<and>
    list_all (\<lambda>m. bp_trigger_candle_open_epoch p mod (m * 60) = 0) (bp_htf_context_minutes p)"
  by (auto simp: strictBocContext_def list_all_iff split: option.splits)

lemma matchBoc_eligible_iff:
  assumes "validateBocProofV3 p obs = None"
  shows "exactEligibleV3 (fst (matchBoc P r p)) (snd (matchBoc P r p)) \<longleftrightarrow> boc_holds r p"
proof -
  obtain st fid passed failed where o: "boc_outcome r p = (st, fid, passed, failed)"
    by (metis prod_cases4)
  note chron = boc_proof_chronology[OF assms]
  have slot: "bp_trigger_epoch p div 300 * 300 = bp_trigger_candle_open_epoch p"
    by (rule trigger_open) (use chron in simp_all)
  have fid: "ev_fidelity (snd (matchBoc P r p)) = fid"
    by (simp add: matchBoc_def Let_def o)
  have holds: "boc_holds r p \<Longrightarrow> boc_outcome r p = (MATCHED, EXACT, [''ENTRY_BOC_HTF_TIMED''], [])"
    unfolding boc_holds_def commonFailure_iff[symmetric] realtime_plane_iff[symmetric]
    by (intro boc_outcome_holds) simp_all
  show ?thesis
  proof (cases "fid = EXACT")
    case False
    then have "\<not> exactEligibleV3 (fst (matchBoc P r p)) (snd (matchBoc P r p))"
      using fid by (auto simp: exactEligibleV3_def split: option.splits)
    with holds o False show ?thesis by auto
  next
    case True
    with boc_outcome_cases[OF o] have m: "st = MATCHED" "passed = [''ENTRY_BOC_HTF_TIMED'']" "failed = []"
      and c: "commonFailure r (bp_trigger_epoch p) = []" "bocBreaksReference r p" "strictBocContext p"
        "realtimeFailure (bp_proof_plane p) (bp_replayability p) (bp_is_realtime p) = []" "bp_fidelity p = EXACT"
      by auto
    have "exactEligibleV3 (fst (matchBoc P r p)) (snd (matchBoc P r p)) \<longleftrightarrow> bp_proof_plane p \<noteq> CONFIRMED_5M"
      using m True chron slot strict_contexts[OF c(3)] c(3,4)
      by (cases "bp_proof_plane p")
        (simp_all add: exactEligibleV3_def matchBoc_def Let_def o eligible_boc_def eligible_plane_def
          flip_fields_present_def realtimeFailure_Nil_iff)
    with c show ?thesis
      unfolding boc_holds_def commonFailure_iff[symmetric] realtime_plane_iff[symmetric] by simp
  qed
qed

lemma matchClose_eligible_iff:
  "exactEligibleV3 (fst (matchClose P r bar)) (snd (matchClose P r bar)) \<longleftrightarrow> close_holds r bar"
proof -
  obtain st passed failed where o: "close_outcome r bar = (st, passed, failed)"
    by (metis prod_cases3)
  have holds: "close_holds r bar \<Longrightarrow> st = MATCHED"
    using o by (simp add: close_holds_def commonFailure_iff[symmetric] close_outcome_def)
  have st: "cd_state (fst (matchClose P r bar)) = st"
    by (simp add: matchClose_def Let_def o)
  show ?thesis
  proof (cases "st = MATCHED")
    case False
    with st holds show ?thesis by (auto simp: exactEligibleV3_def split: option.splits)
  next
    case True
    with close_outcome_cases[OF o] show ?thesis
      by (auto simp: exactEligibleV3_def matchClose_def Let_def o eligible_close_def eligible_plane_def
          flip_fields_present_def close_holds_def commonFailure_iff)
  qed
qed

lemma flip_lifecycle_ok:
  assumes "flipLifecycleFailure r p = []"
  obtains contact recross where "fp_contact_candle p = Some contact" "fp_recross_candle p = Some recross"
    "\<not> fp_coverage_gap_detected p" "fp_full_lifecycle_ordered p" "\<not> fp_destination_seen_before_contact p"
    "fp_ambiguity_codes p = []" "fp_event_anchor_epoch p \<le> open_epoch contact"
    "list_all (\<lambda>m. fp_trigger_epoch p < fp_event_anchor_epoch p + m * 60) (fp_htf_context_minutes p)"
    "contactsZone r contact" "\<not> candleCrossesHtfOpen r p contact" "actualTickCrossesHtfOpen r p recross"
    "fp_htf_context_minutes p \<noteq> []"
    "list_all (\<lambda>m. fp_event_anchor_epoch p mod (m * 60) = 0) (fp_htf_context_minutes p)"
  using assms
  by (cases "fp_contact_candle p"; cases "fp_recross_candle p")
    (auto simp: flipLifecycleFailure_def list_all_iff list_ex_iff not_le split: if_splits)

lemma matchFlip_eligible_iff:
  "exactEligibleV3 (fst (matchFlip P r p)) (snd (matchFlip P r p)) \<longleftrightarrow> flip_holds r p"
proof -
  obtain st passed failed where o: "flip_outcome r p = (st, passed, failed)"
    by (metis prod_cases3)
  have holds: "flip_holds r p \<Longrightarrow> st = MATCHED"
    using o unfolding flip_holds_def commonFailure_iff[symmetric] realtime_plane_iff[symmetric]
    by (simp add: flip_outcome_def)
  have st: "cd_state (fst (matchFlip P r p)) = st"
    by (simp add: matchFlip_def Let_def o)
  show ?thesis
  proof (cases "st = MATCHED")
    case False
    with st holds show ?thesis by (auto simp: exactEligibleV3_def split: option.splits)
  next
    case True
    with flip_outcome_cases[OF o] have m: "passed = [''ENTRY_HTF_FLIP'']" "failed = []"
      and c: "commonFailure r (fp_trigger_epoch p) = []" "flipLifecycleFailure r p = []"
        "realtimeFailure (fp_proof_plane p) (fp_replayability p) (fp_is_realtime p) = []" "fp_fidelity p = EXACT"
      by auto
    obtain contact recross where life: "fp_contact_candle p = Some contact" "fp_recross_candle p = Some recross"
      "\<not> fp_coverage_gap_detected p" "fp_full_lifecycle_ordered p" "\<not> fp_destination_seen_before_contact p"
      "fp_ambiguity_codes p = []" "fp_event_anchor_epoch p \<le> open_epoch contact"
      "list_all (\<lambda>m. fp_trigger_epoch p < fp_event_anchor_epoch p + m * 60) (fp_htf_context_minutes p)"
      "\<not> candleCrossesHtfOpen r p contact" "actualTickCrossesHtfOpen r p recross" "fp_htf_context_minutes p \<noteq> []"
      using flip_lifecycle_ok[OF c(2)] by metis
    have "exactEligibleV3 (fst (matchFlip P r p)) (snd (matchFlip P r p)) \<longleftrightarrow> fp_proof_plane p \<noteq> CONFIRMED_5M"
      using m True life c(3)
      by (cases "fp_proof_plane p"; cases "su_direction (rq_setup r)")
        (simp_all add: exactEligibleV3_def matchFlip_def Let_def o eligible_flip_def eligible_plane_def
          realtimeFailure_Nil_iff candleCrossesHtfOpen_def actualTickCrossesHtfOpen_def)
    with c show ?thesis
      unfolding flip_holds_def commonFailure_iff[symmetric] realtime_plane_iff[symmetric] by simp
  qed
qed

section \<open>Abstract specification of an evaluation\<close>

text \<open>
  What the composed evaluation promises, without records, identifiers or digests: the exact
  triggers of the request, the earliest of them, and the action.
\<close>

record market_trigger =
  mt_model :: entry_model
  mt_epoch :: int
  mt_sequence :: int
  mt_ticks :: int

definition mt_key :: "market_trigger \<Rightarrow> int \<times> int" where
  "mt_key t = (mt_epoch t, mt_sequence t)"

definition market_triggers :: "match_request \<Rightarrow> market_trigger list" where
  "market_triggers r =
     (case rq_boc_proof r of None \<Rightarrow> [] | Some p \<Rightarrow> if boc_holds r p
        then [\<lparr>mt_model = BOC, mt_epoch = bp_trigger_epoch p, mt_sequence = bp_trigger_sequence p,
               mt_ticks = bp_trigger_ticks p\<rparr>] else []) @
     (case rq_confirmed_bar r of None \<Rightarrow> [] | Some bar \<Rightarrow> if rq_directional_close r \<and> close_holds r bar
        then [\<lparr>mt_model = DIR_CLOSE, mt_epoch = close_epoch bar, mt_sequence = rq_close_trigger_sequence r,
               mt_ticks = close_ticks bar\<rparr>] else []) @
     (case rq_htf_flip_proof r of None \<Rightarrow> [] | Some p \<Rightarrow> if flip_holds r p
        then [\<lparr>mt_model = HTF_FLIP, mt_epoch = fp_trigger_epoch p, mt_sequence = fp_trigger_sequence p,
               mt_ticks = fp_trigger_ticks p\<rparr>] else [])"

definition market_earliest :: "market_trigger list \<Rightarrow> market_trigger list" where
  "market_earliest ts = filter (\<lambda>t. list_all (\<lambda>u. key_le (mt_key t) (mt_key u)) ts) ts"

definition all_same :: "'a list \<Rightarrow> bool" where
  "all_same xs \<longleftrightarrow> list_all (\<lambda>x. list_all (\<lambda>y. x = y) xs) xs"

definition market_conflict :: "market_trigger list \<Rightarrow> bool" where
  "market_conflict ts \<longleftrightarrow> \<not> all_same (map mt_model (market_earliest ts)) \<and>
     \<not> all_same (map mt_ticks (market_earliest ts))"

definition observed_nothing :: "match_request \<Rightarrow> bool" where
  "observed_nothing r \<longleftrightarrow> rq_boc_proof r = None \<and> \<not> rq_directional_close r \<and> rq_htf_flip_proof r = None"

definition specified_action :: "match_request \<Rightarrow> selection_action" where
  "specified_action r =
     (if su_invalidated_before_entry (rq_setup r) \<or> observed_nothing r then NO_ACTION
      else if market_triggers r = [] \<or> su_liquidity_cohort (rq_setup r) = ONE_CANDLE \<or>
          market_conflict (market_triggers r) then SHADOW_ONLY
      else PAPER_ELIGIBLE)"

section \<open>The evaluation implements the specification\<close>

definition pair_trigger :: "eligible_pair \<Rightarrow> market_trigger" where
  "pair_trigger p = \<lparr>mt_model = cd_model (fst p), mt_epoch = the (ev_observed_trigger_epoch (snd p)),
     mt_sequence = ev_trigger_sequence (snd p), mt_ticks = the (ev_observed_trigger_ticks (snd p))\<rparr>"

lemma pair_trigger_matched:
  "pair_trigger (matchBoc P r p) = \<lparr>mt_model = BOC, mt_epoch = bp_trigger_epoch p,
     mt_sequence = bp_trigger_sequence p, mt_ticks = bp_trigger_ticks p\<rparr>"
  "pair_trigger (matchClose P r bar) = \<lparr>mt_model = DIR_CLOSE, mt_epoch = close_epoch bar,
     mt_sequence = rq_close_trigger_sequence r, mt_ticks = close_ticks bar\<rparr>"
  "pair_trigger (matchFlip P r q) = \<lparr>mt_model = HTF_FLIP, mt_epoch = fp_trigger_epoch q,
     mt_sequence = fp_trigger_sequence q, mt_ticks = fp_trigger_ticks q\<rparr>"
  by (simp_all add: pair_trigger_def matchBoc_def matchClose_def matchFlip_def Let_def split: prod.split)

definition linked_pair :: "eligible_pair \<Rightarrow> bool" where
  "linked_pair p \<longleftrightarrow> ev_candidate_id (snd p) = cd_candidate_id (fst p) \<and>
     ev_observed_trigger_ticks (snd p) \<noteq> None"

lemma linked_matched:
  "linked_pair (matchBoc P r p)" "linked_pair (matchClose P r bar)" "linked_pair (matchFlip P r q)"
  by (simp_all add: linked_pair_def matchBoc_def matchClose_def matchFlip_def Let_def split: prod.split)

lemma matched_pairs_cases:
  assumes "matched_pairs P r = Inr ps" and "p \<in> set ps"
  obtains (boc) q where "rq_boc_proof r = Some q" "p = matchBoc P r q"
  | (close) bar where "rq_directional_close r" "rq_confirmed_bar r = Some bar" "p = matchClose P r bar"
  | (flip) q where "rq_htf_flip_proof r = Some q" "p = matchFlip P r q"
  using assms by (auto simp: matched_pairs_def Let_def split: option.splits if_splits)

lemma matched_pairs_linked: "matched_pairs P r = Inr ps \<Longrightarrow> p \<in> set ps \<Longrightarrow> linked_pair p"
  by (erule matched_pairs_cases) (auto intro: linked_matched)

lemma matched_pairs_Nil_iff: "matched_pairs P r = Inr ps \<Longrightarrow> ps = [] \<longleftrightarrow> observed_nothing r"
  by (auto simp: matched_pairs_def observed_nothing_def Let_def split: option.splits if_splits)

lemma market_triggers_pairs:
  assumes "matched_pairs P r = Inr ps" and "\<And>q. rq_boc_proof r = Some q \<Longrightarrow> \<exists>obs. validateBocProofV3 q obs = None"
  shows "market_triggers r = map pair_trigger (filter (\<lambda>p. exactEligibleV3 (fst p) (snd p)) ps)"
proof -
  have "exactEligibleV3 (fst (matchBoc P r q)) (snd (matchBoc P r q)) \<longleftrightarrow> boc_holds r q"
    if "rq_boc_proof r = Some q" for q
    using assms(2)[OF that] matchBoc_eligible_iff by blast
  then show ?thesis
    using assms(1) matchClose_eligible_iff[of P r] matchFlip_eligible_iff[of P r]
    by (auto simp: matched_pairs_def market_triggers_def Let_def pair_trigger_matched
        split: option.splits if_splits)
qed

lemma matched_pairs_models: "matched_pairs P r = Inr ps \<Longrightarrow> inj_on fst (set ps)"
proof (rule inj_onI)
  fix p q assume ps: "matched_pairs P r = Inr ps" "p \<in> set ps" "q \<in> set ps" and "fst p = fst q"
  then have "mt_model (pair_trigger p) = mt_model (pair_trigger q)" by (simp add: pair_trigger_def)
  then show "p = q"
    by (cases rule: matched_pairs_cases[OF ps(1,2)]; cases rule: matched_pairs_cases[OF ps(1,3)])
      (auto simp: pair_trigger_matched)
qed

lemma evidence_order_refl:
  assumes "collates_hex P" and "hex_string (ev_evidence_id e)" and "triggered e"
  shows "evidence_order P e e \<le> 0"
  using collates_hexD[OF assms(1,2,2)] event_order_le_iff[OF assms(3,3)]
  by (auto simp: evidence_order_def or_else_le_iff)

lemma spec_pairs_matched:
  assumes ps: "matched_pairs P r = Inr ps" and inj: "inj_on cd_candidate_id (fst ` set ps)"
    and hex: "collates_hex P" "\<forall>p\<in>set ps. hex_string (ev_evidence_id (snd p))"
  shows "spec_pairs P (fst ` set ps) (snd ` set ps) = {p \<in> set ps. exactEligibleV3 (fst p) (snd p)}"
proof -
  note linked = matched_pairs_linked[OF ps] and single = matched_pairs_models[OF ps]
  have only: "e = snd p" if p: "p \<in> set ps" and e: "e \<in> eligible_of (snd ` set ps) (fst p)" for p e
  proof -
    obtain q where q: "q \<in> set ps" "e = snd q" "ev_candidate_id e = cd_candidate_id (fst p)"
      using e by (auto simp: eligible_of_def)
    then have "cd_candidate_id (fst q) = cd_candidate_id (fst p)"
      using linked[of q] by (simp add: linked_pair_def)
    then have "fst q = fst p" using inj q(1) p by (auto simp: inj_on_def)
    then show ?thesis using inj_onD[OF single] q p by blast
  qed
  have mem: "snd p \<in> eligible_of (snd ` set ps) (fst p) \<longleftrightarrow> exactEligibleV3 (fst p) (snd p)"
    if "p \<in> set ps" for p
    using linked[OF that] that by (auto simp: eligible_of_def linked_pair_def)
  show ?thesis
  proof (intro equalityI subsetI)
    fix p assume "p \<in> spec_pairs P (fst ` set ps) (snd ` set ps)"
    then obtain q where q: "q \<in> set ps" "fst p = fst q" "snd p \<in> eligible_of (snd ` set ps) (fst q)"
      by (auto simp: spec_pairs_def)
    with only[OF q(1,3)] have "p = q" by (simp add: prod_eq_iff)
    with q mem show "p \<in> {p \<in> set ps. exactEligibleV3 (fst p) (snd p)}" by auto
  next
    fix p assume "p \<in> {p \<in> set ps. exactEligibleV3 (fst p) (snd p)}"
    then have p: "p \<in> set ps" "exactEligibleV3 (fst p) (snd p)" by simp_all
    then have "evidence_order P (snd p) f \<le> 0" if "f \<in> eligible_of (snd ` set ps) (fst p)" for f
      using only[OF p(1) that] evidence_order_refl[OF hex(1)] hex(2) exactEligibleV3_triggered by blast
    then show "p \<in> spec_pairs P (fst ` set ps) (snd ` set ps)"
      using p mem[OF p(1)] by (auto simp: spec_pairs_def case_prod_unfold)
  qed
qed

lemma all_same_iff: "all_same xs \<longleftrightarrow> (\<forall>x\<in>set xs. \<forall>y\<in>set xs. x = y)"
  by (simp add: all_same_def list_all_iff)

text \<open>Earliest pairs and earliest triggers correspond.\<close>

lemma mt_key_pair: "triggered (snd p) \<Longrightarrow> mt_key (pair_trigger p) = trigger_key (snd p)"
  by (simp add: mt_key_def pair_trigger_def trigger_key_def)

lemma market_earliest_pairs:
  assumes "\<And>p. p \<in> set ps \<Longrightarrow> triggered (snd p)"
  shows "set (market_earliest (map pair_trigger ps)) = pair_trigger ` spec_earliest (set ps)"
  using assms by (auto simp: market_earliest_def spec_earliest_def list_all_iff mt_key_pair)

lemma market_conflict_pairs:
  assumes "\<And>p. p \<in> set ps \<Longrightarrow> triggered (snd p) \<and> ev_observed_trigger_ticks (snd p) \<noteq> None"
  shows "market_conflict (map pair_trigger ps) \<longleftrightarrow> price_conflict (set ps)"
proof -
  have E: "set (market_earliest (map pair_trigger ps)) = pair_trigger ` spec_earliest (set ps)"
    using assms by (intro market_earliest_pairs) blast
  have sub: "spec_earliest (set ps) \<subseteq> set ps" by (auto simp: spec_earliest_def)
  have ticks: "ev_observed_trigger_ticks (snd p) = Some (mt_ticks (pair_trigger p))" if "p \<in> spec_earliest (set ps)" for p
    using assms[of p] that sub by (auto simp: pair_trigger_def)
  have "\<not> all_same (map mt_model (market_earliest (map pair_trigger ps))) \<longleftrightarrow> many_models (spec_earliest (set ps))"
    unfolding all_same_iff set_map E many_models_def by (simp add: pair_trigger_def)
  moreover have "\<not> all_same (map mt_ticks (market_earliest (map pair_trigger ps))) \<longleftrightarrow> many_prices (spec_earliest (set ps))"
    unfolding all_same_iff set_map E many_prices_def using ticks by auto
  ultimately show ?thesis by (simp add: market_conflict_def price_conflict_def)
qed

lemma is_sha256_hex: "is_sha256 s \<Longrightarrow> hex_string s"
  by (simp add: is_sha256_def)

lemma matched_ids:
  assumes "matched_pairs P r = Inr ps" and "p \<in> set ps"
  shows "cd_candidate_id (fst p) = candidateIdV3 P (identity_of (fst p))"
    and "ev_evidence_id (snd p) = evidenceIdV3 P (snd p)"
    and "ev_payload_sha256 (snd p) = evidencePayloadSha256V3 P (snd p)"
  by (cases rule: matched_pairs_cases[OF assms];
      simp add: matchBoc_def matchClose_def matchFlip_def Let_def make_candidate_id[symmetric]
        make_evidence_ids split: prod.split)+

lemma matched_hex:
  assumes "sha256_width P" and "matched_pairs P r = Inr ps" and "p \<in> set ps"
  shows "hex_string (cd_candidate_id (fst p))" and "hex_string (ev_evidence_id (snd p))"
  using is_sha256_hex[OF is_sha256_canonicalSha256[OF assms(1)]]
  unfolding matched_ids(1)[OF assms(2,3)] matched_ids(2)[OF assms(2,3)] candidateIdV3_def evidenceIdV3_def
  by this+

text \<open>What a completed evaluation consists of.\<close>

lemma evaluated_parts:
  assumes "evaluateWithoutOpenedSeed P i = Inr v"
  obtains ps where "matched_pairs P (match_request_of i) = Inr ps"
    "set (el_candidates v) = fst ` set ps" "set (el_evidence v) = snd ` set ps"
    "arbitrateEntryCandidatesV3 P (ai_setup_id i) (el_candidates v) (el_evidence v)
       (ai_setup_invalidated i) (ai_revision i) (ai_evaluated_at_epoch i) None (input_cohort i)
     = Inr (el_selection v)"
    "validateEntryEvaluationV3 v = None"
  using assms
  by (auto simp: evaluateWithoutOpenedSeed_def matchEntryCandidatesV3_def and_then_Inr_iff
      after_check_Inr_iff Let_def)

lemma evaluated_hex_ids:
  assumes "sha256_width P" and "matched_pairs P r = Inr ps"
    and "set cs = fst ` set ps" and "set es = snd ` set ps"
  shows "hex_ids cs es"
  using matched_hex[OF assms(1,2)] assms(3,4) by (auto simp: hex_ids_def list_all_iff)

lemma evaluation_refines:
  assumes ev: "evaluateWithoutOpenedSeed P i = Inr v" and P: "sha256_width P" "collates_hex P"
    and boc: "\<And>q. ai_boc_proof i = Some q \<Longrightarrow> \<exists>obs. validateBocProofV3 q obs = None"
  shows "sl_action (el_selection v) = specified_action (match_request_of i)"
    and "sl_action (el_selection v) = PAPER_ELIGIBLE \<Longrightarrow>
      \<exists>t\<in>set (market_earliest (market_triggers (match_request_of i))).
        sl_canonical_model (el_selection v) = Some (mt_model t)"
proof -
  let ?r = "match_request_of i" and ?s = "el_selection v"
  obtain ps where ps: "matched_pairs P ?r = Inr ps" and sets: "set (el_candidates v) = fst ` set ps"
      "set (el_evidence v) = snd ` set ps"
    and arb: "arbitrateEntryCandidatesV3 P (ai_setup_id i) (el_candidates v) (el_evidence v)
       (ai_setup_invalidated i) (ai_revision i) (ai_evaluated_at_epoch i) None (input_cohort i) = Inr ?s"
    using evaluated_parts[OF ev] .
  let ?el = "filter (\<lambda>p. exactEligibleV3 (fst p) (snd p)) ps"
  note l = arbitrated_list[OF arb P(2) evaluated_hex_ids[OF P(1) ps sets]]
  have "inj_on cd_candidate_id (fst ` set ps)"
    using arb sets by (simp add: arbitrate_Inr_iff records_ok_def)
  then have "set (eligible_list P (el_candidates v) (el_evidence v)) = set ?el"
    using spec_pairs_matched[OF ps _ P(2)] matched_hex(2)[OF P(1) ps] l(1) sets by simp
  note el = this
  have trig: "market_triggers ?r = map pair_trigger ?el"
    using boc by (intro market_triggers_pairs[OF ps]) (simp add: match_request_of_def)
  have ok: "triggered (snd p) \<and> ev_observed_trigger_ticks (snd p) \<noteq> None" if "p \<in> set ?el" for p
    using that matched_pairs_linked[OF ps, of p] exactEligibleV3_triggered by (auto simp: linked_pair_def)
  have conflict: "market_conflict (market_triggers ?r) \<longleftrightarrow> price_conflict (set ?el)"
    unfolding trig using ok by (rule market_conflict_pairs)
  have earliest: "set (market_earliest (market_triggers ?r)) = pair_trigger ` spec_earliest (set ?el)"
    unfolding trig using ok by (intro market_earliest_pairs) blast
  have none: "candidates_by_id (el_candidates v) = [] \<longleftrightarrow> observed_nothing ?r"
    using sets(1) matched_pairs_Nil_iff[OF ps] by (auto simp: candidates_by_id_Nil_iff)
  have nil: "eligible_list P (el_candidates v) (el_evidence v) = [] \<longleftrightarrow> market_triggers ?r = []"
    by (simp only: trig set_empty[symmetric] el set_map image_is_empty)
  have facts: "su_invalidated_before_entry (rq_setup ?r) = ai_setup_invalidated i"
    "su_liquidity_cohort (rq_setup ?r) = input_cohort i"
    by (simp_all add: match_request_of_def input_setup_def)
  let ?L = "eligible_list P (el_candidates v) (el_evidence v)"
  have spec: "specified_action ?r =
      (if ai_setup_invalidated i \<or> candidates_by_id (el_candidates v) = [] then NO_ACTION
       else if ?L = [] \<or> input_cohort i = ONE_CANDLE \<or> price_conflict (set ?L) then SHADOW_ONLY
       else PAPER_ELIGIBLE)"
    by (simp only: specified_action_def facts conflict none nil el)
  note cases = decide_cases[OF l(2)[folded l(1)] l(3)]
  show "sl_action ?s = specified_action ?r"
    unfolding spec by (cases rule: cases) (simp_all, blast)
  show "\<exists>t\<in>set (market_earliest (market_triggers ?r)). sl_canonical_model ?s = Some (mt_model t)"
    if paper: "sl_action ?s = PAPER_ELIGIBLE"
  proof (cases rule: cases)
    case (5 p)
    then have "pair_trigger p \<in> set (market_earliest (market_triggers ?r))"
      unfolding earliest el by (intro imageI)
    moreover have "mt_model (pair_trigger p) = cd_model (fst p)" by (simp add: pair_trigger_def)
    ultimately show ?thesis using 5(11) by metis
  qed (use paper in simp_all)
qed

lemma accepted_input:
  assumes "validateEntryArbitrationInputV3 i = None"
  shows "ai_setup_id i \<noteq> []" "js_trim (ai_setup_id i) = ai_setup_id i"
    "is_safe_integer (ai_revision i)" "0 \<le> ai_revision i"
    "is_safe_integer (ai_evaluated_at_epoch i)" "0 \<le> ai_evaluated_at_epoch i"
    "is_safe_integer (ai_observed_at_epoch i)" "0 \<le> ai_observed_at_epoch i"
    "is_safe_integer (ai_close_trigger_sequence i)" "0 \<le> ai_close_trigger_sequence i"
    "ai_observed_at_epoch i \<le> ai_evaluated_at_epoch i"
    "ai_directional_close i \<longleftrightarrow> ai_confirmed_bar i \<noteq> None"
    "\<And>bar. ai_confirmed_bar i = Some bar \<Longrightarrow>
      validateOrderedCandleV3 bar ''confirmed_bar'' = None \<and> aligned_five_minute bar"
    "\<And>p. ai_boc_proof i = Some p \<Longrightarrow> validateBocProofV3 p (ai_observed_at_epoch i) = None"
    "\<And>p. ai_htf_flip_proof i = Some p \<Longrightarrow> validateFlipProofV3 p (ai_observed_at_epoch i) = None"
    "\<And>seed. ai_opened_selection_seed i = Some seed \<Longrightarrow> validateOpenedSeed i seed = None"
  using assms
  by (simp_all add: validateEntryArbitrationInputV3_def option_case_None_iff safeInteger_None_iff)

section \<open>Properties of the evaluation\<close>


end
