(* ===== verification/Rd_Completion.thy ===== *)
theory Rd_Completion
  imports Rd_Pipeline
begin

text \<open>
  When an evaluation completes: the result validator accepts what the matcher and the arbitrator
  build from an accepted input, provided that a flip proof carries both lifecycle candles and that
  the confirmed bar closed before the observation. The two provisos are needed: without them an
  accepted input is lost with an exception.
\<close>

section \<open>The validators as predicates\<close>

lemma digest_None_iff: "digest v name = None \<longleftrightarrow> is_sha256 v \<and> v \<noteq> zero_digest"
  by (auto simp: digest_def)

lemma unique_None_iff: "unique vs name = None \<longleftrightarrow> [] \<notin> set vs \<and> distinct vs"
  by (auto simp: unique_def list_ex_iff)

definition candle_ok :: "ordered_candle \<Rightarrow> bool" where
  "candle_ok c \<longleftrightarrow> is_safe_integer (open_epoch c) \<and> 0 \<le> open_epoch c \<and>
     is_safe_integer (close_epoch c) \<and> 0 \<le> close_epoch c \<and> is_safe_integer (open_ticks c) \<and>
     is_safe_integer (high_ticks c) \<and> is_safe_integer (low_ticks c) \<and> is_safe_integer (close_ticks c) \<and>
     open_epoch c < close_epoch c \<and> max3 (open_ticks c) (close_ticks c) (low_ticks c) \<le> high_ticks c \<and>
     low_ticks c \<le> min3 (open_ticks c) (close_ticks c) (high_ticks c)"

lemma validateOrderedCandleV3_None_iff: "validateOrderedCandleV3 c name = None \<longleftrightarrow> candle_ok c"
  by (auto simp: validateOrderedCandleV3_def candle_ok_def option_case_None_iff safeInteger_None_iff)

definition contexts_ok :: "int list \<Rightarrow> bool" where
  "contexts_ok ms \<longleftrightarrow> \<not> contexts_unordered ms \<and> distinct ms \<and> list_all supported_context ms"

lemma validateContextsV3_None_iff:
  "validateContextsV3 ms name = None \<longleftrightarrow> length ms \<le> 3 \<and> contexts_ok ms"
  by (auto simp: validateContextsV3_def contexts_ok_def list_ex_iff list_all_iff)

lemmas validator_iffs = option_case_None_iff check_option_None_iff safeInteger_None_iff digest_None_iff
  unique_None_iff validateOrderedCandleV3_None_iff validateContextsV3_None_iff fail_if_None

text \<open>What an accepted proof says.\<close>

lemma boc_proof_ok:
  assumes "validateBocProofV3 p obs = None"
  shows "candle_ok (bp_reference_candle p)" "contexts_ok (bp_htf_context_minutes p)"
    "is_safe_integer (bp_trigger_sequence p)" "0 \<le> bp_trigger_sequence p"
    "is_safe_integer (bp_coverage_start_epoch p)" "0 \<le> bp_coverage_start_epoch p"
    "is_safe_integer (bp_coverage_end_epoch p)" "0 \<le> bp_coverage_end_epoch p"
  using assms by (simp_all add: validateBocProofV3_def validator_iffs)

lemma flip_proof_ok:
  assumes "validateFlipProofV3 p obs = None"
  shows "is_safe_integer (fp_event_anchor_epoch p)" "0 \<le> fp_event_anchor_epoch p"
    "contexts_ok (fp_htf_context_minutes p)" "distinct (fp_ambiguity_codes p)"
    "is_safe_integer (fp_trigger_sequence p)" "0 \<le> fp_trigger_sequence p"
    "is_safe_integer (fp_coverage_start_epoch p)" "0 \<le> fp_coverage_start_epoch p"
    "is_safe_integer (fp_coverage_end_epoch p)" "0 \<le> fp_coverage_end_epoch p"
    "fp_coverage_start_epoch p < fp_coverage_end_epoch p" "fp_coverage_end_epoch p \<le> obs"
    "fp_coverage_start_epoch p \<le> fp_trigger_epoch p" "fp_trigger_epoch p \<le> fp_coverage_end_epoch p"
    "\<And>c x. fp_contact_candle p = Some c \<Longrightarrow> fp_recross_candle p = Some x \<Longrightarrow>
       candle_ok c \<and> candle_ok x \<and> close_epoch c \<le> open_epoch x \<and>
       fp_trigger_epoch p = close_epoch x \<and> fp_trigger_ticks p = close_ticks x"
  using assms by (simp_all add: validateFlipProofV3_def validateCoveredCandle_def validator_iffs not_less)

section \<open>Matched records pass the record validators\<close>

lemma ambiguity_name_inject [simp]: "ambiguity_name a = ambiguity_name b \<longleftrightarrow> a = b"
  by (cases a; cases b) simp_all

lemma ambiguity_name_nonempty [simp]: "ambiguity_name a \<noteq> []"
  by (cases a) simp_all

lemma ambiguity_names_nonempty [simp]: "[] \<notin> ambiguity_name ` A"
  using ambiguity_name_nonempty by (metis imageE)

lemma distinct_ambiguity_names [simp]: "distinct (map ambiguity_name xs) \<longleftrightarrow> distinct xs"
  by (simp add: distinct_map inj_on_def)

lemma source_claims_unique:
  "unique SOURCE_CLAIMS_BOC_HTF_TIMED n = None" "unique SOURCE_CLAIMS_BOC_DISCRETIONARY_5M n = None"
  "unique SOURCE_CLAIMS_DIR_CLOSE n = None" "unique SOURCE_CLAIMS_HTF_FLIP n = None"
  by (simp_all add: unique_None_iff SOURCE_CLAIMS_BOC_HTF_TIMED_def
      SOURCE_CLAIMS_BOC_DISCRETIONARY_5M_def SOURCE_CLAIMS_DIR_CLOSE_def SOURCE_CLAIMS_HTF_FLIP_def)

definition proper_digest :: "string \<Rightarrow> bool" where
  "proper_digest d \<longleftrightarrow> is_sha256 d \<and> d \<noteq> zero_digest"

definition proper_ids :: "eligible_pair \<Rightarrow> bool" where
  "proper_ids p \<longleftrightarrow> proper_digest (cd_candidate_id (fst p)) \<and> proper_digest (ev_evidence_id (snd p)) \<and>
     proper_digest (ev_payload_sha256 (snd p))"

definition epoch_ok :: "int \<Rightarrow> bool" where
  "epoch_ok t \<longleftrightarrow> is_safe_integer t \<and> 0 \<le> t"

lemma safe_small: "is_safe_integer 1"
  by (simp add: is_safe_integer_def MAX_SAFE_INTEGER_def)

lemma single_rule: "length xs = 1 \<Longrightarrow> hd xs \<noteq> [] \<Longrightarrow> distinct xs \<and> [] \<notin> set xs \<and> xs \<noteq> []"
  by (cases xs) auto

lemma matchBoc_candidate_ok:
  assumes "validateBocProofV3 p obs = None" and "proper_ids (matchBoc P r p)"
    and "su_setup_id (rq_setup r) \<noteq> []" and "epoch_ok (rq_observed_at_epoch r)"
  shows "validateEntryCandidateV3 (fst (matchBoc P r p)) = None"
  using assms boc_proof_ok(1)[OF assms(1)]
  by (auto simp: validateEntryCandidateV3_def validator_iffs proper_ids_def proper_digest_def epoch_ok_def
      matchBoc_def Let_def candle_ok_def safe_small source_claims_unique[unfolded unique_None_iff]
      split: prod.splits)

lemma matchClose_candidate_ok:
  assumes "candle_ok bar" and "proper_ids (matchClose P r bar)"
    and "su_setup_id (rq_setup r) \<noteq> []" and "epoch_ok (rq_observed_at_epoch r)"
  shows "validateEntryCandidateV3 (fst (matchClose P r bar)) = None"
  using assms
  by (auto simp: validateEntryCandidateV3_def validator_iffs proper_ids_def proper_digest_def epoch_ok_def
      matchClose_def Let_def candle_ok_def safe_small source_claims_unique[unfolded unique_None_iff]
      split: prod.splits)

lemma matchFlip_candidate_ok:
  assumes "validateFlipProofV3 p obs = None" and "proper_ids (matchFlip P r p)"
    and "su_setup_id (rq_setup r) \<noteq> []" and "epoch_ok (rq_observed_at_epoch r)"
  shows "validateEntryCandidateV3 (fst (matchFlip P r p)) = None"
  using assms flip_proof_ok(1,2)[OF assms(1)]
  by (auto simp: validateEntryCandidateV3_def validator_iffs proper_ids_def proper_digest_def epoch_ok_def
      matchFlip_def Let_def candle_ok_def safe_small source_claims_unique[unfolded unique_None_iff]
      split: prod.splits)

lemma matchBoc_evidence_ok:
  assumes p: "validateBocProofV3 p (rq_observed_at_epoch r) = None" and ids: "proper_ids (matchBoc P r p)"
    and obs: "epoch_ok (rq_observed_at_epoch r)"
  shows "validateEntryEvidenceV3 (snd (matchBoc P r p)) = None"
proof -
  obtain st fid passed failed where o: "boc_outcome r p = (st, fid, passed, failed)"
    by (metis prod_cases4)
  note chron = boc_proof_chronology[OF p] and ok = boc_proof_ok[OF p]
  have rules: "distinct passed" "[] \<notin> set passed" "distinct failed" "[] \<notin> set failed"
    "list_ex (\<lambda>r. r \<in> set failed) passed = False" "fid = EXACT \<Longrightarrow> failed = [] \<and> passed \<noteq> []"
    "fid = EXACT \<Longrightarrow> bp_replayability p = expectedReplayability (bp_proof_plane p)"
    using boc_outcome_cases[OF o] single_rule[of failed]
    by (auto simp: realtimeFailure_Nil_iff expectedReplayability_def split: if_splits)
  have claims: "unique (if strictBocContext p then SOURCE_CLAIMS_BOC_HTF_TIMED
      else SOURCE_CLAIMS_BOC_DISCRETIONARY_5M) n = None" for n
    by (simp add: source_claims_unique)
  show ?thesis
    using chron ok rules claims ids obs
    by (simp add: validateEntryEvidenceV3_def validator_iffs proper_ids_def proper_digest_def epoch_ok_def
        matchBoc_def Let_def o evidence_reference_values_def candle_ok_def validateFlipFields_def
        flip_fields_present_def contexts_ok_def list_ex_iff list_all_iff not_less)
qed

lemma matchClose_evidence_ok:
  assumes bar: "candle_ok bar" "close_epoch bar \<le> rq_observed_at_epoch r"
    and sq: "epoch_ok (rq_close_trigger_sequence r)"
    and ids: "proper_ids (matchClose P r bar)" and obs: "epoch_ok (rq_observed_at_epoch r)"
  shows "validateEntryEvidenceV3 (snd (matchClose P r bar)) = None"
proof -
  obtain st passed failed where o: "close_outcome r bar = (st, passed, failed)"
    by (metis prod_cases3)
  have rules: "distinct passed" "[] \<notin> set passed" "distinct failed" "[] \<notin> set failed"
    "list_ex (\<lambda>r. r \<in> set failed) passed = False" "st = MATCHED \<Longrightarrow> failed = [] \<and> passed \<noteq> []"
    using close_outcome_cases[OF o] single_rule[of failed] by auto
  have ctx: "contexts_unordered [] = False" by (simp add: contexts_unordered_def)
  show ?thesis
    using bar rules source_claims_unique(3) sq ids obs
    by (simp add: validateEntryEvidenceV3_def validator_iffs proper_ids_def proper_digest_def epoch_ok_def
        matchClose_def Let_def o evidence_reference_values_def candle_ok_def validateFlipFields_def
        flip_fields_present_def ctx expectedReplayability_def not_less)
qed

definition complete_flip :: "flip_proof \<Rightarrow> bool" where
  "complete_flip p \<longleftrightarrow> fp_contact_candle p \<noteq> None \<and> fp_recross_candle p \<noteq> None"

lemma matchFlip_evidence_ok:
  assumes p: "validateFlipProofV3 p (rq_observed_at_epoch r) = None" and "complete_flip p"
    and ids: "proper_ids (matchFlip P r p)" and obs: "epoch_ok (rq_observed_at_epoch r)"
  shows "validateEntryEvidenceV3 (snd (matchFlip P r p)) = None"
proof -
  obtain st passed failed where o: "flip_outcome r p = (st, passed, failed)"
    by (metis prod_cases3)
  obtain c x where cx: "fp_contact_candle p = Some c" "fp_recross_candle p = Some x"
    using assms(2) by (auto simp: complete_flip_def)
  note ok = flip_proof_ok(1-14)[OF p] and candles = flip_proof_ok(15)[OF p cx]
  have rules: "distinct passed" "[] \<notin> set passed" "distinct failed" "[] \<notin> set failed"
    "list_ex (\<lambda>r. r \<in> set failed) passed = False" "st = MATCHED \<Longrightarrow> failed = [] \<and> passed \<noteq> []"
    "st = MATCHED \<Longrightarrow> fp_replayability p = expectedReplayability (fp_proof_plane p)"
    using flip_outcome_cases[OF o] single_rule[of failed]
    by (auto simp: realtimeFailure_Nil_iff expectedReplayability_def split: if_splits)
  show ?thesis
    using ok candles rules source_claims_unique(4) ids obs cx
    by (cases "st = MATCHED") (simp_all add: validateEntryEvidenceV3_def validator_iffs proper_ids_def proper_digest_def epoch_ok_def
        matchFlip_def Let_def o evidence_reference_values_def validateFlipFields_def
        flip_fields_present_def contexts_ok_def list_ex_iff list_all_iff not_less)
qed

section \<open>Matched pairs pass the cross-record checks\<close>

lemma matchBoc_link_ok:
  assumes p: "validateBocProofV3 p obs = None" and get: "map_get cb (cd_candidate_id (fst (matchBoc P r p))) = Some (fst (matchBoc P r p))"
  shows "validateEvidenceOfCandidate cb (snd (matchBoc P r p)) = None"
proof -
  obtain st fid passed failed where o: "boc_outcome r p = (st, fid, passed, failed)"
    by (metis prod_cases4)
  obtain c e where ce: "matchBoc P r p = (c, e)" by (metis surj_pair)
  note chron = boc_proof_chronology[OF p]
  have slot: "bp_trigger_epoch p div 300 * 300 = bp_trigger_candle_open_epoch p"
    by (rule trigger_open) (use chron in simp_all)
  have fields: "ev_candidate_id e = cd_candidate_id c" "cd_model c = BOC" "ev_fidelity e = fid"
    "ev_passed_rule_ids e = passed" "ev_failed_rule_ids e = failed"
    "cd_event_anchor_epoch c = open_epoch (bp_reference_candle p)"
    "cd_reference_candle_open_epoch c = Some (open_epoch (bp_reference_candle p))"
    "ev_reference_candle_open_epoch e = Some (open_epoch (bp_reference_candle p))"
    "ev_observed_trigger_epoch e = Some (bp_trigger_epoch p)"
    "ev_htf_context_minutes e = bp_htf_context_minutes p"
    "ev_source_claim_ids e = expectedSourceClaimsV3 c"
    using ce by (auto simp: matchBoc_def Let_def o expectedSourceClaimsV3_def)
  have exact: "passed = [''ENTRY_BOC_HTF_TIMED''] \<and> failed = [] \<and> strictBocContext p" if "fid = EXACT"
    using boc_outcome_cases[OF o] that by auto
  have "exactBocCheck c e = None" if "fid = EXACT"
    using exact[OF that] strict_contexts[of p] chron slot fields
    by (simp add: exactBocCheck_def list_ex_iff list_all_iff not_less)
  then show ?thesis
    using get exact fields ce
    by (auto simp: validateEvidenceOfCandidate_def validator_iffs exactEvidenceRuleIsConsistent_def
        exactCloseCheck_def exactFlipCheck_def)
qed

lemma matchClose_link_ok:
  assumes get: "map_get cb (cd_candidate_id (fst (matchClose P r bar))) = Some (fst (matchClose P r bar))"
  shows "validateEvidenceOfCandidate cb (snd (matchClose P r bar)) = None"
proof -
  obtain st passed failed where o: "close_outcome r bar = (st, passed, failed)"
    by (metis prod_cases3)
  from get close_outcome_cases[OF o] show ?thesis
    by (auto simp: validateEvidenceOfCandidate_def validator_iffs exactEvidenceRuleIsConsistent_def
        exactCloseCheck_def exactBocCheck_def exactFlipCheck_def matchClose_def Let_def o
        expectedSourceClaimsV3_def)
qed

lemma matchFlip_link_ok:
  assumes get: "map_get cb (cd_candidate_id (fst (matchFlip P r p))) = Some (fst (matchFlip P r p))"
  shows "validateEvidenceOfCandidate cb (snd (matchFlip P r p)) = None"
proof -
  obtain st passed failed where o: "flip_outcome r p = (st, passed, failed)"
    by (metis prod_cases3)
  obtain c e where ce: "matchFlip P r p = (c, e)" by (metis surj_pair)
  have fields: "ev_candidate_id e = cd_candidate_id c" "cd_model c = HTF_FLIP"
    "ev_fidelity e = EXACT \<longleftrightarrow> st = MATCHED"
    "ev_passed_rule_ids e = passed" "ev_failed_rule_ids e = failed"
    "cd_event_anchor_epoch c = fp_event_anchor_epoch p" "cd_direction c = su_direction (rq_setup r)"
    "ev_observed_trigger_epoch e = Some (fp_trigger_epoch p)" "ev_htf_open_ticks e = Some (fp_htf_open_ticks p)"
    "ev_contact_candle e = fp_contact_candle p" "ev_recross_candle e = fp_recross_candle p"
    "ev_coverage_gap_detected e = Some (fp_coverage_gap_detected p)"
    "ev_full_lifecycle_ordered e = Some (fp_full_lifecycle_ordered p)"
    "ev_destination_seen_before_contact e = Some (fp_destination_seen_before_contact p)"
    "ev_htf_context_minutes e = fp_htf_context_minutes p"
    "ev_source_claim_ids e = expectedSourceClaimsV3 c"
    using ce by (auto simp: matchFlip_def Let_def o expectedSourceClaimsV3_def split: if_splits)
  have exact: "passed = [''ENTRY_HTF_FLIP''] \<and> failed = []" "flipLifecycleFailure r p = []" if "st = MATCHED"
    using flip_outcome_cases[OF o] that by auto
  have "exactFlipCheck c e = None" if matched: "st = MATCHED"
  proof -
    obtain contact recross where "fp_contact_candle p = Some contact" "fp_recross_candle p = Some recross"
      "\<not> fp_coverage_gap_detected p" "fp_full_lifecycle_ordered p" "\<not> fp_destination_seen_before_contact p"
      "fp_event_anchor_epoch p \<le> open_epoch contact"
      "list_all (\<lambda>m. fp_trigger_epoch p < fp_event_anchor_epoch p + m * 60) (fp_htf_context_minutes p)"
      "\<not> candleCrossesHtfOpen r p contact" "actualTickCrossesHtfOpen r p recross"
      "fp_htf_context_minutes p \<noteq> []"
      using flip_lifecycle_ok[OF exact(2)[OF matched]] by metis
    with fields show ?thesis
      by (cases "su_direction (rq_setup r)")
        (simp_all add: exactFlipCheck_def validator_iffs candleCrossesHtfOpen_def actualTickCrossesHtfOpen_def
          list_ex_iff list_all_iff not_le)
  qed
  then show ?thesis
    using get exact fields ce
    by (auto simp: validateEvidenceOfCandidate_def validator_iffs exactEvidenceRuleIsConsistent_def
        exactCloseCheck_def exactBocCheck_def)
qed

section \<open>Selections pass the selection validator\<close>

lemma make_selection_id: "\<exists>j. sl_selection_id (make_selection P i r t ids can rsn act cos) = canonicalSha256 P j"
  by (auto simp: make_selection_def Let_def selectionIdV3_def)

definition nonzero_digests :: "platform \<Rightarrow> bool" where
  "nonzero_digests P \<longleftrightarrow> (\<forall>j. canonicalSha256 P j \<noteq> zero_digest)"

lemma proper_canonicalSha256: "sha256_width P \<Longrightarrow> nonzero_digests P \<Longrightarrow> proper_digest (canonicalSha256 P j)"
  by (simp add: proper_digest_def nonzero_digests_def is_sha256_canonicalSha256)

lemma make_selection_ok:
  assumes P: "sha256_width P" "nonzero_digests P" and i: "i \<noteq> []" and num: "epoch_ok r" "epoch_ok t"
    and ids: "js_sort compare_units ids = ids" "distinct ids" "[] \<notin> set ids"
    and can: "\<And>p. can = Some p \<Longrightarrow> proper_ids p \<and> ev_fidelity (snd p) = EXACT \<and>
      act = PAPER_ELIGIBLE \<and> rsn \<in> set canonicalReasons"
    and none: "can = None \<Longrightarrow> emptyActions rsn = Some act" and cos: "co_triggers_ok rsn cos"
  shows "validateSelectionShapeV3 (make_selection P i r t ids can rsn act cos) = None"
proof -
  have "proper_digest (sl_selection_id (make_selection P i r t ids can rsn act cos))"
    using make_selection_id[of P i r t ids can rsn act cos] proper_canonicalSha256[OF P] by auto
  with assms show ?thesis
    by (cases can) (auto simp: validateSelectionShapeV3_def validator_iffs proper_ids_def
        proper_digest_def epoch_ok_def co_triggers_ok_def)
qed

section \<open>Matched evaluations pass the evaluation validator\<close>

text \<open>Sorting by collation of hexadecimal identifiers is sorting by code units.\<close>

lemma locale_sorted_ids:
  assumes "collates_hex P" and hex: "\<And>x. x \<in> set xs \<Longrightarrow> hex_string (key x)" and "inj_on key (set xs)"
  shows "js_sort compare_units (map key (js_sort (\<lambda>a b. localeCompare P (key a) (key b)) xs)) =
    map key (js_sort (\<lambda>a b. localeCompare P (key a) (key b)) xs)"
proof -
  let ?ys = "js_sort (\<lambda>a b. localeCompare P (key a) (key b)) xs"
  have "sorted_wrt (\<lambda>a b. localeCompare P (key a) (key b) \<le> 0) ?ys"
    by (rule comparator.sorted_sort[OF strict_comparator.axioms(1)[OF locale_strict_comparator[OF assms]]]) simp_all
  then have "sorted_wrt (\<lambda>a b. compare_units (key a) (key b) \<le> 0) ?ys"
    by (rule sorted_wrt_mono_rel[rotated]) (use collates_hexD[OF assms(1)] hex in auto)
  then show ?thesis
    by (intro units.sort_sorted) (simp_all add: sorted_wrt_map)
qed

lemma considered_ids:
  assumes "js_sort compare_units (map cd_candidate_id cs) = map cd_candidate_id cs"
    and "inj_on cd_candidate_id (set cs)" and "distinct cs"
  shows "js_sort compare_units (map_keys (candidates_by_id cs)) = map cd_candidate_id cs"
proof -
  have "mset (map_keys (candidates_by_id cs)) = mset (map cd_candidate_id cs)"
    using candidate_keys[OF assms(2)] assms(2,3)
    by (subst set_eq_iff_mset_eq_distinct[symmetric]) (simp_all add: distinct_map)
  then have "js_sort compare_units (map_keys (candidates_by_id cs)) =
      js_sort compare_units (map cd_candidate_id cs)"
    by (rule units.sort_cong) simp
  with assms(1) show ?thesis by simp
qed

lemma canonical_ok:
  assumes inj: "inj_on cd_candidate_id (set (el_candidates v))" "inj_on ev_evidence_id (set (el_evidence v))"
    and s: "el_selection v = make_selection P i r t ids (Some p) rsn PAPER_ELIGIBLE cos"
    and p: "fst p \<in> set (el_candidates v)" "snd p \<in> set (el_evidence v)" "linked_pair p"
      "exactEligibleV3 (fst p) (snd p)"
  shows "validateCanonicalSelection v = None"
proof -
  have "map_get (candidates_by_id (el_candidates v)) (cd_candidate_id (fst p)) = Some (fst p)"
    using p(1) by (simp add: map_get_candidates_by_id[OF inj(1)])
  moreover have "map_get (evidence_by_id (el_evidence v)) (ev_evidence_id (snd p)) = Some (snd p)"
    using p(2) inj(2) by (simp add: evidence_by_id_def jsmap.get_index_inj)
  moreover have "ev_fidelity (snd p) = EXACT" "cd_state (fst p) = MATCHED"
    "exactEvidenceRuleIsConsistent (fst p) (snd p)"
    using p(4) by (auto simp: exactEligibleV3_def exactEvidenceRuleIsConsistent_def split: option.splits)
  moreover have "\<exists>contact trigger. ev_contact_candle (snd p) = Some contact \<and>
      ev_observed_trigger_epoch (snd p) = Some trigger \<and> cd_event_anchor_epoch (fst p) \<le> open_epoch contact \<and>
      ev_htf_context_minutes (snd p) \<noteq> [] \<and>
      list_all (\<lambda>m. trigger < cd_event_anchor_epoch (fst p) + m * 60) (ev_htf_context_minutes (snd p))"
    if "cd_model (fst p) = HTF_FLIP"
    using p(4) that by (auto simp: exactEligibleV3_def eligible_flip_def split: option.splits)
  ultimately show ?thesis
    using p(3) by (auto simp: validateCanonicalSelection_def s validator_iffs linked_pair_def
        list_ex_iff list_all_iff not_le split: option.splits)
qed

definition collision_free :: "platform \<Rightarrow> arbitration_input \<Rightarrow> bool" where
  "collision_free P i \<longleftrightarrow> (\<forall>ps. matched_pairs P (match_request_of i) = Inr ps \<longrightarrow>
     inj_on (sha256 P) (candidate_identity_bytes ` identity_of ` fst ` set ps) \<and>
     inj_on (sha256 P) (evidence_identity_bytes ` snd ` set ps))"

lemma matched_distinct: "matched_pairs P r = Inr ps \<Longrightarrow> distinct (map (cd_model \<circ> fst) ps)"
proof -
  have "cd_model (fst (matchBoc P r p)) = BOC" "cd_model (fst (matchClose P r bar)) = DIR_CLOSE"
    "cd_model (fst (matchFlip P r q)) = HTF_FLIP" for p bar q
    by (simp_all add: matchBoc_def matchClose_def matchFlip_def Let_def split: prod.split)
  then show "matched_pairs P r = Inr ps \<Longrightarrow> ?thesis"
    by (auto simp: matched_pairs_def Let_def split: option.splits if_splits)
qed

lemma matched_ids_distinct:
  assumes P: "sha256_width P" and ps: "matched_pairs P (match_request_of i) = Inr ps" and "collision_free P i"
  shows "inj_on (cd_candidate_id \<circ> fst) (set ps)" and "inj_on (ev_evidence_id \<circ> snd) (set ps)"
proof -
  have free: "inj_on (sha256 P) (candidate_identity_bytes ` identity_of ` fst ` set ps)"
    "inj_on (sha256 P) (evidence_identity_bytes ` snd ` set ps)"
    using assms(3) ps by (auto simp: collision_free_def)
  have same: "p = q" if "p \<in> set ps" "q \<in> set ps" "cd_candidate_id (fst p) = cd_candidate_id (fst q)" for p q
  proof -
    have "identity_of (fst p) = identity_of (fst q)"
      using that by (intro candidateIdV3_eqD[OF P] inj_on_subset[OF free(1)])
        (auto simp: matched_ids(1)[OF ps, symmetric])
    then have "cd_model (fst p) = cd_model (fst q)" by (simp add: identity_of_def)
    with matched_distinct[OF ps] that(1,2) show ?thesis
      by (auto simp: distinct_map inj_on_def)
  qed
  then show "inj_on (cd_candidate_id \<circ> fst) (set ps)" by (auto intro: inj_onI)
  show "inj_on (ev_evidence_id \<circ> snd) (set ps)"
  proof (rule inj_onI)
    fix p q assume pq: "p \<in> set ps" "q \<in> set ps" "(ev_evidence_id \<circ> snd) p = (ev_evidence_id \<circ> snd) q"
    then have "ev_candidate_id (snd p) = ev_candidate_id (snd q)"
      by (intro evidenceIdV3_eqD[OF P] inj_on_subset[OF free(2)])
        (auto simp: matched_ids(2)[OF ps, symmetric])
    then have "cd_candidate_id (fst p) = cd_candidate_id (fst q)"
      using matched_pairs_linked[OF ps] pq by (auto simp: linked_pair_def)
    with same pq show "p = q" by blast
  qed
qed

text \<open>The inputs for which an evaluation completes.\<close>

definition completable :: "arbitration_input \<Rightarrow> bool" where
  "completable i \<longleftrightarrow> validateEntryArbitrationInputV3 i = None \<and>
     (case ai_htf_flip_proof i of None \<Rightarrow> True | Some p \<Rightarrow> complete_flip p) \<and>
     (case ai_confirmed_bar i of None \<Rightarrow> True | Some bar \<Rightarrow> close_epoch bar \<le> ai_observed_at_epoch i)"

lemma request_fields [simp]:
  "rq_boc_proof (match_request_of i) = ai_boc_proof i" "rq_confirmed_bar (match_request_of i) = ai_confirmed_bar i"
  "rq_directional_close (match_request_of i) = ai_directional_close i"
  "rq_htf_flip_proof (match_request_of i) = ai_htf_flip_proof i"
  "rq_observed_at_epoch (match_request_of i) = ai_observed_at_epoch i"
  "rq_close_trigger_sequence (match_request_of i) = ai_close_trigger_sequence i"
  "su_setup_id (rq_setup (match_request_of i)) = ai_setup_id i"
  by (simp_all add: match_request_of_def input_setup_def)

lemma matched_records_ok:
  assumes i: "completable i" and ps: "matched_pairs P (match_request_of i) = Inr ps" and p: "p \<in> set ps"
    and ids: "proper_ids p"
  shows "validateEntryCandidateV3 (fst p) = None" and "validateEntryEvidenceV3 (snd p) = None"
    and "map_get cb (cd_candidate_id (fst p)) = Some (fst p) \<Longrightarrow> validateEvidenceOfCandidate cb (snd p) = None"
    and "cd_source_claim_ids (fst p) = expectedSourceClaimsV3 (fst p)"
proof -
  have ok: "validateEntryArbitrationInputV3 i = None" using i by (simp add: completable_def)
  note acc = accepted_input[OF ok]
  have obs: "epoch_ok (rq_observed_at_epoch (match_request_of i))"
    and sq: "epoch_ok (rq_close_trigger_sequence (match_request_of i))"
    and sid: "su_setup_id (rq_setup (match_request_of i)) \<noteq> []"
    using acc(1,7-10) by (simp_all add: epoch_ok_def)
  have "validateEntryCandidateV3 (fst p) = None \<and> validateEntryEvidenceV3 (snd p) = None \<and>
    (map_get cb (cd_candidate_id (fst p)) = Some (fst p) \<longrightarrow> validateEvidenceOfCandidate cb (snd p) = None) \<and>
    cd_source_claim_ids (fst p) = expectedSourceClaimsV3 (fst p)"
  proof (cases rule: matched_pairs_cases[OF ps p])
    case (1 q)
    then have v: "validateBocProofV3 q (rq_observed_at_epoch (match_request_of i)) = None"
      using acc(14) by simp
    have "cd_source_claim_ids (fst p) = expectedSourceClaimsV3 (fst p)"
      by (simp add: 1 matchBoc_def Let_def expectedSourceClaimsV3_def split: prod.split)
    with 1 v ids show ?thesis
      using matchBoc_candidate_ok[OF v _ sid obs] matchBoc_evidence_ok[OF v _ obs] matchBoc_link_ok[OF v] by simp
  next
    case (2 bar)
    then have v: "candle_ok bar" "close_epoch bar \<le> rq_observed_at_epoch (match_request_of i)"
      using acc(13)[of bar] i by (simp_all add: validateOrderedCandleV3_None_iff completable_def)
    have "cd_source_claim_ids (fst p) = expectedSourceClaimsV3 (fst p)"
      by (simp add: 2 matchClose_def Let_def expectedSourceClaimsV3_def split: prod.split)
    with 2 v ids show ?thesis
      using matchClose_candidate_ok[OF v(1) _ sid obs] matchClose_evidence_ok[OF v sq _ obs]
        matchClose_link_ok by simp
  next
    case (3 q)
    then have v: "validateFlipProofV3 q (rq_observed_at_epoch (match_request_of i)) = None" "complete_flip q"
      using acc(15) i by (simp_all add: completable_def)
    have "cd_source_claim_ids (fst p) = expectedSourceClaimsV3 (fst p)"
      by (simp add: 3 matchFlip_def Let_def expectedSourceClaimsV3_def split: prod.split)
    with 3 v ids show ?thesis
      using matchFlip_candidate_ok[OF v(1) _ sid obs] matchFlip_evidence_ok[OF v _ obs] matchFlip_link_ok by simp
  qed
  then show "validateEntryCandidateV3 (fst p) = None" "validateEntryEvidenceV3 (snd p) = None"
    "map_get cb (cd_candidate_id (fst p)) = Some (fst p) \<Longrightarrow> validateEvidenceOfCandidate cb (snd p) = None"
    "cd_source_claim_ids (fst p) = expectedSourceClaimsV3 (fst p)"
    by simp_all
qed

lemma proper_matched:
  assumes "sha256_width P" and "nonzero_digests P" and "matched_pairs P r = Inr ps" and "p \<in> set ps"
  shows "proper_ids p"
  using proper_canonicalSha256[OF assms(1,2)]
  unfolding proper_ids_def matched_ids[OF assms(3,4)] candidateIdV3_def evidenceIdV3_def evidencePayloadSha256V3_def
  by simp

lemma matched_observed:
  assumes "matched_pairs P r = Inr ps" and "p \<in> set ps"
  shows "cd_observed_at_epoch (fst p) = rq_observed_at_epoch r"
    and "ev_observed_at_epoch (snd p) = rq_observed_at_epoch r"
    and "cd_setup_id (fst p) = su_setup_id (rq_setup r)"
  by (cases rule: matched_pairs_cases[OF assms];
      simp add: matchBoc_def matchClose_def matchFlip_def Let_def split: prod.split)+

text \<open>The evaluation validator, as what it demands of the parts.\<close>

lemma validateEntryEvaluationV3_None:
  assumes "\<And>c. c \<in> set (el_candidates v) \<Longrightarrow> validateEntryCandidateV3 c = None \<and>
      cd_observed_at_epoch c \<le> sl_evaluated_at_epoch (el_selection v) \<and>
      cd_source_claim_ids c = expectedSourceClaimsV3 c"
    and "\<And>e. e \<in> set (el_evidence v) \<Longrightarrow> validateEntryEvidenceV3 e = None \<and>
      ev_observed_at_epoch e \<le> sl_evaluated_at_epoch (el_selection v) \<and>
      validateEvidenceOfCandidate (candidates_by_id (el_candidates v)) e = None"
    and "validateSelectionShapeV3 (el_selection v) = None"
    and "js_sort compare_units (map cd_candidate_id (el_candidates v)) = map cd_candidate_id (el_candidates v)"
    and "js_sort compare_units (map ev_evidence_id (el_evidence v)) = map ev_evidence_id (el_evidence v)"
    and "distinct (map cd_candidate_id (el_candidates v))" "distinct (map ev_evidence_id (el_evidence v))"
    and "sl_candidate_ids_considered (el_selection v) = map cd_candidate_id (el_candidates v)"
    and "validateCanonicalSelection v = None"
  shows "validateEntryEvaluationV3 v = None"
proof -
  have "\<not> list_ex (\<lambda>c. sl_evaluated_at_epoch (el_selection v) < cd_observed_at_epoch c) (el_candidates v)"
    "\<not> list_ex (\<lambda>e. sl_evaluated_at_epoch (el_selection v) < ev_observed_at_epoch e) (el_evidence v)"
    using assms(1,2) by (auto simp: list_ex_iff not_less)
  moreover have "first_error (map validateEntryCandidateV3 (el_candidates v)) = None"
    "first_error (map validateEntryEvidenceV3 (el_evidence v)) = None"
    "first_error (map (validateEvidenceOfCandidate (candidates_by_id (el_candidates v))) (el_evidence v)) = None"
    using assms(1,2) by (simp_all add: first_error_map_None_iff)
  moreover have "first_error (map (\<lambda>c. fail_if (cd_source_claim_ids c \<noteq> expectedSourceClaimsV3 c)
            (TypeError ''source claims conflict with candidate model'')) (el_candidates v)) = None"
    using assms(1) by (simp add: first_error_map_None_iff)
  ultimately show ?thesis
    using assms(3-9) by (simp add: validateEntryEvaluationV3_def Let_def option_case_None_iff)
qed

definition matched_evaluation :: "platform \<Rightarrow> arbitration_input \<Rightarrow> (candidate \<times> evidence) list \<Rightarrow> evaluation" where
  "matched_evaluation P i ps =
     (let cs = js_sort (\<lambda>a b. localeCompare P (cd_candidate_id a) (cd_candidate_id b)) (map fst ps);
          es = js_sort (\<lambda>a b. localeCompare P (ev_evidence_id a) (ev_evidence_id b)) (map snd ps)
      in \<lparr>el_candidates = cs, el_evidence = es, el_selection = decide P (ai_setup_id i)
        (ai_setup_invalidated i) (ai_revision i) (ai_evaluated_at_epoch i) (input_cohort i)
        (candidates_by_id cs) (eligible_list P cs es)\<rparr>)"

lemma evaluate_matched:
  assumes "matched_pairs P (match_request_of i) = Inr ps"
    and "records_ok (ai_setup_id i) (fst ` set ps) (snd ` set ps) (ai_revision i) (ai_evaluated_at_epoch i)"
    and "validateEntryEvaluationV3 (matched_evaluation P i ps) = None"
  shows "evaluateWithoutOpenedSeed P i = Inr (matched_evaluation P i ps)"
proof -
  let ?cs = "js_sort (\<lambda>a b. localeCompare P (cd_candidate_id a) (cd_candidate_id b)) (map fst ps)"
  let ?es = "js_sort (\<lambda>a b. localeCompare P (ev_evidence_id a) (ev_evidence_id b)) (map snd ps)"
  have "arbitrateEntryCandidatesV3 P (ai_setup_id i) ?cs ?es (ai_setup_invalidated i) (ai_revision i)
      (ai_evaluated_at_epoch i) None (input_cohort i) = Inr (el_selection (matched_evaluation P i ps))"
    using assms(2) by (simp add: arbitrate_Inr_iff matched_evaluation_def Let_def)
  then show ?thesis
    using assms(1,3) by (simp add: evaluateWithoutOpenedSeed_def matchEntryCandidatesV3_def Let_def)
      (simp add: matched_evaluation_def Let_def)
qed

text \<open>The facts of one run that the last two lemmas share.\<close>

lemma matched_evaluation_facts:
  assumes i: "completable i" and P: "sha256_width P" "collates_hex P" "collision_free P i"
    and ps: "matched_pairs P (match_request_of i) = Inr ps"
  defines "v \<equiv> matched_evaluation P i ps"
  shows "set (el_candidates v) = fst ` set ps" "set (el_evidence v) = snd ` set ps"
    and "distinct (map cd_candidate_id (el_candidates v))" "distinct (map ev_evidence_id (el_evidence v))"
    and "js_sort compare_units (map cd_candidate_id (el_candidates v)) = map cd_candidate_id (el_candidates v)"
    and "js_sort compare_units (map ev_evidence_id (el_evidence v)) = map ev_evidence_id (el_evidence v)"
    and "records_ok (ai_setup_id i) (fst ` set ps) (snd ` set ps) (ai_revision i) (ai_evaluated_at_epoch i)"
    and "set (eligible_list P (el_candidates v) (el_evidence v)) = {p \<in> set ps. exactEligibleV3 (fst p) (snd p)}"
proof -
  have "validateEntryArbitrationInputV3 i = None" using i by (simp add: completable_def)
  note acc = accepted_input[OF this]
  note inj = matched_ids_distinct[OF P(1) ps P(3)] and hex = matched_hex[OF P(1) ps]
  show sets: "set (el_candidates v) = fst ` set ps" "set (el_evidence v) = snd ` set ps"
    by (simp_all add: v_def matched_evaluation_def Let_def)
  have injs: "inj_on cd_candidate_id (fst ` set ps)" "inj_on ev_evidence_id (snd ` set ps)"
    using inj by (auto simp: inj_on_def)
  have "distinct ps" using matched_distinct[OF ps] by (simp add: distinct_map)
  with inj show dist: "distinct (map cd_candidate_id (el_candidates v))"
      "distinct (map ev_evidence_id (el_evidence v))"
    using injs by (auto simp: v_def matched_evaluation_def Let_def distinct_map
        comp_inj_on_iff[symmetric] intro: inj_on_imageI2)
  show "js_sort compare_units (map cd_candidate_id (el_candidates v)) = map cd_candidate_id (el_candidates v)"
    unfolding v_def matched_evaluation_def Let_def evaluation.select_convs
    by (rule locale_sorted_ids[OF P(2)]) (use hex(1) injs(1) in auto)
  show "js_sort compare_units (map ev_evidence_id (el_evidence v)) = map ev_evidence_id (el_evidence v)"
    unfolding v_def matched_evaluation_def Let_def evaluation.select_convs
    by (rule locale_sorted_ids[OF P(2)]) (use hex(2) injs(2) in auto)
  show rec: "records_ok (ai_setup_id i) (fst ` set ps) (snd ` set ps) (ai_revision i) (ai_evaluated_at_epoch i)"
    unfolding records_ok_def using acc(1-6,11) injs matched_observed[OF ps] matched_pairs_linked[OF ps]
    by (auto simp: linked_pair_def image_image rev_image_eqI)
  show "set (eligible_list P (el_candidates v) (el_evidence v)) = {p \<in> set ps. exactEligibleV3 (fst p) (snd p)}"
    using eligible_list_props(1)[OF P(2) evaluated_hex_ids[OF P(1) ps sets]] rec
      spec_pairs_matched[OF ps injs(1) P(2)] hex(2)
    by (simp add: sets records_ok_def)
qed

lemma matched_evaluation_ok:
  assumes i: "completable i" and P: "sha256_width P" "collates_hex P" "collision_free P i" and nz: "nonzero_digests P"
    and ps: "matched_pairs P (match_request_of i) = Inr ps"
  shows "validateEntryEvaluationV3 (matched_evaluation P i ps) = None"
proof -
  have "validateEntryArbitrationInputV3 i = None" using i by (simp add: completable_def)
  note acc = accepted_input[OF this]
  let ?v = "matched_evaluation P i ps"
  note f = matched_evaluation_facts[OF i P ps]
  have inj: "inj_on cd_candidate_id (set (el_candidates ?v))" "inj_on ev_evidence_id (set (el_evidence ?v))"
    using f(3,4) by (simp_all add: distinct_map)
  have considered: "js_sort compare_units (map_keys (candidates_by_id (el_candidates ?v))) =
      map cd_candidate_id (el_candidates ?v)"
    using considered_ids[OF f(5) inj(1)] f(3) by (simp add: distinct_map)
  have s: "el_selection ?v = decide P (ai_setup_id i) (ai_setup_invalidated i) (ai_revision i)
      (ai_evaluated_at_epoch i) (input_cohort i) (candidates_by_id (el_candidates ?v))
      (eligible_list P (el_candidates ?v) (el_evidence ?v))"
    by (simp add: matched_evaluation_def Let_def)
  obtain can rsn act cos where form: "el_selection ?v = make_selection P (ai_setup_id i) (ai_revision i)
      (ai_evaluated_at_epoch i) (map cd_candidate_id (el_candidates ?v)) can rsn act cos"
    and cos: "co_triggers_ok rsn cos" and none: "can = None \<longrightarrow> emptyActions rsn = Some act"
    and all: "\<forall>p. can = Some p \<longrightarrow> p \<in> {p \<in> set ps. exactEligibleV3 (fst p) (snd p)} \<and>
      act = PAPER_ELIGIBLE \<and> rsn \<in> set canonicalReasons"
    using decide_form[of P "ai_setup_id i" "ai_setup_invalidated i" "ai_revision i" "ai_evaluated_at_epoch i"
        "input_cohort i" "candidates_by_id (el_candidates ?v)" "eligible_list P (el_candidates ?v) (el_evidence ?v)"]
    unfolding s[symmetric] considered f(8) by blast
  have some: "p \<in> set ps \<and> exactEligibleV3 (fst p) (snd p) \<and> act = PAPER_ELIGIBLE \<and> rsn \<in> set canonicalReasons"
    if "can = Some p" for p
    using all that by blast
  have proper: "proper_ids p" if "p \<in> set ps" for p
    using proper_matched[OF P(1) nz ps that] .
  note ok = matched_records_ok[OF i ps _ proper]
  show ?thesis
  proof (rule validateEntryEvaluationV3_None[OF _ _ _ f(5,6,3,4)])
    show "validateSelectionShapeV3 (el_selection ?v) = None"
      unfolding form
    proof (rule make_selection_ok[OF P(1) nz acc(1) _ _ f(5,3) _ _ _ cos])
      show "epoch_ok (ai_revision i)" "epoch_ok (ai_evaluated_at_epoch i)"
        using acc(3-6) by (simp_all add: epoch_ok_def)
      show "[] \<notin> set (map cd_candidate_id (el_candidates ?v))"
        using f(1) proper by (force simp: proper_ids_def proper_digest_def is_sha256_def)
      show "proper_ids p \<and> ev_fidelity (snd p) = EXACT \<and> act = PAPER_ELIGIBLE \<and> rsn \<in> set canonicalReasons"
        if "can = Some p" for p
        using some[OF that] proper by (auto simp: exactEligibleV3_def split: option.splits)
    qed (use none in simp)
    show "validateCanonicalSelection ?v = None"
    proof (cases can)
      case (Some p)
      from some[OF Some] f(1,2) matched_pairs_linked[OF ps, of p] form Some show ?thesis
        by (intro canonical_ok[OF inj, of P _ _ _ _ p rsn cos]) auto
    qed (simp add: validateCanonicalSelection_def form)
    show "sl_candidate_ids_considered (el_selection ?v) = map cd_candidate_id (el_candidates ?v)"
      by (simp add: form)
    show "validateEntryCandidateV3 c = None \<and> cd_observed_at_epoch c \<le> sl_evaluated_at_epoch (el_selection ?v) \<and>
        cd_source_claim_ids c = expectedSourceClaimsV3 c" if "c \<in> set (el_candidates ?v)" for c
      using that f(1) ok(1,4) matched_observed(1)[OF ps] acc(11) by (auto simp: form)
    show "validateEntryEvidenceV3 e = None \<and> ev_observed_at_epoch e \<le> sl_evaluated_at_epoch (el_selection ?v) \<and>
        validateEvidenceOfCandidate (candidates_by_id (el_candidates ?v)) e = None"
      if mem: "e \<in> set (el_evidence ?v)" for e
    proof -
      obtain p where p: "p \<in> set ps" "e = snd p" using mem f(2) by auto
      have "map_get (candidates_by_id (el_candidates ?v)) (cd_candidate_id (fst p)) = Some (fst p)"
        using p(1) f(1) by (simp add: map_get_candidates_by_id[OF inj(1)])
      with p ok(2,3)[OF p(1)] matched_observed(2)[OF ps p(1)] acc(11) show ?thesis by (simp add: form)
    qed
  qed
qed

lemma evaluation_completes:
  assumes i: "completable i" and P: "sha256_width P" "collates_hex P" "collision_free P i" and nz: "nonzero_digests P"
  shows "\<exists>v. evaluateWithoutOpenedSeed P i = Inr v"
proof -
  have "validateEntryArbitrationInputV3 i = None" using i by (simp add: completable_def)
  from accepted_input(12)[OF this] obtain ps where ps: "matched_pairs P (match_request_of i) = Inr ps"
    by (cases "ai_confirmed_bar i") (auto simp: matched_pairs_def)
  from evaluate_matched[OF ps matched_evaluation_facts(7)[OF i P ps] matched_evaluation_ok[OF i P nz ps]]
  show ?thesis by blast
qed

section \<open>Properties of completion\<close>

lemma evaluation_validates:
  assumes "evaluateWithoutOpenedSeed P i = Inr v" and "matched_pairs P (match_request_of i) = Inr ps" and "p \<in> set ps"
  shows "validateEntryEvidenceV3 (snd p) = None"
proof -
  obtain qs where "matched_pairs P (match_request_of i) = Inr qs" "set (el_evidence v) = snd ` set qs"
    and "validateEntryEvaluationV3 v = None"
    using evaluated_parts[OF assms(1)] .
  with assms(2,3) have "snd p \<in> set (el_evidence v)" "validateEntryEvaluationV3 v = None" by auto
  then show ?thesis
    by (auto simp: validateEntryEvaluationV3_def Let_def option_case_None_iff first_error_map_None_iff)
qed

lemma incomplete_flip_evidence:
  assumes "\<not> complete_flip p"
  shows "validateEntryEvidenceV3 (snd (matchFlip P r p)) \<noteq> None"
proof -
  have "validateFlipFields (snd (matchFlip P r p)) \<noteq> None"
    using assms by (auto simp: validateFlipFields_def flip_fields_present_def matchFlip_def Let_def
        complete_flip_def split: prod.split option.split)
  then show ?thesis by (auto simp: validateEntryEvidenceV3_def option_case_None_iff)
qed

lemma late_bar_evidence:
  assumes "rq_observed_at_epoch r < close_epoch bar"
  shows "validateEntryEvidenceV3 (snd (matchClose P r bar)) \<noteq> None"
  using assms by (auto simp: validateEntryEvidenceV3_def option_case_None_iff matchClose_def Let_def
      split: prod.split)

lemma evaluation_completable:
  assumes "validateEntryArbitrationInputV3 i = None" and "evaluateWithoutOpenedSeed P i = Inr v"
  shows "completable i"
proof -
  obtain ps where ps: "matched_pairs P (match_request_of i) = Inr ps"
    using evaluated_parts[OF assms(2)] .
  note ok = evaluation_validates[OF assms(2) ps]
  have "complete_flip p" if flip: "ai_htf_flip_proof i = Some p" for p
  proof (rule ccontr)
    assume "\<not> complete_flip p"
    moreover have "matchFlip P (match_request_of i) p \<in> set ps"
      using ps flip by (auto simp: matched_pairs_def Let_def split: option.splits if_splits)
    ultimately show False using ok incomplete_flip_evidence by blast
  qed
  moreover have "close_epoch bar \<le> ai_observed_at_epoch i" if bar: "ai_confirmed_bar i = Some bar" for bar
  proof (rule ccontr)
    assume "\<not> close_epoch bar \<le> ai_observed_at_epoch i"
    moreover have "matchClose P (match_request_of i) bar \<in> set ps"
      using ps bar accepted_input(12)[OF assms(1)]
      by (auto simp: matched_pairs_def Let_def split: option.splits if_splits)
    ultimately show False using ok late_bar_evidence[of "match_request_of i" bar P] by simp
  qed
  ultimately show ?thesis using assms(1) by (auto simp: completable_def split: option.split)
qed



lemma seeded_accepted:
  assumes "validateEntryArbitrationInputV3 i = None" and "ai_opened_selection_seed i = Some seed"
  shows "validateEntryArbitrationInputV3 (seeded_input i seed) = None" and "input_cohort i = TWO_PLUS_CANDLES"
proof -
  have seed: "validateOpenedSeed i seed = None" using accepted_input(16)[OF assms] .
  then show coh: "input_cohort i = TWO_PLUS_CANDLES"
    by (cases "input_cohort i") (simp_all add: validateOpenedSeed_def option_case_None_iff)
  have "input_cohort (seeded_input i seed) = input_cohort i"
    by (simp add: input_cohort_def seeded_input_def)
  then have "validateLiquidityCohortV3 (input_setup (seeded_input i seed)) = None"
    using coh by (simp add: validateLiquidityCohortV3_def input_setup_def) (simp add: seeded_input_def)
  with assms seed show "validateEntryArbitrationInputV3 (seeded_input i seed) = None"
    by (simp add: validateEntryArbitrationInputV3_def validateOpenedSeed_def option_case_None_iff
        safeInteger_None_iff validateOrderedCandleV3_None_iff)
      (simp add: seeded_input_def option_case_None_iff validateOrderedCandleV3_None_iff)
qed

definition same_opened_setup :: "arbitration_input \<Rightarrow> arbitration_input \<Rightarrow> bool" where
  "same_opened_setup i j \<longleftrightarrow> ai_setup_id j = ai_setup_id i \<and> ai_direction j = ai_direction i \<and>
     ai_zone_top_ticks j = ai_zone_top_ticks i \<and> ai_zone_bottom_ticks j = ai_zone_bottom_ticks i \<and>
     ai_zone_engaged_epoch j = ai_zone_engaged_epoch i \<and> ai_cohort j = ai_cohort i \<and>
     ai_opened_selection_seed j = ai_opened_selection_seed i"

lemma seeded_collision_free:
  "collision_free P (seeded_input i seed)"
proof -
  have "matched_pairs P (match_request_of (seeded_input i seed)) =
      Inr [matchClose P (match_request_of (seeded_input i seed)) (os_confirmed_bar seed)]"
    by (simp add: matched_pairs_def) (simp add: seeded_input_def)
  then show ?thesis by (simp add: collision_free_def)
qed

lemma seeded_market:
  assumes "ai_zone_engaged_epoch i = Some z" and "z \<le> close_epoch (os_confirmed_bar seed)"
    and "aligned_five_minute (os_confirmed_bar seed)" and "input_cohort i = TWO_PLUS_CANDLES"
  defines "r \<equiv> match_request_of (seeded_input i seed)"
  shows "specified_action r = PAPER_ELIGIBLE" and "\<forall>t\<in>set (market_triggers r). mt_model t = DIR_CLOSE"
proof -
  have setup_facts: "su_common_fidelity (rq_setup r) = EXACT" "\<not> su_invalidated_before_entry (rq_setup r)"
    "su_zone_engaged_epoch (rq_setup r) = Some z" "su_liquidity_cohort (rq_setup r) = TWO_PLUS_CANDLES"
    using assms(1,4) by (simp_all add: r_def match_request_of_def input_setup_def seeded_input_def input_cohort_def)
  have proofs: "rq_boc_proof r = None" "rq_htf_flip_proof r = None" "rq_directional_close r"
    "rq_confirmed_bar r = Some (os_confirmed_bar seed)"
    by (simp_all add: r_def match_request_of_def seeded_input_def)
  have "close_holds r (os_confirmed_bar seed)"
    using setup_facts assms(2,3) by (simp add: close_holds_def setup_allows_def aligned_five_minute_def)
  then have t: "market_triggers r = [\<lparr>mt_model = DIR_CLOSE, mt_epoch = close_epoch (os_confirmed_bar seed),
      mt_sequence = rq_close_trigger_sequence r, mt_ticks = close_ticks (os_confirmed_bar seed)\<rparr>]"
    using proofs by (simp add: market_triggers_def)
  then show "\<forall>t\<in>set (market_triggers r). mt_model t = DIR_CLOSE" by simp
  show "specified_action r = PAPER_ELIGIBLE"
    using setup_facts proofs by (simp add: specified_action_def observed_nothing_def t market_conflict_def
        market_earliest_def all_same_def)
qed

lemma decide_stamp:
  "sl_revision (decide P i dead r t coh cb l) = r" "sl_evaluated_at_epoch (decide P i dead r t coh cb l) = t"
  using decide_form[of P i dead r t coh cb l] by auto

lemma evaluated_stamp:
  assumes "evaluateWithoutOpenedSeed P i = Inr v"
  shows "sl_revision (el_selection v) = ai_revision i" "sl_evaluated_at_epoch (el_selection v) = ai_evaluated_at_epoch i"
  by (rule evaluated_parts[OF assms], simp add: arbitrate_Inr_iff decide_stamp)+

lemma seeded_evaluation_cong:
  assumes "same_opened_setup i j"
  shows "evaluateWithoutOpenedSeed P (seeded_input j seed) = evaluateWithoutOpenedSeed P (seeded_input i seed)"
proof -
  have "match_request_of (seeded_input j seed) = match_request_of (seeded_input i seed)"
    "input_cohort (seeded_input j seed) = input_cohort (seeded_input i seed)"
    using assms by (simp_all add: same_opened_setup_def match_request_of_def input_setup_def
        seeded_input_def input_cohort_def input_one_candle_def)
  moreover have "ai_setup_id (seeded_input j seed) = ai_setup_id (seeded_input i seed)"
    using assms by (simp add: same_opened_setup_def seeded_input_def)
  moreover have "ai_setup_invalidated (seeded_input k seed) = False" "ai_revision (seeded_input k seed) = os_revision seed"
    "ai_evaluated_at_epoch (seeded_input k seed) = os_evaluated_at_epoch seed" for k
    by (simp_all add: seeded_input_def)
  ultimately show ?thesis by (simp add: evaluateWithoutOpenedSeed_def)
qed

text \<open>
  C12. An opened selection is kept. For an accepted input with an opened-selection seed whose bar closed
  after the zone was engaged and before the opening evaluation, the evaluation completes and
  reproduces the opened directional-close selection: paper eligible, with the seed's revision and
  evaluation time. Any later accepted input for the same setup and seed gives the very same result,
  whatever its new proofs, fidelity, invalidation or observation time are.
\<close>

theorem opened_selection_is_kept:
  assumes ok: "validateEntryArbitrationInputV3 i = None" and seed: "ai_opened_selection_seed i = Some seed"
    and "ai_zone_engaged_epoch i = Some z" and "z \<le> close_epoch (os_confirmed_bar seed)"
    and "close_epoch (os_confirmed_bar seed) \<le> os_evaluated_at_epoch seed"
    and P: "sha256_width P" "collates_hex P" "nonzero_digests P"
  shows "\<exists>v. evaluateEntryV3Bundle P i = Inr v \<and> sl_action (el_selection v) = PAPER_ELIGIBLE \<and>
    sl_canonical_model (el_selection v) = Some DIR_CLOSE \<and>
    sl_revision (el_selection v) = os_revision seed \<and>
    sl_evaluated_at_epoch (el_selection v) = os_evaluated_at_epoch seed \<and>
    (\<forall>j. validateEntryArbitrationInputV3 j = None \<and> same_opened_setup i j \<longrightarrow>
       evaluateEntryV3Bundle P j = Inr v)"
proof -
  let ?s = "seeded_input i seed"
  note acc = seeded_accepted[OF ok seed]
  have "completable ?s"
    using acc(1) assms(5) by (simp add: completable_def) (simp add: seeded_input_def)
  from evaluation_completes[OF this P(1,2) seeded_collision_free P(3)]
  obtain v where v: "evaluateWithoutOpenedSeed P ?s = Inr v" by blast
  have aligned: "aligned_five_minute (os_confirmed_bar seed)"
    using accepted_input(16)[OF ok seed] by (simp add: validateOpenedSeed_def option_case_None_iff)
  note market = seeded_market[OF assms(3,4) aligned acc(2)]
  have "\<exists>obs. validateBocProofV3 q obs = None" if "ai_boc_proof ?s = Some q" for q
    using that by (simp add: seeded_input_def)
  note ref = evaluation_refines[OF v P(1,2) this]
  have act: "sl_action (el_selection v) = PAPER_ELIGIBLE" using ref(1) market(1) by simp
  moreover have "sl_canonical_model (el_selection v) = Some DIR_CLOSE"
    using ref(2)[OF _ act] market(2) by (auto simp: market_earliest_def)
  moreover have "sl_revision (el_selection v) = os_revision seed \<and>
      sl_evaluated_at_epoch (el_selection v) = os_evaluated_at_epoch seed"
    using evaluated_stamp[OF v] by (simp add: seeded_input_def)
  moreover have "evaluateEntryV3Bundle P i = Inr v"
    using ok seed v by (simp add: evaluateEntryV3Bundle_def)
  moreover have "evaluateEntryV3Bundle P j = Inr v"
    if "validateEntryArbitrationInputV3 j = None" "same_opened_setup i j" for j
    using that seed v seeded_evaluation_cong[OF that(2), of P seed]
    by (simp add: evaluateEntryV3Bundle_def same_opened_setup_def)
  ultimately show ?thesis by blast
qed

end
