(* ===== verification/Rd_Samples.thy ===== *)
theory Rd_Samples
  imports Rd_Completion
begin

text \<open>
  Concrete runs of the v3 entry stack: sample records, an accepted input with a confirmed close, one
  with an incomplete flip and one with an opened selection. Each theorem here applies a property of
  the stack at such an input and discharges its hypotheses there.
\<close>

section \<open>Arbitration of two candidates\<close>

definition sample_close_candidate :: candidate where
  "sample_close_candidate = \<lparr>cd_candidate_id = ''c1'', cd_setup_id = ''setup-1'', cd_model = DIR_CLOSE,
     cd_state = MATCHED, cd_direction = LONG, cd_event_anchor_epoch = 900, cd_trigger_ordinal = 1,
     cd_boc_tier = None, cd_reference_candle_open_epoch = None,
     cd_source_claim_ids = SOURCE_CLAIMS_DIR_CLOSE, cd_observed_at_epoch = 1200\<rparr>"

definition sample_flip_candidate :: candidate where
  "sample_flip_candidate = sample_close_candidate\<lparr>cd_candidate_id := ''c2'', cd_model := HTF_FLIP,
     cd_state := BLOCKED, cd_source_claim_ids := SOURCE_CLAIMS_HTF_FLIP\<rparr>"

definition sample_close_evidence :: evidence where
  "sample_close_evidence = \<lparr>ev_evidence_id = ''e1'', ev_candidate_id = ''c1'',
     ev_observed_trigger_epoch = Some 1200, ev_trigger_sequence = 0, ev_observed_trigger_ticks = Some 108,
     ev_htf_context_minutes = [], ev_fidelity = EXACT, ev_proof_plane = CONFIRMED_5M,
     ev_replayability = REPLAYABLE, ev_coverage_start_epoch = 900, ev_coverage_end_epoch = 1200,
     ev_ambiguity_codes = [], ev_boc_tier = None, ev_reference_candle_open_epoch = None,
     ev_reference_candle_open_ticks = None, ev_reference_candle_high_ticks = None,
     ev_reference_candle_low_ticks = None, ev_reference_candle_close_ticks = None,
     ev_htf_open_ticks = None, ev_contact_candle = None, ev_recross_candle = None,
     ev_coverage_gap_detected = None, ev_full_lifecycle_ordered = None,
     ev_destination_seen_before_contact = None, ev_passed_rule_ids = [''ENTRY_DIR_CLOSE''],
     ev_failed_rule_ids = [], ev_source_claim_ids = SOURCE_CLAIMS_DIR_CLOSE, ev_payload_sha256 = ''f1'',
     ev_observed_at_epoch = 1200\<rparr>"

definition sample_flip_evidence :: evidence where
  "sample_flip_evidence = sample_close_evidence\<lparr>ev_evidence_id := ''e2'', ev_candidate_id := ''c2'',
     ev_fidelity := UNRESOLVED, ev_passed_rule_ids := [], ev_failed_rule_ids := [''HTF_FLIP_COVERAGE_GAP''],
     ev_source_claim_ids := SOURCE_CLAIMS_HTF_FLIP\<rparr>"

definition sample_selection :: selection where
  "sample_selection = projr (arbitrateEntryCandidatesV3 sample_platform ''setup-1''
     [sample_close_candidate, sample_flip_candidate] [sample_close_evidence, sample_flip_evidence]
     False 0 1200 None TWO_PLUS_CANDLES)"

lemmas sample_records = sample_close_candidate_def sample_flip_candidate_def sample_close_evidence_def
  sample_flip_evidence_def

lemma sample_eligible:
  "exactEligibleV3 sample_close_candidate sample_close_evidence"
  "\<not> exactEligibleV3 sample_flip_candidate sample_flip_evidence"
  by (simp_all add: exactEligibleV3_def sample_records eligible_close_def eligible_plane_def
      flip_fields_present_def)

lemma sample_hex_ids:
  "hex_ids [sample_close_candidate, sample_flip_candidate] [sample_close_evidence, sample_flip_evidence]"
  by (simp add: hex_ids_def sample_records hex_string_def hex_chars_def)

lemma sample_arbitrated:
  "arbitrateEntryCandidatesV3 sample_platform ''setup-1'' [sample_close_candidate, sample_flip_candidate]
     [sample_close_evidence, sample_flip_evidence] False 0 1200 None TWO_PLUS_CANDLES = Inr sample_selection"
proof -
  have "records_ok ''setup-1'' {sample_close_candidate, sample_flip_candidate}
      {sample_close_evidence, sample_flip_evidence} 0 1200"
    by (simp add: records_ok_def sample_records js_trim_def js_whitespace_def code_unit_def
        is_safe_integer_def MAX_SAFE_INTEGER_def)
  then have "\<exists>s. arbitrateEntryCandidatesV3 sample_platform ''setup-1''
      [sample_close_candidate, sample_flip_candidate]
      [sample_close_evidence, sample_flip_evidence] False 0 1200 None TWO_PLUS_CANDLES = Inr s"
    by (simp add: arbitrate_Inr_iff)
  then show ?thesis by (auto simp: sample_selection_def)
qed

lemma sample_no_conflict:
  "\<not> price_conflict (spec_pairs sample_platform {sample_close_candidate, sample_flip_candidate}
     {sample_close_evidence, sample_flip_evidence})"
proof -
  have "fst p = sample_close_candidate" if "p \<in> spec_pairs sample_platform
      {sample_close_candidate, sample_flip_candidate} {sample_close_evidence, sample_flip_evidence}" for p
    using that sample_eligible(2)
    by (auto simp: spec_pairs_def eligible_of_def) (auto simp: sample_records)
  then show ?thesis by (auto simp: price_conflict_def many_models_def spec_earliest_def)
qed

lemma sample_paper: "sl_action sample_selection = PAPER_ELIGIBLE"
proof -
  have "inj_on ev_evidence_id (set [sample_close_evidence, sample_flip_evidence])"
    by (simp add: sample_records)
  from spec_pairs_nonempty_iff[OF sample_platform_collates sample_hex_ids this]
  have "spec_pairs sample_platform (set [sample_close_candidate, sample_flip_candidate])
      (set [sample_close_evidence, sample_flip_evidence]) \<noteq> {}"
    using sample_eligible(1) by (simp add: sample_records)
  then show ?thesis
    using paper_iff_spec[OF sample_arbitrated sample_platform_collates sample_hex_ids] sample_no_conflict by simp
qed

theorem arbitrate_paper_eligible_iff_witness:
  "sl_action sample_selection = PAPER_ELIGIBLE \<longleftrightarrow> (\<exists>c\<in>{sample_close_candidate, sample_flip_candidate}.
     \<exists>e\<in>{sample_close_evidence, sample_flip_evidence}.
       ev_candidate_id e = cd_candidate_id c \<and> exactEligibleV3 c e)"
  using arbitrate_paper_eligible_iff[OF sample_arbitrated sample_platform_collates sample_hex_ids]
    sample_no_conflict by simp

theorem arbitrate_canonical_is_earliest_witness:
  "sl_canonical_candidate_id sample_selection = Some ''c1'' \<and>
   sl_canonical_evidence_id sample_selection = Some ''e1'' \<and> sl_fidelity sample_selection = Some EXACT"
  using arbitrate_canonical_is_earliest[OF sample_arbitrated sample_platform_collates sample_hex_ids sample_paper]
    sample_eligible(2) by (auto simp: sample_records)

theorem arbitrate_order_independent_witness:
  "arbitrateEntryCandidatesV3 sample_platform ''setup-1''
     [sample_flip_candidate, sample_close_candidate, sample_flip_candidate]
     [sample_flip_evidence, sample_close_evidence] False 0 1200 None TWO_PLUS_CANDLES = Inr sample_selection"
  by (rule arbitrate_order_independent[OF sample_arbitrated sample_platform_collates sample_hex_ids]) auto

section \<open>Evaluations\<close>

definition sample_bar :: ordered_candle where
  "sample_bar = \<lparr>open_epoch = 900, close_epoch = 1200, open_ticks = 100, high_ticks = 110,
     low_ticks = 95, close_ticks = 108\<rparr>"

definition sample_input :: arbitration_input where
  "sample_input = \<lparr>ai_setup_id = ''setup-1'', ai_direction = LONG, ai_zone_top_ticks = 105,
     ai_zone_bottom_ticks = 90, ai_zone_engaged_epoch = Some 600, ai_common_fidelity = EXACT,
     ai_cohort = None, ai_setup_invalidated = False, ai_boc_proof = None, ai_directional_close = True,
     ai_confirmed_bar = Some sample_bar, ai_close_trigger_sequence = 0, ai_htf_flip_proof = None,
     ai_observed_at_epoch = 1200, ai_policy_version = POLICY_VERSION_V3, ai_revision = 0,
     ai_evaluated_at_epoch = 1200, ai_opened_selection_seed = None\<rparr>"

definition sample_flip_proof :: flip_proof where
  "sample_flip_proof = \<lparr>fp_event_anchor_epoch = 900, fp_trigger_epoch = 1150, fp_trigger_sequence = 3,
     fp_trigger_ticks = 104, fp_htf_open_ticks = 101, fp_htf_context_minutes = [15],
     fp_proof_plane = LOWER_TIMEFRAME_REPLAY, fp_replayability = REPLAYABLE, fp_fidelity = EXACT,
     fp_coverage_start_epoch = 900, fp_coverage_end_epoch = 1200, fp_is_realtime = False,
     fp_contact_candle = None, fp_recross_candle = None, fp_coverage_gap_detected = False,
     fp_full_lifecycle_ordered = True, fp_destination_seen_before_contact = False,
     fp_ambiguity_codes = []\<rparr>"

definition sample_seed :: opened_seed where
  "sample_seed = \<lparr>os_confirmed_bar = sample_bar, os_trigger_sequence = 0, os_revision = 0,
     os_evaluated_at_epoch = 1200\<rparr>"

lemma sample_accepted:
  "validateEntryArbitrationInputV3 sample_input = None"
  "validateEntryArbitrationInputV3 (sample_input\<lparr>ai_htf_flip_proof := Some sample_flip_proof\<rparr>) = None"
  "validateEntryArbitrationInputV3 (sample_input\<lparr>ai_opened_selection_seed := Some sample_seed\<rparr>) = None"
  "validateEntryArbitrationInputV3 (sample_input\<lparr>ai_opened_selection_seed := Some sample_seed,
     ai_setup_invalidated := True, ai_common_fidelity := UNRESOLVED, ai_evaluated_at_epoch := 1500\<rparr>) = None"
  by code_simp+

lemma sample_nonzero: "nonzero_digests sample_platform"
proof -
  have "hex_chars ! Suc 0 = CHR ''1''" by (simp add: hex_chars_def)
  then have "CHR ''1'' \<in> set (canonicalSha256 sample_platform j)" for j
    by (simp add: canonicalSha256_def sha256Hex_def sample_platform_def Let_def hex_byte_def hex_digit_def)
  moreover have "CHR ''1'' \<notin> set zero_digest" by (simp add: zero_digest_def)
  ultimately show ?thesis unfolding nonzero_digests_def by metis
qed

lemma sample_collision_free: "collision_free sample_platform sample_input"
  by (simp add: collision_free_def matched_pairs_def) (simp add: sample_input_def)

lemmas sample_run = sample_platform_width sample_platform_collates sample_collision_free sample_nonzero

lemma sample_completes: "\<exists>v. evaluateEntryV3Bundle sample_platform sample_input = Inr v"
proof -
  have "completable sample_input" using sample_accepted(1)
    by (simp add: completable_def) (simp add: sample_input_def sample_bar_def)
  from evaluation_completes[OF this sample_run] sample_accepted(1) show ?thesis
    by (simp add: evaluateEntryV3Bundle_def) (simp add: sample_input_def)
qed




theorem opened_selection_is_kept_witness:
  "\<exists>v. evaluateEntryV3Bundle sample_platform (sample_input\<lparr>ai_opened_selection_seed := Some sample_seed\<rparr>) = Inr v \<and>
     sl_action (el_selection v) = PAPER_ELIGIBLE \<and>
     evaluateEntryV3Bundle sample_platform (sample_input\<lparr>ai_opened_selection_seed := Some sample_seed,
       ai_setup_invalidated := True, ai_common_fidelity := UNRESOLVED, ai_evaluated_at_epoch := 1500\<rparr>) = Inr v"
proof -
  have "\<exists>v. evaluateEntryV3Bundle sample_platform (sample_input\<lparr>ai_opened_selection_seed := Some sample_seed\<rparr>) = Inr v \<and>
     sl_action (el_selection v) = PAPER_ELIGIBLE \<and> sl_canonical_model (el_selection v) = Some DIR_CLOSE \<and>
     sl_revision (el_selection v) = os_revision sample_seed \<and>
     sl_evaluated_at_epoch (el_selection v) = os_evaluated_at_epoch sample_seed \<and>
     (\<forall>j. validateEntryArbitrationInputV3 j = None \<and>
       same_opened_setup (sample_input\<lparr>ai_opened_selection_seed := Some sample_seed\<rparr>) j \<longrightarrow>
       evaluateEntryV3Bundle sample_platform j = Inr v)"
    by (rule opened_selection_is_kept[OF sample_accepted(3), where z = 600])
      (simp_all add: sample_platform_width sample_platform_collates sample_nonzero sample_input_def
        sample_seed_def sample_bar_def)
  moreover have "same_opened_setup (sample_input\<lparr>ai_opened_selection_seed := Some sample_seed\<rparr>)
      (sample_input\<lparr>ai_opened_selection_seed := Some sample_seed, ai_setup_invalidated := True,
       ai_common_fidelity := UNRESOLVED, ai_evaluated_at_epoch := 1500\<rparr>)"
    by (simp add: same_opened_setup_def)
  ultimately show ?thesis using sample_accepted(4) by blast
qed

end
