(* ===== verification/Paper_Readiness.thy ===== *)
theory Paper_Readiness
  imports Js_Prelude
begin

text \<open>
  The paper-trading readiness gate of \<open>paper-readiness.ts\<close>: per-account risk reports, the test
  for one more open position, and the overall state READY, DEGRADED or STOPPED. The lemmas state the
  limits in exact arithmetic: the truncating basis-point quotient, capped at the largest safe
  integer, decides every limit as the rational inequality does.

  \<open>Date.parse\<close> is an argument of the evaluation: milliseconds, or \<open>None\<close> where it yields
  NaN. The report's constant fields (schema version, mode, thresholds, execution) are left out.
\<close>

section \<open>Data\<close>

datatype readiness_state = READY | DEGRADED | STOPPED

datatype reason_code = KILL_SWITCH_ENABLED | NO_PAPER_ACCOUNTS | NO_AUTOMATION_RECEIPT
  | RECEIPT_CLOCK_SKEW | RECEIPT_STALE | STALE_OPEN_INTENT | DAILY_LOSS_LIMIT | TOTAL_DRAWDOWN_LIMIT
  | OPEN_RISK_LIMIT | OPEN_POSITION_LIMIT | NON_POSITIVE_BALANCE

record readiness_reason =
  rr_code :: reason_code
  rr_account_id :: "string option"
  rr_message :: string

record account_input =
  ac_account_id :: string
  ac_label :: string
  ac_opening_balance_minor :: int
  ac_balance_minor :: int
  ac_daily_pnl_minor :: int
  ac_open_risk_minor :: int
  ac_open_positions :: int
  ac_max_drawdown_minor :: int

record account_report =
  ar_account_id :: string
  ar_label :: string
  ar_state :: readiness_state
  ar_daily_pnl_minor :: int
  ar_daily_loss_bps :: int
  ar_total_drawdown_bps :: int
  ar_open_risk_bps :: int
  ar_open_positions :: int
  ar_reasons :: "readiness_reason list"

record kill_switch =
  ks_enabled :: bool
  ks_reason :: "string option"
  ks_changed_at :: "string option"

record latest_receipt =
  lr_receipt_id :: string
  lr_received_at :: string
  lr_producer_instance_id :: string
  lr_sequence :: int
  lr_symbol :: string

record open_health =
  oh_open_intents :: int
  oh_stale_open_intents :: int
  oh_oldest_open_intent_at :: "string option"

record readiness_input =
  ri_evaluated_at :: string
  ri_kill_switch :: kill_switch
  ri_latest_receipt :: "latest_receipt option"
  ri_open_health :: open_health
  ri_accounts :: "account_input list"

record readiness_report =
  rp_state :: readiness_state
  rp_evaluated_at :: string
  rp_kill_switch :: kill_switch
  rp_latest_receipt :: "(latest_receipt \<times> int option) option"
  rp_open_health :: open_health
  rp_accounts :: "account_report list"
  rp_reasons :: "readiness_reason list"

definition receipt_max_age_seconds :: int where "receipt_max_age_seconds = 900"
definition max_daily_loss_bps :: int where "max_daily_loss_bps = 500"
definition max_total_drawdown_bps :: int where "max_total_drawdown_bps = 1000"
definition max_open_risk_bps :: int where "max_open_risk_bps = 200"
definition max_open_positions :: int where "max_open_positions = 4"

lemmas thresholds = receipt_max_age_seconds_def max_daily_loss_bps_def max_total_drawdown_bps_def
  max_open_risk_bps_def max_open_positions_def

section \<open>Operations\<close>

definition ratioBps :: "int \<Rightarrow> int \<Rightarrow> int" where
  "ratioBps numerator denominator =
     (if numerator \<le> 0 \<or> denominator \<le> 0 then 0
      else let value = bigint_div (numerator * 10000) denominator in
        if value > MAX_SAFE_INTEGER then MAX_SAFE_INTEGER else value)"

definition ratioExceedsBps :: "int \<Rightarrow> int \<Rightarrow> int \<Rightarrow> bool" where
  "ratioExceedsBps numerator denominator limitBps =
     (if numerator \<le> 0 \<or> denominator \<le> 0 then False
      else numerator * 10000 > denominator * limitBps)"

definition account_reason :: "reason_code \<Rightarrow> account_input \<Rightarrow> string \<Rightarrow> readiness_reason" where
  "account_reason code account text =
     \<lparr>rr_code = code, rr_account_id = Some (ac_account_id account), rr_message = ac_label account @ text\<rparr>"

definition account_reasons :: "account_input \<Rightarrow> readiness_reason list" where
  "account_reasons account =
     (let dailyLossBps = ratioBps (max 0 (- ac_daily_pnl_minor account)) (ac_opening_balance_minor account);
          totalDrawdownBps = ratioBps (ac_max_drawdown_minor account) (ac_opening_balance_minor account) in
      (if ac_balance_minor account \<le> 0
       then [account_reason NON_POSITIVE_BALANCE account '' has no positive paper balance.''] else []) @
      (if dailyLossBps \<ge> max_daily_loss_bps
       then [account_reason DAILY_LOSS_LIMIT account '' reached the daily-loss limit.''] else []) @
      (if totalDrawdownBps \<ge> max_total_drawdown_bps
       then [account_reason TOTAL_DRAWDOWN_LIMIT account '' reached the total-drawdown limit.''] else []) @
      (if ratioExceedsBps (ac_open_risk_minor account) (ac_balance_minor account) max_open_risk_bps
       then [account_reason OPEN_RISK_LIMIT account '' exceeds the aggregate open-risk limit.''] else []) @
      (if ac_open_positions account > max_open_positions
       then [account_reason OPEN_POSITION_LIMIT account '' exceeds the open-position limit.''] else []))"

definition accountReport :: "account_input \<Rightarrow> account_report" where
  "accountReport account =
     \<lparr>ar_account_id = ac_account_id account, ar_label = ac_label account,
      ar_state = (if account_reasons account = [] then READY else STOPPED),
      ar_daily_pnl_minor = ac_daily_pnl_minor account,
      ar_daily_loss_bps = ratioBps (max 0 (- ac_daily_pnl_minor account)) (ac_opening_balance_minor account),
      ar_total_drawdown_bps = ratioBps (ac_max_drawdown_minor account) (ac_opening_balance_minor account),
      ar_open_risk_bps = ratioBps (ac_open_risk_minor account) (ac_balance_minor account),
      ar_open_positions = ac_open_positions account, ar_reasons = account_reasons account\<rparr>"

definition with_open :: "account_input \<Rightarrow> int \<Rightarrow> int \<Rightarrow> account_input" where
  "with_open account risk positions = account
     \<lparr>ac_open_risk_minor := ac_open_risk_minor account + risk,
      ac_open_positions := ac_open_positions account + positions\<rparr>"

definition paperAccountAllowsNewOpen :: "account_input \<Rightarrow> int \<Rightarrow> int \<Rightarrow> bool" where
  "paperAccountAllowsNewOpen account candidateRiskMinor candidatePositions =
     (if \<not> is_safe_integer candidateRiskMinor \<or> candidateRiskMinor \<le> 0 \<or>
         \<not> is_safe_integer candidatePositions \<or> candidatePositions < 1 then False
      else if \<not> is_safe_integer (ac_open_risk_minor account + candidateRiskMinor) \<or>
         \<not> is_safe_integer (ac_open_positions account + candidatePositions) then False
      else ar_state (accountReport (with_open account candidateRiskMinor candidatePositions)) = READY)"

definition global_reason :: "reason_code \<Rightarrow> string \<Rightarrow> readiness_reason" where
  "global_reason code text = \<lparr>rr_code = code, rr_account_id = None, rr_message = text\<rparr>"

text \<open>The age of the latest receipt, and the reasons it gives.\<close>

definition receipt_age :: "(string \<Rightarrow> int option) \<Rightarrow> string \<Rightarrow> string \<Rightarrow> int option" where
  "receipt_age date_parse received evaluated =
     (case (date_parse received, date_parse evaluated) of
        (Some receiptTime, Some evaluatedTime) \<Rightarrow>
          let age = (evaluatedTime - receiptTime) div 1000 in if age < -60 then None else Some (max 0 age)
      | _ \<Rightarrow> None)"

definition receipt_reasons :: "(string \<Rightarrow> int option) \<Rightarrow> string \<Rightarrow> latest_receipt option \<Rightarrow> readiness_reason list" where
  "receipt_reasons date_parse evaluated receipt =
     (case receipt of
        None \<Rightarrow> [global_reason NO_AUTOMATION_RECEIPT
          ''No TradingView paper-automation receipt has been recorded.'']
      | Some r \<Rightarrow>
          (case receipt_age date_parse (lr_received_at r) evaluated of
             None \<Rightarrow> [global_reason RECEIPT_CLOCK_SKEW
               ''The latest automation receipt has an invalid clock offset.'']
           | Some age \<Rightarrow> if age > receipt_max_age_seconds
               then [global_reason RECEIPT_STALE ''TradingView paper-automation receipts are stale.''] else []))"

definition evaluatePaperReadiness :: "(string \<Rightarrow> int option) \<Rightarrow> readiness_input \<Rightarrow> readiness_report" where
  "evaluatePaperReadiness date_parse input =
     (let accounts = map accountReport (ri_accounts input);
          reasons =
            (if ks_enabled (ri_kill_switch input) then [global_reason KILL_SWITCH_ENABLED
               (''Kill switch engaged: '' @ (case ks_reason (ri_kill_switch input) of None \<Rightarrow> ''null'' | Some s \<Rightarrow> s))]
             else []) @
            (if accounts = [] then [global_reason NO_PAPER_ACCOUNTS ''No paper accounts are registered.''] else []) @
            concat (map ar_reasons accounts) @
            receipt_reasons date_parse (ri_evaluated_at input) (ri_latest_receipt input) @
            (if oh_stale_open_intents (ri_open_health input) > 0 then [global_reason STALE_OPEN_INTENT
               (js_number (oh_stale_open_intents (ri_open_health input)) @ '' open paper intent(s) are stale.'')]
             else []);
          stopped = ks_enabled (ri_kill_switch input) \<or> list_ex (\<lambda>a. ar_state a = STOPPED) accounts in
      \<lparr>rp_state = (if stopped then STOPPED else if reasons \<noteq> [] then DEGRADED else READY),
       rp_evaluated_at = ri_evaluated_at input, rp_kill_switch = ri_kill_switch input,
       rp_latest_receipt = map_option (\<lambda>r. (r, receipt_age date_parse (lr_received_at r) (ri_evaluated_at input)))
         (ri_latest_receipt input),
       rp_open_health = ri_open_health input, rp_accounts = accounts, rp_reasons = reasons\<rparr>)"

section \<open>Limits in exact arithmetic\<close>

lemma div_ge_iff:
  fixes d k n :: int
  assumes "0 < d"
  shows "k \<le> n div d \<longleftrightarrow> k * d \<le> n"
proof
  assume "k \<le> n div d"
  then have "k * d \<le> n div d * d" using assms by (simp add: mult_right_mono)
  also have "\<dots> \<le> n" using assms by (simp add: minus_mod_eq_div_mult [symmetric])
  finally show "k * d \<le> n" .
next
  assume "k * d \<le> n"
  then have "k * d div d \<le> n div d" using assms by (rule zdiv_mono1)
  then show "k \<le> n div d" using assms by simp
qed

lemma ratioBps_ge_iff:
  assumes "0 < k" and "k \<le> MAX_SAFE_INTEGER"
  shows "k \<le> ratioBps n d \<longleftrightarrow> 0 < n \<and> 0 < d \<and> k * d \<le> n * 10000"
  using assms div_ge_iff[of d k "n * 10000"]
  by (auto simp: ratioBps_def Let_def bigint_div_nonneg)

lemma ratioBps_bounds: "0 \<le> ratioBps n d \<and> ratioBps n d \<le> MAX_SAFE_INTEGER"
  by (auto simp: ratioBps_def Let_def bigint_div_nonneg pos_imp_zdiv_nonneg_iff MAX_SAFE_INTEGER_def)

text \<open>An account within its limits: the five inequalities, cross-multiplied.\<close>

definition within_limits :: "account_input \<Rightarrow> bool" where
  "within_limits a \<longleftrightarrow> 0 < ac_balance_minor a \<and>
     \<not> (0 < ac_opening_balance_minor a \<and> ac_daily_pnl_minor a < 0 \<and>
        500 * ac_opening_balance_minor a \<le> 10000 * - ac_daily_pnl_minor a) \<and>
     \<not> (0 < ac_opening_balance_minor a \<and> 0 < ac_max_drawdown_minor a \<and>
        1000 * ac_opening_balance_minor a \<le> 10000 * ac_max_drawdown_minor a) \<and>
     10000 * ac_open_risk_minor a \<le> 200 * ac_balance_minor a \<and> ac_open_positions a \<le> 4"

lemma account_reasons_Nil_iff: "account_reasons a = [] \<longleftrightarrow> within_limits a"
proof -
  have "max_daily_loss_bps \<le> ratioBps (max 0 (- ac_daily_pnl_minor a)) (ac_opening_balance_minor a) \<longleftrightarrow>
      ac_daily_pnl_minor a < 0 \<and> 0 < ac_opening_balance_minor a \<and>
      500 * ac_opening_balance_minor a \<le> 10000 * - ac_daily_pnl_minor a"
    by (subst ratioBps_ge_iff) (auto simp: thresholds MAX_SAFE_INTEGER_def max_def)
  moreover have "max_total_drawdown_bps \<le> ratioBps (ac_max_drawdown_minor a) (ac_opening_balance_minor a) \<longleftrightarrow>
      0 < ac_max_drawdown_minor a \<and> 0 < ac_opening_balance_minor a \<and>
      1000 * ac_opening_balance_minor a \<le> 10000 * ac_max_drawdown_minor a"
    by (subst ratioBps_ge_iff) (auto simp: thresholds MAX_SAFE_INTEGER_def)
  ultimately show ?thesis
    by (auto simp: account_reasons_def Let_def within_limits_def ratioExceedsBps_def thresholds)
qed

lemma accountReport_state: "ar_state (accountReport a) = (if within_limits a then READY else STOPPED)"
  by (simp add: accountReport_def account_reasons_Nil_iff)

text \<open>
  C15. The overall state in exact arithmetic. The gate is STOPPED exactly when the kill switch is on or
  some account is outside its limits (no positive balance, daily loss at or above 5 percent or
  drawdown at or above 10 percent of the opening balance, open risk above 2 percent of the balance,
  more than four open positions); it is READY exactly when none of this holds, there is an account, no open
  intent is stale and the latest receipt is at most 900 seconds old (clock skew up to 60 seconds
  ahead is allowed); otherwise it is DEGRADED.
\<close>

theorem readiness_state_characterised:
  "(rp_state (evaluatePaperReadiness date_parse i) = STOPPED \<longleftrightarrow>
      ks_enabled (ri_kill_switch i) \<or> (\<exists>a\<in>set (ri_accounts i). \<not> within_limits a)) \<and>
   (rp_state (evaluatePaperReadiness date_parse i) = READY \<longleftrightarrow>
      \<not> ks_enabled (ri_kill_switch i) \<and> ri_accounts i \<noteq> [] \<and> list_all within_limits (ri_accounts i) \<and>
      oh_stale_open_intents (ri_open_health i) \<le> 0 \<and>
      (\<exists>r received evaluated. ri_latest_receipt i = Some r \<and> date_parse (lr_received_at r) = Some received \<and>
         date_parse (ri_evaluated_at i) = Some evaluated \<and>
         -60 \<le> (evaluated - received) div 1000 \<and> (evaluated - received) div 1000 \<le> 900))"
proof -
  have stopped: "list_ex (\<lambda>a. ar_state a = STOPPED) (map accountReport (ri_accounts i)) \<longleftrightarrow>
      (\<exists>a\<in>set (ri_accounts i). \<not> within_limits a)"
    by (auto simp: list_ex_iff accountReport_state)
  have reasons: "concat (map ar_reasons (map accountReport (ri_accounts i))) = [] \<longleftrightarrow>
      list_all within_limits (ri_accounts i)"
    by (auto simp: accountReport_def list_all_iff account_reasons_Nil_iff)
  have receipt: "receipt_reasons date_parse (ri_evaluated_at i) (ri_latest_receipt i) = [] \<longleftrightarrow>
      (\<exists>r received evaluated. ri_latest_receipt i = Some r \<and> date_parse (lr_received_at r) = Some received \<and>
         date_parse (ri_evaluated_at i) = Some evaluated \<and>
         -60 \<le> (evaluated - received) div 1000 \<and> (evaluated - received) div 1000 \<le> 900)"
    by (auto simp: receipt_reasons_def receipt_age_def thresholds Let_def split: option.splits if_splits)
  show ?thesis
    unfolding evaluatePaperReadiness_def Let_def readiness_report.select_convs stopped
      append_is_Nil_conv reasons receipt
    by (auto simp: list_all_iff)
qed

lemma within_limits_mono:
  assumes "within_limits (with_open a r p)" and "r' \<le> r" and "p' \<le> p"
  shows "within_limits (with_open a r' p')"
  using assms by (auto simp: within_limits_def with_open_def)

lemma allowsNewOpen_iff:
  "paperAccountAllowsNewOpen a r p \<longleftrightarrow> is_safe_integer r \<and> 0 < r \<and> is_safe_integer p \<and> 1 \<le> p \<and>
     is_safe_integer (ac_open_risk_minor a + r) \<and> is_safe_integer (ac_open_positions a + p) \<and>
     within_limits (with_open a r p)"
  by (auto simp: paperAccountAllowsNewOpen_def accountReport_state)

text \<open>
  What the gate for a new position guarantees. If an open is allowed then the account with the new
  risk and positions added is still within every limit, and so is the account as it stands; and any
  smaller open on the same account is allowed too.
\<close>

theorem allowed_open_stays_ready:
  assumes "paperAccountAllowsNewOpen a risk positions"
    and "is_safe_integer (ac_open_risk_minor a)" and "is_safe_integer (ac_open_positions a)"
  shows "ar_state (accountReport (with_open a risk positions)) = READY \<and>
    ar_state (accountReport a) = READY \<and>
    (\<forall>r p. 0 < r \<and> r \<le> risk \<and> 1 \<le> p \<and> p \<le> positions \<longrightarrow> paperAccountAllowsNewOpen a r p)"
proof -
  have ok: "within_limits (with_open a risk positions)" and pos: "0 < risk" "1 \<le> positions"
    using assms(1) by (simp_all add: allowsNewOpen_iff)
  have "with_open a 0 0 = a" by (simp add: with_open_def)
  then have "within_limits a" using within_limits_mono[OF ok, of 0 0] pos by simp
  moreover have "paperAccountAllowsNewOpen a r p" if "0 < r" "r \<le> risk" "1 \<le> p" "p \<le> positions" for r p
    using that assms within_limits_mono[OF ok that(2,4)]
    by (auto simp: allowsNewOpen_iff is_safe_integer_def)
  ultimately show ?thesis using ok by (simp add: accountReport_state)
qed

definition sample_account :: account_input where
  "sample_account = \<lparr>ac_account_id = ''a1'', ac_label = ''demo'', ac_opening_balance_minor = 1000000,
     ac_balance_minor = 990000, ac_daily_pnl_minor = -10000, ac_open_risk_minor = 9000,
     ac_open_positions = 2, ac_max_drawdown_minor = 12000\<rparr>"

theorem allowed_open_stays_ready_witness:
  "paperAccountAllowsNewOpen sample_account 10800 2 \<and> \<not> paperAccountAllowsNewOpen sample_account 10801 2 \<and>
   ar_state (accountReport sample_account) = READY \<and> paperAccountAllowsNewOpen sample_account 5000 1"
proof -
  have a: "paperAccountAllowsNewOpen sample_account 10800 2" "\<not> paperAccountAllowsNewOpen sample_account 10801 2"
    by code_simp+
  have "is_safe_integer (ac_open_risk_minor sample_account)" "is_safe_integer (ac_open_positions sample_account)"
    by (simp_all add: sample_account_def is_safe_integer_def MAX_SAFE_INTEGER_def)
  from allowed_open_stays_ready[OF a(1) this] a show ?thesis by simp
qed

end
