(* ===== verification/Transition_Systems.thy ===== *)
theory Transition_Systems
  imports Main
begin

text \<open>
  Labelled transition systems for the stateful components: finite runs, and three contracts as
  locales. \<open>invariant_system\<close> carries an invariant along every run; \<open>counted_system\<close> adds a
  level that certain labels raise by one and nothing lowers, and bounds how often they occur;
  \<open>ranked_system\<close> adds a rank that no transition raises and every change of interest lowers.
\<close>

inductive run :: "('s \<Rightarrow> 'l \<Rightarrow> 's \<Rightarrow> bool) \<Rightarrow> 's \<Rightarrow> 'l list \<Rightarrow> 's \<Rightarrow> bool" for step where
  run_Nil: "run step s [] s"
| run_Cons: "step s l t \<Longrightarrow> run step t ls u \<Longrightarrow> run step s (l # ls) u"

inductive_cases run_ConsE: "run step s (l # ls) u"
inductive_simps run_Nil_simp [simp]: "run step s [] t"

lemma run_Cons_iff: "run step s (l # ls) u \<longleftrightarrow> (\<exists>t. step s l t \<and> run step t ls u)"
  by (auto intro: run_Cons elim: run_ConsE)

lemma run_single: "step s l t \<Longrightarrow> run step s [l] t"
  by (auto intro: run.intros)

lemma run_append: "run step s ls t \<Longrightarrow> run step t ms u \<Longrightarrow> run step s (ls @ ms) u"
  by (induction rule: run.induct) (auto intro: run_Cons)

lemma run_append_iff: "run step s (ls @ ms) u \<longleftrightarrow> (\<exists>t. run step s ls t \<and> run step t ms u)"
  by (induction ls arbitrary: s) (auto simp: run_Cons_iff)

locale invariant_system =
  fixes step :: "'s \<Rightarrow> 'l \<Rightarrow> 's \<Rightarrow> bool" and inv :: "'s \<Rightarrow> bool"
  assumes preserved: "inv s \<Longrightarrow> step s l t \<Longrightarrow> inv t"
begin

lemma invariant_run: "run step s ls t \<Longrightarrow> inv s \<Longrightarrow> inv t"
  by (induction rule: run.induct) (auto intro: preserved)

lemma stable_run:
  assumes "\<And>s l t. inv s \<Longrightarrow> step s l t \<Longrightarrow> P s \<Longrightarrow> P t"
  shows "run step s ls t \<Longrightarrow> inv s \<Longrightarrow> P s \<Longrightarrow> P t"
  by (induction rule: run.induct) (auto intro: preserved assms)

end

locale counted_system = invariant_system +
  fixes counts :: "'b \<Rightarrow> bool" and level :: "'a \<Rightarrow> nat" and bound :: nat
  assumes counted: "inv s \<Longrightarrow> step s l t \<Longrightarrow> level t = (if counts l then Suc (level s) else level s)"
    and bounded: "inv s \<Longrightarrow> level s \<le> bound"
begin

lemma level_run: "run step s ls t \<Longrightarrow> inv s \<Longrightarrow> level t = level s + length (filter counts ls)"
  by (induction rule: run.induct) (auto simp: counted dest: preserved)

lemma count_bounded: "run step s ls t \<Longrightarrow> inv s \<Longrightarrow> length (filter counts ls) \<le> bound"
  using level_run bounded invariant_run by fastforce

end

text \<open>Runs in which the transitions that change something are counted, and a rank that bounds them.\<close>

inductive run_changes :: "('s \<Rightarrow> 'l \<Rightarrow> 's \<Rightarrow> bool) \<Rightarrow> ('s \<Rightarrow> 's \<Rightarrow> bool) \<Rightarrow> 's \<Rightarrow> nat \<Rightarrow> 's \<Rightarrow> bool" for step changes where
  run_changes_Nil: "run_changes step changes s 0 s"
| run_changes_Cons: "step s l t \<Longrightarrow> run_changes step changes t n u \<Longrightarrow> run_changes step changes s (if changes s t then Suc n else n) u"

locale ranked_system = invariant_system +
  fixes rank :: "'a \<Rightarrow> nat" and changes :: "'a \<Rightarrow> 'a \<Rightarrow> bool"
  assumes ranked: "inv s \<Longrightarrow> step s l t \<Longrightarrow> rank t \<le> rank s \<and> (changes s t \<longrightarrow> rank t < rank s)"
begin

lemma changes_bounded: "run_changes step changes s n t \<Longrightarrow> inv s \<Longrightarrow> n + rank t \<le> rank s"
proof (induction rule: run_changes.induct)
  case (run_changes_Cons s l t n u)
  with preserved[of s l t] ranked[of s l t] show ?case by auto
qed simp

end

end
