(* ===== verification/Outbox.thy ===== *)
theory Outbox
  imports Js_Prelude Transition_Systems
begin

text \<open>
  The private delivery outbox of \<open>observation-outbox-dispatcher.ts\<close>. The delivery table is the
  list of its rows; every SQL statement of the source is a guarded update of that list, in the batch
  order of the source. The random claim token, the receiver's answer and the clocks are arguments.
  Several dispatchers work on one table, so the component is a step relation whose steps are the
  statements of expiry, claim and finalization, in any interleaving.
\<close>

section \<open>Data\<close>

datatype delivery_status = PENDING | RETRY | CLAIMED | ACKNOWLEDGED | EXPIRED | FAILED_TERMINAL

record delivery =
  dl_logical_candidate_id :: string
  dl_status :: delivery_status
  dl_attempt_count :: nat
  dl_lease_owner :: "string option"
  dl_lease_expires_at_epoch :: "int option"
  dl_claim_token :: "string option"
  dl_acknowledged_at_epoch :: "int option"
  dl_receiver_status :: "int option"
  dl_last_error :: "string option"
  dl_next_attempt_at_epoch :: int
  dl_expires_at_epoch :: int
  dl_created_at_epoch :: int
  dl_updated_at_epoch :: int

record delivery_claim =
  cl_logical_candidate_id :: string
  cl_candidate_body_sha256 :: string
  cl_payload_json :: string
  cl_attempt_count :: nat
  cl_lease_owner :: string
  cl_lease_expires_at_epoch :: int
  cl_claim_token :: string
  cl_expires_at_epoch :: int

datatype finalization = Acknowledged int | Transient_failure string | Failed_terminal int string

datatype outbox_outcome = O_DISABLED | O_EMPTY | O_RETRY | O_ACKNOWLEDGED | O_EXPIRED | O_FAILED_TERMINAL

record outbox_env =
  oe_dispatch_enabled :: "string option"
  oe_receiver_manifest_sha256 :: "string option"

text \<open>The payload table: candidate id to body digest and payload text.\<close>

type_synonym payload_table = "(string \<times> string \<times> string) list"

definition LEASE_SECONDS :: int where "LEASE_SECONDS = 30"
definition MAX_ATTEMPTS :: nat where "MAX_ATTEMPTS = 5"
definition MAX_BACKOFF_SECONDS :: int where "MAX_BACKOFF_SECONDS = 300"

section \<open>Operations\<close>

definition dispatchEnabled :: "outbox_env \<Rightarrow> bool" where
  "dispatchEnabled env \<longleftrightarrow> oe_dispatch_enabled env = Some ''true'' \<and>
     (case oe_receiver_manifest_sha256 env of None \<Rightarrow> False
      | Some manifest \<Rightarrow> is_sha256 manifest \<and> manifest \<noteq> zero_digest)"

definition validNow :: "int \<Rightarrow> bool" where
  "validNow value \<longleftrightarrow> is_safe_integer value \<and> value \<ge> 0"

text \<open>The completion clock; \<open>None\<close> when it throws.\<close>

definition freshCompletionEpoch :: "int \<Rightarrow> int option \<Rightarrow> int" where
  "freshCompletionEpoch preSendEpoch clock =
     (case clock of None \<Rightarrow> preSendEpoch
      | Some fresh \<Rightarrow> if validNow fresh then max preSendEpoch fresh else preSendEpoch)"

text \<open>\<open>UPDATE ... SET f WHERE p\<close>, and the number of rows it changes.\<close>

definition sql_update :: "('r \<Rightarrow> bool) \<Rightarrow> ('r \<Rightarrow> 'r) \<Rightarrow> 'r list \<Rightarrow> 'r list" where
  "sql_update p f rows = map (\<lambda>r. if p r then f r else r) rows"

definition sql_changes :: "('r \<Rightarrow> bool) \<Rightarrow> 'r list \<Rightarrow> nat" where
  "sql_changes p rows = length (filter p rows)"

definition released :: "delivery_status \<Rightarrow> string option \<Rightarrow> int \<Rightarrow> delivery \<Rightarrow> delivery" where
  "released status error now r = r\<lparr>dl_status := status, dl_lease_owner := None,
     dl_lease_expires_at_epoch := None, dl_claim_token := None, dl_acknowledged_at_epoch := None,
     dl_receiver_status := None, dl_last_error := error, dl_updated_at_epoch := now\<rparr>"

definition open_status :: "delivery_status \<Rightarrow> bool" where
  "open_status s \<longleftrightarrow> s = PENDING \<or> s = RETRY \<or> s = CLAIMED"

definition stale :: "int \<Rightarrow> delivery \<Rightarrow> bool" where
  "stale now r \<longleftrightarrow> open_status (dl_status r) \<and> dl_expires_at_epoch r \<le> now"

definition expire_rows :: "int \<Rightarrow> delivery list \<Rightarrow> delivery list" where
  "expire_rows now = sql_update (stale now)
     (released EXPIRED (Some ''candidate expired before private delivery'') now)"

definition expireStaleDeliveries :: "int \<Rightarrow> delivery list \<Rightarrow> delivery list \<times> nat" where
  "expireStaleDeliveries now rows = (expire_rows now rows, sql_changes (stale now) rows)"

definition lease_over :: "int \<Rightarrow> delivery \<Rightarrow> bool" where
  "lease_over now r \<longleftrightarrow> dl_status r = CLAIMED \<and>
     (case dl_lease_expires_at_epoch r of None \<Rightarrow> False | Some e \<Rightarrow> e \<le> now) \<and> dl_expires_at_epoch r > now"

definition fail_exhausted :: "int \<Rightarrow> delivery list \<Rightarrow> delivery list" where
  "fail_exhausted now = sql_update (\<lambda>r. lease_over now r \<and> dl_attempt_count r \<ge> MAX_ATTEMPTS)
     (released FAILED_TERMINAL (Some ''final private delivery lease expired'') now)"

definition retry_lapsed :: "int \<Rightarrow> delivery list \<Rightarrow> delivery list" where
  "retry_lapsed now = sql_update (\<lambda>r. lease_over now r \<and> dl_attempt_count r < MAX_ATTEMPTS)
     (\<lambda>r. (released RETRY (Some ''private delivery lease expired'') now r)\<lparr>dl_next_attempt_at_epoch := now\<rparr>)"

definition due :: "int \<Rightarrow> delivery \<Rightarrow> bool" where
  "due now r \<longleftrightarrow> (dl_status r = PENDING \<or> dl_status r = RETRY) \<and> dl_attempt_count r < MAX_ATTEMPTS \<and>
     dl_next_attempt_at_epoch r \<le> now \<and> dl_expires_at_epoch r > now"

definition due_order :: "delivery \<Rightarrow> delivery \<Rightarrow> int" where
  "due_order a b = or_else (dl_next_attempt_at_epoch a - dl_next_attempt_at_epoch b)
     (or_else (dl_created_at_epoch a - dl_created_at_epoch b)
       (compare_units (dl_logical_candidate_id a) (dl_logical_candidate_id b)))"

definition next_due :: "int \<Rightarrow> delivery list \<Rightarrow> string option" where
  "next_due now rows = (case js_sort due_order (filter (due now) rows) of
     [] \<Rightarrow> None | r # _ \<Rightarrow> Some (dl_logical_candidate_id r))"

definition take_lease :: "string \<Rightarrow> int \<Rightarrow> string \<Rightarrow> delivery \<Rightarrow> delivery" where
  "take_lease owner now token r = r\<lparr>dl_status := CLAIMED, dl_attempt_count := dl_attempt_count r + 1,
     dl_lease_owner := Some owner, dl_lease_expires_at_epoch := Some (now + LEASE_SECONDS),
     dl_claim_token := Some token, dl_acknowledged_at_epoch := None, dl_receiver_status := None,
     dl_last_error := None, dl_updated_at_epoch := now\<rparr>"

definition claim_row :: "string \<Rightarrow> int \<Rightarrow> string \<Rightarrow> delivery list \<Rightarrow> delivery list" where
  "claim_row owner now token rows = sql_update
     (\<lambda>r. Some (dl_logical_candidate_id r) = next_due now rows \<and>
        (dl_status r = PENDING \<or> dl_status r = RETRY) \<and> dl_next_attempt_at_epoch r \<le> now \<and>
        dl_expires_at_epoch r > now)
     (take_lease owner now token) rows"

definition claim_of :: "payload_table \<Rightarrow> delivery \<Rightarrow> delivery_claim option" where
  "claim_of payloads r =
     (case (map_of payloads (dl_logical_candidate_id r), dl_lease_owner r, dl_lease_expires_at_epoch r,
            dl_claim_token r) of
        (Some (sha, payload), Some owner, Some expires, Some token) \<Rightarrow> Some
          \<lparr>cl_logical_candidate_id = dl_logical_candidate_id r, cl_candidate_body_sha256 = sha,
           cl_payload_json = payload, cl_attempt_count = dl_attempt_count r, cl_lease_owner = owner,
           cl_lease_expires_at_epoch = expires, cl_claim_token = token,
           cl_expires_at_epoch = dl_expires_at_epoch r\<rparr>
      | _ \<Rightarrow> None)"

definition select_claim :: "payload_table \<Rightarrow> string \<Rightarrow> delivery list \<Rightarrow> delivery_claim option" where
  "select_claim payloads token rows =
     (case List.map_filter (claim_of payloads)
        (filter (\<lambda>r. dl_status r = CLAIMED \<and> dl_claim_token r = Some token) rows) of
        [] \<Rightarrow> None | c # _ \<Rightarrow> Some c)"

definition claim_batch :: "string \<Rightarrow> int \<Rightarrow> string \<Rightarrow> delivery list \<Rightarrow> delivery list" where
  "claim_batch owner now token rows =
     claim_row owner now token (retry_lapsed now (fail_exhausted now (expire_rows now rows)))"

definition claimObservationCandidateDelivery :: "outbox_env \<Rightarrow> payload_table \<Rightarrow> string \<Rightarrow> int \<Rightarrow> string
    \<Rightarrow> delivery list \<Rightarrow> delivery list \<times> delivery_claim option" where
  "claimObservationCandidateDelivery env payloads leaseOwner now token rows =
     (if \<not> dispatchEnabled env \<or> \<not> is_identifier leaseOwner \<or> \<not> validNow now then (rows, None)
      else let rows' = claim_batch leaseOwner now token rows in (rows', select_claim payloads token rows'))"

definition holds_claim :: "delivery_claim \<Rightarrow> delivery \<Rightarrow> bool" where
  "holds_claim c r \<longleftrightarrow> dl_logical_candidate_id r = cl_logical_candidate_id c \<and> dl_status r = CLAIMED \<and>
     dl_lease_owner r = Some (cl_lease_owner c) \<and>
     dl_lease_expires_at_epoch r = Some (cl_lease_expires_at_epoch c) \<and>
     dl_claim_token r = Some (cl_claim_token c)"

text \<open>The update of one finalization branch and the outcome it reports.\<close>

definition settle :: "delivery_claim \<Rightarrow> (delivery \<Rightarrow> delivery) \<Rightarrow> outbox_outcome \<Rightarrow> delivery list
    \<Rightarrow> delivery list \<times> outbox_outcome" where
  "settle c f outcome rows = (sql_update (holds_claim c) f rows,
     if sql_changes (holds_claim c) rows = 1 then outcome else O_EMPTY)"

definition backoffSeconds :: "delivery_claim \<Rightarrow> int" where
  "backoffSeconds c = min MAX_BACKOFF_SECONDS (2 ^ cl_attempt_count c)"

definition finalizeObservationCandidateDelivery :: "delivery_claim \<Rightarrow> finalization \<Rightarrow> int
    \<Rightarrow> delivery list \<Rightarrow> delivery list \<times> outbox_outcome" where
  "finalizeObservationCandidateDelivery c fin now rows =
     (if \<not> validNow now then (rows, O_FAILED_TERMINAL)
      else if now \<ge> cl_expires_at_epoch c then
        settle c (released EXPIRED (Some ''candidate expired during private delivery'') now) O_EXPIRED rows
      else if now \<ge> cl_lease_expires_at_epoch c then
        (if cl_attempt_count c \<ge> MAX_ATTEMPTS
         then settle c (\<lambda>r. (released FAILED_TERMINAL (Some ''final private delivery lease expired'') now r)
                \<lparr>dl_next_attempt_at_epoch := now\<rparr>) O_FAILED_TERMINAL rows
         else settle c (\<lambda>r. (released RETRY (Some ''private delivery lease expired'') now r)
                \<lparr>dl_next_attempt_at_epoch := now\<rparr>) O_RETRY rows)
      else case fin of
          Acknowledged status \<Rightarrow>
            settle c (\<lambda>r. (released ACKNOWLEDGED None now r)
                \<lparr>dl_acknowledged_at_epoch := Some now, dl_receiver_status := Some status\<rparr>) O_ACKNOWLEDGED rows
        | Failed_terminal status detail \<Rightarrow>
            settle c (\<lambda>r. (released FAILED_TERMINAL (Some (take 512 detail)) now r)
                \<lparr>dl_receiver_status := Some status\<rparr>) O_FAILED_TERMINAL rows
        | Transient_failure detail \<Rightarrow>
            if cl_attempt_count c \<ge> MAX_ATTEMPTS
            then settle c (released FAILED_TERMINAL (Some (take 512 detail)) now) O_FAILED_TERMINAL rows
            else settle c (\<lambda>r. (released RETRY (Some (take 512 detail)) now r)
                \<lparr>dl_next_attempt_at_epoch := now + backoffSeconds c\<rparr>) O_RETRY rows)"

text \<open>The receiver's answer: the HTTP status, or \<open>None\<close> when the request throws.\<close>

definition finalization_of :: "int option \<Rightarrow> finalization" where
  "finalization_of response =
     (case response of
        None \<Rightarrow> Transient_failure ''private receiver request failed''
      | Some status \<Rightarrow>
          let detail = ''receiver status '' @ js_number status in
          if 200 \<le> status \<and> status < 300 then Acknowledged status
          else if status = 408 \<or> status = 425 \<or> status = 429 \<or> status \<ge> 500 then Transient_failure detail
          else Failed_terminal status detail)"

definition dispatchObservationOutboxOnce :: "outbox_env \<Rightarrow> payload_table \<Rightarrow> string \<Rightarrow> int \<Rightarrow> string
    \<Rightarrow> int option \<Rightarrow> int option \<Rightarrow> delivery list \<Rightarrow> delivery list \<times> outbox_outcome" where
  "dispatchObservationOutboxOnce env payloads leaseOwner now token response clock rows =
     (if \<not> validNow now then (rows, O_DISABLED)
      else let (rows1, expired) = expireStaleDeliveries now rows in
        if expired > 0 then (rows1, O_EXPIRED)
        else if \<not> dispatchEnabled env then (rows1, O_DISABLED)
        else let (rows2, claim) = claimObservationCandidateDelivery env payloads leaseOwner now token rows1 in
          case claim of
            None \<Rightarrow> (rows2, O_EMPTY)
          | Some c \<Rightarrow> finalizeObservationCandidateDelivery c (finalization_of response)
              (freshCompletionEpoch now clock) rows2)"

section \<open>The outbox as a transition system\<close>

record outbox_state =
  ob_rows :: "delivery list"
  ob_inflight :: "delivery_claim list"

datatype outbox_label = L_Expire int | L_Claim string int string "string option"
  | L_Finalize delivery_claim finalization int

definition claimed_id :: "outbox_env \<Rightarrow> string \<Rightarrow> int \<Rightarrow> delivery list \<Rightarrow> string option" where
  "claimed_id env owner now rows =
     (if \<not> dispatchEnabled env \<or> \<not> is_identifier owner \<or> \<not> validNow now then None
      else next_due now (retry_lapsed now (fail_exhausted now (expire_rows now rows))))"

definition fresh_token :: "string \<Rightarrow> outbox_state \<Rightarrow> bool" where
  "fresh_token token s \<longleftrightarrow> list_all (\<lambda>r. dl_claim_token r \<noteq> Some token) (ob_rows s) \<and>
     list_all (\<lambda>c. cl_claim_token c \<noteq> token) (ob_inflight s)"

text \<open>
  A claim hands a lease to the worker that made it; a worker finalizes the claim it holds, with any
  answer and at any time. Tokens are digests of random UUIDs: a new one occurs nowhere in the state.
\<close>

inductive outbox_step :: "outbox_env \<Rightarrow> payload_table \<Rightarrow> outbox_state \<Rightarrow> outbox_label \<Rightarrow> outbox_state \<Rightarrow> bool"
  for env payloads where
  expire: "outbox_step env payloads s (L_Expire now) (s\<lparr>ob_rows := expire_rows now (ob_rows s)\<rparr>)"
| claim: "fresh_token token s \<Longrightarrow>
    claimObservationCandidateDelivery env payloads owner now token (ob_rows s) = (rows, c) \<Longrightarrow>
    outbox_step env payloads s (L_Claim owner now token (claimed_id env owner now (ob_rows s)))
      \<lparr>ob_rows = rows, ob_inflight = (case c of None \<Rightarrow> ob_inflight s | Some k \<Rightarrow> k # ob_inflight s)\<rparr>"
| finalize: "c \<in> set (ob_inflight s) \<Longrightarrow>
    finalizeObservationCandidateDelivery c fin now (ob_rows s) = (rows, outcome) \<Longrightarrow>
    outbox_step env payloads s (L_Finalize c fin now) \<lparr>ob_rows = rows, ob_inflight = removeAll c (ob_inflight s)\<rparr>"

inductive_cases outbox_stepE: "outbox_step env payloads s l t"

section \<open>Updates\<close>

lemma set_sql_update: "set (sql_update p f rows) = (\<lambda>r. if p r then f r else r) ` set rows"
  by (simp add: sql_update_def)

lemma ids_sql_update:
  "(\<And>r. dl_logical_candidate_id (f r) = dl_logical_candidate_id r) \<Longrightarrow>
   map dl_logical_candidate_id (sql_update p f rows) = map dl_logical_candidate_id rows"
  by (simp add: sql_update_def)

lemma released_fields [simp]:
  "dl_logical_candidate_id (released st e now r) = dl_logical_candidate_id r"
  "dl_status (released st e now r) = st" "dl_attempt_count (released st e now r) = dl_attempt_count r"
  "dl_lease_owner (released st e now r) = None" "dl_lease_expires_at_epoch (released st e now r) = None"
  "dl_claim_token (released st e now r) = None" "dl_expires_at_epoch (released st e now r) = dl_expires_at_epoch r"
  by (simp_all add: released_def)

lemma take_lease_fields [simp]:
  "dl_logical_candidate_id (take_lease ow now tk r) = dl_logical_candidate_id r"
  "dl_status (take_lease ow now tk r) = CLAIMED" "dl_attempt_count (take_lease ow now tk r) = Suc (dl_attempt_count r)"
  "dl_lease_owner (take_lease ow now tk r) = Some ow"
  "dl_lease_expires_at_epoch (take_lease ow now tk r) = Some (now + LEASE_SECONDS)"
  "dl_claim_token (take_lease ow now tk r) = Some tk" "dl_expires_at_epoch (take_lease ow now tk r) = dl_expires_at_epoch r"
  by (simp_all add: take_lease_def)

lemmas outbox_updates = expire_rows_def fail_exhausted_def retry_lapsed_def claim_row_def

lemma ids_updates [simp]:
  "map dl_logical_candidate_id (expire_rows now rows) = map dl_logical_candidate_id rows"
  "map dl_logical_candidate_id (fail_exhausted now rows) = map dl_logical_candidate_id rows"
  "map dl_logical_candidate_id (retry_lapsed now rows) = map dl_logical_candidate_id rows"
  "map dl_logical_candidate_id (claim_row ow now tk rows) = map dl_logical_candidate_id rows"
  "map dl_logical_candidate_id (claim_batch ow now tk rows) = map dl_logical_candidate_id rows"
  by (simp_all add: claim_batch_def outbox_updates ids_sql_update)

text \<open>What a finalization does to the row that holds the claim.\<close>

lemma finalize_form:
  "\<exists>f out. finalizeObservationCandidateDelivery c fin now rows = settle c f out rows \<and>
     (\<forall>r. dl_logical_candidate_id (f r) = dl_logical_candidate_id r \<and> dl_claim_token (f r) = None \<and>
       dl_lease_owner (f r) = None \<and> dl_lease_expires_at_epoch (f r) = None \<and>
       dl_attempt_count (f r) = dl_attempt_count r \<and>
       dl_status (f r) \<in> {RETRY, ACKNOWLEDGED, EXPIRED, FAILED_TERMINAL} \<and>
       (dl_status (f r) = RETRY \<longrightarrow> cl_attempt_count c < MAX_ATTEMPTS) \<and>
       (dl_status (f r) = ACKNOWLEDGED \<longrightarrow> (\<exists>status. fin = Acknowledged status) \<and>
          now < cl_lease_expires_at_epoch c \<and> now < cl_expires_at_epoch c)) \<or>
   finalizeObservationCandidateDelivery c fin now rows = (rows, O_FAILED_TERMINAL)"
proof (cases "validNow now")
  case True
  show ?thesis
  proof (cases fin)
    case (Acknowledged st)
    then show ?thesis using True unfolding finalizeObservationCandidateDelivery_def
      by (auto intro!: exI)
  qed (use True in \<open>auto simp: finalizeObservationCandidateDelivery_def intro!: exI\<close>)
qed (simp add: finalizeObservationCandidateDelivery_def)

section \<open>Invariant\<close>

definition lease_fields :: "delivery \<Rightarrow> bool list" where
  "lease_fields r = [dl_lease_owner r \<noteq> None, dl_lease_expires_at_epoch r \<noteq> None, dl_claim_token r \<noteq> None]"

definition row_ok :: "delivery \<Rightarrow> bool" where
  "row_ok r \<longleftrightarrow> dl_attempt_count r \<le> MAX_ATTEMPTS \<and>
     (if dl_status r = CLAIMED then list_all id (lease_fields r) \<and> 1 \<le> dl_attempt_count r
      else \<not> list_ex id (lease_fields r)) \<and>
     (dl_status r = PENDING \<or> dl_status r = RETRY \<longrightarrow> dl_attempt_count r < MAX_ATTEMPTS)"

text \<open>A worker's claim agrees with the row that still carries its token.\<close>

definition claim_agrees :: "delivery_claim \<Rightarrow> delivery \<Rightarrow> bool" where
  "claim_agrees c r \<longleftrightarrow> dl_logical_candidate_id r = cl_logical_candidate_id c \<and>
     dl_lease_owner r = Some (cl_lease_owner c) \<and>
     dl_lease_expires_at_epoch r = Some (cl_lease_expires_at_epoch c) \<and>
     dl_attempt_count r = cl_attempt_count c \<and> dl_expires_at_epoch r = cl_expires_at_epoch c"

definition claims_linked :: "delivery_claim list \<Rightarrow> delivery list \<Rightarrow> bool" where
  "claims_linked cs rows \<longleftrightarrow> (\<forall>c\<in>set cs. \<forall>r\<in>set rows.
     dl_claim_token r = Some (cl_claim_token c) \<longrightarrow> claim_agrees c r)"

definition outbox_inv :: "outbox_state \<Rightarrow> bool" where
  "outbox_inv s \<longleftrightarrow> list_all row_ok (ob_rows s) \<and> distinct (map dl_logical_candidate_id (ob_rows s)) \<and>
     claims_linked (ob_inflight s) (ob_rows s)"

text \<open>Updates that release the lease keep the invariant.\<close>

lemma row_ok_released:
  assumes "row_ok r" and "st \<noteq> CLAIMED" and "st \<noteq> PENDING" and "st = RETRY \<Longrightarrow> dl_attempt_count r < MAX_ATTEMPTS"
  shows "row_ok (released st e now r)" and "row_ok ((released st e now r)\<lparr>dl_next_attempt_at_epoch := n\<rparr>)"
  using assms by (auto simp: row_ok_def lease_fields_def)

lemma rows_ok_update:
  "list_all row_ok rows \<Longrightarrow> (\<And>r. r \<in> set rows \<Longrightarrow> p r \<Longrightarrow> row_ok r \<Longrightarrow> row_ok (f r)) \<Longrightarrow>
   list_all row_ok (sql_update p f rows)"
  by (auto simp: list_all_iff set_sql_update)

lemma linked_update:
  "claims_linked cs rows \<Longrightarrow> (\<And>r. dl_claim_token (f r) = None) \<Longrightarrow> claims_linked cs (sql_update p f rows)"
  by (auto simp: claims_linked_def set_sql_update)

lemma housekeeping_ok:
  assumes "list_all row_ok rows"
  shows "list_all row_ok (expire_rows now rows)" "list_all row_ok (fail_exhausted now rows)"
    "list_all row_ok (retry_lapsed now rows)"
  using assms
  by (auto simp: expire_rows_def fail_exhausted_def retry_lapsed_def intro!: rows_ok_update row_ok_released)

lemma housekeeping_linked:
  assumes "claims_linked cs rows"
  shows "claims_linked cs (expire_rows now rows)" "claims_linked cs (fail_exhausted now rows)"
    "claims_linked cs (retry_lapsed now rows)"
  using assms by (auto simp: expire_rows_def fail_exhausted_def retry_lapsed_def intro!: linked_update)

definition housekept :: "int \<Rightarrow> delivery list \<Rightarrow> delivery list" where
  "housekept now rows = retry_lapsed now (fail_exhausted now (expire_rows now rows))"

lemma housekept_ok:
  shows "list_all row_ok rows \<Longrightarrow> list_all row_ok (housekept now rows)"
    and "claims_linked cs rows \<Longrightarrow> claims_linked cs (housekept now rows)"
  unfolding housekept_def by (intro housekeeping_ok housekeeping_linked; assumption)+

interpretation due: comparator due_order UNIV
proof unfold_locales
  show "due_order a b \<le> 0 \<or> due_order b a \<le> 0" for a b
    using units.total[of "dl_logical_candidate_id a" "dl_logical_candidate_id b"]
    by (auto simp: due_order_def or_else_def)
  show "due_order a b \<le> 0 \<Longrightarrow> due_order b c \<le> 0 \<Longrightarrow> due_order a c \<le> 0" for a b c
    using compare_units_trans[of "dl_logical_candidate_id a" "dl_logical_candidate_id b" "dl_logical_candidate_id c"]
    by (auto simp: due_order_def or_else_def split: if_splits)
qed

lemma next_due_Some:
  assumes "next_due now rows = Some k"
  obtains r where "r \<in> set rows" "due now r" "dl_logical_candidate_id r = k"
    "\<And>q. q \<in> set rows \<Longrightarrow> due now q \<Longrightarrow> due_order r q \<le> 0"
proof -
  obtain r rs where srt: "js_sort due_order (filter (due now) rows) = r # rs" and k: "dl_logical_candidate_id r = k"
    using assms by (auto simp: next_due_def split: list.splits)
  have "r \<in> set (filter (due now) rows)" using srt set_js_sort[of due_order "filter (due now) rows"] by auto
  moreover have "due_order r q \<le> 0" if "q \<in> set (filter (due now) rows)" for q
    using due.hd_sort_least[OF _ that] srt by simp
  ultimately show thesis using that k by auto
qed

lemma next_due_None_iff: "next_due now rows = None \<longleftrightarrow> \<not> list_ex (due now) rows"
proof -
  have "js_sort due_order (filter (due now) rows) = [] \<longleftrightarrow> \<not> list_ex (due now) rows"
    by (auto simp: list_ex_iff filter_empty_conv)
  then show ?thesis by (cases "js_sort due_order (filter (due now) rows)") (auto simp: next_due_def)
qed

lemma due_of_id:
  assumes "next_due now rows = Some k" and "distinct (map dl_logical_candidate_id rows)"
    and "r \<in> set rows" and "dl_logical_candidate_id r = k"
  shows "due now r"
  using assms by (elim next_due_Some) (auto simp: distinct_map inj_on_def)

lemma claim_row_eq:
  assumes "distinct (map dl_logical_candidate_id rows)"
  shows "claim_row ow now tk rows =
    map (\<lambda>r. if Some (dl_logical_candidate_id r) = next_due now rows then take_lease ow now tk r else r) rows"
proof -
  have "due now r" if "r \<in> set rows" "Some (dl_logical_candidate_id r) = next_due now rows" for r
    using due_of_id[OF _ assms that(1)] that(2) by metis
  then show ?thesis by (auto simp: claim_row_def sql_update_def due_def)
qed

lemma claim_row_ok:
  assumes "list_all row_ok rows" and "claims_linked cs rows" and "distinct (map dl_logical_candidate_id rows)"
    and "list_all (\<lambda>c. cl_claim_token c \<noteq> tk) cs"
  shows "list_all row_ok (claim_row ow now tk rows)" "claims_linked cs (claim_row ow now tk rows)"
proof -
  have "row_ok (take_lease ow now tk r)"
    if "r \<in> set rows" "Some (dl_logical_candidate_id r) = next_due now rows" for r
    using due_of_id[OF that(2)[symmetric] assms(3) that(1)]
    by (auto simp: row_ok_def lease_fields_def due_def MAX_ATTEMPTS_def)
  then show "list_all row_ok (claim_row ow now tk rows)"
    using assms(1) by (auto simp: claim_row_eq[OF assms(3)] list_all_iff)
  show "claims_linked cs (claim_row ow now tk rows)"
    using assms(2,4) by (auto simp: claim_row_eq[OF assms(3)] claims_linked_def list_all_iff)
qed

lemma select_claim_Some:
  assumes "select_claim payloads tk rows = Some c"
  obtains r where "r \<in> set rows" "dl_status r = CLAIMED" "dl_claim_token r = Some tk" "claim_of payloads r = Some c"
proof -
  let ?rs = "filter (\<lambda>r. dl_status r = CLAIMED \<and> dl_claim_token r = Some tk) rows"
  have "c \<in> set (List.map_filter (claim_of payloads) ?rs)"
    using assms by (auto simp: select_claim_def split: list.splits)
  then show thesis using that by (auto simp: List.map_filter_def)
qed

lemma claim_of_agrees: "claim_of payloads r = Some c \<Longrightarrow> claim_agrees c r \<and> dl_claim_token r = Some (cl_claim_token c)"
  by (auto simp: claim_of_def claim_agrees_def split: option.splits)

lemma claim_cases:
  assumes "claimObservationCandidateDelivery env payloads ow now tk rows = (rows', c)"
  shows "(claimed_id env ow now rows = None \<and> rows' = rows \<and> c = None) \<or>
    (claimed_id env ow now rows = next_due now (housekept now rows) \<and>
     rows' = claim_row ow now tk (housekept now rows) \<and> c = select_claim payloads tk rows')"
  using assms by (auto simp: claimObservationCandidateDelivery_def claimed_id_def housekept_def
      claim_batch_def Let_def split: if_splits)

lemma ids_housekept [simp]: "map dl_logical_candidate_id (housekept now rows) = map dl_logical_candidate_id rows"
  by (simp add: housekept_def)

lemma housekept_token:
  "r \<in> set (housekept now rows) \<Longrightarrow> dl_claim_token r = Some tk \<Longrightarrow> \<exists>q\<in>set rows. dl_claim_token q = Some tk"
  by (auto simp: housekept_def retry_lapsed_def fail_exhausted_def expire_rows_def set_sql_update split: if_splits)

lemma step_claim_inv:
  assumes inv: "outbox_inv s" and fresh: "fresh_token tk s"
    and c: "claimObservationCandidateDelivery env payloads ow now tk (ob_rows s) = (rows, c)"
  shows "outbox_inv \<lparr>ob_rows = rows, ob_inflight = (case c of None \<Rightarrow> ob_inflight s | Some k \<Rightarrow> k # ob_inflight s)\<rparr>"
  using claim_cases[OF c]
proof
  assume "claimed_id env ow now (ob_rows s) = None \<and> rows = ob_rows s \<and> c = None"
  with inv show ?thesis by (simp add: outbox_inv_def)
next
  let ?h = "housekept now (ob_rows s)"
  assume "claimed_id env ow now (ob_rows s) = next_due now ?h \<and> rows = claim_row ow now tk ?h \<and>
    c = select_claim payloads tk rows"
  then have rows: "rows = claim_row ow now tk ?h" and sel: "c = select_claim payloads tk rows" by simp_all
  have ok: "list_all row_ok ?h" "claims_linked (ob_inflight s) ?h" "distinct (map dl_logical_candidate_id ?h)"
    using inv housekept_ok by (auto simp: outbox_inv_def)
  have new: "list_all row_ok rows" "claims_linked (ob_inflight s) rows" "distinct (map dl_logical_candidate_id rows)"
    using claim_row_ok[OF ok(1,2,3), of tk] fresh ok(3) by (simp_all add: rows fresh_token_def)
  have only: "Some (dl_logical_candidate_id r) = next_due now ?h"
    if "r \<in> set rows" "dl_claim_token r = Some tk" for r
    using that housekept_token[of r now "ob_rows s" tk] fresh
    by (auto simp: rows claim_row_eq[OF ok(3)] fresh_token_def list_all_iff split: if_splits)
  have "claims_linked [k] rows" if k: "c = Some k" for k
  proof -
    obtain r where r: "r \<in> set rows" "dl_claim_token r = Some tk" "claim_of payloads r = Some k"
      using select_claim_Some[OF k[unfolded sel]] by blast
    have "q = r" if "q \<in> set rows" "dl_claim_token q = Some tk" for q
    proof -
      have "dl_logical_candidate_id q = dl_logical_candidate_id r"
        using only[OF that, folded only[OF r(1,2)]] by simp
      then show ?thesis using new(3) that(1) r(1) by (simp add: distinct_map inj_on_def)
    qed
    moreover have "cl_claim_token k = tk" "claim_agrees k r" using claim_of_agrees[OF r(3)] r(2) by simp_all
    ultimately show ?thesis unfolding claims_linked_def by fastforce
  qed
  with new show ?thesis by (cases c) (auto simp: outbox_inv_def claims_linked_def)
qed

lemma settle_form:
  assumes "finalizeObservationCandidateDelivery c fin now rows = (rows', out)"
  obtains f where "rows' = sql_update (holds_claim c) f rows"
    "\<And>r. dl_logical_candidate_id (f r) = dl_logical_candidate_id r" "\<And>r. dl_claim_token (f r) = None"
    "\<And>r. dl_lease_owner (f r) = None \<and> dl_lease_expires_at_epoch (f r) = None"
    "\<And>r. dl_attempt_count (f r) = dl_attempt_count r"
    "\<And>r. dl_status (f r) \<in> {RETRY, ACKNOWLEDGED, EXPIRED, FAILED_TERMINAL}"
    "\<And>r. dl_status (f r) = RETRY \<Longrightarrow> cl_attempt_count c < MAX_ATTEMPTS"
    "\<And>r. dl_status (f r) = ACKNOWLEDGED \<Longrightarrow> (\<exists>status. fin = Acknowledged status) \<and>
       now < cl_lease_expires_at_epoch c \<and> now < cl_expires_at_epoch c"
  | "rows' = rows"
  using finalize_form[of c fin now rows] assms by (auto simp: settle_def)

lemma step_finalize_inv:
  assumes inv: "outbox_inv s" and c: "c \<in> set (ob_inflight s)"
    and fin: "finalizeObservationCandidateDelivery c fin now (ob_rows s) = (rows, out)"
  shows "outbox_inv \<lparr>ob_rows = rows, ob_inflight = removeAll c (ob_inflight s)\<rparr>"
proof (rule settle_form[OF fin])
  fix f assume f: "rows = sql_update (holds_claim c) f (ob_rows s)"
    "\<And>r. dl_logical_candidate_id (f r) = dl_logical_candidate_id r" "\<And>r. dl_claim_token (f r) = None"
    "\<And>r. dl_lease_owner (f r) = None \<and> dl_lease_expires_at_epoch (f r) = None"
    "\<And>r. dl_attempt_count (f r) = dl_attempt_count r"
    "\<And>r. dl_status (f r) \<in> {RETRY, ACKNOWLEDGED, EXPIRED, FAILED_TERMINAL}"
    "\<And>r. dl_status (f r) = RETRY \<Longrightarrow> cl_attempt_count c < MAX_ATTEMPTS"
  have "row_ok (f r)" if r: "r \<in> set (ob_rows s)" "holds_claim c r" "row_ok r" for r
  proof -
    have "dl_attempt_count r = cl_attempt_count c"
      using inv c r by (auto simp: outbox_inv_def claims_linked_def holds_claim_def claim_agrees_def)
    with r(3) f(3-7)[of r] show ?thesis by (auto simp: row_ok_def lease_fields_def)
  qed
  with inv f(1) have "list_all row_ok rows" by (auto simp: outbox_inv_def intro: rows_ok_update)
  moreover have "claims_linked (removeAll c (ob_inflight s)) rows"
    using inv linked_update[of _ "ob_rows s" f "holds_claim c"] f(1,3)
    by (auto simp: outbox_inv_def claims_linked_def)
  ultimately show ?thesis
    using inv f(1) ids_sql_update[OF f(2), of "holds_claim c" "ob_rows s"] by (simp add: outbox_inv_def)
next
  assume "rows = ob_rows s"
  with inv show ?thesis by (auto simp: outbox_inv_def claims_linked_def)
qed

interpretation outbox: invariant_system "outbox_step env payloads" outbox_inv for env payloads
proof unfold_locales
  fix s l t assume inv: "outbox_inv s" and step: "outbox_step env payloads s l t"
  from step show "outbox_inv t"
  proof cases
    case (expire now)
    with inv show ?thesis
      using housekeeping_ok(1)[of "ob_rows s" now] housekeeping_linked(1)[of "ob_inflight s" "ob_rows s" now]
      by (simp add: outbox_inv_def)
  next
    case (claim token owner now rows c)
    with step_claim_inv[OF inv] show ?thesis by simp
  next
    case (finalize c fin now rows outcome)
    with step_finalize_inv[OF inv] show ?thesis by simp
  qed
qed

section \<open>Attempts and terminal rows\<close>

definition attempts :: "string \<Rightarrow> outbox_state \<Rightarrow> nat" where
  "attempts k s = sum_list (map (\<lambda>r. if dl_logical_candidate_id r = k then dl_attempt_count r else 0) (ob_rows s))"

fun claims_candidate :: "string \<Rightarrow> outbox_label \<Rightarrow> bool" where
  "claims_candidate k (L_Claim _ _ _ (Some k')) \<longleftrightarrow> k' = k"
| "claims_candidate k _ \<longleftrightarrow> False"

lemma attempts_update:
  assumes "\<And>r. dl_logical_candidate_id (f r) = dl_logical_candidate_id r" "\<And>r. dl_attempt_count (f r) = dl_attempt_count r"
  shows "sum_list (map (\<lambda>r. if dl_logical_candidate_id r = k then dl_attempt_count r else 0) (sql_update p f rows)) =
    sum_list (map (\<lambda>r. if dl_logical_candidate_id r = k then dl_attempt_count r else 0) rows)"
  using assms by (simp add: sql_update_def comp_def if_distrib cong: if_cong)

lemma attempts_housekept:
  "attempts k (s\<lparr>ob_rows := housekept now rows\<rparr>) = attempts k (s\<lparr>ob_rows := rows\<rparr>)"
  by (simp add: attempts_def housekept_def retry_lapsed_def fail_exhausted_def expire_rows_def attempts_update)

lemma attempts_of_row:
  assumes "distinct (map dl_logical_candidate_id (ob_rows s))" and "r \<in> set (ob_rows s)"
  shows "attempts (dl_logical_candidate_id r) s = dl_attempt_count r"
proof -
  have "sum_list (map (\<lambda>q. if dl_logical_candidate_id q = dl_logical_candidate_id r then dl_attempt_count q else 0) rows) =
      dl_attempt_count r" if "distinct (map dl_logical_candidate_id rows)" "r \<in> set rows" for rows
    using that
  proof (induction rows)
    case (Cons q rows)
    have zero: "sum_list (map (\<lambda>q. if dl_logical_candidate_id q = k then dl_attempt_count q else 0) rows) = 0"
      if "k \<notin> dl_logical_candidate_id ` set rows" for k
      using that by (induction rows) auto
    show ?case
    proof (cases "q = r")
      case True
      with Cons.prems zero[of "dl_logical_candidate_id r"] show ?thesis by simp
    next
      case False
      with Cons have "r \<in> set rows" by simp
      moreover from this Cons.prems have "dl_logical_candidate_id q \<noteq> dl_logical_candidate_id r" by force
      ultimately show ?thesis using Cons by simp
    qed
  qed simp
  with assms show ?thesis by (simp add: attempts_def)
qed

lemma claims_candidate_Claim [simp]: "claims_candidate k (L_Claim ow now tk x) \<longleftrightarrow> x = Some k"
  by (cases x) simp_all

lemma attempts_absent:
  "k \<notin> dl_logical_candidate_id ` set (ob_rows s) \<Longrightarrow> attempts k s = 0"
  unfolding attempts_def by (induction "ob_rows s" arbitrary: s) (auto simp: sum_list_eq_0_iff)

lemma attempts_cong: "ob_rows s = ob_rows t \<Longrightarrow> attempts k s = attempts k t"
  by (simp add: attempts_def)

lemma attempts_claim_row:
  assumes dist: "distinct (map dl_logical_candidate_id (ob_rows s))"
  shows "attempts k (s\<lparr>ob_rows := claim_row ow now tk (ob_rows s)\<rparr>) =
    (if next_due now (ob_rows s) = Some k then Suc (attempts k s) else attempts k s)"
proof (cases "next_due now (ob_rows s) = Some k")
  case True
  then obtain r where r: "r \<in> set (ob_rows s)" "dl_logical_candidate_id r = k"
    by (elim next_due_Some)
  let ?t = "s\<lparr>ob_rows := claim_row ow now tk (ob_rows s)\<rparr>"
  have "take_lease ow now tk r \<in> set (ob_rows ?t)"
    using r True by (auto simp: claim_row_eq[OF dist] image_iff intro!: bexI[of _ r])
  then have "attempts k ?t = Suc (dl_attempt_count r)"
    using attempts_of_row[of ?t "take_lease ow now tk r"] dist r(2) by simp
  moreover have "attempts k s = dl_attempt_count r" using attempts_of_row[OF dist r(1)] r(2) by simp
  ultimately show ?thesis using True by simp
next
  case False
  have "map (\<lambda>r. if dl_logical_candidate_id r = k then dl_attempt_count r else 0) (claim_row ow now tk (ob_rows s)) =
      map (\<lambda>r. if dl_logical_candidate_id r = k then dl_attempt_count r else 0) (ob_rows s)"
    using False by (auto simp: claim_row_eq[OF dist])
  with False show ?thesis by (simp add: attempts_def)
qed

interpretation sends: counted_system "outbox_step env payloads" outbox_inv "claims_candidate k" "attempts k" MAX_ATTEMPTS
  for env payloads k
proof unfold_locales
  fix s l t assume inv: "outbox_inv s" and step: "outbox_step env payloads s l t"
  from step show "attempts k t = (if claims_candidate k l then Suc (attempts k s) else attempts k s)"
  proof cases
    case (expire now)
    then show ?thesis by (simp add: attempts_def expire_rows_def attempts_update)
  next
    case (claim token owner now rows c)
    let ?h = "s\<lparr>ob_rows := housekept now (ob_rows s)\<rparr>"
    have "attempts k ?h = attempts k s" using attempts_housekept[where k = k and s = s and now = now and rows = "ob_rows s"] by simp
    moreover have "distinct (map dl_logical_candidate_id (ob_rows ?h))" using inv by (simp add: outbox_inv_def)
    note attempts_claim_row[OF this, of k owner now token]
    ultimately show ?thesis
      using claim_cases[OF claim(4)] claim(1,2)
      by (auto simp: attempts_def)
  next
    case (finalize c fin now rows outcome)
    show ?thesis
      by (rule settle_form[OF finalize(4)]) (simp_all add: finalize(1,2) attempts_def attempts_update)
  qed
next
  fix s assume inv: "outbox_inv s"
  show "attempts k s \<le> MAX_ATTEMPTS"
  proof (cases "k \<in> dl_logical_candidate_id ` set (ob_rows s)")
    case True
    then obtain r where "r \<in> set (ob_rows s)" "dl_logical_candidate_id r = k" by auto
    with inv attempts_of_row[of s r] show ?thesis by (auto simp: outbox_inv_def list_all_iff row_ok_def)
  qed (simp add: attempts_absent)
qed

definition terminal :: "delivery \<Rightarrow> bool" where
  "terminal r \<longleftrightarrow> dl_status r \<in> {ACKNOWLEDGED, EXPIRED, FAILED_TERMINAL}"

lemma terminal_sql_update:
  "r \<in> set rows \<Longrightarrow> \<not> p r \<Longrightarrow> r \<in> set (sql_update p f rows)"
  by (auto simp: set_sql_update image_iff intro!: bexI[of _ r])

lemma terminal_housekept: "terminal r \<Longrightarrow> r \<in> set rows \<Longrightarrow> r \<in> set (housekept now rows)"
  unfolding housekept_def retry_lapsed_def fail_exhausted_def expire_rows_def
  by (intro terminal_sql_update) (auto simp: terminal_def stale_def open_status_def lease_over_def)

lemma terminal_step:
  assumes step: "outbox_step env payloads s l t" and r: "terminal r" "r \<in> set (ob_rows s)"
  shows "r \<in> set (ob_rows t)"
  using step
proof cases
  case (expire now)
  with r show ?thesis
    by (auto simp: expire_rows_def terminal_def stale_def open_status_def intro!: terminal_sql_update)
next
  case (claim token owner now rows c)
  from claim_cases[OF claim(4)] claim(2) terminal_housekept[OF r] r(1,2) show ?thesis
    by (auto simp: claim_row_def terminal_def intro!: terminal_sql_update)
next
  case (finalize c fin now rows outcome)
  show ?thesis
    by (rule settle_form[OF finalize(4)])
      (use r finalize(2) in \<open>auto simp: terminal_def holds_claim_def intro!: terminal_sql_update\<close>)
qed

section \<open>Properties\<close>

text \<open>
  C17. The delivery table stays well formed under every interleaving of dispatchers: candidate ids stay
  distinct, a row carries owner, lease and token exactly while it is CLAIMED, no row has more than five
  attempts, a row that waits has an attempt left, and a worker's claim agrees with the row that
  carries its token.
\<close>

theorem outbox_invariant_on_runs:
  assumes "run (outbox_step env payloads) s ls t" and "outbox_inv s"
  shows "outbox_inv t"
  using assms by (rule outbox.invariant_run)

text \<open>
  C16. A candidate is handed to a sender at most five times in all: the claims of a candidate in any
  run, together with the attempts it started with, do not exceed \<open>MAX_ATTEMPTS\<close>.
\<close>

theorem outbox_sends_bounded:
  assumes "run (outbox_step env payloads) s ls t" and "outbox_inv s"
  shows "attempts k s + length (filter (claims_candidate k) ls) \<le> MAX_ATTEMPTS"
  using sends.level_run[OF assms, of k] sends.bounded[OF outbox.invariant_run[OF assms], of k] by simp

text \<open>
  Acknowledged, expired and terminally failed deliveries are final: such a row is in the table,
  unchanged in every column, after any run.
\<close>

theorem outbox_terminal_rows_final:
  assumes "run (outbox_step env payloads) s ls t" and "terminal r" and "r \<in> set (ob_rows s)"
  shows "r \<in> set (ob_rows t)"
  using assms by (induction rule: run.induct) (auto intro: terminal_step)

lemma not_held:
  assumes "distinct (map dl_logical_candidate_id rows)" and "r \<in> set rows"
    and "dl_logical_candidate_id r = cl_logical_candidate_id c" and "dl_claim_token r \<noteq> Some (cl_claim_token c)"
    and "q \<in> set rows"
  shows "\<not> holds_claim c q"
  using assms by (auto simp: holds_claim_def distinct_map inj_on_def)

lemma settle_not_held:
  assumes "\<And>q. q \<in> set rows \<Longrightarrow> \<not> holds_claim c q"
  shows "settle c f out rows = (rows, O_EMPTY)"
proof -
  have "sql_update (holds_claim c) f rows = rows"
    unfolding sql_update_def using assms by (intro map_idI) simp
  moreover have "filter (holds_claim c) rows = []" using assms by (simp add: filter_empty_conv)
  ultimately show ?thesis by (simp add: settle_def sql_changes_def)
qed

text \<open>
  A worker that lost its lease cannot change the table. If the row of its candidate no longer
  carries its token (the lease lapsed, or another worker claimed the row since), its finalization
  leaves every row as it is and reports EMPTY, whatever the receiver answered.
\<close>

theorem superseded_claim_changes_nothing:
  assumes "outbox_inv s" and "r \<in> set (ob_rows s)" and "dl_logical_candidate_id r = cl_logical_candidate_id c"
    and "dl_claim_token r \<noteq> Some (cl_claim_token c)" and "validNow now"
  shows "finalizeObservationCandidateDelivery c fin now (ob_rows s) = (ob_rows s, O_EMPTY)"
proof -
  have "settle c f out (ob_rows s) = (ob_rows s, O_EMPTY)" for f out
    by (rule settle_not_held, rule not_held[OF _ assms(2-4)]) (use assms(1) in \<open>simp_all add: outbox_inv_def\<close>)
  then show ?thesis
    using assms(5) by (auto simp: finalizeObservationCandidateDelivery_def split: finalization.split)
qed

lemma housekept_acknowledged:
  "r \<in> set (housekept now rows) \<Longrightarrow> dl_status r = ACKNOWLEDGED \<Longrightarrow> r \<in> set rows"
  by (auto simp: housekept_def retry_lapsed_def fail_exhausted_def expire_rows_def set_sql_update split: if_splits)

text \<open>
  C18. A delivery becomes ACKNOWLEDGED only by the finalization of a worker that holds the claim of that
  very row, for a success answer of the receiver, before the lease and before the candidate expire.
\<close>

theorem acknowledgement_is_earned:
  assumes step: "outbox_step env payloads s l t" and "r \<in> set (ob_rows t)"
    and "dl_status r = ACKNOWLEDGED" and "r \<notin> set (ob_rows s)"
  shows "\<exists>c status now q. l = L_Finalize c (Acknowledged status) now \<and> c \<in> set (ob_inflight s) \<and>
    q \<in> set (ob_rows s) \<and> holds_claim c q \<and> dl_logical_candidate_id r = dl_logical_candidate_id q \<and>
    now < cl_lease_expires_at_epoch c \<and> now < cl_expires_at_epoch c"
  using step
proof cases
  case (expire now)
  with assms(2-4) show ?thesis by (auto simp: expire_rows_def set_sql_update split: if_splits)
next
  case (claim token owner now rows c)
  have False
    using claim_cases[OF claim(4)] claim(2) assms(2-4) housekept_acknowledged[of r now "ob_rows s"]
    by (auto simp: claim_row_def set_sql_update split: if_splits)
  then show ?thesis ..
next
  case (finalize c fin now rows outcome)
  show ?thesis
  proof (rule settle_form[OF finalize(4)])
    fix f assume f: "rows = sql_update (holds_claim c) f (ob_rows s)"
      "\<And>r. dl_logical_candidate_id (f r) = dl_logical_candidate_id r"
      "\<And>r. dl_status (f r) = ACKNOWLEDGED \<Longrightarrow> (\<exists>status. fin = Acknowledged status) \<and>
        now < cl_lease_expires_at_epoch c \<and> now < cl_expires_at_epoch c"
    obtain q where "q \<in> set (ob_rows s)" "holds_claim c q" "r = f q"
      using assms(2,4) finalize(2) f(1) by (auto simp: set_sql_update split: if_splits)
    with f(2,3) assms(3) finalize(1,3) show ?thesis by blast
  next
    assume "rows = ob_rows s"
    with finalize(2) assms(2,4) show ?thesis by simp
  qed
qed

lemma claim_of_leased:
  assumes "map_of payloads (dl_logical_candidate_id r) \<noteq> None"
  shows "\<exists>c. claim_of payloads (take_lease ow now tk r) = Some c"
  using assms by (auto simp: claim_of_def)

lemma leased_row:
  assumes dist: "distinct (map dl_logical_candidate_id h)" and "\<And>p. p \<in> set h \<Longrightarrow> dl_claim_token p \<noteq> Some tk"
    and r: "r \<in> set h" "next_due now h = Some (dl_logical_candidate_id r)"
  shows "take_lease ow now tk r \<in> set (claim_row ow now tk h)"
    and "p \<in> set (claim_row ow now tk h) \<Longrightarrow> dl_claim_token p = Some tk \<Longrightarrow> p = take_lease ow now tk r"
proof -
  show "take_lease ow now tk r \<in> set (claim_row ow now tk h)"
    using r by (auto simp: claim_row_eq[OF dist] image_iff intro!: bexI[of _ r])
  assume p: "p \<in> set (claim_row ow now tk h)" "dl_claim_token p = Some tk"
  with assms(2) obtain p0 where "p0 \<in> set h" "p = take_lease ow now tk p0"
      "dl_logical_candidate_id p0 = dl_logical_candidate_id r"
    by (auto simp: claim_row_eq[OF dist] r(2) split: if_splits)
  with r(1) dist show "p = take_lease ow now tk r" by (auto simp: distinct_map inj_on_def)
qed

lemma select_claim_only:
  assumes "x \<in> set rows" and "dl_status x = CLAIMED" and "dl_claim_token x = Some tk" and "claim_of payloads x = Some c"
    and only: "\<And>p. p \<in> set rows \<Longrightarrow> dl_claim_token p = Some tk \<Longrightarrow> p = x"
  shows "select_claim payloads tk rows = Some c"
proof (cases "select_claim payloads tk rows")
  case None
  have "x \<in> set (filter (\<lambda>r. dl_status r = CLAIMED \<and> dl_claim_token r = Some tk) rows)"
    using assms(1-3) by simp
  with None assms(4) show ?thesis
    by (auto simp: select_claim_def List.map_filter_def filter_empty_conv split: list.splits)
next
  case (Some d)
  then obtain p where "p \<in> set rows" "dl_claim_token p = Some tk" "claim_of payloads p = Some d"
    by (rule select_claim_Some)
  with only[of p] assms(4) Some show ?thesis by simp
qed

text \<open>
  Progress and fairness of a claim. With dispatch enabled, if after the housekeeping some delivery is
  waiting, due and not expired, then the claim succeeds, and the delivery it takes comes first among
  all due ones by next attempt, creation time and id. The row stays unclaimed only if there is none.
\<close>

theorem claim_takes_first_due:
  assumes inv: "outbox_inv s" and fresh: "fresh_token tk s" and env: "dispatchEnabled env" "is_identifier ow" "validNow now"
    and due: "q \<in> set (housekept now (ob_rows s))" "dl_status q = PENDING \<or> dl_status q = RETRY"
      "dl_next_attempt_at_epoch q \<le> now" "now < dl_expires_at_epoch q"
    and pay: "\<And>r. r \<in> set (ob_rows s) \<Longrightarrow> map_of payloads (dl_logical_candidate_id r) \<noteq> None"
  shows "\<exists>rows c r. claimObservationCandidateDelivery env payloads ow now tk (ob_rows s) = (rows, Some c) \<and>
    r \<in> set (housekept now (ob_rows s)) \<and> due now r \<and> take_lease ow now tk r \<in> set rows \<and>
    claim_agrees c (take_lease ow now tk r) \<and>
    (\<forall>p\<in>set (housekept now (ob_rows s)). due now p \<longrightarrow> due_order r p \<le> 0)"
proof -
  let ?h = "housekept now (ob_rows s)"
  have ok: "list_all row_ok ?h" "distinct (map dl_logical_candidate_id ?h)"
    using inv housekept_ok by (auto simp: outbox_inv_def)
  have "due now q" using due ok(1) by (auto simp: due_def row_ok_def list_all_iff)
  with due(1) have "next_due now ?h \<noteq> None" by (auto simp: next_due_None_iff list_ex_iff)
  then obtain k where k: "next_due now ?h = Some k" by blast
  then obtain r where r: "r \<in> set ?h" "due now r" "dl_logical_candidate_id r = k"
      "\<And>p. p \<in> set ?h \<Longrightarrow> due now p \<Longrightarrow> due_order r p \<le> 0"
    using next_due_Some by metis
  let ?rows = "claim_row ow now tk ?h"
  have free: "dl_claim_token p \<noteq> Some tk" if "p \<in> set ?h" for p
    using housekept_token[OF that] fresh by (auto simp: fresh_token_def list_all_iff)
  have "next_due now ?h = Some (dl_logical_candidate_id r)" using k r(3) by simp
  note leased = leased_row[OF ok(2) free r(1) this, where ow = ow]
  have "dl_logical_candidate_id r \<in> dl_logical_candidate_id ` set (ob_rows s)"
    using r(1) ids_housekept[of now "ob_rows s"] by (metis image_eqI image_set)
  then obtain c0 where c0: "claim_of payloads (take_lease ow now tk r) = Some c0"
    using claim_of_leased pay by force
  have "select_claim payloads tk ?rows = Some c0"
    by (rule select_claim_only[OF leased(1) _ _ c0 leased(2)]) simp_all
  then have "claimObservationCandidateDelivery env payloads ow now tk (ob_rows s) = (?rows, Some c0)"
    using env by (simp add: claimObservationCandidateDelivery_def claim_batch_def housekept_def Let_def)
  with r leased(1) claim_of_agrees[OF c0] show ?thesis by blast
qed

text \<open>
  The dispatcher is made of the steps of the system: whatever the receiver and the clock answer, one
  call of \<open>dispatchObservationOutboxOnce\<close> takes the table along a run, so everything shown of
  runs holds of it; in particular the table is well formed afterwards.
\<close>

theorem dispatch_is_a_run:
  assumes "fresh_token tk s" and "outbox_inv s"
    and "dispatchObservationOutboxOnce env payloads ow now tk response clock (ob_rows s) = (rows, outcome)"
  shows "\<exists>ls t. run (outbox_step env payloads) s ls t \<and> ob_rows t = rows \<and> outbox_inv t \<and> length ls \<le> 3"
proof -
  let ?s1 = "s\<lparr>ob_rows := expire_rows now (ob_rows s)\<rparr>"
  have first: "outbox_step env payloads s (L_Expire now) ?s1" by (rule outbox_step.expire)
  have fresh: "fresh_token tk ?s1"
    using assms(1) by (auto simp: fresh_token_def list_all_iff expire_rows_def set_sql_update)
  have inv_run: "run (outbox_step env payloads) s ls t \<Longrightarrow> outbox_inv t" for ls t
    using outbox.invariant_run assms(2) by blast
  obtain rows2 c where c: "claimObservationCandidateDelivery env payloads ow now tk (ob_rows ?s1) = (rows2, c)"
    by (metis surj_pair)
  let ?s2 = "\<lparr>ob_rows = rows2, ob_inflight = (case c of None \<Rightarrow> ob_inflight ?s1 | Some k \<Rightarrow> k # ob_inflight ?s1)\<rparr>"
  have second: "outbox_step env payloads ?s1 (L_Claim ow now tk (claimed_id env ow now (ob_rows ?s1))) ?s2"
    by (rule outbox_step.claim[OF fresh c])
  consider "rows = ob_rows s" | "rows = ob_rows ?s1" | "rows = rows2"
    | k fin at where "c = Some k" "finalizeObservationCandidateDelivery k fin at rows2 = (rows, outcome)"
    using assms(3) c
    by (auto simp: dispatchObservationOutboxOnce_def expireStaleDeliveries_def Let_def split: if_splits option.splits)
  then show ?thesis
  proof cases
    case 1
    then show ?thesis using assms(2) by (intro exI[of _ "[]"]) auto
  next
    case 2
    then show ?thesis using run_single[of "outbox_step env payloads", OF first] inv_run by fastforce
  next
    case 3
    have "run (outbox_step env payloads) s [L_Expire now, L_Claim ow now tk (claimed_id env ow now (ob_rows ?s1))] ?s2"
      using first second by (auto simp: run_Cons_iff)
    with 3 inv_run show ?thesis by fastforce
  next
    case (4 k fin at)
    let ?s3 = "\<lparr>ob_rows = rows, ob_inflight = removeAll k (ob_inflight ?s2)\<rparr>"
    have "outbox_step env payloads ?s2 (L_Finalize k fin at) ?s3"
      using 4 by (intro outbox_step.finalize) simp_all
    then have "run (outbox_step env payloads) s
        [L_Expire now, L_Claim ow now tk (claimed_id env ow now (ob_rows ?s1)), L_Finalize k fin at] ?s3"
      using first second by (auto simp: run_Cons_iff)
    with inv_run show ?thesis by fastforce
  qed
qed

section \<open>Sample runs\<close>

definition sample_row :: delivery where
  "sample_row = \<lparr>dl_logical_candidate_id = ''k1'', dl_status = PENDING, dl_attempt_count = 0, dl_lease_owner = None,
     dl_lease_expires_at_epoch = None, dl_claim_token = None, dl_acknowledged_at_epoch = None,
     dl_receiver_status = None, dl_last_error = None, dl_next_attempt_at_epoch = 100,
     dl_expires_at_epoch = 1000, dl_created_at_epoch = 90, dl_updated_at_epoch = 90\<rparr>"

definition sample_done_row :: delivery where
  "sample_done_row = sample_row\<lparr>dl_logical_candidate_id := ''k0'', dl_status := ACKNOWLEDGED, dl_attempt_count := 1,
     dl_acknowledged_at_epoch := Some 95, dl_receiver_status := Some 200\<rparr>"

definition sample_outbox :: outbox_state where
  "sample_outbox = \<lparr>ob_rows = [sample_row, sample_done_row], ob_inflight = []\<rparr>"

definition sample_env :: outbox_env where
  "sample_env = \<lparr>oe_dispatch_enabled = Some ''true'',
     oe_receiver_manifest_sha256 = Some (replicate 64 (CHR ''a''))\<rparr>"

definition sample_payloads :: payload_table where
  "sample_payloads = [(''k0'', ''d0'', ''{}''), (''k1'', ''d1'', ''{}'')]"

definition sample_claim :: delivery_claim where
  "sample_claim = \<lparr>cl_logical_candidate_id = ''k1'', cl_candidate_body_sha256 = ''d1'', cl_payload_json = ''{}'',
     cl_attempt_count = 1, cl_lease_owner = ''w1'', cl_lease_expires_at_epoch = 130, cl_claim_token = ''t1'',
     cl_expires_at_epoch = 1000\<rparr>"

definition sample_claimed :: outbox_state where
  "sample_claimed = \<lparr>ob_rows = [take_lease ''w1'' 100 ''t1'' sample_row, sample_done_row], ob_inflight = [sample_claim]\<rparr>"

lemma sample_outbox_inv: "outbox_inv sample_outbox" "fresh_token ''t1'' sample_outbox"
  by (simp_all add: outbox_inv_def sample_outbox_def sample_row_def sample_done_row_def row_ok_def
      lease_fields_def claims_linked_def MAX_ATTEMPTS_def fresh_token_def)

lemma sample_enabled: "dispatchEnabled sample_env" "is_identifier ''w1''" "validNow 100" "validNow 140"
  by code_simp+

lemma sample_claims:
  "claimObservationCandidateDelivery sample_env sample_payloads ''w1'' 100 ''t1'' (ob_rows sample_outbox) =
     (ob_rows sample_claimed, Some sample_claim)"
  by code_simp

lemma sample_claimed_id: "claimed_id sample_env ''w1'' 100 (ob_rows sample_outbox) = Some ''k1''"
  by code_simp

lemma sample_run:
  "run (outbox_step sample_env sample_payloads) sample_outbox [L_Claim ''w1'' 100 ''t1'' (Some ''k1'')] sample_claimed"
proof -
  have "outbox_step sample_env sample_payloads sample_outbox (L_Claim ''w1'' 100 ''t1'' (Some ''k1'')) sample_claimed"
    using outbox_step.claim[OF sample_outbox_inv(2) sample_claims]
    by (simp add: sample_claimed_id) (simp add: sample_claimed_def sample_outbox_def)
  then show ?thesis by (rule run_single)
qed

theorem outbox_invariant_on_runs_witness: "outbox_inv sample_claimed"
  by (rule outbox_invariant_on_runs[OF sample_run sample_outbox_inv(1)])

theorem outbox_sends_bounded_witness: "attempts ''k1'' sample_outbox + 1 \<le> MAX_ATTEMPTS"
  using outbox_sends_bounded[OF sample_run sample_outbox_inv(1), of "''k1''"] by simp

theorem outbox_terminal_rows_final_witness: "sample_done_row \<in> set (ob_rows sample_claimed)"
  by (rule outbox_terminal_rows_final[OF sample_run])
    (simp_all add: terminal_def sample_done_row_def sample_outbox_def)

theorem superseded_claim_changes_nothing_witness:
  "finalizeObservationCandidateDelivery sample_claim (Acknowledged 200) 140 (ob_rows sample_outbox) =
     (ob_rows sample_outbox, O_EMPTY)"
  by (rule superseded_claim_changes_nothing[OF sample_outbox_inv(1), of sample_row])
    (simp_all add: sample_enabled sample_outbox_def sample_row_def sample_claim_def)

lemma sample_finalizes:
  "finalizeObservationCandidateDelivery sample_claim (Acknowledged 200) 110 (ob_rows sample_claimed) =
     ([sample_row\<lparr>dl_status := ACKNOWLEDGED, dl_attempt_count := 1, dl_acknowledged_at_epoch := Some 110,
        dl_receiver_status := Some 200, dl_updated_at_epoch := 110\<rparr>, sample_done_row], O_ACKNOWLEDGED)"
  by code_simp

theorem acknowledgement_is_earned_witness:
  "\<exists>c status now q. L_Finalize sample_claim (Acknowledged 200) 110 = L_Finalize c (Acknowledged status) now \<and>
     c \<in> set (ob_inflight sample_claimed) \<and> q \<in> set (ob_rows sample_claimed) \<and> holds_claim c q \<and>
     now < cl_lease_expires_at_epoch c"
proof -
  let ?r = "sample_row\<lparr>dl_status := ACKNOWLEDGED, dl_attempt_count := 1, dl_acknowledged_at_epoch := Some 110,
        dl_receiver_status := Some 200, dl_updated_at_epoch := 110\<rparr>"
  have "sample_claim \<in> set (ob_inflight sample_claimed)" by (simp add: sample_claimed_def)
  from outbox_step.finalize[OF this sample_finalizes, of sample_env sample_payloads]
  have "\<exists>c status now q. L_Finalize sample_claim (Acknowledged 200) 110 = L_Finalize c (Acknowledged status) now \<and>
     c \<in> set (ob_inflight sample_claimed) \<and> q \<in> set (ob_rows sample_claimed) \<and> holds_claim c q \<and>
     dl_logical_candidate_id ?r = dl_logical_candidate_id q \<and>
     now < cl_lease_expires_at_epoch c \<and> now < cl_expires_at_epoch c"
    by (rule acknowledgement_is_earned)
      (simp_all add: sample_claimed_def sample_row_def sample_done_row_def take_lease_def)
  then show ?thesis by blast
qed

theorem claim_takes_first_due_witness:
  "\<exists>rows c. claimObservationCandidateDelivery sample_env sample_payloads ''w1'' 100 ''t1'' (ob_rows sample_outbox) =
     (rows, Some c)"
proof -
  have "sample_row \<in> set (housekept 100 (ob_rows sample_outbox))" by code_simp
  moreover have "dl_status sample_row = PENDING \<or> dl_status sample_row = RETRY"
    "dl_next_attempt_at_epoch sample_row \<le> 100" "100 < dl_expires_at_epoch sample_row"
    by (simp_all add: sample_row_def)
  moreover have "map_of sample_payloads (dl_logical_candidate_id r) \<noteq> None" if "r \<in> set (ob_rows sample_outbox)" for r
    using that by (auto simp: sample_payloads_def sample_outbox_def sample_row_def sample_done_row_def)
  ultimately show ?thesis
    using claim_takes_first_due[OF sample_outbox_inv sample_enabled(1-3), of sample_row sample_payloads] by blast
qed

theorem dispatch_is_a_run_witness:
  "\<exists>ls t. run (outbox_step sample_env sample_payloads) sample_outbox ls t \<and> outbox_inv t \<and>
     ob_rows t = fst (dispatchObservationOutboxOnce sample_env sample_payloads ''w1'' 100 ''t1''
       (Some 503) (Some 105) (ob_rows sample_outbox))"
proof -
  obtain rows out where "dispatchObservationOutboxOnce sample_env sample_payloads ''w1'' 100 ''t1''
       (Some 503) (Some 105) (ob_rows sample_outbox) = (rows, out)"
    by (metis surj_pair)
  with dispatch_is_a_run[OF sample_outbox_inv(2,1) this] show ?thesis by auto
qed

end
