(* ===== verification/Edge_Canonical.thy ===== *)
theory Edge_Canonical
  imports Canonical_Json
begin

text \<open>
  The canonical serializer of the execution edge (\<open>canonical.ts\<close>). It is a second implementation of
  canonical JSON: it orders keys by code points, refuses integers outside the safe range, and the
  digests it makes are compared with digests made by the observation edge. The property of this
  theory is that the two serializers agree wherever this one answers.

  A \<open>json\<close> value is a plain tree, so the tests for cycles, accessors, holes, symbol keys and foreign
  prototypes hold by typing and are left out.
\<close>

section \<open>The serializer\<close>

definition canonical_invalid :: js_error where
  "canonical_invalid = Error ''CANONICAL_JSON_INVALID''"

fun compareCodePoints :: "string \<Rightarrow> string \<Rightarrow> int" where
  "compareCodePoints (x # xs) (y # ys) =
     (if x \<noteq> y then (if code_unit x < code_unit y then -1 else 1) else compareCodePoints xs ys)"
| "compareCodePoints xs ys = int (length xs) - int (length ys)"

definition property_order :: "string \<times> 'a \<Rightarrow> string \<times> 'a \<Rightarrow> int" where
  "property_order p q = compareCodePoints (fst p) (fst q)"

fun all_results :: "'a result list \<Rightarrow> 'a list result" where
  "all_results [] = Inr []"
| "all_results (r # rs) = and_then r (\<lambda>x. and_then (all_results rs) (\<lambda>xs. Inr (x # xs)))"

function serialize :: "json \<Rightarrow> string result" where
  "serialize JNull = Inr ''null''"
| "serialize (JStr s) = Inr (json_quote s)"
| "serialize (JBool b) = Inr (if b then ''true'' else ''false'')"
| "serialize (JNum n) = (if \<not> is_safe_integer n then Inl canonical_invalid else Inr (js_number n))"
| "serialize (JArr vs) =
     and_then (all_results (map serialize vs)) (\<lambda>items. Inr (''['' @ js_join '','' items @ '']''))"
| "serialize (JObj kvs) =
     and_then (all_results (map (\<lambda>(k, v). and_then (serialize v) (\<lambda>t. Inr (json_quote k @ '':'' @ t)))
       (js_sort property_order kvs))) (\<lambda>items. Inr (''{'' @ js_join '','' items @ ''}''))"
  by pat_completeness auto

lemma size_property: "(k, v) \<in> set kvs \<Longrightarrow> size v < Suc (size_list (size_prod (\<lambda>_. 0) size) kvs)"
  by (induction kvs) auto

termination serialize
  by (relation "measure size") (auto simp: size_property less_Suc_eq_le intro: size_list_estimation')

definition edge_sha256 :: "platform \<Rightarrow> json \<Rightarrow> string result" where
  "edge_sha256 P v = and_then (serialize v) (\<lambda>text. Inr (sha256Hex P text))"

section \<open>Agreement with the observation edge\<close>

fun safe_numbers :: "json \<Rightarrow> bool" where
  "safe_numbers (JNum n) = is_safe_integer n"
| "safe_numbers (JArr vs) = list_all safe_numbers vs"
| "safe_numbers (JObj kvs) = list_all (\<lambda>kv. safe_numbers (snd kv)) kvs"
| "safe_numbers _ = True"

lemma compareCodePoints_sgn: "sgn (compareCodePoints s t) = compare_units s t"
proof (induction s arbitrary: t)
  case Nil
  show ?case by (cases t) simp_all
next
  case (Cons c s)
  then show ?case by (cases t) auto
qed

lemma js_insert_sgn:
  assumes "\<And>a b. sgn (cmp a b) = sgn (cmp' a b)"
  shows "js_insert cmp x ys = js_insert cmp' x ys"
proof (induction ys)
  case (Cons y ys)
  have "cmp x y \<le> 0 \<longleftrightarrow> cmp' x y \<le> 0" using assms[of x y] by (auto simp: sgn_if split: if_splits)
  with Cons show ?case by simp
qed simp

lemma js_sort_sgn:
  assumes "\<And>a b. sgn (cmp a b) = sgn (cmp' a b)"
  shows "js_sort cmp xs = js_sort cmp' xs"
  by (induction xs) (simp_all add: js_insert_sgn[OF assms])

lemma sort_properties: "js_sort property_order kvs = js_sort key_order kvs"
  by (rule js_sort_sgn) (simp add: property_order_def key_order_def compareCodePoints_sgn[symmetric])

lemma all_results_uniform:
  assumes "\<And>x. x \<in> set xs \<Longrightarrow> f x = (if P x then Inr (g x) else Inl e)"
  shows "all_results (map f xs) = (if list_all P xs then Inr (map g xs) else Inl e)"
  using assms by (induction xs) auto

lemma serialize_eq:
  "serialize v = (if safe_numbers v then Inr (canonicalStringify v) else Inl canonical_invalid)"
proof (induction v)
  case (JArr vs)
  then have "all_results (map serialize vs) =
      (if list_all safe_numbers vs then Inr (map canonicalStringify vs) else Inl canonical_invalid)"
    by (intro all_results_uniform) auto
  then show ?case by simp
next
  case (JObj kvs)
  let ?s = "js_sort key_order kvs"
  have "all_results (map (\<lambda>(k, v). and_then (serialize v) (\<lambda>t. Inr (json_quote k @ '':'' @ t))) ?s) =
      (if list_all (\<lambda>kv. safe_numbers (snd kv)) ?s
       then Inr (map (\<lambda>(k, v). json_quote k @ '':'' @ canonicalStringify v) ?s) else Inl canonical_invalid)"
  proof (rule all_results_uniform)
    fix kv assume "kv \<in> set ?s"
    with JObj have "serialize (snd kv) = (if safe_numbers (snd kv) then Inr (canonicalStringify (snd kv)) else Inl canonical_invalid)"
      by (cases kv) auto
    then show "(case kv of (k, v) \<Rightarrow> and_then (serialize v) (\<lambda>t. Inr (json_quote k @ '':'' @ t))) =
      (if safe_numbers (snd kv) then Inr (case kv of (k, v) \<Rightarrow> json_quote k @ '':'' @ canonicalStringify v) else Inl canonical_invalid)"
      by (simp add: case_prod_unfold)
  qed
  moreover have "list_all (\<lambda>kv. safe_numbers (snd kv)) ?s = list_all (\<lambda>kv. safe_numbers (snd kv)) kvs"
    by (simp add: list_all_iff)
  moreover have "map (\<lambda>(k, t). json_quote k @ '':'' @ t) (js_sort key_order (map (\<lambda>(k, v). (k, canonicalStringify v)) kvs)) =
      map (\<lambda>(k, v). json_quote k @ '':'' @ canonicalStringify v) ?s"
    unfolding js_sort_map_values by (simp add: case_prod_unfold)
  ultimately show ?case
    unfolding serialize.simps sort_properties canonicalStringify.simps by simp
qed simp_all


lemma edge_sha256_eq: "safe_numbers v \<Longrightarrow> edge_sha256 P v = Inr (canonicalSha256 P v)"
  by (simp add: edge_sha256_def serialize_eq canonicalSha256_def)

end
