(* ===== verification/Exact_Price.thy ===== *)
theory Exact_Price
  imports Canonical_Json
begin

text \<open>
  Exact prices (\<open>exact-price-v1.ts\<close>). Prices of the execution edge are integers in units of
  \<open>10 ^ -12\<close>; a tick size arrives as decimal text and is parsed without rounding. The property of this
  theory is the round trip: the accepted texts are exactly the shortest decimal spellings of the
  positive multiples of the unit, one for each.
\<close>

section \<open>Operations\<close>

definition PRICE_SCALE :: int where "PRICE_SCALE = 1000000000000"

definition exact_price_invalid :: js_error where
  "exact_price_invalid = Error ''EXACT_PRICE_INVALID''"

definition exact_price_out_of_range :: js_error where
  "exact_price_out_of_range = Error ''EXACT_PRICE_OUT_OF_RANGE''"

text \<open>The regular expression \<open>TICK_SIZE\<close>: its whole part \<open>[1-9][0-9]*\<close>, its fraction \<open>[0-9]{0,11}[1-9]\<close>.\<close>

definition whole_part :: "string \<Rightarrow> bool" where
  "whole_part w \<longleftrightarrow> w \<noteq> [] \<and> hd w \<noteq> CHR ''0'' \<and> list_all is_digit w"

definition fraction_part :: "string \<Rightarrow> bool" where
  "fraction_part f \<longleftrightarrow> f \<noteq> [] \<and> length f \<le> 12 \<and> last f \<noteq> CHR ''0'' \<and> list_all is_digit f"

definition is_tick_size :: "string \<Rightarrow> bool" where
  "is_tick_size s \<longleftrightarrow>
     (let whole = takeWhile is_digit s in
      case dropWhile is_digit s of
        [] \<Rightarrow> whole_part whole
      | c # f \<Rightarrow> c = CHR ''.'' \<and> (whole = ''0'' \<or> whole_part whole) \<and> fraction_part f)"

definition padEnd :: "nat \<Rightarrow> char \<Rightarrow> string \<Rightarrow> string" where
  "padEnd n c s = s @ replicate (n - length s) c"

text \<open>\<open>value.split(".")\<close>: the first part and the second, or \<open>""\<close> where there is none.\<close>

definition split_point :: "string \<Rightarrow> string \<times> string" where
  "split_point s = (takeWhile (\<lambda>c. c \<noteq> CHR ''.'') s,
     takeWhile (\<lambda>c. c \<noteq> CHR ''.'') (tl (dropWhile (\<lambda>c. c \<noteq> CHR ''.'') s)))"

definition parseTickSizeToPriceUnits :: "string \<Rightarrow> int result" where
  "parseTickSizeToPriceUnits value =
     (if \<not> is_tick_size value then Inl exact_price_invalid
      else let (whole, fraction) = split_point value;
               units = int (digits_value whole) * PRICE_SCALE + int (digits_value (padEnd 12 CHR ''0'' fraction)) in
        if units \<le> 0 then Inl exact_price_invalid else Inr units)"

definition ticksToPriceUnits :: "int \<Rightarrow> int \<Rightarrow> int result" where
  "ticksToPriceUnits ticks tickSizeUnits =
     (if \<not> is_safe_integer ticks \<or> ticks < 1 then Inl exact_price_invalid
      else if tickSizeUnits \<le> 0 then Inl exact_price_invalid
      else Inr (ticks * tickSizeUnits))"

definition ceilPriceUnitsToTicks :: "int \<Rightarrow> int \<Rightarrow> int result" where
  "ceilPriceUnitsToTicks distanceUnits tickSizeUnits =
     (if distanceUnits \<le> 0 then Inl exact_price_invalid
      else if tickSizeUnits \<le> 0 then Inl exact_price_invalid
      else Inr (bigint_div (distanceUnits + tickSizeUnits - 1) tickSizeUnits))"

definition safeBrokerTicks :: "int \<Rightarrow> int result" where
  "safeBrokerTicks value =
     (if value \<le> 0 then Inl exact_price_invalid
      else if value > MAX_SAFE_INTEGER then Inl exact_price_out_of_range
      else Inr value)"

section \<open>Decimal spellings\<close>

fun fixed_digits :: "nat \<Rightarrow> nat \<Rightarrow> string" where
  "fixed_digits 0 u = []"
| "fixed_digits (Suc n) u = fixed_digits n (u div 10) @ [digit_char (u mod 10)]"

definition strip_zeros :: "string \<Rightarrow> string" where
  "strip_zeros s = rev (dropWhile (\<lambda>c. c = CHR ''0'') (rev s))"

text \<open>The shortest decimal spelling of a number of price units.\<close>

definition tick_size_text :: "int \<Rightarrow> string" where
  "tick_size_text u =
     (let whole = nat_digits (nat (u div PRICE_SCALE)); fraction = strip_zeros (fixed_digits 12 (nat (u mod PRICE_SCALE))) in
      if fraction = [] then whole else whole @ ''.'' @ fraction)"

lemma digit_char_of_code: "is_digit c \<Longrightarrow> digit_char (code_unit c - 48) = c"
proof -
  assume c: "is_digit c"
  then have "code_unit (digit_char (code_unit c - 48)) = 48 + (code_unit c - 48)"
    by (intro digit_char_code) (auto simp: is_digit_def)
  with c have "code_unit (digit_char (code_unit c - 48)) = code_unit c" unfolding is_digit_def by linarith
  then show ?thesis by simp
qed

lemma digit_value_less: "is_digit c \<Longrightarrow> code_unit c - 48 < 10"
  by (auto simp: is_digit_def)

lemma digits_value_less: "list_all is_digit s \<Longrightarrow> digits_value s < 10 ^ length s"
proof (induction s rule: rev_induct)
  case (snoc c s)
  then show ?case using digit_value_less[of c] by (simp add: digits_value_snoc)
qed (simp add: digits_value_def)

lemma fixed_digits_props: "length (fixed_digits n u) = n" "list_all is_digit (fixed_digits n u)"
  by (induction n arbitrary: u) simp_all

lemma digits_value_fixed: "digits_value (fixed_digits n u) = u mod 10 ^ n"
proof (induction n arbitrary: u)
  case (Suc n)
  then show ?case
    by (simp add: digits_value_snoc digit_char_code mod_mult2_eq)
qed (simp add: digits_value_def)

lemma fixed_digits_value: "list_all is_digit s \<Longrightarrow> fixed_digits (length s) (digits_value s) = s"
proof (induction s rule: rev_induct)
  case (snoc c s)
  then show ?case using digit_value_less[of c] by (simp add: digits_value_snoc digit_char_of_code)
qed simp

lemma nat_digits_value: "whole_part w \<Longrightarrow> nat_digits (digits_value w) = w"
proof (induction w rule: rev_induct)
  case (snoc c w)
  have c: "is_digit c" using snoc.prems by (simp add: whole_part_def)
  note d = digit_value_less[OF c] digit_char_of_code[OF c]
  show ?case
  proof (cases "w = []")
    case True
    with d show ?thesis by (simp add: digits_value_def nat_digits.simps)
  next
    case False
    with snoc have w: "nat_digits (digits_value w) = w" and h: "whole_part w"
      by (simp_all add: whole_part_def)
    have "digits_value w \<noteq> 0"
    proof
      assume "digits_value w = 0"
      with w have "w = ''0''" by (simp add: nat_digits.simps digit_char_def)
      with h show False by (simp add: whole_part_def)
    qed
    with d w show ?thesis by (simp add: digits_value_snoc nat_digits.simps[of "10 * _ + _"])
  qed
qed (simp add: whole_part_def)

lemma whole_part_nat_digits: "0 < n \<Longrightarrow> whole_part (nat_digits n)"
proof (induction n rule: nat_digits.induct)
  case (1 n)
  show ?case
  proof (cases "n < 10")
    case True
    have "code_unit CHR ''0'' = 48" by code_simp
    with True 1 digit_char_code[OF True] have "digit_char n \<noteq> CHR ''0''" by auto
    with True show ?thesis by (simp add: nat_digits.simps[of n] whole_part_def)
  next
    case False
    with 1 have "whole_part (nat_digits (n div 10))" by simp
    with False show ?thesis by (simp add: nat_digits.simps[of n] whole_part_def)
  qed
qed

section \<open>The round trip\<close>

lemma zero_digit: "is_digit CHR ''0''" "\<not> is_digit CHR ''.''" "code_unit CHR ''0'' = 48"
  by code_simp+

lemma nat_digits_0: "nat_digits 0 = ''0''"
  by (simp add: nat_digits.simps digit_char_def)

lemma padEnd_digits: "list_all is_digit s \<Longrightarrow> list_all is_digit (padEnd n CHR ''0'' s)"
  by (auto simp: padEnd_def list_all_iff zero_digit)

lemma length_padEnd: "length s \<le> n \<Longrightarrow> length (padEnd n c s) = n"
  by (simp add: padEnd_def)

lemma dropWhile_replicate: "dropWhile (\<lambda>c. c = x) (replicate n x @ s) = dropWhile (\<lambda>c. c = x) s"
  by (induction n) simp_all

lemma strip_padEnd: "fraction_part f \<Longrightarrow> strip_zeros (padEnd 12 CHR ''0'' f) = f"
proof -
  assume f: "fraction_part f"
  then obtain c r where r: "rev f = c # r" "c \<noteq> CHR ''0''"
    by (cases f rule: rev_cases) (auto simp: fraction_part_def)
  then show ?thesis by (simp add: strip_zeros_def padEnd_def dropWhile_replicate)
qed

lemma padEnd_strip: "padEnd (length s) CHR ''0'' (strip_zeros s) = s"
proof (induction s rule: rev_induct)
  case (snoc c s)
  have "length (strip_zeros s) \<le> length s"
    unfolding strip_zeros_def by (metis length_dropWhile_le length_rev)
  with snoc show ?case
    by (auto simp: strip_zeros_def padEnd_def Suc_diff_le replicate_append_same[symmetric] simp del: replicate_append_same)
qed (simp add: padEnd_def strip_zeros_def)

lemma fraction_part_strip:
  assumes "list_all is_digit s" and "length s = 12" and "strip_zeros s \<noteq> []"
  shows "fraction_part (strip_zeros s)"
proof -
  have "length (strip_zeros s) \<le> length s" "set (strip_zeros s) \<subseteq> set s"
    unfolding strip_zeros_def using length_dropWhile_le[of _ "rev s"] set_dropWhileD by fastforce+
  moreover have "last (strip_zeros s) \<noteq> CHR ''0''"
    using assms(3) hd_dropWhile[of "\<lambda>c. c = CHR ''0''" "rev s"]
    by (auto simp: strip_zeros_def last_rev)
  ultimately show ?thesis using assms by (auto simp: fraction_part_def list_all_iff)
qed

lemma is_tick_size_iff:
  "is_tick_size s \<longleftrightarrow> whole_part s \<or> (\<exists>w f. s = w @ ''.'' @ f \<and> (w = ''0'' \<or> whole_part w) \<and> fraction_part f)"
  (is "_ \<longleftrightarrow> ?R")
proof
  assume t: "is_tick_size s"
  have s: "s = takeWhile is_digit s @ dropWhile is_digit s" by simp
  show ?R
  proof (cases "dropWhile is_digit s")
    case Nil
    with s have "takeWhile is_digit s = s" by simp
    with t Nil show ?thesis by (simp add: is_tick_size_def)
  next
    case (Cons c f)
    with t s have "s = takeWhile is_digit s @ ''.'' @ f \<and>
        (takeWhile is_digit s = ''0'' \<or> whole_part (takeWhile is_digit s)) \<and> fraction_part f"
      by (simp add: is_tick_size_def Let_def)
    then show ?thesis by blast
  qed
next
  have digits: "takeWhile is_digit w = w \<and> dropWhile is_digit w = []" if "list_all is_digit w" for w
    using that by (simp add: list_all_iff takeWhile_eq_all_conv dropWhile_eq_Nil_conv)
  assume ?R
  then consider "whole_part s" | w f where "s = w @ ''.'' @ f" "w = ''0'' \<or> whole_part w" "fraction_part f"
    by blast
  then show "is_tick_size s"
  proof cases
    case 1
    moreover from this have "takeWhile is_digit s = s \<and> dropWhile is_digit s = []"
      by (intro digits) (simp add: whole_part_def)
    ultimately show ?thesis unfolding is_tick_size_def Let_def by (elim conjE) (simp only: list.case)
  next
    case (2 w f)
    then have "list_all is_digit w" by (auto simp: whole_part_def zero_digit)
    then have "takeWhile is_digit s = w" "dropWhile is_digit s = CHR ''.'' # f"
      by (simp_all add: 2(1) list_all_iff zero_digit takeWhile_append dropWhile_append)
    with 2 show ?thesis by (simp add: is_tick_size_def)
  qed
qed

lemma no_point: "list_all is_digit w \<Longrightarrow> takeWhile (\<lambda>c. c \<noteq> CHR ''.'') (w @ r) = w @ takeWhile (\<lambda>c. c \<noteq> CHR ''.'') r \<and>
    dropWhile (\<lambda>c. c \<noteq> CHR ''.'') (w @ r) = dropWhile (\<lambda>c. c \<noteq> CHR ''.'') r"
  using zero_digit(2) by (induction w) auto

lemma split_point_whole: "list_all is_digit w \<Longrightarrow> split_point w = (w, [])"
  using no_point[of w "[]"] unfolding split_point_def append_Nil2
  by (simp only: takeWhile.simps dropWhile.simps list.sel append_Nil2)

lemma split_point_fraction:
  "list_all is_digit w \<Longrightarrow> list_all is_digit f \<Longrightarrow> split_point (w @ ''.'' @ f) = (w, f)"
  using no_point[of w "''.'' @ f"] no_point[of f "[]"] by (simp add: split_point_def)

lemma whole_part_positive: "whole_part w \<Longrightarrow> 0 < digits_value w"
  using nat_digits_value[of w] by (cases "digits_value w") (auto simp: whole_part_def nat_digits_0)

lemma fraction_part_positive: "fraction_part f \<Longrightarrow> 0 < digits_value (padEnd 12 CHR ''0'' f)"
proof (rule ccontr)
  assume f: "fraction_part f" and "\<not> 0 < digits_value (padEnd 12 CHR ''0'' f)"
  then have "padEnd 12 CHR ''0'' f = fixed_digits 12 0"
    using fixed_digits_value[of "padEnd 12 CHR ''0'' f"] padEnd_digits[of f 12] length_padEnd[of f 12]
    by (simp add: fraction_part_def)
  then have "f = strip_zeros (fixed_digits 12 0)" using strip_padEnd[OF f] by simp
  moreover have "strip_zeros (fixed_digits 12 0) = []" by code_simp
  ultimately show False using f by (simp add: fraction_part_def)
qed

lemma fraction_bound: "fraction_part f \<Longrightarrow> digits_value (padEnd 12 CHR ''0'' f) < 1000000000000"
  using digits_value_less[of "padEnd 12 CHR ''0'' f"] padEnd_digits[of f 12] length_padEnd[of f 12]
  by (simp add: fraction_part_def)

lemma zero_digits_value: "digits_value (padEnd 12 CHR ''0'' []) = 0" "digits_value ''0'' = 0"
  by code_simp+

lemma parse_whole: "whole_part w \<Longrightarrow> parseTickSizeToPriceUnits w = Inr (int (digits_value w) * PRICE_SCALE)"
  using whole_part_positive[of w]
  by (auto simp: parseTickSizeToPriceUnits_def is_tick_size_iff split_point_whole whole_part_def zero_digits_value
      PRICE_SCALE_def)

lemma parse_fraction:
  assumes "w = ''0'' \<or> whole_part w" and "fraction_part f"
  shows "parseTickSizeToPriceUnits (w @ ''.'' @ f) =
    Inr (int (digits_value w) * PRICE_SCALE + int (digits_value (padEnd 12 CHR ''0'' f)))"
proof -
  have "list_all is_digit w" "list_all is_digit f" using assms by (auto simp: whole_part_def fraction_part_def zero_digit)
  then have "split_point (w @ ''.'' @ f) = (w, f)" by (rule split_point_fraction)
  moreover have "is_tick_size (w @ ''.'' @ f)" using assms by (auto simp: is_tick_size_iff)
  moreover have "0 < int (digits_value w) * PRICE_SCALE + int (digits_value (padEnd 12 CHR ''0'' f))"
    using fraction_part_positive[OF assms(2)] by (simp add: PRICE_SCALE_def add_nonneg_pos)
  ultimately show ?thesis by (simp add: parseTickSizeToPriceUnits_def)
qed

lemma tick_size_text_fraction:
  assumes "w = ''0'' \<or> whole_part w" and "fraction_part f"
  shows "tick_size_text (int (digits_value w) * PRICE_SCALE + int (digits_value (padEnd 12 CHR ''0'' f))) = w @ ''.'' @ f"
proof -
  let ?F = "digits_value (padEnd 12 CHR ''0'' f)" and ?u = "int (digits_value w) * PRICE_SCALE"
  have "fixed_digits 12 ?F = padEnd 12 CHR ''0'' f"
    using fixed_digits_value[of "padEnd 12 CHR ''0'' f"] padEnd_digits[of f 12] length_padEnd[of f 12] assms(2)
    by (simp add: fraction_part_def)
  then have "strip_zeros (fixed_digits 12 ?F) = f" by (simp add: strip_padEnd[OF assms(2)])
  moreover have "nat_digits (digits_value w) = w"
    using assms(1) nat_digits_value[of w] by (auto simp: zero_digits_value nat_digits_0)
  moreover have "(?u + int ?F) div PRICE_SCALE = int (digits_value w)" "(?u + int ?F) mod PRICE_SCALE = int ?F"
    using fraction_bound[OF assms(2)] by (simp_all add: PRICE_SCALE_def)
  moreover have "f \<noteq> []" using assms(2) by (simp add: fraction_part_def)
  ultimately show ?thesis by (simp add: tick_size_text_def)
qed

lemma tick_size_text_whole: "whole_part w \<Longrightarrow> tick_size_text (int (digits_value w) * PRICE_SCALE) = w"
proof -
  have "strip_zeros (fixed_digits 12 0) = []" by code_simp
  then show "whole_part w \<Longrightarrow> tick_size_text (int (digits_value w) * PRICE_SCALE) = w"
    by (simp add: tick_size_text_def nat_digits_value PRICE_SCALE_def)
qed

lemma parse_tick_size_text:
  assumes u: "0 < u"
  shows "parseTickSizeToPriceUnits (tick_size_text u) = Inr u"
proof -
  define W F where "W = nat (u div PRICE_SCALE)" and "F = nat (u mod PRICE_SCALE)"
  have u_eq: "u = int W * PRICE_SCALE + int F" and F: "F < 1000000000000"
    using u by (simp_all add: W_def F_def PRICE_SCALE_def pos_imp_zdiv_nonneg_iff nat_less_iff)
  let ?f = "strip_zeros (fixed_digits 12 F)"
  have pad: "padEnd 12 CHR ''0'' ?f = fixed_digits 12 F"
    using padEnd_strip[of "fixed_digits 12 F"] by (simp add: fixed_digits_props)
  have value_F: "digits_value (fixed_digits 12 F) = F" using F by (simp add: digits_value_fixed)
  show ?thesis
  proof (cases "?f = []")
    case True
    then have "F = 0" using pad value_F zero_digits_value by simp
    with u u_eq have "0 < W" by (cases W) (auto simp: PRICE_SCALE_def)
    then have "parseTickSizeToPriceUnits (nat_digits W) = Inr u"
      using parse_whole[OF whole_part_nat_digits[of W]] u_eq \<open>F = 0\<close> nat_digits_props[of W] by simp
    moreover have "tick_size_text u = nat_digits W" using True by (simp add: tick_size_text_def W_def F_def)
    ultimately show ?thesis by simp
  next
    case False
    then have f: "fraction_part ?f" by (intro fraction_part_strip) (simp_all add: fixed_digits_props)
    have w: "nat_digits W = ''0'' \<or> whole_part (nat_digits W)"
      using whole_part_nat_digits[of W] by (cases W) (auto simp: nat_digits_0)
    have "parseTickSizeToPriceUnits (nat_digits W @ ''.'' @ ?f) = Inr u"
      using parse_fraction[OF w f] pad value_F nat_digits_props[of W] u_eq by simp
    moreover have "tick_size_text u = nat_digits W @ ''.'' @ ?f" using False by (simp add: tick_size_text_def W_def F_def)
    ultimately show ?thesis by simp
  qed
qed

text \<open>
  The accepted tick sizes and the positive numbers of price units correspond one to one: a text
  is parsed to \<open>u\<close> exactly when it is the shortest decimal spelling of \<open>u\<close>. Equal sizes therefore
  have equal texts, which is why the contracts may compare tick sizes as strings.
\<close>

theorem tick_size_round_trip:
  "parseTickSizeToPriceUnits s = Inr u \<longleftrightarrow> 0 < u \<and> s = tick_size_text u"
proof
  assume p: "parseTickSizeToPriceUnits s = Inr u"
  then have "is_tick_size s" and pos: "0 < u"
    by (auto simp: parseTickSizeToPriceUnits_def Let_def split: if_splits prod.splits)
  then consider "whole_part s" | w f where "s = w @ ''.'' @ f" "w = ''0'' \<or> whole_part w" "fraction_part f"
    by (auto simp: is_tick_size_iff)
  then have "s = tick_size_text u"
  proof cases
    case 1
    with p parse_whole[OF 1] tick_size_text_whole[OF 1] show ?thesis by auto
  next
    case (2 w f)
    with p parse_fraction[OF 2(2,3)] tick_size_text_fraction[OF 2(2,3)] show ?thesis by auto
  qed
  with pos show "0 < u \<and> s = tick_size_text u" by simp
next
  assume "0 < u \<and> s = tick_size_text u"
  then show "parseTickSizeToPriceUnits s = Inr u" by (simp add: parse_tick_size_text)
qed

lemma parse_accepts_iff: "is_tick_size s \<longleftrightarrow> (\<exists>u>0. parseTickSizeToPriceUnits s = Inr u)"
proof
  assume "is_tick_size s"
  then show "\<exists>u>0. parseTickSizeToPriceUnits s = Inr u"
    using parse_whole whole_part_positive parse_fraction fraction_part_positive
    by (fastforce simp: is_tick_size_iff PRICE_SCALE_def intro: add_nonneg_pos)
qed (auto simp: parseTickSizeToPriceUnits_def split: if_splits)

section \<open>Ceiling\<close>

text \<open>The quotient is the least number of ticks that covers the distance.\<close>

lemma ceil_ticks:
  assumes "0 < d" and "0 < t"
  shows "\<exists>n. ceilPriceUnitsToTicks d t = Inr n \<and> d \<le> n * t \<and> n * t < d + t \<and> 0 < n"
proof -
  let ?n = "(d + t - 1) div t"
  have q: "?n * t + (d + t - 1) mod t = d + t - 1" "0 \<le> (d + t - 1) mod t" "(d + t - 1) mod t < t"
    using assms by simp_all
  then have "d \<le> ?n * t" "?n * t < d + t" by linarith+
  moreover have "0 < ?n" using \<open>d \<le> ?n * t\<close> assms by (smt (verit) mult_nonpos_nonneg)
  moreover have "ceilPriceUnitsToTicks d t = Inr ?n"
    using assms by (simp add: ceilPriceUnitsToTicks_def bigint_div_nonneg)
  ultimately show ?thesis by blast
qed

end
