(* ===== verification/Edge_Contracts.thy ===== *)
theory Edge_Contracts
  imports Edge_Canonical Exact_Price "HOL-Library.Monad_Syntax"
begin

text \<open>
  The wire contracts of the execution edge: \<open>contracts-v1.ts\<close> (closed broker bars),
  \<open>broker-symbol-capability-v1.ts\<close> and \<open>execution-candidate-v2.ts\<close>. Their validators read an untrusted
  JSON value inside one \<open>try\<close> block and turn every exception into the same error, so the body of the
  block is a computation in the option monad, in the order of the source, and the surrounding function
  maps \<open>None\<close> to that error. Constant fields of the results are left out of the records.
\<close>

section \<open>Reading JSON\<close>

type_synonym fields = "(string \<times> json) list"

definition require :: "bool \<Rightarrow> unit option" where
  "require b = (if b then Some () else None)"

text \<open>What a result gives inside a block whose exceptions are all replaced.\<close>

definition survives :: "'a result \<Rightarrow> 'a option" where
  "survives r = (case r of Inl _ \<Rightarrow> None | Inr x \<Rightarrow> Some x)"

definition or_throw :: "js_error \<Rightarrow> 'a option \<Rightarrow> 'a result" where
  "or_throw e x = (case x of None \<Rightarrow> Inl e | Some y \<Rightarrow> Inr y)"

fun objectValue :: "json \<Rightarrow> fields option" where
  "objectValue (JObj kvs) = Some kvs"
| "objectValue _ = None"

definition exactKeys :: "fields \<Rightarrow> string list \<Rightarrow> bool" where
  "exactKeys input expected \<longleftrightarrow> js_sort compare_units (map fst input) = js_sort compare_units expected"

definition string_at :: "fields \<Rightarrow> string \<Rightarrow> string option" where
  "string_at input k = (case map_of input k of Some (JStr s) \<Rightarrow> Some s | _ \<Rightarrow> None)"

definition number_at :: "fields \<Rightarrow> string \<Rightarrow> int option" where
  "number_at input k = (case map_of input k of Some (JNum n) \<Rightarrow> Some n | _ \<Rightarrow> None)"

definition array_at :: "fields \<Rightarrow> string \<Rightarrow> json list option" where
  "array_at input k = (case map_of input k of Some (JArr vs) \<Rightarrow> Some vs | _ \<Rightarrow> None)"

definition literal :: "fields \<Rightarrow> string \<Rightarrow> string \<Rightarrow> unit option" where
  "literal input k expected = require (map_of input k = Some (JStr expected))"

definition safeInteger_at :: "fields \<Rightarrow> string \<Rightarrow> int \<Rightarrow> int option" where
  "safeInteger_at input k minimum =
     do { n \<leftarrow> number_at input k; require (is_safe_integer n \<and> \<not> n < minimum); Some n }"

definition MIN_SAFE_INTEGER :: int where
  "MIN_SAFE_INTEGER = - MAX_SAFE_INTEGER"

definition valid_digest :: "string \<Rightarrow> bool" where
  "valid_digest s \<longleftrightarrow> is_sha256 s \<and> s \<noteq> zero_digest"

definition digest_at :: "fields \<Rightarrow> string \<Rightarrow> string option" where
  "digest_at input k = do { s \<leftarrow> string_at input k; require (valid_digest s); Some s }"

definition identifier_at :: "fields \<Rightarrow> string \<Rightarrow> string option" where
  "identifier_at input k = do { s \<leftarrow> string_at input k; require (is_identifier s); Some s }"

definition tick_size_at :: "fields \<Rightarrow> string \<Rightarrow> string option" where
  "tick_size_at input k =
     do { s \<leftarrow> string_at input k; require (\<not> length s > 32 \<and> is_tick_size s); Some s }"

definition without_field :: "string \<Rightarrow> fields \<Rightarrow> fields" where
  "without_field k input = filter (\<lambda>kv. fst kv \<noteq> k) input"

fun all_options :: "'a option list \<Rightarrow> 'a list option" where
  "all_options [] = Some []"
| "all_options (x # xs) = do { y \<leftarrow> x; ys \<leftarrow> all_options xs; Some (y # ys) }"

section \<open>Closed bars\<close>

record price_bar =
  pb_open_epoch :: int
  pb_close_epoch :: int
  pb_open_ticks :: int
  pb_high_ticks :: int
  pb_low_ticks :: int
  pb_close_ticks :: int

definition BAR_KEYS :: "string list" where
  "BAR_KEYS = [''open_epoch'', ''close_epoch'', ''open_ticks'', ''high_ticks'', ''low_ticks'', ''close_ticks'', ''closed'']"

definition bar_shape :: "int \<Rightarrow> price_bar \<Rightarrow> bool" where
  "bar_shape duration b \<longleftrightarrow> \<not>
     (pb_open_epoch b mod duration \<noteq> 0 \<or> pb_close_epoch b - pb_open_epoch b \<noteq> duration \<or>
      pb_low_ticks b > pb_high_ticks b \<or> pb_open_ticks b < pb_low_ticks b \<or>
      pb_open_ticks b > pb_high_ticks b \<or> pb_close_ticks b < pb_low_ticks b \<or>
      pb_close_ticks b > pb_high_ticks b)"

definition bar :: "int \<Rightarrow> json \<Rightarrow> price_bar option" where
  "bar duration value = do {
     input \<leftarrow> objectValue value;
     require (exactKeys input BAR_KEYS);
     openEpoch \<leftarrow> safeInteger_at input ''open_epoch'' 0;
     closeEpoch \<leftarrow> safeInteger_at input ''close_epoch'' 0;
     openTicks \<leftarrow> safeInteger_at input ''open_ticks'' MIN_SAFE_INTEGER;
     highTicks \<leftarrow> safeInteger_at input ''high_ticks'' MIN_SAFE_INTEGER;
     lowTicks \<leftarrow> safeInteger_at input ''low_ticks'' MIN_SAFE_INTEGER;
     closeTicks \<leftarrow> safeInteger_at input ''close_ticks'' MIN_SAFE_INTEGER;
     require (map_of input ''closed'' = Some (JBool True));
     let result = \<lparr>pb_open_epoch = openEpoch, pb_close_epoch = closeEpoch, pb_open_ticks = openTicks,
       pb_high_ticks = highTicks, pb_low_ticks = lowTicks, pb_close_ticks = closeTicks\<rparr>;
     require (bar_shape duration result);
     Some result }"

section \<open>Broker bar evidence\<close>

datatype bar_timeframe = M5 | M1

record bar_evidence =
  be_evidence_id :: string
  be_installation_id :: string
  be_account_id :: string
  be_account_profile_sha256 :: string
  be_source_symbol :: string
  be_broker_symbol :: string
  be_symbol_capability_sha256 :: string
  be_timeframe :: bar_timeframe
  be_reconciliation_cursor :: string
  be_reconciliation_sha256 :: string
  be_bars :: "price_bar list"
  be_observed_at_epoch :: int

definition EVIDENCE_KEYS :: "string list" where
  "EVIDENCE_KEYS = [''schema_version'', ''evidence_id'', ''installation_id'', ''account_id'', ''account_profile_sha256'',
     ''source_symbol'', ''broker_symbol'', ''symbol_capability_sha256'', ''timeframe'',
     ''reconciliation_cursor'', ''reconciliation_sha256'', ''bars'', ''observed_at_epoch'']"

definition SOURCE_SYMBOLS :: "string list" where
  "SOURCE_SYMBOLS = [''EURUSD'', ''GBPJPY'', ''USDJPY'', ''XAUUSD'', ''NAS100'']"

definition bar_evidence_invalid :: js_error where
  "bar_evidence_invalid = Error ''BROKER_BAR_EVIDENCE_INVALID''"

definition timeframe_at :: "fields \<Rightarrow> string \<Rightarrow> bar_timeframe option" where
  "timeframe_at input k =
     do { s \<leftarrow> string_at input k; if s = ''M5'' then Some M5 else if s = ''M1'' then Some M1 else None }"

definition timeframe_duration :: "bar_timeframe \<Rightarrow> int" where
  "timeframe_duration t = (if t = M5 then 300 else 60)"

definition read_bar_evidence :: "json \<Rightarrow> string \<Rightarrow> bar_evidence option" where
  "read_bar_evidence value expectedCapabilitySha256 = do {
     input \<leftarrow> objectValue value;
     require (exactKeys input EVIDENCE_KEYS);
     literal input ''schema_version'' ''BrokerBarEvidenceV1'';
     sourceSymbol \<leftarrow> string_at input ''source_symbol'';
     require (sourceSymbol \<in> set SOURCE_SYMBOLS);
     timeframe \<leftarrow> timeframe_at input ''timeframe'';
     capabilitySha256 \<leftarrow> digest_at input ''symbol_capability_sha256'';
     require (valid_digest expectedCapabilitySha256 \<and> capabilitySha256 = expectedCapabilitySha256);
     items \<leftarrow> array_at input ''bars'';
     require (\<not> (length items < 1 \<or> length items > 512));
     bars \<leftarrow> all_options (map (bar (timeframe_duration timeframe)) items);
     require (successively (\<lambda>a b. pb_open_epoch b = pb_close_epoch a) bars);
     observedAt \<leftarrow> safeInteger_at input ''observed_at_epoch'' 0;
     require (\<not> (observedAt < pb_close_epoch (last bars) \<or> observedAt - pb_close_epoch (last bars) > 30));
     evidenceId \<leftarrow> identifier_at input ''evidence_id'';
     installationId \<leftarrow> identifier_at input ''installation_id'';
     accountId \<leftarrow> identifier_at input ''account_id'';
     profile \<leftarrow> digest_at input ''account_profile_sha256'';
     brokerSymbol \<leftarrow> identifier_at input ''broker_symbol'';
     cursor \<leftarrow> identifier_at input ''reconciliation_cursor'';
     reconciliation \<leftarrow> digest_at input ''reconciliation_sha256'';
     Some \<lparr>be_evidence_id = evidenceId, be_installation_id = installationId, be_account_id = accountId,
       be_account_profile_sha256 = profile, be_source_symbol = sourceSymbol, be_broker_symbol = brokerSymbol,
       be_symbol_capability_sha256 = capabilitySha256, be_timeframe = timeframe,
       be_reconciliation_cursor = cursor, be_reconciliation_sha256 = reconciliation, be_bars = bars,
       be_observed_at_epoch = observedAt\<rparr> }"

definition validateBrokerBarEvidenceV1 :: "json \<Rightarrow> string \<Rightarrow> bar_evidence result" where
  "validateBrokerBarEvidenceV1 value expectedCapabilitySha256 =
     or_throw bar_evidence_invalid (read_bar_evidence value expectedCapabilitySha256)"

section \<open>Broker symbol capability\<close>

record capability =
  sc_capability_sha256 :: string
  sc_account_profile_sha256 :: string
  sc_source_symbol :: string
  sc_broker_symbol :: string
  sc_source_tick_size :: string
  sc_broker_tick_size :: string
  sc_source_buffer_ticks :: int
  sc_broker_buffer_ticks :: int
  sc_divergence_tolerance_source_ticks :: int

definition CAPABILITY_KEYS :: "string list" where
  "CAPABILITY_KEYS = [''schema_version'', ''capability_sha256'', ''account_profile_sha256'', ''source_symbol'',
     ''broker_symbol'', ''source_tick_size'', ''broker_tick_size'', ''buffer_policy_version'',
     ''source_buffer_ticks'', ''broker_buffer_ticks'', ''divergence_tolerance_source_ticks'']"

text \<open>
  Symbol, wick buffer and tolerance. The source tests membership with \<open>in\<close>, which also finds the
  names that objects inherit; for those the buffer compared with later is not a number, so the value
  is rejected all the same.
\<close>

definition INERT_GEOMETRY_POLICY :: "(string \<times> int \<times> int) list" where
  "INERT_GEOMETRY_POLICY = [(''EURUSD'', 2, 3), (''GBPJPY'', 3, 5), (''USDJPY'', 2, 5), (''XAUUSD'', 5, 10), (''NAS100'', 10, 20)]"

definition capability_invalid :: js_error where
  "capability_invalid = Error ''BROKER_SYMBOL_CAPABILITY_INVALID''"

definition expected_broker_buffer :: "int \<Rightarrow> int \<Rightarrow> int \<Rightarrow> int result" where
  "expected_broker_buffer sourceBufferTicks sourceTickUnits brokerTickUnits =
     and_then (ticksToPriceUnits sourceBufferTicks sourceTickUnits) (\<lambda>distance.
       and_then (ceilPriceUnitsToTicks distance brokerTickUnits) safeBrokerTicks)"

definition read_capability :: "platform \<Rightarrow> json \<Rightarrow> capability option" where
  "read_capability P value = do {
     input \<leftarrow> objectValue value;
     require (exactKeys input CAPABILITY_KEYS);
     literal input ''schema_version'' ''BrokerSymbolCapabilityV1'';
     literal input ''buffer_policy_version'' ''rd-entry-wick-buffer-v1'';
     sourceSymbol \<leftarrow> string_at input ''source_symbol'';
     policy \<leftarrow> map_of INERT_GEOMETRY_POLICY sourceSymbol;
     capabilitySha256 \<leftarrow> digest_at input ''capability_sha256'';
     accountProfileSha256 \<leftarrow> digest_at input ''account_profile_sha256'';
     brokerSymbol \<leftarrow> identifier_at input ''broker_symbol'';
     sourceTickSize \<leftarrow> tick_size_at input ''source_tick_size'';
     brokerTickSize \<leftarrow> tick_size_at input ''broker_tick_size'';
     sourceTickUnits \<leftarrow> survives (parseTickSizeToPriceUnits sourceTickSize);
     brokerTickUnits \<leftarrow> survives (parseTickSizeToPriceUnits brokerTickSize);
     sourceBufferTicks \<leftarrow> safeInteger_at input ''source_buffer_ticks'' 1;
     brokerBufferTicks \<leftarrow> safeInteger_at input ''broker_buffer_ticks'' 1;
     tolerance \<leftarrow> safeInteger_at input ''divergence_tolerance_source_ticks'' 1;
     expectedBrokerBuffer \<leftarrow> survives (expected_broker_buffer sourceBufferTicks sourceTickUnits brokerTickUnits);
     require (\<not> (sourceBufferTicks \<noteq> fst policy \<or> tolerance \<noteq> snd policy \<or> brokerBufferTicks \<noteq> expectedBrokerBuffer));
     bodySha256 \<leftarrow> survives (edge_sha256 P (JObj (without_field ''capability_sha256'' input)));
     require (bodySha256 = capabilitySha256);
     Some \<lparr>sc_capability_sha256 = capabilitySha256, sc_account_profile_sha256 = accountProfileSha256,
       sc_source_symbol = sourceSymbol, sc_broker_symbol = brokerSymbol, sc_source_tick_size = sourceTickSize,
       sc_broker_tick_size = brokerTickSize, sc_source_buffer_ticks = sourceBufferTicks,
       sc_broker_buffer_ticks = brokerBufferTicks, sc_divergence_tolerance_source_ticks = tolerance\<rparr> }"

definition validateBrokerSymbolCapabilityV1 :: "platform \<Rightarrow> json \<Rightarrow> capability result" where
  "validateBrokerSymbolCapabilityV1 P value = or_throw capability_invalid (read_capability P value)"
section \<open>Execution candidates\<close>

datatype wire_direction = LONG | SHORT

record candidate_v2 =
  ec_logical_candidate_id :: string
  ec_candidate_body_sha256 :: string
  ec_producer_instance_id :: string
  ec_producer_sequence :: int
  ec_ticker_id :: string
  ec_source_symbol :: string
  ec_source_feed :: string
  ec_source_tick_size :: string
  ec_source_tick_capability_sha256 :: string
  ec_detector_code_sha256 :: string
  ec_settings_sha256 :: string
  ec_provenance_sha256 :: string
  ec_setup_id :: string
  ec_setup_revision :: int
  ec_selection_id :: string
  ec_direction :: wire_direction
  ec_zone_top_ticks :: int
  ec_zone_bottom_ticks :: int
  ec_zone_active_from_epoch :: int
  ec_engagement_candle :: price_bar
  ec_source_bar :: price_bar
  ec_wick_reference_ticks :: int
  ec_buffer_ticks :: int
  ec_entry_ticks :: int
  ec_stop_ticks :: int
  ec_risk_distance_ticks :: int
  ec_target_ticks :: int
  ec_observed_at_epoch :: int

definition CANDIDATE_KEYS :: "string list" where
  "CANDIDATE_KEYS = [''schema_version'', ''proposal_schema_version'', ''logical_candidate_id'',
     ''candidate_body_sha256'', ''strategy_version'', ''execution_mode'', ''producer_instance_id'',
     ''producer_sequence'', ''delivery_kind'', ''ingest_integrity'', ''ticker_id'', ''source_symbol'',
     ''source_feed'', ''timeframe'', ''source_tick_size'', ''source_tick_capability_sha256'',
     ''detector_code_sha256'', ''settings_sha256'', ''provenance_sha256'', ''setup_id'', ''setup_revision'',
     ''selection_id'', ''entry_model'', ''liquidity_cohort'', ''selection_fidelity'', ''selection_action'',
     ''evidence_replayability'', ''direction'', ''zone_top_ticks'', ''zone_bottom_ticks'',
     ''zone_active_from_epoch'', ''engagement_candle'', ''source_bar'', ''wick_reference'',
     ''wick_reference_ticks'', ''buffer_policy_version'', ''buffer_ticks'', ''entry_ticks'', ''stop_ticks'',
     ''risk_distance_ticks'', ''target_ticks'', ''observed_at_epoch'']"

definition BUFFER_TICKS :: "(string \<times> int) list" where
  "BUFFER_TICKS = [(''EURUSD'', 2), (''GBPJPY'', 3), (''USDJPY'', 2), (''XAUUSD'', 5), (''NAS100'', 10)]"

definition candidate_v2_invalid :: js_error where
  "candidate_v2_invalid = Error ''EXECUTION_CANDIDATE_V2_INVALID''"

text \<open>The candidate's own copy of \<open>bar\<close>, for five-minute candles.\<close>

definition candle_at :: "fields \<Rightarrow> string \<Rightarrow> price_bar option" where
  "candle_at input k = do { value \<leftarrow> map_of input k; bar 300 value }"

definition direction_at :: "fields \<Rightarrow> string \<Rightarrow> wire_direction option" where
  "direction_at input k =
     do { s \<leftarrow> string_at input k; if s = ''LONG'' then Some LONG else if s = ''SHORT'' then Some SHORT else None }"

definition expected_wick :: "wire_direction \<Rightarrow> price_bar \<Rightarrow> int" where
  "expected_wick d engagement = (if d = LONG then pb_low_ticks engagement else pb_high_ticks engagement)"

definition expected_stop :: "wire_direction \<Rightarrow> int \<Rightarrow> int \<Rightarrow> int" where
  "expected_stop d wick buffer = (if d = LONG then wick - buffer else wick + buffer)"

definition expected_risk :: "wire_direction \<Rightarrow> int \<Rightarrow> int \<Rightarrow> int" where
  "expected_risk d entry stop = (if d = LONG then entry - stop else stop - entry)"

definition expected_target :: "wire_direction \<Rightarrow> int \<Rightarrow> int \<Rightarrow> int" where
  "expected_target d entry risk = (if d = LONG then entry + 4 * risk else entry - 4 * risk)"

definition candidate_geometry :: "candidate_v2 \<Rightarrow> bool" where
  "candidate_geometry c \<longleftrightarrow>
     (let engagement = ec_engagement_candle c; sourceBar = ec_source_bar c; d = ec_direction c;
          wick = expected_wick d engagement;
          expectedStop = expected_stop d wick (ec_buffer_ticks c);
          expectedRisk = expected_risk d (ec_entry_ticks c) (ec_stop_ticks c);
          expectedTarget = expected_target d (ec_entry_ticks c) (ec_risk_distance_ticks c) in
      \<not> (ec_zone_top_ticks c \<le> ec_zone_bottom_ticks c \<or> pb_high_ticks engagement < ec_zone_bottom_ticks c \<or>
         pb_low_ticks engagement > ec_zone_top_ticks c \<or> ec_zone_active_from_epoch c mod 300 \<noteq> 0 \<or>
         ec_zone_active_from_epoch c > pb_open_epoch engagement \<or>
         ec_zone_active_from_epoch c \<ge> pb_close_epoch sourceBar \<or>
         pb_close_epoch engagement > pb_close_epoch sourceBar \<or>
         pb_close_epoch sourceBar > ec_observed_at_epoch c \<or>
         ec_observed_at_epoch c - pb_close_epoch sourceBar > 30 \<or>
         ec_wick_reference_ticks c \<noteq> wick \<or> Some (ec_buffer_ticks c) \<noteq> map_of BUFFER_TICKS (ec_source_symbol c) \<or>
         ec_stop_ticks c \<noteq> expectedStop \<or> ec_risk_distance_ticks c \<noteq> expectedRisk \<or>
         ec_target_ticks c \<noteq> expectedTarget \<or> ec_entry_ticks c \<noteq> pb_close_ticks sourceBar \<or>
         \<not> is_safe_integer expectedStop \<or> \<not> is_safe_integer expectedRisk \<or> \<not> is_safe_integer expectedTarget \<or>
         (d = LONG \<and> \<not> (pb_close_ticks sourceBar > pb_open_ticks sourceBar \<and>
            pb_close_ticks sourceBar > ec_zone_top_ticks c \<and> ec_stop_ticks c < wick)) \<or>
         (d = SHORT \<and> \<not> (pb_close_ticks sourceBar < pb_open_ticks sourceBar \<and>
            pb_close_ticks sourceBar < ec_zone_bottom_ticks c \<and> ec_stop_ticks c > wick))))"

definition logical_candidate_json :: "candidate_v2 \<Rightarrow> json" where
  "logical_candidate_json c = JObj
     [(''strategy_version'', JStr ''rd-entry-execution-proposal-v2''), (''wire_version'', JStr ''ExecutionCandidateV2''),
      (''ticker_id'', JStr (ec_ticker_id c)), (''setup_id'', JStr (ec_setup_id c)),
      (''setup_revision'', JNum (ec_setup_revision c)), (''selection_id'', JStr (ec_selection_id c)),
      (''source_bar_close_epoch'', JNum (pb_close_epoch (ec_source_bar c)))]"

text \<open>The constants a candidate must carry.\<close>

definition candidate_literals :: "(string \<times> string) list" where
  "candidate_literals = [(''schema_version'', ''ExecutionCandidateV2''),
     (''proposal_schema_version'', ''rd-entry-execution-proposal-v2''),
     (''strategy_version'', ''rd-entry-execution-proposal-v2''), (''execution_mode'', ''PAPER_ONLY''),
     (''delivery_kind'', ''LIVE''), (''ingest_integrity'', ''LIVE_CONTIGUOUS''), (''timeframe'', ''M5''),
     (''entry_model'', ''DIR_CLOSE''), (''liquidity_cohort'', ''TWO_PLUS_CANDLES''),
     (''selection_fidelity'', ''EXACT''), (''selection_action'', ''PAPER_ELIGIBLE''),
     (''evidence_replayability'', ''REPLAYABLE''), (''buffer_policy_version'', ''rd-entry-wick-buffer-v1'')]"

definition read_candidate_v2 :: "platform \<Rightarrow> json \<Rightarrow> candidate_v2 option" where
  "read_candidate_v2 P value = do {
     input \<leftarrow> objectValue value;
     require (exactKeys input CANDIDATE_KEYS);
     require (list_all (\<lambda>(k, s). map_of input k = Some (JStr s)) candidate_literals);
     sourceSymbol \<leftarrow> string_at input ''source_symbol'';
     direction \<leftarrow> direction_at input ''direction'';
     engagement \<leftarrow> candle_at input ''engagement_candle'';
     sourceBar \<leftarrow> candle_at input ''source_bar'';
     logicalCandidateId \<leftarrow> digest_at input ''logical_candidate_id'';
     candidateBodySha256 \<leftarrow> digest_at input ''candidate_body_sha256'';
     sourceTickCapabilitySha256 \<leftarrow> digest_at input ''source_tick_capability_sha256'';
     detectorCodeSha256 \<leftarrow> digest_at input ''detector_code_sha256'';
     settingsSha256 \<leftarrow> digest_at input ''settings_sha256'';
     provenanceSha256 \<leftarrow> digest_at input ''provenance_sha256'';
     producerInstanceId \<leftarrow> identifier_at input ''producer_instance_id'';
     tickerId \<leftarrow> identifier_at input ''ticker_id'';
     sourceFeed \<leftarrow> identifier_at input ''source_feed'';
     setupId \<leftarrow> identifier_at input ''setup_id'';
     selectionId \<leftarrow> identifier_at input ''selection_id'';
     producerSequence \<leftarrow> safeInteger_at input ''producer_sequence'' 1;
     setupRevision \<leftarrow> safeInteger_at input ''setup_revision'' 1;
     bufferTicks \<leftarrow> safeInteger_at input ''buffer_ticks'' 1;
     riskDistanceTicks \<leftarrow> safeInteger_at input ''risk_distance_ticks'' 1;
     zoneTop \<leftarrow> safeInteger_at input ''zone_top_ticks'' MIN_SAFE_INTEGER;
     zoneBottom \<leftarrow> safeInteger_at input ''zone_bottom_ticks'' MIN_SAFE_INTEGER;
     zoneActive \<leftarrow> safeInteger_at input ''zone_active_from_epoch'' 0;
     wickReferenceTicks \<leftarrow> safeInteger_at input ''wick_reference_ticks'' MIN_SAFE_INTEGER;
     entryTicks \<leftarrow> safeInteger_at input ''entry_ticks'' MIN_SAFE_INTEGER;
     stopTicks \<leftarrow> safeInteger_at input ''stop_ticks'' MIN_SAFE_INTEGER;
     targetTicks \<leftarrow> safeInteger_at input ''target_ticks'' MIN_SAFE_INTEGER;
     observedAt \<leftarrow> safeInteger_at input ''observed_at_epoch'' 0;
     sourceTickSize \<leftarrow> tick_size_at input ''source_tick_size'';
     let c = \<lparr>ec_logical_candidate_id = logicalCandidateId, ec_candidate_body_sha256 = candidateBodySha256,
       ec_producer_instance_id = producerInstanceId, ec_producer_sequence = producerSequence,
       ec_ticker_id = tickerId, ec_source_symbol = sourceSymbol, ec_source_feed = sourceFeed,
       ec_source_tick_size = sourceTickSize, ec_source_tick_capability_sha256 = sourceTickCapabilitySha256,
       ec_detector_code_sha256 = detectorCodeSha256, ec_settings_sha256 = settingsSha256,
       ec_provenance_sha256 = provenanceSha256, ec_setup_id = setupId, ec_setup_revision = setupRevision,
       ec_selection_id = selectionId, ec_direction = direction, ec_zone_top_ticks = zoneTop,
       ec_zone_bottom_ticks = zoneBottom, ec_zone_active_from_epoch = zoneActive,
       ec_engagement_candle = engagement, ec_source_bar = sourceBar,
       ec_wick_reference_ticks = wickReferenceTicks, ec_buffer_ticks = bufferTicks,
       ec_entry_ticks = entryTicks, ec_stop_ticks = stopTicks, ec_risk_distance_ticks = riskDistanceTicks,
       ec_target_ticks = targetTicks, ec_observed_at_epoch = observedAt\<rparr>;
     literal input ''wick_reference'' (if direction = LONG then ''LOW'' else ''HIGH'');
     require (candidate_geometry c);
     expectedLogicalCandidateId \<leftarrow> survives (edge_sha256 P (logical_candidate_json c));
     require (expectedLogicalCandidateId = logicalCandidateId);
     bodySha256 \<leftarrow> survives (edge_sha256 P (JObj (without_field ''candidate_body_sha256'' input)));
     require (bodySha256 = candidateBodySha256);
     Some c }"

definition validateExecutionCandidateV2 :: "platform \<Rightarrow> json \<Rightarrow> candidate_v2 result" where
  "validateExecutionCandidateV2 P value = or_throw candidate_v2_invalid (read_candidate_v2 P value)"

section \<open>What the validators promise\<close>

lemma require_eq_Some [simp]: "require b = Some x \<longleftrightarrow> b"
  by (simp add: require_def)

lemma survives_eq_Some [simp]: "survives r = Some x \<longleftrightarrow> r = Inr x"
  by (cases r) (simp_all add: survives_def)

lemma or_throw_eq [simp]:
  "or_throw e x = Inr y \<longleftrightarrow> x = Some y" "or_throw e x = Inl e' \<longleftrightarrow> x = None \<and> e' = e"
  by (auto simp: or_throw_def split: option.splits)

lemma safeInteger_at_Some: "safeInteger_at input k m = Some n \<longleftrightarrow> number_at input k = Some n \<and> is_safe_integer n \<and> m \<le> n"
  by (auto simp: safeInteger_at_def bind_eq_Some_conv)

lemma digest_at_Some: "digest_at input k = Some s \<longleftrightarrow> string_at input k = Some s \<and> valid_digest s"
  by (auto simp: digest_at_def bind_eq_Some_conv)

lemma identifier_at_Some: "identifier_at input k = Some s \<longleftrightarrow> string_at input k = Some s \<and> is_identifier s"
  by (auto simp: identifier_at_def bind_eq_Some_conv)

lemma tick_size_at_Some:
  "tick_size_at input k = Some s \<longleftrightarrow> string_at input k = Some s \<and> length s \<le> 32 \<and> is_tick_size s"
  by (auto simp: tick_size_at_def bind_eq_Some_conv)

lemma all_options_Some:
  "all_options (map f xs) = Some ys \<Longrightarrow> length ys = length xs \<and> (\<forall>y\<in>set ys. \<exists>x\<in>set xs. f x = Some y)"
  by (induction xs arbitrary: ys) (fastforce simp: bind_eq_Some_conv)+

lemma bindE: "Option.bind m f = Some y \<Longrightarrow> (\<And>x. m = Some x \<Longrightarrow> f x = Some y \<Longrightarrow> thesis) \<Longrightarrow> thesis"
  by (cases m) auto

lemmas reads_Some = bind_eq_Some_conv safeInteger_at_Some digest_at_Some identifier_at_Some tick_size_at_Some

definition safe_bar :: "price_bar \<Rightarrow> bool" where
  "safe_bar b \<longleftrightarrow> list_all is_safe_integer [pb_open_epoch b, pb_close_epoch b, pb_open_ticks b, pb_high_ticks b,
     pb_low_ticks b, pb_close_ticks b] \<and> 0 \<le> pb_open_epoch b"

lemma bar_Some: "bar duration value = Some b \<Longrightarrow> bar_shape duration b \<and> safe_bar b"
  unfolding bar_def by (auto simp: reads_Some safe_bar_def Let_def)

lemma candle_at_Some: "candle_at input k = Some b \<Longrightarrow> bar_shape 300 b \<and> safe_bar b"
  by (auto simp: candle_at_def bind_eq_Some_conv dest: bar_Some)
lemma read_bar_evidence_Some:
  assumes "read_bar_evidence v sha = Some e"
  shows "be_symbol_capability_sha256 e = sha" "be_bars e \<noteq> []" "length (be_bars e) \<le> 512"
    "\<forall>b\<in>set (be_bars e). bar_shape (timeframe_duration (be_timeframe e)) b \<and> safe_bar b"
    "successively (\<lambda>a b. pb_open_epoch b = pb_close_epoch a) (be_bars e)"
    "pb_close_epoch (last (be_bars e)) \<le> be_observed_at_epoch e"
    "be_observed_at_epoch e \<le> pb_close_epoch (last (be_bars e)) + 30"
    "is_identifier (be_evidence_id e)"
proof -
  from assms obtain items where items: "all_options (map (bar (timeframe_duration (be_timeframe e))) items) = Some (be_bars e)"
    and len: "items \<noteq> []" "\<not> 512 < length items"
    and rest: "be_symbol_capability_sha256 e = sha" "successively (\<lambda>a b. pb_open_epoch b = pb_close_epoch a) (be_bars e)"
      "pb_close_epoch (last (be_bars e)) \<le> be_observed_at_epoch e"
      "be_observed_at_epoch e \<le> pb_close_epoch (last (be_bars e)) + 30" "is_identifier (be_evidence_id e)"
    unfolding read_bar_evidence_def by (auto simp: reads_Some)
  from all_options_Some[OF items] have l: "length (be_bars e) = length items"
    and b: "\<forall>b\<in>set (be_bars e). \<exists>v. bar (timeframe_duration (be_timeframe e)) v = Some b"
    by auto
  show "be_bars e \<noteq> []" "length (be_bars e) \<le> 512" using l len by auto
  show "\<forall>b\<in>set (be_bars e). bar_shape (timeframe_duration (be_timeframe e)) b \<and> safe_bar b" using b bar_Some by blast
  show "be_symbol_capability_sha256 e = sha" "successively (\<lambda>a b. pb_open_epoch b = pb_close_epoch a) (be_bars e)"
    "pb_close_epoch (last (be_bars e)) \<le> be_observed_at_epoch e"
    "be_observed_at_epoch e \<le> pb_close_epoch (last (be_bars e)) + 30" "is_identifier (be_evidence_id e)"
    by (fact rest)+
qed

lemma read_capability_Some:
  assumes "read_capability P v = Some k"
  shows "\<exists>st bt. parseTickSizeToPriceUnits (sc_source_tick_size k) = Inr st \<and>
      parseTickSizeToPriceUnits (sc_broker_tick_size k) = Inr bt \<and>
      expected_broker_buffer (sc_source_buffer_ticks k) st bt = Inr (sc_broker_buffer_ticks k)"
    "map_of INERT_GEOMETRY_POLICY (sc_source_symbol k) =
       Some (sc_source_buffer_ticks k, sc_divergence_tolerance_source_ticks k)"
    "1 \<le> sc_broker_buffer_ticks k" "is_safe_integer (sc_broker_buffer_ticks k)"
  using assms unfolding read_capability_def by (auto simp: reads_Some)

lemma parse_positive: "parseTickSizeToPriceUnits s = Inr u \<Longrightarrow> 0 < u"
  by (auto simp: parseTickSizeToPriceUnits_def Let_def split: if_splits prod.splits)

lemma broker_buffer_bounds:
  assumes "expected_broker_buffer n st bt = Inr m"
  shows "n * st \<le> m * bt \<and> m * bt < n * st + bt"
proof -
  from assms have pos: "0 < n * st" "0 < bt"
    and m: "and_then (ceilPriceUnitsToTicks (n * st) bt) safeBrokerTicks = Inr m"
    by (auto simp: expected_broker_buffer_def ticksToPriceUnits_def and_then_Inr_iff ceilPriceUnitsToTicks_def
        split: if_splits)
  obtain q where "ceilPriceUnitsToTicks (n * st) bt = Inr q" "n * st \<le> q * bt" "q * bt < n * st + bt"
    using ceil_ticks[OF pos] by blast
  with m show ?thesis by (auto simp: safeBrokerTicks_def split: if_splits)
qed

lemma read_candidate_v2_ok:
  assumes "read_candidate_v2 P v = Some c"
  shows "(candidate_geometry c \<and> is_tick_size (ec_source_tick_size c) \<and> 1 \<le> ec_risk_distance_ticks c) \<and>
    (bar_shape 300 (ec_engagement_candle c) \<and> safe_bar (ec_engagement_candle c)) \<and>
    (bar_shape 300 (ec_source_bar c) \<and> safe_bar (ec_source_bar c)) \<and>
    list_all is_safe_integer [ec_zone_top_ticks c, ec_zone_bottom_ticks c, ec_zone_active_from_epoch c,
       ec_risk_distance_ticks c, ec_entry_ticks c, ec_stop_ticks c, ec_target_ticks c, ec_observed_at_epoch c]"
  using assms unfolding read_candidate_v2_def Let_def
  by (elim bindE) (clarsimp simp: safeInteger_at_Some tick_size_at_Some dest!: candle_at_Some)

lemmas read_candidate_v2_Some = read_candidate_v2_ok[THEN conjunct1, THEN conjunct1]
  read_candidate_v2_ok[THEN conjunct2, THEN conjunct1, THEN conjunct2]
  read_candidate_v2_ok[THEN conjunct2, THEN conjunct2, THEN conjunct1, THEN conjunct2]
  read_candidate_v2_ok[THEN conjunct2, THEN conjunct1, THEN conjunct1]
  read_candidate_v2_ok[THEN conjunct2, THEN conjunct2, THEN conjunct1, THEN conjunct1]
  read_candidate_v2_ok[THEN conjunct1, THEN conjunct2, THEN conjunct1]
  read_candidate_v2_ok[THEN conjunct1, THEN conjunct2, THEN conjunct2]
  read_candidate_v2_ok[THEN conjunct2, THEN conjunct2, THEN conjunct2]

text \<open>
  A validated capability carries a broker buffer that is the source buffer rounded up to the
  broker's tick grid: in exact price units it is at least the source buffer and less than one broker
  tick more, so the stop is never placed closer to the wick than the policy asks.
\<close>

theorem broker_buffer_covers_policy:
  assumes "validateBrokerSymbolCapabilityV1 P v = Inr k"
  shows "\<exists>st bt. parseTickSizeToPriceUnits (sc_source_tick_size k) = Inr st \<and>
    parseTickSizeToPriceUnits (sc_broker_tick_size k) = Inr bt \<and>
    map_of INERT_GEOMETRY_POLICY (sc_source_symbol k) =
      Some (sc_source_buffer_ticks k, sc_divergence_tolerance_source_ticks k) \<and>
    sc_source_buffer_ticks k * st \<le> sc_broker_buffer_ticks k * bt \<and>
    sc_broker_buffer_ticks k * bt < sc_source_buffer_ticks k * st + bt"
proof -
  have "read_capability P v = Some k" using assms by (simp add: validateBrokerSymbolCapabilityV1_def)
  from read_capability_Some(1,2)[OF this] show ?thesis by (blast dest: broker_buffer_bounds)
qed

text \<open>
  A validated candidate has the geometry of the strategy: the stop lies beyond the engagement
  wick by the symbol's buffer, the entry beyond the zone, the target on the other side of the entry,
  and the reward is exactly four times the risk.
\<close>

theorem candidate_v2_reward_is_four_risk:
  assumes "validateExecutionCandidateV2 P v = Inr c"
  shows "\<bar>ec_target_ticks c - ec_entry_ticks c\<bar> = 4 * \<bar>ec_entry_ticks c - ec_stop_ticks c\<bar> \<and>
    (\<exists>buffer. map_of BUFFER_TICKS (ec_source_symbol c) = Some buffer \<and>
      (if ec_direction c = LONG
       then ec_stop_ticks c = pb_low_ticks (ec_engagement_candle c) - buffer \<and>
         ec_stop_ticks c < ec_entry_ticks c \<and> ec_zone_top_ticks c < ec_entry_ticks c \<and> ec_entry_ticks c < ec_target_ticks c
       else ec_stop_ticks c = pb_high_ticks (ec_engagement_candle c) + buffer \<and>
         ec_entry_ticks c < ec_stop_ticks c \<and> ec_entry_ticks c < ec_zone_bottom_ticks c \<and> ec_target_ticks c < ec_entry_ticks c))"
proof -
  have r: "read_candidate_v2 P v = Some c" using assms by (simp add: validateExecutionCandidateV2_def)
  note g = read_candidate_v2_Some(1)[OF r, unfolded candidate_geometry_def Let_def] read_candidate_v2_Some(7)[OF r]
  show ?thesis
    using g
    by (cases "ec_direction c") (auto simp: expected_risk_def expected_target_def expected_wick_def expected_stop_def
        intro!: exI[of _ "ec_buffer_ticks c"])
qed


end
