(* ===== verification/Broker_Geometry.thy ===== *)
theory Broker_Geometry
  imports Edge_Contracts
begin

text \<open>
  Reconstruction of a candidate's geometry from the broker's own bars
  (\<open>broker-geometry-reconstruction-v1.ts\<close>): a candidate of the observation edge is compared with
  closed M5 bars of the broker in exact price units, and the answer is MATCH with the broker's entry,
  stop and target, BLOCKED, or DATA_GAP. The properties relate MATCH to a specification over the bars
  and bound what it may differ by, and show that the function has one failure only.
\<close>

section \<open>Data\<close>

datatype reconstruction_outcome = MATCH | BLOCKED | DATA_GAP

datatype reconstruction_reason = NONE | BROKER_EVIDENCE_MISSING | BROKER_EVIDENCE_GAP
  | BROKER_CAPABILITY_MISMATCH | GEOMETRY_MISMATCH

record match_geometry =
  mg_matched_engagement_open_epoch :: int
  mg_matched_source_bar_close_epoch :: int
  mg_broker_entry_ticks :: int
  mg_broker_wick_ticks :: int
  mg_broker_stop_ticks :: int
  mg_broker_risk_distance_ticks :: int
  mg_broker_target_ticks :: int
  mg_maximum_divergence_price_units :: int

record reconstruction =
  rc_reconstruction_body_sha256 :: string
  rc_logical_candidate_id :: string
  rc_candidate_body_sha256 :: string
  rc_evidence_id :: string
  rc_capability_sha256 :: string
  rc_source_symbol :: string
  rc_broker_symbol :: string
  rc_candidate_source_bar_close_epoch :: int
  rc_outcome :: reconstruction_outcome
  rc_reason_code :: reconstruction_reason
  rc_geometry :: "match_geometry option"

section \<open>Operations\<close>

definition reconstruction_input_invalid :: js_error where
  "reconstruction_input_invalid = Error ''BROKER_RECONSTRUCTION_INPUT_INVALID''"

definition safeNonnegativeWireUnits :: "int \<Rightarrow> int result" where
  "safeNonnegativeWireUnits value =
     (if value < 0 then Inl exact_price_invalid
      else if value > MAX_SAFE_INTEGER then Inl exact_price_out_of_range
      else Inr value)"

definition exactConversionFailure :: "js_error \<Rightarrow> bool" where
  "exactConversionFailure e \<longleftrightarrow> e = exact_price_invalid \<or> e = exact_price_out_of_range"

definition validatorFailure :: "js_error \<Rightarrow> bool" where
  "validatorFailure e \<longleftrightarrow> e = candidate_v2_invalid \<or> e = capability_invalid \<or> e = bar_evidence_invalid"

definition priceUnits :: "int \<Rightarrow> int \<Rightarrow> int result" where
  "priceUnits ticks tickSizeUnits =
     (if \<not> is_safe_integer ticks \<or> tickSizeUnits \<le> 0 then Inl reconstruction_input_invalid
      else Inr (ticks * tickSizeUnits))"

definition absoluteDifference :: "int \<Rightarrow> int \<Rightarrow> int" where
  "absoluteDifference left right = (if left \<ge> right then left - right else right - left)"

definition rawEvidenceCapabilitySha256 :: "json \<Rightarrow> string result" where
  "rawEvidenceCapabilitySha256 value =
     or_throw reconstruction_input_invalid
       (do { input \<leftarrow> objectValue value; string_at input ''symbol_capability_sha256'' })"

text \<open>One bar of gapped evidence, validated as evidence of its own.\<close>

definition single_bar_evidence :: "fields \<Rightarrow> string \<Rightarrow> json \<Rightarrow> bar_evidence result" where
  "single_bar_evidence input capabilitySha256 item =
     and_then (or_throw reconstruction_input_invalid (do { b \<leftarrow> objectValue item; number_at b ''close_epoch'' }))
       (\<lambda>closeEpoch. validateBrokerBarEvidenceV1
          (JObj (map_set ''observed_at_epoch'' (JNum closeEpoch) (map_set ''bars'' (JArr [item]) input))) capabilitySha256)"

definition gapped_evidence :: "fields \<Rightarrow> json list \<Rightarrow> string \<Rightarrow> bar_evidence option result" where
  "gapped_evidence input items capabilitySha256 =
     and_then (all_results (map (single_bar_evidence input capabilitySha256) items)) (\<lambda>parts.
       and_then (validateBrokerBarEvidenceV1 (JObj (map_set ''bars'' (JArr [last items]) input)) capabilitySha256) (\<lambda>_.
         let bars = map (\<lambda>part. hd (be_bars part)) parts in
         if \<not> (\<exists>i\<in>set [1..<length bars]. pb_open_epoch (bars ! i) > pb_close_epoch (bars ! (i - 1))) then Inr None
         else if \<exists>i\<in>set [1..<length bars]. pb_open_epoch (bars ! i) < pb_close_epoch (bars ! (i - 1)) then Inr None
         else Inr (Some ((last parts)\<lparr>be_bars := bars\<rparr>))))"

definition onlyInternalEvidenceGap :: "json \<Rightarrow> string \<Rightarrow> bar_evidence option result" where
  "onlyInternalEvidenceGap value capabilitySha256 =
     (case do { input \<leftarrow> objectValue value; items \<leftarrow> array_at input ''bars''; Some (input, items) } of
        None \<Rightarrow> Inr None
      | Some (input, items) \<Rightarrow>
          if length items < 2 \<or> length items > 512 then Inr None
          else (case gapped_evidence input items capabilitySha256 of
              Inr r \<Rightarrow> Inr r
            | Inl e \<Rightarrow> if e = reconstruction_input_invalid then Inl e
                else if validatorFailure e then Inr None else Inl e))"

text \<open>The evidence, and whether its bars have a gap.\<close>

definition validateEvidence :: "json \<Rightarrow> (bar_evidence \<times> bool) result" where
  "validateEvidence value =
     and_then (rawEvidenceCapabilitySha256 value) (\<lambda>capabilitySha256.
       case validateBrokerBarEvidenceV1 value capabilitySha256 of
         Inr e \<Rightarrow> Inr (e, False)
       | Inl err \<Rightarrow> if \<not> validatorFailure err then Inl err
           else and_then (onlyInternalEvidenceGap value capabilitySha256) (\<lambda>evidence.
             case evidence of None \<Rightarrow> Inl reconstruction_input_invalid | Some e \<Rightarrow> Inr (e, True)))"

fun outcome_text :: "reconstruction_outcome \<Rightarrow> string" where
  "outcome_text MATCH = ''MATCH''"
| "outcome_text BLOCKED = ''BLOCKED''"
| "outcome_text DATA_GAP = ''DATA_GAP''"

fun reason_text :: "reconstruction_reason \<Rightarrow> string" where
  "reason_text NONE = ''NONE''"
| "reason_text BROKER_EVIDENCE_MISSING = ''BROKER_EVIDENCE_MISSING''"
| "reason_text BROKER_EVIDENCE_GAP = ''BROKER_EVIDENCE_GAP''"
| "reason_text BROKER_CAPABILITY_MISMATCH = ''BROKER_CAPABILITY_MISMATCH''"
| "reason_text GEOMETRY_MISMATCH = ''GEOMETRY_MISMATCH''"

definition geometry_field :: "(match_geometry \<Rightarrow> int) \<Rightarrow> match_geometry option \<Rightarrow> json" where
  "geometry_field f g = (case g of None \<Rightarrow> JNull | Some m \<Rightarrow> JNum (f m))"

definition reconstruction_json :: "candidate_v2 \<Rightarrow> string \<Rightarrow> capability \<Rightarrow> reconstruction_outcome
    \<Rightarrow> reconstruction_reason \<Rightarrow> match_geometry option \<Rightarrow> json" where
  "reconstruction_json c evidenceId k outcome reason g = JObj
     [(''schema_version'', JStr ''BrokerGeometryReconstructionV1''),
      (''logical_candidate_id'', JStr (ec_logical_candidate_id c)),
      (''candidate_body_sha256'', JStr (ec_candidate_body_sha256 c)), (''evidence_id'', JStr evidenceId),
      (''capability_sha256'', JStr (sc_capability_sha256 k)), (''source_symbol'', JStr (ec_source_symbol c)),
      (''broker_symbol'', JStr (sc_broker_symbol k)),
      (''candidate_source_bar_close_epoch'', JNum (pb_close_epoch (ec_source_bar c))),
      (''outcome'', JStr (outcome_text outcome)), (''reason_code'', JStr (reason_text reason)),
      (''matched_engagement_open_epoch'', geometry_field mg_matched_engagement_open_epoch g),
      (''matched_source_bar_close_epoch'', geometry_field mg_matched_source_bar_close_epoch g),
      (''broker_entry_ticks'', geometry_field mg_broker_entry_ticks g),
      (''broker_wick_ticks'', geometry_field mg_broker_wick_ticks g),
      (''broker_stop_ticks'', geometry_field mg_broker_stop_ticks g),
      (''broker_risk_distance_ticks'', geometry_field mg_broker_risk_distance_ticks g),
      (''broker_target_ticks'', geometry_field mg_broker_target_ticks g),
      (''maximum_divergence_price_units'', geometry_field mg_maximum_divergence_price_units g),
      (''authority'', JStr ''PAPER_ONLY''), (''real_execution_allowed'', JBool False), (''command'', JNull)]"

definition reconstruction_result :: "platform \<Rightarrow> candidate_v2 \<Rightarrow> string \<Rightarrow> capability \<Rightarrow> reconstruction_outcome
    \<Rightarrow> reconstruction_reason \<Rightarrow> match_geometry option \<Rightarrow> reconstruction result" where
  "reconstruction_result P c evidenceId k outcome reason g =
     and_then (edge_sha256 P (reconstruction_json c evidenceId k outcome reason g)) (\<lambda>sha. Inr
       \<lparr>rc_reconstruction_body_sha256 = sha, rc_logical_candidate_id = ec_logical_candidate_id c,
        rc_candidate_body_sha256 = ec_candidate_body_sha256 c, rc_evidence_id = evidenceId,
        rc_capability_sha256 = sc_capability_sha256 k, rc_source_symbol = ec_source_symbol c,
        rc_broker_symbol = sc_broker_symbol k,
        rc_candidate_source_bar_close_epoch = pb_close_epoch (ec_source_bar c), rc_outcome = outcome,
        rc_reason_code = reason, rc_geometry = g\<rparr>)"

definition capability_mismatch :: "candidate_v2 \<Rightarrow> bar_evidence \<Rightarrow> capability \<Rightarrow> bool" where
  "capability_mismatch c e k \<longleftrightarrow>
     ec_source_symbol c \<noteq> sc_source_symbol k \<or> ec_source_tick_size c \<noteq> sc_source_tick_size k \<or>
     be_source_symbol e \<noteq> ec_source_symbol c \<or> be_broker_symbol e \<noteq> sc_broker_symbol k \<or>
     be_account_profile_sha256 e \<noteq> sc_account_profile_sha256 k \<or> be_timeframe e \<noteq> M5 \<or>
     be_symbol_capability_sha256 e \<noteq> sc_capability_sha256 k"

definition outside_candidate_ttl :: "candidate_v2 \<Rightarrow> price_bar \<Rightarrow> bool" where
  "outside_candidate_ttl c lastBar \<longleftrightarrow>
     (pb_close_epoch lastBar < ec_observed_at_epoch c \<and> ec_observed_at_epoch c - pb_close_epoch lastBar > 30) \<or>
     (pb_close_epoch lastBar > ec_observed_at_epoch c \<and> pb_close_epoch lastBar - ec_observed_at_epoch c > 30)"

definition evidence_gap :: "candidate_v2 \<Rightarrow> price_bar list \<Rightarrow> bool \<Rightarrow> bool" where
  "evidence_gap c bars hasInternalGap \<longleftrightarrow> hasInternalGap \<or> bars = [] \<or>
     pb_open_epoch (hd bars) > ec_zone_active_from_epoch c \<or>
     pb_close_epoch (last bars) < pb_close_epoch (ec_source_bar c) \<or> outside_candidate_ttl c (last bars)"

definition bar_window :: "candidate_v2 \<Rightarrow> price_bar list \<Rightarrow> price_bar list" where
  "bar_window c bars = filter (\<lambda>b. pb_open_epoch b \<ge> ec_zone_active_from_epoch c \<and>
     pb_close_epoch b \<le> pb_close_epoch (ec_source_bar c)) bars"

text \<open>\<open>bars.find\<close> with a predicate that may throw.\<close>

fun find_engagement :: "int \<Rightarrow> int \<Rightarrow> int \<Rightarrow> price_bar list \<Rightarrow> price_bar option result" where
  "find_engagement brokerTickUnits zoneTop zoneBottom [] = Inr None"
| "find_engagement brokerTickUnits zoneTop zoneBottom (b # bs) =
     and_then (priceUnits (pb_low_ticks b) brokerTickUnits) (\<lambda>low.
       if low \<le> zoneTop then
         and_then (priceUnits (pb_high_ticks b) brokerTickUnits) (\<lambda>high.
           if high \<ge> zoneBottom then Inr (Some b) else find_engagement brokerTickUnits zoneTop zoneBottom bs)
       else find_engagement brokerTickUnits zoneTop zoneBottom bs)"

fun find_source_bar :: "wire_direction \<Rightarrow> int \<Rightarrow> int \<Rightarrow> int \<Rightarrow> price_bar list \<Rightarrow> price_bar option result" where
  "find_source_bar d brokerTickUnits zoneTop zoneBottom [] = Inr None"
| "find_source_bar d brokerTickUnits zoneTop zoneBottom (b # bs) =
     and_then (priceUnits (pb_close_ticks b) brokerTickUnits) (\<lambda>close.
     and_then (priceUnits (pb_open_ticks b) brokerTickUnits) (\<lambda>open_units.
       if (if d = LONG then close > open_units \<and> close > zoneTop else close < open_units \<and> close < zoneBottom)
       then Inr (Some b)
       else if (if d = LONG then close \<le> zoneTop else close \<ge> zoneBottom) then Inr None
       else find_source_bar d brokerTickUnits zoneTop zoneBottom bs))"

definition ohlc :: "price_bar \<Rightarrow> int list" where
  "ohlc b = [pb_open_ticks b, pb_high_ticks b, pb_low_ticks b, pb_close_ticks b]"

definition divergence :: "int \<Rightarrow> int \<Rightarrow> int \<times> int \<Rightarrow> int result" where
  "divergence sourceTickUnits brokerTickUnits p =
     and_then (priceUnits (fst p) sourceTickUnits) (\<lambda>s.
       and_then (priceUnits (snd p) brokerTickUnits) (\<lambda>b. Inr (absoluteDifference s b)))"

definition maximum :: "int list \<Rightarrow> int" where
  "maximum ds = foldl (\<lambda>m d. if d > m then d else m) 0 ds"

definition convert_geometry :: "price_bar \<Rightarrow> price_bar \<Rightarrow> int \<Rightarrow> int \<Rightarrow> int \<Rightarrow> int \<Rightarrow> int \<Rightarrow> int \<Rightarrow> match_geometry result" where
  "convert_geometry engagement sourceBar entry wick stop risk target widest =
     and_then (safeBrokerTicks entry) (\<lambda>entry'. and_then (safeBrokerTicks wick) (\<lambda>wick'.
     and_then (safeBrokerTicks stop) (\<lambda>stop'. and_then (safeBrokerTicks risk) (\<lambda>risk'.
     and_then (safeBrokerTicks target) (\<lambda>target'. and_then (safeNonnegativeWireUnits widest) (\<lambda>widest'. Inr
       \<lparr>mg_matched_engagement_open_epoch = pb_open_epoch engagement,
        mg_matched_source_bar_close_epoch = pb_close_epoch sourceBar, mg_broker_entry_ticks = entry',
        mg_broker_wick_ticks = wick', mg_broker_stop_ticks = stop', mg_broker_risk_distance_ticks = risk',
        mg_broker_target_ticks = target', mg_maximum_divergence_price_units = widest'\<rparr>))))))"

text \<open>From the two matched bars to the geometry; \<open>None\<close> is the answer GEOMETRY_MISMATCH.\<close>

definition broker_geometry :: "candidate_v2 \<Rightarrow> capability \<Rightarrow> int \<Rightarrow> int \<Rightarrow> price_bar \<Rightarrow> price_bar
    \<Rightarrow> match_geometry option result" where
  "broker_geometry c k sourceTickUnits brokerTickUnits engagement sourceBar =
     (let d = ec_direction c; entry = pb_close_ticks sourceBar; wick = expected_wick d engagement;
          stop = expected_stop d wick (sc_broker_buffer_ticks k); risk = expected_risk d entry stop;
          target = expected_target d entry risk;
          stopIsOnCorrectSide = (if d = LONG then stop < wick else stop > wick) in
      if risk \<le> 0 \<or> \<not> stopIsOnCorrectSide then Inr None
      else
        and_then (all_results (map (divergence sourceTickUnits brokerTickUnits)
            (zip (ohlc (ec_engagement_candle c) @ ohlc (ec_source_bar c)) (ohlc engagement @ ohlc sourceBar)))) (\<lambda>differences.
        and_then (priceUnits (ec_risk_distance_ticks c) sourceTickUnits) (\<lambda>sourceRiskDistance.
          let withRisk = maximum [maximum differences, absoluteDifference sourceRiskDistance (risk * brokerTickUnits)] in
          if withRisk > sc_divergence_tolerance_source_ticks k * sourceTickUnits then Inr None
          else (case convert_geometry engagement sourceBar entry wick stop risk target withRisk of
              Inr g \<Rightarrow> Inr (Some g)
            | Inl e \<Rightarrow> if exactConversionFailure e then Inr None else Inl e))))"

definition match_bars :: "candidate_v2 \<Rightarrow> capability \<Rightarrow> price_bar list \<Rightarrow> int \<Rightarrow> int \<Rightarrow> match_geometry option result" where
  "match_bars c k evidenceBars sourceTickUnits brokerTickUnits =
     and_then (priceUnits (ec_zone_top_ticks c) sourceTickUnits) (\<lambda>zoneTop.
     and_then (priceUnits (ec_zone_bottom_ticks c) sourceTickUnits) (\<lambda>zoneBottom.
       let bars = bar_window c evidenceBars in
       and_then (find_engagement brokerTickUnits zoneTop zoneBottom bars) (\<lambda>found.
         case found of
           None \<Rightarrow> Inr None
         | Some engagement \<Rightarrow>
             if pb_open_epoch engagement \<noteq> pb_open_epoch (ec_engagement_candle c) then Inr None
             else and_then (find_source_bar (ec_direction c) brokerTickUnits zoneTop zoneBottom
                 (dropWhile (\<lambda>b. b \<noteq> engagement) bars)) (\<lambda>matched.
               case matched of
                 None \<Rightarrow> Inr None
               | Some sourceBar \<Rightarrow>
                   if pb_close_epoch sourceBar \<noteq> pb_close_epoch (ec_source_bar c) then Inr None
                   else broker_geometry c k sourceTickUnits brokerTickUnits engagement sourceBar))))"

definition replace_failure :: "(js_error \<Rightarrow> bool) \<Rightarrow> js_error \<Rightarrow> 'a result \<Rightarrow> 'a result" where
  "replace_failure p e' r = (case r of Inl e \<Rightarrow> Inl (if p e then e' else e) | Inr x \<Rightarrow> Inr x)"

definition reconstructBrokerGeometryV1 :: "platform \<Rightarrow> json \<Rightarrow> json \<Rightarrow> json \<Rightarrow> reconstruction result" where
  "reconstructBrokerGeometryV1 P candidateValue evidenceValue capabilityValue =
     and_then (replace_failure validatorFailure reconstruction_input_invalid (validateExecutionCandidateV2 P candidateValue)) (\<lambda>c.
     and_then (replace_failure validatorFailure reconstruction_input_invalid (validateBrokerSymbolCapabilityV1 P capabilityValue)) (\<lambda>k.
     and_then (replace_failure validatorFailure reconstruction_input_invalid (validateEvidence evidenceValue)) (\<lambda>(e, hasInternalGap).
       if capability_mismatch c e k then
         reconstruction_result P c (be_evidence_id e) k BLOCKED BROKER_CAPABILITY_MISMATCH None
       else if evidence_gap c (be_bars e) hasInternalGap then
         reconstruction_result P c (be_evidence_id e) k DATA_GAP
           (if hasInternalGap then BROKER_EVIDENCE_GAP else BROKER_EVIDENCE_MISSING) None
       else
         and_then (parseTickSizeToPriceUnits (ec_source_tick_size c)) (\<lambda>sourceTickUnits.
         and_then (parseTickSizeToPriceUnits (sc_broker_tick_size k)) (\<lambda>brokerTickUnits.
         and_then (match_bars c k (be_bars e) sourceTickUnits brokerTickUnits) (\<lambda>geometry.
           case geometry of
             None \<Rightarrow> reconstruction_result P c (be_evidence_id e) k BLOCKED GEOMETRY_MISMATCH None
           | Some g \<Rightarrow> reconstruction_result P c (be_evidence_id e) k MATCH NONE (Some g)))))))"
section \<open>The specification of a match\<close>

text \<open>
  Prices are compared in units: a tick of the source is \<open>st\<close> units, a tick of the broker \<open>bt\<close>.
\<close>

definition touches_zone :: "candidate_v2 \<Rightarrow> int \<Rightarrow> int \<Rightarrow> price_bar \<Rightarrow> bool" where
  "touches_zone c st bt b \<longleftrightarrow> pb_low_ticks b * bt \<le> ec_zone_top_ticks c * st \<and>
     pb_high_ticks b * bt \<ge> ec_zone_bottom_ticks c * st"

definition stays_beyond_zone :: "candidate_v2 \<Rightarrow> int \<Rightarrow> int \<Rightarrow> price_bar \<Rightarrow> bool" where
  "stays_beyond_zone c st bt b \<longleftrightarrow>
     (if ec_direction c = LONG then ec_zone_top_ticks c * st < pb_close_ticks b * bt
      else pb_close_ticks b * bt < ec_zone_bottom_ticks c * st)"

definition closes_in_direction :: "candidate_v2 \<Rightarrow> price_bar \<Rightarrow> bool" where
  "closes_in_direction c b \<longleftrightarrow>
     (if ec_direction c = LONG then pb_open_ticks b < pb_close_ticks b else pb_close_ticks b < pb_open_ticks b)"

text \<open>
  The engagement bar is the first bar of the window that touches the zone; every bar from it up to
  the entry bar closes beyond the zone against the trade; the entry bar is the first to close beyond
  the zone in the direction of the trade.
\<close>

definition specified_bars :: "candidate_v2 \<Rightarrow> int \<Rightarrow> int \<Rightarrow> price_bar list \<Rightarrow> price_bar \<Rightarrow> price_bar \<Rightarrow> bool" where
  "specified_bars c st bt bars engagement sourceBar \<longleftrightarrow>
     (\<exists>before quiet after. bar_window c bars = before @ quiet @ sourceBar # after \<and>
        hd (quiet @ [sourceBar]) = engagement \<and>
        (\<forall>b\<in>set before. \<not> touches_zone c st bt b) \<and> touches_zone c st bt engagement \<and>
        (\<forall>b\<in>set quiet. stays_beyond_zone c st bt b \<and> \<not> closes_in_direction c b) \<and>
        stays_beyond_zone c st bt sourceBar \<and> closes_in_direction c sourceBar) \<and>
     pb_open_epoch engagement = pb_open_epoch (ec_engagement_candle c) \<and>
     pb_close_epoch sourceBar = pb_close_epoch (ec_source_bar c)"

definition within_tolerance :: "capability \<Rightarrow> int \<Rightarrow> int \<Rightarrow> int \<Rightarrow> int \<Rightarrow> bool" where
  "within_tolerance k st bt s b \<longleftrightarrow> \<bar>s * st - b * bt\<bar> \<le> sc_divergence_tolerance_source_ticks k * st \<and>
     \<bar>s * st - b * bt\<bar> \<le> MAX_SAFE_INTEGER"

definition broker_ticks_ok :: "int \<Rightarrow> bool" where
  "broker_ticks_ok n \<longleftrightarrow> 0 < n \<and> n \<le> MAX_SAFE_INTEGER"

definition broker_stop :: "candidate_v2 \<Rightarrow> capability \<Rightarrow> price_bar \<Rightarrow> int" where
  "broker_stop c k engagement =
     expected_stop (ec_direction c) (expected_wick (ec_direction c) engagement) (sc_broker_buffer_ticks k)"

definition broker_risk :: "candidate_v2 \<Rightarrow> capability \<Rightarrow> price_bar \<Rightarrow> price_bar \<Rightarrow> int" where
  "broker_risk c k engagement sourceBar =
     expected_risk (ec_direction c) (pb_close_ticks sourceBar) (broker_stop c k engagement)"

definition broker_target :: "candidate_v2 \<Rightarrow> capability \<Rightarrow> price_bar \<Rightarrow> price_bar \<Rightarrow> int" where
  "broker_target c k engagement sourceBar =
     expected_target (ec_direction c) (pb_close_ticks sourceBar) (broker_risk c k engagement sourceBar)"

definition specified_numbers :: "candidate_v2 \<Rightarrow> capability \<Rightarrow> int \<Rightarrow> int \<Rightarrow> price_bar \<Rightarrow> price_bar \<Rightarrow> bool" where
  "specified_numbers c k st bt engagement sourceBar \<longleftrightarrow>
     list_all2 (within_tolerance k st bt) (ohlc (ec_engagement_candle c) @ ohlc (ec_source_bar c)) (ohlc engagement @ ohlc sourceBar) \<and>
     within_tolerance k st bt (ec_risk_distance_ticks c) (broker_risk c k engagement sourceBar) \<and>
     list_all broker_ticks_ok [pb_close_ticks sourceBar, expected_wick (ec_direction c) engagement,
       broker_stop c k engagement, broker_risk c k engagement sourceBar, broker_target c k engagement sourceBar]"

section \<open>The operations on validated input\<close>

lemma priceUnits_ok: "is_safe_integer t \<Longrightarrow> 0 < u \<Longrightarrow> priceUnits t u = Inr (t * u)"
  by (simp add: priceUnits_def)

lemma safe_bar_ticks:
  "safe_bar b \<Longrightarrow> is_safe_integer (pb_open_ticks b) \<and> is_safe_integer (pb_high_ticks b) \<and>
     is_safe_integer (pb_low_ticks b) \<and> is_safe_integer (pb_close_ticks b)"
  by (simp add: safe_bar_def)

lemma absoluteDifference_abs: "absoluteDifference a b = \<bar>a - b\<bar>"
  by (simp add: absoluteDifference_def)

lemma foldl_max: "foldl (\<lambda>m d. if d > m then d else m) m0 ds \<le> m \<longleftrightarrow> m0 \<le> m \<and> (\<forall>d\<in>set ds. d \<le> m)" for m0 m :: int
  by (induction ds arbitrary: m0) auto

lemma maximum_le_iff: "maximum ds \<le> m \<longleftrightarrow> 0 \<le> m \<and> (\<forall>d\<in>set ds. d \<le> m)"
  by (simp add: maximum_def foldl_max)

lemma maximum_nonneg: "0 \<le> maximum ds"
  using maximum_le_iff[of ds "maximum ds"] by simp

lemma find_engagement_eq:
  assumes "0 < bt" and "\<forall>b\<in>set bars. safe_bar b"
  shows "find_engagement bt (ec_zone_top_ticks c * st) (ec_zone_bottom_ticks c * st) bars = Inr (List.find (touches_zone c st bt) bars)"
  using assms(2)
proof (induction bars)
  case (Cons b bars)
  then show ?case using safe_bar_ticks[of b] assms(1) by (simp add: priceUnits_ok touches_zone_def)
qed simp

lemma find_source_bar_ok:
  assumes "0 < bt" and "\<forall>b\<in>set bars. safe_bar b"
  shows "\<exists>r. find_source_bar (ec_direction c) bt (ec_zone_top_ticks c * st) (ec_zone_bottom_ticks c * st) bars = Inr r \<and>
    (\<forall>b. r = Some b \<longleftrightarrow> (\<exists>quiet after. bars = quiet @ b # after \<and>
       (\<forall>q\<in>set quiet. stays_beyond_zone c st bt q \<and> \<not> closes_in_direction c q) \<and>
       stays_beyond_zone c st bt b \<and> closes_in_direction c b))"
    (is "\<exists>r. ?f bars = Inr r \<and> (\<forall>b. r = Some b \<longleftrightarrow> ?S bars b)")
  using assms(2)
proof (induction bars)
  case (Cons a bars)
  let ?stays = "stays_beyond_zone c st bt a" and ?dir = "closes_in_direction c a"
  have units: "priceUnits (pb_close_ticks a) bt = Inr (pb_close_ticks a * bt)" "priceUnits (pb_open_ticks a) bt = Inr (pb_open_ticks a * bt)"
    using Cons.prems safe_bar_ticks[of a] assms(1) by (simp_all add: priceUnits_ok)
  have f: "?f (a # bars) = (if ?stays \<and> ?dir then Inr (Some a) else if \<not> ?stays then Inr None else ?f bars)"
    using assms(1) by (auto simp: units stays_beyond_zone_def closes_in_direction_def mult_less_cancel_right)
  have S: "?S (a # bars) b \<longleftrightarrow> (if ?stays \<and> ?dir then b = a else if \<not> ?stays then False else ?S bars b)" for b
  proof
    assume "?S (a # bars) b"
    then obtain quiet after where q: "a # bars = quiet @ b # after"
      "\<forall>q\<in>set quiet. stays_beyond_zone c st bt q \<and> \<not> closes_in_direction c q"
      "stays_beyond_zone c st bt b \<and> closes_in_direction c b" by blast
    then show "if ?stays \<and> ?dir then b = a else if \<not> ?stays then False else ?S bars b"
      by (cases quiet) auto
  next
    assume R: "if ?stays \<and> ?dir then b = a else if \<not> ?stays then False else ?S bars b"
    show "?S (a # bars) b"
    proof (cases "?stays \<and> ?dir")
      case True
      with R show ?thesis by (intro exI[of _ "[]"] exI[of _ bars]) auto
    next
      case False
      with R obtain quiet after where "bars = quiet @ b # after"
        "\<forall>q\<in>set quiet. stays_beyond_zone c st bt q \<and> \<not> closes_in_direction c q"
        "stays_beyond_zone c st bt b \<and> closes_in_direction c b" "?stays"
        by (auto split: if_splits)
      with False show ?thesis by (intro exI[of _ "a # quiet"] exI[of _ after]) auto
    qed
  qed
  show ?case using Cons unfolding f S by auto
qed simp

lemma safeBrokerTicks_eq: "safeBrokerTicks n = (if broker_ticks_ok n then Inr n else Inl (if n \<le> 0 then exact_price_invalid else exact_price_out_of_range))"
  by (simp add: safeBrokerTicks_def broker_ticks_ok_def)

lemma convert_geometry_eq:
  assumes "0 \<le> widest"
  shows "(case convert_geometry e s entry wick stop risk target widest of
      Inr g \<Rightarrow> Inr (Some g) | Inl err \<Rightarrow> if exactConversionFailure err then Inr None else Inl err) =
    (if list_all broker_ticks_ok [entry, wick, stop, risk, target] \<and> widest \<le> MAX_SAFE_INTEGER
     then Inr (Some \<lparr>mg_matched_engagement_open_epoch = pb_open_epoch e,
        mg_matched_source_bar_close_epoch = pb_close_epoch s, mg_broker_entry_ticks = entry,
        mg_broker_wick_ticks = wick, mg_broker_stop_ticks = stop, mg_broker_risk_distance_ticks = risk,
        mg_broker_target_ticks = target, mg_maximum_divergence_price_units = widest\<rparr>)
     else Inr None)"
  using assms by (simp add: convert_geometry_def safeBrokerTicks_eq safeNonnegativeWireUnits_def exactConversionFailure_def)


definition widest_divergence :: "candidate_v2 \<Rightarrow> capability \<Rightarrow> int \<Rightarrow> int \<Rightarrow> price_bar \<Rightarrow> price_bar \<Rightarrow> int" where
  "widest_divergence c k st bt engagement sourceBar = maximum
     [maximum (map (\<lambda>(s, b). \<bar>s * st - b * bt\<bar>)
        (zip (ohlc (ec_engagement_candle c) @ ohlc (ec_source_bar c)) (ohlc engagement @ ohlc sourceBar))),
      \<bar>ec_risk_distance_ticks c * st - broker_risk c k engagement sourceBar * bt\<bar>]"

definition specified_geometry :: "candidate_v2 \<Rightarrow> capability \<Rightarrow> int \<Rightarrow> int \<Rightarrow> price_bar \<Rightarrow> price_bar \<Rightarrow> match_geometry" where
  "specified_geometry c k st bt engagement sourceBar =
     \<lparr>mg_matched_engagement_open_epoch = pb_open_epoch engagement,
      mg_matched_source_bar_close_epoch = pb_close_epoch sourceBar,
      mg_broker_entry_ticks = pb_close_ticks sourceBar,
      mg_broker_wick_ticks = expected_wick (ec_direction c) engagement,
      mg_broker_stop_ticks = broker_stop c k engagement,
      mg_broker_risk_distance_ticks = broker_risk c k engagement sourceBar,
      mg_broker_target_ticks = broker_target c k engagement sourceBar,
      mg_maximum_divergence_price_units = widest_divergence c k st bt engagement sourceBar\<rparr>"

text \<open>What the validators give the reconstruction.\<close>

definition safe_candidate :: "candidate_v2 \<Rightarrow> bool" where
  "safe_candidate c \<longleftrightarrow> safe_bar (ec_engagement_candle c) \<and> safe_bar (ec_source_bar c) \<and>
     list_all is_safe_integer [ec_zone_top_ticks c, ec_zone_bottom_ticks c, ec_risk_distance_ticks c]"

lemma ohlc_safe: "safe_bar b \<Longrightarrow> \<forall>n\<in>set (ohlc b). is_safe_integer n"
  by (auto simp: ohlc_def dest: safe_bar_ticks)

lemma divergences_eq:
  assumes "0 < st" "0 < bt" and "\<forall>n\<in>set xs. is_safe_integer n" and "\<forall>n\<in>set ys. is_safe_integer n"
  shows "all_results (map (divergence st bt) (zip xs ys)) = Inr (map (\<lambda>(s, b). \<bar>s * st - b * bt\<bar>) (zip xs ys))"
proof -
  have "divergence st bt p = (if True then Inr (case p of (s, b) \<Rightarrow> \<bar>s * st - b * bt\<bar>) else Inl reconstruction_input_invalid)"
    if "p \<in> set (zip xs ys)" for p
  proof -
    obtain a b where p: "p = (a, b)" by (cases p)
    with that have "a \<in> set xs" "b \<in> set ys" by (auto dest: set_zip_leftD set_zip_rightD)
    with assms p show ?thesis by (simp add: divergence_def priceUnits_ok absoluteDifference_abs)
  qed
  from all_results_uniform[of "zip xs ys", OF this] show ?thesis by (simp add: list_all_iff)
qed

lemma widest_le_iff:
  "widest_divergence c k st bt e s \<le> m \<longleftrightarrow> 0 \<le> m \<and>
     list_all2 (\<lambda>a b. \<bar>a * st - b * bt\<bar> \<le> m) (ohlc (ec_engagement_candle c) @ ohlc (ec_source_bar c)) (ohlc e @ ohlc s) \<and>
     \<bar>ec_risk_distance_ticks c * st - broker_risk c k e s * bt\<bar> \<le> m"
  by (auto simp: widest_divergence_def maximum_le_iff ohlc_def)

lemma broker_geometry_eq:
  assumes u: "0 < st" "0 < bt" and bars: "safe_bar e" "safe_bar s" and c: "safe_candidate c" and buffer: "1 \<le> sc_broker_buffer_ticks k"
    and tol: "0 \<le> sc_divergence_tolerance_source_ticks k"
  shows "broker_geometry c k st bt e s =
    Inr (if specified_numbers c k st bt e s then Some (specified_geometry c k st bt e s) else None)"
proof -
  let ?xs = "ohlc (ec_engagement_candle c) @ ohlc (ec_source_bar c)" and ?ys = "ohlc e @ ohlc s"
  let ?w = "widest_divergence c k st bt e s"
  have diffs: "all_results (map (divergence st bt) (zip ?xs ?ys)) = Inr (map (\<lambda>(s, b). \<bar>s * st - b * bt\<bar>) (zip ?xs ?ys))"
    using bars c ohlc_safe by (intro divergences_eq[OF u]) (auto simp: safe_candidate_def)
  have risk_units: "priceUnits (ec_risk_distance_ticks c) st = Inr (ec_risk_distance_ticks c * st)"
    using c u by (simp add: safe_candidate_def priceUnits_ok)
  have side: "if ec_direction c = LONG then broker_stop c k e < expected_wick (ec_direction c) e
      else broker_stop c k e > expected_wick (ec_direction c) e"
    using buffer by (simp add: broker_stop_def expected_stop_def)
  have numbers: "specified_numbers c k st bt e s \<longleftrightarrow> ?w \<le> sc_divergence_tolerance_source_ticks k * st \<and> ?w \<le> MAX_SAFE_INTEGER \<and>
      list_all broker_ticks_ok [pb_close_ticks s, expected_wick (ec_direction c) e, broker_stop c k e, broker_risk c k e s, broker_target c k e s]"
    using u(1) tol by (simp add: specified_numbers_def within_tolerance_def widest_le_iff ohlc_def MAX_SAFE_INTEGER_def) blast
  have nonneg: "0 \<le> ?w" by (simp add: widest_divergence_def maximum_nonneg)
  show ?thesis
  proof (cases "broker_risk c k e s \<le> 0")
    case True
    then have "\<not> specified_numbers c k st bt e s" by (simp add: numbers broker_ticks_ok_def)
    with True show ?thesis by (simp add: broker_geometry_def Let_def broker_risk_def broker_stop_def)
  next
    case False
    have "broker_geometry c k st bt e s = (if ?w > sc_divergence_tolerance_source_ticks k * st then Inr None
       else (case convert_geometry e s (pb_close_ticks s) (expected_wick (ec_direction c) e) (broker_stop c k e)
               (broker_risk c k e s) (broker_target c k e s) ?w of
             Inr g \<Rightarrow> Inr (Some g) | Inl err \<Rightarrow> if exactConversionFailure err then Inr None else Inl err))"
      unfolding broker_geometry_def Let_def broker_stop_def[symmetric] broker_risk_def[symmetric] broker_target_def[symmetric]
        eqTrueI[OF side]
      by (simp only: False diffs risk_units if_False if_True simp_thms and_then_simps absoluteDifference_abs
          widest_divergence_def)
    then show ?thesis
      by (auto simp: convert_geometry_eq[OF nonneg] numbers specified_geometry_def)
  qed
qed

lemma find_Some_split:
  assumes "List.find P xs = Some y"
  shows "\<exists>before rest. xs = before @ y # rest \<and> (\<forall>x\<in>set before. \<not> P x) \<and> P y \<and> dropWhile (\<lambda>x. x \<noteq> y) xs = y # rest"
  using assms
proof (induction xs)
  case (Cons x xs)
  show ?case
  proof (cases "P x")
    case True
    with Cons.prems show ?thesis by (intro exI[of _ "[]"] exI[of _ xs]) auto
  next
    case False
    with Cons obtain before rest where "xs = before @ y # rest" "\<forall>x\<in>set before. \<not> P x" "P y"
      "dropWhile (\<lambda>x. x \<noteq> y) xs = y # rest" by auto
    with False show ?thesis by (intro exI[of _ "x # before"] exI[of _ rest]) auto
  qed
qed simp

lemma find_append: "\<forall>x\<in>set before. \<not> P x \<Longrightarrow> P y \<Longrightarrow> List.find P (before @ y # rest) = Some y"
  by (induction before) auto


text \<open>The entry bar among the bars from the engagement on, as the loop of the source finds it.\<close>

definition entry_in :: "candidate_v2 \<Rightarrow> int \<Rightarrow> int \<Rightarrow> price_bar list \<Rightarrow> price_bar \<Rightarrow> bool" where
  "entry_in c st bt bars s \<longleftrightarrow> (\<exists>quiet after. bars = quiet @ s # after \<and>
     (\<forall>b\<in>set quiet. stays_beyond_zone c st bt b \<and> \<not> closes_in_direction c b) \<and>
     stays_beyond_zone c st bt s \<and> closes_in_direction c s)"

lemma dropWhile_prefix: "y \<notin> set xs \<Longrightarrow> dropWhile (\<lambda>x. x \<noteq> y) (xs @ y # ys) = y # ys"
  by (induction xs) auto

lemma specified_bars_find:
  assumes "specified_bars c st bt bars e s"
  shows "List.find (touches_zone c st bt) (bar_window c bars) = Some e"
proof -
  from assms obtain before quiet after where w: "bar_window c bars = before @ quiet @ s # after" "hd (quiet @ [s]) = e"
    "\<forall>b\<in>set before. \<not> touches_zone c st bt b" "touches_zone c st bt e"
    unfolding specified_bars_def by blast
  then obtain rest where "quiet @ s # after = e # rest" by (cases quiet) auto
  with w show ?thesis by (simp add: find_append)
qed

lemma specified_bars_split:
  assumes w: "bar_window c bars = before @ e # rest" "\<forall>b\<in>set before. \<not> touches_zone c st bt b" "touches_zone c st bt e"
  shows "specified_bars c st bt bars e' s \<longleftrightarrow> e' = e \<and> entry_in c st bt (e # rest) s \<and>
    pb_open_epoch e = pb_open_epoch (ec_engagement_candle c) \<and> pb_close_epoch s = pb_close_epoch (ec_source_bar c)"
    (is "?L \<longleftrightarrow> ?R")
proof
  assume L: ?L
  have e': "e' = e" using specified_bars_find[OF L] w by (simp add: find_append)
  from L[unfolded e'] obtain before' quiet after where q: "bar_window c bars = before' @ quiet @ s # after" "hd (quiet @ [s]) = e"
    "\<forall>b\<in>set before'. \<not> touches_zone c st bt b"
    "\<forall>b\<in>set quiet. stays_beyond_zone c st bt b \<and> \<not> closes_in_direction c b"
    "stays_beyond_zone c st bt s" "closes_in_direction c s"
    unfolding specified_bars_def by blast
  from q(2) have q': "quiet @ s # after = e # tl (quiet @ s # after)" by (cases quiet) auto
  then have "before @ e # rest = before' @ e # tl (quiet @ s # after)" using q(1) w(1) by simp
  moreover have "e \<notin> set before'" "e \<notin> set before" using q(3) w(2,3) by auto
  ultimately have "tl (quiet @ s # after) = rest" by (metis dropWhile_prefix list.inject)
  with q' have "e # rest = quiet @ s # after" by simp
  with q(4-6) have "entry_in c st bt (e # rest) s" unfolding entry_in_def by blast
  with L e' show ?R by (simp add: specified_bars_def)
next
  assume R: ?R
  then obtain quiet after where q: "e # rest = quiet @ s # after"
    "\<forall>b\<in>set quiet. stays_beyond_zone c st bt b \<and> \<not> closes_in_direction c b"
    "stays_beyond_zone c st bt s" "closes_in_direction c s"
    unfolding entry_in_def by blast
  from q(1) have "hd (quiet @ [s]) = e" by (cases quiet) auto
  moreover have "bar_window c bars = before @ quiet @ s # after" using w(1) q(1) by simp
  ultimately show ?L using R q(2-4) w(2,3) unfolding specified_bars_def by blast
qed

lemma match_bars_iff:
  assumes u: "0 < st" "0 < bt" and bars: "\<forall>b\<in>set bars. safe_bar b" and c: "safe_candidate c"
    and k: "1 \<le> sc_broker_buffer_ticks k" "0 \<le> sc_divergence_tolerance_source_ticks k"
  shows "\<exists>r. match_bars c k bars st bt = Inr r \<and> (\<forall>g. r = Some g \<longleftrightarrow>
    (\<exists>e s. specified_bars c st bt bars e s \<and> specified_numbers c k st bt e s \<and> g = specified_geometry c k st bt e s))"
proof -
  let ?w = "bar_window c bars"
  have safe: "\<forall>b\<in>set ?w. safe_bar b" using bars by (auto simp: bar_window_def)
  have top: "priceUnits (ec_zone_top_ticks c) st = Inr (ec_zone_top_ticks c * st)"
    "priceUnits (ec_zone_bottom_ticks c) st = Inr (ec_zone_bottom_ticks c * st)"
    using c u by (simp_all add: safe_candidate_def priceUnits_ok)
  note eng_eq = find_engagement_eq[OF u(2) safe, of c st]
  show ?thesis
  proof (cases "List.find (touches_zone c st bt) ?w")
    case None
    then have "match_bars c k bars st bt = Inr None" by (simp add: match_bars_def top eng_eq)
    with None specified_bars_find show ?thesis by fastforce
  next
    case (Some e)
    then obtain before rest where w: "?w = before @ e # rest" "\<forall>b\<in>set before. \<not> touches_zone c st bt b" "touches_zone c st bt e"
      and drop: "dropWhile (\<lambda>b. b \<noteq> e) ?w = e # rest" using find_Some_split by fast
    note bars_iff = specified_bars_split[OF w]
    have safe': "\<forall>b\<in>set (e # rest). safe_bar b" using safe w by auto
    from find_source_bar_ok[OF u(2) this, of c st] obtain r where
      r: "find_source_bar (ec_direction c) bt (ec_zone_top_ticks c * st) (ec_zone_bottom_ticks c * st) (e # rest) = Inr r"
      and r_iff: "\<And>s. r = Some s \<longleftrightarrow> entry_in c st bt (e # rest) s" unfolding entry_in_def by blast
    have m: "match_bars c k bars st bt = (if pb_open_epoch e \<noteq> pb_open_epoch (ec_engagement_candle c) then Inr None
        else (case r of None \<Rightarrow> Inr None
        | Some s \<Rightarrow> if pb_close_epoch s \<noteq> pb_close_epoch (ec_source_bar c) then Inr None else broker_geometry c k st bt e s))"
      by (simp add: match_bars_def top eng_eq Some drop r del: find_source_bar.simps)
    show ?thesis
    proof (cases r)
      case None
      with m have "match_bars c k bars st bt = Inr None" by simp
      with None show ?thesis by (auto simp: bars_iff r_iff[symmetric])
    next
      case (Some s)
      then have "s \<in> set (e # rest)" using r_iff unfolding entry_in_def by (metis in_set_conv_decomp)
      then have "broker_geometry c k st bt e s =
          Inr (if specified_numbers c k st bt e s then Some (specified_geometry c k st bt e s) else None)"
        using broker_geometry_eq[OF u _ _ c k, of e s] safe' by auto
      with m Some show ?thesis by (auto simp: bars_iff r_iff[symmetric])
    qed
  qed
qed
section \<open>From the wire to the specification\<close>

lemma validate_candidate_ok:
  assumes "validateExecutionCandidateV2 P v = Inr c"
  shows "safe_candidate c" "\<exists>st>0. parseTickSizeToPriceUnits (ec_source_tick_size c) = Inr st"
proof -
  have r: "read_candidate_v2 P v = Some c" using assms by (simp add: validateExecutionCandidateV2_def)
  show "safe_candidate c" using read_candidate_v2_Some[OF r] by (simp add: safe_candidate_def)
  show "\<exists>st>0. parseTickSizeToPriceUnits (ec_source_tick_size c) = Inr st"
    using read_candidate_v2_Some(6)[OF r] by (simp add: parse_accepts_iff)
qed

lemma validate_capability_ok:
  assumes "validateBrokerSymbolCapabilityV1 P v = Inr k"
  shows "1 \<le> sc_broker_buffer_ticks k" "0 \<le> sc_divergence_tolerance_source_ticks k"
    "\<exists>bt>0. parseTickSizeToPriceUnits (sc_broker_tick_size k) = Inr bt"
proof -
  have r: "read_capability P v = Some k" using assms by (simp add: validateBrokerSymbolCapabilityV1_def)
  show "1 \<le> sc_broker_buffer_ticks k" using read_capability_Some(3)[OF r] .
  show "0 \<le> sc_divergence_tolerance_source_ticks k"
    using read_capability_Some(2)[OF r] by (auto simp: INERT_GEOMETRY_POLICY_def split: if_splits)
  show "\<exists>bt>0. parseTickSizeToPriceUnits (sc_broker_tick_size k) = Inr bt"
    using read_capability_Some(1)[OF r] parse_positive by blast
qed

lemma validate_evidence_ok:
  assumes "validateEvidence v = Inr (e, False)"
  shows "\<forall>b\<in>set (be_bars e). safe_bar b"
proof -
  obtain sha where "read_bar_evidence v sha = Some e"
    using assms by (auto simp: validateEvidence_def validateBrokerBarEvidenceV1_def and_then_Inr_iff split: sum.splits option.splits if_splits)
  from read_bar_evidence_Some(4)[OF this] show ?thesis by blast
qed

lemma all_results_Inl: "all_results rs = Inl err \<Longrightarrow> Inl err \<in> set rs"
proof (induction rs)
  case (Cons r rs)
  then show ?case by (cases r; cases "all_results rs") auto
qed simp

lemma and_then_Inl_iff: "and_then r f = Inl e \<longleftrightarrow> r = Inl e \<or> (\<exists>x. r = Inr x \<and> f x = Inl e)"
  by (cases r) simp_all

lemma single_bar_evidence_Inl:
  "single_bar_evidence input sha item = Inl err \<Longrightarrow> err = reconstruction_input_invalid \<or> err = bar_evidence_invalid"
  by (auto simp: single_bar_evidence_def and_then_Inl_iff validateBrokerBarEvidenceV1_def)

lemma validateEvidence_Inl:
  assumes "validateEvidence v = Inl err"
  shows "err = reconstruction_input_invalid"
proof -
  have gap: "err' = reconstruction_input_invalid \<or> err' = bar_evidence_invalid" if "gapped_evidence input items sha = Inl err'" for input items sha err'
    using that
    by (auto simp: gapped_evidence_def and_then_Inl_iff Let_def validateBrokerBarEvidenceV1_def
        dest!: all_results_Inl sym[THEN single_bar_evidence_Inl] split: if_splits)
  have only: "err' = reconstruction_input_invalid" if "onlyInternalEvidenceGap v sha = Inl err'" for sha err'
    using that by (auto simp: onlyInternalEvidenceGap_def validatorFailure_def dest: gap split: option.splits if_splits sum.splits)
  show ?thesis
    using assms only
    by (auto simp: validateEvidence_def and_then_Inl_iff rawEvidenceCapabilitySha256_def validateBrokerBarEvidenceV1_def
        validatorFailure_def split: sum.splits option.splits if_splits)
qed

lemma replace_failure_Inr [simp]: "replace_failure p e r = Inr x \<longleftrightarrow> r = Inr x"
  by (cases r) (simp_all add: replace_failure_def)

lemma geometry_json_safe:
  assumes "safe_candidate c" and "\<And>m. g = Some m \<Longrightarrow> list_all is_safe_integer
      [mg_matched_engagement_open_epoch m, mg_matched_source_bar_close_epoch m, mg_broker_entry_ticks m, mg_broker_wick_ticks m,
       mg_broker_stop_ticks m, mg_broker_risk_distance_ticks m, mg_broker_target_ticks m, mg_maximum_divergence_price_units m]"
  shows "\<exists>r. reconstruction_result P c i k outcome reason g = Inr r \<and> rc_outcome r = outcome \<and> rc_geometry r = g"
proof -
  have "safe_numbers (reconstruction_json c i k outcome reason g)"
    using assms by (cases g) (simp_all add: reconstruction_json_def geometry_field_def safe_candidate_def safe_bar_def)
  then show ?thesis by (simp add: reconstruction_result_def edge_sha256_eq)
qed

lemma specified_geometry_safe:
  assumes "specified_bars c st bt bars e s" and "specified_numbers c k st bt e s" and "\<forall>b\<in>set bars. safe_bar b"
    and "0 < st" and "0 \<le> sc_divergence_tolerance_source_ticks k"
  shows "list_all is_safe_integer
    [mg_matched_engagement_open_epoch (specified_geometry c k st bt e s), mg_matched_source_bar_close_epoch (specified_geometry c k st bt e s),
     mg_broker_entry_ticks (specified_geometry c k st bt e s), mg_broker_wick_ticks (specified_geometry c k st bt e s),
     mg_broker_stop_ticks (specified_geometry c k st bt e s), mg_broker_risk_distance_ticks (specified_geometry c k st bt e s),
     mg_broker_target_ticks (specified_geometry c k st bt e s), mg_maximum_divergence_price_units (specified_geometry c k st bt e s)]"
proof -
  from assms(1) obtain before quiet after where w: "bar_window c bars = before @ quiet @ s # after" "hd (quiet @ [s]) = e"
    unfolding specified_bars_def by blast
  then have "{e, s} \<subseteq> set (bar_window c bars)" by (cases quiet) auto
  then have es: "safe_bar e" "safe_bar s" using assms(3) by (auto simp: bar_window_def)
  have "widest_divergence c k st bt e s \<le> MAX_SAFE_INTEGER"
    using assms(2) unfolding widest_le_iff specified_numbers_def within_tolerance_def
    by (auto simp: MAX_SAFE_INTEGER_def elim: list_all2_mono)
  moreover have "0 \<le> widest_divergence c k st bt e s" by (simp add: widest_divergence_def maximum_nonneg)
  moreover have "is_safe_integer n" if "broker_ticks_ok n" for n
    using that by (simp add: broker_ticks_ok_def is_safe_integer_def MAX_SAFE_INTEGER_def)
  ultimately show ?thesis
    using es assms(2) by (simp add: specified_geometry_def specified_numbers_def safe_bar_def is_safe_integer_def MAX_SAFE_INTEGER_def)
qed


text \<open>On validated input the reconstruction always answers, and its geometry is the specified one.\<close>

lemma reconstruct_validated:
  assumes c: "validateExecutionCandidateV2 P cv = Inr c" and k: "validateBrokerSymbolCapabilityV1 P kv = Inr k"
    and e: "validateEvidence ev = Inr (e, gap)"
  shows "\<exists>r. reconstructBrokerGeometryV1 P cv ev kv = Inr r \<and> (\<forall>g. rc_outcome r = MATCH \<and> rc_geometry r = Some g \<longleftrightarrow>
    \<not> capability_mismatch c e k \<and> \<not> evidence_gap c (be_bars e) gap \<and>
    (\<exists>st bt en s. parseTickSizeToPriceUnits (ec_source_tick_size c) = Inr st \<and>
       parseTickSizeToPriceUnits (sc_broker_tick_size k) = Inr bt \<and> specified_bars c st bt (be_bars e) en s \<and>
       specified_numbers c k st bt en s \<and> g = specified_geometry c k st bt en s))"
proof -
  note safe = validate_candidate_ok(1)[OF c] and K = validate_capability_ok(1,2)[OF k]
  obtain st bt where st: "0 < st" "parseTickSizeToPriceUnits (ec_source_tick_size c) = Inr st"
    and bt: "0 < bt" "parseTickSizeToPriceUnits (sc_broker_tick_size k) = Inr bt"
    using validate_candidate_ok(2)[OF c] validate_capability_ok(3)[OF k] by blast
  note red = reconstructBrokerGeometryV1_def replace_failure_def c k e st(2) bt(2)
  have answers: "\<exists>r. reconstruction_result P c (be_evidence_id e) k outcome reason None = Inr r \<and> rc_outcome r = outcome \<and> rc_geometry r = None"
    for outcome reason by (rule geometry_json_safe[OF safe]) simp
  consider (mismatch) "capability_mismatch c e k" | (gap) "\<not> capability_mismatch c e k" "evidence_gap c (be_bars e) gap"
    | (bars) "\<not> capability_mismatch c e k" "\<not> evidence_gap c (be_bars e) gap" by blast
  then show ?thesis
  proof cases
    case mismatch
    with answers[of BLOCKED BROKER_CAPABILITY_MISMATCH] show ?thesis by (auto simp: red)
  next
    case gap
    with answers[of DATA_GAP "if gap then BROKER_EVIDENCE_GAP else BROKER_EVIDENCE_MISSING"] show ?thesis by (auto simp: red)
  next
    case bars
    then have "\<not> gap" by (auto simp: evidence_gap_def)
    with e have sb: "\<forall>b\<in>set (be_bars e). safe_bar b" using validate_evidence_ok by simp
    from match_bars_iff[OF st(1) bt(1) sb safe K] obtain r where r: "match_bars c k (be_bars e) st bt = Inr r"
      and r_iff: "\<And>g. r = Some g \<longleftrightarrow> (\<exists>en s. specified_bars c st bt (be_bars e) en s \<and> specified_numbers c k st bt en s \<and>
        g = specified_geometry c k st bt en s)" by blast
    show ?thesis
    proof (cases r)
      case None
      with answers[of BLOCKED GEOMETRY_MISMATCH] bars r show ?thesis using r_iff by (auto simp: red)
    next
      case (Some g)
      then obtain en s where "specified_bars c st bt (be_bars e) en s" "specified_numbers c k st bt en s" "g = specified_geometry c k st bt en s"
        using r_iff by blast
      from specified_geometry_safe[OF this(1,2) sb st(1) K(2)] this(3) obtain q where
        "reconstruction_result P c (be_evidence_id e) k MATCH NONE (Some g) = Inr q" "rc_outcome q = MATCH" "rc_geometry q = Some g"
        using geometry_json_safe[OF safe, of "Some g" P "be_evidence_id e" k MATCH NONE] by auto
      moreover from this bars r Some have "reconstructBrokerGeometryV1 P cv ev kv = Inr q" by (simp add: red)
      ultimately have "reconstructBrokerGeometryV1 P cv ev kv = Inr q \<and> (\<forall>g. rc_outcome q = MATCH \<and> rc_geometry q = Some g \<longleftrightarrow> r = Some g)"
        using Some by auto
      then show ?thesis unfolding r_iff using bars st(2) bt(2) by (intro exI[of _ q]) simp
    qed
  qed
qed

lemma reconstruct_Inr:
  assumes "reconstructBrokerGeometryV1 P cv ev kv = Inr r"
  obtains c k e gap where "validateExecutionCandidateV2 P cv = Inr c" "validateBrokerSymbolCapabilityV1 P kv = Inr k"
    "validateEvidence ev = Inr (e, gap)"
  using assms by (auto simp: reconstructBrokerGeometryV1_def and_then_Inr_iff)

section \<open>Properties\<close>

text \<open>
  C19. MATCH is the specified match. On validated input the reconstruction answers MATCH with a
  geometry \<open>g\<close> exactly when candidate, evidence and capability belong together, the bars cover the
  life of the zone, the first bar that touches the zone and the first directional close after it are
  the bars the candidate names, every price and the risk distance agree with the candidate within
  the symbol's tolerance in exact price units, and \<open>g\<close> is the geometry of these two bars.
\<close>

theorem reconstruct_match_iff:
  assumes "validateExecutionCandidateV2 P cv = Inr c" and "validateBrokerSymbolCapabilityV1 P kv = Inr k"
    and "validateEvidence ev = Inr (e, gap)"
  shows "(\<exists>r. reconstructBrokerGeometryV1 P cv ev kv = Inr r \<and> rc_outcome r = MATCH \<and> rc_geometry r = Some g) \<longleftrightarrow>
    \<not> capability_mismatch c e k \<and> \<not> evidence_gap c (be_bars e) gap \<and>
    (\<exists>st bt en s. parseTickSizeToPriceUnits (ec_source_tick_size c) = Inr st \<and>
       parseTickSizeToPriceUnits (sc_broker_tick_size k) = Inr bt \<and> specified_bars c st bt (be_bars e) en s \<and>
       specified_numbers c k st bt en s \<and> g = specified_geometry c k st bt en s)"
proof -
  from reconstruct_validated[OF assms] obtain r where r: "reconstructBrokerGeometryV1 P cv ev kv = Inr r" and
    iff: "\<And>g. rc_outcome r = MATCH \<and> rc_geometry r = Some g \<longleftrightarrow>
      \<not> capability_mismatch c e k \<and> \<not> evidence_gap c (be_bars e) gap \<and>
      (\<exists>st bt en s. parseTickSizeToPriceUnits (ec_source_tick_size c) = Inr st \<and>
         parseTickSizeToPriceUnits (sc_broker_tick_size k) = Inr bt \<and> specified_bars c st bt (be_bars e) en s \<and>
         specified_numbers c k st bt en s \<and> g = specified_geometry c k st bt en s)" by blast
  show ?thesis unfolding iff[symmetric] using r by auto
qed

text \<open>
  The reconstruction fails in one way only: it throws exactly when one of its three inputs is
  not valid, and the exception is always BROKER_RECONSTRUCTION_INPUT_INVALID. No price conversion,
  no gap in the bars and no number out of range makes it throw.
\<close>

theorem reconstruct_fails_iff:
  "reconstructBrokerGeometryV1 P cv ev kv = Inl err \<longleftrightarrow> err = reconstruction_input_invalid \<and>
    \<not> (\<exists>c k p. validateExecutionCandidateV2 P cv = Inr c \<and> validateBrokerSymbolCapabilityV1 P kv = Inr k \<and> validateEvidence ev = Inr p)"
proof (cases "validateExecutionCandidateV2 P cv")
  case (Inl x)
  then have "x = candidate_v2_invalid" by (simp add: validateExecutionCandidateV2_def)
  with Inl show ?thesis by (auto simp: reconstructBrokerGeometryV1_def replace_failure_def validatorFailure_def)
next
  case c: (Inr c)
  show ?thesis
  proof (cases "validateBrokerSymbolCapabilityV1 P kv")
    case (Inl x)
    then have "x = capability_invalid" by (simp add: validateBrokerSymbolCapabilityV1_def)
    with Inl c show ?thesis by (auto simp: reconstructBrokerGeometryV1_def replace_failure_def validatorFailure_def)
  next
    case k: (Inr k)
    show ?thesis
    proof (cases "validateEvidence ev")
      case (Inl x)
      with validateEvidence_Inl[OF Inl] c k show ?thesis
        by (auto simp: reconstructBrokerGeometryV1_def replace_failure_def)
    next
      case (Inr p)
      obtain e gap where p: "p = (e, gap)" by (cases p)
      from reconstruct_validated[OF c k Inr[unfolded p]] Inr c k p show ?thesis by auto
    qed
  qed
qed

text \<open>
  C20. What a MATCH gives the broker's order. The stop lies beyond the broker's own engagement wick by
  at least the policy buffer in price units and by less than one broker tick more, the target is
  four risks beyond the entry, and entry price and risk distance differ from the candidate's by at
  most the tolerance.
\<close>

theorem matched_stop_covers_buffer:
  assumes "reconstructBrokerGeometryV1 P cv ev kv = Inr r" and "rc_outcome r = MATCH" and "rc_geometry r = Some g"
  shows "\<exists>c k st bt. validateExecutionCandidateV2 P cv = Inr c \<and> validateBrokerSymbolCapabilityV1 P kv = Inr k \<and>
    parseTickSizeToPriceUnits (sc_source_tick_size k) = Inr st \<and> parseTickSizeToPriceUnits (sc_broker_tick_size k) = Inr bt \<and>
    sc_source_buffer_ticks k * st \<le> \<bar>mg_broker_wick_ticks g - mg_broker_stop_ticks g\<bar> * bt \<and>
    \<bar>mg_broker_wick_ticks g - mg_broker_stop_ticks g\<bar> * bt < sc_source_buffer_ticks k * st + bt \<and>
    \<bar>mg_broker_target_ticks g - mg_broker_entry_ticks g\<bar> = 4 * \<bar>mg_broker_entry_ticks g - mg_broker_stop_ticks g\<bar> \<and>
    \<bar>ec_entry_ticks c * st - mg_broker_entry_ticks g * bt\<bar> \<le> sc_divergence_tolerance_source_ticks k * st \<and>
    \<bar>ec_risk_distance_ticks c * st - mg_broker_risk_distance_ticks g * bt\<bar> \<le> sc_divergence_tolerance_source_ticks k * st \<and>
    (if ec_direction c = LONG then mg_broker_stop_ticks g < mg_broker_wick_ticks g \<and> mg_broker_stop_ticks g < mg_broker_entry_ticks g
     else mg_broker_wick_ticks g < mg_broker_stop_ticks g \<and> mg_broker_entry_ticks g < mg_broker_stop_ticks g)"
proof -
  from assms(1) obtain c k e gap where v: "validateExecutionCandidateV2 P cv = Inr c" "validateBrokerSymbolCapabilityV1 P kv = Inr k"
    "validateEvidence ev = Inr (e, gap)" by (rule reconstruct_Inr)
  have "rc_outcome r = MATCH \<and> rc_geometry r = Some g" using assms by simp
  then obtain st bt en s where
    st: "parseTickSizeToPriceUnits (ec_source_tick_size c) = Inr st" "parseTickSizeToPriceUnits (sc_broker_tick_size k) = Inr bt"
    and m: "\<not> capability_mismatch c e k" "specified_numbers c k st bt en s" "g = specified_geometry c k st bt en s"
    using reconstruct_validated[OF v] assms(1) by (metis sum.inject(2))
  have src: "parseTickSizeToPriceUnits (sc_source_tick_size k) = Inr st" using m(1) st(1) by (simp add: capability_mismatch_def)
  have r: "read_capability P kv = Some k" "read_candidate_v2 P cv = Some c"
    using v by (simp_all add: validateBrokerSymbolCapabilityV1_def validateExecutionCandidateV2_def)
  have buffer: "sc_source_buffer_ticks k * st \<le> sc_broker_buffer_ticks k * bt"
    "sc_broker_buffer_ticks k * bt < sc_source_buffer_ticks k * st + bt" "1 \<le> sc_broker_buffer_ticks k"
    using read_capability_Some(1,3)[OF r(1)] src st(2) broker_buffer_bounds by auto
  have entry: "ec_entry_ticks c = pb_close_ticks (ec_source_bar c)"
    using read_candidate_v2_Some(1)[OF r(2)] by (simp add: candidate_geometry_def Let_def)
  have "within_tolerance k st bt (pb_close_ticks (ec_source_bar c)) (pb_close_ticks s)"
    "within_tolerance k st bt (ec_risk_distance_ticks c) (broker_risk c k en s)" "0 < broker_risk c k en s"
    using m(2) by (simp_all add: specified_numbers_def ohlc_def broker_ticks_ok_def)
  with v(1,2) src st(2) buffer entry show ?thesis
    by (intro exI[of _ c] exI[of _ k] exI[of _ st] exI[of _ bt])
      (auto simp: m(3) specified_geometry_def within_tolerance_def broker_stop_def broker_risk_def broker_target_def
        expected_stop_def expected_risk_def expected_target_def)
qed

end
