(* ===== verification/Edge_Samples.thy ===== *)
theory Edge_Samples
  imports Broker_Geometry
begin

text \<open>
  A sample candidate, capability and bar evidence of the execution edge, and the witnesses of the
  properties with hypotheses. The digests are those of the sample platform.
\<close>

definition sample_edge_digest :: "json \<Rightarrow> string" where
  "sample_edge_digest v = canonicalSha256 sample_platform v"

definition sample_sha :: string where
  "sample_sha = replicate 64 (CHR ''a'')"

definition sample_bar_json :: "int \<Rightarrow> int \<Rightarrow> int \<Rightarrow> int \<Rightarrow> int \<Rightarrow> json" where
  "sample_bar_json t open_ticks high low close_ticks = JObj
     [(''open_epoch'', JNum t), (''close_epoch'', JNum (t + 300)), (''open_ticks'', JNum open_ticks),
      (''high_ticks'', JNum high), (''low_ticks'', JNum low), (''close_ticks'', JNum close_ticks), (''closed'', JBool True)]"

definition sample_engagement :: json where
  "sample_engagement = sample_bar_json 300 108150 108160 108050 108120"

definition sample_entry :: json where
  "sample_entry = sample_bar_json 600 108120 108200 108110 108190"

definition sample_capability_sha :: string where
  "sample_capability_sha = sample_edge_digest (JObj
     [(''schema_version'', JStr ''BrokerSymbolCapabilityV1''), (''account_profile_sha256'', JStr sample_sha),
      (''source_symbol'', JStr ''EURUSD''), (''broker_symbol'', JStr ''EURUSD.r''), (''source_tick_size'', JStr ''0.00001''),
      (''broker_tick_size'', JStr ''0.00001''), (''buffer_policy_version'', JStr ''rd-entry-wick-buffer-v1''),
      (''source_buffer_ticks'', JNum 2), (''broker_buffer_ticks'', JNum 2), (''divergence_tolerance_source_ticks'', JNum 3)])"

definition sample_capability_fields :: fields where
  "sample_capability_fields =
     [(''schema_version'', JStr ''BrokerSymbolCapabilityV1''), (''capability_sha256'', JStr sample_capability_sha),
      (''account_profile_sha256'', JStr sample_sha),
      (''source_symbol'', JStr ''EURUSD''), (''broker_symbol'', JStr ''EURUSD.r''), (''source_tick_size'', JStr ''0.00001''),
      (''broker_tick_size'', JStr ''0.00001''), (''buffer_policy_version'', JStr ''rd-entry-wick-buffer-v1''),
      (''source_buffer_ticks'', JNum 2), (''broker_buffer_ticks'', JNum 2), (''divergence_tolerance_source_ticks'', JNum 3)]"

definition sample_capability_json :: json where
  "sample_capability_json = JObj sample_capability_fields"

definition sample_evidence_json :: json where
  "sample_evidence_json = JObj
     [(''schema_version'', JStr ''BrokerBarEvidenceV1''), (''evidence_id'', JStr ''e1''), (''installation_id'', JStr ''i1''),
      (''account_id'', JStr ''a1''), (''account_profile_sha256'', JStr sample_sha), (''source_symbol'', JStr ''EURUSD''),
      (''broker_symbol'', JStr ''EURUSD.r''), (''symbol_capability_sha256'', JStr sample_capability_sha),
      (''timeframe'', JStr ''M5''), (''reconciliation_cursor'', JStr ''c1''), (''reconciliation_sha256'', JStr sample_sha),
      (''bars'', JArr [sample_engagement, sample_entry]), (''observed_at_epoch'', JNum 905)]"

definition sample_logical_json :: json where
  "sample_logical_json = JObj
     [(''strategy_version'', JStr ''rd-entry-execution-proposal-v2''), (''wire_version'', JStr ''ExecutionCandidateV2''),
      (''ticker_id'', JStr ''t''), (''setup_id'', JStr ''s1''), (''setup_revision'', JNum 1), (''selection_id'', JStr ''x1''),
      (''source_bar_close_epoch'', JNum 900)]"

definition sample_candidate_sha :: string where
  "sample_candidate_sha = sample_edge_digest (JObj
     [(''schema_version'', JStr ''ExecutionCandidateV2''),
      (''proposal_schema_version'', JStr ''rd-entry-execution-proposal-v2''),
      (''logical_candidate_id'', JStr (sample_edge_digest sample_logical_json)),
      (''strategy_version'', JStr ''rd-entry-execution-proposal-v2''),
      (''execution_mode'', JStr ''PAPER_ONLY''), (''producer_instance_id'', JStr ''p''),
      (''producer_sequence'', JNum 1), (''delivery_kind'', JStr ''LIVE''),
      (''ingest_integrity'', JStr ''LIVE_CONTIGUOUS''), (''ticker_id'', JStr ''t''),
      (''source_symbol'', JStr ''EURUSD''), (''source_feed'', JStr ''f''), (''timeframe'', JStr ''M5''),
      (''source_tick_size'', JStr ''0.00001''), (''source_tick_capability_sha256'', JStr sample_sha),
      (''detector_code_sha256'', JStr sample_sha), (''settings_sha256'', JStr sample_sha),
      (''provenance_sha256'', JStr sample_sha), (''setup_id'', JStr ''s1''),
      (''setup_revision'', JNum 1), (''selection_id'', JStr ''x1''),
      (''entry_model'', JStr ''DIR_CLOSE''), (''liquidity_cohort'', JStr ''TWO_PLUS_CANDLES''),
      (''selection_fidelity'', JStr ''EXACT''), (''selection_action'', JStr ''PAPER_ELIGIBLE''),
      (''evidence_replayability'', JStr ''REPLAYABLE''), (''direction'', JStr ''LONG''),
      (''zone_top_ticks'', JNum 108100), (''zone_bottom_ticks'', JNum 108000),
      (''zone_active_from_epoch'', JNum 300), (''engagement_candle'', sample_engagement),
      (''source_bar'', sample_entry), (''wick_reference'', JStr ''LOW''),
      (''wick_reference_ticks'', JNum 108050),
      (''buffer_policy_version'', JStr ''rd-entry-wick-buffer-v1''), (''buffer_ticks'', JNum 2),
      (''entry_ticks'', JNum 108190), (''stop_ticks'', JNum 108048),
      (''risk_distance_ticks'', JNum 142), (''target_ticks'', JNum 108758),
      (''observed_at_epoch'', JNum 910)])"

definition sample_candidate_fields :: fields where
  "sample_candidate_fields =
     [(''schema_version'', JStr ''ExecutionCandidateV2''),
      (''proposal_schema_version'', JStr ''rd-entry-execution-proposal-v2''),
      (''logical_candidate_id'', JStr (sample_edge_digest sample_logical_json)),
      (''candidate_body_sha256'', JStr sample_candidate_sha),
      (''strategy_version'', JStr ''rd-entry-execution-proposal-v2''),
      (''execution_mode'', JStr ''PAPER_ONLY''), (''producer_instance_id'', JStr ''p''),
      (''producer_sequence'', JNum 1), (''delivery_kind'', JStr ''LIVE''),
      (''ingest_integrity'', JStr ''LIVE_CONTIGUOUS''), (''ticker_id'', JStr ''t''),
      (''source_symbol'', JStr ''EURUSD''), (''source_feed'', JStr ''f''), (''timeframe'', JStr ''M5''),
      (''source_tick_size'', JStr ''0.00001''), (''source_tick_capability_sha256'', JStr sample_sha),
      (''detector_code_sha256'', JStr sample_sha), (''settings_sha256'', JStr sample_sha),
      (''provenance_sha256'', JStr sample_sha), (''setup_id'', JStr ''s1''),
      (''setup_revision'', JNum 1), (''selection_id'', JStr ''x1''),
      (''entry_model'', JStr ''DIR_CLOSE''), (''liquidity_cohort'', JStr ''TWO_PLUS_CANDLES''),
      (''selection_fidelity'', JStr ''EXACT''), (''selection_action'', JStr ''PAPER_ELIGIBLE''),
      (''evidence_replayability'', JStr ''REPLAYABLE''), (''direction'', JStr ''LONG''),
      (''zone_top_ticks'', JNum 108100), (''zone_bottom_ticks'', JNum 108000),
      (''zone_active_from_epoch'', JNum 300), (''engagement_candle'', sample_engagement),
      (''source_bar'', sample_entry), (''wick_reference'', JStr ''LOW''),
      (''wick_reference_ticks'', JNum 108050),
      (''buffer_policy_version'', JStr ''rd-entry-wick-buffer-v1''), (''buffer_ticks'', JNum 2),
      (''entry_ticks'', JNum 108190), (''stop_ticks'', JNum 108048),
      (''risk_distance_ticks'', JNum 142), (''target_ticks'', JNum 108758),
      (''observed_at_epoch'', JNum 910)]"

definition sample_candidate_json :: json where
  "sample_candidate_json = JObj sample_candidate_fields"

lemma sample_digest: "valid_digest (sample_edge_digest v)"
proof -
  have "1 \<in> set (sha256 sample_platform bs)" for bs by (simp add: sample_platform_def Let_def)
  moreover have "CHR ''1'' \<in> set (hex_byte 1)" by code_simp
  ultimately have "CHR ''1'' \<in> set (sample_edge_digest v)"
    by (auto simp: sample_edge_digest_def canonicalSha256_def sha256Hex_def)
  then have "sample_edge_digest v \<noteq> zero_digest" by (auto simp: zero_digest_def)
  then show ?thesis
    using is_sha256_canonicalSha256[OF sample_platform_width] by (simp add: valid_digest_def sample_edge_digest_def)
qed

lemma sample_sha_valid: "valid_digest sample_sha" by code_simp

lemma sample_tick: "is_tick_size ''0.00001''" "parseTickSizeToPriceUnits ''0.00001'' = Inr 10000000"
  "expected_broker_buffer 2 10000000 10000000 = Inr 2"
proof -
  have f: "fraction_part ''00001''" by (simp add: fraction_part_def is_digit_def code_unit_def)
  then show "is_tick_size ''0.00001''" unfolding is_tick_size_iff by (intro disjI2 exI[of _ "''0''"] exI[of _ "''00001''"]) simp
  have "padEnd 12 CHR ''0'' ''00001'' = ''000010000000''" by (simp add: padEnd_def numeral_nat)
  moreover have "digits_value ''000010000000'' = 10000000" by (simp add: digits_value_def code_unit_def)
  ultimately show "parseTickSizeToPriceUnits ''0.00001'' = Inr 10000000"
    using parse_fraction[of "''0''" "''00001''"] f by (simp add: zero_digits_value)
  show "expected_broker_buffer 2 10000000 10000000 = Inr 2"
    by (simp add: expected_broker_buffer_def ticksToPriceUnits_def ceilPriceUnitsToTicks_def safeBrokerTicks_def
        is_safe_integer_def MAX_SAFE_INTEGER_def bigint_div_def)
qed

lemma sample_ids: "list_all is_identifier [''EURUSD.r'', ''e1'', ''i1'', ''a1'', ''c1'', ''p'', ''t'', ''f'', ''s1'', ''x1'']"
  by code_simp

definition sample_engagement_bar :: price_bar where
  "sample_engagement_bar = \<lparr>pb_open_epoch = 300, pb_close_epoch = 600, pb_open_ticks = 108150,
     pb_high_ticks = 108160, pb_low_ticks = 108050, pb_close_ticks = 108120\<rparr>"

definition sample_entry_bar :: price_bar where
  "sample_entry_bar = \<lparr>pb_open_epoch = 600, pb_close_epoch = 900, pb_open_ticks = 108120,
     pb_high_ticks = 108200, pb_low_ticks = 108110, pb_close_ticks = 108190\<rparr>"

lemma sample_bars: "bar 300 sample_engagement = Some sample_engagement_bar" "bar 300 sample_entry = Some sample_entry_bar"
proof -
  have bar_read: "bar 300 (sample_bar_json t p h l q) = Some b"
    if "list_all is_safe_integer [t, t + 300, p, h, l, q]" "0 \<le> t" "bar_shape 300 b"
      "b = \<lparr>pb_open_epoch = t, pb_close_epoch = t + 300, pb_open_ticks = p, pb_high_ticks = h, pb_low_ticks = l, pb_close_ticks = q\<rparr>"
    for t p h l q b
    using that
    by (simp add: bar_def sample_bar_json_def exactKeys_def BAR_KEYS_def safeInteger_at_def number_at_def require_def
        MIN_SAFE_INTEGER_def is_safe_integer_def del: js_sort.simps)
  show "bar 300 sample_engagement = Some sample_engagement_bar" "bar 300 sample_entry = Some sample_entry_bar"
    unfolding sample_engagement_def sample_entry_def sample_engagement_bar_def sample_entry_bar_def
    by (rule bar_read; simp add: is_safe_integer_def MAX_SAFE_INTEGER_def bar_shape_def)+
qed

lemmas sample_reads = exactKeys_def literal_def require_def string_at_def number_at_def array_at_def digest_at_def
  identifier_at_def tick_size_at_def safeInteger_at_def survives_def is_safe_integer_def MAX_SAFE_INTEGER_def
  MIN_SAFE_INTEGER_def sample_digest sample_sha_valid sample_tick sample_ids[simplified] without_field_def

definition sample_capability :: capability where
  "sample_capability = \<lparr>sc_capability_sha256 = sample_capability_sha, sc_account_profile_sha256 = sample_sha,
     sc_source_symbol = ''EURUSD'', sc_broker_symbol = ''EURUSD.r'', sc_source_tick_size = ''0.00001'',
     sc_broker_tick_size = ''0.00001'', sc_source_buffer_ticks = 2, sc_broker_buffer_ticks = 2,
     sc_divergence_tolerance_source_ticks = 3\<rparr>"

lemma sample_capability_read:
  "read_capability sample_platform sample_capability_json = Some sample_capability"
proof -
  have body: "edge_sha256 sample_platform (JObj (without_field ''capability_sha256'' sample_capability_fields)) = Inr sample_capability_sha"
    by (subst edge_sha256_eq)
      (simp_all add: without_field_def sample_capability_fields_def sample_capability_sha_def sample_edge_digest_def
        is_safe_integer_def MAX_SAFE_INTEGER_def)
  have keys: "exactKeys sample_capability_fields CAPABILITY_KEYS"
    by (simp add: exactKeys_def sample_capability_fields_def CAPABILITY_KEYS_def del: js_sort.simps)
  have "valid_digest sample_capability_sha" by (simp add: sample_capability_sha_def sample_digest)
  then show ?thesis
    unfolding read_capability_def sample_capability_json_def objectValue.simps Option.bind.simps
    by (simp add: body keys) (simp add: sample_capability_fields_def sample_reads INERT_GEOMETRY_POLICY_def sample_capability_def)
qed


lemma sample_candidate_lookups:
  "map_of sample_candidate_fields ''schema_version'' = Some (JStr ''ExecutionCandidateV2'')"
  "map_of sample_candidate_fields ''proposal_schema_version'' = Some (JStr ''rd-entry-execution-proposal-v2'')"
  "map_of sample_candidate_fields ''logical_candidate_id'' = Some (JStr (sample_edge_digest sample_logical_json))"
  "map_of sample_candidate_fields ''candidate_body_sha256'' = Some (JStr sample_candidate_sha)"
  "map_of sample_candidate_fields ''strategy_version'' = Some (JStr ''rd-entry-execution-proposal-v2'')"
  "map_of sample_candidate_fields ''execution_mode'' = Some (JStr ''PAPER_ONLY'')"
  "map_of sample_candidate_fields ''producer_instance_id'' = Some (JStr ''p'')"
  "map_of sample_candidate_fields ''producer_sequence'' = Some (JNum 1)"
  "map_of sample_candidate_fields ''delivery_kind'' = Some (JStr ''LIVE'')"
  "map_of sample_candidate_fields ''ingest_integrity'' = Some (JStr ''LIVE_CONTIGUOUS'')"
  "map_of sample_candidate_fields ''ticker_id'' = Some (JStr ''t'')"
  "map_of sample_candidate_fields ''source_symbol'' = Some (JStr ''EURUSD'')"
  "map_of sample_candidate_fields ''source_feed'' = Some (JStr ''f'')"
  "map_of sample_candidate_fields ''timeframe'' = Some (JStr ''M5'')"
  "map_of sample_candidate_fields ''source_tick_size'' = Some (JStr ''0.00001'')"
  "map_of sample_candidate_fields ''source_tick_capability_sha256'' = Some (JStr sample_sha)"
  "map_of sample_candidate_fields ''detector_code_sha256'' = Some (JStr sample_sha)"
  "map_of sample_candidate_fields ''settings_sha256'' = Some (JStr sample_sha)"
  "map_of sample_candidate_fields ''provenance_sha256'' = Some (JStr sample_sha)"
  "map_of sample_candidate_fields ''setup_id'' = Some (JStr ''s1'')"
  "map_of sample_candidate_fields ''setup_revision'' = Some (JNum 1)"
  "map_of sample_candidate_fields ''selection_id'' = Some (JStr ''x1'')"
  "map_of sample_candidate_fields ''entry_model'' = Some (JStr ''DIR_CLOSE'')"
  "map_of sample_candidate_fields ''liquidity_cohort'' = Some (JStr ''TWO_PLUS_CANDLES'')"
  "map_of sample_candidate_fields ''selection_fidelity'' = Some (JStr ''EXACT'')"
  "map_of sample_candidate_fields ''selection_action'' = Some (JStr ''PAPER_ELIGIBLE'')"
  "map_of sample_candidate_fields ''evidence_replayability'' = Some (JStr ''REPLAYABLE'')"
  "map_of sample_candidate_fields ''direction'' = Some (JStr ''LONG'')"
  "map_of sample_candidate_fields ''zone_top_ticks'' = Some (JNum 108100)"
  "map_of sample_candidate_fields ''zone_bottom_ticks'' = Some (JNum 108000)"
  "map_of sample_candidate_fields ''zone_active_from_epoch'' = Some (JNum 300)"
  "map_of sample_candidate_fields ''engagement_candle'' = Some (sample_engagement)"
  "map_of sample_candidate_fields ''source_bar'' = Some (sample_entry)"
  "map_of sample_candidate_fields ''wick_reference'' = Some (JStr ''LOW'')"
  "map_of sample_candidate_fields ''wick_reference_ticks'' = Some (JNum 108050)"
  "map_of sample_candidate_fields ''buffer_policy_version'' = Some (JStr ''rd-entry-wick-buffer-v1'')"
  "map_of sample_candidate_fields ''buffer_ticks'' = Some (JNum 2)"
  "map_of sample_candidate_fields ''entry_ticks'' = Some (JNum 108190)"
  "map_of sample_candidate_fields ''stop_ticks'' = Some (JNum 108048)"
  "map_of sample_candidate_fields ''risk_distance_ticks'' = Some (JNum 142)"
  "map_of sample_candidate_fields ''target_ticks'' = Some (JNum 108758)"
  "map_of sample_candidate_fields ''observed_at_epoch'' = Some (JNum 910)"
  by (simp_all add: sample_candidate_fields_def)

definition sample_candidate :: candidate_v2 where
  "sample_candidate = \<lparr>ec_logical_candidate_id = sample_edge_digest sample_logical_json,
     ec_candidate_body_sha256 = sample_candidate_sha, ec_producer_instance_id = ''p'', ec_producer_sequence = 1,
     ec_ticker_id = ''t'', ec_source_symbol = ''EURUSD'', ec_source_feed = ''f'', ec_source_tick_size = ''0.00001'',
     ec_source_tick_capability_sha256 = sample_sha, ec_detector_code_sha256 = sample_sha, ec_settings_sha256 = sample_sha,
     ec_provenance_sha256 = sample_sha, ec_setup_id = ''s1'', ec_setup_revision = 1, ec_selection_id = ''x1'',
     ec_direction = LONG, ec_zone_top_ticks = 108100, ec_zone_bottom_ticks = 108000, ec_zone_active_from_epoch = 300,
     ec_engagement_candle = sample_engagement_bar, ec_source_bar = sample_entry_bar, ec_wick_reference_ticks = 108050,
     ec_buffer_ticks = 2, ec_entry_ticks = 108190, ec_stop_ticks = 108048, ec_risk_distance_ticks = 142,
     ec_target_ticks = 108758, ec_observed_at_epoch = 910\<rparr>"

lemma sample_candidate_read: "read_candidate_v2 sample_platform sample_candidate_json = Some sample_candidate"
proof -
  have body: "edge_sha256 sample_platform (JObj (without_field ''candidate_body_sha256'' sample_candidate_fields)) = Inr sample_candidate_sha"
    by (subst edge_sha256_eq)
      (simp_all add: without_field_def sample_candidate_fields_def sample_candidate_sha_def sample_edge_digest_def
        sample_engagement_def sample_entry_def sample_bar_json_def is_safe_integer_def MAX_SAFE_INTEGER_def)
  have keys: "exactKeys sample_candidate_fields CANDIDATE_KEYS"
    by (simp add: exactKeys_def sample_candidate_fields_def CANDIDATE_KEYS_def del: js_sort.simps)
  have "valid_digest sample_candidate_sha" by (simp add: sample_candidate_sha_def sample_digest)
  moreover have "edge_sha256 sample_platform sample_logical_json = Inr (sample_edge_digest sample_logical_json)"
    by (subst edge_sha256_eq) (simp_all add: sample_logical_json_def sample_edge_digest_def is_safe_integer_def MAX_SAFE_INTEGER_def)
  ultimately show ?thesis
    unfolding read_candidate_v2_def sample_candidate_json_def objectValue.simps Option.bind.simps
    by (simp add: body keys)
      (simp add: sample_candidate_lookups candidate_literals_def sample_reads candle_at_def sample_bars direction_at_def
        candidate_geometry_def Let_def expected_wick_def expected_stop_def expected_risk_def expected_target_def
        BUFFER_TICKS_def logical_candidate_json_def sample_logical_json_def sample_engagement_bar_def sample_entry_bar_def
        sample_candidate_def)
qed


definition sample_bar_evidence :: bar_evidence where
  "sample_bar_evidence = \<lparr>be_evidence_id = ''e1'', be_installation_id = ''i1'', be_account_id = ''a1'',
     be_account_profile_sha256 = sample_sha, be_source_symbol = ''EURUSD'', be_broker_symbol = ''EURUSD.r'',
     be_symbol_capability_sha256 = sample_capability_sha, be_timeframe = M5, be_reconciliation_cursor = ''c1'',
     be_reconciliation_sha256 = sample_sha, be_bars = [sample_engagement_bar, sample_entry_bar], be_observed_at_epoch = 905\<rparr>"

lemma sample_evidence_read: "validateEvidence sample_evidence_json = Inr (sample_bar_evidence, False)"
proof -
  have keys: "exactKeys (case sample_evidence_json of JObj kvs \<Rightarrow> kvs) EVIDENCE_KEYS"
    by (simp add: exactKeys_def sample_evidence_json_def EVIDENCE_KEYS_def del: js_sort.simps)
  have "valid_digest sample_capability_sha" by (simp add: sample_capability_sha_def sample_digest)
  then have "read_bar_evidence sample_evidence_json sample_capability_sha = Some sample_bar_evidence"
    using keys unfolding read_bar_evidence_def
    by (simp add: sample_evidence_json_def sample_reads(2-) timeframe_at_def timeframe_duration_def SOURCE_SYMBOLS_def sample_bars
        sample_bar_evidence_def sample_engagement_bar_def sample_entry_bar_def)
  then show ?thesis
    by (simp add: validateEvidence_def rawEvidenceCapabilitySha256_def validateBrokerBarEvidenceV1_def)
      (simp add: sample_evidence_json_def string_at_def or_throw_def)
qed

lemmas sample_valid = sample_candidate_read sample_capability_read sample_evidence_read

lemma sample_validated:
  "validateExecutionCandidateV2 sample_platform sample_candidate_json = Inr sample_candidate"
  "validateBrokerSymbolCapabilityV1 sample_platform sample_capability_json = Inr sample_capability"
  by (simp_all add: validateExecutionCandidateV2_def validateBrokerSymbolCapabilityV1_def sample_valid)
lemma sample_specified:
  "specified_bars sample_candidate 10000000 10000000 (be_bars sample_bar_evidence) sample_engagement_bar sample_entry_bar"
  "specified_numbers sample_candidate sample_capability 10000000 10000000 sample_engagement_bar sample_entry_bar"
  "\<not> capability_mismatch sample_candidate sample_bar_evidence sample_capability"
  "\<not> evidence_gap sample_candidate (be_bars sample_bar_evidence) False"
proof -
  note defs = sample_candidate_def sample_bar_evidence_def sample_capability_def sample_engagement_bar_def sample_entry_bar_def
  have "bar_window sample_candidate (be_bars sample_bar_evidence) = [] @ [sample_engagement_bar] @ sample_entry_bar # []"
    by (simp add: defs bar_window_def)
  then show "specified_bars sample_candidate 10000000 10000000 (be_bars sample_bar_evidence) sample_engagement_bar sample_entry_bar"
    unfolding specified_bars_def
    by (intro conjI exI[of _ "[]"] exI[of _ "[sample_engagement_bar]"] exI[of _ "[] :: price_bar list"])
      (simp_all add: defs touches_zone_def stays_beyond_zone_def closes_in_direction_def)
  show "specified_numbers sample_candidate sample_capability 10000000 10000000 sample_engagement_bar sample_entry_bar"
    by (simp add: defs specified_numbers_def within_tolerance_def ohlc_def broker_risk_def broker_stop_def broker_target_def
        expected_risk_def expected_stop_def expected_target_def expected_wick_def broker_ticks_ok_def MAX_SAFE_INTEGER_def)
  show "\<not> capability_mismatch sample_candidate sample_bar_evidence sample_capability"
    by (simp add: defs capability_mismatch_def)
  show "\<not> evidence_gap sample_candidate (be_bars sample_bar_evidence) False"
    by (simp add: defs evidence_gap_def outside_candidate_ttl_def)
qed

definition sample_geometry :: match_geometry where
  "sample_geometry = specified_geometry sample_candidate sample_capability 10000000 10000000 sample_engagement_bar sample_entry_bar"

lemma sample_tick_sizes:
  "parseTickSizeToPriceUnits (ec_source_tick_size sample_candidate) = Inr 10000000"
  "parseTickSizeToPriceUnits (sc_broker_tick_size sample_capability) = Inr 10000000"
  by (simp_all add: sample_candidate_def sample_capability_def sample_tick)

lemma sample_match:
  "\<exists>r. reconstructBrokerGeometryV1 sample_platform sample_candidate_json sample_evidence_json sample_capability_json = Inr r \<and>
     rc_outcome r = MATCH \<and> rc_geometry r = Some sample_geometry"
  using reconstruct_validated[OF sample_validated sample_evidence_read] sample_specified sample_tick_sizes
  unfolding sample_geometry_def by blast

section \<open>Witnesses\<close>

theorem broker_buffer_covers_policy_witness:
  "sc_source_buffer_ticks sample_capability * 10000000 \<le> sc_broker_buffer_ticks sample_capability * 10000000"
  using broker_buffer_covers_policy[OF sample_validated(2)] by (auto simp: sample_tick sample_capability_def)

theorem candidate_v2_reward_is_four_risk_witness:
  "\<bar>ec_target_ticks sample_candidate - ec_entry_ticks sample_candidate\<bar> =
     4 * \<bar>ec_entry_ticks sample_candidate - ec_stop_ticks sample_candidate\<bar>"
  using candidate_v2_reward_is_four_risk[OF sample_validated(1)] by simp

theorem reconstruct_match_iff_witness:
  "\<exists>r. reconstructBrokerGeometryV1 sample_platform sample_candidate_json sample_evidence_json sample_capability_json = Inr r \<and>
     rc_outcome r = MATCH \<and> rc_geometry r = Some sample_geometry"
  unfolding reconstruct_match_iff[OF sample_validated sample_evidence_read]
  using sample_specified sample_tick_sizes unfolding sample_geometry_def by blast

theorem matched_stop_covers_buffer_witness:
  "\<exists>st bt. 2 * st \<le> \<bar>mg_broker_wick_ticks sample_geometry - mg_broker_stop_ticks sample_geometry\<bar> * bt \<and> (0 :: int) < bt"
proof -
  obtain r where r: "reconstructBrokerGeometryV1 sample_platform sample_candidate_json sample_evidence_json sample_capability_json = Inr r"
    "rc_outcome r = MATCH" "rc_geometry r = Some sample_geometry" using sample_match by blast
  from matched_stop_covers_buffer[OF r] obtain k st bt where
    "validateBrokerSymbolCapabilityV1 sample_platform sample_capability_json = Inr k"
    "sc_source_buffer_ticks k * st \<le> \<bar>mg_broker_wick_ticks sample_geometry - mg_broker_stop_ticks sample_geometry\<bar> * bt"
    "parseTickSizeToPriceUnits (sc_broker_tick_size k) = Inr bt" by blast
  with sample_validated(2) parse_positive show ?thesis by (auto simp: sample_capability_def)
qed


end
