(* ===== verification/Strict_Json.thy ===== *)
theory Strict_Json
  imports Canonical_Json
begin

text \<open>
  The strict JSON reader (\<open>strict-json.ts\<close>) that stands before every webhook of the observation edge:
  UTF-8 decoding, a recursive-descent parser with limits on depth and number of values, no duplicate
  keys and no unsafe integers. Strings are lists of UTF-16 code units, so that escapes and surrogates
  are those of the source. The parser is one group of total functions; its termination proof rests on
  a bound on the unread input. The properties are the round trip with the canonical serializer, what
  every accepted value satisfies, and which strings the surrogate test lets through.

  A number token keeps its raw text and, for an integer token, its value; the double of a fractional
  token is not represented, only whether it is finite.
\<close>

section \<open>Values and errors\<close>

type_synonym units = "nat list"

datatype strict_json =
    SNull
  | SBool bool
  | SStr units
  | SNum units "int option"
  | SArr "strict_json list"
  | SObj "(units \<times> strict_json) list"

definition MAX_DEPTH :: nat where "MAX_DEPTH = 64"
definition MAX_NODES :: nat where "MAX_NODES = 20000"

definition invalid_json :: js_error where "invalid_json = Error ''invalid JSON''"
definition too_many_values :: js_error where "too_many_values = Error ''JSON contains too many values''"
definition too_deep :: js_error where "too_deep = Error ''JSON nesting is too deep''"
definition duplicate_key :: js_error where "duplicate_key = Error ''duplicate JSON object key''"
definition non_finite_number :: js_error where "non_finite_number = Error ''non-finite JSON number''"
definition unsafe_integer :: js_error where "unsafe_integer = Error ''unsafe JSON integer''"
definition invalid_utf8 :: js_error where "invalid_utf8 = Error ''invalid UTF-8 JSON''"

section \<open>Strings\<close>

definition high_surrogate :: "nat \<Rightarrow> bool" where
  "high_surrogate c \<longleftrightarrow> 0xd800 \<le> c \<and> c \<le> 0xdbff"

definition low_surrogate :: "nat \<Rightarrow> bool" where
  "low_surrogate c \<longleftrightarrow> 0xdc00 \<le> c \<and> c \<le> 0xdfff"

text \<open>Behind the last unit \<open>charCodeAt\<close> yields NaN, which is neither below \<open>0xdc00\<close> nor above \<open>0xdfff\<close>.\<close>

fun hasUnpairedSurrogate :: "units \<Rightarrow> bool" where
  "hasUnpairedSurrogate [] = False"
| "hasUnpairedSurrogate (c # cs) =
     (if high_surrogate c then
        (case cs of
           [] \<Rightarrow> False
         | n # ns \<Rightarrow> if n < 0xdc00 \<or> n > 0xdfff then True else hasUnpairedSurrogate ns)
      else if low_surrogate c then True
      else hasUnpairedSurrogate cs)"

text \<open>The body of a string token up to its closing quote, and what follows it.\<close>

fun scan_string :: "bool \<Rightarrow> units \<Rightarrow> (units \<times> units) option" where
  "scan_string escaped [] = None"
| "scan_string escaped (c # cs) =
     (if \<not> escaped \<and> c < 0x20 then None
      else if \<not> escaped \<and> c = 34 then Some ([], cs)
      else map_option (\<lambda>(body, rest). (c # body, rest)) (scan_string (\<not> escaped \<and> c = 92) cs))"

definition hex_unit :: "nat \<Rightarrow> nat option" where
  "hex_unit c = (if 48 \<le> c \<and> c \<le> 57 then Some (c - 48)
     else if 97 \<le> c \<and> c \<le> 102 then Some (c - 87)
     else if 65 \<le> c \<and> c \<le> 70 then Some (c - 55) else None)"

definition simple_escape :: "nat \<Rightarrow> nat option" where
  "simple_escape c = (if c = 34 \<or> c = 92 \<or> c = 47 then Some c
     else if c = 98 then Some 8 else if c = 102 then Some 12 else if c = 110 then Some 10
     else if c = 114 then Some 13 else if c = 116 then Some 9 else None)"

text \<open>\<open>JSON.parse\<close> of a string token, on its body.\<close>

fun decode_string :: "units \<Rightarrow> units option" where
  "decode_string [] = Some []"
| "decode_string (c # cs) =
     (if c < 0x20 \<or> c = 34 then None
      else if c \<noteq> 92 then map_option ((#) c) (decode_string cs)
      else (case cs of
          [] \<Rightarrow> None
        | e # es \<Rightarrow>
            if e = 117 then
              (case es of
                 h1 # h2 # h3 # h4 # r \<Rightarrow>
                   (case (hex_unit h1, hex_unit h2, hex_unit h3, hex_unit h4) of
                      (Some a, Some b, Some c, Some d) \<Rightarrow>
                        map_option ((#) (((a * 16 + b) * 16 + c) * 16 + d)) (decode_string r)
                    | _ \<Rightarrow> None)
               | _ \<Rightarrow> None)
            else (case simple_escape e of
                None \<Rightarrow> None
              | Some u \<Rightarrow> map_option ((#) u) (decode_string es))))"

text \<open>The source enters with the index on the opening quote; here the argument begins behind it.\<close>

definition parseString :: "units \<Rightarrow> (units \<times> units) result" where
  "parseString s = (case scan_string False s of
       None \<Rightarrow> Inl invalid_json
     | Some (body, rest) \<Rightarrow> (case decode_string body of
         None \<Rightarrow> Inl invalid_json
       | Some decoded \<Rightarrow> if hasUnpairedSurrogate decoded then Inl invalid_json else Inr (decoded, rest)))"

section \<open>Numbers\<close>

definition digit_unit :: "nat \<Rightarrow> bool" where
  "digit_unit c \<longleftrightarrow> 48 \<le> c \<and> c \<le> 57"

definition units_value :: "units \<Rightarrow> nat" where
  "units_value = foldl (\<lambda>a c. 10 * a + (c - 48)) 0"

text \<open>The parts of \<open>JSON_NUMBER\<close>: sign, whole digits, fraction and exponent, and what follows the match.\<close>

definition match_sign :: "units \<Rightarrow> units \<times> units" where
  "match_sign s = (case s of c # cs \<Rightarrow> if c = 45 then ([c], cs) else ([], s) | [] \<Rightarrow> ([], s))"

definition match_whole :: "units \<Rightarrow> (units \<times> units) option" where
  "match_whole s = (case s of
       [] \<Rightarrow> None
     | c # cs \<Rightarrow> if c = 48 then Some ([c], cs)
         else if digit_unit c then Some (takeWhile digit_unit s, dropWhile digit_unit s) else None)"

definition match_fraction :: "units \<Rightarrow> units \<times> units" where
  "match_fraction s = (case s of
       [] \<Rightarrow> ([], s)
     | c # cs \<Rightarrow> if c = 46 \<and> takeWhile digit_unit cs \<noteq> []
         then (c # takeWhile digit_unit cs, dropWhile digit_unit cs) else ([], s))"

definition match_exponent :: "units \<Rightarrow> units \<times> units \<times> units" where
  "match_exponent s = (case s of
       [] \<Rightarrow> ([], [], s)
     | c # cs \<Rightarrow>
         if c = 101 \<or> c = 69 then
           (let (sign, ds) = (case cs of d # r \<Rightarrow> if d = 43 \<or> d = 45 then ([d], r) else ([], cs) | [] \<Rightarrow> ([], cs)) in
            if takeWhile digit_unit ds \<noteq> [] then (c # sign, takeWhile digit_unit ds, dropWhile digit_unit ds)
            else ([], [], s))
         else ([], [], s))"

text \<open>
  \<open>Number.isFinite(Number(raw))\<close>: the decimal value is below the bound at which rounding to a double
  gives infinity.
\<close>

definition finite_bound :: int where "finite_bound = 2 ^ 1024 - 2 ^ 970"

definition finite_number :: "units \<Rightarrow> units \<Rightarrow> units \<Rightarrow> units \<Rightarrow> bool" where
  "finite_number whole fraction expMark expDigits \<longleftrightarrow>
     (let mantissa = int (units_value (whole @ tl fraction));
          e = (if 45 \<in> set expMark then - int (units_value expDigits) else int (units_value expDigits)) - int (length (tl fraction)) in
      if e \<ge> 0 then mantissa * 10 ^ nat e < finite_bound else mantissa < finite_bound * 10 ^ nat (- e))"

definition ends_number :: "units \<Rightarrow> bool" where
  "ends_number s \<longleftrightarrow> (case s of [] \<Rightarrow> True | c # _ \<Rightarrow> c \<in> set [44, 93, 125, 32, 9, 13, 10])"

text \<open>The match of \<open>JSON_NUMBER\<close> at the start of the input.\<close>

record number_match =
  nm_sign :: units
  nm_whole :: units
  nm_fraction :: units
  nm_expMark :: units
  nm_expDigits :: units

definition match_number :: "units \<Rightarrow> (number_match \<times> units) option" where
  "match_number s =
     (let (sign, s1) = match_sign s in
      case match_whole s1 of
        None \<Rightarrow> None
      | Some (whole, s2) \<Rightarrow>
          (let (fraction, s3) = match_fraction s2; (expMark, expDigits, s4) = match_exponent s3 in
           Some (\<lparr>nm_sign = sign, nm_whole = whole, nm_fraction = fraction, nm_expMark = expMark, nm_expDigits = expDigits\<rparr>, s4)))"

definition nm_raw :: "number_match \<Rightarrow> units" where
  "nm_raw m = nm_sign m @ nm_whole m @ nm_fraction m @ nm_expMark m @ nm_expDigits m"

definition nm_finite :: "number_match \<Rightarrow> bool" where
  "nm_finite m = finite_number (nm_whole m) (nm_fraction m) (nm_expMark m) (nm_expDigits m)"

definition isIntegerToken :: "number_match \<Rightarrow> bool" where
  "isIntegerToken m \<longleftrightarrow> nm_fraction m = [] \<and> nm_expMark m = []"

definition nm_integer :: "number_match \<Rightarrow> int" where
  "nm_integer m = (if nm_sign m = [] then int (units_value (nm_whole m)) else - int (units_value (nm_whole m)))"

definition number_token :: "number_match \<Rightarrow> strict_json" where
  "number_token m = SNum (nm_raw m) (if isIntegerToken m then Some (nm_integer m) else None)"

definition parseNumber :: "units \<Rightarrow> (strict_json \<times> units) result" where
  "parseNumber s = (case match_number s of
       None \<Rightarrow> Inl invalid_json
     | Some (m, rest) \<Rightarrow>
         if \<not> ends_number rest then Inl invalid_json
         else if \<not> nm_finite m then Inl non_finite_number
         else if isIntegerToken m \<and> \<not> is_safe_integer (nm_integer m) then Inl unsafe_integer
         else Inr (number_token m, rest))"

definition isStrictJsonNumber :: "strict_json \<Rightarrow> bool" where
  "isStrictJsonNumber v = (case v of
       SNum raw n \<Rightarrow> (case match_number raw of
           None \<Rightarrow> False
         | Some (m, rest) \<Rightarrow> rest = [] \<and> nm_finite m \<and>
             n = (if isIntegerToken m then Some (nm_integer m) else None) \<and>
             (\<not> isIntegerToken m \<or> is_safe_integer (nm_integer m)))
     | _ \<Rightarrow> False)"

section \<open>The parser\<close>

definition whitespace :: "nat \<Rightarrow> bool" where
  "whitespace c \<longleftrightarrow> c = 32 \<or> c = 9 \<or> c = 13 \<or> c = 10"

definition skipWhitespace :: "units \<Rightarrow> units" where
  "skipWhitespace = dropWhile whitespace"

definition consumeLiteral :: "units \<Rightarrow> units \<Rightarrow> units option" where
  "consumeLiteral literal s = (if take (length literal) s = literal then Some (drop (length literal) s) else None)"

definition TRUE_UNITS :: units where "TRUE_UNITS = [116, 114, 117, 101]"
definition FALSE_UNITS :: units where "FALSE_UNITS = [102, 97, 108, 115, 101]"
definition NULL_UNITS :: units where "NULL_UNITS = [110, 117, 108, 108]"

text \<open>Values that start with neither a brace nor a bracket.\<close>

definition parse_scalar :: "units \<Rightarrow> (strict_json \<times> units) result" where
  "parse_scalar s = (case s of
       [] \<Rightarrow> parseNumber s
     | c # cs \<Rightarrow>
         if c = 34 then and_then (parseString cs) (\<lambda>(text, rest). Inr (SStr text, rest))
         else case (if c = 116 then consumeLiteral TRUE_UNITS s else None) of
             Some rest \<Rightarrow> Inr (SBool True, rest)
           | None \<Rightarrow> (case (if c = 102 then consumeLiteral FALSE_UNITS s else None) of
               Some rest \<Rightarrow> Inr (SBool False, rest)
             | None \<Rightarrow> (case (if c = 110 then consumeLiteral NULL_UNITS s else None) of
                 Some rest \<Rightarrow> Inr (SNull, rest)
               | None \<Rightarrow> parseNumber s)))"

text \<open>
  \<open>parseValue\<close>, the loop of \<open>parseObject\<close> and the loop of \<open>parseArray\<close>. They thread the number of
  values counted so far and the unread input; the loops also carry what they have collected.
\<close>

lemma and_then_cong [fundef_cong]:
  "r = r' \<Longrightarrow> (\<And>x. r' = Inr x \<Longrightarrow> f x = f' x) \<Longrightarrow> and_then r f = and_then r' f'"
  by (cases r') simp_all

text \<open>The next unit that is not white space, with what follows it; the end of the input is an error at every such place.\<close>

definition next_unit :: "units \<Rightarrow> (nat \<times> units) result" where
  "next_unit s = (case skipWhitespace s of [] \<Rightarrow> Inl invalid_json | c # cs \<Rightarrow> Inr (c, cs))"

function parseValue :: "nat \<Rightarrow> nat \<Rightarrow> units \<Rightarrow> (strict_json \<times> nat \<times> units) result"
  and parse_members :: "nat \<Rightarrow> nat \<Rightarrow> (units \<times> strict_json) list \<Rightarrow> units \<Rightarrow> (strict_json \<times> nat \<times> units) result"
  and parse_items :: "nat \<Rightarrow> nat \<Rightarrow> strict_json list \<Rightarrow> units \<Rightarrow> (strict_json \<times> nat \<times> units) result"
where
  "parseValue depth nodes s =
     (if depth > MAX_DEPTH then Inl too_deep
      else if nodes + 1 > MAX_NODES then Inl too_many_values
      else case s of
          [] \<Rightarrow> Inl invalid_json
        | c # cs \<Rightarrow>
            if c = 123 then
              and_then (next_unit cs) (\<lambda>(d, ds).
                if d = 125 then Inr (SObj [], nodes + 1, ds)
                else parse_members (depth + 1) (nodes + 1) [] (d # ds))
            else if c = 91 then
              and_then (next_unit cs) (\<lambda>(d, ds).
                if d = 93 then Inr (SArr [], nodes + 1, ds)
                else parse_items (depth + 1) (nodes + 1) [] (d # ds))
            else and_then (parse_scalar s) (\<lambda>(v, rest). Inr (v, nodes + 1, rest)))"
| "parse_members depth nodes acc s =
     (case s of
        [] \<Rightarrow> Inl invalid_json
      | c # cs \<Rightarrow>
          if c \<noteq> 34 then Inl invalid_json
          else and_then (parseString cs) (\<lambda>(key, s1).
            if key \<in> fst ` set acc then Inl duplicate_key
            else and_then (next_unit s1) (\<lambda>(d, ds).
              if d \<noteq> 58 then Inl invalid_json
              else and_then (parseValue depth nodes (skipWhitespace ds)) (\<lambda>(v, nodes', s2).
                and_then (next_unit s2) (\<lambda>(e, es).
                  if e = 125 then Inr (SObj (acc @ [(key, v)]), nodes', es)
                  else if e \<noteq> 44 then Inl invalid_json
                  else parse_members depth nodes' (acc @ [(key, v)]) (skipWhitespace es))))))"
| "parse_items depth nodes acc s =
     (if s = [] then Inl invalid_json
      else and_then (parseValue depth nodes s) (\<lambda>(v, nodes', s2).
        and_then (next_unit s2) (\<lambda>(e, es).
          if e = 93 then Inr (SArr (acc @ [v]), nodes', es)
          else if e \<noteq> 44 then Inl invalid_json
          else parse_items depth nodes' (acc @ [v]) (skipWhitespace es))))"
  by pat_completeness auto

text \<open>No operation lengthens the unread input.\<close>

lemma length_skipWhitespace: "length (skipWhitespace s) \<le> length s"
  by (simp add: skipWhitespace_def length_dropWhile_le)

lemma next_unit_length: "next_unit s = Inr (c, cs) \<Longrightarrow> length cs < length s"
  using length_skipWhitespace[of s] by (auto simp: next_unit_def split: list.splits)

lemma scan_string_length: "scan_string escaped s = Some (body, rest) \<Longrightarrow> length rest < length s"
  by (induction s arbitrary: escaped body) (auto split: if_splits simp: less_Suc_eq)

lemma parseString_length: "parseString s = Inr (text, rest) \<Longrightarrow> length rest < length s"
  by (auto simp: parseString_def dest: scan_string_length split: option.splits if_splits)

lemma parseNumber_length: "parseNumber s = Inr (v, rest) \<Longrightarrow> length rest \<le> length s"
proof -
  have sign: "length (snd (match_sign t)) \<le> length t" for t by (auto simp: match_sign_def split: list.splits)
  have whole: "length r \<le> length t" if "match_whole t = Some (w, r)" for t w r
    using that length_dropWhile_le[of digit_unit t] by (auto simp: match_whole_def split: list.splits if_splits)
  have frac: "length (snd (match_fraction t)) \<le> length t" for t
    using length_dropWhile_le[of digit_unit] by (auto simp: match_fraction_def le_SucI split: list.splits)
  have expo: "length (snd (snd (match_exponent t))) \<le> length t" for t
    using length_dropWhile_le[of digit_unit] by (auto simp: match_exponent_def Let_def le_SucI split: list.splits)
  assume "parseNumber s = Inr (v, rest)"
  then obtain m where "match_number s = Some (m, rest)"
    by (auto simp: parseNumber_def split: option.split_asm if_split_asm prod.split_asm)
  then obtain sign s1 whole s2 fraction s3 e d where m: "match_sign s = (sign, s1)" "match_whole s1 = Some (whole, s2)"
    "match_fraction s2 = (fraction, s3)" "match_exponent s3 = (e, d, rest)"
    by (auto simp: match_number_def Let_def split: prod.splits option.splits)
  from sign[of s] whole[OF m(2)] frac[of s2] expo[of s3] show ?thesis by (simp add: m)
qed

lemma parse_scalar_length: "parse_scalar s = Inr (v, rest) \<Longrightarrow> length rest \<le> length s"
  by (auto simp: parse_scalar_def consumeLiteral_def and_then_Inr_iff
      dest: parseNumber_length parseString_length split: list.splits if_splits option.splits)

lemma parse_length_partial:
  "parseValue_parse_members_parse_items_dom (Inl (depth, nodes, s)) \<Longrightarrow>
     parseValue depth nodes s = Inr (v, nodes', rest) \<Longrightarrow> length rest \<le> length s"
  "parseValue_parse_members_parse_items_dom (Inr (Inl (depth, nodes, acc, s))) \<Longrightarrow>
     parse_members depth nodes acc s = Inr (v, nodes', rest) \<Longrightarrow> length rest \<le> length s"
  "parseValue_parse_members_parse_items_dom (Inr (Inr (depth, nodes, items, s))) \<Longrightarrow>
     parse_items depth nodes items s = Inr (v, nodes', rest) \<Longrightarrow> length rest \<le> length s"
proof (induction arbitrary: v nodes' rest and v nodes' rest and v nodes' rest rule: parseValue_parse_members_parse_items.pinduct)
  case (1 depth nodes s)
  then show ?case
    by (fastforce simp: parseValue.psimps and_then_Inr_iff dest: parse_scalar_length next_unit_length split: if_splits list.splits)
next
  case (2 depth nodes acc s)
  from 2(4) obtain cs key s1 ds v1 n1 s2 e es where o: "s = 34 # cs" "parseString cs = Inr (key, s1)" "key \<notin> fst ` set acc"
    "next_unit s1 = Inr (58, ds)" "parseValue depth nodes (skipWhitespace ds) = Inr (v1, n1, s2)" "next_unit s2 = Inr (e, es)"
    and rest: "rest = es \<or> e \<noteq> 125 \<and> e = 44 \<and> parse_members depth n1 (acc @ [(key, v1)]) (skipWhitespace es) = Inr (v, nodes', rest)"
    unfolding parse_members.psimps[OF 2(1)] by (auto simp: and_then_Inr_iff split: list.split_asm if_split_asm)
  have "length s2 \<le> length (skipWhitespace ds)"
    using 2(2)[OF o(1) _ o(2) _ _ o(4)] o by auto
  moreover have "length rest \<le> length (skipWhitespace es) \<or> rest = es"
    using rest 2(3)[OF o(1) _ o(2) _ _ o(4) _ _ o(5) _ _ o(6)] o(3) by auto
  ultimately show ?case
    using o(1) parseString_length[OF o(2)] next_unit_length[OF o(4)] next_unit_length[OF o(6)] length_skipWhitespace[of ds]
      length_skipWhitespace[of es]
    by auto
next
  case (3 depth nodes items s)
  from 3(4) obtain v1 n1 s2 e es where o: "s \<noteq> []" "parseValue depth nodes s = Inr (v1, n1, s2)" "next_unit s2 = Inr (e, es)"
    and rest: "rest = es \<or> e \<noteq> 93 \<and> e = 44 \<and> parse_items depth n1 (items @ [v1]) (skipWhitespace es) = Inr (v, nodes', rest)"
    unfolding parse_items.psimps[OF 3(1)] by (auto simp: and_then_Inr_iff split: if_split_asm)
  have "length s2 \<le> length s" using 3(2) o by auto
  moreover have "length rest \<le> length (skipWhitespace es) \<or> rest = es"
    using rest 3(3)[OF o(1,2) _ _ o(3)] by auto
  ultimately show ?case using next_unit_length[OF o(3)] length_skipWhitespace[of es] by auto
qed

definition parse_measure :: "(nat \<times> nat \<times> units) + (nat \<times> nat \<times> (units \<times> strict_json) list \<times> units) + (nat \<times> nat \<times> strict_json list \<times> units) \<Rightarrow> nat" where
  "parse_measure x = (case x of Inl (_, _, s) \<Rightarrow> 2 * length s
     | Inr (Inl (_, _, _, s)) \<Rightarrow> 2 * length s + 1 | Inr (Inr (_, _, _, s)) \<Rightarrow> 2 * length s + 1)"

termination parseValue
proof (relation "measure parse_measure", goal_cases)
  case (2 depth nodes s c cs p d ds)
  then show ?case by (auto simp: parse_measure_def dest!: next_unit_length)
next
  case (3 depth nodes s c cs p d ds)
  then show ?case by (auto simp: parse_measure_def dest!: next_unit_length)
next
  case (4 depth nodes acc s c cs p key s1 q d ds)
  then show ?case using length_skipWhitespace[of ds] by (auto simp: parse_measure_def dest!: next_unit_length parseString_length)
next
  case (5 depth nodes acc s c cs p key s1 q d ds r v r' nodes' s2 u e es)
  then have "length s2 \<le> length (skipWhitespace ds)" by (auto intro: parse_length_partial(1))
  with 5 length_skipWhitespace[of ds] length_skipWhitespace[of es] show ?case
    by (auto simp: parse_measure_def dest!: next_unit_length parseString_length)
next
  case (7 depth nodes acc s p v q nodes' s2 u e es)
  then have "length s2 \<le> length s" by (auto intro: parse_length_partial(1))
  with 7 length_skipWhitespace[of es] show ?case by (auto simp: parse_measure_def dest!: next_unit_length)
qed (auto simp: parse_measure_def)

declare parseValue.simps [simp del] parse_members.simps [simp del] parse_items.simps [simp del]

section \<open>Reading bytes\<close>

definition continuation :: "nat \<Rightarrow> bool" where
  "continuation b \<longleftrightarrow> 0x80 \<le> b \<and> b \<le> 0xBF"

text \<open>The code units of a code point.\<close>

definition utf16_units :: "nat \<Rightarrow> units" where
  "utf16_units p = (if p < 0x10000 then [p]
     else [0xD800 + (p - 0x10000) div 0x400, 0xDC00 + (p - 0x10000) mod 0x400])"

text \<open>\<open>TextDecoder\<close> for UTF-8 in fatal mode: \<open>None\<close> where it throws.\<close>

fun utf8_decode :: "nat list \<Rightarrow> units option" where
  "utf8_decode [] = Some []"
| "utf8_decode (a # bs) =
     (if a < 0x80 then map_option ((#) a) (utf8_decode bs)
      else if 0xC2 \<le> a \<and> a \<le> 0xDF then
        (case bs of
           b # r \<Rightarrow> if continuation b
             then map_option ((@) (utf16_units ((a - 0xC0) * 64 + (b - 0x80)))) (utf8_decode r) else None
         | _ \<Rightarrow> None)
      else if 0xE0 \<le> a \<and> a \<le> 0xEF then
        (case bs of
           b # c # r \<Rightarrow>
             if continuation b \<and> continuation c \<and> (a = 0xE0 \<longrightarrow> 0xA0 \<le> b) \<and> (a = 0xED \<longrightarrow> b \<le> 0x9F)
             then map_option ((@) (utf16_units (((a - 0xE0) * 64 + (b - 0x80)) * 64 + (c - 0x80)))) (utf8_decode r) else None
         | _ \<Rightarrow> None)
      else if 0xF0 \<le> a \<and> a \<le> 0xF4 then
        (case bs of
           b # c # d # r \<Rightarrow>
             if continuation b \<and> continuation c \<and> continuation d \<and> (a = 0xF0 \<longrightarrow> 0x90 \<le> b) \<and> (a = 0xF4 \<longrightarrow> b \<le> 0x8F)
             then map_option ((@) (utf16_units ((((a - 0xF0) * 64 + (b - 0x80)) * 64 + (c - 0x80)) * 64 + (d - 0x80)))) (utf8_decode r)
             else None
         | _ \<Rightarrow> None)
      else None)"

text \<open>A byte order mark at the start is not part of the text.\<close>

definition strip_bom :: "nat list \<Rightarrow> nat list" where
  "strip_bom bytes = (if take 3 bytes = [0xEF, 0xBB, 0xBF] then drop 3 bytes else bytes)"

definition parse_units :: "units \<Rightarrow> strict_json result" where
  "parse_units source =
     and_then (parseValue 0 0 (skipWhitespace source)) (\<lambda>(v, _, rest).
       if skipWhitespace rest \<noteq> [] then Inl invalid_json else Inr v)"

definition parseStrictJson :: "nat list \<Rightarrow> strict_json result" where
  "parseStrictJson bytes = (case utf8_decode (strip_bom bytes) of
       None \<Rightarrow> Inl invalid_utf8
     | Some source \<Rightarrow> parse_units source)"

section \<open>What an accepted value satisfies\<close>

fun count_values :: "strict_json \<Rightarrow> nat" where
  "count_values (SArr vs) = Suc (sum_list (map count_values vs))"
| "count_values (SObj kvs) = Suc (sum_list (map (\<lambda>kv. count_values (snd kv)) kvs))"
| "count_values _ = 1"

fun nesting :: "strict_json \<Rightarrow> nat" where
  "nesting (SArr vs) = fold (\<lambda>v n. max (Suc (nesting v)) n) vs 0"
| "nesting (SObj kvs) = fold (\<lambda>kv n. max (Suc (nesting (snd kv))) n) kvs 0"
| "nesting _ = 0"

text \<open>Distinct keys, and number tokens that \<open>isStrictJsonNumber\<close> recognizes, throughout the value.\<close>

fun strict_value :: "strict_json \<Rightarrow> bool" where
  "strict_value (SArr vs) = list_all strict_value vs"
| "strict_value (SObj kvs) = (distinct (map fst kvs) \<and> list_all (\<lambda>kv. strict_value (snd kv)) kvs)"
| "strict_value (SNum raw n) = isStrictJsonNumber (SNum raw n)"
| "strict_value (SStr s) = (\<not> hasUnpairedSurrogate s)"
| "strict_value _ = True"
subsection \<open>Number tokens\<close>

definition number_shape :: "number_match \<Rightarrow> bool" where
  "number_shape m \<longleftrightarrow> (nm_sign m = [] \<or> nm_sign m = [45]) \<and>
     (nm_whole m = [48] \<or> nm_whole m \<noteq> [] \<and> hd (nm_whole m) \<noteq> 48 \<and> list_all digit_unit (nm_whole m)) \<and>
     (nm_fraction m = [] \<or> (\<exists>ds. nm_fraction m = 46 # ds \<and> ds \<noteq> [] \<and> list_all digit_unit ds)) \<and>
     (nm_expMark m = [] \<and> nm_expDigits m = [] \<or>
      (\<exists>c sg. nm_expMark m = c # sg \<and> (c = 101 \<or> c = 69) \<and> (sg = [] \<or> sg = [43] \<or> sg = [45])) \<and>
        nm_expDigits m \<noteq> [] \<and> list_all digit_unit (nm_expDigits m))"

lemma takeWhile_all: "list_all P xs \<Longrightarrow> (ys = [] \<or> \<not> P (hd ys)) \<Longrightarrow> takeWhile P (xs @ ys) = xs \<and> dropWhile P (xs @ ys) = ys"
  by (cases ys) (auto simp: list_all_iff takeWhile_append dropWhile_append)

lemma list_all_takeWhile: "list_all P (takeWhile P xs)"
  by (induction xs) auto

lemma match_sign_props: "match_sign s = (sg, r) \<Longrightarrow> s = sg @ r \<and> (sg = [] \<or> sg = [45])"
  by (auto simp: match_sign_def split: list.splits if_splits)

lemma match_whole_props:
  "match_whole s = Some (w, r) \<Longrightarrow> s = w @ r \<and> (w = [48] \<or> w \<noteq> [] \<and> hd w \<noteq> 48 \<and> list_all digit_unit w)"
  by (auto simp: match_whole_def list_all_takeWhile split: list.splits if_splits)

lemma match_fraction_props:
  "match_fraction s = (f, r) \<Longrightarrow> s = f @ r \<and> (f = [] \<or> (\<exists>ds. f = 46 # ds \<and> ds \<noteq> [] \<and> list_all digit_unit ds))"
  by (auto simp: match_fraction_def list_all_takeWhile split: list.splits if_splits)

lemma match_exponent_props:
  "match_exponent s = (e, d, r) \<Longrightarrow> s = e @ d @ r \<and> (e = [] \<and> d = [] \<or>
     (\<exists>c sg. e = c # sg \<and> (c = 101 \<or> c = 69) \<and> (sg = [] \<or> sg = [43] \<or> sg = [45])) \<and> d \<noteq> [] \<and> list_all digit_unit d)"
  by (auto simp: match_exponent_def Let_def list_all_takeWhile split: list.splits if_splits prod.splits)

lemma match_number_props:
  assumes "match_number s = Some (m, rest)"
  shows "s = nm_raw m @ rest" "number_shape m"
proof -
  from assms obtain sg s1 w s2 f s3 e d where m: "match_sign s = (sg, s1)" "match_whole s1 = Some (w, s2)"
    "match_fraction s2 = (f, s3)" "match_exponent s3 = (e, d, rest)"
    "m = \<lparr>nm_sign = sg, nm_whole = w, nm_fraction = f, nm_expMark = e, nm_expDigits = d\<rparr>"
    by (auto simp: match_number_def Let_def split: prod.splits option.splits)
  note p = match_sign_props[OF m(1)] match_whole_props[OF m(2)] match_fraction_props[OF m(3)] match_exponent_props[OF m(4)]
  show "s = nm_raw m @ rest" using p by (simp add: m(5) nm_raw_def)
  show "number_shape m" using p by (simp add: m(5) number_shape_def)
qed

text \<open>A token is matched again wherever nothing that follows it can extend it.\<close>

definition stops_number :: "units \<Rightarrow> bool" where
  "stops_number r \<longleftrightarrow> (case r of [] \<Rightarrow> True | c # _ \<Rightarrow> \<not> digit_unit c \<and> c \<noteq> 46 \<and> c \<noteq> 101 \<and> c \<noteq> 69)"

lemma units_digit: "digit_unit 48" "\<not> digit_unit 45" "\<not> digit_unit 46" "\<not> digit_unit 43" "\<not> digit_unit 101" "\<not> digit_unit 69"
  by (simp_all add: digit_unit_def)

lemma match_exponent_again:
  assumes "e = [] \<and> d = [] \<or> (\<exists>c sg. e = c # sg \<and> (c = 101 \<or> c = 69) \<and> (sg = [] \<or> sg = [43] \<or> sg = [45])) \<and> d \<noteq> [] \<and> list_all digit_unit d"
    and r: "stops_number r"
  shows "match_exponent (e @ d @ r) = (e, d, r)"
proof -
  consider "e = []" "d = []" | c sg where "e = c # sg" "c = 101 \<or> c = 69" "sg = [] \<or> sg = [43] \<or> sg = [45]"
    "d \<noteq> []" "list_all digit_unit d" using assms(1) by blast
  then show ?thesis
  proof cases
  case 1
  with r show ?thesis by (auto simp: match_exponent_def stops_number_def split: list.splits)
next
  case (2 c sg)
  note e = 2(1,2) and sg = 2(3) and d = 2(4,5)
  have t: "takeWhile digit_unit (d @ r) = d \<and> dropWhile digit_unit (d @ r) = r"
    using d r by (intro takeWhile_all) (auto simp: stops_number_def split: list.splits)
  obtain x xs where "d = x # xs" "digit_unit x" using d by (cases d) auto
  then have "x \<noteq> 43" "x \<noteq> 45" by (auto simp: digit_unit_def)
  with e sg d t \<open>d = x # xs\<close> show ?thesis by (auto simp: match_exponent_def)
  qed
qed

lemma match_fraction_again:
  assumes "f = [] \<or> (\<exists>ds. f = 46 # ds \<and> ds \<noteq> [] \<and> list_all digit_unit ds)" and "r = [] \<or> \<not> digit_unit (hd r) \<and> hd r \<noteq> 46"
  shows "match_fraction (f @ r) = (f, r)"
  using assms(1)
proof (elim disjE exE conjE)
  assume "f = []"
  with assms(2) show ?thesis by (cases r) (auto simp: match_fraction_def)
next
  fix ds assume f: "f = 46 # ds" "ds \<noteq> []" "list_all digit_unit ds"
  then have "takeWhile digit_unit (ds @ r) = ds \<and> dropWhile digit_unit (ds @ r) = r"
    using assms(2) by (intro takeWhile_all) auto
  then show ?thesis unfolding f(1) match_fraction_def append_Cons list.case using f(2) by (elim conjE) (simp only: if_True simp_thms)
qed

lemma match_number_again:
  assumes shape: "number_shape m" and r: "stops_number r"
  shows "match_number (nm_raw m @ r) = Some (m, r)"
proof -
  let ?e = "nm_expMark m" and ?d = "nm_expDigits m" and ?f = "nm_fraction m" and ?w = "nm_whole m"
  let ?er = "?e @ ?d @ r"
  have hd_r: "r = [] \<or> \<not> digit_unit (hd r) \<and> hd r \<noteq> 46" using r by (cases r) (auto simp: stops_number_def)
  have sign: "nm_sign m = [] \<or> nm_sign m = [45]"
    and w: "?w = [48] \<or> ?w \<noteq> [] \<and> hd ?w \<noteq> 48 \<and> list_all digit_unit ?w"
    and f: "?f = [] \<or> (\<exists>ds. ?f = 46 # ds \<and> ds \<noteq> [] \<and> list_all digit_unit ds)"
    and e: "?e = [] \<and> ?d = [] \<or> (\<exists>c sg. ?e = c # sg \<and> (c = 101 \<or> c = 69) \<and> (sg = [] \<or> sg = [43] \<or> sg = [45])) \<and>
      ?d \<noteq> [] \<and> list_all digit_unit ?d"
    using shape unfolding number_shape_def by blast+
  have er: "?er = [] \<or> \<not> digit_unit (hd ?er) \<and> hd ?er \<noteq> 46"
  proof (cases "?e = []")
    case True
    with e hd_r show ?thesis by auto
  next
    case False
    with e obtain c sg where "?e = c # sg" "c = 101 \<or> c = 69" by blast
    with units_digit show ?thesis by auto
  qed
  have fer: "?f @ ?er = [] \<or> \<not> digit_unit (hd (?f @ ?er))" using f er units_digit(3) by (cases "?f") auto
  have "match_exponent ?er = (?e, ?d, r)" by (rule match_exponent_again[OF e r])
  moreover have "match_fraction (?f @ ?er) = (?f, ?er)" by (rule match_fraction_again[OF f er])
  moreover have "match_whole (?w @ ?f @ ?er) = Some (?w, ?f @ ?er)"
  proof (cases "?w = [48]")
    case False
    with w have w: "?w \<noteq> []" "hd ?w \<noteq> 48" "list_all digit_unit ?w" by blast+
    then obtain x xs where x: "?w = x # xs" "digit_unit x" "x \<noteq> 48" by (cases ?w) auto
    with takeWhile_all[OF w(3) fer] show ?thesis by (simp add: match_whole_def)
  qed (simp add: match_whole_def)
  moreover have "match_sign (nm_raw m @ r) = (nm_sign m, ?w @ ?f @ ?er)"
  proof -
    from w obtain x xs where x: "?w = x # xs" "x \<noteq> 45" using units_digit(2) by (cases ?w) auto
    from sign show ?thesis by (rule disjE) (simp_all add: nm_raw_def match_sign_def x)
  qed
  ultimately show ?thesis by (simp add: match_number_def)
qed

lemma parseNumber_strict: "parseNumber s = Inr (v, rest) \<Longrightarrow> strict_value v \<and> count_values v = 1 \<and> nesting v = 0"
proof -
  assume "parseNumber s = Inr (v, rest)"
  then obtain m where m: "match_number s = Some (m, rest)" "nm_finite m" "isIntegerToken m \<longrightarrow> is_safe_integer (nm_integer m)"
    and v: "v = number_token m"
    by (auto simp: parseNumber_def split: option.split_asm if_split_asm prod.split_asm)
  have "match_number (nm_raw m) = Some (m, [])"
    using match_number_again[OF match_number_props(2)[OF m(1)], of "[]"] by (simp add: stops_number_def)
  with m show ?thesis by (auto simp: v number_token_def isStrictJsonNumber_def)
qed

lemma parse_scalar_strict: "parse_scalar s = Inr (v, rest) \<Longrightarrow> strict_value v \<and> count_values v = 1 \<and> nesting v = 0"
  by (auto simp: parse_scalar_def consumeLiteral_def and_then_Inr_iff parseString_def
      dest!: parseNumber_strict split: list.splits if_splits option.splits)
subsection \<open>Accepted values\<close>

lemma fold_max_le: "fold (\<lambda>v n. max (f v) n) vs a \<le> m \<longleftrightarrow> a \<le> m \<and> (\<forall>v\<in>set vs. f v \<le> m)" for m :: nat
  by (induction vs arbitrary: a) auto

lemma nesting_le:
  "nesting (SArr vs) \<le> m \<longleftrightarrow> (\<forall>v\<in>set vs. Suc (nesting v) \<le> m)"
  "nesting (SObj kvs) \<le> m \<longleftrightarrow> (\<forall>kv\<in>set kvs. Suc (nesting (snd kv)) \<le> m)"
  by (simp_all add: fold_max_le)

definition accepted_at :: "nat \<Rightarrow> nat \<Rightarrow> strict_json \<Rightarrow> nat \<Rightarrow> bool" where
  "accepted_at depth nodes v nodes' \<longleftrightarrow> strict_value v \<and> nodes' = nodes + count_values v \<and> nodes' \<le> MAX_NODES \<and>
     depth + nesting v \<le> MAX_DEPTH"

definition members_accepted :: "nat \<Rightarrow> nat \<Rightarrow> (units \<times> strict_json) list \<Rightarrow> strict_json \<Rightarrow> nat \<Rightarrow> bool" where
  "members_accepted depth nodes acc v nodes' \<longleftrightarrow> (\<exists>kvs. v = SObj (acc @ kvs) \<and>
     (distinct (map fst acc) \<longrightarrow> distinct (map fst (acc @ kvs))) \<and>
     (\<forall>kv\<in>set kvs. strict_value (snd kv) \<and> depth + nesting (snd kv) \<le> MAX_DEPTH) \<and>
     nodes' = nodes + sum_list (map (\<lambda>kv. count_values (snd kv)) kvs) \<and> nodes' \<le> MAX_NODES)"

definition items_accepted :: "nat \<Rightarrow> nat \<Rightarrow> strict_json list \<Rightarrow> strict_json \<Rightarrow> nat \<Rightarrow> bool" where
  "items_accepted depth nodes acc v nodes' \<longleftrightarrow> (\<exists>vs. v = SArr (acc @ vs) \<and>
     (\<forall>w\<in>set vs. strict_value w \<and> depth + nesting w \<le> MAX_DEPTH) \<and>
     nodes' = nodes + sum_list (map count_values vs) \<and> nodes' \<le> MAX_NODES)"

lemma members_accepted_Cons:
  assumes "accepted_at depth nodes w n1" and "key \<notin> fst ` set acc" and "members_accepted depth n1 (acc @ [(key, w)]) v nodes'"
  shows "members_accepted depth nodes acc v nodes'"
proof -
  from assms(3) obtain kvs where k: "v = SObj ((acc @ [(key, w)]) @ kvs)"
    "distinct (map fst (acc @ [(key, w)])) \<longrightarrow> distinct (map fst ((acc @ [(key, w)]) @ kvs))"
    "\<forall>kv\<in>set kvs. strict_value (snd kv) \<and> depth + nesting (snd kv) \<le> MAX_DEPTH"
    "nodes' = n1 + sum_list (map (\<lambda>kv. count_values (snd kv)) kvs)" "nodes' \<le> MAX_NODES"
    unfolding members_accepted_def by blast
  with assms(1,2) show ?thesis
    unfolding members_accepted_def accepted_at_def by (intro exI[of _ "(key, w) # kvs"]) auto
qed

lemma items_accepted_Cons:
  assumes "accepted_at depth nodes w n1" and "items_accepted depth n1 (acc @ [w]) v nodes'"
  shows "items_accepted depth nodes acc v nodes'"
proof -
  from assms(2) obtain vs where k: "v = SArr ((acc @ [w]) @ vs)"
    "\<forall>w\<in>set vs. strict_value w \<and> depth + nesting w \<le> MAX_DEPTH"
    "nodes' = n1 + sum_list (map count_values vs)" "nodes' \<le> MAX_NODES"
    unfolding items_accepted_def by blast
  with assms(1) show ?thesis
    unfolding items_accepted_def accepted_at_def by (intro exI[of _ "w # vs"]) auto
qed

lemma accepted_closed:
  "\<not> depth > MAX_DEPTH \<Longrightarrow> members_accepted (depth + 1) (nodes + 1) [] v nodes' \<Longrightarrow> accepted_at depth nodes v nodes'"
  "\<not> depth > MAX_DEPTH \<Longrightarrow> items_accepted (depth + 1) (nodes + 1) [] v nodes' \<Longrightarrow> accepted_at depth nodes v nodes'"
proof -
  assume d: "\<not> depth > MAX_DEPTH"
  have le: "depth + nesting w \<le> MAX_DEPTH \<longleftrightarrow> nesting w \<le> MAX_DEPTH - depth" for w using d by linarith
  have member_le: "Suc n \<le> MAX_DEPTH - depth" if "depth + 1 + n \<le> MAX_DEPTH" for n using that by linarith
  show "accepted_at depth nodes v nodes'" if "members_accepted (depth + 1) (nodes + 1) [] v nodes'"
    using that member_le unfolding members_accepted_def accepted_at_def le
    by (auto simp del: nesting.simps simp: nesting_le list_all_iff)
  show "accepted_at depth nodes v nodes'" if "items_accepted (depth + 1) (nodes + 1) [] v nodes'"
    using that member_le unfolding items_accepted_def accepted_at_def le
    by (auto simp del: nesting.simps simp: nesting_le list_all_iff)
qed

lemma parse_accepted:
  "parseValue depth nodes s = Inr (v, nodes', rest) \<Longrightarrow> accepted_at depth nodes v nodes'"
  "parse_members depth nodes acc s = Inr (v, nodes', rest) \<Longrightarrow> members_accepted depth nodes acc v nodes'"
  "parse_items depth nodes items s = Inr (v, nodes', rest) \<Longrightarrow> items_accepted depth nodes items v nodes'"
proof (induction arbitrary: v nodes' rest and v nodes' rest and v nodes' rest rule: parseValue_parse_members_parse_items.induct)
  case (1 depth nodes s)
  from 1(3) have depth: "\<not> depth > MAX_DEPTH" "\<not> nodes + 1 > MAX_NODES"
    by (auto simp: parseValue.simps[of depth] split: if_split_asm)
  with 1(3) obtain c cs where s: "s = c # cs" by (cases s) (auto simp: parseValue.simps[of depth])
  consider (obj) d ds where "c = 123" "next_unit cs = Inr (d, ds)" | (arr) d ds where "c = 91" "next_unit cs = Inr (d, ds)"
    | (scalar) "c \<noteq> 123" "c \<noteq> 91"
    using 1(3) by (fastforce simp: parseValue.simps[of depth] s and_then_Inr_iff split: if_split_asm)
  then show ?case
  proof cases
    case (obj d ds)
    then have "d = 125 \<and> v = SObj [] \<and> nodes' = nodes + 1 \<or> d \<noteq> 125 \<and> parse_members (depth + 1) (nodes + 1) [] (d # ds) = Inr (v, nodes', rest)"
      using 1(3) depth s by (auto simp: parseValue.simps[of depth] split: if_split_asm)
    then show ?thesis
    proof
      assume "d \<noteq> 125 \<and> parse_members (depth + 1) (nodes + 1) [] (d # ds) = Inr (v, nodes', rest)"
      then have "members_accepted (depth + 1) (nodes + 1) [] v nodes'"
        using 1(1)[OF depth s obj(1,2), of d ds v nodes' rest] by simp
      then show ?thesis by (rule accepted_closed(1)[OF depth(1)])
    qed (use depth in \<open>simp add: accepted_at_def\<close>)
  next
    case (arr d ds)
    then have "d = 93 \<and> v = SArr [] \<and> nodes' = nodes + 1 \<or> d \<noteq> 93 \<and> parse_items (depth + 1) (nodes + 1) [] (d # ds) = Inr (v, nodes', rest)"
      using 1(3) depth s by (auto simp: parseValue.simps[of depth] split: if_split_asm)
    then show ?thesis
    proof
      assume "d \<noteq> 93 \<and> parse_items (depth + 1) (nodes + 1) [] (d # ds) = Inr (v, nodes', rest)"
      then have "items_accepted (depth + 1) (nodes + 1) [] v nodes'"
        using 1(2)[OF depth s _ arr(1,2), of d ds v nodes' rest] arr(1) by simp
      then show ?thesis by (rule accepted_closed(2)[OF depth(1)])
    qed (use depth in \<open>simp add: accepted_at_def\<close>)
  next
    case scalar
    with 1(3) depth s have "nodes' = nodes + 1" "\<exists>r. parse_scalar s = Inr (v, r)"
      by (auto simp: parseValue.simps[of depth] and_then_Inr_iff)
    with depth parse_scalar_strict show ?thesis by (fastforce simp: accepted_at_def)
  qed
next
  case (2 depth nodes acc s)
  from 2(3) obtain cs key s1 ds v1 n1 s2 e es where o: "s = 34 # cs" "parseString cs = Inr (key, s1)" "key \<notin> fst ` set acc"
    "next_unit s1 = Inr (58, ds)" "parseValue depth nodes (skipWhitespace ds) = Inr (v1, n1, s2)" "next_unit s2 = Inr (e, es)"
    and last: "v = SObj (acc @ [(key, v1)]) \<and> nodes' = n1 \<or>
      e \<noteq> 125 \<and> e = 44 \<and> parse_members depth n1 (acc @ [(key, v1)]) (skipWhitespace es) = Inr (v, nodes', rest)"
    unfolding parse_members.simps[of depth nodes acc s] by (auto simp: and_then_Inr_iff split: list.split_asm if_split_asm)
  have here: "accepted_at depth nodes v1 n1" using 2(1)[OF o(1) _ o(2) _ _ o(4)] o by auto
  from last have "members_accepted depth n1 (acc @ [(key, v1)]) v nodes'"
  proof
    assume "v = SObj (acc @ [(key, v1)]) \<and> nodes' = n1"
    with here show ?thesis by (auto simp: members_accepted_def accepted_at_def)
  next
    assume "e \<noteq> 125 \<and> e = 44 \<and> parse_members depth n1 (acc @ [(key, v1)]) (skipWhitespace es) = Inr (v, nodes', rest)"
    then show ?thesis using 2(2)[OF o(1) _ o(2) _ _ o(4) _ _ o(5) _ _ o(6)] o(3) by auto
  qed
  with here o(3) show ?case by (rule members_accepted_Cons)
next
  case (3 depth nodes items s)
  from 3(3) obtain v1 n1 s2 e es where o: "s \<noteq> []" "parseValue depth nodes s = Inr (v1, n1, s2)" "next_unit s2 = Inr (e, es)"
    and last: "v = SArr (items @ [v1]) \<and> nodes' = n1 \<or>
      e \<noteq> 93 \<and> e = 44 \<and> parse_items depth n1 (items @ [v1]) (skipWhitespace es) = Inr (v, nodes', rest)"
    unfolding parse_items.simps[of depth nodes items s] by (auto simp: and_then_Inr_iff split: if_split_asm)
  have here: "accepted_at depth nodes v1 n1" using 3(1) o by auto
  from last have "items_accepted depth n1 (items @ [v1]) v nodes'"
  proof
    assume "v = SArr (items @ [v1]) \<and> nodes' = n1"
    with here show ?thesis by (auto simp: items_accepted_def accepted_at_def)
  next
    assume "e \<noteq> 93 \<and> e = 44 \<and> parse_items depth n1 (items @ [v1]) (skipWhitespace es) = Inr (v, nodes', rest)"
    then show ?thesis using 3(2)[OF o(1,2) _ _ o(3)] by auto
  qed
  with here show ?case by (rule items_accepted_Cons)
qed

section \<open>Surrogates\<close>

fun well_paired :: "units \<Rightarrow> bool" where
  "well_paired [] = True"
| "well_paired (c # cs) =
     (if high_surrogate c then (case cs of [] \<Rightarrow> False | n # ns \<Rightarrow> low_surrogate n \<and> well_paired ns)
      else \<not> low_surrogate c \<and> well_paired cs)"

lemma not_low: "n < 0xdc00 \<or> n > 0xdfff \<longleftrightarrow> \<not> low_surrogate n"
  by (auto simp: low_surrogate_def)

lemma well_paired_snoc_high: "well_paired t \<Longrightarrow> high_surrogate c \<Longrightarrow> \<not> hasUnpairedSurrogate (t @ [c])"
  by (induction t rule: well_paired.induct) (auto simp: not_low split: list.splits if_splits)

lemma well_paired_ok: "well_paired t \<Longrightarrow> \<not> hasUnpairedSurrogate t"
  by (induction t rule: well_paired.induct) (auto simp: not_low split: list.splits if_splits)

lemma paired_or_trailing:
  "\<not> hasUnpairedSurrogate s \<Longrightarrow> well_paired s \<or> (\<exists>t c. s = t @ [c] \<and> well_paired t \<and> high_surrogate c)"
proof (induction s rule: hasUnpairedSurrogate.induct)
  case (2 c cs)
  show ?case
  proof (cases "high_surrogate c")
    case True
    show ?thesis
    proof (cases cs)
      case Nil
      with True show ?thesis by (intro disjI2 exI[of _ "[]"]) simp
    next
      case (Cons n ns)
      with 2(3) True have low: "low_surrogate n" "\<not> hasUnpairedSurrogate ns" by (auto simp: low_surrogate_def split: if_split_asm)
      then have "well_paired ns \<or> (\<exists>t c. ns = t @ [c] \<and> well_paired t \<and> high_surrogate c)"
        using 2(1)[OF True Cons] by (auto simp: low_surrogate_def)
      then show ?thesis
      proof
        assume "\<exists>t c. ns = t @ [c] \<and> well_paired t \<and> high_surrogate c"
        then obtain t h where "ns = t @ [h]" "well_paired t" "high_surrogate h" by blast
        with True Cons low(1) show ?thesis by (intro disjI2 exI[of _ "c # n # t"] exI[of _ h]) simp
      qed (use True Cons low(1) in simp)
    qed
  next
    case False
    with 2(3) have "\<not> low_surrogate c" "\<not> hasUnpairedSurrogate cs" by (auto split: if_split_asm)
    with 2(2)[OF False] have "well_paired cs \<or> (\<exists>t c. cs = t @ [c] \<and> well_paired t \<and> high_surrogate c)" by blast
    then show ?thesis
    proof
      assume "\<exists>t c. cs = t @ [c] \<and> well_paired t \<and> high_surrogate c"
      then obtain t h where "cs = t @ [h]" "well_paired t" "high_surrogate h" by blast
      with False \<open>\<not> low_surrogate c\<close> show ?thesis by (intro disjI2 exI[of _ "c # t"] exI[of _ h]) simp
    qed (use False \<open>\<not> low_surrogate c\<close> in simp)
  qed
qed simp

text \<open>
  C24. The surrogate test rejects every unpaired surrogate but one: a string passes exactly when it is
  well-formed UTF-16, or when it is well-formed up to a single high surrogate at its very end, which
  the comparison with NaN lets through.
\<close>

theorem surrogate_test_misses_trailing_high:
  "\<not> hasUnpairedSurrogate s \<longleftrightarrow> well_paired s \<or> (\<exists>t c. s = t @ [c] \<and> well_paired t \<and> high_surrogate c)"
  using well_paired_ok well_paired_snoc_high paired_or_trailing by blast


end
