(* ===== verification/Strict_Round_Trip.thy ===== *)
theory Strict_Round_Trip
  imports Strict_Json
begin

text \<open>
  The strict reader reads back what the canonical serializer writes: the round trip of
  \<open>strict-json.ts\<close> with \<open>canonicalStringify\<close>, through the UTF-8 encoding.
\<close>

section \<open>Text as code units\<close>

definition units_of :: "string \<Rightarrow> units" where
  "units_of s = map code_unit s"

lemma units_of_simps [simp]:
  "units_of [] = []" "units_of (c # s) = code_unit c # units_of s" "units_of (s @ t) = units_of s @ units_of t"
  by (simp_all add: units_of_def)

fun strict_of :: "json \<Rightarrow> strict_json" where
  "strict_of JNull = SNull"
| "strict_of (JBool b) = SBool b"
| "strict_of (JNum n) = SNum (units_of (js_number n)) (Some n)"
| "strict_of (JStr s) = SStr (units_of s)"
| "strict_of (JArr vs) = SArr (map strict_of vs)"
| "strict_of (JObj kvs) = SObj (map (\<lambda>(k, v). (units_of k, strict_of v)) kvs)"

text \<open>Values within the limits of the reader.\<close>

fun readable :: "json \<Rightarrow> bool" where
  "readable (JNum n) = is_safe_integer n"
| "readable (JArr vs) = list_all readable vs"
| "readable (JObj kvs) = (distinct (map fst kvs) \<and> list_all (\<lambda>kv. readable (snd kv)) kvs)"
| "readable _ = True"

section \<open>Bytes\<close>

lemma utf8_unit_decode: "utf8_decode (utf8_unit c @ bs) = map_option ((#) (code_unit c)) (utf8_decode bs)"
proof (cases "code_unit c < 128")
  case False
  let ?u = "code_unit c"
  have u: "128 \<le> ?u" "?u < 256" using False code_unit_less_256[of c] by auto
  then have d: "2 \<le> ?u div 64" "?u div 64 \<le> 3" by auto
  have "?u div 64 * 64 + ?u mod 64 = ?u" by simp
  then have "utf16_units (?u div 64 * 64 + ?u mod 64) = [?u]" using u by (simp add: utf16_units_def)
  moreover have "continuation (128 + ?u mod 64)" by (simp add: continuation_def)
  ultimately show ?thesis using d False by (cases "utf8_decode bs") (auto simp: utf8_unit_def)
qed (simp add: utf8_unit_def)

lemma utf8_round_trip: "utf8_decode (utf8_encode s) = Some (units_of s)"
  by (induction s) (simp_all add: utf8_encode_def utf8_unit_decode)

lemma no_bom: "strip_bom (utf8_encode s) = utf8_encode s"
proof (cases s)
  case (Cons c t)
  have "hd (utf8_unit c) \<noteq> 0xEF" using code_unit_less_256[of c] by (simp add: utf8_unit_def) linarith
  then have "take 3 (utf8_encode s) \<noteq> [0xEF, 0xBB, 0xBF]"
    using Cons by (cases "utf8_unit c") (auto simp: utf8_encode_def numeral_3_eq_3)
  then show ?thesis by (simp add: strip_bom_def)
qed (simp add: strip_bom_def utf8_encode_def)

section \<open>Strings\<close>

lemma code_units: "code_unit CHR 0x22 = 34" "code_unit CHR 0x5C = 92" "code_unit CHR ''b'' = 98" "code_unit CHR ''f'' = 102"
  "code_unit CHR ''n'' = 110" "code_unit CHR ''r'' = 114" "code_unit CHR ''t'' = 116" "code_unit CHR ''u'' = 117"
  "code_unit CHR ''0'' = 48" "code_unit CHR 0x08 = 8" "code_unit CHR 0x0C = 12" "code_unit CHR 0x0A = 10" "code_unit CHR 0x0D = 13"
  "code_unit CHR 0x09 = 9" "code_unit CHR '','' = 44" "code_unit CHR '':'' = 58" "code_unit CHR ''['' = 91" "code_unit CHR '']'' = 93"
  "code_unit CHR ''{'' = 123" "code_unit CHR ''}'' = 125" "code_unit CHR ''-'' = 45" "code_unit CHR ''e'' = 101"
  "code_unit CHR ''a'' = 97" "code_unit CHR ''l'' = 108" "code_unit CHR ''s'' = 115"
  by (simp_all add: code_unit_def)

lemma hex_digit_unit: "n < 16 \<Longrightarrow> hex_unit (code_unit (hex_digit n)) = Some n \<and> code_unit (hex_digit n) \<ge> 48 \<and> code_unit (hex_digit n) \<noteq> 92"
proof -
  have "\<forall>n<16. hex_unit (code_unit (hex_digit n)) = Some n \<and> code_unit (hex_digit n) \<ge> 48 \<and> code_unit (hex_digit n) \<noteq> 92"
    unfolding all_less_16 by code_simp
  then show "n < 16 \<Longrightarrow> hex_unit (code_unit (hex_digit n)) = Some n \<and> code_unit (hex_digit n) \<ge> 48 \<and> code_unit (hex_digit n) \<noteq> 92" by blast
qed

lemma code_unit_eqD: "code_unit c = n \<Longrightarrow> c = char_of n"
  using char_of_code_unit[of c] by simp

lemma scan_escape:
  "scan_string False (units_of (json_escape c) @ t) =
     map_option (\<lambda>(body, rest). (units_of (json_escape c) @ body, rest)) (scan_string False t)"
proof -
  have h: "hex_unit (code_unit (hex_digit n)) = Some n \<and> code_unit (hex_digit n) \<ge> 48 \<and> code_unit (hex_digit n) \<noteq> 92" if "n < 16" for n
    using hex_digit_unit[OF that] .
  have d: "code_unit c div 16 < 16" using code_unit_less_256[of c] by simp
  have n34: "c \<noteq> CHR 0x22 \<Longrightarrow> code_unit c \<noteq> 34" and n92: "c \<noteq> CHR 0x5C \<Longrightarrow> code_unit c \<noteq> 92"
    using code_units(1,2) code_unit_inject by metis+
  show ?thesis
    using h[OF d] h[of "code_unit c mod 16"] n34 n92
    by (cases "scan_string False t") (auto simp: json_escape_def code_units)
qed

lemma decode_escape: "decode_string (units_of (json_escape c) @ t) = map_option ((#) (code_unit c)) (decode_string t)"
proof -
  have n34: "c \<noteq> CHR 0x22 \<Longrightarrow> code_unit c \<noteq> 34" and n92: "c \<noteq> CHR 0x5C \<Longrightarrow> code_unit c \<noteq> 92"
    using code_units(1,2) code_unit_inject by metis+
  have d: "code_unit c div 16 < 16" using code_unit_less_256[of c] by simp
  have hex0: "hex_unit 48 = Some 0" by (simp add: hex_unit_def)
  show ?thesis
    using hex_digit_unit[OF d] hex_digit_unit[of "code_unit c mod 16"] n34 n92
    by (cases "decode_string t") (auto simp: json_escape_def code_units simple_escape_def hex0)
qed

lemma scan_quoted:
  "scan_string False (units_of (concat (map json_escape s)) @ 34 # r) = Some (units_of (concat (map json_escape s)), r)"
  by (induction s) (simp_all add: scan_escape)

lemma decode_quoted: "decode_string (units_of (concat (map json_escape s))) = Some (units_of s)"
  by (induction s) (simp_all add: decode_escape)

lemma no_surrogates: "\<not> hasUnpairedSurrogate (units_of s)"
proof (induction s)
  case (Cons c s)
  have "code_unit c < 256" by (rule code_unit_less_256)
  then have "\<not> high_surrogate (code_unit c)" "\<not> low_surrogate (code_unit c)" by (simp_all add: high_surrogate_def low_surrogate_def)
  with Cons show ?case by simp
qed simp

lemma parseString_quoted: "parseString (units_of (concat (map json_escape s)) @ 34 # r) = Inr (units_of s, r)"
  by (simp add: parseString_def scan_quoted decode_quoted no_surrogates)

lemma quote_units: "units_of (json_quote s) = 34 # units_of (concat (map json_escape s)) @ [34]"
  by (simp add: json_quote_def code_units)
section \<open>Numbers\<close>

lemma units_value_digits: "units_value (units_of s) = digits_value s"
proof -
  have "foldl (\<lambda>a c. 10 * a + (c - 48)) a (units_of s) = foldl (\<lambda>a c. 10 * a + (code_unit c - 48)) a s" for a :: nat
    by (induction s arbitrary: a) simp_all
  then show ?thesis by (simp add: units_value_def digits_value_def)
qed

lemma units_value_Nil: "units_value [] = 0"
  by (simp add: units_value_def)

lemma nat_digits_no_leading_zero: "0 < n \<Longrightarrow> hd (nat_digits n) \<noteq> CHR ''0''"
proof (induction n rule: nat_digits.induct)
  case (1 n)
  show ?case
  proof (cases "n < 10")
    case True
    with 1(2) have "code_unit (digit_char n) \<noteq> 48" by (simp add: digit_char_code)
    with True show ?thesis using code_units(9) by (auto simp: nat_digits.simps[of n])
  next
    case False
    with 1 nat_digits_props[of "n div 10"] show ?thesis by (simp add: nat_digits.simps[of n])
  qed
qed

definition integer_match :: "int \<Rightarrow> number_match" where
  "integer_match n = \<lparr>nm_sign = (if n < 0 then [45] else []), nm_whole = units_of (nat_digits (nat \<bar>n\<bar>)),
     nm_fraction = [], nm_expMark = [], nm_expDigits = []\<rparr>"

lemma integer_match_raw: "nm_raw (integer_match n) = units_of (js_number n)"
  by (simp add: integer_match_def nm_raw_def js_number_def code_units)

lemma integer_match_shape: "number_shape (integer_match n)"
proof (cases "n = 0")
  case True
  then show ?thesis by (simp add: number_shape_def integer_match_def nat_digits.simps[of 0] digit_char_code)
next
  case False
  let ?ds = "nat_digits (nat \<bar>n\<bar>)"
  from False nat_digits_no_leading_zero[of "nat \<bar>n\<bar>"] have z: "hd ?ds \<noteq> CHR ''0''" by simp
  have p: "?ds \<noteq> []" "list_all is_digit ?ds" using nat_digits_props[of "nat \<bar>n\<bar>"] by simp_all
  from z p(1) have "hd (units_of ?ds) \<noteq> 48"
    using code_units(9) code_unit_inject by (cases ?ds) (simp, metis list.sel(1) units_of_simps(2))
  moreover have "list_all digit_unit (units_of ?ds)"
    using p(2) by (simp add: units_of_def list_all_iff digit_unit_def is_digit_def)
  ultimately show ?thesis using p(1) by (simp add: number_shape_def integer_match_def units_of_def)
qed

lemma integer_match_value: "nm_integer (integer_match n) = n"
  using nat_digits_props[of "nat \<bar>n\<bar>"] by (simp add: nm_integer_def integer_match_def units_value_digits)

lemma integer_match_finite: "is_safe_integer n \<Longrightarrow> nm_finite (integer_match n)"
proof -
  assume n: "is_safe_integer n"
  have "(2::int) ^ 53 < finite_bound" by (simp add: finite_bound_def)
  moreover have "\<bar>n\<bar> < 2 ^ 53" using n by (simp add: is_safe_integer_def MAX_SAFE_INTEGER_def abs_less_iff)
  ultimately show "nm_finite (integer_match n)"
    using nat_digits_props[of "nat \<bar>n\<bar>"]
    by (simp add: nm_finite_def finite_number_def integer_match_def units_value_digits units_value_Nil)
qed

text \<open>What may follow a value inside a canonical text.\<close>

definition ends_units :: "units \<Rightarrow> bool" where
  "ends_units r \<longleftrightarrow> r = [] \<or> hd r \<in> {44, 93, 125}"

lemma ends_units_ends: "ends_units r \<Longrightarrow> ends_number r \<and> stops_number r"
  by (cases r) (auto simp: ends_units_def ends_number_def stops_number_def digit_unit_def)

lemma parseNumber_integer:
  assumes "is_safe_integer n" and "ends_units r"
  shows "parseNumber (units_of (js_number n) @ r) = Inr (SNum (units_of (js_number n)) (Some n), r)"
proof -
  have "match_number (units_of (js_number n) @ r) = Some (integer_match n, r)"
    using match_number_again[OF integer_match_shape] ends_units_ends[OF assms(2)] by (simp add: integer_match_raw)
  moreover have "number_token (integer_match n) = SNum (units_of (js_number n)) (Some n)"
    by (simp add: number_token_def integer_match_raw integer_match_value isIntegerToken_def) (simp add: integer_match_def)
  ultimately show ?thesis
    using assms integer_match_finite[OF assms(1)] ends_units_ends[OF assms(2)] by (simp add: parseNumber_def integer_match_value)
qed

section \<open>Whole values\<close>

text \<open>The first unit of a text, and that it is no white space and closes nothing.\<close>

lemma first_unit:
  "\<exists>c cs. units_of (json_text v) = c # cs \<and> \<not> whitespace c \<and> c \<noteq> 93 \<and> c \<noteq> 125"
proof -
  obtain c cs where c: "json_text v = c # cs" "starts_as v c" using json_text_starts[of v] by blast
  have "\<not> whitespace (code_unit c) \<and> code_unit c \<noteq> 93 \<and> code_unit c \<noteq> 125"
    using c(2) by (cases v) (auto simp: whitespace_def code_units number_start_def is_digit_def)
  with c(1) show ?thesis by simp
qed

lemma skip_value: "skipWhitespace (units_of (json_text v) @ r) = units_of (json_text v) @ r"
  using first_unit[of v] by (auto simp: skipWhitespace_def)

lemma next_unit_visible: "\<not> whitespace c \<Longrightarrow> next_unit (c # r) = Inr (c, r)"
  by (simp add: next_unit_def skipWhitespace_def)

lemma visible_units: "\<not> whitespace 44" "\<not> whitespace 58" "\<not> whitespace 93" "\<not> whitespace 125" "\<not> whitespace 34"
  by (simp_all add: whitespace_def)

lemma scalar_read:
  assumes "readable v" and "ends_units r" and "\<And>vs. v \<noteq> JArr vs" and "\<And>kvs. v \<noteq> JObj kvs"
  shows "parse_scalar (units_of (json_text v) @ r) = Inr (strict_of v, r)"
proof (cases v)
  case (JNum n)
  obtain c cs where c: "json_text v = c # cs" "starts_as v c" using json_text_starts[of v] by blast
  with JNum have "code_unit c \<noteq> 34" "code_unit c \<noteq> 116" "code_unit c \<noteq> 102" "code_unit c \<noteq> 110"
    by (auto simp: number_start_def is_digit_def code_units)
  moreover have "parseNumber (code_unit c # units_of cs @ r) = Inr (SNum (units_of (js_number n)) (Some n), r)"
    using parseNumber_integer[of n r] assms(1,2) JNum c(1) by simp
  ultimately show ?thesis using c(1) JNum by (simp add: parse_scalar_def)
next
  case (JStr s)
  then show ?thesis by (simp add: quote_units parse_scalar_def parseString_quoted)
qed (use assms in \<open>auto simp: parse_scalar_def code_units consumeLiteral_def TRUE_UNITS_def FALSE_UNITS_def NULL_UNITS_def\<close>)

text \<open>One value read in place.\<close>

definition reads :: "json \<Rightarrow> bool" where
  "reads v \<longleftrightarrow> (\<forall>d n r. ends_units r \<longrightarrow> d + nesting (strict_of v) \<le> MAX_DEPTH \<longrightarrow> n + count_values (strict_of v) \<le> MAX_NODES \<longrightarrow>
     parseValue d n (units_of (json_text v) @ r) = Inr (strict_of v, n + count_values (strict_of v), r))"

lemma count_pos: "0 < count_values v"
  by (cases v) simp_all

lemma reads_scalar:
  assumes "readable v" and "\<And>vs. v \<noteq> JArr vs" and "\<And>kvs. v \<noteq> JObj kvs"
  shows "reads v"
  unfolding reads_def
proof (intro allI impI)
  fix d n r assume r: "ends_units r" and d: "d + nesting (strict_of v) \<le> MAX_DEPTH" and n: "n + count_values (strict_of v) \<le> MAX_NODES"
  obtain c cs where c: "json_text v = c # cs" "starts_as v c" using json_text_starts[of v] by blast
  have "code_unit c \<noteq> 123" "code_unit c \<noteq> 91"
    using c(2) assms(2,3) by (cases v; auto simp: number_start_def is_digit_def code_units)+
  moreover have "count_values (strict_of v) = 1" using assms(2,3) by (cases v) auto
  ultimately show "parseValue d n (units_of (json_text v) @ r) = Inr (strict_of v, n + count_values (strict_of v), r)"
    using scalar_read[OF assms(1) r assms(2,3)] d n c(1) by (simp add: parseValue.simps[of d])
qed

lemma items_read:
  assumes "\<And>v. v \<in> set (w # ws) \<Longrightarrow> reads v"
    and "\<And>v. v \<in> set (w # ws) \<Longrightarrow> d + nesting (strict_of v) \<le> MAX_DEPTH"
    and "n + sum_list (map (\<lambda>v. count_values (strict_of v)) (w # ws)) \<le> MAX_NODES"
  shows "parse_items d n acc (units_of (js_join '','' (map json_text (w # ws))) @ 93 # r) =
     Inr (SArr (acc @ map strict_of (w # ws)), n + sum_list (map (\<lambda>v. count_values (strict_of v)) (w # ws)), r)"
  using assms
proof (induction ws arbitrary: w n acc)
  case Nil
  then have "parseValue d n (units_of (json_text w) @ 93 # r) = Inr (strict_of w, n + count_values (strict_of w), 93 # r)"
    by (simp add: reads_def ends_units_def)
  moreover obtain c cs where "units_of (json_text w) = c # cs" using first_unit[of w] by blast
  ultimately show ?case by (simp add: parse_items.simps[of d] next_unit_visible visible_units)
next
  case (Cons x xs)
  let ?t = "44 # units_of (js_join '','' (map json_text (x # xs))) @ 93 # r" and ?n = "n + count_values (strict_of w)"
  have here: "parseValue d n (units_of (json_text w) @ ?t) = Inr (strict_of w, ?n, ?t)"
    using Cons.prems by (simp add: reads_def ends_units_def)
  have more: "parse_items d ?n (acc @ [strict_of w]) (tl ?t) =
     Inr (SArr ((acc @ [strict_of w]) @ map strict_of (x # xs)), ?n + sum_list (map (\<lambda>v. count_values (strict_of v)) (x # xs)), r)"
    using Cons.IH[of x ?n "acc @ [strict_of w]"] Cons.prems by (simp add: add.assoc)
  have "skipWhitespace (tl ?t) = tl ?t"
    using first_unit[of x] by (cases xs) (auto simp: skipWhitespace_def)
  moreover obtain c cs where "units_of (json_text w) = c # cs" using first_unit[of w] by blast
  ultimately show ?case
    using here more by (simp add: parse_items.simps[of d n] next_unit_visible visible_units code_units add.assoc)
qed

abbreviation member_text :: "string \<times> json \<Rightarrow> string" where
  "member_text kv \<equiv> json_quote (fst kv) @ '':'' @ json_text (snd kv)"

abbreviation strict_member :: "string \<times> json \<Rightarrow> units \<times> strict_json" where
  "strict_member kv \<equiv> (units_of (fst kv), strict_of (snd kv))"

lemma units_of_inject: "units_of s = units_of t \<longleftrightarrow> s = t"
  unfolding units_of_def by (rule inj_map_eq_map) (simp add: inj_def code_unit_inject)

lemma member_step:
  assumes "reads (snd kv)" and "d + nesting (strict_of (snd kv)) \<le> MAX_DEPTH" and "n + count_values (strict_of (snd kv)) \<le> MAX_NODES"
    and "units_of (fst kv) \<notin> fst ` set acc" and "e \<in> {44, 125}"
  shows "parse_members d n acc (units_of (member_text kv) @ e # r) =
     (if e = 125 then Inr (SObj (acc @ [strict_member kv]), n + count_values (strict_of (snd kv)), r)
      else parse_members d (n + count_values (strict_of (snd kv))) (acc @ [strict_member kv]) (skipWhitespace r))"
proof -
  have "parseValue d n (units_of (json_text (snd kv)) @ e # r) = Inr (strict_of (snd kv), n + count_values (strict_of (snd kv)), e # r)"
    using assms by (auto simp: reads_def ends_units_def)
  moreover have "\<not> whitespace e" using assms(5) visible_units by auto
  ultimately show ?thesis
    using assms(4,5)
    by (auto simp: parse_members.simps[of d n] quote_units parseString_quoted next_unit_visible visible_units code_units skip_value)
qed

lemma members_read:
  assumes "\<And>kv. kv \<in> set (w # ws) \<Longrightarrow> reads (snd kv)"
    and "\<And>kv. kv \<in> set (w # ws) \<Longrightarrow> d + nesting (strict_of (snd kv)) \<le> MAX_DEPTH"
    and "n + sum_list (map (\<lambda>kv. count_values (strict_of (snd kv))) (w # ws)) \<le> MAX_NODES"
    and "distinct (map fst acc @ map (\<lambda>kv. units_of (fst kv)) (w # ws))"
  shows "parse_members d n acc (units_of (js_join '','' (map member_text (w # ws))) @ 125 # r) =
     Inr (SObj (acc @ map strict_member (w # ws)), n + sum_list (map (\<lambda>kv. count_values (strict_of (snd kv))) (w # ws)), r)"
  using assms
proof (induction ws arbitrary: w n acc)
  case Nil
  then show ?case using member_step[of w d n acc 125 r] by simp
next
  case (Cons x xs)
  let ?t = "units_of (js_join '','' (map member_text (x # xs))) @ 125 # r" and ?n = "n + count_values (strict_of (snd w))"
  have skip: "skipWhitespace ?t = ?t"
    by (cases xs) (simp_all add: quote_units skipWhitespace_def visible_units)
  have joined: "units_of (js_join '','' (map member_text (w # x # xs))) @ 125 # r = units_of (member_text w) @ 44 # ?t"
    by (simp add: code_units)
  have more: "parse_members d ?n (acc @ [strict_member w]) ?t =
     Inr (SObj ((acc @ [strict_member w]) @ map strict_member (x # xs)), ?n + sum_list (map (\<lambda>kv. count_values (strict_of (snd kv))) (x # xs)), r)"
    using Cons.IH[of x ?n "acc @ [strict_member w]"] Cons.prems by (simp add: add.assoc)
  have "units_of (fst w) \<notin> fst ` set acc" using Cons.prems(4) by auto
  then have "parse_members d n acc (units_of (member_text w) @ 44 # ?t) = parse_members d ?n (acc @ [strict_member w]) (skipWhitespace ?t)"
    using member_step[of w d n acc 44 ?t] Cons.prems by simp
  then show ?case unfolding joined skip more by (simp add: add.assoc)
qed

lemma strict_of_obj: "strict_of (JObj kvs) = SObj (map strict_member kvs)"
  by (auto simp: case_prod_unfold)

lemma json_text_obj: "json_text (JObj kvs) = ''{'' @ js_join '','' (map member_text kvs) @ ''}''"
  by (simp add: case_prod_unfold)

lemma inner_limits:
  "d + nesting (SArr vs) \<le> MAX_DEPTH \<Longrightarrow> v \<in> set vs \<Longrightarrow> d + 1 + nesting v \<le> MAX_DEPTH"
  "d + nesting (SObj kvs) \<le> MAX_DEPTH \<Longrightarrow> kv \<in> set kvs \<Longrightarrow> d + 1 + nesting (snd kv) \<le> MAX_DEPTH"
proof -
  assume "d + nesting (SArr vs) \<le> MAX_DEPTH" "v \<in> set vs"
  moreover have "Suc (nesting v) \<le> nesting (SArr vs)" using nesting_le(1)[of vs "nesting (SArr vs)"] \<open>v \<in> set vs\<close> by blast
  ultimately show "d + 1 + nesting v \<le> MAX_DEPTH" by linarith
next
  assume "d + nesting (SObj kvs) \<le> MAX_DEPTH" "kv \<in> set kvs"
  moreover have "Suc (nesting (snd kv)) \<le> nesting (SObj kvs)" using nesting_le(2)[of kvs "nesting (SObj kvs)"] \<open>kv \<in> set kvs\<close> by blast
  ultimately show "d + 1 + nesting (snd kv) \<le> MAX_DEPTH" by linarith
qed

lemma reads_array:
  assumes "\<And>v. v \<in> set vs \<Longrightarrow> reads v"
  shows "reads (JArr vs)"
  unfolding reads_def
proof (intro allI impI)
  fix d n r assume d: "d + nesting (strict_of (JArr vs)) \<le> MAX_DEPTH" and n: "n + count_values (strict_of (JArr vs)) \<le> MAX_NODES"
  show "parseValue d n (units_of (json_text (JArr vs)) @ r) = Inr (strict_of (JArr vs), n + count_values (strict_of (JArr vs)), r)"
  proof (cases vs)
    case Nil
    with d n show ?thesis by (simp add: parseValue.simps[of d] code_units next_unit_visible visible_units)
  next
    case (Cons w ws)
    obtain c cs where c: "units_of (js_join '','' (map json_text (w # ws))) = c # cs" "\<not> whitespace c" "c \<noteq> 93"
      using first_unit[of w] by (cases ws) auto
    have "parse_items (d + 1) (n + 1) [] (units_of (js_join '','' (map json_text (w # ws))) @ 93 # r) =
       Inr (SArr ([] @ map strict_of (w # ws)), (n + 1) + sum_list (map (\<lambda>v. count_values (strict_of v)) (w # ws)), r)"
      using assms Cons n inner_limits(1)[of d "map strict_of vs"] d by (intro items_read) (auto simp: comp_def)
    then show ?thesis
      using d n c by (simp add: Cons parseValue.simps[of d] code_units next_unit_visible comp_def del: js_join.simps list.map)
  qed
qed

lemma reads_object:
  assumes "\<And>kv. kv \<in> set kvs \<Longrightarrow> reads (snd kv)" and "distinct (map fst kvs)"
  shows "reads (JObj kvs)"
  unfolding reads_def
proof (intro allI impI)
  fix d n r assume d: "d + nesting (strict_of (JObj kvs)) \<le> MAX_DEPTH" and n: "n + count_values (strict_of (JObj kvs)) \<le> MAX_NODES"
  show "parseValue d n (units_of (json_text (JObj kvs)) @ r) = Inr (strict_of (JObj kvs), n + count_values (strict_of (JObj kvs)), r)"
  proof (cases kvs)
    case Nil
    with d n show ?thesis by (simp add: parseValue.simps[of d] code_units next_unit_visible visible_units)
  next
    case (Cons w ws)
    obtain cs where c: "units_of (js_join '','' (map member_text (w # ws))) = 34 # cs"
      by (cases ws) (simp_all add: quote_units)
    have "distinct (map (\<lambda>kv. units_of (fst kv)) kvs)"
      using assms(2) by (simp add: distinct_map inj_on_def units_of_inject)
    moreover have "d + 1 + nesting (strict_of (snd kv)) \<le> MAX_DEPTH" if "kv \<in> set kvs" for kv
      using d inner_limits(2)[of d "map strict_member kvs" "strict_member kv"] that unfolding strict_of_obj by auto
    ultimately have "parse_members (d + 1) (n + 1) [] (units_of (js_join '','' (map member_text (w # ws))) @ 125 # r) =
       Inr (SObj ([] @ map strict_member (w # ws)), (n + 1) + sum_list (map (\<lambda>kv. count_values (strict_of (snd kv))) (w # ws)), r)"
      using assms(1) Cons n unfolding strict_of_obj by (intro members_read) (auto simp: comp_def)
    then show ?thesis
      using d n c unfolding json_text_obj strict_of_obj
      by (simp add: Cons parseValue.simps[of d] code_units next_unit_visible visible_units comp_def del: js_join.simps list.map)
  qed
qed

lemma readable_reads: "readable v \<Longrightarrow> reads v"
proof (induction v)
  case (JArr vs)
  then show ?case by (intro reads_array) (auto simp: list_all_iff)
next
  case (JObj kvs)
  then show ?case by (intro reads_object) (auto simp: list_all_iff)
qed (auto intro!: reads_scalar)

section \<open>The round trip\<close>

lemma nesting_mset: "mset vs = mset ws \<Longrightarrow> nesting (SArr vs) = nesting (SArr ws)"
  "mset kvs = mset lws \<Longrightarrow> nesting (SObj kvs) = nesting (SObj lws)"
  by (rule order_antisym; simp only: nesting_le; metis mset_eq_setD nesting_le order_refl)+

lemma sum_list_mset_eq: "mset xs = mset ys \<Longrightarrow> sum_list (map f xs) = sum_list (map f ys)" for f :: "'a \<Rightarrow> nat"
  by (metis mset_map sum_mset_sum_list)

lemma sort_keys_same_limits:
  "readable (sort_keys v) = readable v \<and> nesting (strict_of (sort_keys v)) = nesting (strict_of v) \<and>
   count_values (strict_of (sort_keys v)) = count_values (strict_of v)"
proof (induction v)
  case (JArr vs)
  moreover have "fold (\<lambda>v n. max (Suc (nesting v)) n) ws = fold (\<lambda>m n. max (Suc m) n) (map nesting ws)" for ws
    by (simp add: fold_map comp_def)
  ultimately show ?case by (simp add: list_all_iff comp_def cong: map_cong)
next
  case (JObj kvs)
  let ?ss = "map (\<lambda>(k, v). (k, sort_keys v)) kvs"
  have m: "mset (js_sort key_order ?ss) = mset ?ss" by simp
  have obj: "nesting (strict_of (JObj ?ss)) = nesting (strict_of (JObj kvs))"
    "count_values (strict_of (JObj ?ss)) = count_values (strict_of (JObj kvs))"
  proof -
    have e: "map (\<lambda>kv. nesting (snd kv)) (map strict_member ?ss) = map (\<lambda>kv. nesting (snd kv)) (map strict_member kvs)"
      "map (\<lambda>kv. count_values (snd kv)) (map strict_member ?ss) = map (\<lambda>kv. count_values (snd kv)) (map strict_member kvs)"
      using JObj by auto
    have f: "fold (\<lambda>kv n. max (Suc (nesting (snd kv))) n) ws = fold (\<lambda>m n. max (Suc m) n) (map (\<lambda>kv. nesting (snd kv)) ws)"
      for ws :: "(units \<times> strict_json) list" by (simp add: fold_map comp_def)
    show "nesting (strict_of (JObj ?ss)) = nesting (strict_of (JObj kvs))"
      unfolding strict_of_obj nesting.simps f e ..
    show "count_values (strict_of (JObj ?ss)) = count_values (strict_of (JObj kvs))"
      unfolding strict_of_obj count_values.simps e ..
  qed
  have "distinct (map fst (js_sort key_order ?ss)) = distinct (map fst ?ss)"
    by (rule mset_eq_imp_distinct_iff) (simp only: mset_map m)
  then have "readable (JObj (js_sort key_order ?ss)) = readable (JObj ?ss)"
    using mset_eq_setD[OF m] by (simp only: readable.simps list_all_iff)
  moreover have "readable (JObj ?ss) = readable (JObj kvs)"
    using JObj by (force simp: list_all_iff comp_def case_prod_unfold)
  moreover have "nesting (strict_of (JObj (js_sort key_order ?ss))) = nesting (strict_of (JObj ?ss))"
    unfolding strict_of_obj by (intro nesting_mset) (simp only: mset_map m)
  moreover have "count_values (strict_of (JObj (js_sort key_order ?ss))) = count_values (strict_of (JObj ?ss))"
    unfolding strict_of_obj count_values.simps by (intro arg_cong[of _ _ Suc] sum_list_mset_eq) (simp only: mset_map m)
  ultimately show ?case using obj by (simp only: sort_keys.simps)
qed simp_all

lemma reads_back:
  assumes "readable v" and "nesting (strict_of v) \<le> MAX_DEPTH" and "count_values (strict_of v) \<le> MAX_NODES"
  shows "parseStrictJson (utf8_encode (canonicalStringify v)) = Inr (strict_of (sort_keys v))"
proof -
  let ?w = "sort_keys v"
  have "reads ?w" using assms(1) sort_keys_same_limits readable_reads by blast
  then have "parseValue 0 0 (units_of (json_text ?w) @ []) = Inr (strict_of ?w, 0 + count_values (strict_of ?w), [])"
    using assms(2,3) sort_keys_same_limits[of v] unfolding reads_def by (simp add: ends_units_def)
  moreover have "skipWhitespace (units_of (json_text ?w)) = units_of (json_text ?w)" using skip_value[of ?w "[]"] by simp
  ultimately show ?thesis
    by (simp add: parseStrictJson_def no_bom utf8_round_trip parse_units_def canonicalStringify_json_text) (simp add: skipWhitespace_def)
qed




end
