(* ===== verification/Json_Parse.thy ===== *)
theory Json_Parse
  imports Strict_Round_Trip "HOL-Library.Monad_Syntax"
begin

text \<open>
  \<open>JSON.parse\<close> of the language's library, which the execution edge applies to texts it has stored or
  received from its own parts. It is the grammar of the strict reader without its limits: a repeated
  key overwrites the earlier value and any number is let in. The main fact is that it reads whatever
  the strict reader reads, as the same value, so it also inverts the canonical serializer.
\<close>

section \<open>The parser\<close>

definition json_string :: "units \<Rightarrow> (units \<times> units) option" where
  "json_string s = do { (body, rest) \<leftarrow> scan_string False s; decoded \<leftarrow> decode_string body; Some (decoded, rest) }"

definition json_number :: "units \<Rightarrow> (strict_json \<times> units) option" where
  "json_number s = map_option (\<lambda>(m, rest). (number_token m, rest)) (match_number s)"

definition json_scalar :: "units \<Rightarrow> (strict_json \<times> units) option" where
  "json_scalar s = (case s of
       [] \<Rightarrow> None
     | c # cs \<Rightarrow>
         if c = 34 then map_option (\<lambda>(text, rest). (SStr text, rest)) (json_string cs)
         else if c = 116 then map_option (Pair (SBool True)) (consumeLiteral TRUE_UNITS s)
         else if c = 102 then map_option (Pair (SBool False)) (consumeLiteral FALSE_UNITS s)
         else if c = 110 then map_option (Pair SNull) (consumeLiteral NULL_UNITS s)
         else json_number s)"

text \<open>A member is set: a key keeps its place and takes the later value.\<close>

fun put_member :: "'k \<Rightarrow> 'v \<Rightarrow> ('k \<times> 'v) list \<Rightarrow> ('k \<times> 'v) list" where
  "put_member k v [] = [(k, v)]"
| "put_member k v ((l, w) # kvs) = (if k = l then (l, v) # kvs else (l, w) # put_member k v kvs)"

definition visible_unit :: "units \<Rightarrow> (nat \<times> units) option" where
  "visible_unit s = (case skipWhitespace s of [] \<Rightarrow> None | c # cs \<Rightarrow> Some (c, cs))"

function json_value :: "units \<Rightarrow> (strict_json \<times> units) option"
  and json_members :: "(units \<times> strict_json) list \<Rightarrow> units \<Rightarrow> (strict_json \<times> units) option"
  and json_items :: "strict_json list \<Rightarrow> units \<Rightarrow> (strict_json \<times> units) option"
where
  "json_value s = do {
     (c, cs) \<leftarrow> visible_unit s;
     if c = 123 then do {
       (d, ds) \<leftarrow> visible_unit cs;
       if d = 125 then Some (SObj [], ds) else json_members [] (d # ds) }
     else if c = 91 then do {
       (d, ds) \<leftarrow> visible_unit cs;
       if d = 93 then Some (SArr [], ds) else json_items [] (d # ds) }
     else json_scalar (c # cs) }"
| "json_members acc s = do {
     (c, cs) \<leftarrow> visible_unit s;
     if c \<noteq> 34 then None else do {
     (key, s1) \<leftarrow> json_string cs;
     (d, ds) \<leftarrow> visible_unit s1;
     if d \<noteq> 58 then None else do {
     (v, s2) \<leftarrow> json_value ds;
     (e, es) \<leftarrow> visible_unit s2;
     if e = 125 then Some (SObj (put_member key v acc), es)
     else if e \<noteq> 44 then None
     else json_members (put_member key v acc) es } } }"
| "json_items acc s = do {
     (v, s2) \<leftarrow> json_value s;
     (e, es) \<leftarrow> visible_unit s2;
     if e = 93 then Some (SArr (acc @ [v]), es)
     else if e \<noteq> 44 then None
     else json_items (acc @ [v]) es }"
  by pat_completeness auto

lemma visible_unit_length: "visible_unit s = Some (c, cs) \<Longrightarrow> length cs < length s"
  using length_skipWhitespace[of s] by (auto simp: visible_unit_def split: list.splits)

lemma json_string_length: "json_string s = Some (text, rest) \<Longrightarrow> length rest < length s"
  by (auto simp: json_string_def bind_eq_Some_conv dest: scan_string_length)

lemma match_number_length: "match_number s = Some (m, rest) \<Longrightarrow> length rest \<le> length s"
  using match_number_props(1)[of s m rest] by (metis le_add2 length_append)

lemma json_scalar_length: "json_scalar s = Some (v, rest) \<Longrightarrow> length rest \<le> length s"
  by (auto simp: json_scalar_def json_number_def consumeLiteral_def
      dest: match_number_length json_string_length split: list.splits if_splits)

lemma json_length_partial:
  "json_value_json_members_json_items_dom (Inl s) \<Longrightarrow> json_value s = Some (v, rest) \<Longrightarrow> length rest \<le> length s"
  "json_value_json_members_json_items_dom (Inr (Inl (acc, s))) \<Longrightarrow> json_members acc s = Some (v, rest) \<Longrightarrow> length rest \<le> length s"
  "json_value_json_members_json_items_dom (Inr (Inr (items, s))) \<Longrightarrow> json_items items s = Some (v, rest) \<Longrightarrow> length rest \<le> length s"
proof (induction arbitrary: v rest and v rest and v rest rule: json_value_json_members_json_items.pinduct)
  case (1 s)
  then show ?case
    by (fastforce simp: json_value.psimps bind_eq_Some_conv dest: json_scalar_length visible_unit_length split: if_splits)
next
  case (2 acc s)
  from 2(4) obtain cs key s1 ds v1 s2 e es where o: "visible_unit s = Some (34, cs)" "json_string cs = Some (key, s1)"
    "visible_unit s1 = Some (58, ds)" "json_value ds = Some (v1, s2)" "visible_unit s2 = Some (e, es)"
    and rest: "rest = es \<or> e \<noteq> 125 \<and> e = 44 \<and> json_members (put_member key v1 acc) es = Some (v, rest)"
    unfolding json_members.psimps[OF 2(1)] by (auto simp: bind_eq_Some_conv split: if_split_asm)
  have "length s2 \<le> length ds" using 2(2)[OF o(1) _ _ o(2) _ o(3)] o by auto
  moreover have "length rest \<le> length es"
    using rest 2(3)[OF o(1) _ _ o(2) _ o(3) _ _ o(4) _ o(5)] by auto
  ultimately show ?case
    using json_string_length[OF o(2)] visible_unit_length[OF o(1)] visible_unit_length[OF o(3)] visible_unit_length[OF o(5)] by linarith
next
  case (3 items s)
  from 3(4) obtain v1 s2 e es where o: "json_value s = Some (v1, s2)" "visible_unit s2 = Some (e, es)"
    and rest: "rest = es \<or> e \<noteq> 93 \<and> e = 44 \<and> json_items (items @ [v1]) es = Some (v, rest)"
    unfolding json_items.psimps[OF 3(1)] by (auto simp: bind_eq_Some_conv split: if_split_asm)
  have "length s2 \<le> length s" using 3(2) o by auto
  moreover have "length rest \<le> length es" using rest 3(3)[OF o(1) _ o(2)] by auto
  ultimately show ?case using visible_unit_length[OF o(2)] by linarith
qed

definition json_measure :: "units + ((units \<times> strict_json) list \<times> units) + (strict_json list \<times> units) \<Rightarrow> nat" where
  "json_measure x = (case x of Inl s \<Rightarrow> 2 * length s | Inr (Inl (_, s)) \<Rightarrow> 2 * length s + 1 | Inr (Inr (_, s)) \<Rightarrow> 2 * length s + 1)"

termination json_value
proof (relation "measure json_measure", goal_cases)
  case (5 acc s p c cs q key s1 r d ds u v s2 w e es)
  then have "length s2 \<le> length ds" by (auto intro: json_length_partial(1))
  with 5 show ?case by (auto simp: json_measure_def dest!: visible_unit_length json_string_length)
next
  case (7 acc s p v s2 q e es)
  then have "length s2 \<le> length s" by (auto intro: json_length_partial(1))
  with 7 show ?case by (auto simp: json_measure_def dest!: visible_unit_length)
qed (auto simp: json_measure_def dest!: visible_unit_length json_string_length)

declare json_value.simps [simp del] json_members.simps [simp del] json_items.simps [simp del]

definition JSON_parse :: "units \<Rightarrow> strict_json option" where
  "JSON_parse text = do {
     (v, rest) \<leftarrow> json_value text;
     if skipWhitespace rest \<noteq> [] then None else Some v }"
section \<open>Agreement with the strict reader\<close>

lemma visible_next: "next_unit s = Inr (c, cs) \<Longrightarrow> visible_unit s = Some (c, cs)"
  by (auto simp: next_unit_def visible_unit_def split: list.splits)

lemma visible_skip: "visible_unit (skipWhitespace s) = visible_unit s"
  by (simp add: visible_unit_def skipWhitespace_def)

lemma json_value_skip: "json_value (skipWhitespace s) = json_value s"
  by (simp add: json_value.simps[of s] json_value.simps[of "skipWhitespace s"] visible_skip)

lemma json_members_skip: "json_members acc (skipWhitespace s) = json_members acc s"
  by (simp add: json_members.simps[of acc s] json_members.simps[of acc "skipWhitespace s"] visible_skip)

lemma json_items_skip: "json_items acc (skipWhitespace s) = json_items acc s"
  by (simp add: json_items.simps[of acc s] json_items.simps[of acc "skipWhitespace s"] json_value_skip)

lemma json_string_strict: "parseString s = Inr p \<Longrightarrow> json_string s = Some p"
  by (auto simp: parseString_def json_string_def split: option.split_asm if_split_asm)

lemma json_number_strict: "parseNumber s = Inr p \<Longrightarrow> json_number s = Some p"
  by (auto simp: parseNumber_def json_number_def split: option.split_asm if_split_asm prod.split_asm)

lemma parseNumber_first: "parseNumber (c # cs) = Inr p \<Longrightarrow> c = 45 \<or> digit_unit c"
  by (cases p) (auto simp: parseNumber_def match_number_def match_sign_def match_whole_def units_digit Let_def
      split: option.split_asm if_split_asm prod.split_asm list.split_asm)

lemma parse_scalar_json:
  assumes "parse_scalar s = Inr p"
  shows "json_scalar s = Some p" and "\<exists>c cs. s = c # cs \<and> \<not> whitespace c"
proof -
  from assms obtain c cs where s: "s = c # cs"
    by (cases s) (auto simp: parse_scalar_def parseNumber_def match_number_def match_sign_def match_whole_def)
  have num: "c \<noteq> 34 \<and> c \<noteq> 116 \<and> c \<noteq> 102 \<and> c \<noteq> 110 \<and> \<not> whitespace c" if "parseNumber (c # cs) = Inr p"
    using parseNumber_first[OF that] by (auto simp: digit_unit_def whitespace_def)
  show "json_scalar s = Some p"
    using assms num json_number_strict[of s p] unfolding s parse_scalar_def json_scalar_def list.case
    by (auto simp: and_then_Inr_iff dest!: json_string_strict split: if_split_asm option.split_asm)
  show "\<exists>c cs. s = c # cs \<and> \<not> whitespace c"
    using assms num unfolding s parse_scalar_def list.case
    by (auto simp: whitespace_def split: if_split_asm option.split_asm)
qed

lemma put_member_fresh: "k \<notin> fst ` set kvs \<Longrightarrow> put_member k v kvs = kvs @ [(k, v)]"
  by (induction kvs) auto

lemma strict_reads_json:
  "parseValue depth nodes s = Inr (v, nodes', rest) \<Longrightarrow> json_value s = Some (v, rest)"
  "parse_members depth nodes acc s = Inr (v, nodes', rest) \<Longrightarrow> json_members acc s = Some (v, rest)"
  "parse_items depth nodes items s = Inr (v, nodes', rest) \<Longrightarrow> json_items items s = Some (v, rest)"
proof (induction arbitrary: v nodes' rest and v nodes' rest and v nodes' rest rule: parseValue_parse_members_parse_items.induct)
  case (1 depth nodes s)
  from 1(3) have depth: "\<not> depth > MAX_DEPTH" "\<not> nodes + 1 > MAX_NODES"
    by (auto simp: parseValue.simps[of depth] split: if_split_asm)
  with 1(3) obtain c cs where s: "s = c # cs" by (cases s) (auto simp: parseValue.simps[of depth])
  consider (obj) d ds where "c = 123" "next_unit cs = Inr (d, ds)" | (arr) d ds where "c = 91" "next_unit cs = Inr (d, ds)"
    | (scalar) "c \<noteq> 123" "c \<noteq> 91"
    using 1(3) by (fastforce simp: parseValue.simps[of depth] s and_then_Inr_iff split: if_split_asm)
  then show ?case
  proof cases
    case (obj d ds)
    then have "visible_unit s = Some (123, cs)" by (simp add: s visible_unit_def skipWhitespace_def whitespace_def)
    moreover have "d = 125 \<and> v = SObj [] \<and> rest = ds \<or> d \<noteq> 125 \<and> json_members [] (d # ds) = Some (v, rest)"
      using 1(3) 1(1)[OF depth s obj(1,2), of d ds v nodes' rest] depth s obj by (auto simp: parseValue.simps[of depth] split: if_split_asm)
    ultimately show ?thesis using obj by (auto simp: json_value.simps[of s] visible_next)
  next
    case (arr d ds)
    then have "visible_unit s = Some (91, cs)" by (simp add: s visible_unit_def skipWhitespace_def whitespace_def)
    moreover have "d = 93 \<and> v = SArr [] \<and> rest = ds \<or> d \<noteq> 93 \<and> json_items [] (d # ds) = Some (v, rest)"
      using 1(3) 1(2)[OF depth s _ arr(1,2), of d ds v nodes' rest] depth s arr by (auto simp: parseValue.simps[of depth] split: if_split_asm)
    ultimately show ?thesis using arr by (auto simp: json_value.simps[of s] visible_next)
  next
    case scalar
    with 1(3) depth s have p: "parse_scalar s = Inr (v, rest)"
      by (auto simp: parseValue.simps[of depth] and_then_Inr_iff)
    from parse_scalar_json(2)[OF p] s have "visible_unit s = Some (c, cs)" by (simp add: visible_unit_def skipWhitespace_def)
    with scalar parse_scalar_json(1)[OF p] s show ?thesis by (simp add: json_value.simps[of "c # cs"])
  qed
next
  case (2 depth nodes acc s)
  from 2(3) obtain cs key s1 ds v1 n1 s2 e es where o: "s = 34 # cs" "parseString cs = Inr (key, s1)" "key \<notin> fst ` set acc"
    "next_unit s1 = Inr (58, ds)" "parseValue depth nodes (skipWhitespace ds) = Inr (v1, n1, s2)" "next_unit s2 = Inr (e, es)"
    and last: "e = 125 \<and> v = SObj (acc @ [(key, v1)]) \<and> rest = es \<or>
      e \<noteq> 125 \<and> e = 44 \<and> parse_members depth n1 (acc @ [(key, v1)]) (skipWhitespace es) = Inr (v, nodes', rest)"
    unfolding parse_members.simps[of depth nodes acc s] by (auto simp: and_then_Inr_iff split: list.split_asm if_split_asm)
  have here: "json_value ds = Some (v1, s2)" using 2(1)[OF o(1) _ o(2) _ _ o(4)] o by (auto simp: json_value_skip)
  have more: "e = 125 \<and> v = SObj (acc @ [(key, v1)]) \<and> rest = es \<or> e = 44 \<and> json_members (acc @ [(key, v1)]) es = Some (v, rest)"
    using last 2(2)[OF o(1) _ o(2) _ _ o(4) _ _ o(5) _ _ o(6)] o(3) by (auto simp: json_members_skip)
  have "visible_unit s = Some (34, cs)" using o(1) by (simp add: visible_unit_def skipWhitespace_def whitespace_def)
  with here more o show ?case
    by (auto simp: json_members.simps[of acc "34 # cs"] json_string_strict visible_next put_member_fresh)
next
  case (3 depth nodes items s)
  from 3(3) obtain v1 n1 s2 e es where o: "s \<noteq> []" "parseValue depth nodes s = Inr (v1, n1, s2)" "next_unit s2 = Inr (e, es)"
    and last: "e = 93 \<and> v = SArr (items @ [v1]) \<and> rest = es \<or>
      e \<noteq> 93 \<and> e = 44 \<and> parse_items depth n1 (items @ [v1]) (skipWhitespace es) = Inr (v, nodes', rest)"
    unfolding parse_items.simps[of depth nodes items s] by (auto simp: and_then_Inr_iff split: if_split_asm)
  have here: "json_value s = Some (v1, s2)" using 3(1) o by auto
  have "e = 93 \<and> v = SArr (items @ [v1]) \<and> rest = es \<or> e = 44 \<and> json_items (items @ [v1]) es = Some (v, rest)"
    using last 3(2)[OF o(1,2) _ _ o(3)] by (auto simp: json_items_skip)
  with here o show ?case by (auto simp: json_items.simps[of items s] visible_next)
qed

lemma strict_reader_agrees: "parse_units s = Inr v \<Longrightarrow> JSON_parse s = Some v"
  by (auto simp: parse_units_def JSON_parse_def and_then_Inr_iff dest!: strict_reads_json(1) split: if_split_asm)
    (simp add: json_value_skip)

text \<open>The texts the serializer writes.\<close>

lemma JSON_parse_canonical:
  assumes "readable v" and "nesting (strict_of v) \<le> MAX_DEPTH" and "count_values (strict_of v) \<le> MAX_NODES"
  shows "JSON_parse (units_of (canonicalStringify v)) = Some (strict_of (sort_keys v))"
proof -
  have "parse_units (units_of (canonicalStringify v)) = Inr (strict_of (sort_keys v))"
    using reads_back[OF assms] by (simp add: parseStrictJson_def no_bom utf8_round_trip)
  then show ?thesis by (rule strict_reader_agrees)
qed

end
