(* ===== verification/Agent_Sync.thy ===== *)
theory Agent_Sync
  imports Edge_Contracts Json_Parse
begin

text \<open>
  The contract of the agent synchronization endpoint (\<open>agent-sync-v1.ts\<close>): the validators of account
  snapshots, orders, positions and the ten kinds of event facts, the request parser, the bearer-token
  test and the dry-run response. The request parser starts from the parsed JSON value. A validator that
  only returns or throws \<open>AGENT_SYNC_INVALID\<close> is a bool-valued function; a reader is an option.
\<close>

section \<open>Errors and keys\<close>

definition agent_sync_invalid :: js_error where "agent_sync_invalid = Error ''AGENT_SYNC_INVALID''"
definition event_digest_mismatch :: js_error where "event_digest_mismatch = Error ''AGENT_SYNC_EVENT_BODY_DIGEST_MISMATCH''"
definition body_digest_mismatch :: js_error where "body_digest_mismatch = Error ''AGENT_SYNC_BODY_DIGEST_MISMATCH''"

definition ROOT_KEYS :: "string list" where
  "ROOT_KEYS =
    [''schema_version'', ''installation_id'', ''account_id'', ''account_profile_sha256'', ''safety_epoch'',
     ''request_sequence'', ''last_acknowledged_server_sequence'', ''nonce'', ''sent_at_epoch'',
     ''body_sha256'', ''account_snapshot'', ''events'', ''broker_bar_evidence'']"

definition SNAPSHOT_KEYS :: "string list" where
  "SNAPSHOT_KEYS =
    [''terminal_build'', ''ea_sha256'', ''manifest_sha256'', ''account_fingerprint_sha256'',
     ''broker_time_epoch'', ''windows_time_epoch'', ''terminal_connection_state'',
     ''account_trade_permission'', ''terminal_trade_permission'', ''algo_trading_permission'',
     ''balance_minor_units'', ''equity_minor_units'', ''margin_minor_units'', ''free_margin_minor_units'',
     ''margin_level_bps'', ''symbols'', ''open_orders'', ''positions'', ''reconciliation_watermark'',
     ''observed_at_epoch'']"

definition EVENT_KEYS :: "string list" where
  "EVENT_KEYS =
    [''schema_version'', ''event_id'', ''installation_id'', ''account_id'', ''account_profile_sha256'',
     ''safety_epoch'', ''sequence'', ''observed_at_epoch'', ''kind'', ''body_sha256'', ''fact'']"

definition SYMBOL_KEYS :: "string list" where
  "SYMBOL_KEYS =
    [''source_symbol'', ''broker_symbol'', ''synchronization_state'', ''selection_state'',
     ''capability_state'', ''symbol_capability_sha256'', ''trade_mode'', ''bid_ticks'', ''ask_ticks'',
     ''observed_at_epoch'']"

definition WATERMARK_KEYS :: "string list" where
  "WATERMARK_KEYS =
    [''watermark'', ''state'', ''reconciliation_sha256'', ''history_through_epoch'',
     ''consecutive_stable_sweeps'']"

definition OPEN_ORDER_KEYS :: "string list" where
  "OPEN_ORDER_KEYS =
    [''order_ticket'', ''attribution_state'', ''command_id'', ''broker_request_id'', ''state'',
     ''direction'', ''broker_symbol'', ''requested_volume_steps'', ''filled_volume_steps'',
     ''residual_volume_steps'', ''entry_price_ticks'', ''stop_ticks'', ''target_ticks'', ''protection_state'']"

definition POSITION_KEYS :: "string list" where
  "POSITION_KEYS =
    [''position_ticket'', ''attribution_state'', ''command_id'', ''broker_request_id'', ''state'',
     ''direction'', ''broker_symbol'', ''volume_steps'', ''weighted_fill_price_ticks'', ''stop_ticks'',
     ''target_ticks'', ''protection_state'', ''deal_ids'']"

definition EVENT_FACT_KEYS :: "(string \<times> string list) list" where
  "EVENT_FACT_KEYS =
    [(''HEARTBEAT'', [''terminal_connection_state'', ''account_trade_permission'', ''terminal_trade_permission'',
        ''algo_trading_permission'', ''broker_time_epoch'', ''windows_time_epoch'']),
     (''TERMINAL_STATE'', [''terminal_build'', ''ea_sha256'', ''manifest_sha256'', ''account_fingerprint_sha256'',
        ''terminal_connection_state'', ''account_trade_permission'', ''terminal_trade_permission'',
        ''algo_trading_permission'']),
     (''SUBMIT_STATE'', [''command_id'', ''lease_id'', ''reservation_id'', ''broker_request_id'', ''state'',
        ''requested_volume_steps'', ''filled_volume_steps'', ''residual_volume_steps'',
        ''broker_order_tickets'', ''acknowledgement_code'']),
     (''ORDER_STATE'', [''order_ticket'', ''attribution_state'', ''command_id'', ''broker_request_id'', ''state'',
        ''direction'', ''broker_symbol'', ''requested_volume_steps'', ''filled_volume_steps'',
        ''residual_volume_steps'', ''entry_price_ticks'', ''stop_ticks'', ''target_ticks'']),
     (''DEAL_STATE'', [''deal_id'', ''order_ticket'', ''position_ticket'', ''attribution_state'', ''command_id'',
        ''broker_request_id'', ''role'', ''direction'', ''volume_steps'', ''price_ticks'',
        ''commission_minor_units'']),
     (''POSITION_STATE'', [''position_ticket'', ''attribution_state'', ''command_id'', ''broker_request_id'', ''state'',
        ''direction'', ''volume_steps'', ''weighted_fill_price_ticks'', ''deal_ids'']),
     (''PROTECTION_STATE'', [''position_ticket'', ''attribution_state'', ''command_id'', ''broker_request_id'', ''state'',
        ''protected_volume_steps'', ''stop_ticks'', ''target_ticks'']),
     (''CLOSE_ATTEMPT_STATE'', [''close_attempt_id'', ''position_ticket'', ''attribution_state'', ''command_id'',
        ''broker_request_id'', ''state'', ''requested_volume_steps'', ''filled_volume_steps'',
        ''residual_volume_steps'', ''deal_ids'']),
     (''UNATTRIBUTED_EXPOSURE_STATE'', [''exposure_id'', ''exposure_kind'', ''broker_ticket'', ''broker_symbol'', ''direction'',
        ''volume_steps'', ''price_ticks'', ''pricing_state'', ''modeled_loss_minor_units'',
        ''protection_state'', ''state'']),
     (''RECONCILIATION_STATE'', [''watermark'', ''previous_watermark'', ''state'', ''reconciliation_sha256'', ''history_from_epoch'',
        ''history_to_epoch'', ''sweep_number'', ''consecutive_stable_sweeps'', ''order_tickets'',
        ''deal_ids'', ''position_tickets'', ''unattributed_exposure_ids''])]"
section \<open>Reading fields\<close>

definition strictObject :: "json \<Rightarrow> string list \<Rightarrow> fields option" where
  "strictObject value keys = do { input \<leftarrow> objectValue value; require (exactKeys input keys); Some input }"

definition nullable_at :: "(fields \<Rightarrow> string \<Rightarrow> 'a option) \<Rightarrow> fields \<Rightarrow> string \<Rightarrow> 'a option option" where
  "nullable_at read input k =
     (if map_of input k = Some JNull then Some None else map_option Some (read input k))"

definition enumeration :: "fields \<Rightarrow> string \<Rightarrow> string list \<Rightarrow> string option" where
  "enumeration input k values = do { s \<leftarrow> string_at input k; require (s \<in> set values); Some s }"

abbreviation holds :: "'a option \<Rightarrow> bool" where
  "holds x \<equiv> x \<noteq> None"

definition at_least :: "int \<Rightarrow> fields \<Rightarrow> string \<Rightarrow> int option" where
  "at_least minimum input k = safeInteger_at input k minimum"

definition safe_integer_at :: "fields \<Rightarrow> string \<Rightarrow> int option" where
  "safe_integer_at = at_least MIN_SAFE_INTEGER"

definition nullableNonnegativeInteger :: "fields \<Rightarrow> string \<Rightarrow> int option option" where
  "nullableNonnegativeInteger = nullable_at (at_least 0)"

definition nullablePositive :: "fields \<Rightarrow> string \<Rightarrow> int option option" where
  "nullablePositive = nullable_at (at_least 1)"

definition nullableSafeInteger :: "fields \<Rightarrow> string \<Rightarrow> int option option" where
  "nullableSafeInteger = nullable_at safe_integer_at"

definition nullableIdentifier :: "fields \<Rightarrow> string \<Rightarrow> string option option" where
  "nullableIdentifier = nullable_at identifier_at"

definition permission :: "fields \<Rightarrow> string \<Rightarrow> string option" where
  "permission input k = enumeration input k [''ALLOWED'', ''DENIED'', ''UNKNOWN'']"

definition connection :: "fields \<Rightarrow> string \<Rightarrow> string option" where
  "connection input k = enumeration input k [''CONNECTED'', ''DISCONNECTED'', ''UNKNOWN'']"

definition direction_value :: "fields \<Rightarrow> string \<Rightarrow> string option" where
  "direction_value input k = enumeration input k [''LONG'', ''SHORT'']"

definition protectionState :: "fields \<Rightarrow> string \<Rightarrow> string option" where
  "protectionState input k = enumeration input k [''REQUIRED'', ''VERIFIED'', ''MISSING_DEFINITE'', ''UNKNOWN'', ''BREACHED'']"

definition boundedArray :: "fields \<Rightarrow> string \<Rightarrow> nat \<Rightarrow> (json \<Rightarrow> bool) \<Rightarrow> bool" where
  "boundedArray input k maximum validate =
     (case array_at input k of None \<Rightarrow> False | Some vs \<Rightarrow> \<not> length vs > maximum \<and> list_all validate vs)"

fun identifier_value :: "json \<Rightarrow> bool" where
  "identifier_value (JStr s) = is_identifier s"
| "identifier_value _ = False"

fun ticket_value :: "json \<Rightarrow> bool" where
  "ticket_value (JNum n) = (is_safe_integer n \<and> \<not> n < 1)"
| "ticket_value _ = False"

definition attribution :: "fields \<Rightarrow> bool" where
  "attribution input = (case enumeration input ''attribution_state'' [''ATTRIBUTED'', ''UNATTRIBUTED'', ''UNKNOWN''] of
       None \<Rightarrow> False
     | Some state \<Rightarrow>
         if state = ''ATTRIBUTED'' then holds (identifier_at input ''command_id'') \<and> holds (identifier_at input ''broker_request_id'')
         else map_of input ''command_id'' = Some JNull \<and> map_of input ''broker_request_id'' = Some JNull)"

section \<open>Snapshots\<close>

definition validateOpenOrder :: "json \<Rightarrow> bool" where
  "validateOpenOrder value = (case strictObject value OPEN_ORDER_KEYS of
       None \<Rightarrow> False
     | Some input \<Rightarrow>
         holds (at_least 1 input ''order_ticket'') \<and>
         attribution input \<and>
         holds (enumeration input ''state'' [''DISCOVERED'', ''PENDING'', ''PARTIALLY_FILLED'', ''UNKNOWN'']) \<and>
         holds (direction_value input ''direction'') \<and>
         holds (identifier_at input ''broker_symbol'') \<and>
         holds (at_least 1 input ''requested_volume_steps'') \<and>
         holds (at_least 0 input ''filled_volume_steps'') \<and>
         holds (at_least 1 input ''residual_volume_steps'') \<and>
         holds (nullableSafeInteger input ''entry_price_ticks'') \<and>
         holds (nullableSafeInteger input ''stop_ticks'') \<and>
         holds (nullableSafeInteger input ''target_ticks'') \<and>
         holds (protectionState input ''protection_state''))"

definition validatePosition :: "json \<Rightarrow> bool" where
  "validatePosition value = (case strictObject value POSITION_KEYS of
       None \<Rightarrow> False
     | Some input \<Rightarrow>
         holds (at_least 1 input ''position_ticket'') \<and>
         attribution input \<and>
         holds (enumeration input ''state'' [''OPEN'', ''PARTIAL'']) \<and>
         holds (direction_value input ''direction'') \<and>
         holds (identifier_at input ''broker_symbol'') \<and>
         holds (at_least 1 input ''volume_steps'') \<and>
         holds (safe_integer_at input ''weighted_fill_price_ticks'') \<and>
         holds (nullableSafeInteger input ''stop_ticks'') \<and>
         holds (nullableSafeInteger input ''target_ticks'') \<and>
         holds (protectionState input ''protection_state'') \<and>
         boundedArray input ''deal_ids'' 64 identifier_value)"

definition validateSymbol :: "json \<Rightarrow> bool" where
  "validateSymbol value = (case strictObject value SYMBOL_KEYS of
       None \<Rightarrow> False
     | Some input \<Rightarrow>
         holds (enumeration input ''source_symbol'' [''EURUSD'', ''GBPJPY'', ''USDJPY'', ''XAUUSD'', ''NAS100'']) \<and>
         holds (identifier_at input ''broker_symbol'') \<and>
         holds (enumeration input ''synchronization_state'' [''SYNCHRONIZED'', ''UNSYNCHRONIZED'', ''UNKNOWN'']) \<and>
         holds (enumeration input ''selection_state'' [''SELECTED'', ''NOT_SELECTED'', ''UNKNOWN'']) \<and>
         holds (enumeration input ''capability_state'' [''CURRENT'', ''CHANGED'', ''UNKNOWN'']) \<and>
         holds (digest_at input ''symbol_capability_sha256'') \<and>
         holds (enumeration input ''trade_mode'' [''FULL'', ''LONG_ONLY'', ''SHORT_ONLY'', ''CLOSE_ONLY'', ''DISABLED'', ''UNKNOWN'']) \<and>
         holds (nullableSafeInteger input ''bid_ticks'') \<and>
         holds (nullableSafeInteger input ''ask_ticks'') \<and>
         holds (at_least 0 input ''observed_at_epoch''))"

definition validateWatermark :: "json \<Rightarrow> bool" where
  "validateWatermark value = (case strictObject value WATERMARK_KEYS of
       None \<Rightarrow> False
     | Some watermark \<Rightarrow>
         holds (identifier_at watermark ''watermark'') \<and>
         holds (enumeration watermark ''state'' [''STABLE'', ''UNSTABLE'', ''GAP'', ''UNKNOWN'']) \<and>
         holds (digest_at watermark ''reconciliation_sha256'') \<and>
         holds (at_least 0 watermark ''history_through_epoch'') \<and>
         holds (at_least 0 watermark ''consecutive_stable_sweeps''))"

definition validateSnapshot :: "json \<Rightarrow> fields option" where
  "validateSnapshot value = do {
     input \<leftarrow> strictObject value SNAPSHOT_KEYS;
     at_least 1 input ''terminal_build'';
     digest_at input ''ea_sha256'';
     digest_at input ''manifest_sha256'';
     digest_at input ''account_fingerprint_sha256'';
     nullableNonnegativeInteger input ''broker_time_epoch'';
     nullableNonnegativeInteger input ''windows_time_epoch'';
     connection input ''terminal_connection_state'';
     permission input ''account_trade_permission'';
     permission input ''terminal_trade_permission'';
     permission input ''algo_trading_permission'';
     nullableSafeInteger input ''balance_minor_units'';
     nullableSafeInteger input ''equity_minor_units'';
     nullableNonnegativeInteger input ''margin_minor_units'';
     nullableSafeInteger input ''free_margin_minor_units'';
     nullableNonnegativeInteger input ''margin_level_bps'';
     symbols \<leftarrow> array_at input ''symbols'';
     require (\<not> (length symbols < 1 \<or> length symbols > 5));
     require (list_all validateSymbol symbols);
     require (boundedArray input ''open_orders'' 128 validateOpenOrder);
     require (boundedArray input ''positions'' 128 validatePosition);
     watermark \<leftarrow> map_of input ''reconciliation_watermark'';
     require (validateWatermark watermark);
     at_least 0 input ''observed_at_epoch'';
     Some input }"

section \<open>Events\<close>

definition validateHeartbeatFact :: "fields \<Rightarrow> bool" where
  "validateHeartbeatFact input \<longleftrightarrow>
     holds (connection input ''terminal_connection_state'') \<and>
     holds (permission input ''account_trade_permission'') \<and>
     holds (permission input ''terminal_trade_permission'') \<and>
     holds (permission input ''algo_trading_permission'') \<and>
     holds (nullableNonnegativeInteger input ''broker_time_epoch'') \<and>
     holds (nullableNonnegativeInteger input ''windows_time_epoch'')"

definition validateTerminalStateFact :: "fields \<Rightarrow> bool" where
  "validateTerminalStateFact input \<longleftrightarrow>
     holds (at_least 1 input ''terminal_build'') \<and>
     holds (digest_at input ''ea_sha256'') \<and>
     holds (digest_at input ''manifest_sha256'') \<and>
     holds (digest_at input ''account_fingerprint_sha256'') \<and>
     holds (connection input ''terminal_connection_state'') \<and>
     holds (permission input ''account_trade_permission'') \<and>
     holds (permission input ''terminal_trade_permission'') \<and>
     holds (permission input ''algo_trading_permission'')"

definition validateSubmitStateFact :: "fields \<Rightarrow> bool" where
  "validateSubmitStateFact input \<longleftrightarrow>
     holds (identifier_at input ''command_id'') \<and> holds (identifier_at input ''lease_id'') \<and>
     holds (identifier_at input ''reservation_id'') \<and> holds (identifier_at input ''broker_request_id'') \<and>
     holds (enumeration input ''state'' [''JOURNALED'', ''SENT'', ''ACK_REJECTED'', ''ACK_ACCEPTED'', ''ACK_UNKNOWN'']) \<and>
     holds (at_least 1 input ''requested_volume_steps'') \<and> holds (at_least 0 input ''filled_volume_steps'') \<and>
     holds (at_least 0 input ''residual_volume_steps'') \<and>
     boundedArray input ''broker_order_tickets'' 32 ticket_value \<and> holds (nullableIdentifier input ''acknowledgement_code'')"

definition validateOrderStateFact :: "fields \<Rightarrow> bool" where
  "validateOrderStateFact input \<longleftrightarrow>
     holds (at_least 1 input ''order_ticket'') \<and>
     attribution input \<and>
     holds (enumeration input ''state''
       [''DISCOVERED'', ''PENDING'', ''PARTIALLY_FILLED'', ''FILLED'', ''CANCELED'', ''REJECTED'', ''EXPIRED'', ''UNKNOWN'']) \<and>
     holds (direction_value input ''direction'') \<and>
     holds (identifier_at input ''broker_symbol'') \<and>
     holds (at_least 1 input ''requested_volume_steps'') \<and>
     holds (at_least 0 input ''filled_volume_steps'') \<and>
     holds (at_least 0 input ''residual_volume_steps'') \<and>
     holds (nullableSafeInteger input ''entry_price_ticks'') \<and>
     holds (nullableSafeInteger input ''stop_ticks'') \<and>
     holds (nullableSafeInteger input ''target_ticks'')"

definition validateDealStateFact :: "fields \<Rightarrow> bool" where
  "validateDealStateFact input \<longleftrightarrow>
     holds (identifier_at input ''deal_id'') \<and> holds (nullablePositive input ''order_ticket'') \<and>
     holds (nullablePositive input ''position_ticket'') \<and> attribution input \<and>
     holds (enumeration input ''role'' [''ENTRY'', ''EXIT'']) \<and> holds (direction_value input ''direction'') \<and>
     holds (at_least 1 input ''volume_steps'') \<and>
     holds (safe_integer_at input ''price_ticks'') \<and> holds (safe_integer_at input ''commission_minor_units'')"

definition validatePositionStateFact :: "fields \<Rightarrow> bool" where
  "validatePositionStateFact input = holds (do {
     ticket \<leftarrow> nullablePositive input ''position_ticket'';
     require (attribution input);
     state \<leftarrow> enumeration input ''state'' [''ABSENT'', ''OPEN'', ''PARTIAL'', ''CLOSED''];
     positionDirection \<leftarrow> nullable_at direction_value input ''direction'';
     volume \<leftarrow> at_least 0 input ''volume_steps'';
     fillPrice \<leftarrow> nullableSafeInteger input ''weighted_fill_price_ticks'';
     require (boundedArray input ''deal_ids'' 64 identifier_value);
     if state = ''ABSENT''
     then require (\<not> (ticket \<noteq> None \<or> string_at input ''attribution_state'' = Some ''ATTRIBUTED'' \<or> positionDirection \<noteq> None \<or>
       volume \<noteq> 0 \<or> fillPrice \<noteq> None))
     else do {
       require (\<not> (ticket = None \<or> positionDirection = None \<or> fillPrice = None));
       require (\<not> ((state = ''OPEN'' \<or> state = ''PARTIAL'') \<and> volume < 1));
       require (\<not> (state = ''CLOSED'' \<and> volume \<noteq> 0)) } })"

definition validateProtectionStateFact :: "fields \<Rightarrow> bool" where
  "validateProtectionStateFact input = holds (do {
     at_least 1 input ''position_ticket'';
     require (attribution input);
     protection \<leftarrow> protectionState input ''state'';
     at_least 0 input ''protected_volume_steps'';
     stop \<leftarrow> nullableSafeInteger input ''stop_ticks'';
     target \<leftarrow> nullableSafeInteger input ''target_ticks'';
     require (\<not> (protection = ''VERIFIED'' \<and> (stop = None \<or> target = None))) })"

definition validateCloseAttemptFact :: "fields \<Rightarrow> bool" where
  "validateCloseAttemptFact input \<longleftrightarrow>
     holds (identifier_at input ''close_attempt_id'') \<and> holds (at_least 1 input ''position_ticket'') \<and> attribution input \<and>
     holds (enumeration input ''state'' [''JOURNALED'', ''SENT'', ''ACK_UNKNOWN'', ''RECONCILED'']) \<and>
     holds (at_least 1 input ''requested_volume_steps'') \<and> holds (at_least 0 input ''filled_volume_steps'') \<and>
     holds (at_least 0 input ''residual_volume_steps'') \<and> boundedArray input ''deal_ids'' 64 identifier_value"

definition validateExposureFact :: "fields \<Rightarrow> bool" where
  "validateExposureFact input = holds (do {
     identifier_at input ''exposure_id'';
     enumeration input ''exposure_kind'' [''ORDER'', ''POSITION''];
     at_least 1 input ''broker_ticket'';
     identifier_at input ''broker_symbol'';
     direction_value input ''direction'';
     at_least 1 input ''volume_steps'';
     priceTicks \<leftarrow> nullableSafeInteger input ''price_ticks'';
     pricingState \<leftarrow> enumeration input ''pricing_state'' [''PRICED'', ''UNPRICED''];
     modeledLoss \<leftarrow> nullableNonnegativeInteger input ''modeled_loss_minor_units'';
     require (\<not> ((pricingState = ''PRICED'' \<and> (priceTicks = None \<or> modeledLoss = None)) \<or>
       (pricingState = ''UNPRICED'' \<and> (priceTicks \<noteq> None \<or> modeledLoss \<noteq> None))));
     protectionState input ''protection_state'';
     enumeration input ''state'' [''DISCOVERED'', ''ATTRIBUTED'', ''CLOSED'', ''UNKNOWN''] })"

definition validateReconciliationFact :: "fields \<Rightarrow> bool" where
  "validateReconciliationFact input \<longleftrightarrow>
     holds (identifier_at input ''watermark'') \<and> holds (nullableIdentifier input ''previous_watermark'') \<and>
     holds (enumeration input ''state'' [''STABLE'', ''UNSTABLE'', ''GAP'', ''UNKNOWN'']) \<and>
     holds (digest_at input ''reconciliation_sha256'') \<and> holds (at_least 0 input ''history_from_epoch'') \<and>
     holds (at_least 0 input ''history_to_epoch'') \<and>
     holds (at_least 1 input ''sweep_number'') \<and> holds (at_least 0 input ''consecutive_stable_sweeps'') \<and>
     boundedArray input ''order_tickets'' 512 ticket_value \<and> boundedArray input ''deal_ids'' 512 identifier_value \<and>
     boundedArray input ''position_tickets'' 512 ticket_value \<and> boundedArray input ''unattributed_exposure_ids'' 512 identifier_value"

definition fact_validator :: "string \<Rightarrow> fields \<Rightarrow> bool" where
  "fact_validator kind input =
     (if kind = ''HEARTBEAT'' then validateHeartbeatFact input
      else if kind = ''TERMINAL_STATE'' then validateTerminalStateFact input
      else if kind = ''SUBMIT_STATE'' then validateSubmitStateFact input
      else if kind = ''ORDER_STATE'' then validateOrderStateFact input
      else if kind = ''DEAL_STATE'' then validateDealStateFact input
      else if kind = ''POSITION_STATE'' then validatePositionStateFact input
      else if kind = ''PROTECTION_STATE'' then validateProtectionStateFact input
      else if kind = ''CLOSE_ATTEMPT_STATE'' then validateCloseAttemptFact input
      else if kind = ''UNATTRIBUTED_EXPOSURE_STATE'' then validateExposureFact input
      else if kind = ''RECONCILIATION_STATE'' then validateReconciliationFact input
      else False)"

definition validateEventFact :: "string \<Rightarrow> json \<Rightarrow> bool" where
  "validateEventFact kind value = (case map_of EVENT_FACT_KEYS kind of
       None \<Rightarrow> False
     | Some keys \<Rightarrow> (case strictObject value keys of None \<Rightarrow> False | Some input \<Rightarrow> fact_validator kind input))"
section \<open>Requests\<close>

datatype freshness = FRESH | STALE

record sync_request =
  rq_installation_id :: string
  rq_account_id :: string
  rq_account_profile_sha256 :: string
  rq_safety_epoch :: int
  rq_request_sequence :: int
  rq_last_acknowledged_server_sequence :: int
  rq_nonce :: string
  rq_sent_at_epoch :: int
  rq_freshness :: freshness
  rq_body_sha256 :: string
  rq_account_snapshot :: fields
  rq_events :: "fields list"
  rq_broker_bar_evidence :: "fields list"

definition event_shape :: "sync_request \<Rightarrow> json \<Rightarrow> fields option" where
  "event_shape request value = do {
     input \<leftarrow> strictObject value EVENT_KEYS;
     literal input ''schema_version'' ''AgentEventV1'';
     identifier_at input ''event_id'';
     installationId \<leftarrow> identifier_at input ''installation_id'';
     accountId \<leftarrow> identifier_at input ''account_id'';
     require (installationId = rq_installation_id request \<and> accountId = rq_account_id request);
     profileSha \<leftarrow> digest_at input ''account_profile_sha256'';
     safetyEpoch \<leftarrow> at_least 0 input ''safety_epoch'';
     require (profileSha = rq_account_profile_sha256 request \<and> safetyEpoch = rq_safety_epoch request);
     at_least 1 input ''sequence'';
     at_least 0 input ''observed_at_epoch'';
     kind \<leftarrow> string_at input ''kind'';
     digest_at input ''body_sha256'';
     fact \<leftarrow> map_of input ''fact'';
     require (validateEventFact kind fact);
     Some input }"

text \<open>
  \<open>validateEvent\<close> up to its first \<open>await\<close>: the digest of the canonical body is under way. The events
  are validated by \<open>Promise.all\<close>, so an exception of this part is seen before any digest is compared.
\<close>

definition event_digest :: "platform \<Rightarrow> sync_request \<Rightarrow> json \<Rightarrow> (fields \<times> string) result" where
  "event_digest P request value =
     and_then (or_throw agent_sync_invalid (event_shape request value)) (\<lambda>input.
     and_then (edge_sha256 P (JObj (without_field ''body_sha256'' input))) (\<lambda>sha. Inr (input, sha)))"

definition validateEvents :: "platform \<Rightarrow> sync_request \<Rightarrow> fields \<Rightarrow> fields list result" where
  "validateEvents P request input = (case array_at input ''events'' of
       None \<Rightarrow> Inl agent_sync_invalid
     | Some events \<Rightarrow>
         if length events > 256 then Inl agent_sync_invalid
         else and_then (all_results (map (event_digest P request) events)) (\<lambda>digested.
           if list_all (\<lambda>(event, sha). string_at event ''body_sha256'' = Some sha) digested then Inr (map fst digested)
           else Inl event_digest_mismatch))"

definition validateEvidenceEntry :: "sync_request \<Rightarrow> json \<Rightarrow> fields result" where
  "validateEvidenceEntry request entry =
     and_then (or_throw agent_sync_invalid (objectValue entry)) (\<lambda>raw.
     and_then (or_throw agent_sync_invalid (digest_at raw ''symbol_capability_sha256'')) (\<lambda>sha.
     and_then (validateBrokerBarEvidenceV1 entry sha) (\<lambda>validated.
       if be_installation_id validated \<noteq> rq_installation_id request \<or> be_account_id validated \<noteq> rq_account_id request \<or>
          be_account_profile_sha256 validated \<noteq> rq_account_profile_sha256 request
       then Inl agent_sync_invalid else Inr raw)))"

definition validateEvidenceList :: "sync_request \<Rightarrow> fields \<Rightarrow> fields list result" where
  "validateEvidenceList request input = (case array_at input ''broker_bar_evidence'' of
       None \<Rightarrow> Inl agent_sync_invalid
     | Some entries \<Rightarrow>
         if length entries > 8 then Inl agent_sync_invalid
         else all_results (map (validateEvidenceEntry request) entries))"

definition request_head :: "json \<Rightarrow> int \<Rightarrow> (fields \<times> sync_request) option" where
  "request_head value nowEpoch = do {
     input \<leftarrow> strictObject value ROOT_KEYS;
     literal input ''schema_version'' ''AgentSyncRequestV1'';
     installationId \<leftarrow> identifier_at input ''installation_id'';
     accountId \<leftarrow> identifier_at input ''account_id'';
     profileSha \<leftarrow> digest_at input ''account_profile_sha256'';
     safetyEpoch \<leftarrow> at_least 0 input ''safety_epoch'';
     requestSequence \<leftarrow> at_least 1 input ''request_sequence'';
     acknowledgedSequence \<leftarrow> at_least 0 input ''last_acknowledged_server_sequence'';
     nonce \<leftarrow> identifier_at input ''nonce'';
     sentAt \<leftarrow> at_least 0 input ''sent_at_epoch'';
     bodySha \<leftarrow> digest_at input ''body_sha256'';
     require (\<not> (\<not> is_safe_integer nowEpoch \<or> nowEpoch < 0));
     snapshotValue \<leftarrow> map_of input ''account_snapshot'';
     accountSnapshot \<leftarrow> validateSnapshot snapshotValue;
     Some (input, \<lparr>rq_installation_id = installationId, rq_account_id = accountId, rq_account_profile_sha256 = profileSha,
       rq_safety_epoch = safetyEpoch, rq_request_sequence = requestSequence,
       rq_last_acknowledged_server_sequence = acknowledgedSequence, rq_nonce = nonce, rq_sent_at_epoch = sentAt,
       rq_freshness = (if \<bar>sentAt - nowEpoch\<bar> > 30 then STALE else FRESH), rq_body_sha256 = bodySha,
       rq_account_snapshot = accountSnapshot, rq_events = [], rq_broker_bar_evidence = []\<rparr>) }"

definition parseAgentSyncRequest :: "platform \<Rightarrow> json \<Rightarrow> int \<Rightarrow> sync_request result" where
  "parseAgentSyncRequest P value nowEpoch =
     and_then (or_throw agent_sync_invalid (request_head value nowEpoch)) (\<lambda>(input, request).
     and_then (validateEvents P request input) (\<lambda>events.
     and_then (validateEvidenceList request input) (\<lambda>evidence.
     and_then (edge_sha256 P (JObj (without_field ''body_sha256'' input))) (\<lambda>sha.
       if sha \<noteq> rq_body_sha256 request then Inl body_digest_mismatch
       else Inr (request\<lparr>rq_events := events, rq_broker_bar_evidence := evidence\<rparr>)))))"

section \<open>Responses\<close>

record sync_response =
  rs_response_body_sha256 :: string
  rs_server_sequence :: int
  rs_server_time_epoch :: int
  rs_acknowledged_event_sequence :: int

definition response_body :: "int \<Rightarrow> int \<Rightarrow> int \<Rightarrow> fields" where
  "response_body serverSequence serverTime acknowledged =
     [(''schema_version'', JStr ''AgentSyncResponseV1''), (''server_sequence'', JNum serverSequence),
      (''server_time_epoch'', JNum serverTime), (''mode'', JStr ''DRY_RUN''), (''freeze_reasons'', JArr []),
      (''acknowledged_event_sequence'', JNum acknowledged), (''evidence_requests'', JArr []), (''command'', JNull)]"

definition response_json :: "sync_response \<Rightarrow> json" where
  "response_json r = JObj ((''response_body_sha256'', JStr (rs_response_body_sha256 r)) #
     response_body (rs_server_sequence r) (rs_server_time_epoch r) (rs_acknowledged_event_sequence r))"

text \<open>The loop over the events; an event without a positive safe sequence number is an error.\<close>

fun acknowledge_events :: "int \<Rightarrow> fields list \<Rightarrow> int result" where
  "acknowledge_events acknowledged [] = Inr acknowledged"
| "acknowledge_events acknowledged (event # events) = (case number_at event ''sequence'' of
       None \<Rightarrow> Inl agent_sync_invalid
     | Some sequence \<Rightarrow>
         if \<not> is_safe_integer sequence \<or> sequence < 1 then Inl agent_sync_invalid
         else acknowledge_events (max acknowledged sequence) events)"

definition createDryRunResponse :: "platform \<Rightarrow> fields list \<Rightarrow> int \<Rightarrow> int \<Rightarrow> int \<Rightarrow> sync_response result" where
  "createDryRunResponse P events lastAcknowledgedEventSequence nextServerSequence nowEpoch =
     (if \<not> is_safe_integer nextServerSequence \<or> nextServerSequence < 1 then Inl agent_sync_invalid
      else if \<not> is_safe_integer nowEpoch \<or> nowEpoch < 0 then Inl agent_sync_invalid
      else if \<not> is_safe_integer lastAcknowledgedEventSequence \<or> lastAcknowledgedEventSequence < 0 then Inl agent_sync_invalid
      else and_then (acknowledge_events lastAcknowledgedEventSequence events) (\<lambda>acknowledged.
        and_then (edge_sha256 P (JObj (response_body nextServerSequence nowEpoch acknowledged))) (\<lambda>sha.
          Inr \<lparr>rs_response_body_sha256 = sha, rs_server_sequence = nextServerSequence, rs_server_time_epoch = nowEpoch,
            rs_acknowledged_event_sequence = acknowledged\<rparr>)))"

section \<open>The bearer token\<close>

definition configuredDigest :: "string option \<Rightarrow> string option" where
  "configuredDigest value = (case value of Some s \<Rightarrow> if valid_digest s then Some s else None | None \<Rightarrow> None)"

text \<open>\<open>Number.parseInt\<close> of two hexadecimal digits, for every pair of characters.\<close>

fun hex_bytes :: "string \<Rightarrow> nat list" where
  "hex_bytes (a # b # s) = (16 * hex_value a + hex_value b) # hex_bytes s"
| "hex_bytes _ = []"

definition constantTimeEqualHex :: "string \<Rightarrow> string \<Rightarrow> bool" where
  "constantTimeEqualHex left right =
     (let leftBytes = hex_bytes left; rightBytes = hex_bytes right in
      if length leftBytes \<noteq> length rightBytes then False
      else fold (\<lambda>(l, r) difference. or difference (xor l r)) (zip leftBytes rightBytes) 0 = 0)"

text \<open>The white space of regular expressions among the code units below 256.\<close>

definition regexp_space :: "char \<Rightarrow> bool" where
  "regexp_space c \<longleftrightarrow> 9 \<le> code_unit c \<and> code_unit c \<le> 13 \<or> code_unit c = 32 \<or> code_unit c = 160"

definition bearer_token :: "string \<Rightarrow> string option" where
  "bearer_token authorization =
     (if take 7 authorization = ''Bearer '' \<and> drop 7 authorization \<noteq> [] \<and> list_all (\<lambda>c. \<not> regexp_space c) (drop 7 authorization)
      then Some (drop 7 authorization) else None)"

definition authenticateAgentSyncBearer :: "platform \<Rightarrow> string option \<Rightarrow> string option \<Rightarrow> bool" where
  "authenticateAgentSyncBearer P authorization configuredSecretSha256 =
     (case (configuredDigest configuredSecretSha256, authorization) of
        (Some expected, Some header) \<Rightarrow>
          (case bearer_token header of
             None \<Rightarrow> False
           | Some token \<Rightarrow> constantTimeEqualHex (sha256Hex P token) expected)
      | _ \<Rightarrow> False)"
section \<open>What the endpoint promises\<close>

lemma xor_zero: "xor a b = 0 \<longleftrightarrow> a = b" for a b :: nat
proof
  assume "xor a b = 0"
  then have "bit (xor a b) n = bit (0::nat) n" for n by simp
  then have "bit a n = bit b n" for n by (simp add: bit_xor_iff)
  then show "a = b" by (rule bit_eqI)
qed simp

lemma sum_xor_zero: "fold (\<lambda>(l, r) difference. or difference (xor l r)) ps d = (0::nat) \<longleftrightarrow> d = 0 \<and> (\<forall>(l, r)\<in>set ps. l = r)"
  by (induction ps arbitrary: d) (auto simp: or_eq_0_iff xor_zero)

lemma zip_all_eq: "length xs = length ys \<Longrightarrow> (\<forall>(x, y)\<in>set (zip xs ys). x = y) \<longleftrightarrow> xs = ys"
  by (induction xs ys rule: list_induct2) auto

lemma constantTimeEqualHex_bytes: "constantTimeEqualHex s t \<longleftrightarrow> hex_bytes s = hex_bytes t"
  by (auto simp: constantTimeEqualHex_def Let_def sum_xor_zero zip_all_eq)

lemma hex_value_less: "c \<in> set hex_chars \<Longrightarrow> hex_value c < 16 \<and> hex_digit (hex_value c) = c"
  by (auto simp: hex_chars_def) code_simp+

lemma digest_bytes_inject:
  assumes "hex_string s" "hex_string t" "even (length s)" "even (length t)" "hex_bytes s = hex_bytes t"
  shows "s = t"
  using assms
proof (induction s arbitrary: t rule: hex_bytes.induct)
  case (1 a b s)
  then obtain c d u where t: "t = c # d # u" by (cases t rule: hex_bytes.cases) auto
  from 1(2,3) have h: "a \<in> set hex_chars" "b \<in> set hex_chars" "c \<in> set hex_chars" "d \<in> set hex_chars"
    by (simp_all add: t hex_string_def)
  have "16 * hex_value a + hex_value b = 16 * hex_value c + hex_value d" using 1(6) by (simp add: t)
  moreover from this have "hex_value a = hex_value c" using h[THEN hex_value_less] by auto
  ultimately have "hex_value a = hex_value c" "hex_value b = hex_value d" by simp_all
  then have "a = c" "b = d" using h[THEN hex_value_less] by metis+
  with 1 show ?case by (simp add: t hex_string_def)
next
  case "2_1"
  then show ?case by (cases t rule: hex_bytes.cases) auto
next
  case "2_2"
  then show ?case by simp
qed

lemma digests_compared:
  assumes "is_sha256 s" and "is_sha256 t"
  shows "constantTimeEqualHex s t \<longleftrightarrow> s = t"
  using assms digest_bytes_inject[of s t] by (auto simp: constantTimeEqualHex_bytes is_sha256_def)

lemma bearer_token_Some:
  "bearer_token h = Some tok \<longleftrightarrow> h = ''Bearer '' @ tok \<and> tok \<noteq> [] \<and> list_all (\<lambda>c. \<not> regexp_space c) tok"
proof
  assume "bearer_token h = Some tok"
  then have "take 7 h = ''Bearer ''" "tok = drop 7 h" "tok \<noteq> []" "list_all (\<lambda>c. \<not> regexp_space c) tok"
    by (auto simp: bearer_token_def split: if_split_asm)
  then show "h = ''Bearer '' @ tok \<and> tok \<noteq> [] \<and> list_all (\<lambda>c. \<not> regexp_space c) tok"
    using append_take_drop_id[of 7 h] by metis
qed (auto simp: bearer_token_def)

text \<open>
  Who is let in. The endpoint authenticates a request exactly when a well-formed, non-zero digest
  is configured and the header is \<open>Bearer\<close> followed by one non-empty token without white space whose
  SHA-256 is that digest; the constant-time comparison of the bytes is equality of the digests.
\<close>

theorem bearer_accepted_iff:
  assumes "sha256_width P"
  shows "authenticateAgentSyncBearer P header configured \<longleftrightarrow>
    (\<exists>tok. header = Some (''Bearer '' @ tok) \<and> tok \<noteq> [] \<and> list_all (\<lambda>c. \<not> regexp_space c) tok \<and>
      configured = Some (sha256Hex P tok) \<and> sha256Hex P tok \<noteq> zero_digest)"
proof -
  have "authenticateAgentSyncBearer P header configured \<longleftrightarrow>
      (\<exists>h tok. header = Some h \<and> bearer_token h = Some tok \<and> (\<exists>e. configured = Some e \<and> valid_digest e \<and>
        constantTimeEqualHex (sha256Hex P tok) e))"
    by (auto simp: authenticateAgentSyncBearer_def configuredDigest_def split: option.splits if_splits)
  moreover have "valid_digest e \<and> constantTimeEqualHex (sha256Hex P tok) e \<longleftrightarrow> e = sha256Hex P tok \<and> e \<noteq> zero_digest" for e tok
    using is_sha256_sha256Hex[OF assms] digests_compared by (auto simp: valid_digest_def)
  ultimately show ?thesis unfolding bearer_token_Some by auto
qed
lemma at_least_Some: "at_least m input k = Some n \<longleftrightarrow> number_at input k = Some n \<and> is_safe_integer n \<and> m \<le> n"
  by (simp add: at_least_def safeInteger_at_Some)

lemma strictObject_Some: "strictObject value keys = Some input \<longleftrightarrow> objectValue value = Some input \<and> exactKeys input keys"
  by (auto simp: strictObject_def bind_eq_Some_conv)

lemma event_shape_fields:
  assumes "event_shape request value = Some e"
  shows "string_at e ''installation_id'' = Some (rq_installation_id request)" "string_at e ''account_id'' = Some (rq_account_id request)"
    "string_at e ''account_profile_sha256'' = Some (rq_account_profile_sha256 request)"
    "number_at e ''safety_epoch'' = Some (rq_safety_epoch request)"
    "\<exists>n. number_at e ''sequence'' = Some n \<and> is_safe_integer n \<and> 1 \<le> n"
  using assms unfolding event_shape_def by (auto simp: reads_Some at_least_Some strictObject_Some)

lemma all_results_Inr:
  "all_results (map f xs) = Inr ys \<Longrightarrow> length ys = length xs \<and> (\<forall>y\<in>set ys. \<exists>x\<in>set xs. f x = Inr y)"
  by (induction xs arbitrary: ys) (fastforce simp: and_then_Inr_iff)+

definition event_of :: "platform \<Rightarrow> sync_request \<Rightarrow> fields \<Rightarrow> bool" where
  "event_of P request e \<longleftrightarrow>
     string_at e ''installation_id'' = Some (rq_installation_id request) \<and> string_at e ''account_id'' = Some (rq_account_id request) \<and>
     string_at e ''account_profile_sha256'' = Some (rq_account_profile_sha256 request) \<and>
     number_at e ''safety_epoch'' = Some (rq_safety_epoch request) \<and>
     (case number_at e ''sequence'' of None \<Rightarrow> False | Some n \<Rightarrow> is_safe_integer n \<and> 1 \<le> n) \<and>
     (case edge_sha256 P (JObj (without_field ''body_sha256'' e)) of Inl _ \<Rightarrow> False | Inr sha \<Rightarrow> string_at e ''body_sha256'' = Some sha)"

lemma validateEvents_events:
  assumes "validateEvents P request input = Inr events"
  shows "length events \<le> 256" "\<forall>e\<in>set events. event_of P request e"
proof -
  from assms obtain vs digested where vs: "length vs \<le> 256" "all_results (map (event_digest P request) vs) = Inr digested"
    "list_all (\<lambda>(event, sha). string_at event ''body_sha256'' = Some sha) digested" "events = map fst digested"
    by (auto simp: validateEvents_def and_then_Inr_iff not_less split: option.split_asm if_split_asm)
  from all_results_Inr[OF vs(2)] have l: "length digested = length vs"
    and each: "\<And>d. d \<in> set digested \<Longrightarrow> \<exists>x. event_digest P request x = Inr d" by blast+
  from l vs(1,4) show "length events \<le> 256" by simp
  show "\<forall>e\<in>set events. event_of P request e"
  proof
    fix e assume "e \<in> set events"
    with vs(4) obtain sha where d: "(e, sha) \<in> set digested" by auto
    from each[OF d] obtain x where "event_shape request x = Some e" "edge_sha256 P (JObj (without_field ''body_sha256'' e)) = Inr sha"
      by (auto simp: event_digest_def and_then_Inr_iff)
    moreover have "string_at e ''body_sha256'' = Some sha" using vs(3) d by (auto simp: list_all_iff)
    ultimately show "event_of P request e" using event_shape_fields[of request x e] by (auto simp: event_of_def)
  qed
qed

lemma request_head_fields:
  assumes "request_head value now = Some (input, request)"
  shows "is_safe_integer (rq_request_sequence request) \<and> 1 \<le> rq_request_sequence request"
    "rq_freshness request = (if \<bar>rq_sent_at_epoch request - now\<bar> > 30 then STALE else FRESH)"
    "is_safe_integer now \<and> 0 \<le> now" "valid_digest (rq_body_sha256 request)"
    "\<exists>v. validateSnapshot v = Some (rq_account_snapshot request)"
    "objectValue value = Some input"
  using assms unfolding request_head_def
  by (auto simp: reads_Some at_least_Some strictObject_Some literal_def simp del: abs_less_iff elim!: bindE)

lemma parsed_request:
  assumes "parseAgentSyncRequest P value now = Inr request"
  shows "is_safe_integer (rq_request_sequence request)" "1 \<le> rq_request_sequence request"
    "rq_freshness request = (if \<bar>rq_sent_at_epoch request - now\<bar> > 30 then STALE else FRESH)"
    "is_safe_integer now" "0 \<le> now" "length (rq_events request) \<le> 256" "\<forall>e\<in>set (rq_events request). event_of P request e"
    "\<exists>v. validateSnapshot v = Some (rq_account_snapshot request)"
    "\<exists>input. value = JObj input \<and> edge_sha256 P (JObj (without_field ''body_sha256'' input)) = Inr (rq_body_sha256 request)"
proof -
  from assms obtain input r events evidence where h: "request_head value now = Some (input, r)"
    and e: "validateEvents P r input = Inr events" and s: "edge_sha256 P (JObj (without_field ''body_sha256'' input)) = Inr (rq_body_sha256 r)"
    and r: "request = r\<lparr>rq_events := events, rq_broker_bar_evidence := evidence\<rparr>"
    by (auto simp: parseAgentSyncRequest_def and_then_Inr_iff split: if_split_asm)
  have "event_of P request = event_of P r" by (rule ext) (simp add: event_of_def r)
  then show "\<forall>e\<in>set (rq_events request). event_of P request e" "length (rq_events request) \<le> 256"
    using validateEvents_events[OF e] by (simp_all add: r)
  have "value = JObj input" using request_head_fields(6)[OF h] by (cases "value") auto
  with s show "\<exists>input. value = JObj input \<and> edge_sha256 P (JObj (without_field ''body_sha256'' input)) = Inr (rq_body_sha256 request)"
    by (auto simp: r)
  show "rq_freshness request = (if \<bar>rq_sent_at_epoch request - now\<bar> > 30 then STALE else FRESH)"
    using request_head_fields(2)[OF h] by (simp add: r)
  show "is_safe_integer (rq_request_sequence request)" "1 \<le> rq_request_sequence request" "is_safe_integer now" "0 \<le> now"
    "\<exists>v. validateSnapshot v = Some (rq_account_snapshot request)"
    using request_head_fields(1,3,5)[OF h] by (simp_all add: r)
qed

end
