(* ===== verification/Account_Coordinator.thy ===== *)
theory Account_Coordinator
  imports Agent_Sync Transition_Systems
begin

text \<open>
  The account coordinator (\<open>account-coordinator-v1.ts\<close>), the durable object that numbers the requests
  of one trading account. Its storage holds one atomic state, or, from before that, one value per key.
  The coordinator is a transition system whose steps are whole calls, since the object handles one
  request at a time; a call that throws leaves the storage as it was.
\<close>

section \<open>State\<close>

record heartbeat =
  hb_observed_at_epoch :: "json option"
  hb_terminal_connection_state :: "json option"
  hb_account_trade_permission :: "json option"
  hb_terminal_trade_permission :: "json option"
  hb_algo_trading_permission :: "json option"

record sync_state =
  ss_installation_id :: "string option"
  ss_account_profile_sha256 :: "string option"
  ss_account_fingerprint_sha256 :: "string option"
  ss_safety_epoch :: "int option"
  ss_last_accepted_request_sequence :: "int option"
  ss_last_accepted_request_digest :: "string option"
  ss_last_canonical_response_bytes :: "string option"
  ss_last_canonical_response_digest :: "string option"
  ss_last_acknowledged_event_sequence :: "int option"
  ss_heartbeat_summary :: "heartbeat option"

text \<open>The value under \<open>sync_state_v1\<close>, and the values under the single keys.\<close>

record coordinator_storage =
  cs_sync_state :: "sync_state option"
  cs_keys :: sync_state

definition loadCoordinatorSyncStateV1 :: "coordinator_storage \<Rightarrow> sync_state" where
  "loadCoordinatorSyncStateV1 storage = (case cs_sync_state storage of Some s \<Rightarrow> s | None \<Rightarrow> cs_keys storage)"

datatype coordinator_result =
    OK (replayed: bool) (response: strict_json) (responseBytes: string)
  | REPLAY_CONFLICT | SEQUENCE_INVALID | IDENTITY_MISMATCH | STALE_TIMESTAMP

section \<open>Operations\<close>

definition fingerprint :: "sync_request \<Rightarrow> string option" where
  "fingerprint request = string_at (rq_account_snapshot request) ''account_fingerprint_sha256''"

definition heartbeatSummary :: "sync_request \<Rightarrow> heartbeat" where
  "heartbeatSummary request = (let snapshot = map_of (rq_account_snapshot request) in
     \<lparr>hb_observed_at_epoch = snapshot ''observed_at_epoch'',
      hb_terminal_connection_state = snapshot ''terminal_connection_state'',
      hb_account_trade_permission = snapshot ''account_trade_permission'',
      hb_terminal_trade_permission = snapshot ''terminal_trade_permission'',
      hb_algo_trading_permission = snapshot ''algo_trading_permission''\<rparr>)"

text \<open>\<open>Math.max\<close> with a value that is no number is NaN: \<open>None\<close>.\<close>

fun maximumEventSequence :: "int option \<Rightarrow> fields list \<Rightarrow> int option" where
  "maximumEventSequence maximum [] = maximum"
| "maximumEventSequence maximum (event # events) =
     maximumEventSequence (do { m \<leftarrow> maximum; n \<leftarrow> number_at event ''sequence''; Some (max m n) }) events"

definition member_of :: "strict_json \<Rightarrow> string \<Rightarrow> strict_json option" where
  "member_of v k = (case v of SObj kvs \<Rightarrow> map_of kvs (units_of k) | _ \<Rightarrow> None)"

definition storedResponse :: "string \<Rightarrow> string \<Rightarrow> strict_json option" where
  "storedResponse bytes digest = do {
     v \<leftarrow> JSON_parse (units_of bytes);
     if member_of v ''response_body_sha256'' = Some (SStr (units_of digest)) then Some v else None }"

definition accept_sync :: "platform \<Rightarrow> coordinator_storage \<Rightarrow> sync_request \<Rightarrow> int \<Rightarrow> (coordinator_result \<times> coordinator_storage) result" where
  "accept_sync P storage request nowEpoch =
     (let acknowledged = (case ss_last_acknowledged_event_sequence (loadCoordinatorSyncStateV1 storage) of None \<Rightarrow> 0 | Some n \<Rightarrow> n) in
      case maximumEventSequence (Some 0) (rq_events request) of
        None \<Rightarrow> Inl agent_sync_invalid
      | Some maximum \<Rightarrow>
          (let nextAcknowledgedSequence = max acknowledged maximum in
           and_then (createDryRunResponse P (rq_events request) nextAcknowledgedSequence (rq_request_sequence request) nowEpoch) (\<lambda>r.
           and_then (serialize (response_json r)) (\<lambda>bytes.
             Inr (OK False (strict_of (response_json r)) bytes,
               storage\<lparr>cs_sync_state := Some
                 \<lparr>ss_installation_id = Some (rq_installation_id request),
                  ss_account_profile_sha256 = Some (rq_account_profile_sha256 request),
                  ss_account_fingerprint_sha256 = fingerprint request,
                  ss_safety_epoch = Some (rq_safety_epoch request),
                  ss_last_accepted_request_sequence = Some (rq_request_sequence request),
                  ss_last_accepted_request_digest = Some (rq_body_sha256 request),
                  ss_last_canonical_response_bytes = Some bytes,
                  ss_last_canonical_response_digest = Some (rs_response_body_sha256 r),
                  ss_last_acknowledged_event_sequence = Some nextAcknowledgedSequence,
                  ss_heartbeat_summary = Some (heartbeatSummary request)\<rparr>\<rparr>)))))"

definition identity_mismatch :: "sync_state \<Rightarrow> sync_request \<Rightarrow> bool" where
  "identity_mismatch state request \<longleftrightarrow>
     ss_installation_id state \<noteq> Some (rq_installation_id request) \<or>
     ss_account_profile_sha256 state \<noteq> Some (rq_account_profile_sha256 request) \<or>
     ss_account_fingerprint_sha256 state \<noteq> fingerprint request \<or>
     ss_safety_epoch state \<noteq> Some (rq_safety_epoch request)"

definition replay_answer :: "sync_state \<Rightarrow> sync_request \<Rightarrow> coordinator_result" where
  "replay_answer state request =
     (if ss_last_accepted_request_digest state \<noteq> Some (rq_body_sha256 request) then REPLAY_CONFLICT
      else case (ss_last_canonical_response_bytes state, ss_last_canonical_response_digest state) of
          (Some bytes, Some digest) \<Rightarrow>
            (case storedResponse bytes digest of None \<Rightarrow> SEQUENCE_INVALID | Some v \<Rightarrow> OK True v bytes)
        | _ \<Rightarrow> SEQUENCE_INVALID)"

definition coordinateAgentSyncV1 :: "platform \<Rightarrow> coordinator_storage \<Rightarrow> sync_request \<Rightarrow> int \<Rightarrow> (coordinator_result \<times> coordinator_storage) result" where
  "coordinateAgentSyncV1 P storage request nowEpoch =
     (let state = loadCoordinatorSyncStateV1 storage in
      case ss_last_accepted_request_sequence state of
        Some lastSequence \<Rightarrow>
          if identity_mismatch state request then Inr (IDENTITY_MISMATCH, storage)
          else if rq_request_sequence request = lastSequence then Inr (replay_answer state request, storage)
          else if rq_freshness request = STALE then Inr (STALE_TIMESTAMP, storage)
          else if rq_request_sequence request \<noteq> lastSequence + 1 then Inr (SEQUENCE_INVALID, storage)
          else accept_sync P storage request nowEpoch
      | None \<Rightarrow>
          if rq_freshness request = STALE then Inr (STALE_TIMESTAMP, storage)
          else if rq_request_sequence request \<noteq> 1 then Inr (SEQUENCE_INVALID, storage)
          else accept_sync P storage request nowEpoch)"

definition getAccountCoordinatorStatusV1 :: "coordinator_storage \<Rightarrow> int" where
  "getAccountCoordinatorStatusV1 storage =
     (case ss_last_accepted_request_sequence (loadCoordinatorSyncStateV1 storage) of None \<Rightarrow> 0 | Some n \<Rightarrow> n)"

definition validTelemetryV1Pin :: "sync_state \<Rightarrow> bool" where
  "validTelemetryV1Pin pin \<longleftrightarrow>
     ss_installation_id pin \<noteq> None \<and> ss_account_profile_sha256 pin \<noteq> None \<and> ss_account_fingerprint_sha256 pin \<noteq> None \<and>
     (case ss_safety_epoch pin of None \<Rightarrow> False | Some e \<Rightarrow> is_safe_integer e \<and> e \<ge> 0) \<and>
     (case ss_last_accepted_request_sequence pin of None \<Rightarrow> False | Some n \<Rightarrow> is_safe_integer n \<and> n > 0)"

text \<open>The body of \<open>fetch\<close> for \<open>/sync\<close>: the status of the answer and its code, and the storage after it.\<close>

datatype coordinator_reply = Reply int "(bool \<times> string) option" string

definition sync_fetch :: "platform \<Rightarrow> coordinator_storage \<Rightarrow> sync_request \<Rightarrow> int \<Rightarrow> coordinator_reply \<times> coordinator_storage" where
  "sync_fetch P storage request nowEpoch =
     (if \<not> is_safe_integer nowEpoch \<or> nowEpoch < 0 then (Reply 400 None ''COORDINATOR_INVALID'', storage)
      else case coordinateAgentSyncV1 P storage request nowEpoch of
          Inl _ \<Rightarrow> (Reply 400 None ''COORDINATOR_INVALID'', storage)
        | Inr (OK rep _ bytes, storage') \<Rightarrow> (Reply 200 (Some (rep, bytes)) ''OK'', storage')
        | Inr (REPLAY_CONFLICT, storage') \<Rightarrow> (Reply 200 None ''REPLAY_CONFLICT'', storage')
        | Inr (SEQUENCE_INVALID, storage') \<Rightarrow> (Reply 200 None ''SEQUENCE_INVALID'', storage')
        | Inr (IDENTITY_MISMATCH, storage') \<Rightarrow> (Reply 200 None ''IDENTITY_MISMATCH'', storage')
        | Inr (STALE_TIMESTAMP, storage') \<Rightarrow> (Reply 200 None ''STALE_TIMESTAMP'', storage'))"

section \<open>Runs\<close>

definition empty_state :: sync_state where
  "empty_state = \<lparr>ss_installation_id = None, ss_account_profile_sha256 = None, ss_account_fingerprint_sha256 = None,
     ss_safety_epoch = None, ss_last_accepted_request_sequence = None, ss_last_accepted_request_digest = None,
     ss_last_canonical_response_bytes = None, ss_last_canonical_response_digest = None,
     ss_last_acknowledged_event_sequence = None, ss_heartbeat_summary = None\<rparr>"

definition empty_storage :: coordinator_storage where
  "empty_storage = \<lparr>cs_sync_state = None, cs_keys = empty_state\<rparr>"

inductive coordinator_step :: "platform \<Rightarrow> coordinator_storage \<Rightarrow> sync_request \<times> int \<times> coordinator_result result \<Rightarrow> coordinator_storage \<Rightarrow> bool"
  for P where
  answered: "coordinateAgentSyncV1 P s request now = Inr (r, t) \<Longrightarrow> coordinator_step P s (request, now, Inr r) t"
| thrown: "coordinateAgentSyncV1 P s request now = Inl e \<Longrightarrow> coordinator_step P s (request, now, Inl e) s"

inductive_cases coordinator_stepE: "coordinator_step P s l t"

text \<open>The requests accepted for the first time, in order.\<close>

fun fresh_label :: "sync_request \<times> int \<times> coordinator_result result \<Rightarrow> bool" where
  "fresh_label (_, _, Inr (OK False _ _)) = True"
| "fresh_label _ = False"

definition accepted_requests :: "(sync_request \<times> int \<times> coordinator_result result) list \<Rightarrow> sync_request list" where
  "accepted_requests ls = map fst (filter fresh_label ls)"
section \<open>One call\<close>

lemma serialize_Inr: "serialize v = Inr t \<longleftrightarrow> safe_numbers v \<and> t = canonicalStringify v"
  by (auto simp: serialize_eq)

lemma edge_sha256_Inr: "edge_sha256 P v = Inr sha \<longleftrightarrow> safe_numbers v \<and> sha = canonicalSha256 P v"
  by (auto simp: edge_sha256_def and_then_Inr_iff serialize_Inr canonicalSha256_def)

lemma acknowledge_events_Inr:
  "acknowledge_events a events = Inr n \<Longrightarrow> is_safe_integer a \<Longrightarrow>
     is_safe_integer n \<and> a \<le> n \<and> maximumEventSequence (Some a) events = Some n"
proof (induction events arbitrary: a)
  case (Cons e es)
  then obtain m where "number_at e ''sequence'' = Some m" "is_safe_integer m" "acknowledge_events (max a m) es = Inr n"
    by (auto split: option.split_asm if_split_asm)
  with Cons.IH[of "max a m"] Cons.prems(2) show ?case by (simp add: max_def split: if_split_asm)
qed simp

definition sorted_response :: "sync_response \<Rightarrow> json" where
  "sorted_response r = JObj
     [(''acknowledged_event_sequence'', JNum (rs_acknowledged_event_sequence r)), (''command'', JNull), (''evidence_requests'', JArr []),
      (''freeze_reasons'', JArr []), (''mode'', JStr ''DRY_RUN''), (''response_body_sha256'', JStr (rs_response_body_sha256 r)),
      (''schema_version'', JStr ''AgentSyncResponseV1''), (''server_sequence'', JNum (rs_server_sequence r)),
      (''server_time_epoch'', JNum (rs_server_time_epoch r))]"

lemma sort_response: "sort_keys (response_json r) = sorted_response r"
  by (simp add: response_json_def response_body_def sorted_response_def key_order_def code_unit_def)

lemma response_limits:
  assumes "is_safe_integer (rs_server_sequence r)" "is_safe_integer (rs_server_time_epoch r)" "is_safe_integer (rs_acknowledged_event_sequence r)"
  shows "readable (response_json r)" "nesting (strict_of (response_json r)) \<le> MAX_DEPTH" "count_values (strict_of (response_json r)) \<le> MAX_NODES"
  using assms by (simp_all add: response_json_def response_body_def MAX_DEPTH_def MAX_NODES_def)

lemma member_of_sorted: "member_of (strict_of (sorted_response r)) ''response_body_sha256'' = Some (SStr (units_of (rs_response_body_sha256 r)))"
  by (simp add: member_of_def sorted_response_def code_unit_def)

lemma storedResponse_response:
  assumes "is_safe_integer (rs_server_sequence r)" "is_safe_integer (rs_server_time_epoch r)" "is_safe_integer (rs_acknowledged_event_sequence r)"
  shows "storedResponse (canonicalStringify (response_json r)) (rs_response_body_sha256 r) = Some (strict_of (sorted_response r))"
  using JSON_parse_canonical[OF response_limits[OF assms]] by (simp add: storedResponse_def sort_response member_of_sorted)

lemma createDryRunResponse_Inr:
  assumes "createDryRunResponse P events a n now = Inr r"
  shows "is_safe_integer (rs_server_sequence r)" "is_safe_integer (rs_server_time_epoch r)" "is_safe_integer (rs_acknowledged_event_sequence r)"
    "rs_server_sequence r = n" "rs_server_time_epoch r = now" "a \<le> rs_acknowledged_event_sequence r" "0 \<le> a"
    "rs_response_body_sha256 r = canonicalSha256 P (JObj (response_body n now (rs_acknowledged_event_sequence r)))"
    "maximumEventSequence (Some a) events = Some (rs_acknowledged_event_sequence r)" "1 \<le> n" "0 \<le> now"
  using assms
  by (auto simp: createDryRunResponse_def and_then_Inr_iff edge_sha256_Inr split: if_split_asm dest!: acknowledge_events_Inr)

lemma maximum_none: "maximumEventSequence None events = None"
  by (induction events) simp_all

lemma maximum_absorb:
  "maximumEventSequence (Some a) events = Some m \<Longrightarrow> maximumEventSequence (Some (max b m)) events = Some (max b m) \<and> a \<le> m"
proof (induction events arbitrary: a)
  case (Cons e es)
  from Cons.prems obtain n where n: "number_at e ''sequence'' = Some n" "maximumEventSequence (Some (max a n)) es = Some m"
    by (cases "number_at e ''sequence''") (auto simp: maximum_none)
  with Cons.IH[OF n(2)] show ?case by (simp add: max_def split: if_split_asm)
qed simp


text \<open>A fresh acceptance and what it leaves in the storage.\<close>

definition stored :: "coordinator_storage \<Rightarrow> sync_request \<Rightarrow> sync_response \<Rightarrow> string \<Rightarrow> bool" where
  "stored t request r bytes \<longleftrightarrow> (let s = loadCoordinatorSyncStateV1 t in
     ss_installation_id s = Some (rq_installation_id request) \<and>
     ss_account_profile_sha256 s = Some (rq_account_profile_sha256 request) \<and>
     ss_account_fingerprint_sha256 s = fingerprint request \<and> ss_safety_epoch s = Some (rq_safety_epoch request) \<and>
     ss_last_accepted_request_sequence s = Some (rq_request_sequence request) \<and>
     ss_last_accepted_request_digest s = Some (rq_body_sha256 request) \<and>
     ss_last_canonical_response_bytes s = Some bytes \<and>
     ss_last_canonical_response_digest s = Some (rs_response_body_sha256 r) \<and>
     ss_last_acknowledged_event_sequence s = Some (rs_acknowledged_event_sequence r))"

definition acknowledged_upto :: "coordinator_storage \<Rightarrow> int" where
  "acknowledged_upto s = (case ss_last_acknowledged_event_sequence (loadCoordinatorSyncStateV1 s) of None \<Rightarrow> 0 | Some n \<Rightarrow> n)"

lemma accept_sync_Inr:
  assumes "accept_sync P s request now = Inr (res, t)"
  obtains r where "res = OK False (strict_of (response_json r)) (canonicalStringify (response_json r))"
    "stored t request r (canonicalStringify (response_json r))" "rs_server_sequence r = rq_request_sequence request"
    "rs_server_time_epoch r = now" "is_safe_integer (rs_server_sequence r)" "is_safe_integer (rs_server_time_epoch r)"
    "is_safe_integer (rs_acknowledged_event_sequence r)" "1 \<le> rs_server_sequence r" "0 \<le> rs_server_time_epoch r"
    "maximumEventSequence (Some 0) (rq_events request) \<noteq> None"
    "rs_acknowledged_event_sequence r = max (acknowledged_upto s) (the (maximumEventSequence (Some 0) (rq_events request)))"
    "rs_response_body_sha256 r = canonicalSha256 P (JObj (response_body (rs_server_sequence r) now (rs_acknowledged_event_sequence r)))"
proof -
  from assms obtain m r bytes where m: "maximumEventSequence (Some 0) (rq_events request) = Some m"
    and r: "createDryRunResponse P (rq_events request) (max (acknowledged_upto s) m) (rq_request_sequence request) now = Inr r"
    and b: "serialize (response_json r) = Inr bytes"
    and res: "res = OK False (strict_of (response_json r)) bytes"
    and t: "cs_sync_state t = Some
                 \<lparr>ss_installation_id = Some (rq_installation_id request),
                  ss_account_profile_sha256 = Some (rq_account_profile_sha256 request),
                  ss_account_fingerprint_sha256 = fingerprint request,
                  ss_safety_epoch = Some (rq_safety_epoch request),
                  ss_last_accepted_request_sequence = Some (rq_request_sequence request),
                  ss_last_accepted_request_digest = Some (rq_body_sha256 request),
                  ss_last_canonical_response_bytes = Some bytes,
                  ss_last_canonical_response_digest = Some (rs_response_body_sha256 r),
                  ss_last_acknowledged_event_sequence = Some (max (acknowledged_upto s) m),
                  ss_heartbeat_summary = Some (heartbeatSummary request)\<rparr>"
    by (auto simp: accept_sync_def Let_def and_then_Inr_iff acknowledged_upto_def split: option.split_asm)
  note c = createDryRunResponse_Inr[OF r]
  have ack: "rs_acknowledged_event_sequence r = max (acknowledged_upto s) m" using c(9) maximum_absorb[OF m] by simp
  show thesis
  proof (rule that[of r])
    show "stored t request r (canonicalStringify (response_json r))"
      using b by (simp add: stored_def loadCoordinatorSyncStateV1_def t ack serialize_Inr)
  qed (use b c ack m res in \<open>auto simp: serialize_Inr\<close>)
qed
abbreviation last_sequence :: "coordinator_storage \<Rightarrow> int option" where
  "last_sequence s \<equiv> ss_last_accepted_request_sequence (loadCoordinatorSyncStateV1 s)"

definition same_identity :: "coordinator_storage \<Rightarrow> sync_request \<Rightarrow> bool" where
  "same_identity s request \<longleftrightarrow> (last_sequence s \<noteq> None \<longrightarrow> \<not> identity_mismatch (loadCoordinatorSyncStateV1 s) request)"

lemma replay_answer_not_fresh: "\<not> fresh_label (request, now, Inr (replay_answer state request'))"
  by (auto simp: replay_answer_def split: option.split)

lemma coordinate_cases:
  assumes "coordinateAgentSyncV1 P s request now = Inr (res, t)"
  obtains (kept) "t = s" "\<not> fresh_label (request, now, Inr res)"
  | (accepted) "accept_sync P s request now = Inr (res, t)" "fresh_label (request, now, Inr res)" "rq_freshness request = FRESH"
      "rq_request_sequence request = getAccountCoordinatorStatusV1 s + 1" "same_identity s request"
proof -
  have fresh: "rq_freshness request \<noteq> STALE \<Longrightarrow> rq_freshness request = FRESH" by (cases "rq_freshness request") simp_all
  have acc: "fresh_label (request, now, Inr res)" if "accept_sync P s request now = Inr (res, t)"
    using that by (rule accept_sync_Inr) simp
  have "t = s \<and> \<not> fresh_label (request, now, Inr res) \<or> accept_sync P s request now = Inr (res, t) \<and> rq_freshness request = FRESH \<and>
      rq_request_sequence request = getAccountCoordinatorStatusV1 s + 1 \<and> same_identity s request"
  proof (cases "last_sequence s")
    case None
    with assms fresh show ?thesis
      by (auto simp: coordinateAgentSyncV1_def Let_def getAccountCoordinatorStatusV1_def same_identity_def split: if_split_asm)
  next
    case (Some n)
    with assms fresh replay_answer_not_fresh show ?thesis
      by (auto simp: coordinateAgentSyncV1_def Let_def getAccountCoordinatorStatusV1_def same_identity_def split: if_split_asm)
  qed
  with acc that show thesis by blast
qed

lemma coordinate_accepts:
  assumes "rq_freshness request = FRESH" "rq_request_sequence request = getAccountCoordinatorStatusV1 s + 1" "same_identity s request"
  shows "coordinateAgentSyncV1 P s request now = accept_sync P s request now"
  using assms by (auto simp: coordinateAgentSyncV1_def Let_def getAccountCoordinatorStatusV1_def same_identity_def split: option.split)

section \<open>The invariant of the storage\<close>

text \<open>
  The acknowledged sequence is a natural number in the safe range; once a request has been accepted the
  stored answer can be replayed and the identity is pinned.
\<close>

definition coordinator_ok :: "coordinator_storage \<Rightarrow> bool" where
  "coordinator_ok s \<longleftrightarrow> is_safe_integer (acknowledged_upto s) \<and> 0 \<le> acknowledged_upto s \<and>
     (last_sequence s = None \<or> (\<exists>request r. stored s request r (canonicalStringify (response_json r)) \<and>
       rs_server_sequence r = rq_request_sequence request \<and> 1 \<le> rs_server_sequence r \<and>
       is_safe_integer (rs_server_sequence r) \<and> is_safe_integer (rs_server_time_epoch r) \<and> is_safe_integer (rs_acknowledged_event_sequence r)))"

lemma accept_sync_ok:
  assumes "accept_sync P s request now = Inr (res, t)" and "0 \<le> acknowledged_upto s"
  shows "coordinator_ok t"
  using assms(1)
proof (rule accept_sync_Inr)
  fix r assume r: "stored t request r (canonicalStringify (response_json r))" "rs_server_sequence r = rq_request_sequence request"
    "is_safe_integer (rs_server_sequence r)" "is_safe_integer (rs_server_time_epoch r)"
    "is_safe_integer (rs_acknowledged_event_sequence r)" "1 \<le> rs_server_sequence r"
    "rs_acknowledged_event_sequence r = max (acknowledged_upto s) (the (maximumEventSequence (Some 0) (rq_events request)))"
  from r(1) have "acknowledged_upto t = rs_acknowledged_event_sequence r" by (simp add: stored_def Let_def acknowledged_upto_def)
  moreover have "0 \<le> rs_acknowledged_event_sequence r" using r(7) assms(2) by simp
  ultimately show ?thesis unfolding coordinator_ok_def using r(1-6) by (intro conjI disjI2 exI[of _ request] exI[of _ r]) simp_all
qed

interpretation coordinator: invariant_system "coordinator_step P" coordinator_ok for P
proof
  fix s l t assume ok: "coordinator_ok s" and step: "coordinator_step P s l t"
  from step show "coordinator_ok t"
  proof (cases rule: coordinator_step.cases)
    case (answered request now r)
    from answered(2) show ?thesis
    proof (cases rule: coordinate_cases)
      case accepted
      with ok accept_sync_ok show ?thesis by (auto simp: coordinator_ok_def)
    qed (use ok in simp)
  qed (use ok in simp)
qed

lemma empty_storage_ok: "coordinator_ok empty_storage"
  by (simp add: coordinator_ok_def empty_storage_def empty_state_def loadCoordinatorSyncStateV1_def acknowledged_upto_def
      is_safe_integer_def MAX_SAFE_INTEGER_def)

section \<open>Numbering\<close>

definition identity :: "sync_request \<Rightarrow> string \<times> string \<times> string option \<times> int" where
  "identity request = (rq_installation_id request, rq_account_profile_sha256 request, fingerprint request, rq_safety_epoch request)"

text \<open>One step: the counter, the pinned identity and the acknowledged events.\<close>

lemma coordinator_step_counts:
  assumes "coordinator_step P s l t"
  shows "getAccountCoordinatorStatusV1 t = getAccountCoordinatorStatusV1 s + (if fresh_label l then 1 else 0)"
    "acknowledged_upto s \<le> acknowledged_upto t"
    "fresh_label l \<Longrightarrow> rq_request_sequence (fst l) = getAccountCoordinatorStatusV1 s + 1"
    "fresh_label l \<Longrightarrow> same_identity s (fst l) \<and> last_sequence t \<noteq> None \<and> \<not> identity_mismatch (loadCoordinatorSyncStateV1 t) (fst l)"
    "\<not> fresh_label l \<Longrightarrow> t = s"
proof -
  have "(\<not> fresh_label l \<and> t = s) \<or> (\<exists>res now. fresh_label l \<and> accept_sync P s (fst l) now = Inr (res, t) \<and>
      rq_request_sequence (fst l) = getAccountCoordinatorStatusV1 s + 1 \<and> same_identity s (fst l))"
    using assms by (cases rule: coordinator_step.cases) (auto elim: coordinate_cases)
  then consider "\<not> fresh_label l" "t = s" | res now where "fresh_label l" "accept_sync P s (fst l) now = Inr (res, t)"
      "rq_request_sequence (fst l) = getAccountCoordinatorStatusV1 s + 1" "same_identity s (fst l)" by blast
  then have "getAccountCoordinatorStatusV1 t = getAccountCoordinatorStatusV1 s + (if fresh_label l then 1 else 0) \<and>
    acknowledged_upto s \<le> acknowledged_upto t \<and> (fresh_label l \<longrightarrow> rq_request_sequence (fst l) = getAccountCoordinatorStatusV1 s + 1) \<and>
    (fresh_label l \<longrightarrow> same_identity s (fst l) \<and> last_sequence t \<noteq> None \<and> \<not> identity_mismatch (loadCoordinatorSyncStateV1 t) (fst l)) \<and>
    (\<not> fresh_label l \<longrightarrow> t = s)"
  proof cases
    case (2 res now)
    from 2(2) show ?thesis
    proof (rule accept_sync_Inr)
      fix r assume "stored t (fst l) r (canonicalStringify (response_json r))"
        "rs_acknowledged_event_sequence r = max (acknowledged_upto s) (the (maximumEventSequence (Some 0) (rq_events (fst l))))"
      with 2 show ?thesis
        by (simp add: stored_def Let_def getAccountCoordinatorStatusV1_def acknowledged_upto_def identity_mismatch_def)
    qed
  qed simp
  then show "getAccountCoordinatorStatusV1 t = getAccountCoordinatorStatusV1 s + (if fresh_label l then 1 else 0)"
    "acknowledged_upto s \<le> acknowledged_upto t"
    "fresh_label l \<Longrightarrow> rq_request_sequence (fst l) = getAccountCoordinatorStatusV1 s + 1"
    "fresh_label l \<Longrightarrow> same_identity s (fst l) \<and> last_sequence t \<noteq> None \<and> \<not> identity_mismatch (loadCoordinatorSyncStateV1 t) (fst l)"
    "\<not> fresh_label l \<Longrightarrow> t = s" by blast+
qed

lemma accepted_requests_simps [simp]:
  "accepted_requests [] = []"
  "accepted_requests (l # ls) = (if fresh_label l then fst l # accepted_requests ls else accepted_requests ls)"
  by (simp_all add: accepted_requests_def)

lemma coordinator_numbers:
  "run (coordinator_step P) s ls t \<Longrightarrow>
     map rq_request_sequence (accepted_requests ls) =
       map (\<lambda>i. getAccountCoordinatorStatusV1 s + 1 + int i) [0..<length (accepted_requests ls)] \<and>
     getAccountCoordinatorStatusV1 t = getAccountCoordinatorStatusV1 s + int (length (accepted_requests ls)) \<and>
     acknowledged_upto s \<le> acknowledged_upto t"
proof (induction rule: run.induct)
  case (run_Cons s l t ls u)
  note c = coordinator_step_counts[OF run_Cons(1)]
  show ?case
  proof (cases "fresh_label l")
    case True
    have "map (\<lambda>i. getAccountCoordinatorStatusV1 s + 1 + int i) [0..<Suc n] =
        (getAccountCoordinatorStatusV1 s + 1) # map (\<lambda>i. getAccountCoordinatorStatusV1 t + 1 + int i) [0..<n]" for n
      using c(1) True by (simp add: map_upt_Suc del: upt_Suc)
    with c True run_Cons(3) show ?thesis by (simp del: upt_Suc)
  next
    case False
    with c(5) run_Cons(3) show ?thesis by simp
  qed
qed simp

lemma identity_pinned:
  "run (coordinator_step P) s ls t \<Longrightarrow> last_sequence s \<noteq> None \<Longrightarrow>
     \<forall>request\<in>set (accepted_requests ls). \<not> identity_mismatch (loadCoordinatorSyncStateV1 s) request"
proof (induction rule: run.induct)
  case (run_Cons s l t ls u)
  note c = coordinator_step_counts[OF run_Cons(1)]
  show ?case
  proof (cases "fresh_label l")
    case True
    with c(4) run_Cons(4) have "\<not> identity_mismatch (loadCoordinatorSyncStateV1 s) (fst l)" by (simp add: same_identity_def)
    moreover have "\<forall>request\<in>set (accepted_requests ls). \<not> identity_mismatch (loadCoordinatorSyncStateV1 t) request"
      using run_Cons(3) c(4)[OF True] by blast
    moreover have "\<not> identity_mismatch (loadCoordinatorSyncStateV1 t) (fst l)" using c(4)[OF True] by blast
    ultimately show ?thesis using True by (auto simp: identity_mismatch_def)
  next
    case False
    with c(5) run_Cons(3,4) show ?thesis by simp
  qed
qed simp

lemma same_identities:
  assumes "run (coordinator_step P) s ls t" and "a \<in> set (accepted_requests ls)" and "b \<in> set (accepted_requests ls)"
  shows "identity a = identity b"
  using assms
proof (induction rule: run.induct)
  case (run_Cons s l t ls u)
  note c = coordinator_step_counts[OF run_Cons(1)]
  show ?case
  proof (cases "fresh_label l")
    case True
    have "\<not> identity_mismatch (loadCoordinatorSyncStateV1 t) r" if "r \<in> set (accepted_requests (l # ls))" for r
      using that identity_pinned[OF run_Cons(2)] c(4)[OF True] True by auto
    from this[OF run_Cons(4)] this[OF run_Cons(5)] show ?thesis by (auto simp: identity_mismatch_def identity_def)
  next
    case False
    with run_Cons(3-5) show ?thesis by simp
  qed
qed simp

text \<open>
  C25. The coordinator numbers requests without a gap. Whatever requests arrive, in whatever order and
  with whatever clock, the requests an empty coordinator accepts for the first time carry the sequence
  numbers 1, 2, 3 and so on, its status is how many there were, they all carry one identity
  (installation, profile, account fingerprint, safety epoch), and the acknowledged event sequence
  never goes back.
\<close>

theorem coordinator_accepts_in_sequence:
  assumes "run (coordinator_step P) empty_storage ls s" and "run (coordinator_step P) s ms t"
  shows "map rq_request_sequence (accepted_requests (ls @ ms)) = map (\<lambda>i. 1 + int i) [0..<length (accepted_requests (ls @ ms))] \<and>
    getAccountCoordinatorStatusV1 t = int (length (accepted_requests (ls @ ms))) \<and>
    (\<forall>a\<in>set (accepted_requests (ls @ ms)). \<forall>b\<in>set (accepted_requests (ls @ ms)). identity a = identity b) \<and>
    acknowledged_upto s \<le> acknowledged_upto t"
proof -
  have r: "run (coordinator_step P) empty_storage (ls @ ms) t" by (rule run_append[OF assms])
  have z: "getAccountCoordinatorStatusV1 empty_storage = 0"
    by (simp add: getAccountCoordinatorStatusV1_def empty_storage_def empty_state_def loadCoordinatorSyncStateV1_def)
  show ?thesis
    using coordinator_numbers[OF r, unfolded z] coordinator_numbers[OF assms(2)] by (intro conjI ballI same_identities[OF r]) simp_all
qed

section \<open>Replay\<close>

lemma no_acceptance_keeps: "run (coordinator_step P) s ls t \<Longrightarrow> accepted_requests ls = [] \<Longrightarrow> t = s"
  by (induction rule: run.induct) (auto split: if_split_asm dest: coordinator_step_counts(5))

text \<open>
  C26. An accepted request can be repeated. After a request was accepted, and after any further calls
  that accepted nothing new, the same request again, fresh or stale by then, is answered with the very
  bytes of the first answer, marked as replayed, and changes nothing.
\<close>

theorem accepted_request_replays:
  assumes "coordinateAgentSyncV1 P s request now = Inr (OK False v bytes, t)"
    and "run (coordinator_step P) t ls u" and "accepted_requests ls = []"
  shows "\<exists>w. coordinateAgentSyncV1 P u (request\<lparr>rq_freshness := f\<rparr>) later = Inr (OK True w bytes, u)"
proof -
  have u: "u = t" by (rule no_acceptance_keeps[OF assms(2,3)])
  from assms(1) have "accept_sync P s request now = Inr (OK False v bytes, t)"
    by (rule coordinate_cases) simp_all
  then show ?thesis
  proof (rule accept_sync_Inr)
    fix r assume r: "OK False v bytes = OK False (strict_of (response_json r)) (canonicalStringify (response_json r))"
      "stored t request r (canonicalStringify (response_json r))"
      "is_safe_integer (rs_server_sequence r)" "is_safe_integer (rs_server_time_epoch r)" "is_safe_integer (rs_acknowledged_event_sequence r)"
    then have b: "bytes = canonicalStringify (response_json r)" by simp
    from r(2) show ?thesis
      by (simp add: u coordinateAgentSyncV1_def stored_def Let_def identity_mismatch_def fingerprint_def replay_answer_def b
          storedResponse_response[OF r(3-5)])
  qed
qed

end
