(* ===== verification/Agent_Worker.thy ===== *)
theory Agent_Worker
  imports Account_Coordinator
begin

text \<open>
  The agent routes of the execution edge (\<open>index.ts\<close> and \<open>agent-health-projection-v1.ts\<close>): a request is
  authenticated, parsed, passed to the coordinator of its account, and the coordinator's answer is
  checked again before it is audited and returned. The state of the worker is the storage of every
  coordinator and the two tables it writes. Whether a database write succeeds is an argument of the
  route. The body arrives as a parsed JSON value, or \<open>None\<close> where reading it throws.
\<close>

section \<open>Values read back\<close>

definition chars_of :: "units \<Rightarrow> string option" where
  "chars_of u = (if list_all (\<lambda>n. n < 256) u then Some (map char_of u) else None)"

text \<open>The values whose strings and numbers the model of JSON has.\<close>

fun json_of :: "strict_json \<Rightarrow> json option" where
  "json_of SNull = Some JNull"
| "json_of (SBool b) = Some (JBool b)"
| "json_of (SStr u) = map_option JStr (chars_of u)"
| "json_of (SNum raw n) = map_option JNum n"
| "json_of (SArr vs) = map_option JArr (all_options (map json_of vs))"
| "json_of (SObj kvs) = map_option JObj (all_options (map (\<lambda>kv. do { k \<leftarrow> chars_of (fst kv); v \<leftarrow> json_of (snd kv); Some (k, v) }) kvs))"

section \<open>The check of the coordinator's answer\<close>

definition AGENT_SYNC_RESPONSE_KEYS :: "string list" where
  "AGENT_SYNC_RESPONSE_KEYS =
    [''schema_version'', ''response_body_sha256'', ''server_sequence'', ''server_time_epoch'', ''mode'',
     ''freeze_reasons'', ''acknowledged_event_sequence'', ''evidence_requests'', ''command'']"

text \<open>
  Every test that fails, and every exception, returns null. A value outside the model of JSON (a
  fraction, a character above 255) fails one of the tests, since only integers, hexadecimal digits and
  fixed words pass them.
\<close>

definition validateCoordinatorResponse :: "platform \<Rightarrow> string \<Rightarrow> int \<Rightarrow> int \<Rightarrow> int option" where
  "validateCoordinatorResponse P bytes expectedServerSequence minimumAcknowledgedEventSequence = do {
     parsed \<leftarrow> JSON_parse (units_of bytes);
     v \<leftarrow> json_of parsed;
     input \<leftarrow> objectValue v;
     require (exactKeys input AGENT_SYNC_RESPONSE_KEYS);
     literal input ''schema_version'' ''AgentSyncResponseV1'';
     literal input ''mode'' ''DRY_RUN'';
     require (map_of input ''command'' = Some JNull);
     digest \<leftarrow> digest_at input ''response_body_sha256'';
     serverSequence \<leftarrow> number_at input ''server_sequence'';
     require (\<not> (serverSequence \<noteq> expectedServerSequence \<or> \<not> is_safe_integer serverSequence \<or> serverSequence < 1));
     safeInteger_at input ''server_time_epoch'' 0;
     safeInteger_at input ''acknowledged_event_sequence'' minimumAcknowledgedEventSequence;
     require (map_of input ''freeze_reasons'' = Some (JArr []) \<and> map_of input ''evidence_requests'' = Some (JArr []));
     text \<leftarrow> survives (serialize v);
     require (bytes = text);
     sha \<leftarrow> survives (edge_sha256 P (JObj (without_field ''response_body_sha256'' input)));
     if sha = digest then Some serverSequence else None }"

section \<open>Tables\<close>

record audit_row =
  au_account_id :: string
  au_installation_id :: string
  au_request_sequence :: int
  au_request_body_sha256 :: string
  au_result_code :: string
  au_server_sequence :: "int option"
  au_received_at_epoch :: int

record health_row =
  he_account_id :: string
  he_installation_id :: string
  he_last_accepted_epoch :: int
  he_request_sequence :: int
  he_server_sequence :: int
  he_terminal_build :: "json option"
  he_source_symbol :: "json option"
  he_terminal_connection_state :: "json option"
  he_account_trade_permission :: "json option"
  he_terminal_trade_permission :: "json option"
  he_algo_trading_permission :: "json option"

datatype health_state = ONLINE | STALE_HEALTH | OFFLINE | UNKNOWN_HEALTH

definition deriveHealthStateV1 :: "int option \<Rightarrow> int \<Rightarrow> health_state" where
  "deriveHealthStateV1 lastAcceptedEpoch nowEpoch = (case lastAcceptedEpoch of
       None \<Rightarrow> UNKNOWN_HEALTH
     | Some epoch \<Rightarrow>
         (let age = nowEpoch - epoch in
          if age \<le> 35 then ONLINE else if age \<le> 90 then STALE_HEALTH else OFFLINE))"

definition first_symbol :: "fields \<Rightarrow> json option" where
  "first_symbol snapshot = do {
     symbols \<leftarrow> array_at snapshot ''symbols'';
     input \<leftarrow> (case symbols of [] \<Rightarrow> None | s # _ \<Rightarrow> objectValue s);
     map_of input ''source_symbol'' }"

definition projectAcceptedHeartbeatV1 :: "sync_request \<Rightarrow> int \<Rightarrow> int \<Rightarrow> health_row" where
  "projectAcceptedHeartbeatV1 request serverSequence receivedAtEpoch =
     (let snapshot = rq_account_snapshot request in
      \<lparr>he_account_id = rq_account_id request, he_installation_id = rq_installation_id request,
       he_last_accepted_epoch = receivedAtEpoch, he_request_sequence = rq_request_sequence request,
       he_server_sequence = serverSequence, he_terminal_build = map_of snapshot ''terminal_build'',
       he_source_symbol = first_symbol snapshot,
       he_terminal_connection_state = map_of snapshot ''terminal_connection_state'',
       he_account_trade_permission = map_of snapshot ''account_trade_permission'',
       he_terminal_trade_permission = map_of snapshot ''terminal_trade_permission'',
       he_algo_trading_permission = map_of snapshot ''algo_trading_permission''\<rparr>)"

record worker_state =
  wk_coordinators :: "string \<Rightarrow> coordinator_storage"
  wk_audit :: "audit_row list"
  wk_health :: "string \<times> string \<Rightarrow> health_row option"

definition audit_entry :: "sync_request \<Rightarrow> string \<Rightarrow> int option \<Rightarrow> int \<Rightarrow> audit_row" where
  "audit_entry request resultCode serverSequence receivedAtEpoch =
     \<lparr>au_account_id = rq_account_id request, au_installation_id = rq_installation_id request,
      au_request_sequence = rq_request_sequence request, au_request_body_sha256 = rq_body_sha256 request,
      au_result_code = resultCode, au_server_sequence = serverSequence, au_received_at_epoch = receivedAtEpoch\<rparr>"

definition writeSyncAudit :: "sync_request \<Rightarrow> string \<Rightarrow> int option \<Rightarrow> int \<Rightarrow> worker_state \<Rightarrow> worker_state" where
  "writeSyncAudit request resultCode serverSequence receivedAtEpoch w =
     w\<lparr>wk_audit := wk_audit w @ [audit_entry request resultCode serverSequence receivedAtEpoch]\<rparr>"

text \<open>\<open>ON CONFLICT DO UPDATE ... WHERE excluded.request_sequence > request_sequence\<close>.\<close>

definition upsert_health :: "health_row \<Rightarrow> (string \<times> string \<Rightarrow> health_row option) \<Rightarrow> string \<times> string \<Rightarrow> health_row option" where
  "upsert_health row table = (let key = (he_account_id row, he_installation_id row) in
     case table key of
       Some old \<Rightarrow> if he_request_sequence row > he_request_sequence old then table(key \<mapsto> row) else table
     | None \<Rightarrow> table(key \<mapsto> row))"

definition writeAcceptedSyncAuditAndHealth :: "sync_request \<Rightarrow> int \<Rightarrow> int \<Rightarrow> worker_state \<Rightarrow> worker_state" where
  "writeAcceptedSyncAuditAndHealth request serverSequence receivedAtEpoch w =
     (writeSyncAudit request ''ACCEPTED'' (Some serverSequence) receivedAtEpoch w)
       \<lparr>wk_health := upsert_health (projectAcceptedHeartbeatV1 request serverSequence receivedAtEpoch) (wk_health w)\<rparr>"

section \<open>Routes\<close>

record worker_env =
  env_CANDIDATE_INBOX_ENABLED :: string
  env_AGENT_SYNC_ENABLED :: string
  env_EXECUTION_AUTHORITY_ENABLED :: string
  env_EXECUTION_MODE_CEILING :: string
  env_ROUTING_MANIFEST_SHA256 :: string
  env_AGENT_SYNC_SHARED_SECRET_SHA256 :: "string option"

definition isSafeConfiguration :: "worker_env \<Rightarrow> bool" where
  "isSafeConfiguration env \<longleftrightarrow>
     env_CANDIDATE_INBOX_ENABLED env = ''false'' \<and> env_EXECUTION_AUTHORITY_ENABLED env = ''false'' \<and>
     env_EXECUTION_MODE_CEILING env = ''DRY_RUN'' \<and> env_ROUTING_MANIFEST_SHA256 env = ''INERT_NOT_CONFIGURED'' \<and>
     (env_AGENT_SYNC_ENABLED env = ''false'' \<or> env_AGENT_SYNC_ENABLED env = ''true'')"

datatype worker_response = DryRunFailure string int | SyncBytes string | SyncStatus int

definition outcome_of :: "string \<Rightarrow> (bool \<times> string) option \<Rightarrow> string option" where
  "outcome_of code payload =
     (if code = ''OK'' then (case payload of None \<Rightarrow> None | Some (rep, _) \<Rightarrow> Some (if rep then ''EXACT_RETRY'' else ''ACCEPTED''))
      else if code \<in> set [''REPLAY_CONFLICT'', ''SEQUENCE_INVALID'', ''IDENTITY_MISMATCH'', ''STALE_TIMESTAMP''] then Some code
      else None)"

text \<open>What the route does with the reply of the coordinator.\<close>

definition settle_reply :: "platform \<Rightarrow> bool \<Rightarrow> sync_request \<Rightarrow> int \<Rightarrow> coordinator_reply \<Rightarrow> worker_state \<Rightarrow> worker_response \<times> worker_state" where
  "settle_reply P dbUp request nowEpoch reply w = (case reply of Reply status payload code \<Rightarrow>
     if status \<noteq> 200 then (DryRunFailure ''COORDINATOR_UNAVAILABLE'' 503, w)
     else case maximumEventSequence (Some 0) (rq_events request) of
         None \<Rightarrow> (DryRunFailure ''COORDINATOR_UNAVAILABLE'' 503, w)
       | Some minimum \<Rightarrow>
           (let valid = (case payload of
                  Some (_, bytes) \<Rightarrow> if code = ''OK'' then validateCoordinatorResponse P bytes (rq_request_sequence request) minimum else None
                | None \<Rightarrow> None) in
            case outcome_of code payload of
              None \<Rightarrow> (DryRunFailure ''COORDINATOR_UNAVAILABLE'' 503, w)
            | Some result \<Rightarrow>
                if code = ''OK'' \<and> valid = None then (DryRunFailure ''COORDINATOR_UNAVAILABLE'' 503, w)
                else if \<not> dbUp then (DryRunFailure ''AGENT_SYNC_AUDIT_UNAVAILABLE'' 503, w)
                else
                  (let w' = (case valid of
                         Some n \<Rightarrow> if result = ''ACCEPTED'' then writeAcceptedSyncAuditAndHealth request n nowEpoch w
                           else writeSyncAudit request result (Some n) nowEpoch w
                       | None \<Rightarrow> writeSyncAudit request result None nowEpoch w) in
                   (if code = ''REPLAY_CONFLICT'' then DryRunFailure ''REPLAY_CONFLICT'' 409
                    else if code = ''STALE_TIMESTAMP'' then DryRunFailure ''AGENT_SYNC_TIMESTAMP_INVALID'' 400
                    else case payload of
                        Some (_, bytes) \<Rightarrow> if code = ''OK'' then SyncBytes bytes else DryRunFailure ''AGENT_SYNC_CONFLICT'' 409
                      | None \<Rightarrow> DryRunFailure ''AGENT_SYNC_CONFLICT'' 409, w'))))"

definition agent_sync_route ::
  "platform \<Rightarrow> worker_env \<Rightarrow> bool \<Rightarrow> string \<Rightarrow> string option \<Rightarrow> json option \<Rightarrow> int \<Rightarrow> worker_state \<Rightarrow> worker_response \<times> worker_state" where
  "agent_sync_route P env dbUp httpMethod authorization body nowEpoch w =
     (if \<not> isSafeConfiguration env then (DryRunFailure ''UNSAFE_CONFIGURATION'' 500, w)
      else if env_AGENT_SYNC_ENABLED env \<noteq> ''true'' then (DryRunFailure ''AGENT_SYNC_DISABLED'' 503, w)
      else if httpMethod \<noteq> ''POST'' then (DryRunFailure ''METHOD_NOT_ALLOWED'' 405, w)
      else if \<not> authenticateAgentSyncBearer P authorization (env_AGENT_SYNC_SHARED_SECRET_SHA256 env)
        then (DryRunFailure ''UNAUTHORIZED'' 401, w)
      else case body of
          None \<Rightarrow> (DryRunFailure ''AGENT_SYNC_INVALID'' 400, w)
        | Some v \<Rightarrow> (case parseAgentSyncRequest P v nowEpoch of
            Inl _ \<Rightarrow> (DryRunFailure ''AGENT_SYNC_INVALID'' 400, w)
          | Inr request \<Rightarrow>
              (let account = rq_account_id request; (reply, storage) = sync_fetch P (wk_coordinators w account) request nowEpoch in
               settle_reply P dbUp request nowEpoch reply
                 (w\<lparr>wk_coordinators := (wk_coordinators w)(account := storage)\<rparr>))))"

definition agent_status_route :: "platform \<Rightarrow> worker_env \<Rightarrow> string \<Rightarrow> string option \<Rightarrow> string option \<Rightarrow> worker_state \<Rightarrow> worker_response" where
  "agent_status_route P env httpMethod authorization accountId w =
     (if \<not> isSafeConfiguration env then DryRunFailure ''UNSAFE_CONFIGURATION'' 500
      else if env_AGENT_SYNC_ENABLED env \<noteq> ''true'' then DryRunFailure ''AGENT_SYNC_DISABLED'' 503
      else if httpMethod \<noteq> ''GET'' then DryRunFailure ''METHOD_NOT_ALLOWED'' 405
      else if \<not> authenticateAgentSyncBearer P authorization (env_AGENT_SYNC_SHARED_SECRET_SHA256 env) then DryRunFailure ''UNAUTHORIZED'' 401
      else case accountId of
          None \<Rightarrow> DryRunFailure ''AGENT_SYNC_INVALID'' 400
        | Some account \<Rightarrow>
            if account = '''' then DryRunFailure ''AGENT_SYNC_INVALID'' 400
            else (let n = getAccountCoordinatorStatusV1 (wk_coordinators w account) in
              if \<not> is_safe_integer n \<or> n < 0 then DryRunFailure ''COORDINATOR_UNAVAILABLE'' 503 else SyncStatus n))"
section \<open>Fresh answers pass the check\<close>

lemma all_options_map: "(\<And>x. x \<in> set xs \<Longrightarrow> f x = Some (g x)) \<Longrightarrow> all_options (map f xs) = Some (map g xs)"
  by (induction xs) simp_all

lemma chars_of_units: "chars_of (units_of s) = Some s"
  by (simp add: chars_of_def units_of_def list_all_iff code_unit_less_256 map_idI)

lemma json_of_strict_of: "json_of (strict_of v) = Some v"
proof (induction v)
  case (JArr vs)
  then have "all_options (map (\<lambda>v. json_of (strict_of v)) vs) = Some (map id vs)" by (intro all_options_map) simp
  then show ?case by (simp add: comp_def)
next
  case (JObj kvs)
  let ?f = "\<lambda>kv. do { k \<leftarrow> chars_of (fst kv); v \<leftarrow> json_of (snd kv); Some (k, v) }"
  have "all_options (map (\<lambda>kv. ?f (strict_member kv)) kvs) = Some (map id kvs)"
    using JObj by (intro all_options_map) (auto simp: chars_of_units)
  then show ?case unfolding strict_of_obj by (simp add: comp_def)
qed (simp_all add: chars_of_units)

definition sorted_body :: "sync_response \<Rightarrow> fields" where
  "sorted_body r =
     [(''acknowledged_event_sequence'', JNum (rs_acknowledged_event_sequence r)), (''command'', JNull), (''evidence_requests'', JArr []),
      (''freeze_reasons'', JArr []), (''mode'', JStr ''DRY_RUN''), (''schema_version'', JStr ''AgentSyncResponseV1''),
      (''server_sequence'', JNum (rs_server_sequence r)), (''server_time_epoch'', JNum (rs_server_time_epoch r))]"

lemma sort_body: "sort_keys (JObj (response_body (rs_server_sequence r) (rs_server_time_epoch r) (rs_acknowledged_event_sequence r)))
   = sort_keys (JObj (sorted_body r))"
  by (simp add: response_body_def sorted_body_def key_order_def code_unit_def)

lemma sort_sorted_response: "sort_keys (sorted_response r) = sorted_response r"
  by (simp add: sorted_response_def key_order_def code_unit_def)

lemma response_keys: "exactKeys (case sorted_response r of JObj kvs \<Rightarrow> kvs | _ \<Rightarrow> []) AGENT_SYNC_RESPONSE_KEYS"
  by (simp add: exactKeys_def sorted_response_def AGENT_SYNC_RESPONSE_KEYS_def code_unit_def)

lemma validate_response:
  assumes "is_safe_integer (rs_server_sequence r)" "is_safe_integer (rs_server_time_epoch r)" "is_safe_integer (rs_acknowledged_event_sequence r)"
    and "1 \<le> rs_server_sequence r" "0 \<le> rs_server_time_epoch r" "m \<le> rs_acknowledged_event_sequence r"
    and sha: "rs_response_body_sha256 r =
      canonicalSha256 P (JObj (response_body (rs_server_sequence r) (rs_server_time_epoch r) (rs_acknowledged_event_sequence r)))"
    and d: "valid_digest (rs_response_body_sha256 r)"
  shows "validateCoordinatorResponse P (canonicalStringify (response_json r)) (rs_server_sequence r) m = Some (rs_server_sequence r)"
proof -
  obtain kvs where kvs: "sorted_response r = JObj kvs" by (simp add: sorted_response_def)
  have parsed: "JSON_parse (units_of (canonicalStringify (response_json r))) = Some (strict_of (sorted_response r))"
    using JSON_parse_canonical[OF response_limits[OF assms(1-3)]] by (simp add: sort_response)
  have same: "canonicalStringify (response_json r) = canonicalStringify (sorted_response r)"
    by (simp add: canonicalStringify_json_text sort_response sort_sorted_response)
  have safe: "safe_numbers (sorted_response r)" using assms(1-3) by (simp add: sorted_response_def)
  have body: "without_field ''response_body_sha256'' kvs = sorted_body r" using kvs by (auto simp: sorted_response_def without_field_def sorted_body_def)
  have bsafe: "safe_numbers (JObj (sorted_body r))" using assms(1-3) by (simp add: sorted_body_def)
  have bsha: "canonicalSha256 P (JObj (sorted_body r)) = rs_response_body_sha256 r"
    unfolding sha canonicalSha256_def canonicalStringify_json_text sort_body ..
  have keys: "exactKeys kvs AGENT_SYNC_RESPONSE_KEYS" using response_keys[of r] kvs by simp
  have f: "map_of kvs ''schema_version'' = Some (JStr ''AgentSyncResponseV1'')" "map_of kvs ''mode'' = Some (JStr ''DRY_RUN'')"
    "map_of kvs ''command'' = Some JNull" "map_of kvs ''response_body_sha256'' = Some (JStr (rs_response_body_sha256 r))"
    "map_of kvs ''server_sequence'' = Some (JNum (rs_server_sequence r))" "map_of kvs ''server_time_epoch'' = Some (JNum (rs_server_time_epoch r))"
    "map_of kvs ''acknowledged_event_sequence'' = Some (JNum (rs_acknowledged_event_sequence r))"
    "map_of kvs ''freeze_reasons'' = Some (JArr [])" "map_of kvs ''evidence_requests'' = Some (JArr [])"
    using kvs by (auto simp: sorted_response_def)
  show ?thesis
    unfolding validateCoordinatorResponse_def parsed Option.bind.simps json_of_strict_of kvs objectValue.simps
    using assms(1-6) d safe keys f bsafe bsha
    by (simp add: kvs literal_def require_def digest_at_def string_at_def number_at_def safeInteger_at_def
        serialize_eq survives_def same body edge_sha256_def canonicalSha256_def)
qed

section \<open>The route\<close>

text \<open>The digests of the platform are never the reserved all-zero one.\<close>

definition nonzero_payload_digests :: "platform \<Rightarrow> bool" where
  "nonzero_payload_digests P \<longleftrightarrow> (\<forall>v. canonicalSha256 P v \<noteq> zero_digest)"

lemma valid_digest_platform: "sha256_width P \<Longrightarrow> nonzero_payload_digests P \<Longrightarrow> valid_digest (canonicalSha256 P v)"
  by (simp add: valid_digest_def nonzero_payload_digests_def is_sha256_canonicalSha256)

lemma event_of_maximum:
  assumes "\<forall>e\<in>set events. event_of P request e"
  shows "\<exists>m. maximumEventSequence (Some a) events = Some m \<and> acknowledge_events a events = Inr m \<and> (is_safe_integer a \<longrightarrow> is_safe_integer m)"
  using assms
proof (induction events arbitrary: a)
  case (Cons e es)
  then obtain n where "number_at e ''sequence'' = Some n" "is_safe_integer n" "1 \<le> n"
    by (auto simp: event_of_def split: option.split_asm)
  with Cons.IH[of "max a n"] Cons.prems show ?case by (auto simp: max_def split: if_split_asm)
qed simp

lemma parsed_accept:
  assumes "parseAgentSyncRequest P v now = Inr request" and "coordinator_ok s"
  shows "\<exists>res t. accept_sync P s request now = Inr (res, t)"
proof -
  note p = parsed_request[OF assms(1)]
  obtain m where m: "maximumEventSequence (Some 0) (rq_events request) = Some m" "is_safe_integer m"
    using event_of_maximum[OF p(7), of 0] by (auto simp: is_safe_integer_def MAX_SAFE_INTEGER_def)
  let ?a = "max (acknowledged_upto s) m"
  have a: "is_safe_integer ?a" "0 \<le> ?a" using assms(2) m(2) by (auto simp: coordinator_ok_def max_def)
  obtain n where n: "acknowledge_events ?a (rq_events request) = Inr n" "is_safe_integer n"
    using event_of_maximum[OF p(7), of ?a] a(1) by blast
  have "safe_numbers (JObj (response_body (rq_request_sequence request) now n))"
    using p n(2) by (simp add: response_body_def)
  then have "\<exists>r. createDryRunResponse P (rq_events request) ?a (rq_request_sequence request) now = Inr r \<and> safe_numbers (response_json r)"
    using p a n by (auto simp: createDryRunResponse_def edge_sha256_def serialize_eq response_json_def)
  then show ?thesis
    using m(1) by (auto simp: accept_sync_def Let_def acknowledged_upto_def serialize_eq)
qed
lemma settle_fresh:
  assumes "validateCoordinatorResponse P bytes (rq_request_sequence request) m = Some n"
    and "maximumEventSequence (Some 0) (rq_events request) = Some m"
  shows "settle_reply P True request now (Reply 200 (Some (False, bytes)) ''OK'') w =
    (SyncBytes bytes, writeAcceptedSyncAuditAndHealth request n now w)"
  using assms by (simp add: settle_reply_def outcome_of_def)

lemma settle_fresh_down:
  "fst (settle_reply P False request now reply w) \<noteq> SyncBytes b \<and> snd (settle_reply P False request now reply w) = w"
  by (cases reply) (auto simp: settle_reply_def Let_def split: option.split)

text \<open>
  A good request is answered. On a safely configured worker with synchronization enabled, a
  request with the right token that parses, is fresh, is the next in sequence and has the pinned
  identity is accepted: with the database up the answer is the coordinator's bytes, the audit gets one
  row \<open>ACCEPTED\<close> with the request's own sequence number, the health table is offered its heartbeat, and
  the coordinator of that account, and no other, has moved on to this sequence number.
\<close>

theorem good_request_is_accepted:
  assumes "sha256_width P" and "nonzero_payload_digests P"
    and "isSafeConfiguration env" and "env_AGENT_SYNC_ENABLED env = ''true''"
    and "authenticateAgentSyncBearer P authorization (env_AGENT_SYNC_SHARED_SECRET_SHA256 env)"
    and parse: "parseAgentSyncRequest P v now = Inr request"
    and ok: "coordinator_ok (wk_coordinators w (rq_account_id request))" and "rq_freshness request = FRESH"
    and "rq_request_sequence request = getAccountCoordinatorStatusV1 (wk_coordinators w (rq_account_id request)) + 1"
    and "same_identity (wk_coordinators w (rq_account_id request)) request"
  shows "\<exists>bytes storage. agent_sync_route P env True ''POST'' authorization (Some v) now w =
      (SyncBytes bytes, w\<lparr>wk_coordinators := (wk_coordinators w)(rq_account_id request := storage),
        wk_audit := wk_audit w @ [audit_entry request ''ACCEPTED'' (Some (rq_request_sequence request)) now],
        wk_health := upsert_health (projectAcceptedHeartbeatV1 request (rq_request_sequence request) now) (wk_health w)\<rparr>) \<and>
    getAccountCoordinatorStatusV1 storage = rq_request_sequence request"
proof -
  let ?s = "wk_coordinators w (rq_account_id request)"
  note p = parsed_request[OF parse]
  obtain res t where acc: "accept_sync P ?s request now = Inr (res, t)" using parsed_accept[OF parse ok] by blast
  then have co: "coordinateAgentSyncV1 P ?s request now = Inr (res, t)" using coordinate_accepts assms(8-10) by simp
  from acc show ?thesis
  proof (rule accept_sync_Inr)
    fix r assume r: "res = OK False (strict_of (response_json r)) (canonicalStringify (response_json r))"
      "stored t request r (canonicalStringify (response_json r))" "rs_server_sequence r = rq_request_sequence request"
      "rs_server_time_epoch r = now" "is_safe_integer (rs_server_sequence r)" "is_safe_integer (rs_server_time_epoch r)"
      "is_safe_integer (rs_acknowledged_event_sequence r)" "1 \<le> rs_server_sequence r" "0 \<le> rs_server_time_epoch r"
      "maximumEventSequence (Some 0) (rq_events request) \<noteq> None"
      "rs_acknowledged_event_sequence r = max (acknowledged_upto ?s) (the (maximumEventSequence (Some 0) (rq_events request)))"
      "rs_response_body_sha256 r = canonicalSha256 P (JObj (response_body (rs_server_sequence r) now (rs_acknowledged_event_sequence r)))"
    obtain m where m: "maximumEventSequence (Some 0) (rq_events request) = Some m" using r(10) by auto
    have le: "m \<le> rs_acknowledged_event_sequence r" using r(11) m by simp
    have valid: "validateCoordinatorResponse P (canonicalStringify (response_json r)) (rq_request_sequence request) m = Some (rq_request_sequence request)"
      using validate_response[OF r(5-9) le] r(3,4,12) valid_digest_platform[OF assms(1,2)] by simp
    have fetch: "sync_fetch P ?s request now = (Reply 200 (Some (False, canonicalStringify (response_json r))) ''OK'', t)"
      using p(4,5) co r(1) by (simp add: sync_fetch_def)
    have "agent_sync_route P env True ''POST'' authorization (Some v) now w =
        (SyncBytes (canonicalStringify (response_json r)), writeAcceptedSyncAuditAndHealth request (rq_request_sequence request) now
          (w\<lparr>wk_coordinators := (wk_coordinators w)(rq_account_id request := t)\<rparr>))"
      using assms(3-6) by (simp add: agent_sync_route_def Let_def fetch settle_fresh[OF valid m])
    moreover have "getAccountCoordinatorStatusV1 t = rq_request_sequence request"
      using r(2) by (simp add: stored_def Let_def getAccountCoordinatorStatusV1_def)
    ultimately show ?thesis
      by (intro exI[of _ "canonicalStringify (response_json r)"] exI[of _ t]) (simp add: writeAcceptedSyncAuditAndHealth_def writeSyncAudit_def)
  qed
qed

lemma route_cases:
  obtains (refused) e n where "agent_sync_route P env dbUp httpMethod authorization body now w = (DryRunFailure e n, w)"
  | (handled) v request reply storage where "isSafeConfiguration env" "env_AGENT_SYNC_ENABLED env = ''true''" "httpMethod = ''POST''"
      "authenticateAgentSyncBearer P authorization (env_AGENT_SYNC_SHARED_SECRET_SHA256 env)" "body = Some v"
      "parseAgentSyncRequest P v now = Inr request"
      "sync_fetch P (wk_coordinators w (rq_account_id request)) request now = (reply, storage)"
      "agent_sync_route P env dbUp httpMethod authorization body now w =
         settle_reply P dbUp request now reply (w\<lparr>wk_coordinators := (wk_coordinators w)(rq_account_id request := storage)\<rparr>)"
proof (cases "isSafeConfiguration env \<and> env_AGENT_SYNC_ENABLED env = ''true'' \<and> httpMethod = ''POST'' \<and>
    authenticateAgentSyncBearer P authorization (env_AGENT_SYNC_SHARED_SECRET_SHA256 env)")
  case True
  show ?thesis
  proof (cases body)
    case None
    with True refused show ?thesis by (auto simp: agent_sync_route_def)
  next
    case (Some v)
    show ?thesis
    proof (cases "parseAgentSyncRequest P v now")
      case (Inl e)
      with True Some refused show ?thesis by (auto simp: agent_sync_route_def)
    next
      case (Inr request)
      obtain reply storage where "sync_fetch P (wk_coordinators w (rq_account_id request)) request now = (reply, storage)"
        by (cases "sync_fetch P (wk_coordinators w (rq_account_id request)) request now")
      with True Some Inr handled show ?thesis by (auto simp: agent_sync_route_def Let_def)
    qed
  qed
next
  case False
  then have "\<exists>e n. agent_sync_route P env dbUp httpMethod authorization body now w = (DryRunFailure e n, w)"
    by (auto simp: agent_sync_route_def)
  with refused show ?thesis by blast
qed

lemma settle_keeps_coordinators: "wk_coordinators (snd (settle_reply P dbUp request now reply w)) = wk_coordinators w"
  by (cases reply) (auto simp: settle_reply_def Let_def writeSyncAudit_def writeAcceptedSyncAuditAndHealth_def split: option.split)


section \<open>The audit trail\<close>

inductive worker_step :: "platform \<Rightarrow> worker_state \<Rightarrow> worker_response \<Rightarrow> worker_state \<Rightarrow> bool" for P where
  called: "agent_sync_route P env dbUp httpMethod authorization body now w = (answer, w') \<Longrightarrow> worker_step P w answer w'"

definition accepted_rows :: "string \<Rightarrow> worker_state \<Rightarrow> audit_row list" where
  "accepted_rows account w = filter (\<lambda>row. au_result_code row = ''ACCEPTED'' \<and> au_account_id row = account) (wk_audit w)"

text \<open>
  The audited acceptances of an account increase and do not pass its coordinator; every health row is
  filed under its own key and does not pass the coordinator either.
\<close>

definition worker_ok :: "worker_state \<Rightarrow> bool" where
  "worker_ok w \<longleftrightarrow> (\<forall>account.
     coordinator_ok (wk_coordinators w account) \<and>
     sorted_wrt (<) (map au_request_sequence (accepted_rows account w)) \<and>
     (\<forall>row\<in>set (accepted_rows account w). au_request_sequence row \<le> getAccountCoordinatorStatusV1 (wk_coordinators w account)) \<and>
     (\<forall>i row. wk_health w (account, i) = Some row \<longrightarrow> he_account_id row = account \<and> he_installation_id row = i \<and>
        he_request_sequence row \<le> getAccountCoordinatorStatusV1 (wk_coordinators w account)))"

text \<open>What the coordinator does under one call: it stays, or it accepts the request as its next one.\<close>

lemma outcome_accepted: "outcome_of code payload = Some ''ACCEPTED'' \<longleftrightarrow> code = ''OK'' \<and> (\<exists>bytes. payload = Some (False, bytes))"
  by (auto simp: outcome_of_def split: option.split)

lemma fresh_label_Inr: "fresh_label (request, now, Inr res) \<longleftrightarrow> (\<exists>v bytes. res = OK False v bytes)"
proof (cases res)
  case (OK rep v bytes)
  then show ?thesis by (cases rep) simp_all
qed simp_all

lemma sync_fetch_cases:
  assumes "sync_fetch P s request now = (reply, t)"
  obtains (kept) status payload code where "reply = Reply status payload code" "t = s" "outcome_of code payload \<noteq> Some ''ACCEPTED''"
  | (fresh) bytes where "reply = Reply 200 (Some (False, bytes)) ''OK''"
      "getAccountCoordinatorStatusV1 t = rq_request_sequence request" "rq_request_sequence request = getAccountCoordinatorStatusV1 s + 1"
      "\<exists>res. coordinateAgentSyncV1 P s request now = Inr (res, t)"
proof (cases "\<not> is_safe_integer now \<or> now < 0")
  case True
  with assms have "reply = Reply 400 None ''COORDINATOR_INVALID''" "t = s" by (auto simp: sync_fetch_def)
  then show ?thesis by (rule kept) (simp add: outcome_accepted)
next
  case False
  show ?thesis
  proof (cases "coordinateAgentSyncV1 P s request now")
    case (Inl e)
    with assms False have "reply = Reply 400 None ''COORDINATOR_INVALID''" "t = s" by (auto simp: sync_fetch_def)
    then show ?thesis by (rule kept) (simp add: outcome_accepted)
  next
    case (Inr p)
    obtain res t' where p: "p = (res, t')" by (cases p)
    with Inr have co: "coordinateAgentSyncV1 P s request now = Inr (res, t')" by simp
    note step = coordinator_step_counts[OF coordinator_step.answered[OF co]]
    show ?thesis
    proof (cases "fresh_label (request, now, Inr res)")
      case True
      then obtain v bytes where res: "res = OK False v bytes" unfolding fresh_label_Inr by blast
      with assms False co have "reply = Reply 200 (Some (False, bytes)) ''OK''" "t = t'" by (auto simp: sync_fetch_def)
      with fresh co step(1,3) True show ?thesis by simp
    next
      case not_fresh: False
      then have "t' = s" using step(5) by blast
      with not_fresh assms False co have "\<exists>status payload code. reply = Reply status payload code \<and> t = s \<and> outcome_of code payload \<noteq> Some ''ACCEPTED''"
        unfolding fresh_label_Inr by (cases res) (auto simp: sync_fetch_def outcome_accepted)
      with kept show ?thesis by blast
    qed
  qed
qed

lemma settle_kept:
  assumes "outcome_of code payload \<noteq> Some ''ACCEPTED''"
  shows "snd (settle_reply P dbUp request now (Reply status payload code) w) = w \<or>
    (\<exists>result n. result \<noteq> ''ACCEPTED'' \<and> snd (settle_reply P dbUp request now (Reply status payload code) w) = writeSyncAudit request result n now w)"
proof (cases "outcome_of code payload")
  case None
  then show ?thesis by (cases "maximumEventSequence (Some 0) (rq_events request)") (simp_all add: settle_reply_def Let_def)
next
  case (Some result)
  with assms have r: "result \<noteq> ''ACCEPTED''" by simp
  show ?thesis
  proof (cases "maximumEventSequence (Some 0) (rq_events request)")
    case (Some m)
    define valid where "valid = (case payload of
        Some (_, bytes) \<Rightarrow> if code = ''OK'' then validateCoordinatorResponse P bytes (rq_request_sequence request) m else None | None \<Rightarrow> None)"
    have "snd (settle_reply P dbUp request now (Reply status payload code) w) =
        (if status \<noteq> 200 \<or> code = ''OK'' \<and> valid = None \<or> \<not> dbUp then w else writeSyncAudit request result valid now w)"
      using r \<open>outcome_of code payload = Some result\<close>
      unfolding settle_reply_def coordinator_reply.case Some option.case Let_def valid_def[symmetric]
      by (cases valid) simp_all
    with r show ?thesis by metis
  qed (simp add: settle_reply_def)
qed

lemma settle_rows:
  assumes "outcome_of code payload \<noteq> Some ''ACCEPTED''"
  shows "accepted_rows account (snd (settle_reply P dbUp request now (Reply status payload code) w)) = accepted_rows account w \<and>
    wk_health (snd (settle_reply P dbUp request now (Reply status payload code) w)) = wk_health w"
  using settle_kept[OF assms, of P dbUp request now status w] by (auto simp: accepted_rows_def writeSyncAudit_def audit_entry_def)

lemma settle_fresh_rows:
  "snd (settle_reply P dbUp request now (Reply 200 (Some (False, bytes)) ''OK'') w) \<in>
    {w, writeAcceptedSyncAuditAndHealth request (rq_request_sequence request) now w}"
proof -
  have "n = e" if "validateCoordinatorResponse P b e m = Some n" for b e m n
    using that unfolding validateCoordinatorResponse_def by (auto simp: reads_Some split: if_split_asm)
  then show ?thesis by (auto simp: settle_reply_def Let_def outcome_of_def split: option.split)
qed

text \<open>The invariant reads only the coordinators, the accepted rows and the health table.\<close>

lemma worker_ok_cong:
  assumes "worker_ok w" and "wk_coordinators w' = wk_coordinators w" and "\<And>account. accepted_rows account w' = accepted_rows account w"
    and "wk_health w' = wk_health w"
  shows "worker_ok w'"
  using assms by (simp add: worker_ok_def)

text \<open>A coordinator that accepts its next request.\<close>

lemma worker_ok_advance:
  assumes "worker_ok w" and "coordinator_ok t" and "getAccountCoordinatorStatusV1 t = getAccountCoordinatorStatusV1 (wk_coordinators w a) + 1"
  shows "worker_ok (w\<lparr>wk_coordinators := (wk_coordinators w)(a := t)\<rparr>)"
proof -
  have "accepted_rows account (w\<lparr>wk_coordinators := f\<rparr>) = accepted_rows account w" for account f by (simp add: accepted_rows_def)
  with assms show ?thesis unfolding worker_ok_def by (auto intro: add_increasing2)
qed

lemma accepted_rows_write:
  "accepted_rows account (writeAcceptedSyncAuditAndHealth request n now w) =
     accepted_rows account w @ (if rq_account_id request = account then [audit_entry request ''ACCEPTED'' (Some n) now] else [])"
  by (simp add: accepted_rows_def writeAcceptedSyncAuditAndHealth_def writeSyncAudit_def audit_entry_def)

lemma worker_ok_write:
  assumes ok: "worker_ok w" and a: "a = rq_account_id request"
    and below: "\<forall>row\<in>set (accepted_rows a w). au_request_sequence row < rq_request_sequence request"
    and status: "getAccountCoordinatorStatusV1 (wk_coordinators w a) = rq_request_sequence request"
  shows "worker_ok (writeAcceptedSyncAuditAndHealth request n now w)"
proof -
  let ?w = "writeAcceptedSyncAuditAndHealth request n now w" and ?row = "projectAcceptedHeartbeatV1 request n now"
  have co: "wk_coordinators ?w = wk_coordinators w" and he: "wk_health ?w = upsert_health ?row (wk_health w)"
    by (simp_all add: writeAcceptedSyncAuditAndHealth_def writeSyncAudit_def)
  have row: "he_account_id ?row = a" "he_installation_id ?row = rq_installation_id request" "he_request_sequence ?row = rq_request_sequence request"
    by (simp_all add: projectAcceptedHeartbeatV1_def Let_def a)
  have rows: "sorted_wrt (<) (map au_request_sequence (accepted_rows account ?w))"
    "\<forall>r\<in>set (accepted_rows account ?w). au_request_sequence r \<le> getAccountCoordinatorStatusV1 (wk_coordinators w account)" for account
    using ok below status unfolding worker_ok_def accepted_rows_write by (auto simp: sorted_wrt_append audit_entry_def a)
  have new: "wk_health w (account, i) = Some r \<or> account = a \<and> i = rq_installation_id request \<and> r = ?row"
    if "wk_health ?w (account, i) = Some r" for account i r
    using that row unfolding he by (auto simp: upsert_health_def Let_def split: option.split_asm if_split_asm)
  have health: "he_account_id r = account \<and> he_installation_id r = i \<and> he_request_sequence r \<le> getAccountCoordinatorStatusV1 (wk_coordinators w account)"
    if "wk_health ?w (account, i) = Some r" for account i r
    using new[OF that] ok row status unfolding worker_ok_def by auto
  show ?thesis unfolding worker_ok_def co using ok rows health by (simp add: worker_ok_def)
qed

interpretation worker: invariant_system "worker_step P" worker_ok for P
proof
  fix w l w' assume ok: "worker_ok w" and "worker_step P w l w'"
  then obtain env dbUp httpMethod authorization body now where
    call: "agent_sync_route P env dbUp httpMethod authorization body now w = (l, w')" by (auto elim: worker_step.cases)
  show "worker_ok w'"
  proof (cases rule: route_cases[of P env dbUp httpMethod authorization body now w])
    case (handled v request reply storage)
    let ?a = "rq_account_id request"
    let ?w = "w\<lparr>wk_coordinators := (wk_coordinators w)(?a := storage)\<rparr>"
    have w': "w' = snd (settle_reply P dbUp request now reply ?w)" using call handled(8) by simp
    from handled(7) show ?thesis
    proof (cases rule: sync_fetch_cases)
      case (kept status payload code)
      then have "?w = w" by simp
      with kept settle_rows[OF kept(3)] settle_keeps_coordinators ok show ?thesis unfolding w' by (intro worker_ok_cong[OF ok]) auto
    next
      case (fresh bytes)
      from fresh(4) obtain res where "coordinateAgentSyncV1 P (wk_coordinators w ?a) request now = Inr (res, storage)" by blast
      then have "coordinator_ok storage" using coordinator.preserved coordinator_step.answered ok unfolding worker_ok_def by blast
      then have adv: "worker_ok ?w" using worker_ok_advance[OF ok] fresh(2,3) by simp
      have "\<forall>row\<in>set (accepted_rows ?a ?w). au_request_sequence row < rq_request_sequence request"
        using ok fresh(3) unfolding worker_ok_def by (auto simp: accepted_rows_def)
      then have "worker_ok (writeAcceptedSyncAuditAndHealth request n now ?w)" for n
        using worker_ok_write[OF adv] fresh(2) by simp
      with adv settle_fresh_rows[of P dbUp request now bytes ?w] show ?thesis unfolding w' fresh(1) by auto
    qed
  qed (use call ok in simp)
qed

definition initial_worker :: worker_state where
  "initial_worker = \<lparr>wk_coordinators = (\<lambda>_. empty_storage), wk_audit = [], wk_health = Map.empty\<rparr>"

lemma initial_worker_ok: "worker_ok initial_worker"
  by (simp add: worker_ok_def initial_worker_def accepted_rows_def empty_storage_ok)


end
