(* ===== verification/Agent_Samples.thy ===== *)
theory Agent_Samples
  imports Agent_Worker Edge_Samples
begin

text \<open>
  A sample request of an agent, with one heartbeat event, and the witnesses of the properties of the
  synchronization endpoint, the coordinator and the worker.
\<close>

definition sample_symbol :: json where
  "sample_symbol = JObj
     [(''source_symbol'', JStr ''EURUSD''), (''broker_symbol'', JStr ''EURUSD.r''), (''synchronization_state'', JStr ''SYNCHRONIZED''),
      (''selection_state'', JStr ''SELECTED''), (''capability_state'', JStr ''CURRENT''), (''symbol_capability_sha256'', JStr sample_sha),
      (''trade_mode'', JStr ''FULL''), (''bid_ticks'', JNum 108100), (''ask_ticks'', JNull), (''observed_at_epoch'', JNum 995)]"

definition sample_watermark :: json where
  "sample_watermark = JObj
     [(''watermark'', JStr ''c1''), (''state'', JStr ''STABLE''), (''reconciliation_sha256'', JStr sample_sha),
      (''history_through_epoch'', JNum 990), (''consecutive_stable_sweeps'', JNum 2)]"

definition sample_snapshot :: fields where
  "sample_snapshot =
     [(''terminal_build'', JNum 4000), (''ea_sha256'', JStr sample_sha), (''manifest_sha256'', JStr sample_sha),
      (''account_fingerprint_sha256'', JStr sample_sha), (''broker_time_epoch'', JNum 995), (''windows_time_epoch'', JNull),
      (''terminal_connection_state'', JStr ''CONNECTED''), (''account_trade_permission'', JStr ''ALLOWED''),
      (''terminal_trade_permission'', JStr ''ALLOWED''), (''algo_trading_permission'', JStr ''DENIED''),
      (''balance_minor_units'', JNum 100000), (''equity_minor_units'', JNum 99000), (''margin_minor_units'', JNum 0),
      (''free_margin_minor_units'', JNum 99000), (''margin_level_bps'', JNull), (''symbols'', JArr [sample_symbol]),
      (''open_orders'', JArr []), (''positions'', JArr []), (''reconciliation_watermark'', sample_watermark),
      (''observed_at_epoch'', JNum 995)]"

definition sample_fact :: json where
  "sample_fact = JObj
     [(''terminal_connection_state'', JStr ''CONNECTED''), (''account_trade_permission'', JStr ''ALLOWED''),
      (''terminal_trade_permission'', JStr ''ALLOWED''), (''algo_trading_permission'', JStr ''DENIED''),
      (''broker_time_epoch'', JNum 995), (''windows_time_epoch'', JNull)]"

definition sample_event_sha :: string where
  "sample_event_sha = sample_edge_digest (JObj
     [(''schema_version'', JStr ''AgentEventV1''), (''event_id'', JStr ''e1''), (''installation_id'', JStr ''i1''), (''account_id'', JStr ''a1''),
      (''account_profile_sha256'', JStr sample_sha), (''safety_epoch'', JNum 0), (''sequence'', JNum 7), (''observed_at_epoch'', JNum 995),
      (''kind'', JStr ''HEARTBEAT''), (''fact'', sample_fact)])"

definition sample_event :: fields where
  "sample_event =
     [(''schema_version'', JStr ''AgentEventV1''), (''event_id'', JStr ''e1''), (''installation_id'', JStr ''i1''), (''account_id'', JStr ''a1''),
      (''account_profile_sha256'', JStr sample_sha), (''safety_epoch'', JNum 0), (''sequence'', JNum 7), (''observed_at_epoch'', JNum 995),
      (''kind'', JStr ''HEARTBEAT''), (''body_sha256'', JStr sample_event_sha), (''fact'', sample_fact)]"

definition sample_body_sha :: string where
  "sample_body_sha = sample_edge_digest (JObj
     [(''schema_version'', JStr ''AgentSyncRequestV1''), (''installation_id'', JStr ''i1''), (''account_id'', JStr ''a1''),
      (''account_profile_sha256'', JStr sample_sha), (''safety_epoch'', JNum 0), (''request_sequence'', JNum 1),
      (''last_acknowledged_server_sequence'', JNum 0), (''nonce'', JStr ''p''), (''sent_at_epoch'', JNum 998),
      (''account_snapshot'', JObj sample_snapshot), (''events'', JArr [JObj sample_event]), (''broker_bar_evidence'', JArr [])])"

definition sample_request_fields :: fields where
  "sample_request_fields =
     [(''schema_version'', JStr ''AgentSyncRequestV1''), (''installation_id'', JStr ''i1''), (''account_id'', JStr ''a1''),
      (''account_profile_sha256'', JStr sample_sha), (''safety_epoch'', JNum 0), (''request_sequence'', JNum 1),
      (''last_acknowledged_server_sequence'', JNum 0), (''nonce'', JStr ''p''), (''sent_at_epoch'', JNum 998),
      (''body_sha256'', JStr sample_body_sha), (''account_snapshot'', JObj sample_snapshot),
      (''events'', JArr [JObj sample_event]), (''broker_bar_evidence'', JArr [])]"

definition sample_request :: sync_request where
  "sample_request = \<lparr>rq_installation_id = ''i1'', rq_account_id = ''a1'', rq_account_profile_sha256 = sample_sha, rq_safety_epoch = 0,
     rq_request_sequence = 1, rq_last_acknowledged_server_sequence = 0, rq_nonce = ''p'', rq_sent_at_epoch = 998, rq_freshness = FRESH,
     rq_body_sha256 = sample_body_sha, rq_account_snapshot = sample_snapshot, rq_events = [sample_event], rq_broker_bar_evidence = []\<rparr>"

lemmas sync_reads = literal_def require_def string_at_def number_at_def array_at_def digest_at_def identifier_at_def safeInteger_at_def
  is_safe_integer_def MAX_SAFE_INTEGER_def MIN_SAFE_INTEGER_def sample_digest sample_sha_valid sample_ids[simplified]
  at_least_def safe_integer_at_def nullable_at_def nullableNonnegativeInteger_def nullableSafeInteger_def nullablePositive_def
  enumeration_def permission_def connection_def boundedArray_def strictObject_def

lemma sample_symbol_ok: "validateSymbol sample_symbol"
proof -
  have "exactKeys (case sample_symbol of JObj kvs \<Rightarrow> kvs) SYMBOL_KEYS"
    by (simp add: exactKeys_def sample_symbol_def SYMBOL_KEYS_def del: js_sort.simps)
  then show ?thesis by (simp add: validateSymbol_def sample_symbol_def sync_reads)
qed

lemma sample_watermark_ok: "validateWatermark sample_watermark"
proof -
  have "exactKeys (case sample_watermark of JObj kvs \<Rightarrow> kvs) WATERMARK_KEYS"
    by (simp add: exactKeys_def sample_watermark_def WATERMARK_KEYS_def del: js_sort.simps)
  then show ?thesis by (simp add: validateWatermark_def sample_watermark_def sync_reads)
qed

lemma sample_snapshot_ok: "validateSnapshot (JObj sample_snapshot) = Some sample_snapshot"
proof -
  have "exactKeys sample_snapshot SNAPSHOT_KEYS"
    by (simp add: exactKeys_def sample_snapshot_def SNAPSHOT_KEYS_def del: js_sort.simps)
  then show ?thesis
    unfolding validateSnapshot_def strictObject_def
    by simp (simp add: sample_snapshot_def sync_reads sample_symbol_ok sample_watermark_ok)
qed

lemma sample_fact_ok: "validateEventFact ''HEARTBEAT'' sample_fact"
proof -
  obtain keys where keys: "map_of EVENT_FACT_KEYS ''HEARTBEAT'' = Some keys" "exactKeys (case sample_fact of JObj kvs \<Rightarrow> kvs) keys"
    by (simp add: exactKeys_def sample_fact_def EVENT_FACT_KEYS_def del: js_sort.simps)
  then show ?thesis
    by (simp add: validateEventFact_def fact_validator_def sample_fact_def validateHeartbeatFact_def sync_reads)
qed
lemma sample_event_digest: "event_digest sample_platform (sample_request\<lparr>rq_events := []\<rparr>) (JObj sample_event) = Inr (sample_event, sample_event_sha)"
proof -
  have keys: "exactKeys sample_event EVENT_KEYS"
    by (simp add: exactKeys_def sample_event_def EVENT_KEYS_def del: js_sort.simps)
  have "valid_digest sample_event_sha" by (simp add: sample_event_sha_def sample_digest)
  then have "event_shape (sample_request\<lparr>rq_events := []\<rparr>) (JObj sample_event) = Some sample_event"
    using keys unfolding event_shape_def strictObject_def
    by simp (simp add: sample_event_def sync_reads sample_fact_ok sample_request_def)
  moreover have "edge_sha256 sample_platform (JObj (without_field ''body_sha256'' sample_event)) = Inr sample_event_sha"
    by (subst edge_sha256_eq)
      (simp_all add: without_field_def sample_event_def sample_event_sha_def sample_edge_digest_def sample_fact_def
        is_safe_integer_def MAX_SAFE_INTEGER_def)
  ultimately show ?thesis by (simp add: event_digest_def or_throw_def)
qed

lemma sample_parsed: "parseAgentSyncRequest sample_platform (JObj sample_request_fields) 1000 = Inr sample_request"
proof -
  have keys: "exactKeys sample_request_fields ROOT_KEYS"
    by (simp add: exactKeys_def sample_request_fields_def ROOT_KEYS_def del: js_sort.simps)
  have "valid_digest sample_body_sha" by (simp add: sample_body_sha_def sample_digest)
  then have head: "request_head (JObj sample_request_fields) 1000 = Some (sample_request_fields, sample_request\<lparr>rq_events := []\<rparr>)"
    using keys unfolding request_head_def strictObject_def
    by simp (simp add: sample_request_fields_def sync_reads sample_snapshot_ok sample_request_def)
  have events: "validateEvents sample_platform (sample_request\<lparr>rq_events := []\<rparr>) sample_request_fields = Inr [sample_event]"
    unfolding validateEvents_def
    by (simp add: sample_request_fields_def array_at_def sample_event_digest) (simp add: sample_event_def string_at_def)
  have evidence: "validateEvidenceList (sample_request\<lparr>rq_events := []\<rparr>) sample_request_fields = Inr []"
    by (simp add: validateEvidenceList_def sample_request_fields_def array_at_def)
  have body: "edge_sha256 sample_platform (JObj (without_field ''body_sha256'' sample_request_fields)) = Inr sample_body_sha"
    by (subst edge_sha256_eq)
      (simp_all add: without_field_def sample_request_fields_def sample_body_sha_def sample_edge_digest_def sample_snapshot_def
        sample_event_def sample_fact_def sample_symbol_def sample_watermark_def is_safe_integer_def MAX_SAFE_INTEGER_def)
  show ?thesis
    by (simp add: parseAgentSyncRequest_def head or_throw_def events evidence body) (simp add: sample_request_def)
qed

definition sample_secret :: string where
  "sample_secret = sha256Hex sample_platform ''tok''"

definition sample_worker_env :: worker_env where
  "sample_worker_env = \<lparr>env_CANDIDATE_INBOX_ENABLED = ''false'', env_AGENT_SYNC_ENABLED = ''true'', env_EXECUTION_AUTHORITY_ENABLED = ''false'',
     env_EXECUTION_MODE_CEILING = ''DRY_RUN'', env_ROUTING_MANIFEST_SHA256 = ''INERT_NOT_CONFIGURED'',
     env_AGENT_SYNC_SHARED_SECRET_SHA256 = Some sample_secret\<rparr>"

lemma sample_hash_nonzero: "sha256Hex sample_platform s \<noteq> zero_digest"
proof -
  have "1 \<in> set (sha256 sample_platform bs)" for bs by (simp add: sample_platform_def Let_def)
  moreover have "CHR ''1'' \<in> set (hex_byte 1)" by code_simp
  ultimately have "CHR ''1'' \<in> set (sha256Hex sample_platform s)" by (auto simp: sha256Hex_def)
  then show ?thesis by (auto simp: zero_digest_def)
qed

lemma sample_digests_nonzero: "nonzero_payload_digests sample_platform"
  by (simp add: nonzero_payload_digests_def canonicalSha256_def sample_hash_nonzero)

lemma sample_not_space: "list_all (\<lambda>c. \<not> regexp_space c) ''tok''"
  by (simp add: regexp_space_def code_unit_def)

theorem bearer_accepted_iff_witness:
  "authenticateAgentSyncBearer sample_platform (Some (''Bearer '' @ ''tok'')) (Some sample_secret) \<and>
   \<not> authenticateAgentSyncBearer sample_platform (Some (''Basic '' @ ''tok'')) (Some sample_secret)"
  unfolding bearer_accepted_iff[OF sample_platform_width]
  using sample_not_space sample_hash_nonzero[of "''tok''"] by (auto simp: sample_secret_def)

lemma sample_coordinates:
  "coordinateAgentSyncV1 sample_platform empty_storage sample_request 1000 = accept_sync sample_platform empty_storage sample_request 1000"
  by (rule coordinate_accepts)
    (simp_all add: sample_request_def getAccountCoordinatorStatusV1_def empty_storage_def empty_state_def loadCoordinatorSyncStateV1_def same_identity_def)

lemma sample_sync_accepted: "\<exists>v bytes t. coordinateAgentSyncV1 sample_platform empty_storage sample_request 1000 = Inr (OK False v bytes, t)"
proof -
  obtain res t where "accept_sync sample_platform empty_storage sample_request 1000 = Inr (res, t)"
    using parsed_accept[OF sample_parsed empty_storage_ok] by blast
  moreover from this obtain v bytes where "res = OK False v bytes" by (rule accept_sync_Inr) auto
  ultimately show ?thesis by (simp add: sample_coordinates)
qed

theorem accepted_request_replays_witness:
  "\<exists>v bytes t. coordinateAgentSyncV1 sample_platform empty_storage sample_request 1000 = Inr (OK False v bytes, t) \<and>
    (\<exists>w. coordinateAgentSyncV1 sample_platform t (sample_request\<lparr>rq_freshness := STALE\<rparr>) 5000 = Inr (OK True w bytes, t))"
proof -
  obtain v bytes t where c: "coordinateAgentSyncV1 sample_platform empty_storage sample_request 1000 = Inr (OK False v bytes, t)"
    using sample_sync_accepted by blast
  have "\<exists>w. coordinateAgentSyncV1 sample_platform t (sample_request\<lparr>rq_freshness := STALE\<rparr>) 5000 = Inr (OK True w bytes, t)"
    by (rule accepted_request_replays[OF c run_Nil]) simp
  with c show ?thesis by blast
qed

theorem coordinator_accepts_in_sequence_witness:
  "\<exists>v bytes t. run (coordinator_step sample_platform) empty_storage [(sample_request, 1000, Inr (OK False v bytes))] t \<and>
    getAccountCoordinatorStatusV1 t = 1"
proof -
  obtain v bytes t where c: "coordinateAgentSyncV1 sample_platform empty_storage sample_request 1000 = Inr (OK False v bytes, t)"
    using sample_sync_accepted by blast
  then have r: "run (coordinator_step sample_platform) empty_storage [(sample_request, 1000, Inr (OK False v bytes))] t"
    by (intro run_single coordinator_step.answered)
  from coordinator_accepts_in_sequence[OF run_Nil r] have "getAccountCoordinatorStatusV1 t = 1" by simp
  with r show ?thesis by blast
qed

lemma sample_authenticated:
  "authenticateAgentSyncBearer sample_platform (Some (''Bearer '' @ ''tok'')) (env_AGENT_SYNC_SHARED_SECRET_SHA256 sample_worker_env)"
proof -
  have "bearer_token (''Bearer '' @ ''tok'') = Some ''tok''" unfolding bearer_token_Some using sample_not_space by simp
  moreover have "valid_digest sample_secret" using sample_hash_nonzero is_sha256_sha256Hex[OF sample_platform_width] by (simp add: valid_digest_def sample_secret_def)
  ultimately show ?thesis
    by (simp add: authenticateAgentSyncBearer_def configuredDigest_def sample_worker_env_def constantTimeEqualHex_bytes sample_secret_def del: append.simps)
qed

lemma sample_safe: "isSafeConfiguration sample_worker_env" "env_AGENT_SYNC_ENABLED sample_worker_env = ''true''"
  by (simp_all add: isSafeConfiguration_def sample_worker_env_def)

lemma sample_ready: "coordinator_ok (wk_coordinators initial_worker (rq_account_id sample_request))" "rq_freshness sample_request = FRESH"
  "rq_request_sequence sample_request = getAccountCoordinatorStatusV1 (wk_coordinators initial_worker (rq_account_id sample_request)) + 1"
  "same_identity (wk_coordinators initial_worker (rq_account_id sample_request)) sample_request"
  using empty_storage_ok
  by (simp_all add: initial_worker_def sample_request_def getAccountCoordinatorStatusV1_def loadCoordinatorSyncStateV1_def same_identity_def
      empty_storage_def empty_state_def)

theorem good_request_is_accepted_witness:
  "\<exists>bytes storage. agent_sync_route sample_platform sample_worker_env True ''POST'' (Some (''Bearer '' @ ''tok'')) (Some (JObj sample_request_fields)) 1000 initial_worker =
      (SyncBytes bytes, initial_worker\<lparr>wk_coordinators := (wk_coordinators initial_worker)(rq_account_id sample_request := storage),
        wk_audit := wk_audit initial_worker @ [audit_entry sample_request ''ACCEPTED'' (Some (rq_request_sequence sample_request)) 1000],
        wk_health := upsert_health (projectAcceptedHeartbeatV1 sample_request (rq_request_sequence sample_request) 1000) (wk_health initial_worker)\<rparr>) \<and>
    getAccountCoordinatorStatusV1 storage = rq_request_sequence sample_request"
  by (rule good_request_is_accepted[OF sample_platform_width sample_digests_nonzero sample_safe sample_authenticated sample_parsed sample_ready])

lemma sample_fetch: "\<exists>bytes t. sync_fetch sample_platform empty_storage sample_request 1000 = (Reply 200 (Some (False, bytes)) ''OK'', t) \<and> t \<noteq> empty_storage"
proof -
  obtain v bytes t where c: "coordinateAgentSyncV1 sample_platform empty_storage sample_request 1000 = Inr (OK False v bytes, t)"
    using sample_sync_accepted by blast
  then have "accept_sync sample_platform empty_storage sample_request 1000 = Inr (OK False v bytes, t)" by (simp add: sample_coordinates)
  then have "cs_sync_state t \<noteq> None" by (auto simp: accept_sync_def Let_def and_then_Inr_iff split: option.split_asm)
  then have "t \<noteq> empty_storage" by (auto simp: empty_storage_def)
  moreover have "sync_fetch sample_platform empty_storage sample_request 1000 = (Reply 200 (Some (False, bytes)) ''OK'', t)"
    using c by (simp add: sync_fetch_def is_safe_integer_def MAX_SAFE_INTEGER_def)
  ultimately show ?thesis by blast
qed

text \<open>With the database down the coordinator moves and the answer is a failure.\<close>

lemma sample_route_down:
  "\<exists>t e. agent_sync_route sample_platform sample_worker_env False ''POST'' (Some (''Bearer '' @ ''tok'')) (Some (JObj sample_request_fields)) 1000 initial_worker =
     (e, initial_worker\<lparr>wk_coordinators := (\<lambda>_. empty_storage)(''a1'' := t)\<rparr>) \<and> t \<noteq> empty_storage"
proof -
  obtain bytes t where f: "sync_fetch sample_platform empty_storage sample_request 1000 = (Reply 200 (Some (False, bytes)) ''OK'', t)"
    and t: "t \<noteq> empty_storage" using sample_fetch by blast
  let ?w = "initial_worker\<lparr>wk_coordinators := (\<lambda>_. empty_storage)(''a1'' := t)\<rparr>" and ?r = "Reply 200 (Some (False, bytes)) ''OK''"
  have a: "rq_account_id sample_request = ''a1''" "wk_coordinators initial_worker = (\<lambda>_. empty_storage)"
    by (simp_all add: sample_request_def initial_worker_def)
  have "agent_sync_route sample_platform sample_worker_env False ''POST'' (Some (''Bearer '' @ ''tok'')) (Some (JObj sample_request_fields)) 1000 initial_worker =
      settle_reply sample_platform False sample_request 1000 ?r ?w"
    using sample_safe sample_authenticated sample_parsed f by (simp add: agent_sync_route_def a Let_def del: append.simps)
  moreover have "snd (settle_reply sample_platform False sample_request 1000 ?r ?w) = ?w" using settle_fresh_down by blast
  ultimately show ?thesis using t by (metis prod.collapse)
qed



end
