(* ===== verification/Telemetry_Values.thy ===== *)
theory Telemetry_Values
  imports Exact_Price Edge_Canonical
begin

text \<open>
  Values of the telemetry wire (\<open>telemetry-values-v2.ts\<close>): counters, identifiers, digests, broker
  tickets and fixed-point decimals. A decimal is kept as text with its scale and summed as a big
  integer. The properties are that the texts accepted at a scale are exactly the spellings of the
  numbers in range, and that a sum is exact.
\<close>

section \<open>Operations\<close>

definition counter_invalid :: js_error where "counter_invalid = Error ''TELEMETRY_COUNTER_INVALID''"
definition telemetry_identifier_invalid :: js_error where "telemetry_identifier_invalid = Error ''TELEMETRY_IDENTIFIER_INVALID''"
definition telemetry_digest_invalid :: js_error where "telemetry_digest_invalid = Error ''TELEMETRY_DIGEST_INVALID''"
definition ticket_invalid :: js_error where "ticket_invalid = Error ''TELEMETRY_TICKET_INVALID''"
definition decimal_invalid :: js_error where "decimal_invalid = Error ''TELEMETRY_DECIMAL_INVALID''"

record fixed_decimal =
  fx_value :: string
  fx_scale :: int

definition UINT64_MAX :: int where "UINT64_MAX = 18446744073709551615"

definition validScale :: "int \<Rightarrow> bool" where
  "validScale scale \<longleftrightarrow> 0 \<le> scale \<and> scale \<le> 16"

definition readCounterV2 :: "int \<Rightarrow> int \<Rightarrow> int result" where
  "readCounterV2 n minimum = (if \<not> is_safe_integer n \<or> n < minimum then Inl counter_invalid else Inr n)"

definition telemetry_id_char :: "char \<Rightarrow> bool" where
  "telemetry_id_char c \<longleftrightarrow> (let u = code_unit c in
     65 \<le> u \<and> u \<le> 90 \<or> 97 \<le> u \<and> u \<le> 122 \<or> 48 \<le> u \<and> u \<le> 57 \<or> u = 46 \<or> u = 95 \<or> u = 58 \<or> u = 45)"

definition readIdentifierV2 :: "string \<Rightarrow> string result" where
  "readIdentifierV2 s = (if 1 \<le> length s \<and> length s \<le> 160 \<and> list_all telemetry_id_char s then Inr s
     else Inl telemetry_identifier_invalid)"

definition readDigestV2 :: "string \<Rightarrow> string result" where
  "readDigestV2 s = (if is_sha256 s \<and> \<not> list_all (\<lambda>c. c = CHR ''0'') s then Inr s else Inl telemetry_digest_invalid)"

definition readTicketV2 :: "string \<Rightarrow> string result" where
  "readTicketV2 s = (if \<not> (whole_part s \<and> length s \<le> 20) then Inl ticket_invalid
     else if int (digits_value s) > UINT64_MAX then Inl ticket_invalid else Inr s)"

text \<open>The match of \<open>^(-)?(0|[1-9][0-9]{0,17})(?:\.([0-9]+))?$\<close>: sign, whole digits and fraction digits.\<close>

definition unsigned_match :: "string \<Rightarrow> (string \<times> string) option" where
  "unsigned_match r =
     (let whole = takeWhile is_digit r in
      if \<not> (whole = ''0'' \<or> whole_part whole \<and> length whole \<le> 18) then None
      else case dropWhile is_digit r of
          [] \<Rightarrow> Some (whole, [])
        | c # ds \<Rightarrow> if c = CHR ''.'' \<and> ds \<noteq> [] \<and> list_all is_digit ds then Some (whole, ds) else None)"

definition fixed_match :: "string \<Rightarrow> (bool \<times> string \<times> string) option" where
  "fixed_match s = (case s of
       [] \<Rightarrow> None
     | c # r \<Rightarrow> if c = CHR ''-'' then map_option (Pair True) (unsigned_match r) else map_option (Pair False) (unsigned_match s))"

definition parseFixedV2 :: "string \<Rightarrow> int \<Rightarrow> fixed_decimal result" where
  "parseFixedV2 s scale =
     (if \<not> validScale scale \<or> length s > 36 then Inl decimal_invalid
      else case fixed_match s of
          None \<Rightarrow> Inl decimal_invalid
        | Some (negative, integerPart, digits) \<Rightarrow>
            if (if scale = 0 then digits \<noteq> [] else int (length digits) \<noteq> scale) then Inl decimal_invalid
            else if digits_value (integerPart @ digits) = 0 \<and> negative then Inl decimal_invalid
            else (let sign = (if negative then ''-'' else '''') in
              Inr \<lparr>fx_value = (if scale = 0 then sign @ integerPart else sign @ integerPart @ ''.'' @ digits), fx_scale = scale\<rparr>))"

definition parseFixedObject :: "fixed_decimal \<Rightarrow> int \<Rightarrow> int result" where
  "parseFixedObject v scale =
     (if fx_scale v \<noteq> scale then Inl decimal_invalid
      else and_then (parseFixedV2 (fx_value v) (fx_scale v)) (\<lambda>parsed.
        let unsigned = remove1 CHR ''.'' (remove1 CHR ''-'' (fx_value parsed)) in
        Inr (if take 1 (fx_value parsed) = ''-'' then - int (digits_value unsigned) else int (digits_value unsigned))))"

definition padStart :: "nat \<Rightarrow> char \<Rightarrow> string \<Rightarrow> string" where
  "padStart n c s = replicate (n - length s) c @ s"

definition sum_text :: "int \<Rightarrow> int \<Rightarrow> string" where
  "sum_text t scale =
     (let absolute = padStart (nat scale + 1) CHR ''0'' (nat_digits (nat \<bar>t\<bar>));
          sign = (if t < 0 then ''-'' else ''''); n = length absolute - nat scale in
      if scale = 0 then sign @ absolute else sign @ take n absolute @ ''.'' @ drop n absolute)"

definition sumFixedV2 :: "fixed_decimal list \<Rightarrow> int \<Rightarrow> fixed_decimal result" where
  "sumFixedV2 values scale =
     (if \<not> validScale scale then Inl decimal_invalid
      else and_then (all_results (map (\<lambda>v. parseFixedObject v scale) values)) (\<lambda>units.
        parseFixedV2 (sum_text (sum_list units) scale) scale))"

section \<open>Spellings\<close>

text \<open>The number of units \<open>10 ^ -s\<close> written with \<open>s\<close> fraction digits.\<close>

definition fixed_text :: "nat \<Rightarrow> int \<Rightarrow> string" where
  "fixed_text s u = (if u < 0 then ''-'' else '''') @ nat_digits (nat \<bar>u\<bar> div 10 ^ s) @
     (if s = 0 then [] else ''.'' @ fixed_digits s (nat \<bar>u\<bar> mod 10 ^ s))"

definition in_range :: "nat \<Rightarrow> int \<Rightarrow> bool" where
  "in_range s u \<longleftrightarrow> \<bar>u\<bar> < 10 ^ (18 + s)"

lemma digits_value_append: "digits_value (s @ t) = digits_value s * 10 ^ length t + digits_value t"
proof (induction t rule: rev_induct)
  case (snoc c t)
  have "digits_value (s @ t @ [c]) = 10 * digits_value (s @ t) + (code_unit c - 48)"
    using digits_value_snoc[of "s @ t" c] by simp
  with snoc show ?case by (simp add: digits_value_snoc algebra_simps)
qed (simp add: digits_value_def)

lemma length_nat_digits: "n < 10 ^ Suc k \<Longrightarrow> length (nat_digits n) \<le> Suc k"
proof (induction k arbitrary: n)
  case (Suc k)
  have "n div 10 < 10 ^ Suc k" using Suc.prems by (simp add: less_mult_imp_div_less)
  from Suc.IH[OF this] show ?case by (simp add: nat_digits.simps[of n])
qed (simp add: nat_digits.simps)

lemma whole_digits: "nat_digits n = ''0'' \<or> whole_part (nat_digits n)"
  using whole_part_nat_digits[of n] nat_digits_0 by (cases n) auto

lemma unsigned_match_Some:
  "unsigned_match r = Some (w, d) \<longleftrightarrow>
     (w = ''0'' \<or> whole_part w \<and> length w \<le> 18) \<and> list_all is_digit d \<and> r = w @ (if d = [] then [] else ''.'' @ d)"
proof
  assume m: "unsigned_match r = Some (w, d)"
  then have f: "takeWhile is_digit r = w" "w = ''0'' \<or> whole_part w \<and> length w \<le> 18" "list_all is_digit d"
    "dropWhile is_digit r = (if d = [] then [] else ''.'' @ d)"
    by (auto simp: unsigned_match_def Let_def split: if_split_asm list.split_asm)
  then show "(w = ''0'' \<or> whole_part w \<and> length w \<le> 18) \<and> list_all is_digit d \<and> r = w @ (if d = [] then [] else ''.'' @ d)"
    using takeWhile_dropWhile_id[of is_digit r, unfolded f(1,4)] by simp
next
  assume m: "(w = ''0'' \<or> whole_part w \<and> length w \<le> 18) \<and> list_all is_digit d \<and> r = w @ (if d = [] then [] else ''.'' @ d)"
  then have w: "list_all is_digit w" using zero_digit by (auto simp: whole_part_def)
  have "takeWhile is_digit r = w \<and> dropWhile is_digit r = (if d = [] then [] else ''.'' @ d)"
    using m zero_digit(2) w by (auto simp: takeWhile_append dropWhile_append list_all_iff)
  with m show "unsigned_match r = Some (w, d)" by (auto simp: unsigned_match_def)
qed
lemma spelled_value:
  assumes "w = ''0'' \<or> whole_part w" and "list_all is_digit d"
  shows "nat_digits (digits_value (w @ d) div 10 ^ length d) = w" "fixed_digits (length d) (digits_value (w @ d) mod 10 ^ length d) = d"
proof -
  have "digits_value d < 10 ^ length d" by (rule digits_value_less[OF assms(2)])
  then have v: "digits_value (w @ d) div 10 ^ length d = digits_value w" "digits_value (w @ d) mod 10 ^ length d = digits_value d"
    by (simp_all add: digits_value_append)
  show "nat_digits (digits_value (w @ d) div 10 ^ length d) = w"
    using assms(1) nat_digits_value nat_digits_0 zero_digits_value(2) unfolding v by auto
  show "fixed_digits (length d) (digits_value (w @ d) mod 10 ^ length d) = d"
    unfolding v by (rule fixed_digits_value[OF assms(2)])
qed

lemma spelled_bound:
  assumes "w = ''0'' \<or> whole_part w \<and> length w \<le> 18" and "list_all is_digit d"
  shows "digits_value (w @ d) < 10 ^ (18 + length d)"
proof -
  have l: "list_all is_digit (w @ d)" "length w \<le> 18" using assms zero_digit by (auto simp: whole_part_def)
  have "digits_value (w @ d) < 10 ^ length (w @ d)" by (rule digits_value_less[OF l(1)])
  also have "\<dots> \<le> 10 ^ (18 + length d)" using l(2) by (intro power_increasing) simp_all
  finally show ?thesis .
qed

lemma fixed_match_sign:
  "fixed_match s = Some (neg, w, d) \<longleftrightarrow> (\<exists>r. s = (if neg then ''-'' else []) @ r \<and> unsigned_match r = Some (w, d))"
proof -
  have h: "\<exists>c cs. r = c # cs \<and> c \<noteq> CHR ''-''" if m: "unsigned_match r = Some (w, d)" for r
  proof -
    from m have w: "w = ''0'' \<or> whole_part w" and r: "r = w @ (if d = [] then [] else ''.'' @ d)" unfolding unsigned_match_Some by blast+
    from w obtain c cs where "w = c # cs" "is_digit c" using zero_digit by (cases w) (auto simp: whole_part_def)
    with r not_digit_minus show ?thesis by auto
  qed
  show ?thesis
  proof (cases s)
    case Nil
    then show ?thesis using h[of "[]"] by (auto simp: fixed_match_def)
  next
    case (Cons c r)
    then show ?thesis using h[of s] by (cases neg) (auto simp: fixed_match_def)
  qed
qed

text \<open>The accepted texts, by their parts.\<close>

lemma parseFixedV2_Inr:
  "parseFixedV2 v scale = Inr r \<longleftrightarrow> validScale scale \<and> length v \<le> 36 \<and> r = \<lparr>fx_value = v, fx_scale = scale\<rparr> \<and>
     (\<exists>neg w d. v = (if neg then ''-'' else []) @ w @ (if d = [] then [] else ''.'' @ d) \<and>
       (w = ''0'' \<or> whole_part w \<and> length w \<le> 18) \<and> list_all is_digit d \<and> length d = nat scale \<and> (neg \<longrightarrow> digits_value (w @ d) \<noteq> 0))"
  (is "?L \<longleftrightarrow> ?R")
proof
  assume ?L
  then obtain neg w d where p: "validScale scale" "length v \<le> 36" "fixed_match v = Some (neg, w, d)"
    "length d = nat scale" "neg \<longrightarrow> digits_value (w @ d) \<noteq> 0"
    and r: "r = \<lparr>fx_value = (if scale = 0 then (if neg then ''-'' else []) @ w else (if neg then ''-'' else []) @ w @ ''.'' @ d), fx_scale = scale\<rparr>"
    by (auto simp: parseFixedV2_def Let_def validScale_def split: option.split_asm if_split_asm)
  then have v: "v = (if neg then ''-'' else []) @ w @ (if d = [] then [] else ''.'' @ d)"
    "w = ''0'' \<or> whole_part w \<and> length w \<le> 18" "list_all is_digit d"
    unfolding fixed_match_sign unsigned_match_Some by blast+
  have "r = \<lparr>fx_value = v, fx_scale = scale\<rparr>" using r v(1) p(1,4) by (auto simp: validScale_def)
  with p v show ?R by blast
next
  assume ?R
  then obtain neg w d where p: "validScale scale" "length v \<le> 36" "r = \<lparr>fx_value = v, fx_scale = scale\<rparr>"
    and v: "v = (if neg then ''-'' else []) @ w @ (if d = [] then [] else ''.'' @ d)"
    and w: "w = ''0'' \<or> whole_part w \<and> length w \<le> 18" "list_all is_digit d" "length d = nat scale" "neg \<longrightarrow> digits_value (w @ d) \<noteq> 0"
    by blast
  have "fixed_match v = Some (neg, w, d)" unfolding fixed_match_sign unsigned_match_Some using v w by blast
  with p w show ?L by (auto simp: parseFixedV2_def Let_def validScale_def v)
qed
lemma fixed_text_value:
  fixes u :: int and s :: nat
  defines "w \<equiv> nat_digits (nat \<bar>u\<bar> div 10 ^ s)" and "d \<equiv> fixed_digits s (nat \<bar>u\<bar> mod 10 ^ s)"
  shows "fixed_text s u = (if u < 0 then ''-'' else []) @ w @ (if d = [] then [] else ''.'' @ d)"
    and "length d = s" and "list_all is_digit d" and "digits_value (w @ d) = nat \<bar>u\<bar>"
    and "in_range s u \<Longrightarrow> w = ''0'' \<or> whole_part w \<and> length w \<le> 18"
proof -
  show l: "length d = s" "list_all is_digit d" by (simp_all add: d_def fixed_digits_props)
  then show "fixed_text s u = (if u < 0 then ''-'' else []) @ w @ (if d = [] then [] else ''.'' @ d)"
    by (auto simp: fixed_text_def w_def d_def)
  have "digits_value w = nat \<bar>u\<bar> div 10 ^ s" using nat_digits_props by (simp add: w_def)
  moreover have "digits_value d = nat \<bar>u\<bar> mod 10 ^ s" by (simp add: d_def digits_value_fixed)
  ultimately show "digits_value (w @ d) = nat \<bar>u\<bar>" unfolding digits_value_append l by (metis div_mult_mod_eq)
  assume "in_range s u"
  then have "nat \<bar>u\<bar> < 10 ^ (18 + s)" by (simp add: in_range_def nat_less_iff)
  then have "nat \<bar>u\<bar> < 10 ^ Suc 17 * 10 ^ s" by (simp add: power_add)
  then have "nat \<bar>u\<bar> div 10 ^ s < 10 ^ Suc 17" by (rule less_mult_imp_div_less)
  then have "length w \<le> 18" unfolding w_def using length_nat_digits[of _ 17] by simp
  then show "w = ''0'' \<or> whole_part w \<and> length w \<le> 18" using whole_digits w_def by blast
qed

lemma fixed_text_length: "in_range s u \<Longrightarrow> s \<le> 16 \<Longrightarrow> length (fixed_text s u) \<le> 36"
  using fixed_text_value(1,2,5)[where u = u and s = s] by auto

lemma fixed_text_of_parts:
  assumes w: "w = ''0'' \<or> whole_part w \<and> length w \<le> 18" and d: "list_all is_digit d" "length d = s"
    and neg: "neg \<longrightarrow> digits_value (w @ d) \<noteq> 0"
  defines "u \<equiv> (if neg then - int (digits_value (w @ d)) else int (digits_value (w @ d)))"
  shows "in_range s u" "fixed_text s u = (if neg then ''-'' else []) @ w @ (if d = [] then [] else ''.'' @ d)"
proof -
  have a: "nat \<bar>u\<bar> = digits_value (w @ d)" "u < 0 \<longleftrightarrow> neg" using neg by (auto simp: u_def)
  have "int (digits_value (w @ d)) < int (10 ^ (18 + s))" using spelled_bound[OF w d(1)] d(2) by (simp only: of_nat_less_iff)
  then have "int (digits_value (w @ d)) < 10 ^ (18 + s)" by simp
  then show "in_range s u" by (auto simp: in_range_def u_def)
  have "w = ''0'' \<or> whole_part w" using w by blast
  from spelled_value[OF this d(1)] show "fixed_text s u = (if neg then ''-'' else []) @ w @ (if d = [] then [] else ''.'' @ d)"
    using d(2) by (auto simp: fixed_text_def a)
qed

lemma fixed_decimal_texts:
  "parseFixedV2 v scale = Inr r \<longleftrightarrow>
     validScale scale \<and> r = \<lparr>fx_value = v, fx_scale = scale\<rparr> \<and> (\<exists>u. in_range (nat scale) u \<and> v = fixed_text (nat scale) u)"
  (is "?L \<longleftrightarrow> ?R")
proof
  assume ?L
  then show ?R unfolding parseFixedV2_Inr using fixed_text_of_parts by metis
next
  assume ?R
  then obtain u where u: "validScale scale" "r = \<lparr>fx_value = v, fx_scale = scale\<rparr>" "in_range (nat scale) u" "v = fixed_text (nat scale) u" by blast
  then have "length v \<le> 36" using fixed_text_length[OF u(3)] by (simp add: validScale_def nat_le_iff)
  moreover have "u < 0 \<longrightarrow> nat \<bar>u\<bar> \<noteq> 0" by simp
  ultimately show ?L unfolding parseFixedV2_Inr using u fixed_text_value[where u = u and s = "nat scale"] by metis
qed
text \<open>
  Decimals are spelled in one way. At scale \<open>s\<close> the reader accepts exactly the texts with \<open>s\<close>
  fraction digits, no superfluous zero and no sign of zero, of the numbers whose whole part has at most
  18 digits, and returns the text unchanged.
\<close>

theorem fixed_decimal_round_trip:
  "parseFixedV2 v scale = Inr r \<longleftrightarrow>
     validScale scale \<and> r = \<lparr>fx_value = v, fx_scale = scale\<rparr> \<and> (\<exists>u. in_range (nat scale) u \<and> v = fixed_text (nat scale) u)"
  by (rule fixed_decimal_texts)

section \<open>Sums\<close>

lemma fixed_digits_mod: "fixed_digits s (n mod 10 ^ s) = fixed_digits s n"
proof (induction s arbitrary: n)
  case (Suc s)
  have "n mod 10 ^ Suc s div 10 = n div 10 mod 10 ^ s" "n mod 10 ^ Suc s mod 10 = n mod 10"
    by (simp_all add: mod_mult2_eq mult.commute)
  with Suc[of "n div 10"] show ?case by simp
qed simp

lemma padStart_snoc: "padStart (Suc n) c (s @ [x]) = padStart n c s @ [x]"
  by (simp add: padStart_def)

lemma padStart_digits: "padStart (Suc s) CHR ''0'' (nat_digits n) = nat_digits (n div 10 ^ s) @ fixed_digits s n"
proof (induction s arbitrary: n)
  case 0
  have "length (nat_digits n) \<ge> 1" using nat_digits_props[of n] by (cases "nat_digits n") auto
  then show ?case by (simp add: padStart_def)
next
  case (Suc s)
  have "padStart (Suc (Suc s)) CHR ''0'' (nat_digits n) = padStart (Suc s) CHR ''0'' (nat_digits (n div 10)) @ [digit_char (n mod 10)]"
  proof (cases "n < 10")
    case True
    then have "padStart (Suc s) CHR ''0'' (nat_digits (n div 10)) = replicate s CHR ''0'' @ ''0''" by (simp add: nat_digits_0 padStart_def)
    also have "\<dots> = padStart (Suc s) CHR ''0'' []" by (simp add: padStart_def replicate_append_same)
    finally show ?thesis using True by (simp add: nat_digits.simps[of n] padStart_snoc[of "Suc s" _ "[]", simplified])
  next
    case False
    then show ?thesis by (simp add: nat_digits.simps[of n] padStart_snoc)
  qed
  with Suc[of "n div 10"] show ?case by (simp add: div_mult2_eq)
qed

lemma sum_text_fixed: "validScale scale \<Longrightarrow> sum_text t scale = fixed_text (nat scale) t"
proof -
  assume s: "validScale scale"
  let ?n = "nat \<bar>t\<bar>" and ?s = "nat scale"
  have a: "padStart (?s + 1) CHR ''0'' (nat_digits ?n) = nat_digits (?n div 10 ^ ?s) @ fixed_digits ?s ?n" using padStart_digits by simp
  have "length (fixed_digits ?s ?n) = ?s" by (rule fixed_digits_props)
  with s show "sum_text t scale = fixed_text ?s t"
    unfolding sum_text_def a Let_def fixed_text_def fixed_digits_mod by (auto simp: validScale_def)
qed

lemma remove1_absent: "x \<notin> set xs \<Longrightarrow> remove1 x (xs @ ys) = xs @ remove1 x ys"
  by (induction xs) auto

lemma fixed_text_units:
  "take 1 (fixed_text s u) = ''-'' \<longleftrightarrow> u < 0"
  "int (digits_value (remove1 CHR ''.'' (remove1 CHR ''-'' (fixed_text s u)))) = \<bar>u\<bar>"
proof -
  let ?w = "nat_digits (nat \<bar>u\<bar> div 10 ^ s)" and ?d = "fixed_digits s (nat \<bar>u\<bar> mod 10 ^ s)"
  note t = fixed_text_value[where u = u and s = s]
  have dig: "list_all is_digit ?w" "list_all is_digit ?d" using nat_digits_props t(3) by simp_all
  then have absent: "CHR ''.'' \<notin> set ?w" "CHR ''-'' \<notin> set ?w" "CHR ''.'' \<notin> set ?d" "CHR ''-'' \<notin> set ?d"
    using zero_digit(2) not_digit_minus by (auto simp: list_all_iff)
  obtain c cs where w: "?w = c # cs" "is_digit c" using nat_digits_hd by blast
  show "take 1 (fixed_text s u) = ''-'' \<longleftrightarrow> u < 0" using w not_digit_minus unfolding t(1) by auto
  have "remove1 CHR ''.'' (remove1 CHR ''-'' (fixed_text s u)) = ?w @ ?d"
    using absent unfolding t(1) by (auto simp: remove1_absent remove1_idem)
  then show "int (digits_value (remove1 CHR ''.'' (remove1 CHR ''-'' (fixed_text s u)))) = \<bar>u\<bar>" by (simp only: t(4))
qed

lemma fixed_text_inject: "fixed_text s u = fixed_text s v \<longleftrightarrow> u = v"
proof
  assume e: "fixed_text s u = fixed_text s v"
  have "u < 0 \<longleftrightarrow> v < 0" "\<bar>u\<bar> = \<bar>v\<bar>"
    using fixed_text_units[of s u, unfolded e] fixed_text_units[of s v] by (simp_all only:)
  then show "u = v" by linarith
qed simp

lemma parseFixedObject_text:
  assumes "validScale scale" and u: "in_range (nat scale) u"
  shows "parseFixedObject \<lparr>fx_value = fixed_text (nat scale) u, fx_scale = scale\<rparr> scale = Inr u"
proof -
  have "parseFixedV2 (fixed_text (nat scale) u) scale = Inr \<lparr>fx_value = fixed_text (nat scale) u, fx_scale = scale\<rparr>"
    unfolding fixed_decimal_texts using assms by blast
  then show ?thesis
    unfolding parseFixedObject_def by (simp add: Let_def fixed_text_units[of "nat scale" u, unfolded One_nat_def])
qed

lemma parseFixedObject_Inr:
  "parseFixedObject v scale = Inr n \<and> validScale scale \<longleftrightarrow>
     validScale scale \<and> in_range (nat scale) n \<and> v = \<lparr>fx_value = fixed_text (nat scale) n, fx_scale = scale\<rparr>" (is "?L \<longleftrightarrow> ?R")
proof
  assume l: ?L
  then obtain r where "fx_scale v = scale" "parseFixedV2 (fx_value v) scale = Inr r"
    by (auto simp: parseFixedObject_def and_then_Inr_iff split: if_split_asm)
  then obtain u where u: "validScale scale" "in_range (nat scale) u" "v = \<lparr>fx_value = fixed_text (nat scale) u, fx_scale = scale\<rparr>"
    unfolding fixed_decimal_texts by (cases v) auto
  with parseFixedObject_text[OF u(1,2)] l show ?R by simp
qed (use parseFixedObject_text in blast)

lemma all_results_sum:
  "validScale scale \<Longrightarrow> all_results (map (\<lambda>v. parseFixedObject v scale) values) = Inr us \<longleftrightarrow>
     list_all (in_range (nat scale)) us \<and> values = map (\<lambda>u. \<lparr>fx_value = fixed_text (nat scale) u, fx_scale = scale\<rparr>) us"
proof (induction "values" arbitrary: us)
  case (Cons v vs)
  have "all_results (map (\<lambda>v. parseFixedObject v scale) (v # vs)) = Inr us \<longleftrightarrow>
      (\<exists>n ns. us = n # ns \<and> parseFixedObject v scale = Inr n \<and> all_results (map (\<lambda>v. parseFixedObject v scale) vs) = Inr ns)"
    by (auto simp: and_then_Inr_iff)
  also have "\<dots> \<longleftrightarrow> (\<exists>n ns. us = n # ns \<and> in_range (nat scale) n \<and> v = \<lparr>fx_value = fixed_text (nat scale) n, fx_scale = scale\<rparr> \<and>
      list_all (in_range (nat scale)) ns \<and> vs = map (\<lambda>u. \<lparr>fx_value = fixed_text (nat scale) u, fx_scale = scale\<rparr>) ns)"
    using Cons parseFixedObject_Inr[of v scale] by metis
  finally show ?case by auto
qed auto

lemma sumFixedV2_Inr:
  "sumFixedV2 values scale = Inr r \<longleftrightarrow>
     validScale scale \<and> (\<exists>us. values = map (\<lambda>u. \<lparr>fx_value = fixed_text (nat scale) u, fx_scale = scale\<rparr>) us \<and>
       list_all (in_range (nat scale)) us \<and> in_range (nat scale) (sum_list us) \<and>
       r = \<lparr>fx_value = fixed_text (nat scale) (sum_list us), fx_scale = scale\<rparr>)"
proof (cases "validScale scale")
  case True
  then have "sumFixedV2 values scale = Inr r \<longleftrightarrow> (\<exists>us. all_results (map (\<lambda>v. parseFixedObject v scale) values) = Inr us \<and>
      parseFixedV2 (fixed_text (nat scale) (sum_list us)) scale = Inr r)"
    by (simp add: sumFixedV2_def and_then_Inr_iff sum_text_fixed)
  with True show ?thesis unfolding all_results_sum[OF True] fixed_decimal_texts fixed_text_inject by auto
qed (simp add: sumFixedV2_def)

text \<open>
  Sums are exact. A sum at scale \<open>s\<close> succeeds exactly when every summand is a decimal of that scale
  and the integer sum of their units still has at most 18 whole digits, and then it is the spelling of
  that integer sum; nothing is rounded.
\<close>

theorem fixed_sum_is_exact:
  "sumFixedV2 values scale = Inr r \<longleftrightarrow>
     validScale scale \<and> (\<exists>us. values = map (\<lambda>u. \<lparr>fx_value = fixed_text (nat scale) u, fx_scale = scale\<rparr>) us \<and>
       list_all (in_range (nat scale)) us \<and> in_range (nat scale) (sum_list us) \<and>
       r = \<lparr>fx_value = fixed_text (nat scale) (sum_list us), fx_scale = scale\<rparr>)"
  by (rule sumFixedV2_Inr)

end
