(* ===== verification/Telemetry.thy ===== *)
theory Telemetry
  imports Telemetry_Values Transition_Systems
begin

text \<open>
  The decisions of the telemetry session: the tracking boundary (\<open>telemetry-cutover-v2.ts\<close>), the state of
  coverage (\<open>telemetry-coverage-v2.ts\<close>) and the admission of requests (\<open>telemetry-admission-v2.ts\<close>). Inputs
  are typed, so the tests that only check a dynamic type are left out. The properties are that admitted
  sessions have no gaps and that boundaries are compared as sets of excluded deals.
\<close>

section \<open>The tracking boundary\<close>

record tracking_boundary =
  tb_tracking_id :: string
  tb_account_fingerprint_sha256 :: string
  tb_started_at_broker_msc :: int
  tb_initialized_at_utc_seconds :: int
  tb_excluded_boundary_deal_ids :: "string list"

definition boundary_invalid :: js_error where "boundary_invalid = Error ''TELEMETRY_BOUNDARY_INVALID''"

fun copy_exclusions :: "string list \<Rightarrow> string list \<Rightarrow> string list result" where
  "copy_exclusions copied [] = Inr copied"
| "copy_exclusions copied (t # ts) =
     and_then (readTicketV2 t) (\<lambda>ticket.
       if ticket \<in> set copied then Inl boundary_invalid else copy_exclusions (copied @ [ticket]) ts)"

definition makeBoundaryV2 :: "tracking_boundary \<Rightarrow> tracking_boundary result" where
  "makeBoundaryV2 input =
     and_then (readCounterV2 (tb_started_at_broker_msc input) 1) (\<lambda>startedAt.
     if startedAt mod 1000 \<noteq> 0 \<or> startedAt > MAX_SAFE_INTEGER - 1000 then Inl boundary_invalid else
     and_then (readCounterV2 (tb_initialized_at_utc_seconds input) 1) (\<lambda>initializedAt.
     and_then (readIdentifierV2 (tb_tracking_id input)) (\<lambda>trackingId.
     and_then (readDigestV2 (tb_account_fingerprint_sha256 input)) (\<lambda>fingerprint.
     if length (tb_excluded_boundary_deal_ids input) > 1024 then Inl boundary_invalid else
     and_then (copy_exclusions [] (tb_excluded_boundary_deal_ids input)) (\<lambda>copied.
       Inr \<lparr>tb_tracking_id = trackingId, tb_account_fingerprint_sha256 = fingerprint, tb_started_at_broker_msc = startedAt,
         tb_initialized_at_utc_seconds = initializedAt, tb_excluded_boundary_deal_ids = js_sort compare_units copied\<rparr>)))))"

definition includesDealV2 :: "tracking_boundary \<Rightarrow> int \<Rightarrow> string \<Rightarrow> bool result" where
  "includesDealV2 boundary brokerTimeMsc dealId =
     and_then (readCounterV2 brokerTimeMsc 0) (\<lambda>time.
     and_then (readTicketV2 dealId) (\<lambda>ticket.
       if time < tb_started_at_broker_msc boundary then Inr False
       else if time < tb_started_at_broker_msc boundary + 1000 then Inr (ticket \<notin> set (tb_excluded_boundary_deal_ids boundary))
       else Inr True))"

definition boundary_json :: "tracking_boundary \<Rightarrow> json" where
  "boundary_json b = JObj
     [(''tracking_id'', JStr (tb_tracking_id b)), (''account_fingerprint_sha256'', JStr (tb_account_fingerprint_sha256 b)),
      (''started_at_broker_msc'', JNum (tb_started_at_broker_msc b)), (''initialized_at_utc_seconds'', JNum (tb_initialized_at_utc_seconds b)),
      (''excluded_boundary_deal_ids'', JArr (map JStr (tb_excluded_boundary_deal_ids b)))]"

definition sameBoundaryV2 :: "tracking_boundary \<Rightarrow> tracking_boundary \<Rightarrow> bool result" where
  "sameBoundaryV2 left right =
     and_then (makeBoundaryV2 left) (\<lambda>l. and_then (serialize (boundary_json l)) (\<lambda>a.
     and_then (makeBoundaryV2 right) (\<lambda>r. and_then (serialize (boundary_json r)) (\<lambda>b. Inr (a = b)))))"

section \<open>Coverage\<close>

datatype record_gap = HISTORY_UNAVAILABLE | CLOCK_DISCONTINUITY | OUTBOX_CORRUPT | CAPTURE_FAILED | UNSUPPORTED_RECORD

record coverage_input =
  ci_started :: bool
  ci_produced_events :: int
  ci_acknowledged_events :: int
  ci_scan_finished :: bool
  ci_scan_through_broker_msc :: "int option"
  ci_record_gap :: "record_gap option"
  ci_observation_gap :: bool

datatype coverage_state = NOT_STARTED | CATCHING_UP | UP_TO_DATE | DATA_MISSING

record coverage =
  cv_state :: coverage_state
  cv_through_broker_msc :: "int option"
  cv_pending_events :: int
  cv_reason :: "record_gap option"
  cv_observation_gap :: bool

definition coverage_invalid :: js_error where "coverage_invalid = Error ''TELEMETRY_COVERAGE_INVALID''"

definition coverage_of :: "coverage_input \<Rightarrow> coverage" where
  "coverage_of input =
     (let pending = ci_produced_events input - ci_acknowledged_events input;
          state = (if \<not> ci_started input then NOT_STARTED
            else if ci_record_gap input \<noteq> None then DATA_MISSING
            else if \<not> ci_scan_finished input \<or> pending \<noteq> 0 then CATCHING_UP else UP_TO_DATE) in
      \<lparr>cv_state = state, cv_through_broker_msc = (if state = UP_TO_DATE then ci_scan_through_broker_msc input else None),
       cv_pending_events = pending, cv_reason = ci_record_gap input, cv_observation_gap = ci_observation_gap input\<rparr>)"

definition deriveCoverageV2 :: "coverage_input \<Rightarrow> coverage result" where
  "deriveCoverageV2 input =
     and_then (readCounterV2 (ci_produced_events input) 0) (\<lambda>produced.
     and_then (readCounterV2 (ci_acknowledged_events input) 0) (\<lambda>acknowledged.
     if acknowledged > produced then Inl coverage_invalid else
     and_then (case ci_scan_through_broker_msc input of None \<Rightarrow> Inr () | Some t \<Rightarrow> and_then (readCounterV2 t 1) (\<lambda>_. Inr ())) (\<lambda>_.
     if \<not> ci_started input \<and> (produced \<noteq> 0 \<or> acknowledged \<noteq> 0 \<or> ci_scan_through_broker_msc input \<noteq> None \<or> ci_scan_finished input)
       then Inl coverage_invalid
     else if ci_started input \<and> ci_scan_finished input \<and> ci_scan_through_broker_msc input = None then Inl coverage_invalid
     else Inr (coverage_of input))))"

section \<open>Admission\<close>

record sync_identity =
  si_account_id :: string
  si_installation_id :: string
  si_tracking_id :: string
  si_safety_epoch :: int
  si_account_profile_sha256 :: string
  si_account_fingerprint_sha256 :: string
  si_tracking_boundary_sha256 :: string

record request_meta =
  rm_identity :: sync_identity
  rm_request_sequence :: int
  rm_body_sha256 :: string
  rm_event_sequences :: "int list"
  rm_fresh :: bool

record accepted_state =
  as_identity :: sync_identity
  as_last_request_sequence :: int
  as_last_event_sequence :: int

record receipt_meta =
  rt_identity :: sync_identity
  rt_request_sequence :: int
  rt_request_body_sha256 :: string
  rt_response_bytes :: string

datatype reject_code =
    Reject_IDENTITY_MISMATCH | Reject_RECEIPT_INVALID | Reject_REPLAY_CONFLICT | Reject_RECEIPT_MISSING
  | Reject_SEQUENCE_INVALID | Reject_STALE_ENVELOPE | Reject_EVENT_SEQUENCE_INVALID

datatype admission = NEW int | REPLAY string | REJECT reject_code

definition request_meta_invalid :: js_error where "request_meta_invalid = Error ''TELEMETRY_REQUEST_META_INVALID''"

definition RECEIPT_RESPONSE_MAX_LENGTH :: nat where "RECEIPT_RESPONSE_MAX_LENGTH = 131072"

definition identity_json :: "sync_identity \<Rightarrow> json" where
  "identity_json i = JObj
     [(''account_id'', JStr (si_account_id i)), (''installation_id'', JStr (si_installation_id i)), (''tracking_id'', JStr (si_tracking_id i)),
      (''safety_epoch'', JNum (si_safety_epoch i)), (''account_profile_sha256'', JStr (si_account_profile_sha256 i)),
      (''account_fingerprint_sha256'', JStr (si_account_fingerprint_sha256 i)), (''tracking_boundary_sha256'', JStr (si_tracking_boundary_sha256 i))]"

definition identityKey :: "sync_identity \<Rightarrow> string result" where
  "identityKey i =
     and_then (readIdentifierV2 (si_account_id i)) (\<lambda>_.
     and_then (readIdentifierV2 (si_installation_id i)) (\<lambda>_.
     and_then (readIdentifierV2 (si_tracking_id i)) (\<lambda>_.
     and_then (readCounterV2 (si_safety_epoch i) 0) (\<lambda>_.
     and_then (readDigestV2 (si_account_profile_sha256 i)) (\<lambda>_.
     and_then (readDigestV2 (si_account_fingerprint_sha256 i)) (\<lambda>_.
     and_then (readDigestV2 (si_tracking_boundary_sha256 i)) (\<lambda>_. serialize (identity_json i))))))))"

definition validateRequestMeta :: "request_meta \<Rightarrow> string result" where
  "validateRequestMeta request =
     and_then (identityKey (rm_identity request)) (\<lambda>key.
     and_then (readCounterV2 (rm_request_sequence request) 1) (\<lambda>_.
     and_then (readDigestV2 (rm_body_sha256 request)) (\<lambda>_.
     if length (rm_event_sequences request) > 32 then Inl request_meta_invalid else
     and_then (all_results (map (\<lambda>n. readCounterV2 n 1) (rm_event_sequences request))) (\<lambda>_. Inr key))))"

fun admit_events :: "int \<Rightarrow> int list \<Rightarrow> int option" where
  "admit_events proposed [] = Some proposed"
| "admit_events proposed (e # es) =
     (if proposed = MAX_SAFE_INTEGER \<or> e \<noteq> proposed + 1 then None else admit_events e es)"

definition admit_receipt :: "accepted_state option \<Rightarrow> int \<Rightarrow> receipt_meta \<Rightarrow> request_meta \<Rightarrow> string \<Rightarrow> admission result" where
  "admit_receipt state lastRequest receipt request key =
     (if state = None then Inr (REJECT Reject_RECEIPT_INVALID) else
      and_then (identityKey (rt_identity receipt)) (\<lambda>receiptKey.
      if receiptKey \<noteq> key then Inr (REJECT Reject_RECEIPT_INVALID) else
      and_then (readCounterV2 (rt_request_sequence receipt) 1) (\<lambda>receiptSequence.
      if receiptSequence \<noteq> rm_request_sequence request \<or> receiptSequence > lastRequest then Inr (REJECT Reject_RECEIPT_INVALID)
      else if rt_response_bytes receipt = [] \<or> length (rt_response_bytes receipt) > RECEIPT_RESPONSE_MAX_LENGTH
        then Inr (REJECT Reject_RECEIPT_INVALID)
      else and_then (readDigestV2 (rt_request_body_sha256 receipt)) (\<lambda>digest.
        Inr (if digest \<noteq> rm_body_sha256 request then REJECT Reject_REPLAY_CONFLICT else REPLAY (rt_response_bytes receipt))))))"

definition admit_new :: "int \<Rightarrow> int \<Rightarrow> request_meta \<Rightarrow> admission" where
  "admit_new lastRequest lastEvent request =
     (if rm_request_sequence request \<le> lastRequest then REJECT Reject_RECEIPT_MISSING
      else if lastRequest = MAX_SAFE_INTEGER \<or> rm_request_sequence request \<noteq> lastRequest + 1 then REJECT Reject_SEQUENCE_INVALID
      else if \<not> rm_fresh request then REJECT Reject_STALE_ENVELOPE
      else case admit_events lastEvent (rm_event_sequences request) of
          None \<Rightarrow> REJECT Reject_EVENT_SEQUENCE_INVALID
        | Some n \<Rightarrow> NEW n)"

definition decideAdmissionV2 :: "accepted_state option \<Rightarrow> receipt_meta option \<Rightarrow> request_meta \<Rightarrow> admission result" where
  "decideAdmissionV2 state receipt request =
     and_then (validateRequestMeta request) (\<lambda>key.
     and_then (case state of None \<Rightarrow> Inr 0 | Some s \<Rightarrow> readCounterV2 (as_last_request_sequence s) 1) (\<lambda>lastRequest.
     and_then (case state of None \<Rightarrow> Inr 0 | Some s \<Rightarrow> readCounterV2 (as_last_event_sequence s) 0) (\<lambda>lastEvent.
     and_then (case state of None \<Rightarrow> Inr True | Some s \<Rightarrow> and_then (identityKey (as_identity s)) (\<lambda>k. Inr (k = key))) (\<lambda>same.
     if \<not> same then Inr (REJECT Reject_IDENTITY_MISMATCH)
     else case receipt of
         Some r \<Rightarrow> admit_receipt state lastRequest r request key
       | None \<Rightarrow> Inr (admit_new lastRequest lastEvent request)))))"

section \<open>Boundaries\<close>

definition id_ok :: "string \<Rightarrow> bool" where
  "id_ok s \<longleftrightarrow> 1 \<le> length s \<and> length s \<le> 160 \<and> list_all telemetry_id_char s"

definition digest_ok :: "string \<Rightarrow> bool" where
  "digest_ok s \<longleftrightarrow> is_sha256 s \<and> \<not> list_all (\<lambda>c. c = CHR ''0'') s"

definition ticket_ok :: "string \<Rightarrow> bool" where
  "ticket_ok s \<longleftrightarrow> whole_part s \<and> length s \<le> 20 \<and> int (digits_value s) \<le> UINT64_MAX"

definition exclusions_ok :: "string list \<Rightarrow> bool" where
  "exclusions_ok ts \<longleftrightarrow> length ts \<le> 1024 \<and> distinct ts \<and> list_all ticket_ok ts"

definition boundary_ok :: "tracking_boundary \<Rightarrow> bool" where
  "boundary_ok b \<longleftrightarrow> 1 \<le> tb_started_at_broker_msc b \<and> tb_started_at_broker_msc b \<le> MAX_SAFE_INTEGER - 1000 \<and>
     tb_started_at_broker_msc b mod 1000 = 0 \<and> 1 \<le> tb_initialized_at_utc_seconds b \<and>
     tb_initialized_at_utc_seconds b \<le> MAX_SAFE_INTEGER \<and> id_ok (tb_tracking_id b) \<and>
     digest_ok (tb_account_fingerprint_sha256 b) \<and> exclusions_ok (tb_excluded_boundary_deal_ids b)"

lemma read_values:
  "readCounterV2 n m = Inr k \<longleftrightarrow> k = n \<and> is_safe_integer n \<and> m \<le> n"
  "readIdentifierV2 s = Inr t \<longleftrightarrow> t = s \<and> id_ok s"
  "readDigestV2 s = Inr t \<longleftrightarrow> t = s \<and> digest_ok s"
  "readTicketV2 s = Inr t \<longleftrightarrow> t = s \<and> ticket_ok s"
  by (auto simp: readCounterV2_def readIdentifierV2_def readDigestV2_def readTicketV2_def id_ok_def digest_ok_def ticket_ok_def)

lemma copy_exclusions_Inr:
  "copy_exclusions copied ts = Inr us \<longleftrightarrow>
     us = copied @ ts \<and> distinct ts \<and> set ts \<inter> set copied = {} \<and> list_all ticket_ok ts"
proof (induction ts arbitrary: copied)
  case (Cons t ts)
  then show ?case by (auto simp: and_then_Inr_iff read_values(4))
qed auto

lemma makeBoundaryV2_Inr:
  "makeBoundaryV2 b = Inr c \<longleftrightarrow> boundary_ok b \<and>
     c = b\<lparr>tb_excluded_boundary_deal_ids := js_sort compare_units (tb_excluded_boundary_deal_ids b)\<rparr>"
proof -
  have "makeBoundaryV2 b = Inr c \<longleftrightarrow> boundary_ok b \<and>
      \<lparr>tb_tracking_id = tb_tracking_id b, tb_account_fingerprint_sha256 = tb_account_fingerprint_sha256 b,
       tb_started_at_broker_msc = tb_started_at_broker_msc b, tb_initialized_at_utc_seconds = tb_initialized_at_utc_seconds b,
       tb_excluded_boundary_deal_ids = js_sort compare_units (tb_excluded_boundary_deal_ids b)\<rparr> = c"
    unfolding makeBoundaryV2_def boundary_ok_def exclusions_ok_def
    by (auto simp: and_then_Inr_iff read_values copy_exclusions_Inr is_safe_integer_def MAX_SAFE_INTEGER_def)
  then show ?thesis by (cases b) auto
qed

lemma sort_boundary:
  "sort_keys (boundary_json b) = JObj
     [(''account_fingerprint_sha256'', JStr (tb_account_fingerprint_sha256 b)),
      (''excluded_boundary_deal_ids'', JArr (map JStr (tb_excluded_boundary_deal_ids b))),
      (''initialized_at_utc_seconds'', JNum (tb_initialized_at_utc_seconds b)),
      (''started_at_broker_msc'', JNum (tb_started_at_broker_msc b)), (''tracking_id'', JStr (tb_tracking_id b))]"
  by (simp add: boundary_json_def key_order_def code_unit_def)

lemma boundary_json_inject: "sort_keys (boundary_json a) = sort_keys (boundary_json b) \<longleftrightarrow> a = b"
proof -
  have "map JStr xs = map JStr ys \<longleftrightarrow> xs = ys" for xs ys by (simp add: inj_map_eq_map inj_def)
  then show ?thesis unfolding sort_boundary by (cases a; cases b) auto
qed

lemma serialize_boundary:
  "boundary_ok b \<Longrightarrow> serialize (boundary_json (b\<lparr>tb_excluded_boundary_deal_ids := ts\<rparr>)) =
     Inr (canonicalStringify (boundary_json (b\<lparr>tb_excluded_boundary_deal_ids := ts\<rparr>)))"
  by (simp add: serialize_eq boundary_json_def boundary_ok_def is_safe_integer_def MAX_SAFE_INTEGER_def list_all_iff)

lemma sorted_exclusions:
  "distinct ts \<Longrightarrow> distinct us \<Longrightarrow> js_sort compare_units ts = js_sort compare_units us \<longleftrightarrow> set ts = set us"
  by (metis set_js_sort units.sort_cong set_eq_iff_mset_eq_distinct subset_UNIV)

text \<open>
  Two boundaries are the same exactly when both are valid and they agree on the account, the tracking
  session and both instants, and exclude the same set of deals: the order in which the deals were listed
  does not matter, and nothing else may differ.
\<close>

theorem same_boundary_iff:
  "sameBoundaryV2 left right = Inr True \<longleftrightarrow> boundary_ok left \<and> boundary_ok right \<and>
     tb_tracking_id left = tb_tracking_id right \<and>
     tb_account_fingerprint_sha256 left = tb_account_fingerprint_sha256 right \<and>
     tb_started_at_broker_msc left = tb_started_at_broker_msc right \<and>
     tb_initialized_at_utc_seconds left = tb_initialized_at_utc_seconds right \<and>
     set (tb_excluded_boundary_deal_ids left) = set (tb_excluded_boundary_deal_ids right)"
proof (cases "boundary_ok left \<and> boundary_ok right")
  case True
  then have "distinct (tb_excluded_boundary_deal_ids left)" "distinct (tb_excluded_boundary_deal_ids right)"
    by (simp_all add: boundary_ok_def exclusions_ok_def)
  note same = sorted_exclusions[OF this]
  let ?sorted = "\<lambda>b. b\<lparr>tb_excluded_boundary_deal_ids := js_sort compare_units (tb_excluded_boundary_deal_ids b)\<rparr>"
  have "sameBoundaryV2 left right = Inr True \<longleftrightarrow> ?sorted left = ?sorted right"
    using True makeBoundaryV2_Inr[of left "?sorted left"] makeBoundaryV2_Inr[of right "?sorted right"] unfolding sameBoundaryV2_def
    by (simp add: serialize_boundary canonicalStringify_inject boundary_json_inject)
  also have "\<dots> \<longleftrightarrow> tb_tracking_id left = tb_tracking_id right \<and>
     tb_account_fingerprint_sha256 left = tb_account_fingerprint_sha256 right \<and>
     tb_started_at_broker_msc left = tb_started_at_broker_msc right \<and>
     tb_initialized_at_utc_seconds left = tb_initialized_at_utc_seconds right \<and>
     set (tb_excluded_boundary_deal_ids left) = set (tb_excluded_boundary_deal_ids right)"
    by (cases left; cases right) (use same in auto)
  finally show ?thesis using True by blast
next
  case False
  then show ?thesis by (auto simp: sameBoundaryV2_def and_then_Inr_iff makeBoundaryV2_Inr)
qed

section \<open>Admitted sessions\<close>

definition identity_ok :: "sync_identity \<Rightarrow> bool" where
  "identity_ok i \<longleftrightarrow> id_ok (si_account_id i) \<and> id_ok (si_installation_id i) \<and> id_ok (si_tracking_id i) \<and>
     is_safe_integer (si_safety_epoch i) \<and> 0 \<le> si_safety_epoch i \<and> digest_ok (si_account_profile_sha256 i) \<and>
     digest_ok (si_account_fingerprint_sha256 i) \<and> digest_ok (si_tracking_boundary_sha256 i)"

lemma identityKey_Inr: "identityKey i = Inr k \<longleftrightarrow> identity_ok i \<and> k = canonicalStringify (identity_json i)"
proof -
  have "safe_numbers (identity_json i) \<longleftrightarrow> is_safe_integer (si_safety_epoch i)" by (simp add: identity_json_def)
  then show ?thesis unfolding identityKey_def serialize_eq identity_ok_def by (auto simp: and_then_Inr_iff read_values)
qed

lemma sort_identity:
  "sort_keys (identity_json i) = JObj
     [(''account_fingerprint_sha256'', JStr (si_account_fingerprint_sha256 i)), (''account_id'', JStr (si_account_id i)),
      (''account_profile_sha256'', JStr (si_account_profile_sha256 i)), (''installation_id'', JStr (si_installation_id i)),
      (''safety_epoch'', JNum (si_safety_epoch i)), (''tracking_boundary_sha256'', JStr (si_tracking_boundary_sha256 i)),
      (''tracking_id'', JStr (si_tracking_id i))]"
  by (simp add: identity_json_def key_order_def code_unit_def)

lemma identity_key_inject: "canonicalStringify (identity_json i) = canonicalStringify (identity_json j) \<longleftrightarrow> i = j"
  unfolding canonicalStringify_inject sort_identity by (cases i; cases j) auto

lemma admit_events_Some:
  "admit_events m es = Some n \<Longrightarrow> es = [m + 1..n] \<and> m \<le> n"
proof (induction es arbitrary: m)
  case (Cons e es)
  then have e: "e = m + 1" "admit_events e es = Some n" by (auto split: if_split_asm)
  with Cons.IH[of e] have "es = [e + 1..n]" "e \<le> n" by simp_all
  with e show ?case by (simp add: upto_rec1)
qed simp

lemma admit_receipt_not_new: "admit_receipt s l r q k \<noteq> Inr (NEW n)"
  by (auto simp: admit_receipt_def and_then_Inr_iff split: if_splits)

text \<open>The state a committed request leaves, and the last sequences of a state.\<close>

definition committed_state :: "request_meta \<Rightarrow> int \<Rightarrow> accepted_state" where
  "committed_state request ack = \<lparr>as_identity = rm_identity request, as_last_request_sequence = rm_request_sequence request,
     as_last_event_sequence = ack\<rparr>"

definition last_request :: "accepted_state option \<Rightarrow> int" where
  "last_request s = (case s of None \<Rightarrow> 0 | Some a \<Rightarrow> as_last_request_sequence a)"

definition last_event :: "accepted_state option \<Rightarrow> int" where
  "last_event s = (case s of None \<Rightarrow> 0 | Some a \<Rightarrow> as_last_event_sequence a)"

inductive admission_step :: "accepted_state option \<Rightarrow> request_meta \<Rightarrow> accepted_state option \<Rightarrow> bool" where
  commit: "decideAdmissionV2 s receipt request = Inr (NEW ack) \<Longrightarrow> admission_step s request (Some (committed_state request ack))"

inductive_cases admission_stepE: "admission_step s request t"

lemma decide_new:
  assumes "decideAdmissionV2 s receipt request = Inr (NEW ack)"
  shows "rm_request_sequence request = last_request s + 1" "rm_event_sequences request = [last_event s + 1..ack]"
    "last_event s \<le> ack" "s \<noteq> None \<Longrightarrow> rm_identity request = as_identity (the s)" "rm_fresh request" "receipt = None"
proof -
  from assms have r: "receipt = None"
    by (auto simp: decideAdmissionV2_def and_then_Inr_iff admit_receipt_not_new split: option.split_asm if_split_asm)
  with assms have n: "admit_new (last_request s) (last_event s) request = NEW ack" and i: "s \<noteq> None \<Longrightarrow> rm_identity request = as_identity (the s)"
    by (auto simp: decideAdmissionV2_def validateRequestMeta_def and_then_Inr_iff read_values(1) identityKey_Inr identity_key_inject
        last_request_def last_event_def split: option.split_asm if_split_asm)
  show "receipt = None" "s \<noteq> None \<Longrightarrow> rm_identity request = as_identity (the s)" by (fact r) (fact i)
  from n have "rm_request_sequence request = last_request s + 1 \<and> rm_fresh request \<and>
      admit_events (last_event s) (rm_event_sequences request) = Some ack"
    by (auto simp: admit_new_def split: option.split_asm if_split_asm)
  then show "rm_request_sequence request = last_request s + 1" "rm_event_sequences request = [last_event s + 1..ack]"
    "last_event s \<le> ack" "rm_fresh request" using admit_events_Some by blast+
qed

lemma admitted_run:
  "run admission_step s requests t \<Longrightarrow>
     map rm_request_sequence requests = [last_request s + 1..last_request t] \<and> last_request s \<le> last_request t \<and>
     concat (map rm_event_sequences requests) = [last_event s + 1..last_event t] \<and> last_event s \<le> last_event t \<and>
     list_all (\<lambda>r. \<forall>a. t = Some a \<longrightarrow> rm_identity r = as_identity a) requests \<and>
     (\<forall>a b. s = Some a \<longrightarrow> t = Some b \<longrightarrow> as_identity a = as_identity b)"
proof (induction rule: run.induct)
  case (run_Cons s request m requests t)
  from run_Cons(1) obtain receipt ack where d: "decideAdmissionV2 s receipt request = Inr (NEW ack)"
    and m: "m = Some (committed_state request ack)" by (auto elim: admission_stepE)
  note n = decide_new[OF d]
  have l: "last_request m = last_request s + 1" "last_event m = ack"
    using n(1) by (simp_all add: m last_request_def last_event_def committed_state_def)
  have req: "[last_request s + 1..last_request t] = (last_request s + 1) # [last_request m + 1..last_request t]"
    using run_Cons.IH l by (simp add: upto_rec1)
  have ev: "[last_event s + 1..last_event t] = [last_event s + 1..ack] @ [last_event m + 1..last_event t]"
    using run_Cons.IH l n(3) upto_split2[of "last_event s + 1" ack "last_event t"] by (cases "last_event s = ack") simp_all
  show ?case using run_Cons.IH n l unfolding req ev by (auto simp: m committed_state_def)
qed auto

text \<open>
  C29. Admission keeps the session gapless. When every request that is admitted as new is committed as it
  was admitted, starting with no session, the request sequences are 1, 2, 3 and so on, the journal
  events of all requests together are numbered from 1 without a gap or a duplicate up to the
  acknowledged event, and all requests carry one identity.
\<close>

theorem admitted_session_is_gapless:
  assumes "run admission_step None requests (Some state)"
  shows "map rm_request_sequence requests = [1..as_last_request_sequence state] \<and>
     concat (map rm_event_sequences requests) = [1..as_last_event_sequence state] \<and>
     list_all (\<lambda>r. rm_identity r = as_identity state) requests"
  using admitted_run[OF assms] by (simp add: last_request_def last_event_def)

definition sample_sync_identity :: sync_identity where
  "sample_sync_identity = \<lparr>si_account_id = ''acct-1'', si_installation_id = ''inst-1'', si_tracking_id = ''track-1'', si_safety_epoch = 0,
     si_account_profile_sha256 = replicate 64 CHR ''a'', si_account_fingerprint_sha256 = replicate 64 CHR ''b'',
     si_tracking_boundary_sha256 = replicate 64 CHR ''c''\<rparr>"

definition sample_meta :: "int \<Rightarrow> int list \<Rightarrow> request_meta" where
  "sample_meta n es = \<lparr>rm_identity = sample_sync_identity, rm_request_sequence = n, rm_body_sha256 = replicate 64 CHR ''d'',
     rm_event_sequences = es, rm_fresh = True\<rparr>"

lemma sample_decisions:
  "decideAdmissionV2 None None (sample_meta 1 [1, 2]) = Inr (NEW 2)"
  "decideAdmissionV2 (Some (committed_state (sample_meta 1 [1, 2]) 2)) None (sample_meta 2 [3]) = Inr (NEW 3)"
  by code_simp+

theorem admitted_session_is_gapless_witness:
  "run admission_step None [sample_meta 1 [1, 2], sample_meta 2 [3]] (Some (committed_state (sample_meta 2 [3]) 3)) \<and>
   concat (map rm_event_sequences [sample_meta 1 [1, 2], sample_meta 2 [3]]) = [1..3]"
proof -
  have r: "run admission_step None [sample_meta 1 [1, 2], sample_meta 2 [3]] (Some (committed_state (sample_meta 2 [3]) 3))"
    by (rule run_Cons run_Nil admission_step.commit sample_decisions)+
  from admitted_session_is_gapless[OF r] r show ?thesis by (simp add: committed_state_def)
qed

end
