(* ===== verification/Telemetry_Journal.thy ===== *)
theory Telemetry_Journal
  imports Telemetry
begin

text \<open>
  The journal entry of a broker deal (\<open>telemetry-journal-projection-v2.ts\<close>) over the values that the wire
  readers of \<open>telemetry-wire-v2.ts\<close> return. The property is that the net result of an entry is the exact
  sum of the four amounts the broker reported, and is missing exactly when one of them is missing.
\<close>

section \<open>Values of the wire\<close>

datatype reading_reason = READ_FAILED | NOT_APPLICABLE | NOT_SET | UNAVAILABLE

record money_reading =
  mr_value :: "fixed_decimal option"
  mr_reason :: "reading_reason option"

datatype position_side = Side_BUY | Side_SELL

record wire_position =
  wp_ticket :: string
  wp_position_id :: string
  wp_symbol :: string
  wp_side :: position_side
  wp_volume :: fixed_decimal
  wp_entry_price :: money_reading
  wp_current_price :: money_reading
  wp_sl :: money_reading
  wp_tp :: money_reading
  wp_floating_profit :: money_reading
  wp_swap :: money_reading

datatype order_type = BUY_LIMIT | SELL_LIMIT | BUY_STOP | SELL_STOP | BUY_STOP_LIMIT | SELL_STOP_LIMIT

datatype order_state = Order_STARTED | Order_PLACED | Order_PARTIAL | REQUEST_ADD | REQUEST_MODIFY | REQUEST_CANCEL | Order_UNKNOWN

record wire_order =
  wo_ticket :: string
  wo_symbol :: string
  wo_type :: order_type
  wo_state :: order_state
  wo_volume_initial :: fixed_decimal
  wo_volume_current :: fixed_decimal
  wo_price :: money_reading
  wo_stop_limit_price :: money_reading
  wo_sl :: money_reading
  wo_tp :: money_reading

datatype exposure_status = Exposure_COMPLETE | Exposure_CAPTURE_FAILED | LIMIT_EXCEEDED

record wire_exposure =
  we_status :: exposure_status
  we_observed_at_utc_seconds :: int
  we_observed_at_broker_msc :: int
  we_position_count :: "int option"
  we_order_count :: "int option"
  we_positions :: "wire_position list"
  we_orders :: "wire_order list"

datatype account_mode = Mode_DEMO | Mode_REAL | Mode_CONTEST | Mode_UNKNOWN

datatype margin_mode = RETAIL_NETTING | Margin_EXCHANGE | RETAIL_HEDGING | Margin_UNKNOWN

record wire_display =
  wd_company :: string
  wd_server :: string
  wd_login_last4 :: string
  wd_currency :: string
  wd_currency_scale :: int
  wd_account_mode :: account_mode
  wd_margin_mode :: margin_mode

record wire_registration =
  wr_boundary :: tracking_boundary
  wr_display :: wire_display
  wr_baseline :: wire_exposure

datatype deal_type =
    Deal_BUY | Deal_SELL | BUY_CANCELED | SELL_CANCELED | Deal_BALANCE | Deal_CREDIT | Deal_CHARGE | Deal_CORRECTION | Deal_BONUS
  | Deal_COMMISSION | COMMISSION_DAILY | COMMISSION_MONTHLY | COMMISSION_AGENT_DAILY | COMMISSION_AGENT_MONTHLY
  | Deal_INTEREST | Deal_DIVIDEND | DIVIDEND_FRANKED | Deal_TAX

datatype deal_entry = Entry_IN | Entry_OUT | Entry_INOUT | OUT_BY | Entry_NONE

datatype deal_reason =
    Reason_CLIENT | Reason_MOBILE | Reason_WEB | Reason_EXPERT | Reason_SL | Reason_TP | Reason_SO
  | Reason_ROLLOVER | Reason_VMARGIN | Reason_SPLIT | CORPORATE_ACTION | Reason_UNKNOWN

datatype protection_source = BROKER_DEAL | Protection_UNAVAILABLE

record reversal_split =
  sp_closing_volume :: fixed_decimal
  sp_opening_volume :: fixed_decimal

record wire_deal =
  dl_deal_id :: string
  dl_revision :: int
  dl_previous_record_sha256 :: "string option"
  dl_broker_time_msc :: int
  dl_type :: deal_type
  dl_entry :: deal_entry
  dl_order_id :: "string option"
  dl_position_id :: "string option"
  dl_symbol :: "string option"
  dl_volume :: "fixed_decimal option"
  dl_price :: money_reading
  dl_profit :: money_reading
  dl_commission :: money_reading
  dl_swap :: money_reading
  dl_fee :: money_reading
  dl_reason :: deal_reason
  dl_sl :: money_reading
  dl_tp :: money_reading
  dl_protection_source :: protection_source
  dl_reversal_split :: "reversal_split option"

section \<open>The projection\<close>

datatype journal_category = TRADE_DEAL | ACCOUNT_ACTIVITY

datatype result_reason = MISSING_BROKER_AMOUNT

datatype opening_origin = MANUAL | EA_OR_SCRIPT | Origin_UNKNOWN

datatype portion_reason = REVERSAL_SPLIT_UNKNOWN | RECONSTRUCTED_NOT_BROKER_ATTESTED

datatype portion_cost_allocation = SINGLE_PORTION | Portion_UNKNOWN

text \<open>The fields with one constant value (\<open>lifetime_complete\<close>, \<open>initial_risk\<close>, \<open>strategy\<close>) are left out.\<close>

record journal_contribution =
  jc_category :: journal_category
  jc_position_id :: "string option"
  jc_broker_type :: deal_type
  jc_entry :: deal_entry
  jc_cancelled :: bool
  jc_gross_recorded :: money_reading
  jc_commission :: money_reading
  jc_swap :: money_reading
  jc_fee :: money_reading
  jc_net_recorded :: "fixed_decimal option"
  jc_result_reason :: "result_reason option"
  jc_opened_before_tracking :: bool
  jc_opening_origin :: opening_origin
  jc_exit_reason :: "deal_reason option"
  jc_opening_volume :: "fixed_decimal option"
  jc_closing_volume :: "fixed_decimal option"
  jc_portion_reason :: "portion_reason option"
  jc_portion_cost_allocation :: portion_cost_allocation
  jc_sl :: money_reading
  jc_tp :: money_reading
  jc_protection_source :: protection_source

definition tradingTypes :: "deal_type list" where
  "tradingTypes = [Deal_BUY, Deal_SELL, BUY_CANCELED, SELL_CANCELED]"

definition cancelledTypes :: "deal_type list" where
  "cancelledTypes = [BUY_CANCELED, SELL_CANCELED]"

definition manualReasons :: "deal_reason list" where
  "manualReasons = [Reason_CLIENT, Reason_MOBILE, Reason_WEB]"

fun known_values :: "money_reading list \<Rightarrow> fixed_decimal list option" where
  "known_values [] = Some []"
| "known_values (r # rs) = (case mr_value r of None \<Rightarrow> None | Some v \<Rightarrow> map_option (Cons v) (known_values rs))"

definition recordedNet :: "money_reading list \<Rightarrow> int \<Rightarrow> fixed_decimal option result" where
  "recordedNet values scale = (case known_values values of
       None \<Rightarrow> Inr None
     | Some vs \<Rightarrow> and_then (sumFixedV2 vs scale) (\<lambda>s. Inr (Some s)))"

text \<open>The entry of a deal with the given net result, and the projection.\<close>

definition journal_entry :: "wire_deal \<Rightarrow> wire_registration \<Rightarrow> fixed_decimal option \<Rightarrow> journal_contribution" where
  "journal_entry deal registration netRecorded =
     (let trading = dl_type deal \<in> set tradingTypes;
          split = dl_reversal_split deal;
          isInOut = (dl_entry deal = Entry_INOUT);
          openedBeforeTracking = (dl_position_id deal \<noteq> None \<and>
            list_ex (\<lambda>p. Some (wp_position_id p) = dl_position_id deal) (we_positions (wr_baseline registration)));
          openingOrigin = (if \<not> trading \<or> dl_entry deal \<noteq> Entry_IN then Origin_UNKNOWN
            else if dl_reason deal \<in> set manualReasons then MANUAL
            else if dl_reason deal = Reason_EXPERT then EA_OR_SCRIPT else Origin_UNKNOWN);
          openingVolume = (if \<not> trading then None
            else if dl_entry deal = Entry_IN then dl_volume deal
            else if isInOut then map_option sp_opening_volume split else None);
          closingVolume = (if \<not> trading then None
            else if dl_entry deal = Entry_OUT \<or> dl_entry deal = OUT_BY then dl_volume deal
            else if isInOut then map_option sp_closing_volume split else None);
          portionReason = (if \<not> isInOut then None
            else if split = None then Some REVERSAL_SPLIT_UNKNOWN else Some RECONSTRUCTED_NOT_BROKER_ATTESTED) in
        \<lparr>jc_category = (if trading then TRADE_DEAL else ACCOUNT_ACTIVITY), jc_position_id = dl_position_id deal,
          jc_broker_type = dl_type deal, jc_entry = dl_entry deal, jc_cancelled = (dl_type deal \<in> set cancelledTypes),
          jc_gross_recorded = dl_profit deal, jc_commission = dl_commission deal, jc_swap = dl_swap deal, jc_fee = dl_fee deal,
          jc_net_recorded = netRecorded,
          jc_result_reason = (if netRecorded = None then Some MISSING_BROKER_AMOUNT else None),
          jc_opened_before_tracking = openedBeforeTracking, jc_opening_origin = openingOrigin,
          jc_exit_reason = (if trading \<and> (dl_entry deal = Entry_OUT \<or> dl_entry deal = OUT_BY \<or> isInOut) then Some (dl_reason deal) else None),
          jc_opening_volume = openingVolume, jc_closing_volume = closingVolume, jc_portion_reason = portionReason,
          jc_portion_cost_allocation = (if isInOut then Portion_UNKNOWN else SINGLE_PORTION),
          jc_sl = dl_sl deal, jc_tp = dl_tp deal, jc_protection_source = dl_protection_source deal\<rparr>)"

definition projectDealV2 :: "wire_deal \<Rightarrow> wire_registration \<Rightarrow> journal_contribution result" where
  "projectDealV2 deal registration =
     and_then (recordedNet [dl_profit deal, dl_commission deal, dl_swap deal, dl_fee deal] (wd_currency_scale (wr_display registration)))
       (\<lambda>netRecorded. Inr (journal_entry deal registration netRecorded))"

section \<open>The net result\<close>

definition deal_amounts :: "wire_deal \<Rightarrow> money_reading list" where
  "deal_amounts deal = [dl_profit deal, dl_commission deal, dl_swap deal, dl_fee deal]"

lemma known_values_Some: "known_values rs = Some vs \<longleftrightarrow> map mr_value rs = map Some vs"
proof (induction rs arbitrary: vs)
  case (Cons r rs)
  then show ?case by (cases vs) (auto split: option.split)
qed auto

lemma projected_net:
  "(\<exists>j. projectDealV2 deal registration = Inr j \<and> jc_net_recorded j = n) \<longleftrightarrow>
     recordedNet (deal_amounts deal) (wd_currency_scale (wr_display registration)) = Inr n"
proof -
  have "jc_net_recorded (journal_entry deal registration k) = k" for k by (simp add: journal_entry_def Let_def)
  then show ?thesis unfolding projectDealV2_def deal_amounts_def and_then_Inr_iff by fastforce
qed

lemma projected_net_missing:
  "(\<exists>j. projectDealV2 deal registration = Inr j \<and> jc_net_recorded j = None) \<longleftrightarrow> (\<exists>r\<in>set (deal_amounts deal). mr_value r = None)"
proof -
  have "known_values rs = None \<longleftrightarrow> (\<exists>r\<in>set rs. mr_value r = None)" for rs by (induction rs) (auto split: option.split)
  note missing = this[of "deal_amounts deal", symmetric]
  show ?thesis unfolding projected_net recordedNet_def missing
    by (cases "known_values (deal_amounts deal)") (auto simp: and_then_Inr_iff)
qed

text \<open>
  C30. Journal results are exact. A deal is entered with a net result exactly when the broker reported all
  four of its amounts as decimals at the scale of the account currency and their sum has at most 18
  whole digits; the net result is then the spelling of the exact sum.
\<close>

theorem journal_net_is_exact_sum:
  "(\<exists>j. projectDealV2 deal registration = Inr j \<and> jc_net_recorded j = Some net) \<longleftrightarrow>
     (let scale = wd_currency_scale (wr_display registration); spelled = (\<lambda>u. \<lparr>fx_value = fixed_text (nat scale) u, fx_scale = scale\<rparr>) in
      validScale scale \<and> (\<exists>us. map mr_value (deal_amounts deal) = map (\<lambda>u. Some (spelled u)) us \<and>
        list_all (in_range (nat scale)) us \<and> in_range (nat scale) (sum_list us) \<and> net = spelled (sum_list us)))"
proof -
  have net: "recordedNet rs scale = Inr (Some net) \<longleftrightarrow> (\<exists>vs. map mr_value rs = map Some vs \<and> sumFixedV2 vs scale = Inr net)" for rs scale
    unfolding recordedNet_def known_values_Some[symmetric] by (cases "known_values rs") (auto simp: and_then_Inr_iff)
  have some: "map (\<lambda>u. Some (f u)) us = map Some (map f us)" for f :: "int \<Rightarrow> fixed_decimal" and us by simp
  show ?thesis unfolding projected_net Let_def net sumFixedV2_Inr some by blast
qed

end
