(* ===== verification/Signal_Wire.thy ===== *)
theory Signal_Wire
  imports Agent_Sync
begin

text \<open>
  The wire of the signal path: the request of a producer (\<open>signal-admission-wire-v1.ts\<close>) and the
  registration it is checked against (\<open>signal-admission-registration-v1.ts\<close>). Both are read from bytes with
  the strict reader, so texts are lists of UTF-16 code units and number tokens keep their spelling. A
  reader that throws is \<open>None\<close>. The property is what authentication of a request demands.
\<close>

section \<open>Text of code units\<close>

text \<open>\<open>TextEncoder\<close> on UTF-16: surrogate pairs are joined, a lone surrogate becomes U+FFFD.\<close>

definition utf8_point :: "nat \<Rightarrow> nat list" where
  "utf8_point p =
     (if p < 0x80 then [p]
      else if p < 0x800 then [0xC0 + p div 64, 0x80 + p mod 64]
      else if p < 0x10000 then [0xE0 + p div 4096, 0x80 + p div 64 mod 64, 0x80 + p mod 64]
      else [0xF0 + p div 262144, 0x80 + p div 4096 mod 64, 0x80 + p div 64 mod 64, 0x80 + p mod 64])"

definition REPLACEMENT :: "nat list" where "REPLACEMENT = [0xEF, 0xBF, 0xBD]"

fun encode_units :: "units \<Rightarrow> nat list" where
  "encode_units [] = []"
| "encode_units [u] = (if high_surrogate u \<or> low_surrogate u then REPLACEMENT else utf8_point u)"
| "encode_units (u # v # us) =
     (if high_surrogate u \<and> low_surrogate v
      then utf8_point (0x10000 + (u - 0xD800) * 0x400 + (v - 0xDC00)) @ encode_units us
      else (if high_surrogate u \<or> low_surrogate u then REPLACEMENT else utf8_point u) @ encode_units (v # us))"

text \<open>\<open>JSON.stringify\<close> of a string of code units; a lone surrogate is escaped.\<close>

definition hex_unit_digits :: "nat \<Rightarrow> units" where
  "hex_unit_digits u = units_of (map hex_digit [u div 4096, u div 256 mod 16, u div 16 mod 16, u mod 16])"

definition escape_unit :: "nat \<Rightarrow> units" where
  "escape_unit u =
     (if u = 34 then [92, 34] else if u = 92 then [92, 92] else if u = 8 then [92, 98] else if u = 12 then [92, 102]
      else if u = 10 then [92, 110] else if u = 13 then [92, 114] else if u = 9 then [92, 116]
      else if u < 32 then [92, 117] @ hex_unit_digits u else [u])"

fun escape_units :: "units \<Rightarrow> units" where
  "escape_units [] = []"
| "escape_units [u] = (if high_surrogate u \<or> low_surrogate u then [92, 117] @ hex_unit_digits u else escape_unit u)"
| "escape_units (u # v # us) =
     (if high_surrogate u \<and> low_surrogate v then [u, v] @ escape_units us
      else (if high_surrogate u \<or> low_surrogate u then [92, 117] @ hex_unit_digits u else escape_unit u) @ escape_units (v # us))"

definition quote_text :: "units \<Rightarrow> units" where
  "quote_text s = 34 # escape_units s @ [34]"

fun compare_unit_lists :: "units \<Rightarrow> units \<Rightarrow> int" where
  "compare_unit_lists [] [] = 0"
| "compare_unit_lists [] (y # ys) = -1"
| "compare_unit_lists (x # xs) [] = 1"
| "compare_unit_lists (x # xs) (y # ys) = (if x < y then -1 else if y < x then 1 else compare_unit_lists xs ys)"

fun join_units :: "nat \<Rightarrow> units list \<Rightarrow> units" where
  "join_units sep [] = []"
| "join_units sep [x] = x"
| "join_units sep (x # y # ys) = x @ sep # join_units sep (y # ys)"

text \<open>Canonical text of a strict value; a number keeps its token.\<close>

fun strict_canonical :: "strict_json \<Rightarrow> units" where
  "strict_canonical (SNum raw n) = raw"
| "strict_canonical SNull = NULL_UNITS"
| "strict_canonical (SBool b) = (if b then TRUE_UNITS else FALSE_UNITS)"
| "strict_canonical (SStr s) = quote_text s"
| "strict_canonical (SArr vs) = 91 # join_units 44 (map strict_canonical vs) @ [93]"
| "strict_canonical (SObj kvs) =
     123 # join_units 44 (map (\<lambda>(k, t). quote_text k @ 58 # t)
       (js_sort (\<lambda>p q. compare_unit_lists (fst p) (fst q)) (map (\<lambda>(k, v). (k, strict_canonical v)) kvs))) @ [125]"

definition bytes_hex :: "platform \<Rightarrow> nat list \<Rightarrow> string" where
  "bytes_hex P bytes = concat (map hex_byte (sha256 P bytes))"

section \<open>Readers\<close>

type_synonym members = "(units \<times> strict_json) list"

definition string_of_units :: "units \<Rightarrow> string" where
  "string_of_units = map char_of"

fun strict_record :: "strict_json \<Rightarrow> members option" where
  "strict_record (SObj kvs) = Some kvs"
| "strict_record _ = None"

definition strict_keys :: "members \<Rightarrow> string list \<Rightarrow> bool" where
  "strict_keys value keys \<longleftrightarrow>
     join_units 0 (js_sort compare_unit_lists (map fst value)) = join_units 0 (js_sort compare_unit_lists (map units_of keys))"

definition field_of :: "members \<Rightarrow> string \<Rightarrow> strict_json option" where
  "field_of value k = map_of value (units_of k)"

definition identifier_unit :: "nat \<Rightarrow> bool" where
  "identifier_unit u \<longleftrightarrow> 33 \<le> u \<and> u \<le> 126 \<and> u \<noteq> 92"

definition wire_identifier :: "strict_json \<Rightarrow> string option" where
  "wire_identifier v = (case v of
       SStr s \<Rightarrow> if 1 \<le> length s \<and> length s \<le> 160 \<and> list_all identifier_unit s then Some (string_of_units s) else None
     | _ \<Rightarrow> None)"

definition wire_integer :: "(int \<Rightarrow> bool) \<Rightarrow> strict_json \<Rightarrow> int option" where
  "wire_integer ok v = (case v of
       SNum raw (Some n) \<Rightarrow> if raw = units_of (js_number n) \<and> is_safe_integer n \<and> ok n then Some n else None
     | _ \<Rightarrow> None)"

definition read_field :: "members \<Rightarrow> string \<Rightarrow> (strict_json \<Rightarrow> 'a option) \<Rightarrow> 'a option" where
  "read_field value k reader = do { v \<leftarrow> field_of value k; reader v }"

definition is_text :: "members \<Rightarrow> string \<Rightarrow> string \<Rightarrow> bool" where
  "is_text value k s \<longleftrightarrow> field_of value k = Some (SStr (units_of s))"

fun canonical_tokens :: "strict_json \<Rightarrow> bool" where
  "canonical_tokens (SNum raw n) = (wire_integer (\<lambda>_. True) (SNum raw n) \<noteq> None)"
| "canonical_tokens (SArr vs) = list_all canonical_tokens vs"
| "canonical_tokens (SObj kvs) = list_all (\<lambda>kv. canonical_tokens (snd kv)) kvs"
| "canonical_tokens _ = True"

section \<open>Requests\<close>

record transport =
  tp_registration_id :: string
  tp_generation :: int
  tp_credential :: string
  tp_evidence_bytes :: "nat list"
  tp_sequence :: int
  tp_producer_instance_id :: string
  tp_strategy_id :: string
  tp_body_sha256 :: string

definition OUTER_MAX :: nat where "OUTER_MAX = 278528"
definition INNER_MAX :: nat where "INNER_MAX = 262144"
definition OUTER_KEYS :: "string list" where
  "OUTER_KEYS = [''schema_version'', ''credential'', ''registration_id'', ''generation'', ''evidence'']"

definition wire_credential :: "strict_json \<Rightarrow> string option" where
  "wire_credential v = (case v of
       SStr s \<Rightarrow> if 1 \<le> length s \<and> length s \<le> 1024 \<and> list_all (\<lambda>u. 32 \<le> u \<and> u \<le> 126) s then Some (string_of_units s) else None
     | _ \<Rightarrow> None)"

definition parse_outer :: "nat list \<Rightarrow> members option" where
  "parse_outer bytes = do { v \<leftarrow> survives (parseStrictJson bytes); strict_record v }"

definition parseAdmissionTransport :: "platform \<Rightarrow> nat list \<Rightarrow> transport option" where
  "parseAdmissionTransport P bytes = do {
     require (\<not> (length bytes = 0 \<or> length bytes > OUTER_MAX));
     outer \<leftarrow> parse_outer bytes;
     require (strict_keys outer OUTER_KEYS);
     require (is_text outer ''schema_version'' ''TradeOpsSignalAdmissionRequestV1'');
     registrationId \<leftarrow> read_field outer ''registration_id'' wire_identifier;
     generation \<leftarrow> read_field outer ''generation'' (wire_integer (\<lambda>n. \<not> n \<le> 0));
     credential \<leftarrow> read_field outer ''credential'' wire_credential;
     evidence \<leftarrow> read_field outer ''evidence'' strict_record;
     require (canonical_tokens (SObj evidence));
     observation \<leftarrow> read_field evidence ''observation'' strict_record;
     sequence \<leftarrow> read_field observation ''producer_sequence'' (wire_integer (\<lambda>n. \<not> n \<le> 0));
     producerInstanceId \<leftarrow> read_field observation ''producer_instance_id'' wire_identifier;
     strategyId \<leftarrow> read_field observation ''strategy_id'' wire_identifier;
     let evidenceBytes = encode_units (strict_canonical (SObj evidence));
     require (\<not> (length evidenceBytes = 0 \<or> length evidenceBytes > INNER_MAX));
     generationToken \<leftarrow> field_of outer ''generation'';
     let identityBytes = encode_units (strict_canonical (SObj
       [(units_of ''registration_id'', SStr (units_of registrationId)), (units_of ''generation'', generationToken),
        (units_of ''evidence'', SObj evidence)]));
     Some \<lparr>tp_registration_id = registrationId, tp_generation = generation, tp_credential = credential,
       tp_evidence_bytes = evidenceBytes, tp_sequence = sequence, tp_producer_instance_id = producerInstanceId,
       tp_strategy_id = strategyId, tp_body_sha256 = bytes_hex P identityBytes\<rparr> }"

section \<open>Registrations\<close>

record freshness_policy =
  fr_max_event_age_seconds :: int
  fr_max_observation_age_seconds :: int
  fr_future_skew_seconds :: int
  fr_max_queue_age_seconds :: int

record registration =
  rg_registration_id :: string
  rg_generation :: int
  rg_revision :: int
  rg_scope_key :: units
  rg_producer_instance_id :: string
  rg_credential_sha256 :: string
  rg_binding :: strict_json
  rg_active_from :: int
  rg_active_until :: int
  rg_enabled :: bool
  rg_freshness :: freshness_policy

definition REGISTRATION_MAX :: nat where "REGISTRATION_MAX = 8192"
definition REGISTRATION_KEYS :: "string list" where
  "REGISTRATION_KEYS = [''schema_version'', ''registration_id'', ''generation'', ''revision'', ''scope_key'', ''producer_instance_id'',
     ''credential_sha256'', ''reviewed_binding'', ''active_from'', ''active_until'', ''enabled'', ''freshness'']"
definition BINDING_KEYS :: "string list" where
  "BINDING_KEYS = [''schema_version'', ''producer_namespace'', ''ticker_id'', ''feed'', ''symbol'', ''tick_size'', ''detector_code_hash'', ''settings_hash'']"
definition FRESHNESS_KEYS :: "string list" where
  "FRESHNESS_KEYS = [''max_event_age_seconds'', ''max_observation_age_seconds'', ''future_skew_seconds'', ''max_queue_age_seconds'']"
definition SCOPE_KEYS :: "string list" where
  "SCOPE_KEYS = [''producer_namespace'', ''strategy_id'', ''ticker_id'']"

definition decimal_text :: "string \<Rightarrow> bool" where
  "decimal_text s \<longleftrightarrow>
     (let whole = takeWhile is_digit s in
      case dropWhile is_digit s of
        [] \<Rightarrow> whole_part whole
      | c # f \<Rightarrow> c = CHR ''.'' \<and> f \<noteq> [] \<and> list_all is_digit f \<and>
          (whole = ''0'' \<and> \<not> list_all (\<lambda>d. d = CHR ''0'') f \<or> whole_part whole))"

definition canonical_tick :: "string \<Rightarrow> string" where
  "canonical_tick s =
     (if CHR ''.'' \<in> set s then
        (let t = rev (dropWhile (\<lambda>c. c = CHR ''0'') (rev s)) in if t \<noteq> [] \<and> last t = CHR ''.'' then butlast t else t)
      else s)"

definition wire_digest :: "strict_json \<Rightarrow> string option" where
  "wire_digest v = (case v of SStr s \<Rightarrow> if list_all (\<lambda>u. u < 256) s \<and> is_sha256 (string_of_units s) then Some (string_of_units s) else None | _ \<Rightarrow> None)"

fun strict_string :: "strict_json \<Rightarrow> units option" where
  "strict_string (SStr s) = Some s"
| "strict_string _ = None"

fun strict_bool :: "strict_json \<Rightarrow> bool option" where
  "strict_bool (SBool b) = Some b"
| "strict_bool _ = None"

definition read_binding :: "members \<Rightarrow> (string \<times> string) option" where
  "read_binding binding = do {
     require (strict_keys binding BINDING_KEYS);
     require (is_text binding ''schema_version'' ''TradeOpsSignalEvidenceBindingV1'');
     producerNamespace \<leftarrow> read_field binding ''producer_namespace'' wire_identifier;
     tickerId \<leftarrow> read_field binding ''ticker_id'' wire_identifier;
     read_field binding ''feed'' wire_identifier;
     read_field binding ''symbol'' wire_identifier;
     tickSize \<leftarrow> read_field binding ''tick_size'' wire_identifier;
     require (decimal_text tickSize \<and> canonical_tick tickSize = tickSize);
     detector \<leftarrow> read_field binding ''detector_code_hash'' wire_digest;
     settings \<leftarrow> read_field binding ''settings_hash'' wire_digest;
     require (detector \<noteq> zero_digest \<and> settings \<noteq> zero_digest);
     Some (producerNamespace, tickerId) }"

definition read_scope :: "units \<Rightarrow> members option" where
  "read_scope scopeKey = do {
     scope \<leftarrow> parse_outer (encode_units scopeKey);
     require (strict_keys scope SCOPE_KEYS);
     Some scope }"

definition read_freshness :: "members \<Rightarrow> freshness_policy option" where
  "read_freshness value = do {
     require (strict_keys value FRESHNESS_KEYS);
     event \<leftarrow> read_field value ''max_event_age_seconds'' (wire_integer (\<lambda>n. \<not> n \<le> 0));
     observation \<leftarrow> read_field value ''max_observation_age_seconds'' (wire_integer (\<lambda>n. \<not> n \<le> 0));
     skew \<leftarrow> read_field value ''future_skew_seconds'' (wire_integer (\<lambda>n. \<not> n < 0));
     queue \<leftarrow> read_field value ''max_queue_age_seconds'' (wire_integer (\<lambda>n. \<not> n \<le> 0));
     Some \<lparr>fr_max_event_age_seconds = event, fr_max_observation_age_seconds = observation,
       fr_future_skew_seconds = skew, fr_max_queue_age_seconds = queue\<rparr> }"

definition readRegistration :: "nat list \<Rightarrow> registration option" where
  "readRegistration bytes = do {
     require (\<not> (length bytes = 0 \<or> length bytes > REGISTRATION_MAX));
     value \<leftarrow> parse_outer bytes;
     require (strict_keys value REGISTRATION_KEYS);
     require (is_text value ''schema_version'' ''TradeOpsSignalAdmissionRegistrationV1'');
     enabled \<leftarrow> read_field value ''enabled'' strict_bool;
     binding \<leftarrow> read_field value ''reviewed_binding'' strict_record;
     bound \<leftarrow> read_binding binding;
     scopeKey \<leftarrow> read_field value ''scope_key'' strict_string;
     scope \<leftarrow> read_scope scopeKey;
     producerNamespace \<leftarrow> read_field scope ''producer_namespace'' wire_identifier;
     ticker \<leftarrow> read_field scope ''ticker_id'' wire_identifier;
     read_field scope ''strategy_id'' wire_identifier;
     require (strict_canonical (SObj scope) = scopeKey \<and> producerNamespace = fst bound \<and> ticker = snd bound);
     policy \<leftarrow> read_field value ''freshness'' strict_record;
     freshness \<leftarrow> read_freshness policy;
     activeFrom \<leftarrow> read_field value ''active_from'' (wire_integer (\<lambda>n. \<not> n < 0));
     activeUntil \<leftarrow> read_field value ''active_until'' (wire_integer (\<lambda>n. \<not> n < 0));
     require (\<not> activeUntil \<le> activeFrom);
     credential \<leftarrow> read_field value ''credential_sha256'' wire_digest;
     registrationId \<leftarrow> read_field value ''registration_id'' wire_identifier;
     generation \<leftarrow> read_field value ''generation'' (wire_integer (\<lambda>n. \<not> n \<le> 0));
     revision \<leftarrow> read_field value ''revision'' (wire_integer (\<lambda>n. \<not> n \<le> 0));
     producerInstanceId \<leftarrow> read_field value ''producer_instance_id'' wire_identifier;
     Some \<lparr>rg_registration_id = registrationId, rg_generation = generation, rg_revision = revision, rg_scope_key = scopeKey,
       rg_producer_instance_id = producerInstanceId, rg_credential_sha256 = credential, rg_binding = SObj binding,
       rg_active_from = activeFrom, rg_active_until = activeUntil, rg_enabled = enabled, rg_freshness = freshness\<rparr> }"

text \<open>\<open>bindingBytes\<close> of the source.\<close>

definition rg_binding_bytes :: "registration \<Rightarrow> nat list" where
  "rg_binding_bytes r = encode_units (strict_canonical (rg_binding r))"

section \<open>Authentication\<close>

definition digestBytes :: "string \<Rightarrow> nat list option" where
  "digestBytes value = (if is_sha256 value then Some (hex_bytes value) else None)"

definition equalDigest :: "nat list \<Rightarrow> nat list \<Rightarrow> bool" where
  "equalDigest left right =
     (if length left \<noteq> 32 \<or> length right \<noteq> 32 then False
      else fold (\<lambda>(l, r) different. or different (xor l r)) (zip left right) 0 = 0)"

definition credentialDigest :: "platform \<Rightarrow> string \<Rightarrow> nat list" where
  "credentialDigest P credential = sha256 P (utf8_encode credential)"

definition authenticateRegistration :: "platform \<Rightarrow> transport \<Rightarrow> registration option \<Rightarrow> int \<Rightarrow> bool" where
  "authenticateRegistration P t registration now = (case registration of
       None \<Rightarrow> False
     | Some r \<Rightarrow>
         if \<not> is_safe_integer now then False
         else case digestBytes (rg_credential_sha256 r) of
             None \<Rightarrow> False
           | Some expected \<Rightarrow> (case read_scope (rg_scope_key r) of
               None \<Rightarrow> False
             | Some scope \<Rightarrow>
                 rg_enabled r \<and> rg_registration_id r = tp_registration_id t \<and> rg_generation r = tp_generation t \<and>
                 rg_producer_instance_id r = tp_producer_instance_id t \<and> is_text scope ''strategy_id'' (tp_strategy_id t) \<and>
                 now \<ge> rg_active_from r \<and> now < rg_active_until r \<and> equalDigest (credentialDigest P (tp_credential t)) expected))"

section \<open>Agreement with the canonical serializer\<close>

text \<open>On texts of one-byte characters the strict writer is the canonical serializer.\<close>

lemma no_surrogate_unit: "\<not> high_surrogate (code_unit c)" "\<not> low_surrogate (code_unit c)"
  using code_unit_less_256[of c] by (simp_all add: high_surrogate_def low_surrogate_def)

lemma utf8_point_unit: "utf8_point (code_unit c) = utf8_unit c"
  using code_unit_less_256[of c] by (simp add: utf8_point_def utf8_unit_def)

lemma encode_units_of: "encode_units (units_of s) = utf8_encode s"
proof (induction s)
  case (Cons c s)
  thus ?case by (cases s) (simp_all add: no_surrogate_unit utf8_point_unit utf8_encode_def)
qed (simp add: utf8_encode_def)

lemma escape_unit_char: "escape_unit (code_unit c) = units_of (json_escape c)"
proof (cases "c \<in> {CHR 0x22, CHR 0x5C, CHR 0x08, CHR 0x0C, CHR 0x0A, CHR 0x0D, CHR 0x09}")
  case True
  then show ?thesis by (elim insertE emptyE; simp; code_simp)
next
  case False
  moreover have "code_unit c \<noteq> code_unit x" if "c \<noteq> x" for x using that by simp
  from this[of "CHR 0x22"] this[of "CHR 0x5C"] this[of "CHR 0x08"] this[of "CHR 0x0C"] this[of "CHR 0x0A"] this[of "CHR 0x0D"] this[of "CHR 0x09"]
  have "code_unit c \<notin> {34, 92, 8, 12, 10, 13, 9}" using False by (auto simp: code_units)
  ultimately show ?thesis
    by (auto simp: escape_unit_def json_escape_def hex_unit_digits_def hex_digit_def hex_chars_def code_units)
qed

lemma escape_units_of: "escape_units (units_of s) = units_of (concat (map json_escape s))"
proof (induction s)
  case (Cons c s)
  thus ?case by (cases s) (simp_all add: no_surrogate_unit escape_unit_char)
qed simp

lemma quote_text_of: "quote_text (units_of s) = units_of (json_quote s)"
  by (simp add: quote_text_def escape_units_of quote_units)

lemma compare_unit_lists_of: "compare_unit_lists (units_of s) (units_of t) = compare_units s t"
  by (induction s t rule: compare_units.induct) simp_all

lemma js_sort_map:
  assumes "\<And>x y. cmp (h x) (h y) = cmp' x y"
  shows "js_sort cmp (map h xs) = map h (js_sort cmp' xs)"
proof -
  have "js_insert cmp (h x) (map h ys) = map h (js_insert cmp' x ys)" for x ys
    by (induction ys) (simp_all add: assms)
  thus ?thesis by (induction xs) simp_all
qed

lemma join_units_of: "join_units (code_unit c) (map units_of xs) = units_of (js_join [c] xs)"
  by (induction xs rule: induct_list012) simp_all

lemma strict_canonical_of: "strict_canonical (strict_of v) = units_of (canonicalStringify v)"
proof (induction v)
  case (JArr vs)
  hence "map strict_canonical (map strict_of vs) = map units_of (map canonicalStringify vs)" by simp
  thus ?case using join_units_of[of "CHR '',''" "map canonicalStringify vs"] by (simp add: code_units del: map_map)
next
  case (JObj kvs)
  let ?h = "\<lambda>(k, t). (units_of k, units_of t)" and ?cmp = "\<lambda>p q. compare_unit_lists (fst p) (fst q)"
  let ?ts = "map (\<lambda>(k, v). (k, canonicalStringify v)) kvs"
  have "map (\<lambda>(k, v). (k, strict_canonical v)) (map (\<lambda>(k, v). (units_of k, strict_of v)) kvs) = map ?h ?ts"
    using JObj by auto
  moreover have "js_sort ?cmp (map ?h ?ts) = map ?h (js_sort key_order ?ts)"
    by (rule js_sort_map) (simp add: case_prod_unfold compare_unit_lists_of key_order_def)
  moreover have "map (\<lambda>(k, t). quote_text k @ 58 # t) (map ?h ss) = map units_of (map (\<lambda>(k, t). json_quote k @ '':'' @ t) ss)" for ss
    by (auto simp: quote_text_of code_units)
  ultimately show ?case
    using join_units_of[of "CHR '',''" "map (\<lambda>(k, t). json_quote k @ '':'' @ t) (js_sort key_order ?ts)"]
    unfolding strict_of.simps strict_canonical.simps canonicalStringify.simps by (simp add: code_units del: map_map)
qed (simp_all add: quote_text_of NULL_UNITS_def TRUE_UNITS_def FALSE_UNITS_def code_units)

lemma field_of_members: "field_of (map strict_member kvs) k = map_option strict_of (map_of kvs k)"
  by (induction kvs) (auto simp: field_of_def units_of_inject)

section \<open>Who is let in\<close>

lemma hex_value_digit: "n < 16 \<Longrightarrow> hex_value (hex_digit n) = n"
proof -
  have "list_all (\<lambda>n. hex_value (hex_digit n) = n) [0..<16]" by code_simp
  thus "n < 16 \<Longrightarrow> ?thesis" by (simp add: list_all_iff)
qed

lemma hex_bytes_digest: "(\<And>b. b \<in> set bs \<Longrightarrow> b < 256) \<Longrightarrow> hex_bytes (concat (map hex_byte bs)) = bs"
proof (induction bs)
  case (Cons b bs)
  have "b div 16 < 16" using Cons.prems[of b] by simp
  with Cons show ?case by (simp add: hex_byte_def hex_value_digit)
qed simp

lemma equalDigest_iff: "equalDigest xs ys \<longleftrightarrow> length xs = 32 \<and> length ys = 32 \<and> xs = ys"
  by (auto simp: equalDigest_def sum_xor_zero zip_all_eq)

lemma credential_matches:
  assumes "sha256_width P"
  shows "(case digestBytes d of None \<Rightarrow> False | Some e \<Rightarrow> equalDigest (credentialDigest P c) e) \<longleftrightarrow> d = sha256Hex P c"
proof -
  have w: "length (sha256 P bs) = 32" "\<And>b. b \<in> set (sha256 P bs) \<Longrightarrow> b < 256" for bs using assms by (simp_all add: sha256_width_def)
  have h: "hex_bytes (sha256Hex P c) = credentialDigest P c"
    unfolding sha256Hex_def credentialDigest_def using w(2) by (intro hex_bytes_digest)
  have "is_sha256 d \<Longrightarrow> hex_bytes d = hex_bytes (sha256Hex P c) \<Longrightarrow> d = sha256Hex P c"
    using is_sha256_sha256Hex[OF assms, of c] by (intro digest_bytes_inject) (auto simp: is_sha256_def)
  thus ?thesis
    using is_sha256_sha256Hex[OF assms, of c] h w(1) by (auto simp: digestBytes_def equalDigest_iff credentialDigest_def split: option.split)
qed

text \<open>
  Authentication. A request is accepted for a registration exactly when the clock is a safe integer
  within the registration's window, the registration is enabled, registration, generation and
  producer are those of the request, its scope names the request's strategy, and the registered digest
  is the SHA-256 of the credential.
\<close>

theorem authenticated_iff:
  assumes "sha256_width P"
  shows "authenticateRegistration P t (Some r) now \<longleftrightarrow>
    is_safe_integer now \<and> rg_active_from r \<le> now \<and> now < rg_active_until r \<and> rg_enabled r \<and>
    rg_registration_id r = tp_registration_id t \<and> rg_generation r = tp_generation t \<and> rg_producer_instance_id r = tp_producer_instance_id t \<and>
    (\<exists>scope. read_scope (rg_scope_key r) = Some scope \<and> is_text scope ''strategy_id'' (tp_strategy_id t)) \<and>
    rg_credential_sha256 r = sha256Hex P (tp_credential t)"
  unfolding credential_matches[OF assms, symmetric]
  by (cases "digestBytes (rg_credential_sha256 r)"; cases "read_scope (rg_scope_key r)") (auto simp: authenticateRegistration_def)

end
