(* ===== verification/Signal_Decision.thy ===== *)
theory Signal_Decision
  imports Signal_Wire Rd_Domain
begin

text \<open>
  The admission decision of the signal path (\<open>signal-admission-decision-v1.ts\<close>): whether a request of a
  stream is a duplicate, blocked, quarantined or committed, and what is done with each entry. The
  decision reads a snapshot of the stored facts. The entries are those that
  \<open>validateSignalEvidenceV1\<close> (\<open>signal-evidence-v1.ts\<close>) derives from the request: an argument, \<open>None\<close> where it
  answers REJECTED; the theory \<open>Signal_Evidence\<close> gives it.
\<close>

section \<open>Data\<close>

datatype stream_state = ACTIVE | QUARANTINED | RETIRED

datatype receipt_outcome = Outcome_ACCEPTED | Outcome_NO_CANDIDATE | Outcome_AUDIT_ONLY | Outcome_REJECTED

datatype admission_code = SEQUENCE_GAP | UNKNOWN_OLD_SEQUENCE | BODY_CONFLICT | INVALID_EVIDENCE | STALE | FUTURE
  | CLOCK_REGRESSION | ATTEMPT_CONFLICT | STREAM_BLOCKED

text \<open>
  An entry of validated evidence: the identifiers and facts the decision reads, and the whole entry as
  JSON, which the store keeps.
\<close>

record signal_entry =
  se_attempt_key :: string
  se_formation_body_sha256 :: string
  se_evidence_id :: string
  se_evidence_body_sha256 :: string
  se_observed_at_epoch :: json
  se_selected :: "(candidate \<times> evidence) option"
  se_json :: json

record admission_receipt =
  ad_id :: string
  ad_body_sha256 :: string
  ad_outcome :: receipt_outcome
  ad_code :: "admission_code option"

record attempt_fact =
  af_formation_hash :: string
  af_evidence_id :: "string option"
  af_evidence_hash :: "string option"
  af_trigger_epoch :: "int option"
  af_selection_key :: "string option"
  af_disputed :: bool

record evidence_fact =
  ef_attempt_key :: string
  ef_evidence_hash :: string

record admission_snapshot =
  sn_state :: stream_state
  sn_revision :: int
  sn_next_sequence :: int
  sn_last_accepted_at :: "int option"
  sn_existing_receipt :: "admission_receipt option"
  sn_attempts :: "(string \<times> attempt_fact) list"
  sn_evidence_facts :: "(string \<times> evidence_fact) list"

datatype entry_action = Action_NEW | Action_AUDIT_ONLY | Action_NO_CANDIDATE

record entry_decision =
  ed_entry :: signal_entry
  ed_action :: entry_action
  ed_expires_at :: "int option"
  ed_selection_key :: "string option"

datatype admission_decision =
    Duplicate admission_receipt stream_state
  | Blocked
  | Quarantine admission_code "string list"
  | Commit "entry_decision list"

section \<open>Operations\<close>

definition epoch :: "int \<Rightarrow> bool" where
  "epoch n \<longleftrightarrow> is_safe_integer n \<and> n \<ge> 0"

definition epoch_value :: "json \<Rightarrow> int option" where
  "epoch_value v = (case v of JNum n \<Rightarrow> if epoch n then Some n else None | _ \<Rightarrow> None)"

definition deadline :: "int \<Rightarrow> int \<Rightarrow> int option" where
  "deadline at duration =
     (if \<not> epoch at \<or> \<not> epoch duration \<or> at > MAX_SAFE_INTEGER - duration then None else Some (at + duration))"

text \<open>All fields of an evidence record, and those that are refreshed on every observation.\<close>

definition evidence_members :: "evidence \<Rightarrow> (string \<times> json) list" where
  "evidence_members e =
     [(''evidence_id'', JStr (ev_evidence_id e)), (''payload_sha256'', JStr (ev_payload_sha256 e)),
      (''observed_at_epoch'', JNum (ev_observed_at_epoch e))] @ (case evidence_payload_json e of JObj kvs \<Rightarrow> kvs | _ \<Rightarrow> [])"

definition refreshed :: "string list" where
  "refreshed = [''candidate_id'', ''evidence_id'', ''payload_sha256'', ''observed_at_epoch'', ''coverage_start_epoch'',
     ''coverage_end_epoch'', ''trigger_sequence'', ''source_claim_ids'']"

definition selectionKey :: "signal_entry \<Rightarrow> string option" where
  "selectionKey entry = (case se_selected entry of
       None \<Rightarrow> None
     | Some (c, e) \<Rightarrow> Some (canonicalStringify (JObj
         [(''model'', JStr (model_name (cd_model c))), (''direction'', JStr (direction_name (cd_direction c))),
          (''boc_tier'', j_opt (JStr \<circ> tier_name) (cd_boc_tier c)), (''event_anchor_epoch'', JNum (cd_event_anchor_epoch c)),
          (''reference_candle_open_epoch'', j_opt JNum (cd_reference_candle_open_epoch c)),
          (''evidence'', JObj (filter (\<lambda>kv. fst kv \<notin> set refreshed) (evidence_members e)))])))"

definition trigger_of :: "signal_entry \<Rightarrow> int option" where
  "trigger_of entry = Option.bind (se_selected entry) (\<lambda>p. ev_observed_trigger_epoch (snd p))"

text \<open>Whether an entry contradicts what is stored about its attempt and its evidence.\<close>

definition conflicting :: "admission_snapshot \<Rightarrow> string list \<Rightarrow> signal_entry \<Rightarrow> bool" where
  "conflicting s seen entry \<longleftrightarrow>
     (let key = se_attempt_key entry; attempt = map_of (sn_attempts s) key; fact = map_of (sn_evidence_facts s) (se_evidence_id entry);
          triggerAt = trigger_of entry; selection = selectionKey entry in
      key \<in> set seen \<or>
      (case fact of None \<Rightarrow> False | Some f \<Rightarrow> ef_attempt_key f \<noteq> key \<or> ef_evidence_hash f \<noteq> se_evidence_body_sha256 entry) \<or>
      (case attempt of None \<Rightarrow> False | Some a \<Rightarrow>
         af_disputed a \<or> af_formation_hash a \<noteq> se_formation_body_sha256 entry \<or>
         (af_evidence_id a = Some (se_evidence_id entry) \<and> af_evidence_hash a \<noteq> Some (se_evidence_body_sha256 entry)) \<or>
         (case (triggerAt, af_trigger_epoch a) of
            (Some at, Some reserved) \<Rightarrow> at < reserved \<or> at = reserved \<and> selection \<noteq> af_selection_key a
          | _ \<Rightarrow> False)))"

definition action_of :: "admission_snapshot \<Rightarrow> signal_entry \<Rightarrow> entry_action" where
  "action_of s entry =
     (if se_selected entry = None then Action_NO_CANDIDATE
      else if Option.bind (map_of (sn_attempts s) (se_attempt_key entry)) af_evidence_id \<noteq> None then Action_AUDIT_ONLY
      else Action_NEW)"

text \<open>The times of one entry: when it expires, or the code that quarantines the stream.\<close>

definition entry_expiry :: "registration \<Rightarrow> int \<Rightarrow> int \<Rightarrow> int \<Rightarrow> signal_entry \<Rightarrow> admission_code + int" where
  "entry_expiry r now futureLimit queueLimit entry =
     (let policy = rg_freshness r; triggerAt = trigger_of entry in
      case epoch_value (se_observed_at_epoch entry) of
        None \<Rightarrow> Inl INVALID_EVIDENCE
      | Some observedAt \<Rightarrow>
          if se_selected entry \<noteq> None \<and> (case triggerAt of None \<Rightarrow> True | Some at \<Rightarrow> \<not> epoch at) then Inl INVALID_EVIDENCE
          else case (deadline observedAt (fr_max_observation_age_seconds policy),
              (case triggerAt of None \<Rightarrow> Some (rg_active_until r) | Some at \<Rightarrow> deadline at (fr_max_event_age_seconds policy))) of
            (Some observationLimit, Some eventLimit) \<Rightarrow>
              if observedAt > futureLimit \<or> (case triggerAt of None \<Rightarrow> False | Some at \<Rightarrow> at > futureLimit) then Inl FUTURE
              else (let expiresAt = min (min observationLimit eventLimit) (min queueLimit (rg_active_until r)) in
                if now \<ge> expiresAt then Inl STALE else Inr expiresAt)
          | _ \<Rightarrow> Inl INVALID_EVIDENCE)"

fun examine :: "registration \<Rightarrow> admission_snapshot \<Rightarrow> int \<Rightarrow> int \<Rightarrow> int \<Rightarrow> string list \<Rightarrow> string list \<Rightarrow> entry_decision list
    \<Rightarrow> signal_entry list \<Rightarrow> admission_code + (string list \<times> entry_decision list)" where
  "examine r s now futureLimit queueLimit seen conflicts entries [] = Inr (conflicts, entries)"
| "examine r s now futureLimit queueLimit seen conflicts entries (entry # rest) =
     (case entry_expiry r now futureLimit queueLimit entry of
        Inl code \<Rightarrow> Inl code
      | Inr expiresAt \<Rightarrow>
          (let key = se_attempt_key entry; action = action_of s entry in
           examine r s now futureLimit queueLimit (js_set_add seen key)
             (if conflicting s seen entry then js_set_add conflicts key else conflicts)
             (entries @ [\<lparr>ed_entry = entry, ed_action = action,
               ed_expires_at = (if action = Action_NEW then Some expiresAt else None), ed_selection_key = selectionKey entry\<rparr>]) rest))"

definition policy_ok :: "registration \<Rightarrow> bool" where
  "policy_ok r \<longleftrightarrow>
     (let policy = rg_freshness r in
      list_all (\<lambda>n. epoch n \<and> n > 0)
        [fr_max_event_age_seconds policy, fr_max_observation_age_seconds policy, fr_max_queue_age_seconds policy] \<and>
      epoch (fr_future_skew_seconds policy) \<and> epoch (rg_active_until r))"

definition evaluateAdmission :: "signal_entry list option \<Rightarrow> transport \<Rightarrow> registration \<Rightarrow> admission_snapshot \<Rightarrow> int \<Rightarrow> admission_decision" where
  "evaluateAdmission validated t r s now = (case sn_existing_receipt s of
       Some prior \<Rightarrow> if ad_body_sha256 prior = tp_body_sha256 t then Duplicate prior (sn_state s) else Quarantine BODY_CONFLICT []
     | None \<Rightarrow>
         if sn_state s \<noteq> ACTIVE \<or> sn_revision s \<noteq> rg_revision r then Blocked
         else if \<not> is_safe_integer (tp_sequence t) \<or> tp_sequence t \<le> 0 \<or> tp_sequence t = MAX_SAFE_INTEGER \<or>
           \<not> is_safe_integer (sn_next_sequence s) \<or> sn_next_sequence s \<le> 0 then Quarantine INVALID_EVIDENCE []
         else if tp_sequence t \<noteq> sn_next_sequence s then
           Quarantine (if tp_sequence t > sn_next_sequence s then SEQUENCE_GAP else UNKNOWN_OLD_SEQUENCE) []
         else if \<not> epoch now \<or> (case sn_last_accepted_at s of None \<Rightarrow> False | Some l \<Rightarrow> \<not> epoch l) then Quarantine INVALID_EVIDENCE []
         else if (case sn_last_accepted_at s of None \<Rightarrow> False | Some l \<Rightarrow> now < l) then Quarantine CLOCK_REGRESSION []
         else if \<not> policy_ok r then Quarantine INVALID_EVIDENCE []
         else (case (deadline now (fr_future_skew_seconds (rg_freshness r)), deadline now (fr_max_queue_age_seconds (rg_freshness r))) of
             (Some futureLimit, Some queueLimit) \<Rightarrow> (case validated of
                 None \<Rightarrow> Quarantine INVALID_EVIDENCE []
               | Some found \<Rightarrow>
                   if found = [] then Quarantine INVALID_EVIDENCE []
                   else (case examine r s now futureLimit queueLimit [] [] [] found of
                       Inl code \<Rightarrow> Quarantine code []
                     | Inr (conflicts, entries) \<Rightarrow>
                         if conflicts \<noteq> [] then Quarantine ATTEMPT_CONFLICT (js_sort compare_units conflicts) else Commit entries))
           | _ \<Rightarrow> Quarantine INVALID_EVIDENCE []))"

definition admissionFactKeys :: "signal_entry list option \<Rightarrow> (string \<times> string) list" where
  "admissionFactKeys validated = (case validated of
       None \<Rightarrow> []
     | Some entries \<Rightarrow> map (\<lambda>e. (se_attempt_key e, se_evidence_id e)) entries)"

end
