(* ===== verification/Signal_Store.thy ===== *)
theory Signal_Store
  imports Signal_Decision Outbox
begin

text \<open>
  The tables of the signal path and the statements that change them (\<open>signal-admission-store-v1.ts\<close>, with the
  constraints of the migrations \<open>0031\<close> to \<open>0033\<close>). A table is the list of its rows. A statement maps the
  database and the number of rows changed by the statement before it to the new database and count, or
  fails: \<open>Contention\<close> when a guard is false, \<open>Failed\<close> when any other constraint is violated. A batch is a
  transaction: it applies all its statements or none. The rows of the guard table are deleted in the
  same transaction and left out.
\<close>

section \<open>Tables\<close>

record registration_row =
  rr_registration_id :: string
  rr_namespace :: string
  rr_scope_key :: units
  rr_active_generation :: int
  rr_revision :: int
  rr_enabled :: bool
  rr_registration_json :: units

record stream_row =
  sr_registration_id :: string
  sr_generation :: int
  sr_registry_revision :: int
  sr_revision :: int
  sr_next_sequence :: int
  sr_state :: stream_state
  sr_last_accepted_at :: "int option"
  sr_reason :: "string option"

record receipt_row =
  rc_registration_id :: string
  rc_generation :: int
  rc_sequence :: int
  rc_receipt_id :: string
  rc_body_sha256 :: string
  rc_outcome :: receipt_outcome
  rc_code :: "admission_code option"
  rc_admitted_at :: int

record evidence_row =
  er_evidence_id :: string
  er_namespace :: string
  er_attempt_key :: string
  er_evidence_hash :: string
  er_receipt_id :: string
  er_body :: string

record attempt_row =
  at_namespace :: string
  at_attempt_key :: string
  at_formation_hash :: string
  at_evidence_id :: "string option"
  at_evidence_hash :: "string option"
  at_trigger_epoch :: "int option"
  at_selection_key :: "string option"
  at_disputed :: bool

datatype signal_status = S_PENDING | S_CLAIMED | S_RETRY | S_ACKNOWLEDGED | S_EXPIRED | S_FAILED_TERMINAL | S_QUARANTINED

datatype failure_reason = R_CLOCK_REGRESSION | R_ATTEMPTS_EXHAUSTED | R_DELIVERY_FAILED

record signal_delivery =
  sd_delivery_id :: string
  sd_namespace :: string
  sd_attempt_key :: string
  sd_registration_id :: string
  sd_generation :: int
  sd_receipt_id :: string
  sd_evidence_id :: string
  sd_delivery_body_sha256 :: string
  sd_body :: string
  sd_admitted_at_epoch :: int
  sd_expires_at_epoch :: int
  sd_status :: signal_status
  sd_claim_token :: "string option"
  sd_lease_until_epoch :: "int option"
  sd_delivery_attempts :: nat
  sd_next_attempt_at_epoch :: int
  sd_last_dispatch_at_epoch :: "int option"
  sd_failure_reason :: "failure_reason option"

record link_row =
  ln_receipt_id :: string
  ln_evidence_id :: string
  ln_namespace :: string
  ln_attempt_key :: string

record signal_audit =
  sa_audit_id :: string
  sa_registration_id :: string
  sa_generation :: int
  sa_sequence :: "int option"
  sa_body_sha256 :: "string option"
  sa_reason :: string

record signal_db =
  db_registrations :: "registration_row list"
  db_streams :: "stream_row list"
  db_receipts :: "receipt_row list"
  db_evidence :: "evidence_row list"
  db_attempts :: "attempt_row list"
  db_outbox :: "signal_delivery list"
  db_links :: "link_row list"
  db_audit :: "signal_audit list"

section \<open>Statements\<close>

datatype batch_error = Contention | Failed

type_synonym stmt = "signal_db \<times> nat \<Rightarrow> batch_error + (signal_db \<times> nat)"

fun run_batch :: "stmt list \<Rightarrow> signal_db \<times> nat \<Rightarrow> batch_error + (signal_db \<times> nat)" where
  "run_batch [] s = Inr s"
| "run_batch (f # fs) s = (case f s of Inl e \<Rightarrow> Inl e | Inr t \<Rightarrow> run_batch fs t)"

definition db_batch :: "stmt list \<Rightarrow> signal_db \<Rightarrow> batch_error + signal_db" where
  "db_batch stmts db = (case run_batch stmts (db, 0) of Inl e \<Rightarrow> Inl e | Inr (db', _) \<Rightarrow> Inr db')"

definition guard :: "(signal_db \<Rightarrow> bool) \<Rightarrow> stmt" where
  "guard condition = (\<lambda>(db, _). if condition db then Inr (db, 1) else Inl Contention)"

definition guard_changes :: stmt where
  "guard_changes = (\<lambda>(db, n). if n = 1 then Inr (db, 1) else Inl Contention)"

definition statement :: "(signal_db \<Rightarrow> bool) \<Rightarrow> (signal_db \<Rightarrow> signal_db) \<Rightarrow> (signal_db \<Rightarrow> nat) \<Rightarrow> stmt" where
  "statement allowed f changes = (\<lambda>(db, _). if allowed db then Inr (f db, changes db) else Inl Failed)"

definition stored_integer :: "int \<Rightarrow> int \<Rightarrow> bool" where
  "stored_integer minimum n \<longleftrightarrow> minimum \<le> n \<and> n \<le> MAX_SAFE_INTEGER"

definition same_stream :: "string \<Rightarrow> int \<Rightarrow> stream_row \<Rightarrow> bool" where
  "same_stream rid g r \<longleftrightarrow> sr_registration_id r = rid \<and> sr_generation r = g"

definition stream_exists :: "string \<Rightarrow> int \<Rightarrow> signal_db \<Rightarrow> bool" where
  "stream_exists rid g db \<longleftrightarrow> list_ex (same_stream rid g) (db_streams db)"

definition same_attempt :: "string \<Rightarrow> string \<Rightarrow> attempt_row \<Rightarrow> bool" where
  "same_attempt ns key a \<longleftrightarrow> at_namespace a = ns \<and> at_attempt_key a = key"

definition attempt_exists :: "string \<Rightarrow> string \<Rightarrow> signal_db \<Rightarrow> bool" where
  "attempt_exists ns key db \<longleftrightarrow> list_ex (same_attempt ns key) (db_attempts db)"

definition receipt_at :: "string \<Rightarrow> int \<Rightarrow> int \<Rightarrow> receipt_row \<Rightarrow> bool" where
  "receipt_at rid g n c \<longleftrightarrow> rc_registration_id c = rid \<and> rc_generation c = g \<and> rc_sequence c = n"

definition has_receipt :: "string \<Rightarrow> signal_db \<Rightarrow> bool" where
  "has_receipt i db \<longleftrightarrow> list_ex (\<lambda>c. rc_receipt_id c = i) (db_receipts db)"

definition has_evidence :: "string \<Rightarrow> signal_db \<Rightarrow> bool" where
  "has_evidence i db \<longleftrightarrow> list_ex (\<lambda>e. er_evidence_id e = i) (db_evidence db)"

definition receipt_allowed :: "receipt_row \<Rightarrow> signal_db \<Rightarrow> bool" where
  "receipt_allowed c db \<longleftrightarrow>
     stored_integer 1 (rc_generation c) \<and> stored_integer 1 (rc_sequence c) \<and> stored_integer 0 (rc_admitted_at c) \<and>
     is_sha256 (rc_body_sha256 c) \<and> stream_exists (rc_registration_id c) (rc_generation c) db \<and>
     \<not> list_ex (receipt_at (rc_registration_id c) (rc_generation c) (rc_sequence c)) (db_receipts db) \<and> \<not> has_receipt (rc_receipt_id c) db"

definition insert_receipt :: "receipt_row \<Rightarrow> stmt" where
  "insert_receipt c = statement (receipt_allowed c) (db_receipts_update (\<lambda>rows. rows @ [c])) (\<lambda>_. 1)"

definition evidence_allowed :: "evidence_row \<Rightarrow> signal_db \<Rightarrow> bool" where
  "evidence_allowed e db \<longleftrightarrow> is_sha256 (er_evidence_hash e) \<and> has_receipt (er_receipt_id e) db \<and> \<not> has_evidence (er_evidence_id e) db"

definition insert_evidence :: "evidence_row \<Rightarrow> stmt" where
  "insert_evidence e = statement (evidence_allowed e) (db_evidence_update (\<lambda>rows. rows @ [e])) (\<lambda>_. 1)"

definition attempt_allowed :: "attempt_row \<Rightarrow> signal_db \<Rightarrow> bool" where
  "attempt_allowed a db \<longleftrightarrow> is_sha256 (at_formation_hash a) \<and> \<not> attempt_exists (at_namespace a) (at_attempt_key a) db"

definition insert_attempt :: "attempt_row \<Rightarrow> stmt" where
  "insert_attempt a = statement (attempt_allowed a) (db_attempts_update (\<lambda>rows. rows @ [a])) (\<lambda>_. 1)"

text \<open>Primary key, unique index and foreign keys of the association, and its trigger.\<close>

definition link_allowed :: "link_row \<Rightarrow> signal_db \<Rightarrow> bool" where
  "link_allowed l db \<longleftrightarrow> attempt_exists (ln_namespace l) (ln_attempt_key l) db \<and>
     \<not> list_ex (\<lambda>k. ln_receipt_id k = ln_receipt_id l \<and> ln_evidence_id k = ln_evidence_id l) (db_links db) \<and>
     \<not> list_ex (\<lambda>k. ln_receipt_id k = ln_receipt_id l \<and> ln_namespace k = ln_namespace l \<and> ln_attempt_key k = ln_attempt_key l) (db_links db) \<and>
     list_ex (\<lambda>e. er_evidence_id e = ln_evidence_id l \<and> er_namespace e = ln_namespace l \<and> er_attempt_key e = ln_attempt_key l \<and>
       list_ex (\<lambda>c. rc_receipt_id c = ln_receipt_id l \<and> rc_outcome c \<noteq> Outcome_REJECTED \<and>
         list_ex (\<lambda>r. rr_registration_id r = rc_registration_id c \<and> rr_namespace r = ln_namespace l) (db_registrations db))
         (db_receipts db)) (db_evidence db)"

definition insert_link :: "link_row \<Rightarrow> stmt" where
  "insert_link l = statement (link_allowed l) (db_links_update (\<lambda>rows. rows @ [l])) (\<lambda>_. 1)"

definition delivery_allowed :: "signal_delivery \<Rightarrow> signal_db \<Rightarrow> bool" where
  "delivery_allowed w db \<longleftrightarrow>
     stored_integer 1 (sd_generation w) \<and> is_sha256 (sd_delivery_body_sha256 w) \<and> stored_integer 0 (sd_admitted_at_epoch w) \<and>
     sd_admitted_at_epoch w < sd_expires_at_epoch w \<and> sd_expires_at_epoch w \<le> MAX_SAFE_INTEGER \<and>
     stored_integer 0 (sd_next_attempt_at_epoch w) \<and>
     has_receipt (sd_receipt_id w) db \<and> has_evidence (sd_evidence_id w) db \<and>
     attempt_exists (sd_namespace w) (sd_attempt_key w) db \<and> stream_exists (sd_registration_id w) (sd_generation w) db \<and>
     \<not> list_ex (\<lambda>d. sd_delivery_id d = sd_delivery_id w) (db_outbox db) \<and>
     \<not> list_ex (\<lambda>d. sd_namespace d = sd_namespace w \<and> sd_attempt_key d = sd_attempt_key w) (db_outbox db)"

definition insert_delivery :: "signal_delivery \<Rightarrow> stmt" where
  "insert_delivery w = statement (delivery_allowed w) (db_outbox_update (\<lambda>rows. rows @ [w])) (\<lambda>_. 1)"

definition insert_audit :: "signal_audit \<Rightarrow> stmt" where
  "insert_audit a = statement
     (\<lambda>db. stored_integer 1 (sa_generation a) \<and> (case sa_sequence a of None \<Rightarrow> True | Some n \<Rightarrow> stored_integer 1 n) \<and>
        \<not> list_ex (\<lambda>b. sa_audit_id b = sa_audit_id a) (db_audit db))
     (db_audit_update (\<lambda>rows. rows @ [a])) (\<lambda>_. 1)"

definition stream_ok :: "stream_row \<Rightarrow> bool" where
  "stream_ok r \<longleftrightarrow> stored_integer 1 (sr_generation r) \<and> stored_integer 1 (sr_registry_revision r) \<and> stored_integer 1 (sr_revision r) \<and>
     stored_integer 1 (sr_next_sequence r) \<and> (case sr_last_accepted_at r of None \<Rightarrow> True | Some n \<Rightarrow> stored_integer 0 n)"

definition stream_sticky :: "stream_row \<Rightarrow> stream_row \<Rightarrow> bool" where
  "stream_sticky old new \<longleftrightarrow> (sr_state old = RETIRED \<longrightarrow> sr_state new = RETIRED) \<and> (sr_state old = QUARANTINED \<longrightarrow> sr_state new \<noteq> ACTIVE)"

definition update_streams :: "(stream_row \<Rightarrow> bool) \<Rightarrow> (stream_row \<Rightarrow> stream_row) \<Rightarrow> stmt" where
  "update_streams p f = statement
     (\<lambda>db. list_all (\<lambda>r. p r \<longrightarrow> stream_ok (f r) \<and> stream_sticky r (f r)) (db_streams db))
     (db_streams_update (sql_update p f)) (\<lambda>db. sql_changes p (db_streams db))"

text \<open>The first reservation of an attempt, and the dispute flag; the trigger lets nothing else change.\<close>

definition reserve_attempt :: "string \<Rightarrow> string \<Rightarrow> string \<Rightarrow> string \<Rightarrow> int option \<Rightarrow> string option \<Rightarrow> stmt" where
  "reserve_attempt ns key evidenceId evidenceHash triggerAt selection = statement
     (\<lambda>db. list_all (\<lambda>a. same_attempt ns key a \<and> at_evidence_id a = None \<and> \<not> at_disputed a \<longrightarrow>
        has_evidence evidenceId db \<and> is_sha256 evidenceHash \<and> selection \<noteq> None \<and>
        (case triggerAt of None \<Rightarrow> False | Some n \<Rightarrow> stored_integer 0 n)) (db_attempts db))
     (db_attempts_update (sql_update (\<lambda>a. same_attempt ns key a \<and> at_evidence_id a = None \<and> \<not> at_disputed a)
        (\<lambda>a. a\<lparr>at_evidence_id := Some evidenceId, at_evidence_hash := Some evidenceHash, at_trigger_epoch := triggerAt, at_selection_key := selection\<rparr>)))
     (\<lambda>db. sql_changes (\<lambda>a. same_attempt ns key a \<and> at_evidence_id a = None \<and> \<not> at_disputed a) (db_attempts db))"

definition dispute_attempts :: "(signal_db \<Rightarrow> attempt_row \<Rightarrow> bool) \<Rightarrow> stmt" where
  "dispute_attempts p = statement (\<lambda>_. True)
     (\<lambda>db. db_attempts_update (sql_update (p db) (\<lambda>a. a\<lparr>at_disputed := True\<rparr>)) db) (\<lambda>db. sql_changes (p db) (db_attempts db))"

definition open_delivery :: "signal_status \<Rightarrow> bool" where
  "open_delivery s \<longleftrightarrow> s = S_PENDING \<or> s = S_RETRY \<or> s = S_CLAIMED"

definition quarantine_deliveries :: "(signal_db \<Rightarrow> signal_delivery \<Rightarrow> bool) \<Rightarrow> stmt" where
  "quarantine_deliveries p = statement (\<lambda>_. True)
     (\<lambda>db. db_outbox_update (sql_update (\<lambda>w. p db w \<and> open_delivery (sd_status w))
        (\<lambda>w. w\<lparr>sd_status := S_QUARANTINED, sd_claim_token := None, sd_lease_until_epoch := None\<rparr>)) db)
     (\<lambda>db. sql_changes (\<lambda>w. p db w \<and> open_delivery (sd_status w)) (db_outbox db))"

end
