(* ===== verification/Signal_Admission.thy ===== *)
theory Signal_Admission
  imports Signal_Store
begin

text \<open>
  Admission of a signal and installation of a registration (\<open>admitSignal\<close> and \<open>installGeneration\<close> of
  \<open>signal-admission-store-v1.ts\<close>). \<open>admitSignal\<close> reads a snapshot, decides, and applies one guarded batch;
  other requests may run between the reading and the batch, so the batch runs on a database of its own.
  Random identifiers are arguments.
\<close>

section \<open>Snapshots\<close>

type_synonym validator = "nat list \<Rightarrow> nat list \<Rightarrow> signal_entry list option"

record loaded_snapshot =
  ld_snapshot :: admission_snapshot
  ld_cas_revision :: int
  ld_namespace :: string
  ld_registration :: registration
  ld_fact_keys :: "(string \<times> string) list"

definition number_text :: "int \<Rightarrow> strict_json" where
  "number_text n = SNum (units_of (js_number n)) (Some n)"

definition registrationJson :: "registration \<Rightarrow> units" where
  "registrationJson r = strict_canonical (SObj
     [(units_of ''schema_version'', SStr (units_of ''TradeOpsSignalAdmissionRegistrationV1'')),
      (units_of ''registration_id'', SStr (units_of (rg_registration_id r))), (units_of ''generation'', number_text (rg_generation r)),
      (units_of ''revision'', number_text (rg_revision r)), (units_of ''scope_key'', SStr (rg_scope_key r)),
      (units_of ''producer_instance_id'', SStr (units_of (rg_producer_instance_id r))),
      (units_of ''credential_sha256'', SStr (units_of (rg_credential_sha256 r))), (units_of ''reviewed_binding'', rg_binding r),
      (units_of ''active_from'', number_text (rg_active_from r)), (units_of ''active_until'', number_text (rg_active_until r)),
      (units_of ''enabled'', SBool (rg_enabled r)),
      (units_of ''freshness'', SObj
        [(units_of ''max_event_age_seconds'', number_text (fr_max_event_age_seconds (rg_freshness r))),
         (units_of ''max_observation_age_seconds'', number_text (fr_max_observation_age_seconds (rg_freshness r))),
         (units_of ''future_skew_seconds'', number_text (fr_future_skew_seconds (rg_freshness r))),
         (units_of ''max_queue_age_seconds'', number_text (fr_max_queue_age_seconds (rg_freshness r)))])])"

definition attempt_fact_of :: "attempt_row \<Rightarrow> attempt_fact" where
  "attempt_fact_of a = \<lparr>af_formation_hash = at_formation_hash a, af_evidence_id = at_evidence_id a, af_evidence_hash = at_evidence_hash a,
     af_trigger_epoch = at_trigger_epoch a, af_selection_key = at_selection_key a, af_disputed = at_disputed a\<rparr>"

definition load_attempts :: "signal_db \<Rightarrow> string \<Rightarrow> (string \<times> string) list \<Rightarrow> (string \<times> attempt_fact) list" where
  "load_attempts db ns keys = List.map_filter (\<lambda>(key, _).
     map_option (\<lambda>a. (key, attempt_fact_of a)) (find (same_attempt ns key) (db_attempts db))) keys"

definition load_evidence :: "signal_db \<Rightarrow> string \<Rightarrow> (string \<times> string) list \<Rightarrow> (string \<times> evidence_fact) list" where
  "load_evidence db ns keys = List.map_filter (\<lambda>(_, evidenceId).
     map_option (\<lambda>e. (evidenceId, \<lparr>ef_attempt_key = er_attempt_key e, ef_evidence_hash = er_evidence_hash e\<rparr>))
       (find (\<lambda>e. er_namespace e = ns \<and> er_evidence_id e = evidenceId) (db_evidence db))) keys"

definition snapshot :: "validator \<Rightarrow> signal_db \<Rightarrow> transport \<Rightarrow> loaded_snapshot option" where
  "snapshot validate db t = do {
     stream \<leftarrow> find (same_stream (tp_registration_id t) (tp_generation t)) (db_streams db);
     row \<leftarrow> find (\<lambda>r. rr_registration_id r = sr_registration_id stream) (db_registrations db);
     registration \<leftarrow> readRegistration (encode_units (rr_registration_json row));
     let existingReceipt = map_option (\<lambda>c. \<lparr>ad_id = rc_receipt_id c, ad_body_sha256 = rc_body_sha256 c, ad_outcome = rc_outcome c, ad_code = rc_code c\<rparr>)
       (find (receipt_at (tp_registration_id t) (tp_generation t) (tp_sequence t)) (db_receipts db));
     let keys = (if existingReceipt = None \<and> sr_state stream = ACTIVE
       then admissionFactKeys (validate (tp_evidence_bytes t) (rg_binding_bytes registration)) else []);
     Some \<lparr>ld_snapshot = \<lparr>sn_state = sr_state stream, sn_revision = sr_registry_revision stream, sn_next_sequence = sr_next_sequence stream,
         sn_last_accepted_at = sr_last_accepted_at stream, sn_existing_receipt = existingReceipt,
         sn_attempts = load_attempts db (rr_namespace row) keys, sn_evidence_facts = load_evidence db (rr_namespace row) keys\<rparr>,
       ld_cas_revision = sr_revision stream, ld_namespace = rr_namespace row, ld_registration = registration, ld_fact_keys = keys\<rparr> }"

definition loadAdmissionSnapshot :: "validator \<Rightarrow> signal_db \<Rightarrow> transport \<Rightarrow> admission_snapshot option" where
  "loadAdmissionSnapshot validate db t = map_option ld_snapshot (snapshot validate db t)"

section \<open>Admission\<close>

record admission_result =
  ax_receipt_id :: "string option"
  ax_outcome :: receipt_outcome
  ax_code :: "admission_code option"
  ax_duplicate :: bool
  ax_stream_state :: stream_state

definition admission_response :: "receipt_outcome \<Rightarrow> admission_code option \<Rightarrow> string option \<Rightarrow> bool \<Rightarrow> stream_state \<Rightarrow> admission_result" where
  "admission_response outcome code receiptId duplicate state = \<lparr>ax_receipt_id = receiptId, ax_outcome = outcome, ax_code = code,
     ax_duplicate = duplicate, ax_stream_state = state\<rparr>"

fun code_name :: "admission_code \<Rightarrow> string" where
  "code_name SEQUENCE_GAP = ''SEQUENCE_GAP''"
| "code_name UNKNOWN_OLD_SEQUENCE = ''UNKNOWN_OLD_SEQUENCE''"
| "code_name BODY_CONFLICT = ''BODY_CONFLICT''"
| "code_name INVALID_EVIDENCE = ''INVALID_EVIDENCE''"
| "code_name STALE = ''STALE''"
| "code_name FUTURE = ''FUTURE''"
| "code_name CLOCK_REGRESSION = ''CLOCK_REGRESSION''"
| "code_name ATTEMPT_CONFLICT = ''ATTEMPT_CONFLICT''"
| "code_name STREAM_BLOCKED = ''STREAM_BLOCKED''"

definition receipt_id_of :: "platform \<Rightarrow> transport \<Rightarrow> string" where
  "receipt_id_of P t = canonicalSha256 P (JObj
     [(''schema_version'', JStr ''TradeOpsSignalReceiptIdentityV1''), (''registration_id'', JStr (tp_registration_id t)),
      (''generation'', JNum (tp_generation t)), (''sequence'', JNum (tp_sequence t))])"

definition receipt_row_of :: "platform \<Rightarrow> transport \<Rightarrow> int \<Rightarrow> receipt_outcome \<Rightarrow> admission_code option \<Rightarrow> receipt_row" where
  "receipt_row_of P t now outcome code = \<lparr>rc_registration_id = tp_registration_id t, rc_generation = tp_generation t, rc_sequence = tp_sequence t,
     rc_receipt_id = receipt_id_of P t, rc_body_sha256 = tp_body_sha256 t, rc_outcome = outcome, rc_code = code, rc_admitted_at = now\<rparr>"

text \<open>What the batch checks again: the stream and its registration, the receipt, and every fact read.\<close>

definition stream_guard :: "transport \<Rightarrow> registration \<Rightarrow> loaded_snapshot \<Rightarrow> signal_db \<Rightarrow> bool" where
  "stream_guard t r ld db \<longleftrightarrow> list_ex (\<lambda>s. same_stream (tp_registration_id t) (tp_generation t) s \<and> sr_revision s = ld_cas_revision ld \<and>
     sr_registry_revision s = rg_revision r \<and> sr_next_sequence s = sn_next_sequence (ld_snapshot ld) \<and> sr_state s = sn_state (ld_snapshot ld) \<and>
     list_ex (\<lambda>g. rr_registration_id g = sr_registration_id s \<and> rr_revision g = rg_revision r \<and> rr_active_generation g = sr_generation s \<and>
       rr_enabled g \<and> rr_namespace g = ld_namespace ld \<and> rr_registration_json g = registrationJson r) (db_registrations db)) (db_streams db)"

definition receipt_guard :: "transport \<Rightarrow> loaded_snapshot \<Rightarrow> signal_db \<Rightarrow> bool" where
  "receipt_guard t ld db \<longleftrightarrow> (case sn_existing_receipt (ld_snapshot ld) of
       Some prior \<Rightarrow> list_ex (\<lambda>c. receipt_at (tp_registration_id t) (tp_generation t) (tp_sequence t) c \<and> rc_body_sha256 c = ad_body_sha256 prior) (db_receipts db)
     | None \<Rightarrow> \<not> list_ex (receipt_at (tp_registration_id t) (tp_generation t) (tp_sequence t)) (db_receipts db))"

definition attempt_guard :: "loaded_snapshot \<Rightarrow> string \<Rightarrow> signal_db \<Rightarrow> bool" where
  "attempt_guard ld key db \<longleftrightarrow> (case map_of (sn_attempts (ld_snapshot ld)) key of
       Some known \<Rightarrow> list_ex (\<lambda>a. same_attempt (ld_namespace ld) key a \<and> attempt_fact_of a = known) (db_attempts db)
     | None \<Rightarrow> \<not> attempt_exists (ld_namespace ld) key db)"

definition evidence_guard :: "loaded_snapshot \<Rightarrow> string \<Rightarrow> signal_db \<Rightarrow> bool" where
  "evidence_guard ld evidenceId db \<longleftrightarrow> (case map_of (sn_evidence_facts (ld_snapshot ld)) evidenceId of
       Some known \<Rightarrow> list_ex (\<lambda>e. er_namespace e = ld_namespace ld \<and> er_evidence_id e = evidenceId \<and> er_attempt_key e = ef_attempt_key known \<and>
         er_evidence_hash e = ef_evidence_hash known) (db_evidence db)
     | None \<Rightarrow> \<not> has_evidence evidenceId db)"

definition fact_guards :: "loaded_snapshot \<Rightarrow> stmt list" where
  "fact_guards ld = concat (map (\<lambda>(key, evidenceId). [guard (attempt_guard ld key), guard (evidence_guard ld evidenceId)]) (ld_fact_keys ld))"

definition admission_guards :: "transport \<Rightarrow> registration \<Rightarrow> loaded_snapshot \<Rightarrow> stmt list" where
  "admission_guards t r ld = guard (stream_guard t r ld) # guard (receipt_guard t ld) # fact_guards ld"

text \<open>Attempts that a receipt admitted evidence for.\<close>

definition linked_attempt :: "string \<Rightarrow> string \<Rightarrow> signal_db \<Rightarrow> string \<Rightarrow> bool" where
  "linked_attempt ns receiptId db key \<longleftrightarrow>
     list_ex (\<lambda>l. ln_namespace l = ns \<and> ln_receipt_id l = receiptId \<and> ln_attempt_key l = key) (db_links db)"

definition quarantine_statements :: "platform \<Rightarrow> transport \<Rightarrow> loaded_snapshot \<Rightarrow> int \<Rightarrow> string \<Rightarrow> admission_code \<Rightarrow> string list \<Rightarrow> stmt list" where
  "quarantine_statements P t ld now auditId code keys =
     (let ns = ld_namespace ld; receiptId = receipt_id_of P t in
      (if sn_existing_receipt (ld_snapshot ld) = None then [insert_receipt (receipt_row_of P t now Outcome_REJECTED (Some code))] else []) @
      [insert_audit \<lparr>sa_audit_id = auditId, sa_registration_id = tp_registration_id t, sa_generation = tp_generation t,
         sa_sequence = Some (tp_sequence t), sa_body_sha256 = Some (tp_body_sha256 t), sa_reason = code_name code\<rparr>] @
      map (\<lambda>key. dispute_attempts (\<lambda>_. same_attempt ns key)) keys @
      (if code = BODY_CONFLICT then [dispute_attempts (\<lambda>db a. at_namespace a = ns \<and> linked_attempt ns receiptId db (at_attempt_key a))] else []) @
      [quarantine_deliveries (\<lambda>_ w. sd_namespace w = ns \<and> sd_registration_id w = tp_registration_id t \<and> sd_generation w = tp_generation t)] @
      map (\<lambda>key. quarantine_deliveries (\<lambda>_ w. sd_namespace w = ns \<and> sd_attempt_key w = key)) keys @
      (if code = BODY_CONFLICT
       then [quarantine_deliveries (\<lambda>db w. sd_namespace w = ns \<and> linked_attempt ns receiptId db (sd_attempt_key w))] else []) @
      [update_streams (same_stream (tp_registration_id t) (tp_generation t))
         (\<lambda>s. s\<lparr>sr_state := QUARANTINED, sr_reason := Some (code_name code), sr_revision := sr_revision s + 1\<rparr>)])"

definition delivery_id_of :: "platform \<Rightarrow> signal_entry \<Rightarrow> string" where
  "delivery_id_of P e = canonicalSha256 P (JObj
     [(''schema_version'', JStr ''TradeOpsSignalDeliveryIdentityV1''), (''attempt_key'', JStr (se_attempt_key e)), (''evidence_id'', JStr (se_evidence_id e))])"

definition delivery_body :: "platform \<Rightarrow> transport \<Rightarrow> int \<Rightarrow> int \<Rightarrow> signal_entry \<Rightarrow> (string \<times> json) list" where
  "delivery_body P t now expiresAt e =
     [(''schema_version'', JStr ''TradeOpsSignalDeliveryV1''), (''authority'', JStr ''EVIDENCE_ONLY''), (''execution_allowed'', JBool False),
      (''delivery_id'', JStr (delivery_id_of P e)), (''receipt_id'', JStr (receipt_id_of P t)), (''registration_id'', JStr (tp_registration_id t)),
      (''generation'', JNum (tp_generation t)), (''attempt_key'', JStr (se_attempt_key e)), (''evidence_id'', JStr (se_evidence_id e)),
      (''evidence_body_sha256'', JStr (se_evidence_body_sha256 e)), (''admitted_at_epoch'', JNum now), (''expires_at_epoch'', JNum expiresAt),
      (''evidence'', se_json e)]"

definition new_delivery :: "platform \<Rightarrow> transport \<Rightarrow> string \<Rightarrow> int \<Rightarrow> int \<Rightarrow> signal_entry \<Rightarrow> signal_delivery" where
  "new_delivery P t ns now expiresAt e =
     (let body = delivery_body P t now expiresAt e; digest = canonicalSha256 P (JObj body) in
      \<lparr>sd_delivery_id = delivery_id_of P e, sd_namespace = ns, sd_attempt_key = se_attempt_key e, sd_registration_id = tp_registration_id t,
       sd_generation = tp_generation t, sd_receipt_id = receipt_id_of P t, sd_evidence_id = se_evidence_id e, sd_delivery_body_sha256 = digest,
       sd_body = canonicalStringify (JObj (body @ [(''delivery_body_sha256'', JStr digest)])), sd_admitted_at_epoch = now,
       sd_expires_at_epoch = expiresAt, sd_status = S_PENDING, sd_claim_token = None, sd_lease_until_epoch = None, sd_delivery_attempts = 0,
       sd_next_attempt_at_epoch = now, sd_last_dispatch_at_epoch = None, sd_failure_reason = None\<rparr>)"

definition entry_statements :: "platform \<Rightarrow> transport \<Rightarrow> loaded_snapshot \<Rightarrow> int \<Rightarrow> entry_decision \<Rightarrow> stmt list" where
  "entry_statements P t ld now d =
     (let e = ed_entry d; ns = ld_namespace ld; receiptId = receipt_id_of P t in
      (if map_of (sn_evidence_facts (ld_snapshot ld)) (se_evidence_id e) = None
       then [insert_evidence \<lparr>er_evidence_id = se_evidence_id e, er_namespace = ns, er_attempt_key = se_attempt_key e,
         er_evidence_hash = se_evidence_body_sha256 e, er_receipt_id = receiptId, er_body = canonicalStringify (se_json e)\<rparr>] else []) @
      (if map_of (sn_attempts (ld_snapshot ld)) (se_attempt_key e) = None
       then [insert_attempt \<lparr>at_namespace = ns, at_attempt_key = se_attempt_key e, at_formation_hash = se_formation_body_sha256 e,
         at_evidence_id = None, at_evidence_hash = None, at_trigger_epoch = None, at_selection_key = None, at_disputed = False\<rparr>] else []) @
      [insert_link \<lparr>ln_receipt_id = receiptId, ln_evidence_id = se_evidence_id e, ln_namespace = ns, ln_attempt_key = se_attempt_key e\<rparr>,
       guard_changes] @
      (case (ed_action d, ed_expires_at d) of
         (Action_NEW, Some expiresAt) \<Rightarrow>
           [reserve_attempt ns (se_attempt_key e) (se_evidence_id e) (se_evidence_body_sha256 e) (trigger_of e) (ed_selection_key d),
            guard_changes, insert_delivery (new_delivery P t ns now expiresAt e)]
       | _ \<Rightarrow> []))"

definition commit_outcome :: "entry_decision list \<Rightarrow> receipt_outcome" where
  "commit_outcome entries =
     (if list_ex (\<lambda>d. ed_action d = Action_NEW) entries then Outcome_ACCEPTED
      else if list_ex (\<lambda>d. ed_action d = Action_AUDIT_ONLY) entries then Outcome_AUDIT_ONLY else Outcome_NO_CANDIDATE)"

definition held_stream :: "transport \<Rightarrow> loaded_snapshot \<Rightarrow> stream_row \<Rightarrow> bool" where
  "held_stream t ld s \<longleftrightarrow> same_stream (tp_registration_id t) (tp_generation t) s \<and> sr_revision s = ld_cas_revision ld"

definition accepted_stream :: "int \<Rightarrow> stream_row \<Rightarrow> stream_row" where
  "accepted_stream now s = s\<lparr>sr_next_sequence := sr_next_sequence s + 1, sr_revision := sr_revision s + 1, sr_last_accepted_at := Some now\<rparr>"

definition commit_statements :: "platform \<Rightarrow> transport \<Rightarrow> loaded_snapshot \<Rightarrow> int \<Rightarrow> entry_decision list \<Rightarrow> stmt list" where
  "commit_statements P t ld now entries =
     insert_receipt (receipt_row_of P t now (commit_outcome entries) None) # concat (map (entry_statements P t ld now) entries) @
     [update_streams (held_stream t ld) (accepted_stream now)]"

datatype admit_step = Answered admission_result signal_db | Retry_admission | Unavailable

definition apply_batch :: "stmt list \<Rightarrow> admission_result \<Rightarrow> signal_db \<Rightarrow> admit_step" where
  "apply_batch stmts result db = (case db_batch stmts db of
       Inr db' \<Rightarrow> Answered result db' | Inl Contention \<Rightarrow> Retry_admission | Inl Failed \<Rightarrow> Unavailable)"

text \<open>One pass of the loop, from the snapshot to the batch.\<close>

definition admit_once :: "platform \<Rightarrow> validator \<Rightarrow> transport \<Rightarrow> registration \<Rightarrow> int \<Rightarrow> string \<Rightarrow> loaded_snapshot \<Rightarrow> signal_db \<Rightarrow> admit_step" where
  "admit_once P validate t r now auditId ld db =
     (let s = ld_snapshot ld; decision = evaluateAdmission (validate (tp_evidence_bytes t) (rg_binding_bytes r)) t r s now;
          blocked = Answered (admission_response Outcome_REJECTED (Some STREAM_BLOCKED) None False (sn_state s)) db;
          superseded = (rg_revision r \<noteq> rg_revision (ld_registration ld) \<or> rg_generation r \<noteq> rg_generation (ld_registration ld) \<or>
            registrationJson r \<noteq> registrationJson (ld_registration ld)) in
      case decision of
        Duplicate receipt state \<Rightarrow> Answered (admission_response (ad_outcome receipt) (ad_code receipt) (Some (ad_id receipt)) True state) db
      | Blocked \<Rightarrow> blocked
      | Quarantine code keys \<Rightarrow>
          if superseded then blocked
          else if sn_state s \<noteq> ACTIVE \<and> \<not> (sn_state s = QUARANTINED \<and> code = BODY_CONFLICT \<and> sn_existing_receipt s \<noteq> None) then blocked
          else apply_batch (admission_guards t r ld @ quarantine_statements P t ld now auditId code keys @ [guard_changes])
            (admission_response Outcome_REJECTED (Some code)
              (Some (case sn_existing_receipt s of None \<Rightarrow> receipt_id_of P t | Some prior \<Rightarrow> ad_id prior)) False QUARANTINED) db
      | Commit entries \<Rightarrow>
          if superseded then blocked else if sn_state s \<noteq> ACTIVE then blocked
          else apply_batch (admission_guards t r ld @ commit_statements P t ld now entries @ [guard_changes])
            (admission_response (commit_outcome entries) None (Some (receipt_id_of P t)) False ACTIVE) db)"

text \<open>
  The loop of three tries. Each try is given the database at the time it reads, the database at the time
  of its batch, and its random identifier. \<open>None\<close> is \<open>AdmissionUnavailableError\<close>.
\<close>

fun admit_tries :: "platform \<Rightarrow> validator \<Rightarrow> transport \<Rightarrow> registration \<Rightarrow> int \<Rightarrow> (signal_db \<times> signal_db \<times> string) list
    \<Rightarrow> (admission_result \<times> signal_db) option" where
  "admit_tries P validate t r now [] = None"
| "admit_tries P validate t r now ((readDb, db, auditId) # tries) = (case snapshot validate readDb t of
       None \<Rightarrow> None
     | Some ld \<Rightarrow> (case admit_once P validate t r now auditId ld db of
           Answered result db' \<Rightarrow> Some (result, db')
         | Retry_admission \<Rightarrow> admit_tries P validate t r now tries
         | Unavailable \<Rightarrow> None))"

definition admitSignal :: "platform \<Rightarrow> validator \<Rightarrow> transport \<Rightarrow> registration \<Rightarrow> int \<Rightarrow> (signal_db \<times> signal_db \<times> string) list
    \<Rightarrow> (admission_result \<times> signal_db) option" where
  "admitSignal P validate t r now tries = admit_tries P validate t r now (take 3 tries)"

section \<open>Installation\<close>

definition registration_ok :: "registration_row \<Rightarrow> bool" where
  "registration_ok r \<longleftrightarrow> stored_integer 1 (rr_active_generation r) \<and> stored_integer 1 (rr_revision r)"

text \<open>One enabled registration per scope.\<close>

definition scope_free :: "registration_row \<Rightarrow> signal_db \<Rightarrow> bool" where
  "scope_free r db \<longleftrightarrow> rr_enabled r \<longrightarrow>
     \<not> list_ex (\<lambda>g. rr_enabled g \<and> rr_scope_key g = rr_scope_key r \<and> rr_registration_id g \<noteq> rr_registration_id r) (db_registrations db)"

definition insert_registration :: "registration_row \<Rightarrow> stmt" where
  "insert_registration r = statement
     (\<lambda>db. registration_ok r \<and> scope_free r db \<and> \<not> list_ex (\<lambda>g. rr_registration_id g = rr_registration_id r) (db_registrations db))
     (db_registrations_update (\<lambda>rows. rows @ [r])) (\<lambda>_. 1)"

definition update_registration :: "registration_row \<Rightarrow> int \<Rightarrow> stmt" where
  "update_registration r previous =
     (let p = (\<lambda>g. rr_registration_id g = rr_registration_id r \<and> rr_revision g = previous);
          f = (\<lambda>g. g\<lparr>rr_active_generation := rr_active_generation r, rr_revision := rr_revision r, rr_enabled := rr_enabled r,
            rr_registration_json := rr_registration_json r\<rparr>) in
      statement (\<lambda>db. list_all (\<lambda>g. p g \<longrightarrow> registration_ok (f g) \<and> scope_free (f g) db) (db_registrations db))
        (db_registrations_update (sql_update p f)) (\<lambda>db. sql_changes p (db_registrations db)))"

definition insert_stream :: "stream_row \<Rightarrow> stmt" where
  "insert_stream s = statement
     (\<lambda>db. stream_ok s \<and> list_ex (\<lambda>g. rr_registration_id g = sr_registration_id s) (db_registrations db) \<and>
        \<not> stream_exists (sr_registration_id s) (sr_generation s) db \<and>
        (sr_state s = ACTIVE \<longrightarrow> \<not> list_ex (\<lambda>g. sr_registration_id g = sr_registration_id s \<and> sr_state g = ACTIVE) (db_streams db)))
     (db_streams_update (\<lambda>rows. rows @ [s])) (\<lambda>_. 1)"

definition active_generation :: "string \<Rightarrow> signal_db \<Rightarrow> int option" where
  "active_generation rid db = map_option rr_active_generation (find (\<lambda>g. rr_registration_id g = rid) (db_registrations db))"

definition retire_stream :: "string \<Rightarrow> string \<Rightarrow> stmt" where
  "retire_stream rid reason = (\<lambda>(db, n). update_streams (\<lambda>s. sr_registration_id s = rid \<and> Some (sr_generation s) = active_generation rid db)
     (\<lambda>s. s\<lparr>sr_state := RETIRED, sr_reason := Some reason, sr_revision := sr_revision s + 1\<rparr>) (db, n))"

definition install_statements :: "int \<Rightarrow> units \<Rightarrow> registration \<Rightarrow> string \<Rightarrow> string \<Rightarrow> string \<Rightarrow> stmt list" where
  "install_statements previousRevision registrationText r ns reason auditId =
     (let row = \<lparr>rr_registration_id = rg_registration_id r, rr_namespace = ns, rr_scope_key = rg_scope_key r,
            rr_active_generation = rg_generation r, rr_revision = rg_revision r, rr_enabled = rg_enabled r, rr_registration_json = registrationText\<rparr> in
      (if previousRevision = 0 then [insert_registration row]
       else [guard (\<lambda>db. list_ex (\<lambda>g. rr_registration_id g = rg_registration_id r \<and> rr_revision g = previousRevision \<and>
               rr_active_generation g < rg_generation r \<and> rr_namespace g = ns \<and> rr_scope_key g = rg_scope_key r) (db_registrations db)),
             retire_stream (rg_registration_id r) reason, guard_changes, update_registration row previousRevision, guard_changes]) @
      [insert_stream \<lparr>sr_registration_id = rg_registration_id r, sr_generation = rg_generation r, sr_registry_revision = rg_revision r,
         sr_revision = 1, sr_next_sequence = 1, sr_state = ACTIVE, sr_last_accepted_at = None, sr_reason = None\<rparr>,
       insert_audit \<lparr>sa_audit_id = auditId, sa_registration_id = rg_registration_id r, sa_generation = rg_generation r, sa_sequence = None,
         sa_body_sha256 = None, sa_reason = reason\<rparr>])"

definition installGeneration :: "int \<Rightarrow> registration \<Rightarrow> string \<Rightarrow> string \<Rightarrow> signal_db \<Rightarrow> signal_db option" where
  "installGeneration previousRevision next reason auditId db = do {
     r \<leftarrow> readRegistration (encode_units (registrationJson next));
     require (\<not> (\<not> is_safe_integer previousRevision \<or> previousRevision < 0 \<or> rg_revision r \<noteq> previousRevision + 1 \<or>
       reason = [] \<or> length reason > 160));
     scope \<leftarrow> read_scope (rg_scope_key r);
     ns \<leftarrow> read_field scope ''producer_namespace'' wire_identifier;
     (case db_batch (install_statements previousRevision (registrationJson next) r ns reason auditId) db of Inl _ \<Rightarrow> None | Inr db' \<Rightarrow> Some db') }"

end
