(* ===== verification/Signal_Delivery.thy ===== *)
theory Signal_Delivery
  imports Signal_Store
begin

text \<open>
  Delivery of admitted signals: the claim and settlement statements of \<open>signal-admission-store-v1.ts\<close> and the
  dispatcher of \<open>signal-admission-outbox-v1.ts\<close>. Clocks, the random claim token and the receiver's answer are
  arguments. Conditions on columns that are NULL are false, as in SQL.
\<close>

section \<open>Claiming and settling\<close>

definition dispatch_time_ok :: "int \<Rightarrow> bool" where
  "dispatch_time_ok now \<longleftrightarrow> \<not> (\<not> is_safe_integer now \<or> now < 0 \<or> now > MAX_SAFE_INTEGER - 30)"

text \<open>The stream is active under its registration, and the attempt is undisputed and reserved by this evidence.\<close>

definition deliverable :: "signal_db \<Rightarrow> signal_delivery \<Rightarrow> bool" where
  "deliverable db w \<longleftrightarrow> list_ex (\<lambda>r. rr_registration_id r = sd_registration_id w \<and> rr_namespace r = sd_namespace w \<and> rr_enabled r \<and>
     rr_active_generation r = sd_generation w \<and>
     list_ex (\<lambda>s. same_stream (sd_registration_id w) (sd_generation w) s \<and> sr_state s = ACTIVE \<and> sr_registry_revision s = rr_revision r) (db_streams db) \<and>
     list_ex (\<lambda>a. same_attempt (sd_namespace w) (sd_attempt_key w) a \<and> \<not> at_disputed a \<and> at_evidence_id a = Some (sd_evidence_id w))
       (db_attempts db)) (db_registrations db)"

definition last_seen :: "signal_delivery \<Rightarrow> int" where
  "last_seen w = (case sd_last_dispatch_at_epoch w of None \<Rightarrow> sd_admitted_at_epoch w | Some n \<Rightarrow> n)"

definition claim_status :: "signal_db \<Rightarrow> int \<Rightarrow> signal_delivery \<Rightarrow> signal_status" where
  "claim_status db now w =
     (if \<not> deliverable db w then S_QUARANTINED
      else if sd_expires_at_epoch w \<le> now then S_EXPIRED
      else if now < last_seen w then S_FAILED_TERMINAL
      else if sd_delivery_attempts w \<ge> 5 then S_FAILED_TERMINAL else S_CLAIMED)"

definition claimed_row :: "signal_db \<Rightarrow> int \<Rightarrow> string \<Rightarrow> signal_delivery \<Rightarrow> signal_delivery" where
  "claimed_row db now token w =
     (let state = claim_status db now w in
      w\<lparr>sd_status := state, sd_claim_token := (if state = S_CLAIMED then Some token else None),
        sd_lease_until_epoch := (if state = S_CLAIMED then Some (now + 30) else None),
        sd_delivery_attempts := sd_delivery_attempts w + (if state = S_CLAIMED then 1 else 0),
        sd_failure_reason := (if now < last_seen w then Some R_CLOCK_REGRESSION
          else if sd_delivery_attempts w \<ge> 5 then Some R_ATTEMPTS_EXHAUSTED else None),
        sd_last_dispatch_at_epoch := Some (max now (last_seen w))\<rparr>)"

definition claimable :: "signal_db \<Rightarrow> int \<Rightarrow> signal_delivery \<Rightarrow> bool" where
  "claimable db now w \<longleftrightarrow> open_delivery (sd_status w) \<and>
     ((sd_status w = S_PENDING \<or> sd_status w = S_RETRY) \<and> sd_next_attempt_at_epoch w \<le> now \<or>
      sd_status w = S_CLAIMED \<and> (case sd_lease_until_epoch w of None \<Rightarrow> False | Some l \<Rightarrow> l \<le> now) \<or>
      sd_expires_at_epoch w \<le> now \<or> \<not> deliverable db w \<or> now < last_seen w)"

definition delivery_order :: "signal_delivery \<Rightarrow> signal_delivery \<Rightarrow> int" where
  "delivery_order a b = or_else (sd_next_attempt_at_epoch a - sd_next_attempt_at_epoch b) (compare_units (sd_delivery_id a) (sd_delivery_id b))"

definition next_claim :: "signal_db \<Rightarrow> int \<Rightarrow> signal_delivery option" where
  "next_claim db now = (case js_sort delivery_order (filter (claimable db now) (db_outbox db)) of [] \<Rightarrow> None | w # _ \<Rightarrow> Some w)"

definition claimSignalDelivery :: "int \<Rightarrow> string \<Rightarrow> signal_db \<Rightarrow> (signal_db \<times> signal_delivery option) option" where
  "claimSignalDelivery now token db =
     (if \<not> dispatch_time_ok now then None
      else case next_claim db now of
          None \<Rightarrow> Some (db, None)
        | Some w \<Rightarrow> Some (db_outbox_update (sql_update (\<lambda>v. sd_delivery_id v = sd_delivery_id w) (claimed_row db now token)) db,
            Some (claimed_row db now token w)))"

definition settle_status :: "signal_db \<Rightarrow> int \<Rightarrow> signal_status \<Rightarrow> signal_delivery \<Rightarrow> signal_status" where
  "settle_status db now requested w =
     (if \<not> deliverable db w then S_QUARANTINED
      else if sd_expires_at_epoch w \<le> now then S_EXPIRED
      else if (case sd_last_dispatch_at_epoch w of None \<Rightarrow> False | Some l \<Rightarrow> now < l) then S_FAILED_TERMINAL
      else if requested = S_RETRY \<and> sd_delivery_attempts w \<ge> 5 then S_FAILED_TERMINAL else requested)"

definition settled_row :: "signal_db \<Rightarrow> int \<Rightarrow> signal_status \<Rightarrow> signal_delivery \<Rightarrow> signal_delivery" where
  "settled_row db now requested w =
     (let state = settle_status db now requested w in
      w\<lparr>sd_status := state, sd_claim_token := (if state = S_CLAIMED then sd_claim_token w else None),
        sd_lease_until_epoch := (if state = S_CLAIMED then sd_lease_until_epoch w else None),
        sd_next_attempt_at_epoch := (if state = S_RETRY then now + 2 ^ sd_delivery_attempts w else sd_next_attempt_at_epoch w),
        sd_failure_reason := (if (case sd_last_dispatch_at_epoch w of None \<Rightarrow> False | Some l \<Rightarrow> now < l) then Some R_CLOCK_REGRESSION
          else if requested = S_RETRY \<and> sd_delivery_attempts w \<ge> 5 then Some R_ATTEMPTS_EXHAUSTED
          else if requested = S_FAILED_TERMINAL then Some R_DELIVERY_FAILED else sd_failure_reason w),
        sd_last_dispatch_at_epoch := map_option (max now) (sd_last_dispatch_at_epoch w)\<rparr>)"

definition settleable :: "signal_db \<Rightarrow> int \<Rightarrow> string \<Rightarrow> signal_delivery \<Rightarrow> bool" where
  "settleable db now token w \<longleftrightarrow> sd_status w = S_CLAIMED \<and> sd_claim_token w = Some token \<and>
     ((case sd_lease_until_epoch w of None \<Rightarrow> False | Some l \<Rightarrow> l > now) \<or> sd_expires_at_epoch w \<le> now \<or> \<not> deliverable db w \<or>
      (case sd_last_dispatch_at_epoch w of None \<Rightarrow> False | Some l \<Rightarrow> now < l))"

definition settleSignalDelivery :: "string \<Rightarrow> signal_status \<Rightarrow> int \<Rightarrow> signal_db \<Rightarrow> (signal_db \<times> signal_status option) option" where
  "settleSignalDelivery token requested now db =
     (if \<not> dispatch_time_ok now then None
      else Some (db_outbox_update (sql_update (settleable db now token) (settled_row db now requested)) db,
        map_option (settle_status db now requested) (find (settleable db now token) (db_outbox db))))"

definition recheckSignalDelivery :: "string \<Rightarrow> int \<Rightarrow> signal_db \<Rightarrow> (signal_db \<times> bool) option" where
  "recheckSignalDelivery token now db = map_option (\<lambda>(db', s). (db', s = Some S_CLAIMED)) (settleSignalDelivery token S_CLAIMED now db)"

definition finalizeSignalDelivery :: "string \<Rightarrow> signal_status \<Rightarrow> int \<Rightarrow> signal_db \<Rightarrow> (signal_db \<times> bool) option" where
  "finalizeSignalDelivery token status now db = map_option (\<lambda>(db', s). (db', s = Some status)) (settleSignalDelivery token status now db)"

section \<open>The dispatcher\<close>

record receiver_answer =
  an_status :: int
  an_redirected :: bool
  an_body :: "nat list option"

definition ACK_LIMIT :: nat where "ACK_LIMIT = 16384"

definition expected_ack :: "signal_delivery \<Rightarrow> int \<Rightarrow> (string \<times> strict_json) list" where
  "expected_ack claim status =
     [(''schema_version'', SStr (units_of ''TradeOpsSignalDeliveryAckV1'')), (''authority'', SStr (units_of ''EVIDENCE_ONLY'')),
      (''execution_allowed'', SBool False), (''delivery_id'', SStr (units_of (sd_delivery_id claim))),
      (''delivery_body_sha256'', SStr (units_of (sd_delivery_body_sha256 claim))),
      (''status'', SStr (units_of (if status = 201 then ''STORED'' else ''DUPLICATE'')))]"

definition acknowledgment :: "receiver_answer \<Rightarrow> signal_delivery \<Rightarrow> bool" where
  "acknowledgment answer claim = (case an_body answer of
       None \<Rightarrow> False
     | Some bytes \<Rightarrow> length bytes \<le> ACK_LIMIT \<and> (case parse_outer bytes of
           None \<Rightarrow> False
         | Some value \<Rightarrow> length value = length (expected_ack claim (an_status answer)) \<and>
             list_all (\<lambda>(key, item). field_of value key = Some item) (expected_ack claim (an_status answer))))"

text \<open>\<open>None\<close> where the sender throws or the deadline passes first.\<close>

definition send_outcome :: "receiver_answer option \<Rightarrow> signal_delivery \<Rightarrow> signal_status" where
  "send_outcome answer claim = (case answer of
       None \<Rightarrow> S_RETRY
     | Some a \<Rightarrow>
         if an_redirected a \<or> an_status a \<ge> 300 \<and> an_status a < 400 then S_FAILED_TERMINAL
         else if an_status a = 408 \<or> an_status a = 429 \<or> an_status a \<ge> 500 then S_RETRY
         else if an_status a \<noteq> 200 \<and> an_status a \<noteq> 201 then S_FAILED_TERMINAL
         else if acknowledgment a claim then S_ACKNOWLEDGED else S_FAILED_TERMINAL)"

datatype dispatch_outcome = D_DISABLED | D_EMPTY | D_status signal_status

definition storedOutcome :: "signal_db \<Rightarrow> string \<Rightarrow> dispatch_outcome" where
  "storedOutcome db i = D_status (case find (\<lambda>w. sd_delivery_id w = i) (db_outbox db) of
       None \<Rightarrow> S_RETRY
     | Some w \<Rightarrow> if sd_status w \<in> {S_ACKNOWLEDGED, S_EXPIRED, S_FAILED_TERMINAL, S_QUARANTINED} then sd_status w else S_RETRY)"

text \<open>A whole dispatch without interference; \<open>None\<close> where a clock is out of range and the call throws.\<close>

definition dispatchSignalAdmission :: "int \<Rightarrow> int \<Rightarrow> int \<Rightarrow> string \<Rightarrow> receiver_answer option \<Rightarrow> signal_db option
    \<Rightarrow> (signal_db option \<times> dispatch_outcome) option" where
  "dispatchSignalAdmission claimAt checkAt finalAt token answer database = (case database of
       None \<Rightarrow> Some (None, D_DISABLED)
     | Some db \<Rightarrow> do {
         (db1, claim) \<leftarrow> claimSignalDelivery claimAt token db;
         case claim of
           None \<Rightarrow> Some (Some db1, D_EMPTY)
         | Some w \<Rightarrow>
             if sd_status w \<noteq> S_CLAIMED then Some (Some db1, D_status (sd_status w))
             else do {
               (db2, checked) \<leftarrow> settleSignalDelivery token S_CLAIMED checkAt db1;
               if checked \<noteq> Some S_CLAIMED then Some (Some db2, storedOutcome db2 (sd_delivery_id w))
               else do {
                 (db3, final) \<leftarrow> settleSignalDelivery token (send_outcome answer w) finalAt db2;
                 Some (Some db3, case final of
                     Some s \<Rightarrow> if s \<noteq> S_CLAIMED then D_status s else storedOutcome db3 (sd_delivery_id w)
                   | None \<Rightarrow> storedOutcome db3 (sd_delivery_id w)) } } })"

end
