(* ===== verification/Signal_System.thy ===== *)
theory Signal_System
  imports Signal_Admission Signal_Delivery
begin

text \<open>
  The signal path as a transition system: admissions, installations, claims and settlements in any
  order, by any number of workers. An admission step runs the batch of \<open>admitSignal\<close> for an arbitrary
  snapshot, so what holds along every run does not depend on what a worker has read or when. The
  properties are that accepted sequence numbers have no gap, that an attempt is delivered for one evidence
  only, that a stream which is no longer active sends nothing, and that a delivery is settled after a
  bounded number of statements.
\<close>

section \<open>Batches\<close>

definition preserves :: "(signal_db \<Rightarrow> bool) \<Rightarrow> stmt list \<Rightarrow> bool" where
  "preserves Q stmts \<longleftrightarrow> (\<forall>db n db' n'. Q db \<longrightarrow> run_batch stmts (db, n) = Inr (db', n') \<longrightarrow> Q db')"

named_theorems batch_rules \<open>predicates that statements preserve\<close>

lemma run_batch_append: "run_batch (xs @ ys) s = (case run_batch xs s of Inl e \<Rightarrow> Inl e | Inr t \<Rightarrow> run_batch ys t)"
  by (induction xs arbitrary: s) (auto split: sum.split)

lemma run_batch_append_Inr: "run_batch (xs @ ys) s = Inr u \<longleftrightarrow> (\<exists>t. run_batch xs s = Inr t \<and> run_batch ys t = Inr u)"
  by (auto simp: run_batch_append split: sum.split_asm)

lemma run_batch_single: "run_batch [f] s = f s"
  by (simp split: sum.split)

lemma preserves_Nil [batch_rules]: "preserves Q []"
  by (simp add: preserves_def)

lemma preserves_append [batch_rules]: "preserves Q xs \<Longrightarrow> preserves Q ys \<Longrightarrow> preserves Q (xs @ ys)"
  unfolding preserves_def run_batch_append_Inr by (metis surj_pair)

lemma preserves_Cons: "preserves Q [f] \<Longrightarrow> preserves Q fs \<Longrightarrow> preserves Q (f # fs)"
  using preserves_append[of Q "[f]" fs] by simp

lemmas preserves_Cons_Cons [batch_rules] = preserves_Cons[of _ _ "g # gs" for g gs]

lemma preserves_concat: "(\<And>x. x \<in> set xs \<Longrightarrow> preserves Q (f x)) \<Longrightarrow> preserves Q (concat (map f xs))"
  by (induction xs) (simp_all add: batch_rules)

lemma preserves_map: "(\<And>x. x \<in> set xs \<Longrightarrow> preserves Q [f x]) \<Longrightarrow> preserves Q (map f xs)"
  by (induction xs) (simp_all add: batch_rules preserves_Cons)

lemma preserves_guard [batch_rules]: "preserves Q [guard c]" "preserves Q [guard_changes]"
  by (auto simp: preserves_def guard_def guard_changes_def split: if_split_asm)

lemma preserves_statement: "(\<And>db. Q db \<Longrightarrow> allowed db \<Longrightarrow> Q (f db)) \<Longrightarrow> preserves Q [statement allowed f ch]"
  by (auto simp: preserves_def statement_def split: if_split_asm)

lemma preservesD: "preserves Q stmts \<Longrightarrow> run_batch stmts (db, n) = Inr (db', n') \<Longrightarrow> Q db \<Longrightarrow> Q db'"
  unfolding preserves_def by blast

lemma run_batch_guard: "run_batch (guard c # fs) (db, n) = Inr u \<longleftrightarrow> c db \<and> run_batch fs (db, 1) = Inr u"
  by (auto simp: guard_def)

lemma run_batch_statement:
  "run_batch (statement allowed f ch # fs) (db, n) = Inr u \<longleftrightarrow> allowed db \<and> run_batch fs (f db, ch db) = Inr u"
  by (auto simp: statement_def)

lemma run_batch_changes: "run_batch (guard_changes # fs) (db, n) = Inr u \<longleftrightarrow> n = 1 \<and> run_batch fs (db, 1) = Inr u"
  by (auto simp: guard_changes_def)

lemmas run_batch_steps = run_batch_guard run_batch_statement run_batch_changes

lemma fact_guards_keep: "run_batch (fact_guards ld) (db, 1) = Inr (db', n') \<Longrightarrow> db' = db"
  unfolding fact_guards_def by (rule preservesD[of "(=) db", THEN sym]) (auto intro!: preserves_concat batch_rules split: prod.split)

lemma db_batch_Inr: "db_batch stmts db = Inr db' \<longleftrightarrow> (\<exists>n. run_batch stmts (db, 0) = Inr (db', n))"
  by (auto simp: db_batch_def split: sum.split_asm)

lemma guarded_batch:
  assumes "db_batch (admission_guards t r ld @ stmts) db = Inr db'"
  obtains n n' where "stream_guard t r ld db" "receipt_guard t ld db" "run_batch stmts (db, n) = Inr (db', n')"
proof -
  from assms obtain n' where "run_batch (admission_guards t r ld @ stmts) (db, 0) = Inr (db', n')" unfolding db_batch_Inr by blast
  then obtain d n where g: "stream_guard t r ld db" "receipt_guard t ld db"
    "run_batch (fact_guards ld) (db, 1) = Inr (d, n)" "run_batch stmts (d, n) = Inr (db', n')"
    unfolding admission_guards_def append_Cons run_batch_guard run_batch_append_Inr by auto
  with fact_guards_keep[OF g(3)] that show ?thesis by blast
qed

section \<open>Steps\<close>

datatype signal_label =
    L_Admit transport registration int string loaded_snapshot admission_result
  | L_Install int registration string string
  | L_Claim int string
  | L_Settle string signal_status int

inductive signal_step :: "platform \<Rightarrow> validator \<Rightarrow> signal_db \<Rightarrow> signal_label \<Rightarrow> signal_db \<Rightarrow> bool" for P validate where
  step_admit: "admit_once P validate t r now auditId ld db = Answered result db' \<Longrightarrow>
     signal_step P validate db (L_Admit t r now auditId ld result) db'"
| step_install: "installGeneration previous next reason auditId db = Some db' \<Longrightarrow>
     signal_step P validate db (L_Install previous next reason auditId) db'"
| step_claim: "claimSignalDelivery now token db = Some (db', claim) \<Longrightarrow> signal_step P validate db (L_Claim now token) db'"
| step_settle: "requested \<in> {S_CLAIMED, S_ACKNOWLEDGED, S_RETRY, S_FAILED_TERMINAL} \<Longrightarrow>
     settleSignalDelivery token requested now db = Some (db', status) \<Longrightarrow>
     signal_step P validate db (L_Settle token requested now) db'"

inductive_cases admit_stepE: "signal_step P validate db (L_Admit t r now auditId ld result) db'"

definition empty_db :: signal_db where
  "empty_db = \<lparr>db_registrations = [], db_streams = [], db_receipts = [], db_evidence = [], db_attempts = [], db_outbox = [], db_links = [], db_audit = []\<rparr>"

text \<open>What an admission does to the database: nothing, or one of two batches.\<close>

lemma admit_once_cases:
  assumes "admit_once P validate t r now auditId ld db = Answered result db'"
  obtains (unchanged) "db' = db"
  | (quarantine) code keys where "db_batch (admission_guards t r ld @ quarantine_statements P t ld now auditId code keys @ [guard_changes]) db = Inr db'"
  | (commit) entries where "evaluateAdmission (validate (tp_evidence_bytes t) (rg_binding_bytes r)) t r (ld_snapshot ld) now = Commit entries"
      "sn_state (ld_snapshot ld) = ACTIVE" "result = admission_response (commit_outcome entries) None (Some (receipt_id_of P t)) False ACTIVE"
      "db_batch (admission_guards t r ld @ commit_statements P t ld now entries @ [guard_changes]) db = Inr db'"
proof -
  have batch: "db_batch stmts db = Inr db' \<and> res = result" if "apply_batch stmts res db = Answered result db'" for stmts res
    using that by (auto simp: apply_batch_def split: sum.split_asm batch_error.split_asm)
  show ?thesis
  proof (cases "evaluateAdmission (validate (tp_evidence_bytes t) (rg_binding_bytes r)) t r (ld_snapshot ld) now")
    case (Quarantine code keys)
    with assms batch show ?thesis
      by (auto simp: admit_once_def Let_def split: if_split_asm intro: unchanged quarantine)
  next
    case (Commit entries)
    with assms batch show ?thesis
      by (auto simp: admit_once_def Let_def split: if_split_asm intro: unchanged commit)
  qed (use assms in \<open>auto simp: admit_once_def Let_def intro: unchanged\<close>)
qed

lemma commit_sequence:
  "evaluateAdmission v t r s now = Commit entries \<Longrightarrow> tp_sequence t = sn_next_sequence s \<and> 1 \<le> tp_sequence t \<and> sn_existing_receipt s = None"
  by (auto simp: evaluateAdmission_def split: option.split_asm if_split_asm prod.split_asm sum.split_asm)
section \<open>Accepted sequence numbers\<close>

definition accepted_for :: "string \<Rightarrow> int \<Rightarrow> receipt_row \<Rightarrow> bool" where
  "accepted_for rid g c \<longleftrightarrow> rc_registration_id c = rid \<and> rc_generation c = g \<and> rc_outcome c \<noteq> Outcome_REJECTED"

definition stream_key :: "stream_row \<Rightarrow> string \<times> int" where
  "stream_key s = (sr_registration_id s, sr_generation s)"

definition accepted_upto :: "receipt_row list \<Rightarrow> stream_row \<Rightarrow> bool" where
  "accepted_upto receipts s \<longleftrightarrow> 1 \<le> sr_next_sequence s \<and>
     map rc_sequence (filter (accepted_for (sr_registration_id s) (sr_generation s)) receipts) = [1..sr_next_sequence s - 1]"

text \<open>
  Streams are unique, receipts have a stream, and the accepted receipts of a stream carry the sequence
  numbers below its next one, in order.
\<close>

definition gapless :: "stream_row list \<Rightarrow> receipt_row list \<Rightarrow> bool" where
  "gapless streams receipts \<longleftrightarrow> distinct (map stream_key streams) \<and>
     (\<forall>c \<in> set receipts. (rc_registration_id c, rc_generation c) \<in> stream_key ` set streams) \<and>
     (\<forall>s \<in> set streams. accepted_upto receipts s)"

definition gapless_db :: "signal_db \<Rightarrow> bool" where
  "gapless_db db \<longleftrightarrow> gapless (db_streams db) (db_receipts db)"

lemma stream_exists_key: "stream_exists rid g db \<longleftrightarrow> (rid, g) \<in> stream_key ` set (db_streams db)"
  by (auto simp: stream_exists_def same_stream_def stream_key_def list_ex_iff image_iff)

lemma keys_sql_update: "(\<And>s. stream_key (f s) = stream_key s) \<Longrightarrow> map stream_key (sql_update p f S) = map stream_key S"
  by (simp add: sql_update_def)

lemma key_set_update: "(\<And>s. stream_key (f s) = stream_key s) \<Longrightarrow> stream_key ` set (sql_update p f S) = stream_key ` set S"
  using keys_sql_update[of f p S] by (metis list.set_map)

lemma gapless_update:
  assumes "gapless S R" and key: "\<And>s. stream_key (f s) = stream_key s" and nxt: "\<And>s. sr_next_sequence (f s) = sr_next_sequence s"
  shows "gapless (sql_update p f S) R"
proof -
  have "accepted_upto R (f s) = accepted_upto R s" for s
    using key[of s] nxt[of s] by (simp add: accepted_upto_def stream_key_def)
  with assms show ?thesis
    unfolding gapless_def keys_sql_update[OF key] key_set_update[OF key] by (auto simp: set_sql_update)
qed

lemma gapless_reject:
  "gapless S R \<Longrightarrow> rc_outcome c = Outcome_REJECTED \<Longrightarrow> (rc_registration_id c, rc_generation c) \<in> stream_key ` set S \<Longrightarrow> gapless S (R @ [c])"
  by (auto simp: gapless_def accepted_upto_def accepted_for_def)

lemma gapless_new:
  assumes "gapless S R" "stream_key s \<notin> stream_key ` set S" "sr_next_sequence s = 1"
  shows "gapless (S @ [s]) R"
proof -
  have "filter (accepted_for (sr_registration_id s) (sr_generation s)) R = []"
    using assms(1,2) by (auto simp: filter_empty_conv accepted_for_def gapless_def stream_key_def[of s])
  with assms show ?thesis by (auto simp: gapless_def accepted_upto_def)
qed

lemma gapless_accept:
  assumes g: "gapless S R" and s: "s \<in> set S" "p s" "sr_next_sequence s = rc_sequence c"
    and c: "accepted_for (sr_registration_id s) (sr_generation s) c"
    and p: "\<And>r. p r \<Longrightarrow> stream_key r = stream_key s"
    and f: "\<And>r. stream_key (f r) = stream_key r" "\<And>r. sr_next_sequence (f r) = sr_next_sequence r + 1"
  shows "gapless (sql_update p f S) (R @ [c])"
proof -
  have one: "r = s" if "r \<in> set S" "stream_key r = stream_key s" for r
    using g that s(1) unfolding gapless_def distinct_map by (auto dest: inj_onD)
  have c': "rc_registration_id c = sr_registration_id s" "rc_generation c = sr_generation s" using c by (simp_all add: accepted_for_def)
  have same: "sr_registration_id (f r) = sr_registration_id r \<and> sr_generation (f r) = sr_generation r" for r
    using f(1)[of r] by (simp add: stream_key_def)
  have new: "accepted_upto (R @ [c]) (f s)"
    using g s c f(2)[of s] same[of s] by (auto simp: gapless_def accepted_upto_def upto_rec2)
  have old: "accepted_upto (R @ [c]) r" if "r \<in> set S" "r \<noteq> s" for r
    using g that one[OF that(1)] c' by (auto simp: gapless_def accepted_upto_def accepted_for_def stream_key_def)
  have each: "accepted_upto (R @ [c]) (if p r then f r else r)" if "r \<in> set S" for r
    using new old[OF that] one[OF that] p[of r] s(2) by (cases "r = s"; cases "p r") simp_all
  have "\<forall>r \<in> set (sql_update p f S). accepted_upto (R @ [c]) r" unfolding set_sql_update using each by blast
  moreover have "(rc_registration_id c, rc_generation c) \<in> stream_key ` set S"
    using s(1) c' by (auto simp: stream_key_def image_iff)
  ultimately show ?thesis
    using g unfolding gapless_def keys_sql_update[OF f(1)] key_set_update[OF f(1)] by simp
qed

lemma keeps_streams_receipts [batch_rules]:
  fixes S :: "stream_row list" and R :: "receipt_row list"
  defines "Q \<equiv> \<lambda>db. db_streams db = S \<and> db_receipts db = R"
  shows "preserves Q [insert_evidence e]" "preserves Q [insert_attempt a]" "preserves Q [insert_link l]" "preserves Q [insert_delivery w]"
    "preserves Q [reserve_attempt ns key i h tr sel]" "preserves Q [dispute_attempts pa]" "preserves Q [quarantine_deliveries pd]"
    "preserves Q [insert_audit au]"
  unfolding insert_evidence_def insert_attempt_def insert_link_def insert_delivery_def reserve_attempt_def dispute_attempts_def
    quarantine_deliveries_def insert_audit_def Q_def
  by (rule preserves_statement, simp)+

lemma entries_keep_streams: "preserves (\<lambda>db. db_streams db = S \<and> db_receipts db = R) (concat (map (entry_statements P t ld now) entries))"
  unfolding entry_statements_def Let_def
  by (intro preserves_concat batch_rules) (auto intro!: batch_rules split: entry_action.split option.split)


lemma keeps_gapless [batch_rules]:
  "preserves gapless_db [insert_evidence e]" "preserves gapless_db [insert_attempt a]" "preserves gapless_db [insert_link l]"
  "preserves gapless_db [insert_delivery w]" "preserves gapless_db [dispute_attempts pa]" "preserves gapless_db [quarantine_deliveries pd]"
  "preserves gapless_db [insert_audit au]" "preserves gapless_db [insert_registration r]" "preserves gapless_db [update_registration r previous]"
  unfolding insert_evidence_def insert_attempt_def insert_link_def insert_delivery_def dispute_attempts_def
    quarantine_deliveries_def insert_audit_def insert_registration_def update_registration_def Let_def gapless_db_def
  by (rule preserves_statement, simp)+

lemma keeps_gapless_update:
  "(\<And>s. stream_key (f s) = stream_key s) \<Longrightarrow> (\<And>s. sr_next_sequence (f s) = sr_next_sequence s) \<Longrightarrow> preserves gapless_db [update_streams p f]"
  unfolding update_streams_def by (rule preserves_statement) (simp add: gapless_db_def gapless_update)

lemma keeps_gapless_retire: "preserves gapless_db [retire_stream rid reason]"
proof -
  have "preserves gapless_db [update_streams p (\<lambda>s. s\<lparr>sr_state := RETIRED, sr_reason := Some reason, sr_revision := sr_revision s + 1\<rparr>)]" for p
    by (rule keeps_gapless_update) (simp_all add: stream_key_def)
  thus ?thesis unfolding preserves_def run_batch_single retire_stream_def by fastforce
qed

lemma keeps_gapless_rejected: "preserves gapless_db [insert_receipt (receipt_row_of P t now Outcome_REJECTED code)]"
  unfolding insert_receipt_def
  by (rule preserves_statement) (auto simp: receipt_allowed_def gapless_db_def stream_exists_key receipt_row_of_def intro!: gapless_reject)

lemma keeps_gapless_stream: "sr_next_sequence s = 1 \<Longrightarrow> preserves gapless_db [insert_stream s]"
  unfolding insert_stream_def
  by (rule preserves_statement) (auto simp: gapless_db_def stream_exists_key stream_key_def intro!: gapless_new)

lemma quarantine_gapless: "preserves gapless_db (quarantine_statements P t ld now auditId code keys)"
  unfolding quarantine_statements_def Let_def
  by (intro batch_rules preserves_map keeps_gapless_update)
    (auto intro!: batch_rules keeps_gapless_rejected simp: stream_key_def)

lemma install_gapless: "preserves gapless_db (install_statements previous text r ns reason auditId)"
  unfolding install_statements_def Let_def
  by (intro batch_rules keeps_gapless_stream) (auto intro!: batch_rules keeps_gapless_retire)

lemma commit_outcome_accepted: "commit_outcome entries \<noteq> Outcome_REJECTED"
  by (simp add: commit_outcome_def)

lemma accepted_receipt: "accepted_for rid g (receipt_row_of P t now (commit_outcome entries) None) \<longleftrightarrow> tp_registration_id t = rid \<and> tp_generation t = g"
  by (auto simp: accepted_for_def receipt_row_of_def commit_outcome_accepted)

lemma receipt_sequence: "rc_sequence (receipt_row_of P t now outcome code) = tp_sequence t"
  by (simp add: receipt_row_of_def)

text \<open>A committed batch: the receipt, the rows of the entries, and the next sequence number.\<close>

lemma commit_batch:
  assumes "run_batch (commit_statements P t ld now entries @ [guard_changes]) (db, n) = Inr (db', n')"
  obtains d m where "receipt_allowed (receipt_row_of P t now (commit_outcome entries) None) db"
    "run_batch (concat (map (entry_statements P t ld now) entries)) (db_receipts_update (\<lambda>rows. rows @ [receipt_row_of P t now (commit_outcome entries) None]) db, 1)
       = Inr (d, m)"
    "db_streams d = db_streams db" "db_receipts d = db_receipts db @ [receipt_row_of P t now (commit_outcome entries) None]"
    "db' = db_streams_update (sql_update (held_stream t ld) (accepted_stream now)) d"
proof -
  from assms obtain d m where a: "receipt_allowed (receipt_row_of P t now (commit_outcome entries) None) db"
    and b: "run_batch (concat (map (entry_statements P t ld now) entries)) (db_receipts_update (\<lambda>rows. rows @ [receipt_row_of P t now (commit_outcome entries) None]) db, 1)
       = Inr (d, m)"
    and c: "db' = db_streams_update (sql_update (held_stream t ld) (accepted_stream now)) d"
    unfolding commit_statements_def insert_receipt_def update_streams_def append_Cons append_assoc append_Nil
      run_batch_append_Inr run_batch_steps split_paired_Ex by auto
  from preservesD[OF entries_keep_streams b] have "db_streams d = db_streams db \<and> db_receipts d = db_receipts db @ [receipt_row_of P t now (commit_outcome entries) None]"
    by simp
  with that a b c show ?thesis by blast
qed

lemma commit_gapless:
  assumes "run_batch (commit_statements P t ld now entries @ [guard_changes]) (db, n) = Inr (db', n')"
    and guard: "stream_guard t r ld db" and seq: "tp_sequence t = sn_next_sequence (ld_snapshot ld)" and g: "gapless_db db"
  shows "gapless_db db'"
  using assms(1)
proof (rule commit_batch)
  fix d m
  let ?c = "receipt_row_of P t now (commit_outcome entries) None"
  assume d: "db_streams d = db_streams db" "db_receipts d = db_receipts db @ [?c]"
    "db' = db_streams_update (sql_update (held_stream t ld) (accepted_stream now)) d"
  from guard obtain s where s: "s \<in> set (db_streams db)" "same_stream (tp_registration_id t) (tp_generation t) s"
    "sr_revision s = ld_cas_revision ld" "sr_next_sequence s = sn_next_sequence (ld_snapshot ld)"
    by (auto simp: stream_guard_def list_ex_iff)
  have "gapless (sql_update (held_stream t ld) (accepted_stream now) (db_streams db))
     (db_receipts db @ [?c])"
    by (rule gapless_accept[where s = s])
      (use s g seq in \<open>auto simp: gapless_db_def accepted_receipt held_stream_def accepted_stream_def same_stream_def stream_key_def receipt_sequence\<close>)
  with d show "gapless_db db'" by (simp add: gapless_db_def)
qed

lemma admit_gapless:
  assumes "admit_once P validate t r now auditId ld db = Answered result db'" "gapless_db db"
  shows "gapless_db db'"
  using assms(1)
proof (cases rule: admit_once_cases)
  case (quarantine code keys)
  then show ?thesis
    by (rule guarded_batch) (use assms(2) in \<open>auto intro: preservesD[rotated] batch_rules quarantine_gapless\<close>)
next
  case (commit entries)
  from commit(4) show ?thesis
    by (rule guarded_batch) (use commit_sequence[OF commit(1)] assms(2) in \<open>auto intro: commit_gapless\<close>)
qed (use assms in simp)

lemma install_cases:
  assumes "installGeneration previous next reason auditId db = Some db'"
  obtains r ns n where "readRegistration (encode_units (registrationJson next)) = Some r"
    "run_batch (install_statements previous (registrationJson next) r ns reason auditId) (db, 0) = Inr (db', n)"
  using assms by (auto simp: installGeneration_def db_batch_def split: bind_split_asm sum.split_asm)

text \<open>The other statements write one table.\<close>

lemma claim_frame: "claimSignalDelivery now token db = Some (db', claim) \<Longrightarrow> \<exists>f. db' = db_outbox_update f db"
  by (auto simp: claimSignalDelivery_def split: if_split_asm option.split_asm intro: exI[of _ "\<lambda>x. x"])

lemma settle_frame: "settleSignalDelivery token requested now db = Some (db', status) \<Longrightarrow> \<exists>f. db' = db_outbox_update f db"
  by (auto simp: settleSignalDelivery_def split: if_split_asm)

interpretation gap: invariant_system "signal_step P validate" gapless_db for P validate
proof
  fix s l t
  assume "gapless_db s" "signal_step P validate s l t"
  from this(2,1) show "gapless_db t"
    by cases (auto dest!: claim_frame settle_frame elim!: install_cases dest: admit_gapless preservesD[OF install_gapless] simp: gapless_db_def[of "db_outbox_update _ _"] gapless_db_def[of s])
qed

section \<open>One delivery for an attempt\<close>

definition attempt_id :: "attempt_row \<Rightarrow> string \<times> string" where
  "attempt_id a = (at_namespace a, at_attempt_key a)"

definition delivery_attempt :: "signal_delivery \<Rightarrow> string \<times> string" where
  "delivery_attempt w = (sd_namespace w, sd_attempt_key w)"

definition reserved_by :: "attempt_row list \<Rightarrow> string \<times> string \<Rightarrow> string \<Rightarrow> bool" where
  "reserved_by rows key evidenceId \<longleftrightarrow> (\<exists>a \<in> set rows. attempt_id a = key \<and> at_evidence_id a = Some evidenceId)"

text \<open>Attempts and deliveries are unique, and every delivery is of the evidence that reserved its attempt.\<close>

definition reserved_db :: "signal_db \<Rightarrow> bool" where
  "reserved_db db \<longleftrightarrow> distinct (map attempt_id (db_attempts db)) \<and> distinct (map sd_delivery_id (db_outbox db)) \<and>
     distinct (map delivery_attempt (db_outbox db)) \<and>
     (\<forall>w \<in> set (db_outbox db). reserved_by (db_attempts db) (delivery_attempt w) (sd_evidence_id w))"

lemma same_attempt_id: "same_attempt ns key a \<longleftrightarrow> attempt_id a = (ns, key)"
  by (auto simp: same_attempt_def attempt_id_def)

text \<open>Columns of a delivery that no statement changes.\<close>

definition delivery_content :: "signal_delivery \<Rightarrow> (string \<times> string) \<times> string \<times> string \<times> int \<times> string \<times> string \<times> string \<times> string \<times> int \<times> int" where
  "delivery_content w = (delivery_attempt w, sd_delivery_id w, sd_registration_id w, sd_generation w, sd_receipt_id w, sd_evidence_id w,
     sd_delivery_body_sha256 w, sd_body w, sd_admitted_at_epoch w, sd_expires_at_epoch w)"

lemma content_eqD: "delivery_content v = delivery_content w \<Longrightarrow>
    sd_delivery_id v = sd_delivery_id w \<and> delivery_attempt v = delivery_attempt w \<and> sd_evidence_id v = sd_evidence_id w \<and>
    sd_registration_id v = sd_registration_id w \<and> sd_generation v = sd_generation w"
  by (simp add: delivery_content_def)

lemma same_contents:
  assumes "map delivery_content ws = map delivery_content vs"
  shows "map sd_delivery_id ws = map sd_delivery_id vs" "map delivery_attempt ws = map delivery_attempt vs"
    "map sd_evidence_id ws = map sd_evidence_id vs"
proof -
  have "map (h \<circ> delivery_content) ws = map (h \<circ> delivery_content) vs" for h :: "_ \<Rightarrow> 'z"
    using assms by (metis map_map)
  note eq = this[unfolded comp_def delivery_content_def]
  from eq[of "\<lambda>(a, i, _). i"] eq[of "\<lambda>(a, _). a"] eq[of "\<lambda>(a, i, r, g, c, e, _). e"]
  show "map sd_delivery_id ws = map sd_delivery_id vs" "map delivery_attempt ws = map delivery_attempt vs"
    "map sd_evidence_id ws = map sd_evidence_id vs"
    by simp_all
qed

lemma reserved_all:
  "(\<forall>w \<in> set ws. reserved_by as (delivery_attempt w) (sd_evidence_id w)) \<longleftrightarrow>
   list_all (\<lambda>(k, e). reserved_by as k e) (zip (map delivery_attempt ws) (map sd_evidence_id ws))"
  by (induction ws) auto

lemma reserved_contents:
  "map delivery_content (db_outbox db') = map delivery_content (db_outbox db) \<Longrightarrow> db_attempts db' = db_attempts db \<Longrightarrow> reserved_db db' = reserved_db db"
  unfolding reserved_db_def reserved_all by (metis same_contents)

lemma contents_update:
  "(\<And>w. p w \<Longrightarrow> delivery_content (f w) = delivery_content w) \<Longrightarrow> map delivery_content (sql_update p f ws) = map delivery_content ws"
  by (simp add: sql_update_def)

lemma attempt_ids_update: "(\<And>a. attempt_id (f a) = attempt_id a) \<Longrightarrow> map attempt_id (sql_update p f as) = map attempt_id as"
  by (simp add: sql_update_def)

lemma reserved_by_update:
  assumes "reserved_by as key i" and id: "\<And>a. attempt_id (f a) = attempt_id a"
    and keep: "\<And>a j. p a \<Longrightarrow> at_evidence_id a = Some j \<Longrightarrow> at_evidence_id (f a) = Some j"
  shows "reserved_by (sql_update p f as) key i"
proof -
  from assms(1) obtain a where a: "a \<in> set as" "attempt_id a = key" "at_evidence_id a = Some i" by (auto simp: reserved_by_def)
  hence "(if p a then f a else a) \<in> set (sql_update p f as)" by (simp add: set_sql_update)
  with a id[of a] keep[of a i] show ?thesis unfolding reserved_by_def by (auto split: if_split_asm)
qed

lemma reserved_attempts_update:
  assumes "reserved_db db" "\<And>a. attempt_id (f a) = attempt_id a"
    "\<And>a j. p a \<Longrightarrow> at_evidence_id a = Some j \<Longrightarrow> at_evidence_id (f a) = Some j"
  shows "reserved_db (db_attempts_update (sql_update p f) db)"
  using assms(1) reserved_by_update[OF _ assms(2,3)] by (simp add: reserved_db_def attempt_ids_update[OF assms(2)])

lemma keeps_reserved [batch_rules]:
  "preserves reserved_db [insert_receipt c]" "preserves reserved_db [insert_evidence e]" "preserves reserved_db [insert_link l]"
  "preserves reserved_db [insert_audit au]" "preserves reserved_db [insert_registration r]" "preserves reserved_db [update_registration r previous]"
  "preserves reserved_db [insert_stream s]" "preserves reserved_db [update_streams p f]" "preserves reserved_db [retire_stream rid reason]"
  unfolding preserves_def run_batch_single retire_stream_def insert_receipt_def insert_evidence_def insert_link_def insert_audit_def
    insert_registration_def update_registration_def insert_stream_def update_streams_def statement_def Let_def reserved_db_def
  by (auto split: if_split_asm)

lemma keeps_reserved_attempt [batch_rules]: "preserves reserved_db [insert_attempt a]"
  unfolding insert_attempt_def
  by (rule preserves_statement)
    (auto simp: reserved_db_def attempt_allowed_def attempt_exists_def same_attempt_id list_ex_iff attempt_id_def[of a] image_iff reserved_by_def)

lemma keeps_reserved_dispute [batch_rules]: "preserves reserved_db [dispute_attempts pa]"
  unfolding dispute_attempts_def by (rule preserves_statement) (auto intro!: reserved_attempts_update simp: attempt_id_def)

lemma keeps_reserved_quarantine [batch_rules]: "preserves reserved_db [quarantine_deliveries pd]"
proof -
  have "reserved_db (db_outbox_update (sql_update p (\<lambda>w. w\<lparr>sd_status := S_QUARANTINED, sd_claim_token := None, sd_lease_until_epoch := None\<rparr>)) db) = reserved_db db"
    for p db
    by (rule reserved_contents) (simp_all add: contents_update delivery_content_def delivery_attempt_def)
  thus ?thesis unfolding quarantine_deliveries_def by (intro preserves_statement) simp
qed

text \<open>A delivery is inserted right after the statement that reserves its attempt.\<close>

lemma changed_row: "sql_changes p rows = 1 \<Longrightarrow> \<exists>a \<in> set rows. p a"
  by (auto simp: sql_changes_def length_Suc_conv filter_eq_Cons_iff)

lemma reserve_then_insert [batch_rules]:
  assumes "delivery_attempt w = (ns, key)" "sd_evidence_id w = i"
  shows "preserves reserved_db [reserve_attempt ns key i h tr sel, guard_changes, insert_delivery w]"
proof -
  let ?p = "\<lambda>a. same_attempt ns key a \<and> at_evidence_id a = None \<and> \<not> at_disputed a"
  let ?f = "\<lambda>a. a\<lparr>at_evidence_id := Some i, at_evidence_hash := Some h, at_trigger_epoch := tr, at_selection_key := sel\<rparr>"
  have "reserved_db (db_outbox_update (\<lambda>rows. rows @ [w]) (db_attempts_update (sql_update ?p ?f) db))"
    if db: "reserved_db db" and n: "sql_changes ?p (db_attempts db) = 1" and ok: "delivery_allowed w (db_attempts_update (sql_update ?p ?f) db)" for db
  proof -
    have r: "reserved_db (db_attempts_update (sql_update ?p ?f) db)"
      by (rule reserved_attempts_update[OF db]) (simp_all add: attempt_id_def)
    from n obtain a where a: "a \<in> set (db_attempts db)" "?p a"
      using changed_row[OF n] by blast
    hence "?f a \<in> set (sql_update ?p ?f (db_attempts db))" unfolding set_sql_update image_iff by (intro bexI[of _ a]) simp_all
    moreover from a have "attempt_id (?f a) = (ns, key)" by (simp add: attempt_id_def same_attempt_def)
    ultimately have "reserved_by (sql_update ?p ?f (db_attempts db)) (delivery_attempt w) (sd_evidence_id w)"
      unfolding reserved_by_def assms by (intro bexI) simp_all
    with r ok show ?thesis
      by (auto simp: reserved_db_def delivery_allowed_def delivery_attempt_def list_ex_iff)
  qed
  thus ?thesis
    unfolding preserves_def reserve_attempt_def insert_delivery_def run_batch_steps by auto
qed

lemma new_delivery_key: "delivery_attempt (new_delivery P t ns now x e) = (ns, se_attempt_key e)" "sd_evidence_id (new_delivery P t ns now x e) = se_evidence_id e"
  by (simp_all add: new_delivery_def delivery_attempt_def Let_def)

lemma entry_reserved: "preserves reserved_db (entry_statements P t ld now d)"
  unfolding entry_statements_def Let_def
  by (intro preserves_append) (auto intro!: batch_rules simp: new_delivery_key split: entry_action.split option.split)

lemma admission_reserved:
  "preserves reserved_db (quarantine_statements P t ld now auditId code keys)" "preserves reserved_db (commit_statements P t ld now entries)"
  "preserves reserved_db (install_statements previous text r ns reason auditId)"
  unfolding quarantine_statements_def commit_statements_def install_statements_def Let_def
  by (intro batch_rules preserves_map preserves_Cons preserves_concat entry_reserved; auto intro!: batch_rules)+


text \<open>Admissions and installations preserve what their batches preserve.\<close>

lemma admit_preserves:
  assumes "admit_once P validate t r now auditId ld db = Answered result db'" "Q db"
    and "\<And>code keys. preserves Q (quarantine_statements P t ld now auditId code keys)" "\<And>entries. preserves Q (commit_statements P t ld now entries)"
  shows "Q db'"
  using assms(1)
proof (cases rule: admit_once_cases)
  case (quarantine code keys)
  then show ?thesis by (rule guarded_batch) (rule preservesD[OF preserves_append[OF assms(3) preserves_guard(2)] _ assms(2)])
next
  case (commit entries)
  from commit(4) show ?thesis by (rule guarded_batch) (rule preservesD[OF preserves_append[OF assms(4) preserves_guard(2)] _ assms(2)])
qed (use assms in simp)

text \<open>Deliveries keep their contents and their order.\<close>

lemma claim_contents:
  assumes "claimSignalDelivery now token db = Some (db', claim)"
  shows "map delivery_content (db_outbox db') = map delivery_content (db_outbox db)" "db_attempts db' = db_attempts db"
proof -
  have "delivery_content (claimed_row db now token w) = delivery_content w" for w
    by (simp add: claimed_row_def delivery_content_def delivery_attempt_def Let_def)
  with assms show "map delivery_content (db_outbox db') = map delivery_content (db_outbox db)" "db_attempts db' = db_attempts db"
    by (auto simp: claimSignalDelivery_def contents_update split: if_split_asm option.split_asm)
qed

lemma settle_contents:
  assumes "settleSignalDelivery token requested now db = Some (db', status)"
  shows "map delivery_content (db_outbox db') = map delivery_content (db_outbox db)" "db_attempts db' = db_attempts db"
proof -
  have "delivery_content (settled_row db now requested w) = delivery_content w" for w
    by (simp add: settled_row_def delivery_content_def delivery_attempt_def Let_def)
  with assms show "map delivery_content (db_outbox db') = map delivery_content (db_outbox db)" "db_attempts db' = db_attempts db"
    by (auto simp: settleSignalDelivery_def contents_update split: if_split_asm)
qed

interpretation res: invariant_system "signal_step P validate" reserved_db for P validate
proof
  fix s l t
  assume "reserved_db s" "signal_step P validate s l t"
  from this(2,1) show "reserved_db t"
  proof cases
    case (step_admit u r now auditId ld result)
    from step_admit(2) \<open>reserved_db s\<close> show ?thesis by (rule admit_preserves) (rule admission_reserved)+
  next
    case (step_install previous nextReg reason auditId)
    from step_install(2) show ?thesis by (rule install_cases) (rule preservesD[OF admission_reserved(3) _ \<open>reserved_db s\<close>])
  next
    case (step_claim now token claim)
    from reserved_contents[OF claim_contents[OF step_claim(2)]] \<open>reserved_db s\<close> show ?thesis by simp
  next
    case (step_settle requested token now status)
    from reserved_contents[OF settle_contents[OF step_settle(3)]] \<open>reserved_db s\<close> show ?thesis by simp
  qed
qed

text \<open>Contents of deliveries are only ever added.\<close>

definition contents_from :: "((string \<times> string) \<times> string \<times> string \<times> int \<times> string \<times> string \<times> string \<times> string \<times> int \<times> int) list \<Rightarrow> signal_db \<Rightarrow> bool" where
  "contents_from cs db \<longleftrightarrow> (\<exists>new. map delivery_content (db_outbox db) = cs @ new)"

lemma keeps_contents [batch_rules]:
  "preserves (contents_from cs) [insert_receipt c]" "preserves (contents_from cs) [insert_evidence e]" "preserves (contents_from cs) [insert_link l]"
  "preserves (contents_from cs) [insert_audit au]" "preserves (contents_from cs) [insert_registration r]" "preserves (contents_from cs) [update_registration r previous]"
  "preserves (contents_from cs) [insert_stream s]" "preserves (contents_from cs) [update_streams p f]" "preserves (contents_from cs) [retire_stream rid reason]"
  "preserves (contents_from cs) [insert_attempt a]" "preserves (contents_from cs) [dispute_attempts pa]"
  "preserves (contents_from cs) [reserve_attempt ns key i h tr sel]"
  unfolding preserves_def run_batch_single retire_stream_def insert_receipt_def insert_evidence_def insert_link_def insert_audit_def
    insert_registration_def update_registration_def insert_stream_def update_streams_def insert_attempt_def dispute_attempts_def
    reserve_attempt_def statement_def Let_def contents_from_def
  by (auto split: if_split_asm)

lemma keeps_contents_rows [batch_rules]: "preserves (contents_from cs) [insert_delivery w]" "preserves (contents_from cs) [quarantine_deliveries pd]"
  unfolding insert_delivery_def quarantine_deliveries_def
  by (rule preserves_statement; simp add: contents_from_def contents_update delivery_content_def delivery_attempt_def; force)+

lemma entry_contents: "preserves (contents_from cs) (entry_statements P t ld now d)"
  unfolding entry_statements_def Let_def
  by (intro preserves_append) (auto intro!: batch_rules split: entry_action.split option.split)

lemma admission_contents:
  "preserves (contents_from cs) (quarantine_statements P t ld now auditId code keys)" "preserves (contents_from cs) (commit_statements P t ld now entries)"
  "preserves (contents_from cs) (install_statements previous text r ns reason auditId)"
  unfolding quarantine_statements_def commit_statements_def install_statements_def Let_def
  by (intro batch_rules preserves_map preserves_Cons preserves_concat entry_contents; auto intro!: batch_rules)+

interpretation con: invariant_system "signal_step P validate" "contents_from cs" for P validate cs
proof
  fix s l t
  assume c: "contents_from cs s" and "signal_step P validate s l t"
  from this(2) show "contents_from cs t"
  proof cases
    case (step_admit u r now auditId ld result)
    from step_admit(2) c show ?thesis by (rule admit_preserves) (rule admission_contents)+
  next
    case (step_install previous nextReg reason auditId)
    from step_install(2) show ?thesis by (rule install_cases) (rule preservesD[OF admission_contents(3) _ c])
  qed (use c in \<open>simp_all add: contents_from_def claim_contents settle_contents\<close>)
qed


end
