(* ===== verification/Signal_Runs.thy ===== *)
theory Signal_Runs
  imports Signal_System
begin

text \<open>
  What happens to one delivery, one stream and one request over a whole run of the signal path: a delivery
  changes its status a bounded number of times, a stream that is no longer active sends nothing, and a
  request that was accepted is answered as a duplicate ever after.
\<close>

section \<open>Progress of a delivery\<close>

definition progress :: "signal_delivery \<Rightarrow> signal_status \<times> nat" where
  "progress w = (sd_status w, sd_delivery_attempts w)"

definition bounded_row :: "signal_delivery \<Rightarrow> bool" where
  "bounded_row w \<longleftrightarrow> sd_delivery_attempts w \<le> 5 \<and> (sd_status w = S_PENDING \<or> sd_status w = S_RETRY \<longrightarrow> sd_delivery_attempts w < 5)"

definition delivery_rank :: "signal_delivery \<Rightarrow> nat" where
  "delivery_rank w = (if sd_status w = S_CLAIMED then 2 * (5 - sd_delivery_attempts w) + 1
     else if open_delivery (sd_status w) then 2 * (5 - sd_delivery_attempts w) else 0)"

definition moves :: "signal_delivery \<Rightarrow> signal_delivery \<Rightarrow> bool" where
  "moves w v \<longleftrightarrow> sd_delivery_id v = sd_delivery_id w \<and> (progress v = progress w \<or> delivery_rank v < delivery_rank w)"

definition moved_from :: "signal_delivery list \<Rightarrow> signal_db \<Rightarrow> bool" where
  "moved_from ws db \<longleftrightarrow> (\<forall>w \<in> set (db_outbox db). bounded_row w) \<and>
     (\<exists>vs new. db_outbox db = vs @ new \<and> list_all2 moves ws vs \<and> (\<forall>w \<in> set new. delivery_rank w \<le> 10))"

lemma rank_progress: "progress v = progress w \<Longrightarrow> delivery_rank v = delivery_rank w"
  by (simp add: progress_def delivery_rank_def)

lemma moves_refl: "moves w w"
  by (simp add: moves_def)

lemma moves_trans: "moves u v \<Longrightarrow> moves v w \<Longrightarrow> moves u w"
  unfolding moves_def by (metis less_trans rank_progress)

lemma moves_rank: "moves w v \<Longrightarrow> delivery_rank v \<le> delivery_rank w"
  unfolding moves_def using rank_progress[of v w] by auto

lemma closed_moves: "bounded_row w \<Longrightarrow> open_delivery (sd_status w) \<Longrightarrow> \<not> open_delivery (sd_status v) \<Longrightarrow> sd_delivery_id v = sd_delivery_id w \<Longrightarrow> moves w v"
  by (auto simp: moves_def delivery_rank_def bounded_row_def open_delivery_def)

lemma moved_update:
  assumes m: "moved_from ws db" and f: "\<And>w. w \<in> set (db_outbox db) \<Longrightarrow> p w \<Longrightarrow> bounded_row w \<Longrightarrow> bounded_row (f w) \<and> moves w (f w)"
  shows "moved_from ws (db_outbox_update (sql_update p f) db)"
proof -
  let ?g = "\<lambda>w. if p w then f w else w"
  from m obtain vs new where o: "db_outbox db = vs @ new" "list_all2 moves ws vs" "\<forall>w \<in> set new. delivery_rank w \<le> 10"
    and b: "\<forall>w \<in> set (db_outbox db). bounded_row w" by (auto simp: moved_from_def)
  have g: "bounded_row (?g w) \<and> moves w (?g w)" if "w \<in> set (db_outbox db)" for w
    using f[OF that] b that by (simp add: moves_refl)
  have "list_all2 moves ws (map ?g vs)"
    unfolding list_all2_map2
    by (rule list.rel_mono_strong[OF o(2)], rule moves_trans, assumption, rule conjunct2[OF g]) (simp add: o(1))
  moreover have "\<forall>w \<in> set (map ?g new). delivery_rank w \<le> 10"
    using o(1,3) g by (fastforce dest: moves_rank)
  moreover have "\<forall>w \<in> set (map ?g (db_outbox db)). bounded_row w" unfolding set_map using g by blast
  ultimately show ?thesis unfolding moved_from_def sql_update_def using o(1) by (auto 0 3)
qed

lemma moved_insert:
  assumes "moved_from ws db" "bounded_row w" "delivery_rank w \<le> 10"
  shows "moved_from ws (db_outbox_update (\<lambda>rows. rows @ [w]) db)"
proof -
  from assms(1) obtain vs new where o: "db_outbox db = vs @ new" "list_all2 moves ws vs" "\<forall>w \<in> set new. delivery_rank w \<le> 10"
    and b: "\<forall>w \<in> set (db_outbox db). bounded_row w" by (auto simp: moved_from_def)
  have "db_outbox (db_outbox_update (\<lambda>rows. rows @ [w]) db) = vs @ (new @ [w])" "\<forall>v \<in> set (new @ [w]). delivery_rank v \<le> 10"
    "\<forall>v \<in> set (db_outbox (db_outbox_update (\<lambda>rows. rows @ [w]) db)). bounded_row v"
    using o b assms(2,3) by auto
  with o(2) show ?thesis unfolding moved_from_def by blast
qed

lemma keeps_moved [batch_rules]:
  "preserves (moved_from ws) [insert_receipt c]" "preserves (moved_from ws) [insert_evidence e]" "preserves (moved_from ws) [insert_link l]"
  "preserves (moved_from ws) [insert_audit au]" "preserves (moved_from ws) [insert_registration r]" "preserves (moved_from ws) [update_registration r previous]"
  "preserves (moved_from ws) [insert_stream s]" "preserves (moved_from ws) [update_streams p f]" "preserves (moved_from ws) [retire_stream rid reason]"
  "preserves (moved_from ws) [insert_attempt a]" "preserves (moved_from ws) [dispute_attempts pa]"
  "preserves (moved_from ws) [reserve_attempt ns key i h tr sel]"
  unfolding preserves_def run_batch_single retire_stream_def insert_receipt_def insert_evidence_def insert_link_def insert_audit_def
    insert_registration_def update_registration_def insert_stream_def update_streams_def insert_attempt_def dispute_attempts_def
    reserve_attempt_def statement_def Let_def moved_from_def
  by (auto split: if_split_asm)

lemma keeps_moved_quarantine [batch_rules]: "preserves (moved_from ws) [quarantine_deliveries pd]"
  unfolding quarantine_deliveries_def
  by (rule preserves_statement, erule moved_update, rule conjI)
    (auto simp: bounded_row_def intro: closed_moves simp: open_delivery_def)

lemma keeps_moved_new [batch_rules]: "preserves (moved_from ws) [insert_delivery (new_delivery P t ns now x e)]"
  unfolding insert_delivery_def
  by (rule preserves_statement, erule moved_insert) (simp_all add: new_delivery_def bounded_row_def delivery_rank_def Let_def open_delivery_def)

lemma entry_moved: "preserves (moved_from ws) (entry_statements P t ld now d)"
  unfolding entry_statements_def Let_def
  by (intro preserves_append) (auto intro!: batch_rules split: entry_action.split option.split)

lemma admission_moved:
  "preserves (moved_from ws) (quarantine_statements P t ld now auditId code keys)" "preserves (moved_from ws) (commit_statements P t ld now entries)"
  "preserves (moved_from ws) (install_statements previous text r ns reason auditId)"
  unfolding quarantine_statements_def commit_statements_def install_statements_def Let_def
  by (intro batch_rules preserves_map preserves_Cons preserves_concat entry_moved; auto intro!: batch_rules)+

lemma claimed_moves:
  assumes "claimable db now w" "bounded_row w"
  shows "bounded_row (claimed_row db now token w) \<and> moves w (claimed_row db now token w)"
proof (cases "claim_status db now w = S_CLAIMED")
  case True
  hence "sd_delivery_attempts w < 5" by (auto simp: claim_status_def split: if_split_asm)
  with True assms show ?thesis
    by (auto simp: claimed_row_def Let_def bounded_row_def moves_def delivery_rank_def claimable_def open_delivery_def)
next
  case False
  hence c: "\<not> open_delivery (claim_status db now w)" by (simp add: claim_status_def open_delivery_def)
  from assms have "moves w (claimed_row db now token w)"
    by (intro closed_moves) (simp_all add: claimable_def claimed_row_def Let_def c)
  moreover have "bounded_row (claimed_row db now token w)"
    using assms(2) c by (auto simp: bounded_row_def claimed_row_def Let_def open_delivery_def)
  ultimately show ?thesis by simp
qed

lemma next_claim_row: "next_claim db now = Some w \<Longrightarrow> w \<in> set (db_outbox db) \<and> claimable db now w"
proof -
  assume "next_claim db now = Some w"
  hence "w \<in> set (js_sort delivery_order (filter (claimable db now) (db_outbox db)))"
    by (auto simp: next_claim_def split: list.split_asm simp del: set_js_sort)
  thus ?thesis by simp
qed

lemma claim_moved:
  assumes "claimSignalDelivery now token db = Some (db', claim)" "moved_from ws db"
    and ids: "distinct (map sd_delivery_id (db_outbox db))"
  shows "moved_from ws db'"
proof (cases "next_claim db now")
  case (Some w)
  note w = next_claim_row[OF Some]
  have "v = w" if "v \<in> set (db_outbox db)" "sd_delivery_id v = sd_delivery_id w" for v
    using that w ids by (auto simp: distinct_map dest: inj_onD)
  with w have "moved_from ws (db_outbox_update (sql_update (\<lambda>v. sd_delivery_id v = sd_delivery_id w) (claimed_row db now token)) db)"
    by (intro moved_update[OF assms(2)] claimed_moves) auto
  with assms(1) Some show ?thesis by (auto simp: claimSignalDelivery_def split: if_split_asm)
qed (use assms in \<open>auto simp: claimSignalDelivery_def split: if_split_asm\<close>)

lemma settle_moved:
  assumes "settleSignalDelivery token requested now db = Some (db', status)" "moved_from ws db" "requested \<in> {S_CLAIMED, S_ACKNOWLEDGED, S_RETRY, S_FAILED_TERMINAL}"
  shows "moved_from ws db'"
proof -
  have "bounded_row (settled_row db now requested w) \<and> moves w (settled_row db now requested w)" if "settleable db now token w" "bounded_row w" for w
    using that assms(3) 
    by (auto simp: settleable_def settled_row_def settle_status_def Let_def moves_def bounded_row_def progress_def delivery_rank_def open_delivery_def)
  with assms show ?thesis by (auto simp: settleSignalDelivery_def split: if_split_asm intro!: moved_update)
qed


text \<open>What is stored of a delivery, by its identifier, and how far it is from settled.\<close>

definition progress_of :: "string \<Rightarrow> signal_db \<Rightarrow> (signal_status \<times> nat) option" where
  "progress_of i db = map_option progress (find (\<lambda>w. sd_delivery_id w = i) (db_outbox db))"

definition rank_of :: "string \<Rightarrow> signal_db \<Rightarrow> nat" where
  "rank_of i db = (case find (\<lambda>w. sd_delivery_id w = i) (db_outbox db) of None \<Rightarrow> 11 | Some w \<Rightarrow> delivery_rank w)"

definition delivery_inv :: "signal_db \<Rightarrow> bool" where
  "delivery_inv db \<longleftrightarrow> reserved_db db \<and> (\<forall>w \<in> set (db_outbox db). bounded_row w)"

lemma find_rows_append: "find q (xs @ ys) = (case find q xs of None \<Rightarrow> find q ys | Some x \<Rightarrow> Some x)"
  by (induction xs) auto

lemma find_moves:
  "list_all2 moves ws vs \<Longrightarrow> rel_option moves (find (\<lambda>w. sd_delivery_id w = i) ws) (find (\<lambda>w. sd_delivery_id w = i) vs)"
  by (induction rule: list_all2_induct) (auto simp: moves_def)

lemma moved_rank:
  assumes "moved_from (db_outbox s) t"
  shows "rank_of i t \<le> rank_of i s \<and> (progress_of i s \<noteq> progress_of i t \<longrightarrow> rank_of i t < rank_of i s)"
proof -
  from assms obtain vs new where o: "db_outbox t = vs @ new" "list_all2 moves (db_outbox s) vs" "\<forall>w \<in> set new. delivery_rank w \<le> 10"
    by (auto simp: moved_from_def)
  note fs = find_moves[OF o(2), of i]
  show ?thesis
  proof (cases "find (\<lambda>w. sd_delivery_id w = i) (db_outbox s)")
    case None
    with fs have t: "find (\<lambda>w. sd_delivery_id w = i) (db_outbox t) = find (\<lambda>w. sd_delivery_id w = i) new" by (simp add: o(1) find_rows_append)
    show ?thesis
    proof (cases "find (\<lambda>w. sd_delivery_id w = i) new")
      case (Some w)
      hence "delivery_rank w \<le> 10" using o(3) by (auto simp: find_Some_iff)
      with Some None t show ?thesis by (simp add: rank_of_def)
    qed (simp add: rank_of_def progress_of_def t None)
  next
    case (Some w)
    with fs obtain v where "find (\<lambda>w. sd_delivery_id w = i) vs = Some v" "moves w v" by (auto simp: option_rel_Some1)
    with Some show ?thesis
      using moves_rank[of w v] by (auto simp: rank_of_def progress_of_def o(1) find_rows_append moves_def)
  qed
qed

lemma step_moved:
  assumes "signal_step P validate s l t" "delivery_inv s"
  shows "moved_from (db_outbox s) t"
proof -
  have m: "moved_from (db_outbox s) s"
    using assms(2) by (auto simp: delivery_inv_def moved_from_def list_all2_same moves_refl intro: exI[of _ "db_outbox s"])
  from assms(1) show ?thesis
  proof cases
    case (step_admit u r now auditId ld result)
    from step_admit(2) m show ?thesis by (rule admit_preserves) (rule admission_moved)+
  next
    case (step_install previous nextReg reason auditId)
    from step_install(2) show ?thesis by (rule install_cases) (rule preservesD[OF admission_moved(3) _ m])
  next
    case (step_claim now token claim)
    with m assms(2) show ?thesis by (auto simp: delivery_inv_def reserved_db_def intro: claim_moved)
  next
    case (step_settle requested token now status)
    with m show ?thesis by (auto intro: settle_moved)
  qed
qed

interpretation delivery: ranked_system "signal_step P validate" delivery_inv "rank_of i" "\<lambda>s t. progress_of i s \<noteq> progress_of i t" for P validate i
proof
  fix s l t
  assume s: "delivery_inv s" and step: "signal_step P validate s l t"
  note m = step_moved[OF step s]
  show "delivery_inv t"
    using m s res.preserved[OF _ step] by (simp add: delivery_inv_def moved_from_def)
  show "rank_of i t \<le> rank_of i s \<and> (progress_of i s \<noteq> progress_of i t \<longrightarrow> rank_of i t < rank_of i s)"
    by (rule moved_rank[OF m])
qed

section \<open>Streams that are no longer active\<close>

definition stopped :: "string \<Rightarrow> int \<Rightarrow> signal_db \<Rightarrow> bool" where
  "stopped rid g db \<longleftrightarrow> (\<exists>s \<in> set (db_streams db). stream_key s = (rid, g) \<and> sr_state s \<noteq> ACTIVE)"

text \<open>Deliveries of the stream that are not quarantined are among the given rows.\<close>

definition silent :: "string \<Rightarrow> int \<Rightarrow> signal_delivery set \<Rightarrow> signal_db \<Rightarrow> bool" where
  "silent rid g W db \<longleftrightarrow> stopped rid g db \<and>
     (\<forall>w \<in> set (db_outbox db). sd_registration_id w = rid \<longrightarrow> sd_generation w = g \<longrightarrow> sd_status w \<noteq> S_QUARANTINED \<longrightarrow> w \<in> W)"

lemma sticky_state: "stream_sticky s s' \<Longrightarrow> sr_state s \<noteq> ACTIVE \<Longrightarrow> sr_state s' \<noteq> ACTIVE"
  by (cases "sr_state s") (auto simp: stream_sticky_def)

lemma keeps_silent [batch_rules]:
  "preserves (silent rid g W) [insert_receipt c]" "preserves (silent rid g W) [insert_evidence e]" "preserves (silent rid g W) [insert_link l]"
  "preserves (silent rid g W) [insert_audit au]" "preserves (silent rid g W) [insert_registration r]" "preserves (silent rid g W) [update_registration r previous]"
  "preserves (silent rid g W) [insert_stream s]" "preserves (silent rid g W) [insert_attempt a]" "preserves (silent rid g W) [dispute_attempts pa]"
  "preserves (silent rid g W) [reserve_attempt ns key i h tr sel]"
  unfolding preserves_def run_batch_single insert_receipt_def insert_evidence_def insert_link_def insert_audit_def
    insert_registration_def update_registration_def insert_stream_def insert_attempt_def dispute_attempts_def
    reserve_attempt_def statement_def Let_def silent_def stopped_def
  by (auto split: if_split_asm)

lemma keeps_silent_rows:
  assumes "\<And>w. p w \<Longrightarrow> w \<in> set (db_outbox db) \<Longrightarrow> sd_registration_id w = rid \<Longrightarrow> sd_generation w = g \<Longrightarrow> sd_status (f w) = S_QUARANTINED"
    and "\<And>w. sd_registration_id (f w) = sd_registration_id w \<and> sd_generation (f w) = sd_generation w" and "silent rid g W db"
  shows "silent rid g W (db_outbox_update (sql_update p f) db)"
  using assms by (auto simp: silent_def stopped_def set_sql_update split: if_split_asm)

lemma keeps_silent_quarantine [batch_rules]: "preserves (silent rid g W) [quarantine_deliveries pd]"
  unfolding quarantine_deliveries_def by (rule preserves_statement, erule keeps_silent_rows[rotated 2]) simp_all

lemma keeps_silent_insert: "(sd_registration_id w, sd_generation w) \<noteq> (rid, g) \<Longrightarrow> preserves (silent rid g W) [insert_delivery w]"
  unfolding insert_delivery_def by (rule preserves_statement) (auto simp: silent_def stopped_def)

lemma keeps_silent_streams:
  assumes "\<And>s. stream_key (f s) = stream_key s"
  shows "preserves (silent rid g W) [update_streams p f]"
  unfolding update_streams_def
proof (rule preserves_statement)
  fix db
  assume q: "silent rid g W db" and ok: "list_all (\<lambda>r. p r \<longrightarrow> stream_ok (f r) \<and> stream_sticky r (f r)) (db_streams db)"
  then obtain s where s: "s \<in> set (db_streams db)" "stream_key s = (rid, g)" "sr_state s \<noteq> ACTIVE" by (auto simp: silent_def stopped_def)
  let ?s = "if p s then f s else s"
  from s have "?s \<in> set (sql_update p f (db_streams db))" by (simp add: set_sql_update)
  moreover have "stream_key ?s = (rid, g)" "sr_state ?s \<noteq> ACTIVE"
    using s ok assms[of s] by (auto simp: list_all_iff dest: sticky_state)
  ultimately show "silent rid g W (db_streams_update (sql_update p f) db)"
    using q unfolding silent_def stopped_def by (auto simp del: if_split_asm)
qed

lemma keeps_silent_retire [batch_rules]: "preserves (silent rid g W) [retire_stream i reason]"
proof -
  have "preserves (silent rid g W) [update_streams p (\<lambda>s. s\<lparr>sr_state := RETIRED, sr_reason := Some reason, sr_revision := sr_revision s + 1\<rparr>)]" for p
    by (rule keeps_silent_streams) (simp add: stream_key_def)
  thus ?thesis unfolding preserves_def run_batch_single retire_stream_def by fastforce
qed

lemma quarantine_silent: "preserves (silent rid g W) (quarantine_statements P t ld now auditId code keys)"
  unfolding quarantine_statements_def Let_def
  by (intro batch_rules preserves_map keeps_silent_streams) (auto intro!: batch_rules simp: stream_key_def)

lemma install_silent: "preserves (silent rid g W) (install_statements previous text r ns reason auditId)"
  unfolding install_statements_def Let_def by (intro batch_rules; auto intro!: batch_rules)

lemma entry_silent:
  assumes "(tp_registration_id t, tp_generation t) \<noteq> (rid, g)"
  shows "preserves (silent rid g W) (entry_statements P t ld now d)"
proof -
  have "preserves (silent rid g W) [insert_delivery (new_delivery P t ns now x e)]" for ns x e
    using assms by (intro keeps_silent_insert) (simp add: new_delivery_def Let_def)
  thus ?thesis unfolding entry_statements_def Let_def
    by (intro preserves_append) (auto intro!: batch_rules split: entry_action.split option.split)
qed

lemma commit_silent:
  assumes "(tp_registration_id t, tp_generation t) \<noteq> (rid, g)"
  shows "preserves (silent rid g W) (commit_statements P t ld now entries)"
  unfolding commit_statements_def
  by (rule preserves_Cons, rule keeps_silent, intro preserves_append preserves_concat entry_silent[OF assms] keeps_silent_streams)
    (simp add: accepted_stream_def stream_key_def)

text \<open>With unique streams, a stopped stream passes no guard and has no deliverable row.\<close>

lemma stopped_state:
  assumes "gapless_db db" "stopped rid g db" "s \<in> set (db_streams db)" "stream_key s = (rid, g)"
  shows "sr_state s \<noteq> ACTIVE"
proof -
  from assms(2) obtain s' where s': "s' \<in> set (db_streams db)" "stream_key s' = (rid, g)" "sr_state s' \<noteq> ACTIVE" by (auto simp: stopped_def)
  from assms have "s = s'" using s' by (auto simp: gapless_db_def gapless_def distinct_map dest!: inj_onD[of stream_key _ s s'])
  with s' show ?thesis by simp
qed

lemma stopped_guard:
  assumes "gapless_db db" "stopped rid g db" "stream_guard t r ld db" "sn_state (ld_snapshot ld) = ACTIVE"
  shows "(tp_registration_id t, tp_generation t) \<noteq> (rid, g)"
  using assms(3,4) stopped_state[OF assms(1,2)] by (auto simp: stream_guard_def list_ex_iff same_stream_def stream_key_def)

lemma stopped_undeliverable:
  "gapless_db db \<Longrightarrow> stopped rid g db \<Longrightarrow> sd_registration_id w = rid \<Longrightarrow> sd_generation w = g \<Longrightarrow> \<not> deliverable db w"
  using stopped_state[of db rid g] by (auto simp: deliverable_def list_ex_iff same_stream_def stream_key_def)

lemma claim_silent:
  assumes "claimSignalDelivery now token db = Some (db', claim)" "gapless_db db" "silent rid g W db"
  shows "silent rid g W db'"
proof -
  have "stopped rid g db" using assms(3) by (simp add: silent_def)
  hence "sd_status (claimed_row db now token w) = S_QUARANTINED" if "sd_registration_id w = rid" "sd_generation w = g" for w
    using that stopped_undeliverable[OF assms(2)] by (simp add: claimed_row_def claim_status_def Let_def)
  with assms(1,3) show ?thesis
    by (auto simp: claimSignalDelivery_def claimed_row_def Let_def split: if_split_asm option.split_asm intro!: keeps_silent_rows)
qed

lemma settle_silent:
  assumes "settleSignalDelivery token requested now db = Some (db', status)" "gapless_db db" "silent rid g W db"
  shows "silent rid g W db'"
proof -
  have "stopped rid g db" using assms(3) by (simp add: silent_def)
  hence "sd_status (settled_row db now requested w) = S_QUARANTINED" if "sd_registration_id w = rid" "sd_generation w = g" for w
    using that stopped_undeliverable[OF assms(2)] by (simp add: settled_row_def settle_status_def Let_def)
  with assms(1,3) show ?thesis
    by (auto simp: settleSignalDelivery_def settled_row_def Let_def split: if_split_asm intro!: keeps_silent_rows)
qed

lemma admit_silent:
  assumes "admit_once P validate t r now auditId ld db = Answered result db'" "gapless_db db" "silent rid g W db"
  shows "silent rid g W db'"
  using assms(1)
proof (cases rule: admit_once_cases)
  case (quarantine code keys)
  then show ?thesis by (rule guarded_batch) (rule preservesD[OF preserves_append[OF quarantine_silent preserves_guard(2)] _ assms(3)])
next
  case (commit entries)
  from assms(3) have st: "stopped rid g db" by (simp add: silent_def)
  from commit(4) show ?thesis
    by (rule guarded_batch)
      (rule preservesD[OF preserves_append[OF commit_silent[OF stopped_guard[OF assms(2) st]] preserves_guard(2)] _ assms(3)], use commit(2) in auto)
qed (use assms in simp)

lemma step_silent:
  assumes "signal_step P validate s l t" "gapless_db s" "silent rid g W s"
  shows "silent rid g W t"
  using assms(1)
proof cases
  case (step_install previous nextReg reason auditId)
  from step_install(2) show ?thesis by (rule install_cases) (rule preservesD[OF install_silent _ assms(3)])
qed (use assms(2,3) in \<open>auto intro: admit_silent claim_silent settle_silent\<close>)

section \<open>Requests that are sent again\<close>

definition readable_text :: "units \<Rightarrow> bool" where
  "readable_text text \<longleftrightarrow> readRegistration (encode_units text) \<noteq> None"

definition registered :: "signal_db \<Rightarrow> bool" where
  "registered db \<longleftrightarrow> sr_registration_id ` set (db_streams db) \<subseteq> rr_registration_id ` set (db_registrations db) \<and>
     (\<forall>r \<in> set (db_registrations db). readable_text (rr_registration_json r))"

lemma keeps_registered [batch_rules]:
  "preserves registered [insert_receipt c]" "preserves registered [insert_evidence e]" "preserves registered [insert_link l]"
  "preserves registered [insert_audit au]" "preserves registered [insert_attempt a]" "preserves registered [dispute_attempts pa]"
  "preserves registered [reserve_attempt ns key i h tr sel]" "preserves registered [insert_delivery w]" "preserves registered [quarantine_deliveries pd]"
  unfolding preserves_def run_batch_single insert_receipt_def insert_evidence_def insert_link_def insert_audit_def
    insert_attempt_def dispute_attempts_def reserve_attempt_def insert_delivery_def quarantine_deliveries_def statement_def registered_def
  by (auto split: if_split_asm)

lemma registered_outbox [simp]: "registered (db_outbox_update f db) = registered db"
  by (simp add: registered_def)

lemma update_image: "(\<And>r. h (f r) = h r) \<Longrightarrow> h ` set (sql_update p f rows) = h ` set rows"
  unfolding set_sql_update image_image by (rule image_cong) simp_all

lemma update_all: "\<forall>r \<in> set rows. Q r \<Longrightarrow> (\<And>r. Q (f r)) \<Longrightarrow> \<forall>r \<in> set (sql_update p f rows). Q r"
  by (auto simp: set_sql_update)

lemma keeps_registered_streams: "(\<And>s. stream_key (f s) = stream_key s) \<Longrightarrow> preserves registered [update_streams p f]"
proof -
  assume "\<And>s. stream_key (f s) = stream_key s"
  hence "sr_registration_id (f s) = sr_registration_id s" for s by (simp add: stream_key_def)
  thus ?thesis unfolding update_streams_def
    by (intro preserves_statement) (simp add: registered_def update_image)
qed

lemma keeps_registered_retire [batch_rules]: "preserves registered [retire_stream i reason]"
proof -
  have "preserves registered [update_streams p (\<lambda>s. s\<lparr>sr_state := RETIRED, sr_reason := Some reason, sr_revision := sr_revision s + 1\<rparr>)]" for p
    by (rule keeps_registered_streams) (simp add: stream_key_def)
  thus ?thesis unfolding preserves_def run_batch_single retire_stream_def by fastforce
qed

lemma keeps_registered_insert: "readable_text (rr_registration_json r) \<Longrightarrow> preserves registered [insert_registration r]"
  unfolding insert_registration_def by (rule preserves_statement) (auto simp: registered_def)

lemma keeps_registered_update:
  assumes "readable_text (rr_registration_json r)"
  shows "preserves registered [update_registration r previous]"
  unfolding update_registration_def Let_def
proof (rule preserves_statement)
  fix db
  let ?p = "\<lambda>g. rr_registration_id g = rr_registration_id r \<and> rr_revision g = previous"
  let ?f = "\<lambda>g. g\<lparr>rr_active_generation := rr_active_generation r, rr_revision := rr_revision r, rr_enabled := rr_enabled r, rr_registration_json := rr_registration_json r\<rparr>"
  assume "registered db"
  moreover have "rr_registration_id ` set (sql_update ?p ?f (db_registrations db)) = rr_registration_id ` set (db_registrations db)"
    by (rule update_image) simp
  moreover have "\<forall>g \<in> set (sql_update ?p ?f (db_registrations db)). readable_text (rr_registration_json g)"
    using \<open>registered db\<close> assms by (intro update_all) (simp_all add: registered_def)
  ultimately show "registered (db_registrations_update (sql_update ?p ?f) db)"
    unfolding registered_def by simp
qed

lemma keeps_registered_stream: "preserves registered [insert_stream s]"
  unfolding insert_stream_def by (rule preserves_statement) (auto simp: registered_def list_ex_iff intro: rev_image_eqI)

lemmas keeps_registered_rows = keeps_registered_insert keeps_registered_update keeps_registered_stream

lemma admission_registered:
  "preserves registered (quarantine_statements P t ld now auditId code keys)" "preserves registered (commit_statements P t ld now entries)"
proof -
  show "preserves registered (quarantine_statements P t ld now auditId code keys)"
    unfolding quarantine_statements_def Let_def
    by (intro batch_rules preserves_map keeps_registered_streams) (auto intro!: batch_rules simp: stream_key_def)
  have "preserves registered (entry_statements P t ld now d)" for d
    unfolding entry_statements_def Let_def
    by (intro preserves_append) (auto intro!: batch_rules split: entry_action.split option.split)
  thus "preserves registered (commit_statements P t ld now entries)"
    unfolding commit_statements_def
    by (intro preserves_Cons[OF keeps_registered(1)] preserves_append preserves_concat keeps_registered_streams)
      (simp_all add: accepted_stream_def stream_key_def)
qed

lemma install_registered: "readable_text text \<Longrightarrow> preserves registered (install_statements previous text r ns reason auditId)"
  unfolding install_statements_def Let_def
  by (intro preserves_append preserves_Cons_Cons keeps_registered_rows batch_rules)
    (auto intro!: batch_rules keeps_registered_rows)

lemma install_readable:
  assumes "installGeneration previous next reason auditId db = Some db'" "registered db"
  shows "registered db'"
  using assms(1)
  by (rule install_cases) (rule preservesD[OF install_registered _ assms(2)], auto simp: readable_text_def)

interpretation reg: invariant_system "signal_step P validate" registered for P validate
proof
  fix s l t
  assume c: "registered s" and "signal_step P validate s l t"
  from this(2) show "registered t"
  proof cases
    case (step_admit u r now auditId ld result)
    from step_admit(2) c show ?thesis by (rule admit_preserves) (rule admission_registered)+
  qed (use c in \<open>auto dest: install_readable dest!: claim_frame settle_frame\<close>)
qed

text \<open>The stream of a request and its first receipt, which no statement removes.\<close>

definition receipted :: "string \<Rightarrow> int \<Rightarrow> int \<Rightarrow> receipt_row \<Rightarrow> signal_db \<Rightarrow> bool" where
  "receipted rid g n c db \<longleftrightarrow> (rid, g) \<in> stream_key ` set (db_streams db) \<and> find (receipt_at rid g n) (db_receipts db) = Some c"

lemma keeps_receipted [batch_rules]:
  "preserves (receipted rid g n c) [insert_evidence e]" "preserves (receipted rid g n c) [insert_link l]"
  "preserves (receipted rid g n c) [insert_audit au]" "preserves (receipted rid g n c) [insert_attempt a]" "preserves (receipted rid g n c) [dispute_attempts pa]"
  "preserves (receipted rid g n c) [reserve_attempt ns key i h tr sel]" "preserves (receipted rid g n c) [insert_delivery w]"
  "preserves (receipted rid g n c) [quarantine_deliveries pd]" "preserves (receipted rid g n c) [insert_registration r]"
  "preserves (receipted rid g n c) [update_registration r previous]" "preserves (receipted rid g n c) [insert_stream s]"
  "preserves (receipted rid g n c) [insert_receipt c']"
  unfolding preserves_def run_batch_single insert_receipt_def insert_evidence_def insert_link_def insert_audit_def insert_registration_def
    update_registration_def insert_stream_def insert_attempt_def dispute_attempts_def reserve_attempt_def insert_delivery_def
    quarantine_deliveries_def statement_def Let_def receipted_def
  by (auto simp: find_rows_append split: if_split_asm)

lemma keeps_receipted_streams: "(\<And>s. stream_key (f s) = stream_key s) \<Longrightarrow> preserves (receipted rid g n c) [update_streams p f]"
  unfolding update_streams_def by (rule preserves_statement) (simp add: receipted_def key_set_update)

lemma keeps_receipted_retire [batch_rules]: "preserves (receipted rid g n c) [retire_stream i reason]"
proof -
  have "preserves (receipted rid g n c) [update_streams p (\<lambda>s. s\<lparr>sr_state := RETIRED, sr_reason := Some reason, sr_revision := sr_revision s + 1\<rparr>)]" for p
    by (rule keeps_receipted_streams) (simp add: stream_key_def)
  thus ?thesis unfolding preserves_def run_batch_single retire_stream_def by fastforce
qed

lemma admission_receipted:
  "preserves (receipted rid g n c) (quarantine_statements P t ld now auditId code keys)"
  "preserves (receipted rid g n c) (commit_statements P t ld now entries)"
  "preserves (receipted rid g n c) (install_statements previous text r ns reason auditId)"
proof -
  show "preserves (receipted rid g n c) (quarantine_statements P t ld now auditId code keys)"
    unfolding quarantine_statements_def Let_def
    by (intro batch_rules preserves_map keeps_receipted_streams) (auto intro!: batch_rules simp: stream_key_def)
  have "preserves (receipted rid g n c) (entry_statements P t ld now d)" for d
    unfolding entry_statements_def Let_def
    by (intro preserves_append) (auto intro!: batch_rules split: entry_action.split option.split)
  thus "preserves (receipted rid g n c) (commit_statements P t ld now entries)"
    unfolding commit_statements_def
    by (intro preserves_Cons[OF keeps_receipted(12)] preserves_append preserves_concat keeps_receipted_streams)
      (simp_all add: accepted_stream_def stream_key_def)
  show "preserves (receipted rid g n c) (install_statements previous text r ns reason auditId)"
    unfolding install_statements_def Let_def by (intro batch_rules; auto intro!: batch_rules)
qed

lemma receipted_outbox [simp]: "receipted rid g n c (db_outbox_update f db) = receipted rid g n c db"
  by (simp add: receipted_def)

interpretation rec: invariant_system "signal_step P validate" "receipted rid g n c" for P validate rid g n c
proof
  fix s l t
  assume c: "receipted rid g n c s" and "signal_step P validate s l t"
  from this(2) show "receipted rid g n c t"
  proof cases
    case (step_admit u r now auditId ld result)
    from step_admit(2) c show ?thesis by (rule admit_preserves) (rule admission_receipted)+
  next
    case (step_install previous nextReg reason auditId)
    from step_install(2) show ?thesis by (rule install_cases) (rule preservesD[OF admission_receipted(3) _ c])
  qed (use c in \<open>auto dest!: claim_frame settle_frame\<close>)
qed

lemma find_none_append: "\<not> list_ex q xs \<Longrightarrow> q x \<Longrightarrow> find q (xs @ [x]) = Some x"
  by (induction xs) auto

text \<open>An accepted request leaves its receipt.\<close>

lemma committed_receipted:
  assumes "admit_once P validate t r now auditId ld db = Answered result db'" "ax_outcome result \<noteq> Outcome_REJECTED" "\<not> ax_duplicate result"
  obtains entries where "result = admission_response (commit_outcome entries) None (Some (receipt_id_of P t)) False ACTIVE"
    "receipted (tp_registration_id t) (tp_generation t) (tp_sequence t) (receipt_row_of P t now (commit_outcome entries) None) db'"
proof -
  let ?key = "(tp_registration_id t, tp_generation t)"
  have batch: "db_batch stmts db = Inr db' \<and> res = result" if "apply_batch stmts res db = Answered result db'" for stmts res
    using that by (auto simp: apply_batch_def split: sum.split_asm batch_error.split_asm)
  from assms obtain entries where r: "result = admission_response (commit_outcome entries) None (Some (receipt_id_of P t)) False ACTIVE"
    and b: "db_batch (admission_guards t r ld @ commit_statements P t ld now entries @ [guard_changes]) db = Inr db'"
    unfolding admit_once_def Let_def
    by (auto simp: admission_response_def split: admission_decision.split_asm if_split_asm dest!: batch)
  from b show ?thesis
  proof (rule guarded_batch)
    fix n n' assume "run_batch (commit_statements P t ld now entries @ [guard_changes]) (db, n) = Inr (db', n')"
    then show ?thesis
    proof (rule commit_batch)
      fix d m
      let ?c = "receipt_row_of P t now (commit_outcome entries) None"
      assume "receipt_allowed ?c db" "db_streams d = db_streams db" "db_receipts d = db_receipts db @ [?c]"
        "db' = db_streams_update (sql_update (held_stream t ld) (accepted_stream now)) d"
      moreover have "stream_key (accepted_stream now s) = stream_key s" for s by (simp add: accepted_stream_def stream_key_def)
      moreover have "receipt_at (tp_registration_id t) (tp_generation t) (tp_sequence t) ?c" by (simp add: receipt_at_def receipt_row_of_def)
      ultimately have "receipted (tp_registration_id t) (tp_generation t) (tp_sequence t) ?c db'"
        by (auto simp: receipted_def key_set_update receipt_allowed_def stream_exists_key find_none_append receipt_row_of_def)
      with r that show ?thesis by blast
    qed
  qed
qed

text \<open>With its receipt stored, a request is a duplicate.\<close>

lemma find_exists: "x \<in> set xs \<Longrightarrow> q x \<Longrightarrow> \<exists>y. find q xs = Some y \<and> y \<in> set xs \<and> q y"
  by (induction xs) auto

lemma snapshot_receipted:
  assumes "registered db" "receipted (tp_registration_id t) (tp_generation t) (tp_sequence t) c db"
  obtains ld where "snapshot validate db t = Some ld"
    "sn_existing_receipt (ld_snapshot ld) = Some \<lparr>ad_id = rc_receipt_id c, ad_body_sha256 = rc_body_sha256 c, ad_outcome = rc_outcome c, ad_code = rc_code c\<rparr>"
proof -
  from assms(2) obtain x where "x \<in> set (db_streams db)" "same_stream (tp_registration_id t) (tp_generation t) x"
    by (auto simp: receipted_def stream_key_def same_stream_def)
  from find_exists[of x "db_streams db" "same_stream (tp_registration_id t) (tp_generation t)", OF this] obtain s
    where s: "find (same_stream (tp_registration_id t) (tp_generation t)) (db_streams db) = Some s" "s \<in> set (db_streams db)" by blast
  with assms(1) obtain y where "y \<in> set (db_registrations db)" "rr_registration_id y = sr_registration_id s" by (auto simp: registered_def)
  from find_exists[of y "db_registrations db" "\<lambda>r. rr_registration_id r = sr_registration_id s", OF this] obtain row
    where row: "find (\<lambda>r. rr_registration_id r = sr_registration_id s) (db_registrations db) = Some row" "row \<in> set (db_registrations db)" by blast
  with assms(1) obtain r where r: "readRegistration (encode_units (rr_registration_json row)) = Some r"
    by (auto simp: registered_def readable_text_def)
  from s row r assms(2) that show ?thesis by (simp add: snapshot_def receipted_def Let_def)
qed

lemma duplicate_answer:
  assumes "sn_existing_receipt (ld_snapshot ld) = Some prior" "ad_body_sha256 prior = tp_body_sha256 t"
  shows "admit_once P validate t r now auditId ld db =
    Answered (admission_response (ad_outcome prior) (ad_code prior) (Some (ad_id prior)) True (sn_state (ld_snapshot ld))) db"
  using assms by (simp add: admit_once_def evaluateAdmission_def Let_def)

section \<open>What holds along every run\<close>

lemma empty_db_ok: "gapless_db empty_db" "reserved_db empty_db" "registered empty_db" "delivery_inv empty_db"
  by (simp_all add: gapless_db_def gapless_def reserved_db_def registered_def delivery_inv_def empty_db_def)

text \<open>
  C31. Accepted sequence numbers have no gap. In every database that any interleaving of admissions,
  installations, claims and settlements can reach, whatever snapshots the admissions have read, the
  receipts that are not rejections carry, for each stream and in the order in which they were stored,
  exactly the sequence numbers from 1 up to the one before the stream's next.
\<close>

theorem accepted_sequences_gapless:
  assumes "run (signal_step P validate) empty_db ls db" and "s \<in> set (db_streams db)"
  shows "map rc_sequence (filter (accepted_for (sr_registration_id s) (sr_generation s)) (db_receipts db)) = [1..sr_next_sequence s - 1]"
  using gap.invariant_run[OF assms(1) empty_db_ok(1)] assms(2) by (simp add: gapless_db_def gapless_def accepted_upto_def)

text \<open>
  C32. An attempt is delivered once, for one evidence. Whatever happens after a delivery is stored, it stays
  stored with its contents, no other delivery of its attempt is ever stored, and the attempt stays
  reserved by the delivery's evidence.
\<close>

theorem attempt_delivered_once:
  assumes "run (signal_step P validate) empty_db ls db" and "run (signal_step P validate) db ms db'" and "w \<in> set (db_outbox db)"
  shows "\<exists>w' \<in> set (db_outbox db'). delivery_content w' = delivery_content w \<and>
    (\<forall>v \<in> set (db_outbox db'). delivery_attempt v = delivery_attempt w \<longrightarrow> v = w') \<and>
    reserved_by (db_attempts db') (delivery_attempt w) (sd_evidence_id w)"
proof -
  have r: "reserved_db db'" using res.invariant_run[OF assms(2) res.invariant_run[OF assms(1) empty_db_ok(2)]] .
  have "contents_from (map delivery_content (db_outbox db)) db'"
    by (rule con.invariant_run[OF assms(2)]) (simp add: contents_from_def)
  then obtain w' where w': "w' \<in> set (db_outbox db')" "delivery_content w' = delivery_content w"
    using assms(3) unfolding contents_from_def
    by (metis (no_types, lifting) Un_iff image_eqI image_iff list.set_map set_append)
  note same = content_eqD[OF w'(2)]
  have inj: "inj_on delivery_attempt (set (db_outbox db'))" using r by (simp add: reserved_db_def distinct_map)
  have "\<forall>v \<in> set (db_outbox db'). delivery_attempt v = delivery_attempt w \<longrightarrow> v = w'"
    using inj_onD[OF inj, of _ w'] w'(1) same by simp
  moreover have "reserved_by (db_attempts db') (delivery_attempt w) (sd_evidence_id w)"
    using r w'(1) same unfolding reserved_db_def by metis
  ultimately show ?thesis using w' by blast
qed

text \<open>
  C33. A stream that is no longer active sends nothing. Once a stream is quarantined or retired, whatever
  runs after, each of its deliveries is either as it was or quarantined: none is stored, claimed,
  retried, acknowledged or otherwise changed.
\<close>

theorem stopped_stream_silent:
  assumes "run (signal_step P validate) empty_db ls db" and "s \<in> set (db_streams db)" and "sr_state s \<noteq> ACTIVE"
    and "run (signal_step P validate) db ms db'" and "w \<in> set (db_outbox db')"
    and "sd_registration_id w = sr_registration_id s" and "sd_generation w = sr_generation s"
  shows "w \<in> set (db_outbox db) \<or> sd_status w = S_QUARANTINED"
proof -
  have g: "gapless_db db" by (rule gap.invariant_run[OF assms(1) empty_db_ok(1)])
  have "silent (sr_registration_id s) (sr_generation s) (set (db_outbox db)) db"
    using assms(2,3) by (auto simp: silent_def stopped_def stream_key_def)
  from gap.stable_run[of P validate "silent (sr_registration_id s) (sr_generation s) (set (db_outbox db))", OF step_silent assms(4) g this]
  show ?thesis using assms(5-7) by (auto simp: silent_def)
qed

text \<open>
  C34. Deliveries are settled after a bounded number of changes. In every run the stored status and number of
  attempts of a delivery change at most eleven times, its insertion included: five claims, the
  retries between them and one final status.
\<close>

theorem delivery_changes_bounded:
  assumes "run_changes (signal_step P validate) (\<lambda>s t. progress_of i s \<noteq> progress_of i t) empty_db n db"
  shows "n \<le> 11"
  using delivery.changes_bounded[OF assms empty_db_ok(4)] by (simp add: rank_of_def empty_db_def)

text \<open>
  C35. A request may be sent again. After a request was accepted, \<open>admitSignal\<close> answers it, at any later
  time and with any clock, with the receipt and the outcome it was given first, marked as a duplicate,
  and leaves the database as it is.
\<close>

theorem accepted_request_repeats:
  assumes "run (signal_step P validate) empty_db (ls @ L_Admit t r now auditId ld result # ms) db"
    and "ax_outcome result \<noteq> Outcome_REJECTED" and "\<not> ax_duplicate result"
  shows "\<exists>state. admitSignal P validate t r' now' ((db, db', auditId') # tries) =
    Some (result\<lparr>ax_duplicate := True, ax_stream_state := state\<rparr>, db')"
proof -
  from assms(1) obtain s u where s: "run (signal_step P validate) empty_db ls s" and u: "signal_step P validate s (L_Admit t r now auditId ld result) u"
    and db: "run (signal_step P validate) u ms db" unfolding run_append_iff run_Cons_iff by blast
  from u have "admit_once P validate t r now auditId ld s = Answered result u" by (rule admit_stepE)
  from committed_receipted[OF this assms(2,3)] obtain entries
    where r: "result = admission_response (commit_outcome entries) None (Some (receipt_id_of P t)) False ACTIVE"
      and c: "receipted (tp_registration_id t) (tp_generation t) (tp_sequence t) (receipt_row_of P t now (commit_outcome entries) None) u" by blast
  have reg: "registered db" by (rule reg.invariant_run[OF assms(1) empty_db_ok(3)])
  from snapshot_receipted[OF reg rec.invariant_run[OF db c], of validate] obtain ld'
    where l: "snapshot validate db t = Some ld'" "sn_existing_receipt (ld_snapshot ld') =
      Some \<lparr>ad_id = receipt_id_of P t, ad_body_sha256 = tp_body_sha256 t, ad_outcome = commit_outcome entries, ad_code = None\<rparr>"
    by (auto simp: receipt_row_of_def)
  show ?thesis
    unfolding admitSignal_def using l(1) duplicate_answer[OF l(2)] by (simp add: r admission_response_def)
qed

end
