(* ===== verification/Signal_Samples.thy ===== *)
theory Signal_Samples
  imports Signal_Runs Rd_Samples
begin

text \<open>
  A sample registration, two requests with one entry each, and the witnesses of the properties of the signal path.
\<close>

section \<open>A registration\<close>

definition demo_hash :: string where
  "demo_hash = replicate 64 CHR ''a''"

definition demo_scope :: json where
  "demo_scope = JObj [(''producer_namespace'', JStr ''n''), (''strategy_id'', JStr ''s''), (''ticker_id'', JStr ''t'')]"

definition demo_binding :: json where
  "demo_binding = JObj [(''detector_code_hash'', JStr demo_hash), (''feed'', JStr ''f''), (''producer_namespace'', JStr ''n''),
     (''schema_version'', JStr ''TradeOpsSignalEvidenceBindingV1''), (''settings_hash'', JStr demo_hash), (''symbol'', JStr ''y''),
     (''tick_size'', JStr ''1''), (''ticker_id'', JStr ''t'')]"

definition demo_registration :: registration where
  "demo_registration = \<lparr>rg_registration_id = ''r'', rg_generation = 1, rg_revision = 1,
     rg_scope_key = units_of (canonicalStringify demo_scope), rg_producer_instance_id = ''p'', rg_credential_sha256 = demo_hash,
     rg_binding = strict_of demo_binding, rg_active_from = 0, rg_active_until = 1000, rg_enabled = True,
     rg_freshness = \<lparr>fr_max_event_age_seconds = 100, fr_max_observation_age_seconds = 100, fr_future_skew_seconds = 0, fr_max_queue_age_seconds = 100\<rparr>\<rparr>"

text \<open>Its stored text, with the members in canonical order.\<close>

definition demo_fields :: "(string \<times> json) list" where
  "demo_fields =
     [(''active_from'', JNum 0), (''active_until'', JNum 1000), (''credential_sha256'', JStr demo_hash), (''enabled'', JBool True),
      (''freshness'', JObj [(''future_skew_seconds'', JNum 0), (''max_event_age_seconds'', JNum 100), (''max_observation_age_seconds'', JNum 100),
        (''max_queue_age_seconds'', JNum 100)]), (''generation'', JNum 1), (''producer_instance_id'', JStr ''p''), (''registration_id'', JStr ''r''),
      (''reviewed_binding'', demo_binding), (''revision'', JNum 1), (''schema_version'', JStr ''TradeOpsSignalAdmissionRegistrationV1''),
      (''scope_key'', JStr (canonicalStringify demo_scope))]"

definition demo_registration_json :: json where
  "demo_registration_json = JObj
     [(''schema_version'', JStr ''TradeOpsSignalAdmissionRegistrationV1''), (''registration_id'', JStr ''r''), (''generation'', JNum 1),
      (''revision'', JNum 1), (''scope_key'', JStr (canonicalStringify demo_scope)), (''producer_instance_id'', JStr ''p''),
      (''credential_sha256'', JStr demo_hash), (''reviewed_binding'', demo_binding), (''active_from'', JNum 0), (''active_until'', JNum 1000),
      (''enabled'', JBool True), (''freshness'', JObj [(''max_event_age_seconds'', JNum 100), (''max_observation_age_seconds'', JNum 100),
        (''future_skew_seconds'', JNum 0), (''max_queue_age_seconds'', JNum 100)])]"

lemma demo_sorted: "sort_keys demo_registration_json = JObj demo_fields"
  by code_simp

lemma demo_text: "registrationJson demo_registration = units_of (canonicalStringify demo_registration_json)"
  unfolding strict_canonical_of[symmetric]
  by (simp add: registrationJson_def demo_registration_def demo_registration_json_def number_text_def)

lemma demo_length: "length (utf8_encode (canonicalStringify demo_registration_json)) \<le> 1000"
  by code_simp

lemma demo_nonempty: "utf8_encode (canonicalStringify demo_registration_json) \<noteq> []"
  by (simp add: demo_registration_json_def utf8_encode_def utf8_unit_def)

lemma readable_parsed:
  assumes "readable v" "nesting (strict_of v) \<le> MAX_DEPTH" "count_values (strict_of v) \<le> MAX_NODES" "sort_keys v = JObj kvs"
  shows "parse_outer (utf8_encode (canonicalStringify v)) = Some (map strict_member kvs)"
  using assms by (simp add: parse_outer_def reads_back survives_def strict_of_obj del: strict_of.simps)

lemma demo_parsed: "parse_outer (utf8_encode (canonicalStringify demo_registration_json)) = Some (map strict_member demo_fields)"
  by (rule readable_parsed[OF _ _ _ demo_sorted])
    (simp_all add: demo_registration_json_def demo_binding_def is_safe_integer_def MAX_SAFE_INTEGER_def MAX_DEPTH_def MAX_NODES_def)

definition demo_scope_fields :: "(string \<times> json) list" where
  "demo_scope_fields = [(''producer_namespace'', JStr ''n''), (''strategy_id'', JStr ''s''), (''ticker_id'', JStr ''t'')]"

lemma demo_scope_parsed: "read_scope (units_of (canonicalStringify demo_scope)) = Some (map strict_member demo_scope_fields)"
proof -
  have "parse_outer (utf8_encode (canonicalStringify demo_scope)) = Some (map strict_member demo_scope_fields)"
  proof (rule readable_parsed)
    show "sort_keys demo_scope = JObj demo_scope_fields" by code_simp
  qed (simp_all add: demo_scope_def MAX_DEPTH_def MAX_NODES_def)
  moreover have "strict_keys (map strict_member demo_scope_fields) SCOPE_KEYS" by code_simp
  ultimately show ?thesis by (simp add: read_scope_def encode_units_of require_def)
qed

lemma demo_keys: "strict_keys (map strict_member demo_fields) REGISTRATION_KEYS"
  by code_simp

definition demo_binding_fields :: "(string \<times> json) list" where
  "demo_binding_fields = (case demo_binding of JObj kvs \<Rightarrow> kvs | _ \<Rightarrow> [])"

lemma demo_hash_read: "wire_digest (SStr (units_of demo_hash)) = Some demo_hash" "demo_hash \<noteq> zero_digest"
  by code_simp+

lemma demo_texts:
  "wire_identifier (SStr (units_of ''n'')) = Some ''n''" "wire_identifier (SStr (units_of ''t'')) = Some ''t''"
  "wire_identifier (SStr (units_of ''s'')) = Some ''s''" "wire_identifier (SStr (units_of ''f'')) = Some ''f''"
  "wire_identifier (SStr (units_of ''y'')) = Some ''y''" "wire_identifier (SStr (units_of ''p'')) = Some ''p''"
  "wire_identifier (SStr (units_of ''r'')) = Some ''r''" "wire_identifier (SStr (units_of ''1'')) = Some ''1''"
  by code_simp+

lemma wire_integer_of: "is_safe_integer n \<Longrightarrow> ok n \<Longrightarrow> wire_integer ok (strict_of (JNum n)) = Some n"
  by (simp add: wire_integer_def)

lemma demo_binding_read: "read_binding (map strict_member demo_binding_fields) = Some (''n'', ''t'')"
proof -
  have "strict_keys (map strict_member demo_binding_fields) BINDING_KEYS" "decimal_text ''1'' \<and> canonical_tick ''1'' = ''1''" by code_simp+
  thus ?thesis
    by (simp add: read_binding_def require_def is_text_def read_field_def field_of_members del: units_of_simps)
      (simp add: demo_binding_fields_def demo_binding_def demo_hash_read demo_texts del: units_of_simps)
qed

lemma demo_scope_text: "strict_canonical (SObj (map strict_member demo_scope_fields)) = units_of (canonicalStringify demo_scope)"
  unfolding strict_canonical_of[symmetric] by (simp add: demo_scope_def demo_scope_fields_def)

definition demo_policy :: "(string \<times> json) list" where
  "demo_policy = [(''future_skew_seconds'', JNum 0), (''max_event_age_seconds'', JNum 100), (''max_observation_age_seconds'', JNum 100),
     (''max_queue_age_seconds'', JNum 100)]"

lemma demo_policy_read: "read_freshness (map strict_member demo_policy) = Some (rg_freshness demo_registration)"
proof -
  have "strict_keys (map strict_member demo_policy) FRESHNESS_KEYS" by code_simp
  moreover have "is_safe_integer 0" "is_safe_integer 100" by (simp_all add: is_safe_integer_def MAX_SAFE_INTEGER_def)
  ultimately show ?thesis
    by (simp add: read_freshness_def read_field_def field_of_members require_def)
      (simp add: demo_policy_def demo_registration_def wire_integer_def)
qed

lemma demo_values:
  fixes M :: members
  defines "M \<equiv> map strict_member demo_fields"
  shows "field_of M ''schema_version'' = Some (SStr (units_of ''TradeOpsSignalAdmissionRegistrationV1''))" "field_of M ''enabled'' = Some (SBool True)"
    "field_of M ''reviewed_binding'' = Some (SObj (map strict_member demo_binding_fields))"
    "field_of M ''scope_key'' = Some (SStr (units_of (canonicalStringify demo_scope)))"
    "field_of M ''freshness'' = Some (SObj (map strict_member demo_policy))"
    "field_of M ''credential_sha256'' = Some (SStr (units_of demo_hash))"
    "field_of M ''registration_id'' = Some (SStr (units_of ''r''))" "field_of M ''producer_instance_id'' = Some (SStr (units_of ''p''))"
    "field_of M ''active_from'' = Some (strict_of (JNum 0))" "field_of M ''active_until'' = Some (strict_of (JNum 1000))"
    "field_of M ''generation'' = Some (strict_of (JNum 1))" "field_of M ''revision'' = Some (strict_of (JNum 1))"
  unfolding M_def field_of_members
  by (simp_all add: demo_fields_def demo_policy_def demo_binding_fields_def demo_binding_def del: units_of_simps)

lemma demo_scope_values:
  "field_of (map strict_member demo_scope_fields) ''producer_namespace'' = Some (SStr (units_of ''n''))"
  "field_of (map strict_member demo_scope_fields) ''ticker_id'' = Some (SStr (units_of ''t''))"
  "field_of (map strict_member demo_scope_fields) ''strategy_id'' = Some (SStr (units_of ''s''))"
  unfolding field_of_members by (simp_all add: demo_scope_fields_def del: units_of_simps)

lemma demo_read: "readRegistration (encode_units (registrationJson demo_registration)) = Some demo_registration"
proof -
  have "is_safe_integer 0" "is_safe_integer 1" "is_safe_integer 1000" by (simp_all add: is_safe_integer_def MAX_SAFE_INTEGER_def)
  note ints = wire_integer_of[OF this(1)] wire_integer_of[OF this(2)] wire_integer_of[OF this(3)]
  have b: "strict_of demo_binding = SObj (map strict_member demo_binding_fields)" by (simp add: demo_binding_def demo_binding_fields_def)
  show ?thesis
    unfolding readRegistration_def demo_text encode_units_of demo_parsed
    using demo_length demo_nonempty
    by (simp add: demo_keys REGISTRATION_MAX_def require_def is_text_def read_field_def demo_values demo_scope_parsed demo_scope_values
        demo_binding_read demo_policy_read demo_texts demo_hash_read demo_scope_text ints del: units_of_simps strict_of.simps strict_canonical.simps)
      (simp add: demo_registration_def b)
qed

section \<open>A run\<close>

definition demo_transport :: transport where
  "demo_transport = \<lparr>tp_registration_id = ''r'', tp_generation = 1, tp_credential = ''c'', tp_evidence_bytes = [], tp_sequence = 1,
     tp_producer_instance_id = ''p'', tp_strategy_id = ''s'', tp_body_sha256 = demo_hash\<rparr>"

definition demo_entry :: signal_entry where
  "demo_entry = \<lparr>se_attempt_key = ''k'', se_formation_body_sha256 = demo_hash, se_evidence_id = ''e'', se_evidence_body_sha256 = demo_hash,
     se_observed_at_epoch = JNum 500, se_selected = Some (sample_close_candidate, sample_close_evidence\<lparr>ev_observed_trigger_epoch := Some 500\<rparr>),
     se_json = JNull\<rparr>"

definition demo_validate :: validator where
  "demo_validate evidence binding = Some [demo_entry]"

definition demo_stream :: stream_row where
  "demo_stream = \<lparr>sr_registration_id = ''r'', sr_generation = 1, sr_registry_revision = 1, sr_revision = 1, sr_next_sequence = 1, sr_state = ACTIVE,
     sr_last_accepted_at = None, sr_reason = None\<rparr>"

definition demo_installed :: signal_db where
  "demo_installed = empty_db\<lparr>db_registrations := [\<lparr>rr_registration_id = ''r'', rr_namespace = ''n'', rr_scope_key = rg_scope_key demo_registration,
       rr_active_generation = 1, rr_revision = 1, rr_enabled = True, rr_registration_json = registrationJson demo_registration\<rparr>],
     db_streams := [demo_stream],
     db_audit := [\<lparr>sa_audit_id = ''a'', sa_registration_id = ''r'', sa_generation = 1, sa_sequence = None, sa_body_sha256 = None, sa_reason = ''i''\<rparr>]\<rparr>"

lemma demo_install: "installGeneration 0 demo_registration ''i'' ''a'' empty_db = Some demo_installed"
proof -
  have "read_scope (rg_scope_key demo_registration) = Some (map strict_member demo_scope_fields)"
    using demo_scope_parsed by (simp add: demo_registration_def)
  moreover have "read_field (map strict_member demo_scope_fields) ''producer_namespace'' wire_identifier = Some ''n''"
    by (simp add: read_field_def demo_scope_values demo_texts del: units_of_simps)
  ultimately show ?thesis
    by (simp add: installGeneration_def demo_read require_def is_safe_integer_def MAX_SAFE_INTEGER_def)
      (simp add: demo_registration_def db_batch_def install_statements_def insert_registration_def insert_stream_def insert_audit_def
        statement_def empty_db_def registration_ok_def scope_free_def stream_ok_def stream_exists_def stored_integer_def MAX_SAFE_INTEGER_def
        demo_installed_def demo_stream_def)
qed

definition demo_loaded :: loaded_snapshot where
  "demo_loaded = \<lparr>ld_snapshot = \<lparr>sn_state = ACTIVE, sn_revision = 1, sn_next_sequence = 1, sn_last_accepted_at = None, sn_existing_receipt = None,
       sn_attempts = [], sn_evidence_facts = []\<rparr>,
     ld_cas_revision = 1, ld_namespace = ''n'', ld_registration = demo_registration, ld_fact_keys = [(''k'', ''e'')]\<rparr>"

lemma demo_snapshot: "snapshot demo_validate demo_installed demo_transport = Some demo_loaded"
  by (simp add: snapshot_def demo_installed_def demo_stream_def same_stream_def demo_transport_def demo_read empty_db_def demo_validate_def
      admissionFactKeys_def demo_entry_def load_attempts_def load_evidence_def demo_loaded_def List.map_filter_def)

definition demo_decision :: entry_decision where
  "demo_decision = \<lparr>ed_entry = demo_entry, ed_action = Action_NEW, ed_expires_at = Some 600, ed_selection_key = selectionKey demo_entry\<rparr>"

lemma demo_decides: "evaluateAdmission (demo_validate bytes binding) demo_transport demo_registration (ld_snapshot demo_loaded) 500 = Commit [demo_decision]"
  by (simp add: evaluateAdmission_def demo_validate_def demo_transport_def demo_registration_def demo_loaded_def is_safe_integer_def MAX_SAFE_INTEGER_def
      epoch_def policy_ok_def deadline_def entry_expiry_def demo_entry_def epoch_value_def trigger_of_def conflicting_def action_of_def
      demo_decision_def js_set_add_def Let_def)

definition demo_delivery :: signal_delivery where
  "demo_delivery = new_delivery sample_platform demo_transport ''n'' 500 600 demo_entry"

definition demo_admitted :: signal_db where
  "demo_admitted = demo_installed\<lparr>db_streams := [accepted_stream 500 demo_stream],
     db_receipts := [receipt_row_of sample_platform demo_transport 500 Outcome_ACCEPTED None],
     db_evidence := [\<lparr>er_evidence_id = ''e'', er_namespace = ''n'', er_attempt_key = ''k'', er_evidence_hash = demo_hash,
       er_receipt_id = receipt_id_of sample_platform demo_transport, er_body = canonicalStringify JNull\<rparr>],
     db_attempts := [\<lparr>at_namespace = ''n'', at_attempt_key = ''k'', at_formation_hash = demo_hash, at_evidence_id = Some ''e'',
       at_evidence_hash = Some demo_hash, at_trigger_epoch = Some 500, at_selection_key = selectionKey demo_entry, at_disputed = False\<rparr>],
     db_outbox := [demo_delivery],
     db_links := [\<lparr>ln_receipt_id = receipt_id_of sample_platform demo_transport, ln_evidence_id = ''e'', ln_namespace = ''n'', ln_attempt_key = ''k''\<rparr>]\<rparr>"

definition demo_result :: admission_result where
  "demo_result = admission_response Outcome_ACCEPTED None (Some (receipt_id_of sample_platform demo_transport)) False ACTIVE"

lemma demo_hash_ok: "is_sha256 demo_hash"
  by code_simp

lemma demo_delivery_ok: "is_sha256 (sd_delivery_body_sha256 demo_delivery)"
  using is_sha256_sha256Hex[OF sample_platform_width] by (simp add: demo_delivery_def new_delivery_def canonicalSha256_def Let_def)

lemma demo_selection: "\<exists>key. selectionKey demo_entry = Some key"
  by (simp add: selectionKey_def demo_entry_def)

lemma demo_columns:
  "sd_generation demo_delivery = 1" "sd_admitted_at_epoch demo_delivery = 500" "sd_expires_at_epoch demo_delivery = 600"
  "sd_next_attempt_at_epoch demo_delivery = 500" "sd_receipt_id demo_delivery = receipt_id_of sample_platform demo_transport"
  "sd_evidence_id demo_delivery = ''e''" "sd_namespace demo_delivery = ''n''" "sd_attempt_key demo_delivery = ''k''" "sd_registration_id demo_delivery = ''r''"
  "sd_status demo_delivery = S_PENDING" "sd_delivery_attempts demo_delivery = 0" "sd_last_dispatch_at_epoch demo_delivery = None"
  by (simp_all add: demo_delivery_def new_delivery_def Let_def demo_entry_def demo_transport_def)

lemma demo_parts:
  "ed_entry demo_decision = demo_entry" "ed_action demo_decision = Action_NEW" "ed_expires_at demo_decision = Some 600"
  "ed_selection_key demo_decision = selectionKey demo_entry"
  "se_attempt_key demo_entry = ''k''" "se_formation_body_sha256 demo_entry = demo_hash" "se_evidence_id demo_entry = ''e''"
  "se_evidence_body_sha256 demo_entry = demo_hash" "se_json demo_entry = JNull" "trigger_of demo_entry = Some 500"
  "tp_registration_id demo_transport = ''r''" "tp_generation demo_transport = 1" "tp_sequence demo_transport = 1" "tp_body_sha256 demo_transport = demo_hash"
  "sn_attempts (ld_snapshot demo_loaded) = []" "sn_evidence_facts (ld_snapshot demo_loaded) = []" "ld_namespace demo_loaded = ''n''"
  "ld_cas_revision demo_loaded = 1" "sn_state (ld_snapshot demo_loaded) = ACTIVE" "ld_registration demo_loaded = demo_registration"
  "sn_existing_receipt (ld_snapshot demo_loaded) = None" "sn_next_sequence (ld_snapshot demo_loaded) = 1" "ld_fact_keys demo_loaded = [(''k'', ''e'')]"
  by (simp_all add: demo_decision_def demo_entry_def trigger_of_def demo_transport_def demo_loaded_def)

lemma demo_receipt:
  fixes c :: receipt_row
  defines "c \<equiv> receipt_row_of sample_platform demo_transport 500 Outcome_ACCEPTED None"
  shows "rc_registration_id c = ''r''" "rc_generation c = 1" "rc_sequence c = 1" "rc_receipt_id c = receipt_id_of sample_platform demo_transport"
    "rc_body_sha256 c = demo_hash" "rc_outcome c = Outcome_ACCEPTED" "rc_admitted_at c = 500"
  unfolding c_def by (simp_all add: receipt_row_of_def demo_parts)

lemmas demo_store = demo_parts demo_columns demo_receipt demo_delivery_ok demo_hash_ok demo_selection demo_installed_def empty_db_def demo_stream_def
  has_receipt_def has_evidence_def attempt_exists_def same_attempt_def stream_exists_def same_stream_def stored_integer_def MAX_SAFE_INTEGER_def

lemma demo_commit:
  "run_batch (commit_statements sample_platform demo_transport demo_loaded 500 [demo_decision] @ [guard_changes]) (demo_installed, n) = Inr (demo_admitted, 1)"
proof -
  have outcome: "commit_outcome [demo_decision] = Outcome_ACCEPTED" by (simp add: commit_outcome_def demo_parts)
  show ?thesis
    unfolding commit_statements_def entry_statements_def Let_def demo_delivery_def[symmetric] outcome insert_receipt_def insert_evidence_def
      insert_attempt_def insert_link_def insert_delivery_def reserve_attempt_def update_streams_def
    by (simp add: demo_parts run_batch_steps del: run_batch.simps(2) flip: demo_delivery_def)
      (simp add: demo_store receipt_allowed_def evidence_allowed_def attempt_allowed_def link_allowed_def delivery_allowed_def
        sql_changes_def sql_update_def held_stream_def accepted_stream_def stream_ok_def stream_sticky_def demo_admitted_def)
qed

lemma demo_admit:
  "admit_once sample_platform demo_validate demo_transport demo_registration 500 ''b'' demo_loaded demo_installed = Answered demo_result demo_admitted"
proof -
  have guards: "stream_guard demo_transport demo_registration demo_loaded demo_installed" "receipt_guard demo_transport demo_loaded demo_installed"
    "run_batch (fact_guards demo_loaded) (demo_installed, n) = Inr (demo_installed, 1)" for n
    by (simp_all add: stream_guard_def receipt_guard_def fact_guards_def guard_def attempt_guard_def evidence_guard_def demo_store)
      (simp add: demo_registration_def)
  have outcome: "commit_outcome [demo_decision] = Outcome_ACCEPTED" by (simp add: commit_outcome_def demo_parts)
  have "run_batch (admission_guards demo_transport demo_registration demo_loaded @
      commit_statements sample_platform demo_transport demo_loaded 500 [demo_decision] @ [guard_changes]) (demo_installed, 0) = Inr (demo_admitted, 1)"
    unfolding admission_guards_def append_Cons run_batch_guard run_batch_append_Inr[of "fact_guards _"] using guards demo_commit by blast
  thus ?thesis
    unfolding admit_once_def Let_def demo_decides apply_batch_def db_batch_def demo_result_def by (simp add: demo_parts outcome del: run_batch.simps)
qed

definition demo_claimed_row :: signal_delivery where
  "demo_claimed_row = demo_delivery\<lparr>sd_status := S_CLAIMED, sd_claim_token := Some ''z'', sd_lease_until_epoch := Some 530, sd_delivery_attempts := 1,
     sd_last_dispatch_at_epoch := Some 500, sd_failure_reason := None\<rparr>"

definition demo_sent_row :: signal_delivery where
  "demo_sent_row = demo_claimed_row\<lparr>sd_status := S_ACKNOWLEDGED, sd_claim_token := None, sd_lease_until_epoch := None, sd_last_dispatch_at_epoch := Some 501\<rparr>"

definition demo_claimed :: signal_db where
  "demo_claimed = demo_admitted\<lparr>db_outbox := [demo_claimed_row]\<rparr>"

definition demo_sent :: signal_db where
  "demo_sent = demo_admitted\<lparr>db_outbox := [demo_sent_row]\<rparr>"

lemma demo_deliverable:
  "deliverable demo_admitted demo_delivery" "deliverable demo_claimed demo_claimed_row"
  by (simp_all add: deliverable_def demo_admitted_def demo_claimed_def demo_claimed_row_def demo_store accepted_stream_def)

lemma demo_claim: "claimSignalDelivery 500 ''z'' demo_admitted = Some (demo_claimed, Some demo_claimed_row)"
proof -
  have rows: "db_outbox demo_admitted = [demo_delivery]" by (simp add: demo_admitted_def)
  have "claimable demo_admitted 500 demo_delivery" by (simp add: claimable_def demo_columns open_delivery_def)
  hence "next_claim demo_admitted 500 = Some demo_delivery" by (simp add: next_claim_def rows)
  moreover have "claimed_row demo_admitted 500 ''z'' demo_delivery = demo_claimed_row"
    by (simp add: claimed_row_def claim_status_def demo_deliverable demo_columns last_seen_def demo_claimed_row_def Let_def)
  moreover have "dispatch_time_ok 500" by (simp add: dispatch_time_ok_def is_safe_integer_def MAX_SAFE_INTEGER_def)
  ultimately show ?thesis by (simp add: claimSignalDelivery_def demo_claimed_def sql_update_def rows)
qed

lemma demo_settle: "settleSignalDelivery ''z'' S_ACKNOWLEDGED 501 demo_claimed = Some (demo_sent, Some S_ACKNOWLEDGED)"
proof -
  have rows: "db_outbox demo_claimed = [demo_claimed_row]" by (simp add: demo_claimed_def)
  have able: "settleable demo_claimed 501 ''z'' demo_claimed_row" by (simp add: settleable_def demo_claimed_row_def)
  have status: "settle_status demo_claimed 501 S_ACKNOWLEDGED demo_claimed_row = S_ACKNOWLEDGED"
    by (simp add: settle_status_def demo_deliverable) (simp add: demo_claimed_row_def demo_columns)
  have "settled_row demo_claimed 501 S_ACKNOWLEDGED demo_claimed_row = demo_sent_row"
    by (simp add: settled_row_def status Let_def demo_sent_row_def) (simp add: demo_claimed_row_def demo_columns)
  moreover have "dispatch_time_ok 501" by (simp add: dispatch_time_ok_def is_safe_integer_def MAX_SAFE_INTEGER_def)
  moreover have "db_outbox_update f demo_claimed = demo_claimed\<lparr>db_outbox := f (db_outbox demo_claimed)\<rparr>" for f by simp
  moreover have "demo_claimed\<lparr>db_outbox := rows\<rparr> = demo_admitted\<lparr>db_outbox := rows\<rparr>" for rows by (simp add: demo_claimed_def)
  ultimately show ?thesis
    by (simp only: settleSignalDelivery_def rows sql_update_def list.map able if_True simp_thms find.simps status option.map demo_sent_def if_False)
qed

text \<open>Another body for the same sequence number quarantines the stream and disputes what the first one admitted.\<close>

definition demo_conflict :: transport where
  "demo_conflict = demo_transport\<lparr>tp_body_sha256 := replicate 64 CHR ''b''\<rparr>"

definition demo_conflict_loaded :: loaded_snapshot where
  "demo_conflict_loaded = demo_loaded\<lparr>ld_snapshot := \<lparr>sn_state = ACTIVE, sn_revision = 1, sn_next_sequence = 2, sn_last_accepted_at = Some 500,
     sn_existing_receipt = Some \<lparr>ad_id = receipt_id_of sample_platform demo_transport, ad_body_sha256 = demo_hash, ad_outcome = Outcome_ACCEPTED, ad_code = None\<rparr>,
     sn_attempts = [], sn_evidence_facts = []\<rparr>, ld_cas_revision := 2, ld_fact_keys := []\<rparr>"

definition demo_conflict_result :: admission_result where
  "demo_conflict_result = admission_response Outcome_REJECTED (Some BODY_CONFLICT) (Some (receipt_id_of sample_platform demo_transport)) False QUARANTINED"

definition demo_stopped_stream :: stream_row where
  "demo_stopped_stream = (accepted_stream 500 demo_stream)\<lparr>sr_state := QUARANTINED, sr_reason := Some ''BODY_CONFLICT'', sr_revision := 3\<rparr>"

definition demo_stopped :: signal_db where
  "demo_stopped = demo_sent\<lparr>db_streams := [demo_stopped_stream], db_attempts := map (\<lambda>a. a\<lparr>at_disputed := True\<rparr>) (db_attempts demo_sent),
     db_audit := db_audit demo_installed @ [\<lparr>sa_audit_id = ''d'', sa_registration_id = ''r'', sa_generation = 1, sa_sequence = Some 1,
       sa_body_sha256 = Some (replicate 64 CHR ''b''), sa_reason = ''BODY_CONFLICT''\<rparr>]\<rparr>"

lemma demo_conflict_parts:
  "tp_registration_id demo_conflict = ''r''" "tp_generation demo_conflict = 1" "tp_sequence demo_conflict = 1"
  "tp_body_sha256 demo_conflict = replicate 64 CHR ''b''"
  "ld_namespace demo_conflict_loaded = ''n''" "ld_cas_revision demo_conflict_loaded = 2" "ld_registration demo_conflict_loaded = demo_registration"
  "ld_fact_keys demo_conflict_loaded = []" "sn_state (ld_snapshot demo_conflict_loaded) = ACTIVE" "sn_next_sequence (ld_snapshot demo_conflict_loaded) = 2"
  "sn_existing_receipt (ld_snapshot demo_conflict_loaded) =
     Some \<lparr>ad_id = receipt_id_of sample_platform demo_transport, ad_body_sha256 = demo_hash, ad_outcome = Outcome_ACCEPTED, ad_code = None\<rparr>"
  "receipt_id_of sample_platform demo_conflict = receipt_id_of sample_platform demo_transport"
  by (simp_all add: demo_conflict_def demo_conflict_loaded_def demo_parts receipt_id_of_def)

lemma demo_conflict_decides: "evaluateAdmission v demo_conflict demo_registration (ld_snapshot demo_conflict_loaded) 502 = Quarantine BODY_CONFLICT []"
proof -
  have "demo_hash \<noteq> replicate 64 CHR ''b''" by code_simp
  thus ?thesis by (simp add: evaluateAdmission_def demo_conflict_parts)
qed

lemma demo_quarantine:
  "run_batch (quarantine_statements sample_platform demo_conflict demo_conflict_loaded 502 ''d'' BODY_CONFLICT [] @ [guard_changes]) (demo_sent, n) = Inr (demo_stopped, 1)"
  unfolding quarantine_statements_def Let_def insert_audit_def dispute_attempts_def quarantine_deliveries_def update_streams_def
  by (simp add: demo_conflict_parts run_batch_steps del: run_batch.simps(2))
    (simp add: demo_store demo_sent_def demo_sent_row_def demo_claimed_row_def demo_admitted_def linked_attempt_def sql_changes_def sql_update_def open_delivery_def
      accepted_stream_def stream_ok_def stream_sticky_def demo_stopped_def demo_stopped_stream_def)

lemma demo_conflict_step:
  "admit_once sample_platform demo_validate demo_conflict demo_registration 502 ''d'' demo_conflict_loaded demo_sent = Answered demo_conflict_result demo_stopped"
proof -
  have guards: "stream_guard demo_conflict demo_registration demo_conflict_loaded demo_sent" "receipt_guard demo_conflict demo_conflict_loaded demo_sent"
    by (simp_all add: stream_guard_def receipt_guard_def demo_conflict_parts demo_sent_def demo_admitted_def accepted_stream_def receipt_at_def demo_store)
      (simp add: demo_registration_def)
  have "run_batch (admission_guards demo_conflict demo_registration demo_conflict_loaded @
      quarantine_statements sample_platform demo_conflict demo_conflict_loaded 502 ''d'' BODY_CONFLICT [] @ [guard_changes]) (demo_sent, 0) = Inr (demo_stopped, 1)"
    unfolding admission_guards_def append_Cons run_batch_guard fact_guards_def demo_conflict_parts using guards demo_quarantine by simp
  thus ?thesis
    unfolding admit_once_def Let_def demo_conflict_decides apply_batch_def db_batch_def demo_conflict_result_def
    by (simp add: demo_conflict_parts del: run_batch.simps)
qed

section \<open>Witnesses\<close>

definition demo_labels :: "signal_label list" where
  "demo_labels = [L_Install 0 demo_registration ''i'' ''a'', L_Admit demo_transport demo_registration 500 ''b'' demo_loaded demo_result,
     L_Claim 500 ''z'', L_Settle ''z'' S_ACKNOWLEDGED 501]"

lemma demo_steps:
  "signal_step sample_platform demo_validate empty_db (L_Install 0 demo_registration ''i'' ''a'') demo_installed"
  "signal_step sample_platform demo_validate demo_installed (L_Admit demo_transport demo_registration 500 ''b'' demo_loaded demo_result) demo_admitted"
  "signal_step sample_platform demo_validate demo_admitted (L_Claim 500 ''z'') demo_claimed"
  "signal_step sample_platform demo_validate demo_claimed (L_Settle ''z'' S_ACKNOWLEDGED 501) demo_sent"
  "signal_step sample_platform demo_validate demo_sent (L_Admit demo_conflict demo_registration 502 ''d'' demo_conflict_loaded demo_conflict_result) demo_stopped"
  by (rule step_install[OF demo_install] step_admit[OF demo_admit] step_claim[OF demo_claim] step_settle[OF _ demo_settle] step_admit[OF demo_conflict_step];
      simp)+

lemma demo_run: "run (signal_step sample_platform demo_validate) empty_db demo_labels demo_sent"
  unfolding demo_labels_def by (rule run_Cons demo_steps run_Nil)+

lemma demo_stopped_run:
  "run (signal_step sample_platform demo_validate) demo_sent [L_Admit demo_conflict demo_registration 502 ''d'' demo_conflict_loaded demo_conflict_result] demo_stopped"
  using demo_steps(5) by (rule run_single)


theorem accepted_sequences_gapless_witness:
  "accepted_stream 500 demo_stream \<in> set (db_streams demo_sent) \<and>
   map rc_sequence (filter (accepted_for ''r'' 1) (db_receipts demo_sent)) = [1..1]"
proof -
  have s: "accepted_stream 500 demo_stream \<in> set (db_streams demo_sent)" by (simp add: demo_sent_def demo_admitted_def)
  from accepted_sequences_gapless[OF demo_run s] s show ?thesis by (simp add: accepted_stream_def demo_stream_def)
qed

theorem attempt_delivered_once_witness:
  "\<exists>w' \<in> set (db_outbox demo_stopped). delivery_content w' = delivery_content demo_sent_row \<and>
    (\<forall>v \<in> set (db_outbox demo_stopped). delivery_attempt v = delivery_attempt demo_sent_row \<longrightarrow> v = w') \<and>
    reserved_by (db_attempts demo_stopped) (delivery_attempt demo_sent_row) (sd_evidence_id demo_sent_row)"
  by (rule attempt_delivered_once[OF demo_run demo_stopped_run]) (simp add: demo_sent_def)

theorem stopped_stream_silent_witness:
  "run (signal_step sample_platform demo_validate) demo_stopped [L_Claim 503 ''y''] demo_stopped \<and> sr_state demo_stopped_stream = QUARANTINED \<and>
   demo_sent_row \<in> set (db_outbox demo_stopped)"
proof -
  have "claimSignalDelivery 503 ''y'' demo_stopped = Some (demo_stopped, None)"
    by (simp add: claimSignalDelivery_def dispatch_time_ok_def is_safe_integer_def MAX_SAFE_INTEGER_def next_claim_def demo_stopped_def demo_sent_def
        claimable_def open_delivery_def demo_sent_row_def)
  hence claim: "run (signal_step sample_platform demo_validate) demo_stopped [L_Claim 503 ''y''] demo_stopped" by (intro run_single step_claim)
  have "demo_sent_row \<in> set (db_outbox demo_stopped) \<or> sd_status demo_sent_row = S_QUARANTINED"
    by (rule stopped_stream_silent[OF run_append[OF demo_run demo_stopped_run] _ _ claim, of demo_stopped_stream])
      (simp_all add: demo_stopped_def demo_stopped_stream_def demo_sent_def demo_sent_row_def demo_claimed_row_def demo_columns accepted_stream_def demo_stream_def)
  with claim show ?thesis by (simp add: demo_sent_row_def demo_stopped_stream_def)
qed

theorem delivery_changes_bounded_witness:
  "run_changes (signal_step sample_platform demo_validate) (\<lambda>s t. progress_of (sd_delivery_id demo_delivery) s \<noteq> progress_of (sd_delivery_id demo_delivery) t)
     empty_db 3 demo_sent \<and> (3::nat) \<le> 11"
proof -
  let ?i = "sd_delivery_id demo_delivery" and ?step = "signal_step sample_platform demo_validate"
  let ?c = "\<lambda>s t. progress_of ?i s \<noteq> progress_of ?i t"
  have p: "progress_of ?i empty_db = None" "progress_of ?i demo_installed = None" "progress_of ?i demo_admitted = Some (S_PENDING, 0)"
    "progress_of ?i demo_claimed = Some (S_CLAIMED, 1)" "progress_of ?i demo_sent = Some (S_ACKNOWLEDGED, 1)"
    by (simp_all add: progress_of_def progress_def empty_db_def demo_installed_def demo_admitted_def demo_claimed_def demo_sent_def
        demo_sent_row_def demo_claimed_row_def demo_columns)
  note c = run_changes_Cons[where step = ?step and changes = ?c]
  have "run_changes ?step ?c demo_claimed 1 demo_sent"
    using c[OF demo_steps(4) run_changes_Nil] by (simp add: p)
  hence "run_changes ?step ?c demo_admitted 2 demo_sent" using c[OF demo_steps(3)] by (simp add: p numeral_2_eq_2)
  hence "run_changes ?step ?c demo_installed 3 demo_sent" using c[OF demo_steps(2)] by (simp add: p numeral_3_eq_3 numeral_2_eq_2)
  hence "run_changes ?step ?c empty_db 3 demo_sent" using c[OF demo_steps(1)] by (simp add: p)
  with delivery_changes_bounded[OF this] show ?thesis by simp
qed

theorem accepted_request_repeats_witness:
  "\<exists>state. admitSignal sample_platform demo_validate demo_transport demo_registration 999 [(demo_sent, demo_sent, ''x'')] =
    Some (demo_result\<lparr>ax_duplicate := True, ax_stream_state := state\<rparr>, demo_sent)"
proof -
  have "run (signal_step sample_platform demo_validate) empty_db
    ([L_Install 0 demo_registration ''i'' ''a''] @ L_Admit demo_transport demo_registration 500 ''b'' demo_loaded demo_result #
      [L_Claim 500 ''z'', L_Settle ''z'' S_ACKNOWLEDGED 501]) demo_sent"
    using demo_run by (simp add: demo_labels_def)
  from accepted_request_repeats[OF this, of demo_registration 999 demo_sent "''x''" "[]"] show ?thesis
    by (simp add: demo_result_def admission_response_def)
qed

theorem authenticated_iff_witness:
  "authenticateRegistration sample_platform demo_transport (Some (demo_registration\<lparr>rg_credential_sha256 := sha256Hex sample_platform ''c''\<rparr>)) 500"
proof -
  have "read_scope (rg_scope_key demo_registration) = Some (map strict_member demo_scope_fields)"
    using demo_scope_parsed by (simp add: demo_registration_def)
  moreover have "is_text (map strict_member demo_scope_fields) ''strategy_id'' ''s''" by (simp add: is_text_def demo_scope_values del: units_of_simps)
  moreover have "tp_strategy_id demo_transport = ''s''" "tp_credential demo_transport = ''c''" "tp_producer_instance_id demo_transport = ''p''"
    by (simp_all add: demo_transport_def)
  moreover have "is_safe_integer 500" by (simp add: is_safe_integer_def MAX_SAFE_INTEGER_def)
  ultimately show ?thesis
    unfolding authenticated_iff[OF sample_platform_width] by (simp add: demo_parts) (simp add: demo_registration_def)
qed

end
