(* ===== verification/Js_Numbers.thy ===== *)
theory Js_Numbers
  imports Strict_Json "HOL-Library.Log_Nat"
begin

text \<open>
  Number tokens with a fraction or an exponent: the double that \<open>Number(raw)\<close> rounds to, whether it is an
  integer, and the length of its shortest spelling as \<open>JSON.stringify\<close> prints it. Integer tokens keep
  their value elsewhere; here only the decimal notation is interpreted.
\<close>

section \<open>Rounding to a double\<close>

text \<open>A positive rational \<open>a / b\<close> is \<open>m * 2 ^ p\<close> with at most 53 bits, ties to even, never finer than \<open>2 ^ - 1074\<close>.\<close>

definition scaled :: "int \<Rightarrow> int \<Rightarrow> int \<Rightarrow> int \<times> int" where
  "scaled base a e = (if e \<ge> 0 then (a * base ^ nat e, 1) else (a, base ^ nat (- e)))"

definition round_even :: "int \<Rightarrow> int \<Rightarrow> int" where
  "round_even a b = (let q = a div b; r = 2 * (a mod b) in if r < b \<or> r = b \<and> even q then q else q + 1)"

definition binary_exponent :: "int \<Rightarrow> int \<Rightarrow> int" where
  "binary_exponent a b =
     (let k = int (floorlog 2 (nat a)) - int (floorlog 2 (nat b)); (u, v) = scaled 2 1 k in
      if a * v < b * u then k - 1 else k)"

definition double_of :: "int \<Rightarrow> int \<Rightarrow> int \<times> int" where
  "double_of a b = (if a = 0 then (0, 0) else
     let p = max (binary_exponent a b - 52) (- 1074); (u, v) = scaled 2 1 p in (round_even (a * v) (b * u), p))"

definition token_ratio :: "number_match \<Rightarrow> int \<times> int" where
  "token_ratio m =
     (let mantissa = int (units_value (nm_whole m @ tl (nm_fraction m)));
          e = (if 45 \<in> set (nm_expMark m) then - int (units_value (nm_expDigits m)) else int (units_value (nm_expDigits m)))
            - int (length (tl (nm_fraction m))) in
      scaled 10 mantissa e)"

definition token_double :: "number_match \<Rightarrow> int \<times> int" where
  "token_double m = (let (a, b) = token_ratio m in double_of a b)"

text \<open>The value of a token whose double is an integer.\<close>

definition double_integer :: "int \<times> int \<Rightarrow> int option" where
  "double_integer = (\<lambda>(m, p). let (u, v) = scaled 2 1 p in if m * u mod v = 0 then Some (m * u div v) else None)"

definition token_integer :: "units \<Rightarrow> int option" where
  "token_integer raw = (case match_number raw of
       None \<Rightarrow> None
     | Some (m, _) \<Rightarrow> map_option (\<lambda>n. if nm_sign m = [] then n else - n) (double_integer (token_double m)))"

section \<open>The shortest spelling\<close>

text \<open>Two pairs stand for the same double.\<close>

definition same_double :: "int \<times> int \<Rightarrow> int \<times> int \<Rightarrow> bool" where
  "same_double d d' = (let (m, p) = d; (m', p') = d'; q = min p p' in m * 2 ^ nat (p - q) = m' * 2 ^ nat (p' - q))"

text \<open>\<open>n\<close> with \<open>10 ^ (n - 1) \<le> a / b < 10 ^ n\<close>.\<close>

definition decimal_exponent :: "int \<Rightarrow> int \<Rightarrow> int" where
  "decimal_exponent a b =
     (let k = int (floorlog 10 (nat a)) - int (floorlog 10 (nat b)); (u, v) = scaled 10 1 k in
      if a * v < b * u then k else k + 1)"

text \<open>Some \<open>s\<close> of \<open>k\<close> digits has \<open>s * 10 ^ (n - k)\<close> rounding to the double \<open>d = a / b\<close>.\<close>

definition spells :: "int \<times> int \<Rightarrow> int \<Rightarrow> int \<Rightarrow> nat \<Rightarrow> int \<Rightarrow> bool" where
  "spells d a b k n =
     (let (u, v) = scaled 10 1 (n - int k); s = a * v div (b * u) in
      list_ex (\<lambda>s. 10 ^ (k - 1) \<le> s \<and> s < 10 ^ k \<and> same_double (double_of (s * u) v) d) [s, s + 1])"

definition shortest :: "int \<times> int \<Rightarrow> nat \<times> int" where
  "shortest d =
     (let (m, p) = d; (u, v) = scaled 2 1 p; a = m * u; n = decimal_exponent a v in
      case List.find (\<lambda>(k, n). spells d a v k n) (concat (map (\<lambda>k. [(k, n), (k, n + 1)]) [1..<18])) of
        Some kn \<Rightarrow> kn
      | None \<Rightarrow> (17, n))"

text \<open>The length of \<open>Number::toString\<close> for \<open>k\<close> digits with the point after the \<open>n\<close>-th.\<close>

definition spelled_length :: "nat \<Rightarrow> int \<Rightarrow> nat" where
  "spelled_length k n =
     (if int k \<le> n \<and> n \<le> 21 then nat n
      else if 0 < n \<and> n \<le> 21 then k + 1
      else if - 6 < n \<and> n \<le> 0 then nat (2 - n) + k
      else (if k = 1 then 1 else k + 1) + 2 + length (js_number \<bar>n - 1\<bar>))"

definition token_length :: "units \<Rightarrow> nat" where
  "token_length raw = (case match_number raw of
       None \<Rightarrow> 0
     | Some (m, _) \<Rightarrow>
         (let d = token_double m in
          if fst d = 0 then 1
          else (if nm_sign m = [] then 0 else 1) + (let (k, n) = shortest d in spelled_length k n)))"

end
