(* ===== verification/Entry_Wire.thy ===== *)
theory Entry_Wire
  imports Signal_Wire Js_Numbers Rd_Completion
begin

text \<open>
  The wire reader of the v3 entry decision (\<open>rd-entry-wire-v3.ts\<close>): from a strict JSON value to the records
  of the entry domain. A producer's proposal is never believed: the reader recomputes every
  identifier, arbitrates the candidates again and compares, and it checks the market facts that a
  paper entry or an exit rests on.

  An \<open>EntryV3ValidationError\<close> is \<open>Error code\<close>; the arbitrator's own \<open>TypeError\<close> passes through. A value of
  JavaScript after \<open>plain\<close> is still a \<open>strict_json\<close>, since only the wrapper of numbers is dropped; a missing
  property is \<open>None\<close>. An enumerated string that the source reads unchecked and rejects in the validator
  of the record is read to its datatype at the place of that validator.
\<close>

section \<open>Elementary readers\<close>

definition v3_error :: "string \<Rightarrow> js_error" where
  "v3_error code = Error (''ENTRY_V3_'' @ code)"

definition v3_invalid :: js_error where
  "v3_invalid = v3_error ''INVALID''"

definition v3_fail_if :: "bool \<Rightarrow> 'a result \<Rightarrow> 'a result" where
  "v3_fail_if b r = after_check (fail_if b v3_invalid) r"

definition v3_require :: "'a option \<Rightarrow> 'a result" where
  "v3_require x = (case x of None \<Rightarrow> Inl v3_invalid | Some y \<Rightarrow> Inr y)"

definition ENTRY_V3_MAX_PAYLOAD_CHARACTERS :: nat where
  "ENTRY_V3_MAX_PAYLOAD_CHARACTERS = 35000"

text \<open>\<open>plain\<close> only refuses unsafe integer tokens.\<close>

fun safe_tokens :: "strict_json \<Rightarrow> bool" where
  "safe_tokens (SNum raw n) = (case n of None \<Rightarrow> True | Some i \<Rightarrow> is_safe_integer i)"
| "safe_tokens (SArr vs) = list_all safe_tokens vs"
| "safe_tokens (SObj kvs) = list_all (\<lambda>kv. safe_tokens (snd kv)) kvs"
| "safe_tokens _ = True"

definition plain :: "strict_json \<Rightarrow> strict_json result" where
  "plain v = v3_fail_if (\<not> safe_tokens v) (Inr v)"

text \<open>The length of \<open>JSON.stringify\<close>: commas between, quotes, colons and brackets around.\<close>

fun stringify_length :: "strict_json \<Rightarrow> nat" where
  "stringify_length SNull = 4"
| "stringify_length (SBool b) = (if b then 4 else 5)"
| "stringify_length (SStr s) = length (quote_text s)"
| "stringify_length (SNum raw n) = (case n of Some i \<Rightarrow> length (js_number i) | None \<Rightarrow> token_length raw)"
| "stringify_length (SArr vs) = 2 + (length vs - 1) + sum_list (map stringify_length vs)"
| "stringify_length (SObj kvs) =
     2 + (length kvs - 1) + sum_list (map (\<lambda>kv. length (quote_text (fst kv)) + 1 + stringify_length (snd kv)) kvs)"

definition v3_object :: "strict_json option \<Rightarrow> members result" where
  "v3_object v = (case v of Some (SObj kvs) \<Rightarrow> Inr kvs | _ \<Rightarrow> Inl (v3_error ''OBJECT''))"

definition v3_record :: "string list \<Rightarrow> strict_json option \<Rightarrow> members result" where
  "v3_record keys v = and_then (v3_object v) (\<lambda>r. after_check (fail_if (\<not> strict_keys r keys) (v3_error ''KEYS'')) (Inr r))"

definition number_value :: "strict_json \<Rightarrow> int option" where
  "number_value v = (case v of SNum raw (Some n) \<Rightarrow> Some n | SNum raw None \<Rightarrow> token_integer raw | _ \<Rightarrow> None)"

definition v3_signed :: "strict_json option \<Rightarrow> int result" where
  "v3_signed v = and_then (v3_require (Option.bind v number_value)) (\<lambda>n. v3_fail_if (\<not> is_safe_integer n) (Inr n))"

definition v3_integer :: "int \<Rightarrow> strict_json option \<Rightarrow> int result" where
  "v3_integer minimum v = and_then (v3_signed v) (\<lambda>n. v3_fail_if (n < minimum) (Inr n))"

definition trim_unit :: "nat \<Rightarrow> bool" where
  "trim_unit u \<longleftrightarrow> 9 \<le> u \<and> u \<le> 13 \<or> 0x2000 \<le> u \<and> u \<le> 0x200A \<or>
     u \<in> set [32, 160, 0x1680, 0x2028, 0x2029, 0x202F, 0x205F, 0x3000, 0xFEFF]"

definition v3_text :: "nat \<Rightarrow> strict_json option \<Rightarrow> units result" where
  "v3_text maximum v = (case v of
       Some (SStr s) \<Rightarrow> v3_fail_if (s = [] \<or> length s > maximum \<or> trim_unit (hd s) \<or> trim_unit (last s)) (Inr s)
     | _ \<Rightarrow> Inl v3_invalid)"

definition v3_identifier :: "strict_json option \<Rightarrow> string result" where
  "v3_identifier v = and_then (v3_text 256 v) (\<lambda>s. v3_fail_if (\<not> list_all identifier_unit s) (Inr (string_of_units s)))"

definition hex_units :: "units \<Rightarrow> bool" where
  "hex_units s \<longleftrightarrow> length s = 64 \<and> list_all (\<lambda>u. 48 \<le> u \<and> u \<le> 57 \<or> 97 \<le> u \<and> u \<le> 102) s"

definition v3_digest :: "strict_json option \<Rightarrow> string result" where
  "v3_digest v = and_then (v3_text 64 v) (\<lambda>s. v3_fail_if (\<not> hex_units s \<or> s = replicate 64 48) (Inr (string_of_units s)))"

definition v3_boolean :: "strict_json option \<Rightarrow> bool result" where
  "v3_boolean v = (case v of Some (SBool b) \<Rightarrow> Inr b | _ \<Rightarrow> Inl v3_invalid)"

definition v3_values :: "nat \<Rightarrow> nat \<Rightarrow> strict_json option \<Rightarrow> strict_json list result" where
  "v3_values minimum maximum v = (case v of
       Some (SArr vs) \<Rightarrow> v3_fail_if (length vs < minimum \<or> length vs > maximum) (Inr vs)
     | _ \<Rightarrow> Inl v3_invalid)"

definition v3_items :: "nat \<Rightarrow> nat \<Rightarrow> (strict_json option \<Rightarrow> 'a result) \<Rightarrow> strict_json option \<Rightarrow> 'a list result" where
  "v3_items minimum maximum reader v = and_then (v3_values minimum maximum v) (\<lambda>vs. all_results (map (reader \<circ> Some) vs))"

definition stringValues :: "nat \<Rightarrow> strict_json option \<Rightarrow> string list result" where
  "stringValues maximum v = and_then (v3_items 0 maximum v3_identifier v) (\<lambda>xs. v3_fail_if (length (js_set xs) \<noteq> length xs) (Inr xs))"

definition v3_nullable :: "(strict_json option \<Rightarrow> 'a result) \<Rightarrow> strict_json option \<Rightarrow> 'a option result" where
  "v3_nullable reader v = (if v = Some SNull then Inr None else and_then (reader v) (Inr \<circ> Some))"

text \<open>A string of an enumeration, in the spelling of the wire.\<close>

definition enum_of :: "('a \<Rightarrow> string) \<Rightarrow> 'a list \<Rightarrow> strict_json option \<Rightarrow> 'a option" where
  "enum_of name values v = (case v of Some (SStr s) \<Rightarrow> List.find (\<lambda>x. units_of (name x) = s) values | _ \<Rightarrow> None)"

definition v3_enum :: "('a \<Rightarrow> string) \<Rightarrow> 'a list \<Rightarrow> strict_json option \<Rightarrow> 'a result" where
  "v3_enum name values v = v3_require (enum_of name values v)"

definition text_is :: "strict_json option \<Rightarrow> string \<Rightarrow> bool" where
  "text_is v s \<longleftrightarrow> v = Some (SStr (units_of s))"

fun state_name :: "candidate_state \<Rightarrow> string" where
  "state_name MATCHED = ''MATCHED''"
| "state_name BLOCKED = ''BLOCKED''"
| "state_name REJECTED = ''REJECTED''"

fun cohort_name :: "liquidity_cohort \<Rightarrow> string" where
  "cohort_name ONE_CANDLE = ''ONE_CANDLE''"
| "cohort_name TWO_PLUS_CANDLES = ''TWO_PLUS_CANDLES''"

definition MODELS :: "entry_model list" where "MODELS = [BOC, DIR_CLOSE, HTF_FLIP]"
definition TIERS :: "boc_tier list" where "TIERS = [HTF_TIMED, DISCRETIONARY_5M]"
definition DIRECTIONS :: "direction list" where "DIRECTIONS = [LONG, SHORT]"
definition FIDELITIES :: "fidelity list" where "FIDELITIES = [EXACT, CALIBRATED, DISCRETIONARY, UNRESOLVED]"
definition REASONS :: "selection_reason list" where
  "REASONS = [ONLY_EXACT_TRIGGER, EARLIEST_EXACT_TRIGGER, FALLBACK_TO_CONFIRMED_CLOSE, CO_TRIGGER_SAME_EVENT,
     CO_TRIGGER_PRICE_CONFLICT, NO_EXACT_CANDIDATE, SETUP_INVALIDATED, NO_CANDIDATE]"
definition ACTIONS :: "selection_action list" where "ACTIONS = [OBSERVE, PAPER_ELIGIBLE, SHADOW_ONLY, NO_ACTION]"

text \<open>A caught validator: any error becomes the reader's own.\<close>

definition v3_caught :: "check \<Rightarrow> 'a result \<Rightarrow> 'a result" where
  "v3_caught c r = v3_fail_if (c \<noteq> None) r"

section \<open>Candles, candidates and evidence\<close>

definition CANDLE_KEYS :: "string list" where
  "CANDLE_KEYS = [''open_epoch'', ''close_epoch'', ''open_ticks'', ''high_ticks'', ''low_ticks'', ''close_ticks'']"

definition parseCandle :: "bool \<Rightarrow> strict_json option \<Rightarrow> ordered_candle result" where
  "parseCandle requireFiveMinutes v =
     and_then (v3_record CANDLE_KEYS v) (\<lambda>r.
     and_then (v3_integer 0 (field_of r ''open_epoch'')) (\<lambda>oe.
     and_then (v3_integer 0 (field_of r ''close_epoch'')) (\<lambda>ce.
     and_then (v3_signed (field_of r ''open_ticks'')) (\<lambda>ot.
     and_then (v3_signed (field_of r ''high_ticks'')) (\<lambda>ht.
     and_then (v3_signed (field_of r ''low_ticks'')) (\<lambda>lt.
     and_then (v3_signed (field_of r ''close_ticks'')) (\<lambda>ct.
     let candle = \<lparr>open_epoch = oe, close_epoch = ce, open_ticks = ot, high_ticks = ht, low_ticks = lt, close_ticks = ct\<rparr> in
     v3_caught (validateOrderedCandleV3 candle ''candle'')
     (v3_fail_if (requireFiveMinutes \<and> (ce - oe \<noteq> 300 \<or> oe mod 300 \<noteq> 0)) (Inr candle)))))))))"

definition CANDIDATE_KEYS_V3 :: "string list" where
  "CANDIDATE_KEYS_V3 = [''candidate_id'', ''setup_id'', ''model'', ''state'', ''direction'', ''event_anchor_epoch'', ''trigger_ordinal'', ''boc_tier'',
     ''reference_candle_open_epoch'', ''source_claim_ids'', ''observed_at_epoch'']"

definition parseCandidate :: "strict_json option \<Rightarrow> candidate result" where
  "parseCandidate v =
     and_then (v3_record CANDIDATE_KEYS_V3 v) (\<lambda>r.
     and_then (v3_digest (field_of r ''candidate_id'')) (\<lambda>candidate_id.
     and_then (v3_identifier (field_of r ''setup_id'')) (\<lambda>setup_id.
     and_then (v3_integer 0 (field_of r ''event_anchor_epoch'')) (\<lambda>anchor.
     and_then (v3_integer 1 (field_of r ''trigger_ordinal'')) (\<lambda>ordinal.
     and_then (v3_nullable (v3_integer 0) (field_of r ''reference_candle_open_epoch'')) (\<lambda>reference.
     and_then (stringValues 32 (field_of r ''source_claim_ids'')) (\<lambda>claims.
     and_then (v3_integer 0 (field_of r ''observed_at_epoch'')) (\<lambda>observed.
     and_then (v3_enum model_name MODELS (field_of r ''model'')) (\<lambda>model.
     and_then (v3_enum state_name [MATCHED, BLOCKED, REJECTED] (field_of r ''state'')) (\<lambda>state.
     and_then (v3_enum direction_name DIRECTIONS (field_of r ''direction'')) (\<lambda>dir.
     and_then (v3_nullable (v3_enum tier_name TIERS) (field_of r ''boc_tier'')) (\<lambda>tier.
     let candidate = \<lparr>cd_candidate_id = candidate_id, cd_setup_id = setup_id, cd_model = model, cd_state = state, cd_direction = dir,
           cd_event_anchor_epoch = anchor, cd_trigger_ordinal = ordinal, cd_boc_tier = tier, cd_reference_candle_open_epoch = reference,
           cd_source_claim_ids = claims, cd_observed_at_epoch = observed\<rparr> in
     v3_caught (validateEntryCandidateV3 candidate) (Inr candidate)))))))))))))"

definition EDGE_DERIVED_DIGEST :: string where "EDGE_DERIVED_DIGEST = ''EDGE_DERIVED''"

definition edgeDerivedReference :: "entry_model \<Rightarrow> string" where
  "edgeDerivedReference model = EDGE_DERIVED_DIGEST @ '':'' @ model_name model"

definition edgeDerivedModel :: "strict_json option \<Rightarrow> entry_model result" where
  "edgeDerivedModel v = and_then (v3_text 256 v) (\<lambda>s. v3_require (List.find (\<lambda>m. units_of (edgeDerivedReference m) = s) MODELS))"

text \<open>\<open>{ ...record, key: value }\<close>.\<close>

definition with_member :: "string \<Rightarrow> strict_json \<Rightarrow> members \<Rightarrow> members" where
  "with_member k v r = map_set (units_of k) v r"

definition digest_of :: "char \<Rightarrow> strict_json" where
  "digest_of c = SStr (units_of (replicate 64 c))"

definition parseEdgeDerivedCandidate :: "platform \<Rightarrow> strict_json option \<Rightarrow> candidate result" where
  "parseEdgeDerivedCandidate P v =
     and_then (v3_record CANDIDATE_KEYS_V3 v) (\<lambda>r.
     and_then (edgeDerivedModel (field_of r ''candidate_id'')) (\<lambda>referenceModel.
     and_then (parseCandidate (Some (SObj (with_member ''candidate_id'' (digest_of (CHR ''a'')) r)))) (\<lambda>provisional.
     v3_fail_if (referenceModel \<noteq> cd_model provisional)
     (Inr (provisional\<lparr>cd_candidate_id := candidateIdV3 P (identity_of provisional)\<rparr>)))))"

definition EVIDENCE_KEYS_V3 :: "string list" where
  "EVIDENCE_KEYS_V3 = [''evidence_id'', ''candidate_id'', ''observed_trigger_epoch'', ''trigger_sequence'', ''observed_trigger_ticks'', ''htf_context_minutes'',
     ''fidelity'', ''proof_plane'', ''replayability'', ''coverage_start_epoch'', ''coverage_end_epoch'', ''ambiguity_codes'', ''boc_tier'',
     ''reference_candle_open_epoch'', ''reference_candle_open_ticks'', ''reference_candle_high_ticks'', ''reference_candle_low_ticks'',
     ''reference_candle_close_ticks'', ''htf_open_ticks'', ''contact_candle'', ''recross_candle'', ''coverage_gap_detected'', ''full_lifecycle_ordered'',
     ''destination_seen_before_contact'', ''passed_rule_ids'', ''failed_rule_ids'', ''source_claim_ids'', ''payload_sha256'', ''observed_at_epoch'']"

definition AMBIGUITIES :: "ambiguity_code list" where
  "AMBIGUITIES = [SHADOW_SAME_CHILD_BAR_ORDER, SHADOW_MISSING_INTRABAR_COVERAGE, SHADOW_REALTIME_ONLY_NOT_REPLAYABLE]"

definition PLANES :: "proof_plane list" where
  "PLANES = [CONFIRMED_5M, LOWER_TIMEFRAME_REPLAY, REALTIME_TICK, EXTERNAL_ARCHIVED_TICK]"

definition read_code :: "string \<Rightarrow> ambiguity_code result" where
  "read_code s = v3_require (List.find (\<lambda>c. ambiguity_name c = s) AMBIGUITIES)"

definition parseEvidence :: "strict_json option \<Rightarrow> evidence result" where
  "parseEvidence v =
     and_then (v3_record EVIDENCE_KEYS_V3 v) (\<lambda>r.
     and_then (v3_digest (field_of r ''evidence_id'')) (\<lambda>evidence_id.
     and_then (v3_digest (field_of r ''candidate_id'')) (\<lambda>candidate_id.
     and_then (v3_nullable (v3_integer 0) (field_of r ''observed_trigger_epoch'')) (\<lambda>triggerEpoch.
     and_then (v3_integer 0 (field_of r ''trigger_sequence'')) (\<lambda>seq.
     and_then (v3_nullable v3_signed (field_of r ''observed_trigger_ticks'')) (\<lambda>triggerTicks.
     and_then (v3_items 0 3 (v3_integer 15) (field_of r ''htf_context_minutes'')) (\<lambda>contexts.
     and_then (v3_integer 0 (field_of r ''coverage_start_epoch'')) (\<lambda>coverageStart.
     and_then (v3_integer 0 (field_of r ''coverage_end_epoch'')) (\<lambda>coverageEnd.
     and_then (stringValues 3 (field_of r ''ambiguity_codes'')) (\<lambda>codes.
     and_then (v3_nullable (v3_integer 0) (field_of r ''reference_candle_open_epoch'')) (\<lambda>refEpoch.
     and_then (v3_nullable v3_signed (field_of r ''reference_candle_open_ticks'')) (\<lambda>refOpen.
     and_then (v3_nullable v3_signed (field_of r ''reference_candle_high_ticks'')) (\<lambda>refHigh.
     and_then (v3_nullable v3_signed (field_of r ''reference_candle_low_ticks'')) (\<lambda>refLow.
     and_then (v3_nullable v3_signed (field_of r ''reference_candle_close_ticks'')) (\<lambda>refClose.
     and_then (v3_nullable v3_signed (field_of r ''htf_open_ticks'')) (\<lambda>htfOpen.
     and_then (v3_nullable (parseCandle False) (field_of r ''contact_candle'')) (\<lambda>contact.
     and_then (v3_nullable (parseCandle False) (field_of r ''recross_candle'')) (\<lambda>recross.
     and_then (v3_nullable v3_boolean (field_of r ''coverage_gap_detected'')) (\<lambda>gap.
     and_then (v3_nullable v3_boolean (field_of r ''full_lifecycle_ordered'')) (\<lambda>ordered.
     and_then (v3_nullable v3_boolean (field_of r ''destination_seen_before_contact'')) (\<lambda>destination.
     and_then (stringValues 32 (field_of r ''passed_rule_ids'')) (\<lambda>passed.
     and_then (stringValues 32 (field_of r ''failed_rule_ids'')) (\<lambda>failed.
     and_then (stringValues 32 (field_of r ''source_claim_ids'')) (\<lambda>claims.
     and_then (v3_digest (field_of r ''payload_sha256'')) (\<lambda>payload.
     and_then (v3_integer 0 (field_of r ''observed_at_epoch'')) (\<lambda>observed.
     and_then (v3_enum fidelity_name FIDELITIES (field_of r ''fidelity'')) (\<lambda>fid.
     and_then (v3_enum plane_name PLANES (field_of r ''proof_plane'')) (\<lambda>plane.
     and_then (v3_enum replayability_name [REPLAYABLE, LIVE_EXACT_NON_REPLAYABLE] (field_of r ''replayability'')) (\<lambda>replay.
     and_then (all_results (map read_code codes)) (\<lambda>ambiguities.
     and_then (v3_nullable (v3_enum tier_name TIERS) (field_of r ''boc_tier'')) (\<lambda>tier.
     let evidence = \<lparr>ev_evidence_id = evidence_id, ev_candidate_id = candidate_id, ev_observed_trigger_epoch = triggerEpoch, ev_trigger_sequence = seq,
           ev_observed_trigger_ticks = triggerTicks, ev_htf_context_minutes = contexts, ev_fidelity = fid, ev_proof_plane = plane, ev_replayability = replay,
           ev_coverage_start_epoch = coverageStart, ev_coverage_end_epoch = coverageEnd, ev_ambiguity_codes = ambiguities, ev_boc_tier = tier,
           ev_reference_candle_open_epoch = refEpoch, ev_reference_candle_open_ticks = refOpen, ev_reference_candle_high_ticks = refHigh,
           ev_reference_candle_low_ticks = refLow, ev_reference_candle_close_ticks = refClose, ev_htf_open_ticks = htfOpen, ev_contact_candle = contact,
           ev_recross_candle = recross, ev_coverage_gap_detected = gap, ev_full_lifecycle_ordered = ordered, ev_destination_seen_before_contact = destination,
           ev_passed_rule_ids = passed, ev_failed_rule_ids = failed, ev_source_claim_ids = claims, ev_payload_sha256 = payload,
           ev_observed_at_epoch = observed\<rparr> in
     v3_caught (validateEntryEvidenceV3 evidence) (Inr evidence))))))))))))))))))))))))))))))))"

definition parseEdgeDerivedEvidence :: "platform \<Rightarrow> (entry_model, candidate) js_map \<Rightarrow> strict_json option \<Rightarrow> evidence result" where
  "parseEdgeDerivedEvidence P candidateByModel v =
     and_then (v3_record EVIDENCE_KEYS_V3 v) (\<lambda>r.
     and_then (edgeDerivedModel (field_of r ''candidate_id'')) (\<lambda>candidateModel.
     and_then (edgeDerivedModel (field_of r ''evidence_id'')) (\<lambda>evidenceModel.
     case map_get candidateByModel candidateModel of
       None \<Rightarrow> Inl v3_invalid
     | Some candidate \<Rightarrow>
         v3_fail_if (candidateModel \<noteq> evidenceModel \<or> \<not> text_is (field_of r ''payload_sha256'') EDGE_DERIVED_DIGEST)
         (and_then (parseEvidence (Some (SObj (with_member ''payload_sha256'' (digest_of (CHR ''b''))
             (with_member ''candidate_id'' (SStr (units_of (cd_candidate_id candidate))) (with_member ''evidence_id'' (digest_of (CHR ''a'')) r)))))) (\<lambda>provisional.
          let withPayloadDigest = provisional\<lparr>ev_payload_sha256 := evidencePayloadSha256V3 P provisional\<rparr> in
          Inr (withPayloadDigest\<lparr>ev_evidence_id := evidenceIdV3 P withPayloadDigest\<rparr>))))))"

section \<open>Selections\<close>

definition SELECTION_KEYS :: "string list" where
  "SELECTION_KEYS = [''selection_id'', ''setup_id'', ''policy_version'', ''revision'', ''candidate_ids_considered'', ''canonical_candidate_id'',
     ''canonical_evidence_id'', ''canonical_model'', ''reason'', ''fidelity'', ''action'', ''co_triggered_models'', ''evaluated_at_epoch'']"

text \<open>
  A selection as it is read: the fields the reader passes on unchecked keep their JSON value. Every key
  is present when the record is built, because an absent one has a neighbour in key order that is
  absent too and that a reader refuses.
\<close>

record wire_selection =
  ws_selection_id :: string
  ws_setup_id :: string
  ws_policy_version :: strict_json
  ws_revision :: int
  ws_candidate_ids_considered :: "string list"
  ws_canonical_candidate_id :: "string option"
  ws_canonical_evidence_id :: "string option"
  ws_canonical_model :: strict_json
  ws_reason :: strict_json
  ws_fidelity :: strict_json
  ws_action :: strict_json
  ws_co_triggered_models :: "string list"
  ws_evaluated_at_epoch :: int

definition j_text :: "string \<Rightarrow> strict_json" where
  "j_text s = SStr (units_of s)"

text \<open>A value as a property key: the text of a string, also inside arrays of one element. Other texts name no reason.\<close>

fun key_text :: "strict_json \<Rightarrow> units option" where
  "key_text (SStr s) = Some s"
| "key_text (SArr [v]) = key_text v"
| "key_text _ = None"

definition empty_action :: "strict_json \<Rightarrow> strict_json option" where
  "empty_action reason = Option.bind (key_text reason) (\<lambda>s.
     map_option (j_text \<circ> action_name) (Option.bind (enum_of reason_name REASONS (Some (SStr s))) emptyActions))"

text \<open>\<open>validateSelectionShapeV3\<close> on a selection whose enumerated fields are unchecked.\<close>

definition wire_shape_ok :: "wire_selection \<Rightarrow> bool" where
  "wire_shape_ok s \<longleftrightarrow>
     digest (ws_selection_id s) ''selection_id'' = None \<and>
     ws_policy_version s = j_text POLICY_VERSION_V3 \<and> ws_setup_id s \<noteq> [] \<and>
     safeInteger (ws_revision s) ''revision'' (Some 0) = None \<and>
     safeInteger (ws_evaluated_at_epoch s) ''evaluated_at_epoch'' (Some 0) = None \<and>
     unique (ws_candidate_ids_considered s) ''candidate_ids_considered'' = None \<and>
     join_strings (js_sort compare_units (ws_candidate_ids_considered s)) = join_strings (ws_candidate_ids_considered s) \<and>
     (ws_canonical_candidate_id s = None) = (ws_canonical_evidence_id s = None) \<and>
     (ws_canonical_candidate_id s = None) = (ws_canonical_model s = SNull) \<and>
     check_option (\<lambda>c. digest c ''canonical_candidate_id'') (ws_canonical_candidate_id s) = None \<and>
     check_option (\<lambda>e. digest e ''canonical_evidence_id'') (ws_canonical_evidence_id s) = None \<and>
     join_strings (js_sort compare_units (js_set (ws_co_triggered_models s))) = join_strings (ws_co_triggered_models s) \<and>
     (if ws_canonical_candidate_id s \<noteq> None
      then ws_fidelity s = j_text (fidelity_name EXACT) \<and> ws_action s = j_text (action_name PAPER_ELIGIBLE) \<and>
        ws_reason s \<in> set (map (j_text \<circ> reason_name) canonicalReasons)
      else ws_fidelity s = SNull \<and> empty_action (ws_reason s) = Some (ws_action s)) \<and>
     (if ws_reason s = j_text (reason_name CO_TRIGGER_SAME_EVENT) then \<not> length (ws_co_triggered_models s) < 2
      else length (ws_co_triggered_models s) = 0)"

definition parseSelection :: "strict_json option \<Rightarrow> wire_selection result" where
  "parseSelection v =
     and_then (v3_record SELECTION_KEYS v) (\<lambda>r.
     and_then (v3_digest (field_of r ''selection_id'')) (\<lambda>selection_id.
     and_then (v3_identifier (field_of r ''setup_id'')) (\<lambda>setup_id.
     and_then (v3_require (field_of r ''policy_version'')) (\<lambda>policy.
     and_then (v3_integer 0 (field_of r ''revision'')) (\<lambda>revision.
     and_then (stringValues 32 (field_of r ''candidate_ids_considered'')) (\<lambda>considered.
     and_then (v3_nullable v3_digest (field_of r ''canonical_candidate_id'')) (\<lambda>candidate_id.
     and_then (v3_nullable v3_digest (field_of r ''canonical_evidence_id'')) (\<lambda>evidence_id.
     and_then (v3_require (field_of r ''canonical_model'')) (\<lambda>model.
     and_then (v3_require (field_of r ''reason'')) (\<lambda>reason.
     and_then (v3_require (field_of r ''fidelity'')) (\<lambda>fid.
     and_then (v3_require (field_of r ''action'')) (\<lambda>action.
     and_then (stringValues 3 (field_of r ''co_triggered_models'')) (\<lambda>models.
     and_then (v3_integer 0 (field_of r ''evaluated_at_epoch'')) (\<lambda>evaluated.
     let selection = \<lparr>ws_selection_id = selection_id, ws_setup_id = setup_id, ws_policy_version = policy, ws_revision = revision,
           ws_candidate_ids_considered = considered, ws_canonical_candidate_id = candidate_id, ws_canonical_evidence_id = evidence_id,
           ws_canonical_model = model, ws_reason = reason, ws_fidelity = fid, ws_action = action, ws_co_triggered_models = models,
           ws_evaluated_at_epoch = evaluated\<rparr> in
     v3_fail_if (\<not> wire_shape_ok selection) (Inr selection)))))))))))))))"

record selection_seed =
  ss_setup_id :: string
  ss_revision :: int
  ss_evaluated_at_epoch :: int

definition SELECTION_REASONS_V3 :: "string list" where
  "SELECTION_REASONS_V3 = map reason_name REASONS @ [''ONE_CANDLE_EXPERIMENT_NOT_PROMOTED'']"

definition one_of_texts :: "string list \<Rightarrow> strict_json option \<Rightarrow> bool" where
  "one_of_texts texts v \<longleftrightarrow> list_ex (text_is v) texts"

definition parseEdgeDerivedSelectionSeed :: "strict_json option \<Rightarrow> entry_model list \<Rightarrow> selection_seed result" where
  "parseEdgeDerivedSelectionSeed v candidateModels =
     and_then (v3_record SELECTION_KEYS v) (\<lambda>r.
     v3_fail_if (\<not> text_is (field_of r ''selection_id'') EDGE_DERIVED_DIGEST \<or> \<not> text_is (field_of r ''policy_version'') ''rd-entry-arbitration-v3'')
     (and_then (v3_identifier (field_of r ''setup_id'')) (\<lambda>setupId.
      and_then (stringValues 3 (field_of r ''candidate_ids_considered'')) (\<lambda>considered.
      v3_fail_if (js_join [CHR 0x00] considered \<noteq> js_join [CHR 0x00] (js_sort compare_units (map edgeDerivedReference candidateModels)))
      (and_then (v3_nullable edgeDerivedModel (field_of r ''canonical_candidate_id'')) (\<lambda>candidateReference.
       and_then (v3_nullable edgeDerivedModel (field_of r ''canonical_evidence_id'')) (\<lambda>evidenceReference.
       v3_fail_if (candidateReference \<noteq> evidenceReference \<or> (case candidateReference of None \<Rightarrow> False | Some m \<Rightarrow> m \<notin> set candidateModels))
       (v3_fail_if (field_of r ''canonical_model'' \<noteq> Some SNull \<and>
            (\<not> one_of_texts (map model_name MODELS) (field_of r ''canonical_model'') \<or>
             \<not> (\<exists>m \<in> set MODELS. candidateReference = Some m \<and> text_is (field_of r ''canonical_model'') (model_name m))))
       (v3_fail_if ((field_of r ''canonical_model'' = Some SNull) \<noteq> (candidateReference = None) \<or>
            \<not> one_of_texts SELECTION_REASONS_V3 (field_of r ''reason'') \<or>
            field_of r ''fidelity'' \<noteq> Some SNull \<and> \<not> one_of_texts (map fidelity_name FIDELITIES) (field_of r ''fidelity'') \<or>
            \<not> one_of_texts (map action_name ACTIONS) (field_of r ''action''))
       (and_then (stringValues 3 (field_of r ''co_triggered_models'')) (\<lambda>coTriggered.
        v3_fail_if (list_ex (\<lambda>m. m \<notin> set (map model_name MODELS)) coTriggered \<or>
            js_join [CHR 0x00] coTriggered \<noteq> js_join [CHR 0x00] (js_sort compare_units coTriggered))
        (and_then (v3_integer 0 (field_of r ''revision'')) (\<lambda>revision.
         and_then (v3_integer 0 (field_of r ''evaluated_at_epoch'')) (\<lambda>evaluated.
         Inr \<lparr>ss_setup_id = setupId, ss_revision = revision, ss_evaluated_at_epoch = evaluated\<rparr>))))))))))))))"

definition isEdgeDerivedMarker :: "strict_json option \<Rightarrow> bool" where
  "isEdgeDerivedMarker v = (case v of Some (SStr s) \<Rightarrow> take 12 s = units_of EDGE_DERIVED_DIGEST | _ \<Rightarrow> False)"

definition array_items :: "strict_json option \<Rightarrow> strict_json list" where
  "array_items v = (case v of Some (SArr vs) \<Rightarrow> vs | _ \<Rightarrow> [])"

definition object_members :: "strict_json option \<Rightarrow> members" where
  "object_members v = (case v of Some (SObj kvs) \<Rightarrow> kvs | _ \<Rightarrow> [])"

definition bundleUsesEdgeDerivedIdentity :: "members \<Rightarrow> bool" where
  "bundleUsesEdgeDerivedIdentity bundle \<longleftrightarrow>
     list_ex (\<lambda>v. isEdgeDerivedMarker (field_of (object_members (Some v)) ''candidate_id'')) (array_items (field_of bundle ''candidates'')) \<or>
     list_ex (\<lambda>v. list_ex (\<lambda>k. isEdgeDerivedMarker (field_of (object_members (Some v)) k)) [''candidate_id'', ''evidence_id'', ''payload_sha256''])
       (array_items (field_of bundle ''evidence'')) \<or>
     (let selection = object_members (field_of bundle ''selection_proposal'') in
      list_ex (\<lambda>k. isEdgeDerivedMarker (field_of selection k)) [''selection_id'', ''canonical_candidate_id'', ''canonical_evidence_id''] \<or>
      list_ex (isEdgeDerivedMarker \<circ> Some) (array_items (field_of selection ''candidate_ids_considered'')))"

definition selection_json :: "selection \<Rightarrow> json" where
  "selection_json s = JObj
     [(''selection_id'', JStr (sl_selection_id s)), (''setup_id'', JStr (sl_setup_id s)), (''policy_version'', JStr (sl_policy_version s)),
      (''revision'', JNum (sl_revision s)), (''candidate_ids_considered'', j_strings (sl_candidate_ids_considered s)),
      (''canonical_candidate_id'', j_opt JStr (sl_canonical_candidate_id s)), (''canonical_evidence_id'', j_opt JStr (sl_canonical_evidence_id s)),
      (''canonical_model'', j_opt (JStr \<circ> model_name) (sl_canonical_model s)), (''reason'', JStr (reason_name (sl_reason s))),
      (''fidelity'', j_opt (JStr \<circ> fidelity_name) (sl_fidelity s)), (''action'', JStr (action_name (sl_action s))),
      (''co_triggered_models'', j_strings (map model_name (sl_co_triggered_models s))), (''evaluated_at_epoch'', JNum (sl_evaluated_at_epoch s))]"

definition s_opt :: "string option \<Rightarrow> strict_json" where
  "s_opt x = (case x of None \<Rightarrow> SNull | Some s \<Rightarrow> j_text s)"

definition wire_selection_value :: "wire_selection \<Rightarrow> strict_json" where
  "wire_selection_value s = SObj (map (\<lambda>(k, v). (units_of k, v))
     [(''selection_id'', j_text (ws_selection_id s)), (''setup_id'', j_text (ws_setup_id s)), (''policy_version'', ws_policy_version s),
      (''revision'', strict_of (JNum (ws_revision s))), (''candidate_ids_considered'', SArr (map j_text (ws_candidate_ids_considered s))),
      (''canonical_candidate_id'', s_opt (ws_canonical_candidate_id s)), (''canonical_evidence_id'', s_opt (ws_canonical_evidence_id s)),
      (''canonical_model'', ws_canonical_model s), (''reason'', ws_reason s), (''fidelity'', ws_fidelity s), (''action'', ws_action s),
      (''co_triggered_models'', SArr (map j_text (ws_co_triggered_models s))), (''evaluated_at_epoch'', strict_of (JNum (ws_evaluated_at_epoch s)))])"

text \<open>
  The comparison text. An unchecked number, which the canonical selection never has in its place,
  keeps the spelling of its token.
\<close>

definition canonicalJson :: "strict_json \<Rightarrow> units" where
  "canonicalJson v = strict_canonical v"

section \<open>Setups and trade plans\<close>

datatype schema_version = V30 | V31

definition REQUIRED_COMMON_RULE_IDS_V3 :: "string list" where
  "REQUIRED_COMMON_RULE_IDS_V3 = [''LIQ_ACTUAL_EXTREME_SWEPT'', ''LIQ_DISTANCE_INFLUENCES_ZONE'', ''LIQ_EVENT_ORDER'', ''LIQ_INTERNAL_REBREAK'',
     ''LIQ_NORMAL_TWO_OPPOSITE_CANDLES'', ''LIQ_ONE_CANDLE_EXCEPTION'', ''LIQ_OWN_EXTREME_SAME_LEG'', ''LIQ_REPLACEMENT_AFTER_STALE_MOVE'',
     ''LIQ_STRICT_OWN_EXTREME_BREAK'', ''TIMEFRAME_FIVE_MINUTE_ONLY'', ''ZONE_ACCURACY_BOUNDS'', ''ZONE_FRESH_UNTAPPED'',
     ''ZONE_ORIGIN_OPPOSITE_CANDLE'', ''ZONE_PRE_ENTRY_CLOSE_OUTSIDE'']"

record common_rule =
  cr_rule_id :: string
  cr_passed :: bool

definition parseCommonRule :: "strict_json option \<Rightarrow> common_rule result" where
  "parseCommonRule v =
     and_then (v3_record [''rule_id'', ''passed''] v) (\<lambda>r.
     and_then (v3_identifier (field_of r ''rule_id'')) (\<lambda>i.
     and_then (v3_boolean (field_of r ''passed'')) (\<lambda>p. Inr \<lparr>cr_rule_id = i, cr_passed = p\<rparr>)))"

definition parseCommonRules :: "strict_json option \<Rightarrow> common_rule list result" where
  "parseCommonRules v =
     and_then (v3_items (length REQUIRED_COMMON_RULE_IDS_V3) (length REQUIRED_COMMON_RULE_IDS_V3) parseCommonRule v) (\<lambda>rules.
     v3_fail_if (join_strings (map cr_rule_id rules) \<noteq> join_strings REQUIRED_COMMON_RULE_IDS_V3) (Inr rules))"

definition rule_passed :: "common_rule list \<Rightarrow> string \<Rightarrow> bool" where
  "rule_passed rules i \<longleftrightarrow> map_of (map (\<lambda>r. (cr_rule_id r, cr_passed r)) rules) i = Some True"

definition allowed_failures :: "setup_facts \<Rightarrow> string list" where
  "allowed_failures setup = [''LIQ_INTERNAL_REBREAK'', ''LIQ_NORMAL_TWO_OPPOSITE_CANDLES''] @
     (if su_common_fidelity setup = UNRESOLVED then [''LIQ_DISTANCE_INFLUENCES_ZONE''] else [])"

definition validateCommonRules :: "schema_version \<Rightarrow> setup_facts \<Rightarrow> common_rule list \<Rightarrow> bool \<Rightarrow> check" where
  "validateCommonRules version setup rules unreviewed = first_error
     [fail_if (version = V30 \<and> \<not> rule_passed rules ''LIQ_NORMAL_TWO_OPPOSITE_CANDLES'') (v3_error ''LEGACY_LIQUIDITY_CLASSIFICATION''),
      (if su_liquidity_cohort setup = TWO_PLUS_CANDLES
       then fail_if (\<not> unreviewed \<and> list_ex (\<lambda>r. \<not> cr_passed r) rules) v3_invalid
       else fail_if (\<not> rule_passed rules ''LIQ_ONE_CANDLE_EXCEPTION'' \<or>
           list_ex (\<lambda>r. \<not> cr_passed r \<and> cr_rule_id r \<notin> set (allowed_failures setup)) rules) v3_invalid)]"

definition SETUP_KEYS_V30 :: "string list" where
  "SETUP_KEYS_V30 = [''setup_id'', ''direction'', ''zone_top_ticks'', ''zone_bottom_ticks'', ''zone_engaged_epoch'', ''invalidated_before_entry'',
     ''common_fidelity'', ''common_rule_results'']"

definition SETUP_KEYS_V31 :: "string list" where
  "SETUP_KEYS_V31 = SETUP_KEYS_V30 @ [''liquidity_cohort'', ''one_candle_enabled'']"

definition parseSetup :: "strict_json option \<Rightarrow> bool \<Rightarrow> schema_version \<Rightarrow> (setup_facts \<times> common_rule list) result" where
  "parseSetup v unreviewed version =
     and_then (v3_record (if version = V30 then SETUP_KEYS_V30 else SETUP_KEYS_V31) v) (\<lambda>r.
     and_then (v3_identifier (field_of r ''setup_id'')) (\<lambda>setup_id.
     and_then (v3_signed (field_of r ''zone_top_ticks'')) (\<lambda>top.
     and_then (v3_signed (field_of r ''zone_bottom_ticks'')) (\<lambda>bottom.
     and_then (v3_nullable (v3_integer 0) (field_of r ''zone_engaged_epoch'')) (\<lambda>engaged.
     and_then (v3_boolean (field_of r ''invalidated_before_entry'')) (\<lambda>invalidated.
     and_then (if version = V30 then Inr False else v3_boolean (field_of r ''one_candle_enabled'')) (\<lambda>enabled.
     and_then (v3_enum direction_name DIRECTIONS (field_of r ''direction'')) (\<lambda>dir.
     v3_fail_if (top \<le> bottom)
     (and_then (v3_enum fidelity_name FIDELITIES (field_of r ''common_fidelity'')) (\<lambda>fid.
      and_then (if version = V30 then Inr TWO_PLUS_CANDLES else v3_enum cohort_name [ONE_CANDLE, TWO_PLUS_CANDLES] (field_of r ''liquidity_cohort'')) (\<lambda>cohort.
      let facts = \<lparr>su_setup_id = setup_id, su_direction = dir, su_zone_top_ticks = top, su_zone_bottom_ticks = bottom, su_zone_engaged_epoch = engaged,
            su_invalidated_before_entry = invalidated, su_common_fidelity = fid, su_liquidity_cohort = cohort, su_one_candle_enabled = enabled\<rparr> in
      v3_caught (validateLiquidityCohortV3 facts)
      (and_then (parseCommonRules (field_of r ''common_rule_results'')) (\<lambda>rules.
       after_check (validateCommonRules version facts rules unreviewed) (Inr (facts, rules)))))))))))))))"

record trade_plan =
  pl_direction :: direction
  pl_entry_ticks :: int
  pl_stop_ticks :: int
  pl_target_ticks :: int

definition TRADE_PLAN_KEYS :: "string list" where
  "TRADE_PLAN_KEYS = [''direction'', ''entry_ticks'', ''stop_ticks'', ''target_ticks'']"

definition plan_ordered :: "trade_plan \<Rightarrow> bool" where
  "plan_ordered p \<longleftrightarrow> (case pl_direction p of
       LONG \<Rightarrow> pl_stop_ticks p < pl_entry_ticks p \<and> pl_entry_ticks p < pl_target_ticks p
     | SHORT \<Rightarrow> pl_target_ticks p < pl_entry_ticks p \<and> pl_entry_ticks p < pl_stop_ticks p)"

definition parseTradePlan :: "strict_json option \<Rightarrow> direction \<Rightarrow> trade_plan result" where
  "parseTradePlan v expectedDirection =
     and_then (v3_record TRADE_PLAN_KEYS v) (\<lambda>r.
     and_then (v3_signed (field_of r ''entry_ticks'')) (\<lambda>entry.
     and_then (v3_signed (field_of r ''stop_ticks'')) (\<lambda>stop.
     and_then (v3_signed (field_of r ''target_ticks'')) (\<lambda>target.
     let plan = \<lparr>pl_direction = expectedDirection, pl_entry_ticks = entry, pl_stop_ticks = stop, pl_target_ticks = target\<rparr> in
     v3_fail_if (\<not> text_is (field_of r ''direction'') (direction_name expectedDirection) \<or> \<not> plan_ordered plan) (Inr plan)))))"

section \<open>Bundles\<close>

record entry_bundle =
  eb_setup :: setup_facts
  eb_commonRuleResults :: "common_rule list"
  eb_candidates :: "candidate list"
  eb_evidence :: "evidence list"
  eb_selectionProposal :: selection
  eb_evaluation :: evaluation
  eb_tradePlan :: trade_plan

text \<open>The proposal names no canonical candidate; its co-triggered models are an array already.\<close>

definition proposes_nothing :: "members \<Rightarrow> bool" where
  "proposes_nothing proposal \<longleftrightarrow>
     list_all (\<lambda>k. field_of proposal k = Some SNull) [''canonical_candidate_id'', ''canonical_evidence_id'', ''canonical_model'', ''fidelity''] \<and>
     length (array_items (field_of proposal ''co_triggered_models'')) = 0"

definition validateUnreviewedBundle :: "setup_facts \<Rightarrow> candidate list \<Rightarrow> evidence list \<Rightarrow> members \<Rightarrow> selection \<Rightarrow> check" where
  "validateUnreviewedBundle setup candidates evidence proposal canonicalSelection =
     (let action = field_of proposal ''action''; reason = field_of proposal ''reason'';
          expectedShadowReason = (if su_liquidity_cohort setup = ONE_CANDLE then ''ONE_CANDLE_EXPERIMENT_NOT_PROMOTED'' else ''NO_EXACT_CANDIDATE'') in
      fail_if (su_common_fidelity setup \<noteq> UNRESOLVED \<or>
          list_ex (\<lambda>c. cd_state c = MATCHED) candidates \<or>
          list_ex (\<lambda>e. ev_fidelity e = EXACT \<or> ev_passed_rule_ids e \<noteq> [] \<or> ev_failed_rule_ids e \<noteq> [''COMMON_SETUP_NOT_EXACT'']) evidence \<or>
          \<not> text_is action ''SHADOW_ONLY'' \<and> \<not> text_is action ''NONE'' \<or>
          (if text_is action ''SHADOW_ONLY'' then \<not> text_is reason expectedShadowReason
           else \<not> text_is reason ''SETUP_INVALIDATED'' \<and> \<not> text_is reason ''NO_CANDIDATE'') \<or>
          \<not> proposes_nothing proposal \<or>
          (sl_action canonicalSelection \<noteq> SHADOW_ONLY \<and> sl_action canonicalSelection \<noteq> NO_ACTION) \<or>
          sl_canonical_candidate_id canonicalSelection \<noteq> None \<or> sl_canonical_evidence_id canonicalSelection \<noteq> None \<or>
          sl_canonical_model canonicalSelection \<noteq> None)
        (v3_error ''UNREVIEWED_PROMOTION_ATTEMPT''))"

definition verifyCanonicalDigests :: "platform \<Rightarrow> evaluation \<Rightarrow> check" where
  "verifyCanonicalDigests P e = fail_if
     (list_ex (\<lambda>c. candidateIdV3 P (identity_of c) \<noteq> cd_candidate_id c) (el_candidates e) \<or>
      list_ex (\<lambda>v. evidencePayloadSha256V3 P v \<noteq> ev_payload_sha256 v \<or> evidenceIdV3 P v \<noteq> ev_evidence_id v) (el_evidence e) \<or>
      selectionIdV3 P (el_selection e) \<noteq> sl_selection_id (el_selection e)) v3_invalid"

definition SETUP_BUNDLE_KEYS :: "string list" where
  "SETUP_BUNDLE_KEYS = [''setup'', ''candidates'', ''evidence'', ''selection_proposal'', ''trade_plan'']"

definition parse_candidates :: "platform \<Rightarrow> bool \<Rightarrow> members \<Rightarrow> candidate list result" where
  "parse_candidates P edge r = v3_items 0 3 (if edge then parseEdgeDerivedCandidate P else parseCandidate) (field_of r ''candidates'')"

definition by_model :: "candidate list \<Rightarrow> (entry_model, candidate) js_map" where
  "by_model candidates = fold (\<lambda>c. map_set (cd_model c) c) candidates []"

definition parse_evidence_items :: "platform \<Rightarrow> bool \<Rightarrow> candidate list \<Rightarrow> members \<Rightarrow> evidence list result" where
  "parse_evidence_items P edge candidates r =
     v3_items 0 12 (if edge then parseEdgeDerivedEvidence P (by_model candidates) else parseEvidence) (field_of r ''evidence'')"

definition bundle_conflict :: "bool \<Rightarrow> setup_facts \<Rightarrow> candidate list \<Rightarrow> evidence list \<Rightarrow> bool" where
  "bundle_conflict edge setup candidates evidence \<longleftrightarrow>
     length (js_set (map cd_candidate_id candidates)) \<noteq> length candidates \<or>
     edge \<and> length (js_set (map cd_model candidates)) \<noteq> length candidates \<or>
     length (js_set (map ev_evidence_id evidence)) \<noteq> length evidence \<or>
     edge \<and> (length evidence \<noteq> length candidates \<or> length (js_set (map ev_candidate_id evidence)) \<noteq> length evidence) \<or>
     list_ex (\<lambda>c. cd_setup_id c \<noteq> su_setup_id setup \<or> cd_direction c \<noteq> su_direction setup) candidates"

text \<open>The seed of the arbitration and, where the proposal has its own identifiers, the proposal to compare with.\<close>

definition read_proposal :: "bool \<Rightarrow> candidate list \<Rightarrow> members \<Rightarrow> (selection_seed \<times> wire_selection option) result" where
  "read_proposal edge candidates r =
     (let v = field_of r ''selection_proposal'' in
      if edge then and_then (parseEdgeDerivedSelectionSeed v (map cd_model candidates)) (\<lambda>s. Inr (s, None))
      else and_then (parseSelection v) (\<lambda>w. Inr (\<lparr>ss_setup_id = ws_setup_id w, ss_revision = ws_revision w, ss_evaluated_at_epoch = ws_evaluated_at_epoch w\<rparr>, Some w)))"

definition truthful_one_candle :: "members \<Rightarrow> bool" where
  "truthful_one_candle proposal \<longleftrightarrow> text_is (field_of proposal ''action'') ''SHADOW_ONLY'' \<and>
     text_is (field_of proposal ''reason'') ''ONE_CANDLE_EXPERIMENT_NOT_PROMOTED'' \<and> proposes_nothing proposal"

definition sorted_evaluation :: "platform \<Rightarrow> candidate list \<Rightarrow> evidence list \<Rightarrow> selection \<Rightarrow> evaluation" where
  "sorted_evaluation P candidates evidence s =
     \<lparr>el_candidates = js_sort (\<lambda>a b. localeCompare P (cd_candidate_id a) (cd_candidate_id b)) candidates,
      el_evidence = js_sort (\<lambda>a b. localeCompare P (ev_evidence_id a) (ev_evidence_id b)) evidence, el_selection = s\<rparr>"

definition paper_setup_unfit :: "setup_facts \<Rightarrow> evaluation \<Rightarrow> bool" where
  "paper_setup_unfit setup evaluation \<longleftrightarrow> sl_action (el_selection evaluation) = PAPER_ELIGIBLE \<and>
     (su_common_fidelity setup \<noteq> EXACT \<or> su_invalidated_before_entry setup \<or>
      (case su_zone_engaged_epoch setup of
         None \<Rightarrow> True
       | Some engaged \<Rightarrow> list_ex (\<lambda>v. case ev_observed_trigger_epoch v of None \<Rightarrow> False | Some t \<Rightarrow> t < engaged) (el_evidence evaluation)))"

definition parseBundle :: "platform \<Rightarrow> strict_json option \<Rightarrow> bool \<Rightarrow> schema_version \<Rightarrow> entry_bundle result" where
  "parseBundle P v unreviewed version =
     and_then (v3_record SETUP_BUNDLE_KEYS v) (\<lambda>r.
     and_then (parseSetup (field_of r ''setup'') unreviewed version) (\<lambda>(setup, rules).
     let edge = bundleUsesEdgeDerivedIdentity r in
     and_then (parse_candidates P edge r) (\<lambda>candidates.
     and_then (parse_evidence_items P edge candidates r) (\<lambda>evidence.
     v3_fail_if (bundle_conflict edge setup candidates evidence)
     (and_then (read_proposal edge candidates r) (\<lambda>(seed, proposal).
      v3_fail_if (ss_setup_id seed \<noteq> su_setup_id setup)
      (and_then (arbitrateEntryCandidatesV3 P (su_setup_id setup) candidates evidence (su_invalidated_before_entry setup)
          (ss_revision seed) (ss_evaluated_at_epoch seed) None (su_liquidity_cohort setup)) (\<lambda>canonicalSelection.
       and_then (v3_object (field_of r ''selection_proposal'')) (\<lambda>producerSelection.
       let evaluation = sorted_evaluation P candidates evidence canonicalSelection in
       after_check (first_error
         [fail_if (su_liquidity_cohort setup = ONE_CANDLE \<and> \<not> truthful_one_candle producerSelection) (v3_error ''ONE_CANDLE_TERMINAL_MISMATCH''),
          check_option (\<lambda>w. fail_if (canonicalJson (strict_of (selection_json canonicalSelection)) \<noteq> canonicalJson (wire_selection_value w)) v3_invalid) proposal,
          (if unreviewed then validateUnreviewedBundle setup candidates evidence producerSelection canonicalSelection else None),
          fail_if (validateEntryEvaluationV3 evaluation \<noteq> None) v3_invalid,
          verifyCanonicalDigests P evaluation,
          fail_if (paper_setup_unfit setup evaluation) v3_invalid])
       (and_then (parseTradePlan (field_of r ''trade_plan'') (su_direction setup)) (\<lambda>plan.
        Inr \<lparr>eb_setup = setup, eb_commonRuleResults = rules, eb_candidates = el_candidates evaluation, eb_evidence = el_evidence evaluation,
          eb_selectionProposal = canonicalSelection, eb_evaluation = evaluation, eb_tradePlan = plan\<rparr>)))))))))))"

section \<open>Market facts of a paper entry\<close>

record market_event =
  me_epoch :: int
  me_sequence :: int
  me_tick_price_ticks :: int
  me_barstate_isconfirmed :: bool
  me_confirmed_bar :: "ordered_candle option"

datatype event_role = ENTRY_DECISION | EXIT_FOLLOWUP

definition selectedAuthoritativePairs :: "evaluation \<Rightarrow> (candidate \<times> evidence) list result" where
  "selectedAuthoritativePairs evaluation =
     (let selection = el_selection evaluation in
      if sl_action selection \<noteq> PAPER_ELIGIBLE \<or> sl_canonical_candidate_id selection = None \<or> sl_canonical_evidence_id selection = None then Inr []
      else case List.find (\<lambda>v. Some (ev_evidence_id v) = sl_canonical_evidence_id selection) (el_evidence evaluation) of
        None \<Rightarrow> Inl v3_invalid
      | Some canonicalEvidence \<Rightarrow>
          v3_fail_if (ev_observed_trigger_epoch canonicalEvidence = None)
          (and_then (all_results (map (\<lambda>v. case map_get (candidates_by_id (el_candidates evaluation)) (ev_candidate_id v) of
                None \<Rightarrow> Inl v3_invalid | Some c \<Rightarrow> Inr (c, v))
             (filter (\<lambda>v. ev_fidelity v = EXACT \<and> ev_observed_trigger_epoch v = ev_observed_trigger_epoch canonicalEvidence \<and>
                ev_trigger_sequence v = ev_trigger_sequence canonicalEvidence) (el_evidence evaluation)))) (\<lambda>pairs.
           Inr (filter (\<lambda>(c, v). if sl_co_triggered_models selection = [] then sl_canonical_model selection = Some (cd_model c)
              else cd_model c \<in> set (sl_co_triggered_models selection)) pairs))))"

text \<open>\<open>None\<close> is \<open>null\<close>: it differs from every number and the comparison fails.\<close>

definition boc_facts_violated :: "candidate \<Rightarrow> evidence \<Rightarrow> bool" where
  "boc_facts_violated c v = (case cd_reference_candle_open_epoch c of
       None \<Rightarrow> True
     | Some reference \<Rightarrow>
         cd_event_anchor_epoch c \<noteq> reference \<or> reference mod 300 \<noteq> 0 \<or> ev_reference_candle_open_epoch v \<noteq> Some reference \<or>
         (case (ev_reference_candle_high_ticks v, ev_reference_candle_low_ticks v, ev_observed_trigger_ticks v) of
            (Some high, Some low, Some t) \<Rightarrow> if cd_direction c = LONG then t \<le> high else t \<ge> low
          | _ \<Rightarrow> True))"

definition close_facts_violated :: "setup_facts \<Rightarrow> candidate \<Rightarrow> evidence \<Rightarrow> bool" where
  "close_facts_violated setup c v \<longleftrightarrow>
     cd_event_anchor_epoch c \<noteq> ev_coverage_start_epoch v \<or> cd_event_anchor_epoch c mod 300 \<noteq> 0 \<or>
     ev_coverage_end_epoch v - ev_coverage_start_epoch v \<noteq> 300 \<or> ev_observed_trigger_epoch v \<noteq> Some (ev_coverage_end_epoch v) \<or>
     (case ev_observed_trigger_ticks v of
        None \<Rightarrow> True
      | Some t \<Rightarrow> if cd_direction c = LONG then t \<le> su_zone_top_ticks setup else t \<ge> su_zone_bottom_ticks setup)"

definition close_bar_mismatch :: "market_event \<Rightarrow> candidate \<Rightarrow> evidence \<Rightarrow> bool" where
  "close_bar_mismatch event c v \<longleftrightarrow> \<not> me_barstate_isconfirmed event \<or>
     (case me_confirmed_bar event of
        None \<Rightarrow> True
      | Some b \<Rightarrow> cd_event_anchor_epoch c \<noteq> open_epoch b \<or> open_epoch b \<noteq> ev_coverage_start_epoch v \<or> close_epoch b \<noteq> ev_coverage_end_epoch v \<or>
          ev_observed_trigger_epoch v \<noteq> Some (close_epoch b) \<or> ev_observed_trigger_ticks v \<noteq> Some (close_ticks b))"

definition flip_facts_violated :: "setup_facts \<Rightarrow> candidate \<Rightarrow> evidence \<Rightarrow> bool" where
  "flip_facts_violated setup c v = (case (ev_contact_candle v, ev_recross_candle v, ev_observed_trigger_epoch v) of
       (Some contact, Some recross, Some triggerEpoch) \<Rightarrow>
         ev_htf_context_minutes v = [] \<or>
         list_ex (\<lambda>context. cd_event_anchor_epoch c mod (context * 60) \<noteq> 0 \<or> open_epoch contact < cd_event_anchor_epoch c \<or>
           triggerEpoch \<ge> cd_event_anchor_epoch c + context * 60) (ev_htf_context_minutes v) \<or>
         open_epoch contact < ev_coverage_start_epoch v \<or> close_epoch contact > ev_coverage_end_epoch v \<or>
         open_epoch recross < ev_coverage_start_epoch v \<or> close_epoch recross > ev_coverage_end_epoch v \<or>
         triggerEpoch \<noteq> close_epoch recross \<or> ev_observed_trigger_ticks v \<noteq> Some (close_ticks recross) \<or>
         (case ev_htf_open_ticks v of
            None \<Rightarrow> True
          | Some htf \<Rightarrow>
              (if cd_direction c = LONG then close_ticks recross \<le> htf else close_ticks recross \<ge> htf) \<or>
              (if cd_direction c = LONG then high_ticks contact > htf else low_ticks contact < htf)) \<or>
         low_ticks contact > su_zone_top_ticks setup \<or> high_ticks contact < su_zone_bottom_ticks setup
     | _ \<Rightarrow> True)"

definition pair_facts_violated :: "setup_facts \<Rightarrow> market_event \<Rightarrow> event_role \<Rightarrow> candidate \<times> evidence \<Rightarrow> bool" where
  "pair_facts_violated setup event role pair = (case pair of (c, v) \<Rightarrow> (case cd_model c of
       BOC \<Rightarrow> boc_facts_violated c v
     | DIR_CLOSE \<Rightarrow> close_facts_violated setup c v \<or> role = ENTRY_DECISION \<and> close_bar_mismatch event c v
     | HTF_FLIP \<Rightarrow> flip_facts_violated setup c v))"

definition validateAuthoritativePaperFacts :: "setup_facts \<Rightarrow> evaluation \<Rightarrow> market_event \<Rightarrow> trade_plan \<Rightarrow> event_role \<Rightarrow> unit result" where
  "validateAuthoritativePaperFacts setup evaluation event plan role =
     and_then (selectedAuthoritativePairs evaluation) (\<lambda>pairs.
     if sl_action (el_selection evaluation) \<noteq> PAPER_ELIGIBLE then Inr ()
     else v3_fail_if (pairs = [] \<or>
         list_ex (\<lambda>(c, v). ev_observed_trigger_ticks v \<noteq> Some (pl_entry_ticks plan) \<or>
           role = ENTRY_DECISION \<and> (ev_observed_trigger_epoch v \<noteq> Some (me_epoch event) \<or> ev_trigger_sequence v \<noteq> me_sequence event \<or>
             ev_observed_trigger_ticks v \<noteq> Some (me_tick_price_ticks event))) pairs \<or>
         role = ENTRY_DECISION \<and> pl_entry_ticks plan \<noteq> me_tick_price_ticks event)
       (v3_fail_if (list_ex (pair_facts_violated setup event role) pairs) (Inr ())))"

section \<open>Market and exit events\<close>

definition MARKET_EVENT_KEYS :: "string list" where
  "MARKET_EVENT_KEYS = [''epoch'', ''sequence'', ''tick_price_ticks'', ''barstate_isconfirmed'', ''confirmed_bar'']"

definition parseMarketEvent :: "strict_json option \<Rightarrow> market_event result" where
  "parseMarketEvent v =
     and_then (v3_record MARKET_EVENT_KEYS v) (\<lambda>r.
     and_then (v3_boolean (field_of r ''barstate_isconfirmed'')) (\<lambda>confirmed.
     and_then (v3_nullable (parseCandle True) (field_of r ''confirmed_bar'')) (\<lambda>candle.
     v3_fail_if (confirmed \<noteq> (candle \<noteq> None))
     (and_then (v3_integer 0 (field_of r ''epoch'')) (\<lambda>ep.
      and_then (v3_integer 0 (field_of r ''sequence'')) (\<lambda>seq.
      and_then (v3_signed (field_of r ''tick_price_ticks'')) (\<lambda>price.
      v3_fail_if (case candle of None \<Rightarrow> False | Some b \<Rightarrow> ep \<noteq> close_epoch b \<or> price \<noteq> close_ticks b)
      (Inr \<lparr>me_epoch = ep, me_sequence = seq, me_tick_price_ticks = price, me_barstate_isconfirmed = confirmed, me_confirmed_bar = candle\<rparr>))))))))"

datatype exit_reason = STOP_LOSS | TARGET | AMBIGUOUS_SAME_BAR_EXIT

fun exit_name :: "exit_reason \<Rightarrow> string" where
  "exit_name STOP_LOSS = ''STOP_LOSS''"
| "exit_name TARGET = ''TARGET''"
| "exit_name AMBIGUOUS_SAME_BAR_EXIT = ''AMBIGUOUS_SAME_BAR_EXIT''"

record exit_event =
  xe_event_id :: string
  xe_setup_id :: string
  xe_exit_reason :: exit_reason
  xe_epoch :: int
  xe_sequence :: int
  xe_price_ticks :: int

definition EXIT_EVENT_KEYS :: "string list" where
  "EXIT_EVENT_KEYS = [''event_id'', ''setup_id'', ''exit_reason'', ''epoch'', ''sequence'', ''price_ticks'']"

definition parseExitEvent :: "strict_json option \<Rightarrow> exit_event result" where
  "parseExitEvent v =
     and_then (v3_record EXIT_EVENT_KEYS v) (\<lambda>r.
     and_then (v3_enum exit_name [STOP_LOSS, TARGET, AMBIGUOUS_SAME_BAR_EXIT] (field_of r ''exit_reason'')) (\<lambda>reason.
     and_then (v3_identifier (field_of r ''event_id'')) (\<lambda>event_id.
     and_then (v3_identifier (field_of r ''setup_id'')) (\<lambda>setup_id.
     and_then (v3_integer 0 (field_of r ''epoch'')) (\<lambda>ep.
     and_then (v3_integer 0 (field_of r ''sequence'')) (\<lambda>seq.
     and_then (v3_signed (field_of r ''price_ticks'')) (\<lambda>price.
     Inr \<lparr>xe_event_id = event_id, xe_setup_id = setup_id, xe_exit_reason = reason, xe_epoch = ep, xe_sequence = seq, xe_price_ticks = price\<rparr>)))))))"

definition validatedExitCausalEpoch :: "entry_bundle \<Rightarrow> int result" where
  "validatedExitCausalEpoch bundle =
     (let selection = el_selection (eb_evaluation bundle) in
      case sl_canonical_evidence_id selection of
        None \<Rightarrow> Inr (sl_evaluated_at_epoch selection)
      | Some i \<Rightarrow> (case List.find (\<lambda>v. ev_evidence_id v = i) (el_evidence (eb_evaluation bundle)) of
          None \<Rightarrow> Inl v3_invalid
        | Some v \<Rightarrow> Inr (case ev_observed_trigger_epoch v of Some t \<Rightarrow> t | None \<Rightarrow> sl_evaluated_at_epoch selection)))"

definition stop_hit :: "trade_plan \<Rightarrow> market_event \<Rightarrow> bool \<Rightarrow> bool" where
  "stop_hit plan event realtime =
     (case (if realtime then None else me_confirmed_bar event) of
        None \<Rightarrow> if pl_direction plan = LONG then me_tick_price_ticks event \<le> pl_stop_ticks plan else me_tick_price_ticks event \<ge> pl_stop_ticks plan
      | Some b \<Rightarrow> if pl_direction plan = LONG then low_ticks b \<le> pl_stop_ticks plan else high_ticks b \<ge> pl_stop_ticks plan)"

definition target_hit :: "trade_plan \<Rightarrow> market_event \<Rightarrow> bool \<Rightarrow> bool" where
  "target_hit plan event realtime =
     (case (if realtime then None else me_confirmed_bar event) of
        None \<Rightarrow> if pl_direction plan = LONG then me_tick_price_ticks event \<ge> pl_target_ticks plan else me_tick_price_ticks event \<le> pl_target_ticks plan
      | Some b \<Rightarrow> if pl_direction plan = LONG then high_ticks b \<ge> pl_target_ticks plan else low_ticks b \<le> pl_target_ticks plan)"

definition by_setup :: "entry_bundle list \<Rightarrow> (string, entry_bundle) js_map" where
  "by_setup bundles = fold (\<lambda>b. map_set (su_setup_id (eb_setup b)) b) bundles []"

definition validate_exit_event :: "bool \<Rightarrow> market_event \<Rightarrow> (string, entry_bundle) js_map \<Rightarrow> exit_event \<Rightarrow> check" where
  "validate_exit_event realtime event bundles x =
     (let not_causal = v3_error ''EXIT_NOT_CAUSAL'' in
      case map_get bundles (xe_setup_id x) of
        None \<Rightarrow> Some not_causal
      | Some bundle \<Rightarrow>
          if xe_epoch x \<noteq> me_epoch event \<or> xe_sequence x \<noteq> me_sequence event \<or> xe_price_ticks x \<noteq> me_tick_price_ticks event then Some not_causal
          else case validatedExitCausalEpoch bundle of
            Inl e \<Rightarrow> Some e
          | Inr causal \<Rightarrow>
              if xe_epoch x < causal then Some not_causal
              else let stopHit = stop_hit (eb_tradePlan bundle) event realtime; targetHit = target_hit (eb_tradePlan bundle) event realtime;
                  unconfirmed = (\<not> me_barstate_isconfirmed event \<or> me_confirmed_bar event = None) in
                if xe_exit_reason x = AMBIGUOUS_SAME_BAR_EXIT
                then first_error [fail_if (realtime \<or> unconfirmed) (v3_error ''AMBIGUOUS_EXIT_NOT_HISTORICAL''),
                   fail_if (\<not> stopHit \<or> \<not> targetHit) (v3_error ''AMBIGUOUS_EXIT_NOT_CAUSAL'')]
                else fail_if (\<not> realtime \<and> unconfirmed \<or> \<not> realtime \<and> stopHit \<and> targetHit \<or>
                    (if xe_exit_reason x = STOP_LOSS then \<not> stopHit else \<not> targetHit)) (v3_error ''EXIT_LEVEL_NOT_HIT''))"

definition validateExitFollowup :: "exit_event list \<Rightarrow> bool \<Rightarrow> market_event \<Rightarrow> entry_bundle list \<Rightarrow> check" where
  "validateExitFollowup exits realtime event bundles =
     (if exits = [] then None
      else first_error
        ([fail_if (length (js_set (map xe_event_id exits)) \<noteq> length exits \<or> length (js_set (map xe_setup_id exits)) \<noteq> length exits)
            (v3_error ''EXIT_EVENT_CONFLICT''),
          fail_if (js_join [CHR 0x00] (js_sort compare_units (map xe_setup_id exits)) \<noteq>
              js_join [CHR 0x00] (js_sort compare_units (map (su_setup_id \<circ> eb_setup) bundles))) (v3_error ''EXIT_SETUP_MISMATCH'')] @
         map (validate_exit_event realtime event (by_setup bundles)) exits))"

section \<open>Payloads\<close>

definition TOP_LEVEL_KEYS :: "string list" where
  "TOP_LEVEL_KEYS = [''schema_version'', ''strategy_id'', ''strategy_version'', ''rule_contract_version'', ''execution_mode'', ''producer_instance_id'',
     ''producer_sequence'', ''event_id'', ''is_realtime'', ''symbol'', ''ticker_id'', ''feed'', ''timeframe'', ''tick_size'', ''detector_code_hash'',
     ''settings_hash'', ''observed_at_epoch'', ''market_event'', ''exit_events'', ''setups'']"

definition setup_json :: "setup_facts \<Rightarrow> common_rule list \<Rightarrow> json" where
  "setup_json s rules = JObj
     [(''setup_id'', JStr (su_setup_id s)), (''direction'', JStr (direction_name (su_direction s))), (''zone_top_ticks'', JNum (su_zone_top_ticks s)),
      (''zone_bottom_ticks'', JNum (su_zone_bottom_ticks s)), (''zone_engaged_epoch'', j_opt JNum (su_zone_engaged_epoch s)),
      (''invalidated_before_entry'', JBool (su_invalidated_before_entry s)), (''common_fidelity'', JStr (fidelity_name (su_common_fidelity s))),
      (''liquidity_cohort'', JStr (cohort_name (su_liquidity_cohort s))), (''one_candle_enabled'', JBool (su_one_candle_enabled s)),
      (''common_rule_results'', JArr (map (\<lambda>r. JObj [(''rule_id'', JStr (cr_rule_id r)), (''passed'', JBool (cr_passed r))]) rules))]"

definition candidate_json :: "candidate \<Rightarrow> json" where
  "candidate_json c = JObj
     [(''candidate_id'', JStr (cd_candidate_id c)), (''setup_id'', JStr (cd_setup_id c)), (''model'', JStr (model_name (cd_model c))),
      (''state'', JStr (state_name (cd_state c))), (''direction'', JStr (direction_name (cd_direction c))),
      (''event_anchor_epoch'', JNum (cd_event_anchor_epoch c)), (''trigger_ordinal'', JNum (cd_trigger_ordinal c)),
      (''boc_tier'', j_opt (JStr \<circ> tier_name) (cd_boc_tier c)), (''reference_candle_open_epoch'', j_opt JNum (cd_reference_candle_open_epoch c)),
      (''source_claim_ids'', j_strings (cd_source_claim_ids c)), (''observed_at_epoch'', JNum (cd_observed_at_epoch c))]"

definition evidence_json :: "evidence \<Rightarrow> json" where
  "evidence_json e = JObj
     [(''evidence_id'', JStr (ev_evidence_id e)), (''candidate_id'', JStr (ev_candidate_id e)),
      (''observed_trigger_epoch'', j_opt JNum (ev_observed_trigger_epoch e)), (''trigger_sequence'', JNum (ev_trigger_sequence e)),
      (''observed_trigger_ticks'', j_opt JNum (ev_observed_trigger_ticks e)), (''htf_context_minutes'', JArr (map JNum (ev_htf_context_minutes e))),
      (''fidelity'', JStr (fidelity_name (ev_fidelity e))), (''proof_plane'', JStr (plane_name (ev_proof_plane e))),
      (''replayability'', JStr (replayability_name (ev_replayability e))), (''coverage_start_epoch'', JNum (ev_coverage_start_epoch e)),
      (''coverage_end_epoch'', JNum (ev_coverage_end_epoch e)), (''ambiguity_codes'', j_strings (map ambiguity_name (ev_ambiguity_codes e))),
      (''boc_tier'', j_opt (JStr \<circ> tier_name) (ev_boc_tier e)), (''reference_candle_open_epoch'', j_opt JNum (ev_reference_candle_open_epoch e)),
      (''reference_candle_open_ticks'', j_opt JNum (ev_reference_candle_open_ticks e)), (''reference_candle_high_ticks'', j_opt JNum (ev_reference_candle_high_ticks e)),
      (''reference_candle_low_ticks'', j_opt JNum (ev_reference_candle_low_ticks e)), (''reference_candle_close_ticks'', j_opt JNum (ev_reference_candle_close_ticks e)),
      (''htf_open_ticks'', j_opt JNum (ev_htf_open_ticks e)), (''contact_candle'', j_opt candle_json (ev_contact_candle e)),
      (''recross_candle'', j_opt candle_json (ev_recross_candle e)), (''coverage_gap_detected'', j_opt JBool (ev_coverage_gap_detected e)),
      (''full_lifecycle_ordered'', j_opt JBool (ev_full_lifecycle_ordered e)),
      (''destination_seen_before_contact'', j_opt JBool (ev_destination_seen_before_contact e)), (''passed_rule_ids'', j_strings (ev_passed_rule_ids e)),
      (''failed_rule_ids'', j_strings (ev_failed_rule_ids e)), (''source_claim_ids'', j_strings (ev_source_claim_ids e)),
      (''payload_sha256'', JStr (ev_payload_sha256 e)), (''observed_at_epoch'', JNum (ev_observed_at_epoch e))]"

definition plan_json :: "trade_plan \<Rightarrow> json" where
  "plan_json p = JObj
     [(''direction'', JStr (direction_name (pl_direction p))), (''entry_ticks'', JNum (pl_entry_ticks p)), (''stop_ticks'', JNum (pl_stop_ticks p)),
      (''target_ticks'', JNum (pl_target_ticks p))]"

definition bundle_json :: "entry_bundle \<Rightarrow> json" where
  "bundle_json b = JObj
     [(''setup'', setup_json (eb_setup b) (eb_commonRuleResults b)), (''candidates'', JArr (map candidate_json (eb_candidates b))),
      (''evidence'', JArr (map evidence_json (eb_evidence b))), (''selection_proposal'', selection_json (eb_selectionProposal b)),
      (''trade_plan'', plan_json (eb_tradePlan b))]"

record receipt_metadata =
  rm_idempotencyKey :: string
  rm_schemaVersion :: schema_version
  rm_strategyVersion :: string
  rm_producerInstanceId :: string
  rm_sequence :: int
  rm_symbol :: string
  rm_tickerId :: string
  rm_feed :: string

record validated_payload =
  vp_canonicalPayload :: members
  vp_metadata :: receipt_metadata
  vp_eventRole :: event_role
  vp_isRealtime :: bool
  vp_detectorCodeHash :: string
  vp_settingsHash :: string
  vp_tickSize :: string
  vp_observedAtEpoch :: int
  vp_marketEvent :: market_event
  vp_exitEvents :: "exit_event list"
  vp_entryBundles :: "entry_bundle list"

definition read_version :: "members \<Rightarrow> schema_version option" where
  "read_version r =
     (if text_is (field_of r ''schema_version'') ''3.0'' \<and> text_is (field_of r ''strategy_version'') ''3.0.0-contract3'' \<and>
         text_is (field_of r ''rule_contract_version'') ''3.0.0'' then Some V30
      else if text_is (field_of r ''schema_version'') ''3.1'' \<and> text_is (field_of r ''strategy_version'') ''3.1.0-contract3'' \<and>
         text_is (field_of r ''rule_contract_version'') ''3.1.0'' then Some V31 else None)"

text \<open>\<open>^(?:0\.[0-9]*[1-9][0-9]*|[1-9][0-9]*(?:\.[0-9]+)?)$\<close>\<close>

definition positive_decimal :: "units \<Rightarrow> bool" where
  "positive_decimal s \<longleftrightarrow>
     (let whole = takeWhile digit_unit s; rest = dropWhile digit_unit s; fraction = tl rest in
      if whole = [48] then rest \<noteq> [] \<and> hd rest = 46 \<and> list_all digit_unit fraction \<and> list_ex (\<lambda>u. u \<noteq> 48) fraction
      else whole \<noteq> [] \<and> hd whole \<noteq> 48 \<and> (rest = [] \<or> hd rest = 46 \<and> fraction \<noteq> [] \<and> list_all digit_unit fraction))"

definition read_tick_size :: "strict_json option \<Rightarrow> string result" where
  "read_tick_size v = and_then (v3_text 64 v) (\<lambda>s. v3_fail_if (\<not> positive_decimal s) (Inr (string_of_units s)))"

definition read_producer :: "members \<Rightarrow> (bool \<times> string \<times> string) result" where
  "read_producer r =
     (let unreviewed = (\<lambda>k. text_is (field_of r k) ''UNREVIEWED'') in
      after_check (fail_if (unreviewed ''detector_code_hash'' \<noteq> unreviewed ''settings_hash'') (v3_error ''PROMOTION_IDENTITY_MISMATCH''))
      (if unreviewed ''detector_code_hash'' then Inr (True, ''UNREVIEWED'', ''UNREVIEWED'')
       else and_then (v3_digest (field_of r ''detector_code_hash'')) (\<lambda>d. and_then (v3_digest (field_of r ''settings_hash'')) (\<lambda>s. Inr (False, d, s)))))"

definition bundle_too_late :: "int \<Rightarrow> event_role \<Rightarrow> bool \<Rightarrow> entry_bundle \<Rightarrow> bool" where
  "bundle_too_late observedAt role realtime b \<longleftrightarrow>
     list_ex (\<lambda>c. cd_observed_at_epoch c > observedAt) (eb_candidates b) \<or>
     list_ex (\<lambda>v. ev_observed_at_epoch v > observedAt \<or> role = ENTRY_DECISION \<and> ev_proof_plane v = REALTIME_TICK \<and> \<not> realtime) (eb_evidence b) \<or>
     sl_evaluated_at_epoch (eb_selectionProposal b) > observedAt"

fun validate_bundles :: "int \<Rightarrow> event_role \<Rightarrow> bool \<Rightarrow> market_event \<Rightarrow> entry_bundle list \<Rightarrow> unit result" where
  "validate_bundles observedAt role realtime event [] = Inr ()"
| "validate_bundles observedAt role realtime event (b # bs) =
     v3_fail_if (bundle_too_late observedAt role realtime b)
     (and_then (validateAuthoritativePaperFacts (eb_setup b) (eb_evaluation b) event (eb_tradePlan b) role) (\<lambda>_.
      validate_bundles observedAt role realtime event bs))"

definition read_metadata :: "members \<Rightarrow> schema_version \<Rightarrow> (receipt_metadata \<times> bool \<times> string) result" where
  "read_metadata r version =
     and_then (v3_identifier (field_of r ''producer_instance_id'')) (\<lambda>producer.
     and_then (v3_integer 0 (field_of r ''producer_sequence'')) (\<lambda>seq.
     and_then (v3_identifier (field_of r ''event_id'')) (\<lambda>eventId.
     and_then (v3_boolean (field_of r ''is_realtime'')) (\<lambda>realtime.
     and_then (v3_identifier (field_of r ''symbol'')) (\<lambda>symbol.
     and_then (v3_identifier (field_of r ''ticker_id'')) (\<lambda>ticker.
     and_then (v3_identifier (field_of r ''feed'')) (\<lambda>feed.
     and_then (read_tick_size (field_of r ''tick_size'')) (\<lambda>tickSize.
     Inr (\<lparr>rm_idempotencyKey = eventId, rm_schemaVersion = version,
        rm_strategyVersion = (if version = V30 then ''3.0.0-contract3'' else ''3.1.0-contract3''), rm_producerInstanceId = producer, rm_sequence = seq,
        rm_symbol = symbol, rm_tickerId = ticker, rm_feed = feed\<rparr>, realtime, tickSize)))))))))"

definition read_payload :: "platform \<Rightarrow> members \<Rightarrow> validated_payload result" where
  "read_payload P r =
     (case read_version r of
        None \<Rightarrow> Inl v3_invalid
      | Some version \<Rightarrow>
          v3_fail_if (\<not> text_is (field_of r ''strategy_id'') ''rd_liquidity_sd_5m_v1'' \<or> \<not> text_is (field_of r ''execution_mode'') ''PAPER_ONLY'' \<or>
              \<not> text_is (field_of r ''timeframe'') ''5'')
          (and_then (read_metadata r version) (\<lambda>(metadata, realtime, tickSize).
           and_then (read_producer r) (\<lambda>(unreviewed, detector, settings).
           and_then (v3_integer 0 (field_of r ''observed_at_epoch'')) (\<lambda>observedAt.
           and_then (parseMarketEvent (field_of r ''market_event'')) (\<lambda>event.
           v3_fail_if (me_epoch event > observedAt)
           (and_then (v3_items 0 32 parseExitEvent (field_of r ''exit_events'')) (\<lambda>exits.
            let role = (if exits = [] then ENTRY_DECISION else EXIT_FOLLOWUP) in
            and_then (v3_items 1 32 (\<lambda>v. parseBundle P v unreviewed version) (field_of r ''setups'')) (\<lambda>bundles.
            v3_fail_if (length (js_set (map (su_setup_id \<circ> eb_setup) bundles)) \<noteq> length bundles)
            (after_check (validateExitFollowup exits realtime event bundles)
            (and_then (validate_bundles observedAt role realtime event bundles) (\<lambda>_.
             Inr \<lparr>vp_canonicalPayload = with_member ''setups'' (strict_of (JArr (map bundle_json bundles))) r, vp_metadata = metadata,
               vp_eventRole = role, vp_isRealtime = realtime, vp_detectorCodeHash = detector, vp_settingsHash = settings, vp_tickSize = tickSize,
               vp_observedAtEpoch = observedAt, vp_marketEvent = event, vp_exitEvents = exits, vp_entryBundles = bundles\<rparr>))))))))))))"

definition validateEntryV3Payload :: "platform \<Rightarrow> strict_json \<Rightarrow> validated_payload result" where
  "validateEntryV3Payload P raw =
     and_then (plain raw) (\<lambda>decoded.
     after_check (fail_if (stringify_length decoded \<ge> ENTRY_V3_MAX_PAYLOAD_CHARACTERS) (v3_error ''MESSAGE_TOO_LARGE''))
     (and_then (v3_record TOP_LEVEL_KEYS (Some decoded)) (read_payload P)))"

text \<open>\<open>new TextDecoder().decode\<close> without \<open>fatal\<close>: a broken sequence gives one U+FFFD and the offending byte is read again.\<close>

fun continue_point :: "nat \<Rightarrow> nat \<Rightarrow> nat \<Rightarrow> nat \<Rightarrow> nat list \<Rightarrow> nat option \<times> nat list" where
  "continue_point 0 lower upper p bytes = (Some p, bytes)"
| "continue_point (Suc n) lower upper p [] = (None, [])"
| "continue_point (Suc n) lower upper p (b # bytes) =
     (if lower \<le> b \<and> b \<le> upper then continue_point n 0x80 0xBF (p * 64 + (b - 0x80)) bytes else (None, b # bytes))"

definition lead_byte :: "nat \<Rightarrow> nat list \<Rightarrow> nat option \<times> nat list" where
  "lead_byte b bytes =
     (if b < 0x80 then (Some b, bytes)
      else if 0xC2 \<le> b \<and> b \<le> 0xDF then continue_point 1 0x80 0xBF (b - 0xC0) bytes
      else if 0xE0 \<le> b \<and> b \<le> 0xEF then continue_point 2 (if b = 0xE0 then 0xA0 else 0x80) (if b = 0xED then 0x9F else 0xBF) (b - 0xE0) bytes
      else if 0xF0 \<le> b \<and> b \<le> 0xF4 then continue_point 3 (if b = 0xF0 then 0x90 else 0x80) (if b = 0xF4 then 0x8F else 0xBF) (b - 0xF0) bytes
      else (None, bytes))"

lemma continue_point_length: "length (snd (continue_point n lower upper p bytes)) \<le> length bytes"
  by (induction n lower upper p bytes rule: continue_point.induct) auto

lemma lead_byte_length: "length (snd (lead_byte b bytes)) \<le> length bytes"
  by (simp add: lead_byte_def continue_point_length)

function decode_lossy :: "nat list \<Rightarrow> units" where
  "decode_lossy [] = []"
| "decode_lossy (b # bytes) =
     (case fst (lead_byte b bytes) of None \<Rightarrow> [0xFFFD] | Some p \<Rightarrow> utf16_units p) @ decode_lossy (snd (lead_byte b bytes))"
  by pat_completeness auto
termination
  by (relation "measure length") (auto simp: le_imp_less_Suc lead_byte_length)

definition validateEntryV3BodySize :: "nat list \<Rightarrow> check" where
  "validateEntryV3BodySize raw =
     fail_if (length (decode_lossy (strip_bom raw)) \<ge> ENTRY_V3_MAX_PAYLOAD_CHARACTERS) (v3_error ''MESSAGE_TOO_LARGE'')"

end
