(* ===== verification/Entry_Wire_Facts.thy ===== *)
theory Entry_Wire_Facts
  imports Entry_Wire
begin

text \<open>
  What an accepted payload of the wire reader guarantees: producers without reviewed code never
  promote an entry, one-candle setups are recorded and never traded, a paper entry is priced at the
  market tick that triggered it, and an exit is reported with the reason that the market shows.
\<close>

section \<open>Reading results backwards\<close>

lemma v3_fail_if_Inr [simp]: "v3_fail_if b r = Inr x \<longleftrightarrow> \<not> b \<and> r = Inr x"
  by (simp add: v3_fail_if_def after_check_Inr_iff)

lemma v3_caught_Inr [simp]: "v3_caught c r = Inr x \<longleftrightarrow> c = None \<and> r = Inr x"
  by (simp add: v3_caught_def)

lemma v3_require_Inr [simp]: "v3_require y = Inr x \<longleftrightarrow> y = Some x"
  by (cases y) (auto simp: v3_require_def)

lemma v3_object_Inr [simp]: "v3_object v = Inr r \<longleftrightarrow> v = Some (SObj r)"
  by (auto simp: v3_object_def split: option.splits strict_json.splits)

lemma v3_record_Inr [simp]: "v3_record keys v = Inr r \<longleftrightarrow> v = Some (SObj r) \<and> strict_keys r keys"
  by (auto simp: v3_record_def and_then_Inr_iff after_check_Inr_iff)

lemmas wire_iffs = and_then_Inr_iff after_check_Inr_iff option_case_None_iff check_option_None_iff

lemma parseBundle_Inr:
  assumes "parseBundle P v unreviewed version = Inr b"
  obtains r su rules candidates evidence seed proposal producer where
    "v = Some (SObj r)" "parseSetup (field_of r ''setup'') unreviewed version = Inr (su, rules)"
    "parse_candidates P (bundleUsesEdgeDerivedIdentity r) r = Inr candidates"
    "parse_evidence_items P (bundleUsesEdgeDerivedIdentity r) candidates r = Inr evidence"
    "\<not> bundle_conflict (bundleUsesEdgeDerivedIdentity r) su candidates evidence"
    "read_proposal (bundleUsesEdgeDerivedIdentity r) candidates r = Inr (seed, proposal)" "ss_setup_id seed = su_setup_id su"
    "arbitrateEntryCandidatesV3 P (su_setup_id su) candidates evidence (su_invalidated_before_entry su) (ss_revision seed)
       (ss_evaluated_at_epoch seed) None (su_liquidity_cohort su) = Inr (eb_selectionProposal b)"
    "field_of r ''selection_proposal'' = Some (SObj producer)"
    "su_liquidity_cohort su = ONE_CANDLE \<longrightarrow> truthful_one_candle producer"
    "\<And>w. proposal = Some w \<Longrightarrow> canonicalJson (strict_of (selection_json (eb_selectionProposal b))) = canonicalJson (wire_selection_value w)"
    "unreviewed \<Longrightarrow> validateUnreviewedBundle su candidates evidence producer (eb_selectionProposal b) = None"
    "eb_evaluation b = sorted_evaluation P candidates evidence (eb_selectionProposal b)" "validateEntryEvaluationV3 (eb_evaluation b) = None"
    "verifyCanonicalDigests P (eb_evaluation b) = None" "\<not> paper_setup_unfit su (eb_evaluation b)"
    "parseTradePlan (field_of r ''trade_plan'') (su_direction su) = Inr (eb_tradePlan b)"
    "eb_setup b = su" "eb_commonRuleResults b = rules" "eb_candidates b = el_candidates (eb_evaluation b)" "eb_evidence b = el_evidence (eb_evaluation b)"
  using assms unfolding parseBundle_def Let_def
  by (auto simp: wire_iffs split_beta split: if_split_asm prod.split_asm)

lemma length_js_set_map [simp]: "length (js_set (map f xs)) = length xs \<longleftrightarrow> distinct (map f xs)"
  by (metis length_js_set_eq_iff length_map)

lemma payload_Inr:
  assumes "validateEntryV3Payload P raw = Inr v"
  obtains r version unreviewed where
    "raw = SObj r" "read_version r = Some version" "read_producer r = Inr (unreviewed, vp_detectorCodeHash v, vp_settingsHash v)"
    "parseMarketEvent (field_of r ''market_event'') = Inr (vp_marketEvent v)"
    "v3_items 1 32 (\<lambda>x. parseBundle P x unreviewed version) (field_of r ''setups'') = Inr (vp_entryBundles v)"
    "distinct (map (su_setup_id \<circ> eb_setup) (vp_entryBundles v))"
    "validateExitFollowup (vp_exitEvents v) (vp_isRealtime v) (vp_marketEvent v) (vp_entryBundles v) = None"
    "vp_eventRole v = (if vp_exitEvents v = [] then ENTRY_DECISION else EXIT_FOLLOWUP)"
    "validate_bundles (vp_observedAtEpoch v) (vp_eventRole v) (vp_isRealtime v) (vp_marketEvent v) (vp_entryBundles v) = Inr ()"
    "vp_canonicalPayload v = with_member ''setups'' (strict_of (JArr (map bundle_json (vp_entryBundles v)))) r"
proof -
  from assms obtain r where r: "raw = SObj r" "read_payload P r = Inr v"
    by (auto simp: validateEntryV3Payload_def plain_def wire_iffs)
  from r(2) show thesis
    unfolding read_payload_def Let_def
    by (auto simp: wire_iffs split_beta simp del: strict_of.simps split: option.split_asm prod.split_asm intro!: that[OF r(1)])
qed

lemma v3_items_Inr:
  assumes "v3_items lo hi reader x = Inr ys" "y \<in> set ys"
  shows "\<exists>w. reader (Some w) = Inr y"
  using assms by (auto simp: v3_items_def wire_iffs comp_def dest!: all_results_Inr)

lemma accepted_bundle:
  assumes "validateEntryV3Payload P raw = Inr v" "b \<in> set (vp_entryBundles v)"
  obtains w unreviewed version where "parseBundle P (Some w) unreviewed version = Inr b"
    "unreviewed \<longleftrightarrow> vp_detectorCodeHash v = ''UNREVIEWED''"
proof -
  from assms(1) obtain r version unreviewed where p: "read_producer r = Inr (unreviewed, vp_detectorCodeHash v, vp_settingsHash v)"
    and i: "v3_items 1 32 (\<lambda>x. parseBundle P x unreviewed version) (field_of r ''setups'') = Inr (vp_entryBundles v)"
    by (rule payload_Inr)
  have "length s = 64" if "v3_digest x = Inr s" for x s
    using that by (auto simp: v3_digest_def wire_iffs hex_units_def string_of_units_def)
  with p have "unreviewed \<longleftrightarrow> vp_detectorCodeHash v = ''UNREVIEWED''"
    by (force simp: read_producer_def Let_def wire_iffs split: if_split_asm)
  with v3_items_Inr[OF i assms(2)] show ?thesis using that by blast
qed

section \<open>Producers and cohorts\<close>

lemma unreviewed_bundle:
  assumes "parseBundle P v True version = Inr b"
  shows "sl_action (eb_selectionProposal b) \<noteq> PAPER_ELIGIBLE"
  using assms by (rule parseBundle_Inr) (auto simp: validateUnreviewedBundle_def Let_def)


lemma one_candle_reason:
  assumes "parseSelection (Some (SObj r)) = Inr w"
  shows "\<not> text_is (field_of r ''reason'') ''ONE_CANDLE_EXPERIMENT_NOT_PROMOTED''"
proof
  assume t: "text_is (field_of r ''reason'') ''ONE_CANDLE_EXPERIMENT_NOT_PROMOTED''"
  from assms have "ws_reason w = the (field_of r ''reason'')" and ok: "wire_shape_ok w"
    by (auto simp: parseSelection_def wire_iffs Let_def)
  with t have "ws_reason w = j_text ''ONE_CANDLE_EXPERIMENT_NOT_PROMOTED''" by (simp add: text_is_def j_text_def)
  with ok show False
    by (auto simp: wire_shape_ok_def j_text_def empty_action_def enum_of_def REASONS_def canonicalReasons_def units_of_inject simp del: units_of_simps split: if_split_asm)
qed

text \<open>
  A setup of the one-candle cohort is accepted only with identifiers derived by the edge, because a
  proposal with its own identifiers cannot state the reason that the cohort demands; and its
  selection is never eligible for paper trading.
\<close>

theorem one_candle_recorded_only:
  assumes "parseBundle P (Some (SObj r)) unreviewed version = Inr b" "su_liquidity_cohort (eb_setup b) = ONE_CANDLE"
  shows "bundleUsesEdgeDerivedIdentity r \<and> sl_action (eb_selectionProposal b) \<noteq> PAPER_ELIGIBLE"
proof -
  from assms(1) obtain su cs es seed proposal producer where s: "eb_setup b = su"
    and p: "read_proposal (bundleUsesEdgeDerivedIdentity r) cs r = Inr (seed, proposal)" "field_of r ''selection_proposal'' = Some (SObj producer)"
    "su_liquidity_cohort su = ONE_CANDLE \<longrightarrow> truthful_one_candle producer"
    and a: "arbitrateEntryCandidatesV3 P (su_setup_id su) cs es (su_invalidated_before_entry su) (ss_revision seed)
      (ss_evaluated_at_epoch seed) None (su_liquidity_cohort su) = Inr (eb_selectionProposal b)"
    by (rule parseBundle_Inr) auto
  from p(1,2) p(3) assms(2) s have "bundleUsesEdgeDerivedIdentity r"
    by (auto simp: read_proposal_def Let_def wire_iffs truthful_one_candle_def dest: one_candle_reason split: if_split_asm)
  moreover from a assms(2) s have "sl_action (eb_selectionProposal b) \<noteq> PAPER_ELIGIBLE"
    by (simp add: arbitrate_Inr_iff decide_def Let_def)
  ultimately show ?thesis ..
qed

section \<open>Exits\<close>

lemma map_get_by_setup:
  assumes "distinct (map (su_setup_id \<circ> eb_setup) bs)"
  shows "map_get (by_setup bs) i = Some b \<longleftrightarrow> b \<in> set bs \<and> su_setup_id (eb_setup b) = i"
  using assms jsmap.get_index_inj[of "su_setup_id \<circ> eb_setup" bs i b] by (simp add: by_setup_def distinct_map comp_def)

lemma tick_hits_once: "plan_ordered p \<Longrightarrow> stop_hit p event True \<Longrightarrow> target_hit p event True \<Longrightarrow> False"
  by (auto simp: plan_ordered_def stop_hit_def target_hit_def split: direction.split_asm if_split_asm)

lemma parseTradePlan_ordered: "parseTradePlan v dir = Inr p \<Longrightarrow> plan_ordered p \<and> pl_direction p = dir"
  by (auto simp: parseTradePlan_def wire_iffs Let_def)

definition market_shows :: "trade_plan \<Rightarrow> market_event \<Rightarrow> bool \<Rightarrow> exit_reason option" where
  "market_shows p event realtime =
     (case (stop_hit p event realtime, target_hit p event realtime) of
        (True, True) \<Rightarrow> Some AMBIGUOUS_SAME_BAR_EXIT
      | (True, False) \<Rightarrow> Some STOP_LOSS
      | (False, True) \<Rightarrow> Some TARGET
      | (False, False) \<Rightarrow> None)"

lemma exit_event_ok:
  assumes "validate_exit_event realtime event (by_setup bs) x = None" "distinct (map (su_setup_id \<circ> eb_setup) bs)"
    "\<And>b. b \<in> set bs \<Longrightarrow> plan_ordered (eb_tradePlan b)"
  shows "\<exists>b \<in> set bs. su_setup_id (eb_setup b) = xe_setup_id x \<and> xe_price_ticks x = me_tick_price_ticks event \<and>
    market_shows (eb_tradePlan b) event realtime = Some (xe_exit_reason x)"
proof -
  from assms(1,2) obtain b where b: "b \<in> set bs" "su_setup_id (eb_setup b) = xe_setup_id x" "xe_price_ticks x = me_tick_price_ticks event"
    and v: "validate_exit_event realtime event (by_setup bs) x = None" "map_get (by_setup bs) (xe_setup_id x) = Some b"
    by (auto simp: validate_exit_event_def Let_def map_get_by_setup split: option.split_asm if_split_asm)
  let ?s = "stop_hit (eb_tradePlan b) event realtime" and ?t = "target_hit (eb_tradePlan b) event realtime"
  from v tick_hits_once[OF assms(3)[OF b(1)]] have "market_shows (eb_tradePlan b) event realtime = Some (xe_exit_reason x)"
    by (cases "xe_exit_reason x"; cases ?s; cases ?t)
      (auto simp: validate_exit_event_def Let_def market_shows_def option_case_None_iff split: sum.split_asm if_split_asm)
  with b show ?thesis by blast
qed

lemma accepted_plan: "parseBundle P v unreviewed version = Inr b \<Longrightarrow> plan_ordered (eb_tradePlan b)"
  by (erule parseBundle_Inr) (blast dest: parseTradePlan_ordered)

lemma accepted_plans: "validateEntryV3Payload P raw = Inr v \<Longrightarrow> b \<in> set (vp_entryBundles v) \<Longrightarrow> plan_ordered (eb_tradePlan b)"
  by (erule accepted_bundle, assumption) (rule accepted_plan)

text \<open>
  C7.
  An exit is reported with the reason the market shows. In an accepted payload every exit event
  belongs to a bundle of its setup and carries the price of the market event, and its reason is the
  only one that the levels of the trade plan allow: the stop alone was hit, the target alone, or both
  within one confirmed bar. A single tick never hits both.
\<close>

theorem exit_reason_is_shown:
  assumes "validateEntryV3Payload P raw = Inr v" "x \<in> set (vp_exitEvents v)"
  shows "\<exists>b \<in> set (vp_entryBundles v). su_setup_id (eb_setup b) = xe_setup_id x \<and> xe_price_ticks x = me_tick_price_ticks (vp_marketEvent v) \<and>
    market_shows (eb_tradePlan b) (vp_marketEvent v) (vp_isRealtime v) = Some (xe_exit_reason x)"
proof -
  from assms(1) have d: "distinct (map (su_setup_id \<circ> eb_setup) (vp_entryBundles v))"
    and f: "validateExitFollowup (vp_exitEvents v) (vp_isRealtime v) (vp_marketEvent v) (vp_entryBundles v) = None"
    by (auto elim: payload_Inr)
  from f assms(2) have "validate_exit_event (vp_isRealtime v) (vp_marketEvent v) (by_setup (vp_entryBundles v)) x = None"
    by (auto simp: validateExitFollowup_def first_error_map_None_iff wire_iffs split: if_split_asm)
  thus ?thesis using d by (rule exit_event_ok) (rule accepted_plans[OF assms(1)])
qed

section \<open>Paper entries\<close>

lemma validate_bundles_Inr:
  assumes "validate_bundles t role realtime event bs = Inr ()" "b \<in> set bs"
  shows "validateAuthoritativePaperFacts (eb_setup b) (eb_evaluation b) event (eb_tradePlan b) role = Inr ()"
  using assms by (induction bs) (auto simp: wire_iffs)

lemma decide_co_triggered:
  assumes "s = decide P i dead r t coh cb l" "sl_action s = PAPER_ELIGIBLE"
  shows "sl_co_triggered_models s = [] \<or> (\<exists>m. sl_canonical_model s = Some m \<and> m \<in> set (sl_co_triggered_models s))"
proof -
  have hd: "hd (js_sort cmp ps) \<in> set ps" if "ps \<noteq> []" for cmp and ps :: "eligible_pair list"
    using that by (metis hd_in_set js_sort_Nil_iff set_js_sort)
  have e: "earliest_pairs l \<noteq> []" if "1 < length (js_set (map (cd_model \<circ> fst) (earliest_pairs l)))"
    using that by (auto simp: js_set_def)
  show ?thesis
    using assms(2) hd[OF e] unfolding assms(1) decide_def Let_def sort_models_def by (simp split: if_split)
qed

text \<open>The evidence a paper-eligible selection points to.\<close>

lemma canonical_evidence:
  assumes "validateEntryEvaluationV3 v = None" "sl_action (el_selection v) = PAPER_ELIGIBLE"
  obtains c e where "e \<in> set (el_evidence v)" "c \<in> set (el_candidates v)" "sl_canonical_evidence_id (el_selection v) = Some (ev_evidence_id e)"
    "sl_canonical_candidate_id (el_selection v) = Some (cd_candidate_id c)" "sl_canonical_model (el_selection v) = Some (cd_model c)"
    "ev_candidate_id e = cd_candidate_id c" "ev_fidelity e = EXACT" "cd_state c = MATCHED"
    "inj_on cd_candidate_id (set (el_candidates v))" "inj_on ev_evidence_id (set (el_evidence v))"
proof -
  have inj: "inj_on cd_candidate_id (set (el_candidates v))" "inj_on ev_evidence_id (set (el_evidence v))"
    and shape: "validateSelectionShapeV3 (el_selection v) = None" and can: "validateCanonicalSelection v = None"
    using assms(1) by (auto simp: validateEntryEvaluationV3_def Let_def option_case_None_iff distinct_map)
  from shape assms(2) obtain i where i: "sl_canonical_candidate_id (el_selection v) = Some i"
    by (cases "sl_canonical_candidate_id (el_selection v)"; cases "sl_reason (el_selection v)") (auto simp: validateSelectionShapeV3_def option_case_None_iff)
  have ev: "map_get (evidence_by_id (el_evidence v)) k = Some e \<longleftrightarrow> e \<in> set (el_evidence v) \<and> ev_evidence_id e = k" for k e
    using inj(2) by (simp add: evidence_by_id_def jsmap.get_index_inj)
  from can i assms(2) inj show thesis
    by (auto simp: validateCanonicalSelection_def Let_def option_case_None_iff map_get_candidates_by_id ev intro: that split: option.split_asm if_split_asm)
qed

lemma find_evidence:
  assumes "inj_on ev_evidence_id (set es)" "e \<in> set es"
  shows "List.find (\<lambda>v. ev_evidence_id v = ev_evidence_id e) es = Some e"
proof -
  obtain f where "List.find (\<lambda>v. ev_evidence_id v = ev_evidence_id e) es = Some f"
    using assms(2) by (cases "List.find (\<lambda>v. ev_evidence_id v = ev_evidence_id e) es") (auto simp: find_None_iff)
  moreover from this have "f = e" using assms by (auto simp: find_Some_iff dest: inj_onD)
  ultimately show ?thesis by simp
qed

lemma all_results_map:
  "all_results (map f xs) = Inr ys \<Longrightarrow> x \<in> set xs \<Longrightarrow> \<exists>y \<in> set ys. f x = Inr y"
  by (induction xs arbitrary: ys) (auto simp: and_then_Inr_iff)

lemma canonical_pair:
  assumes "validateEntryEvaluationV3 v = None" "sl_action (el_selection v) = PAPER_ELIGIBLE" "selectedAuthoritativePairs v = Inr pairs"
    "sl_co_triggered_models (el_selection v) = [] \<or> (\<exists>m. sl_canonical_model (el_selection v) = Some m \<and> m \<in> set (sl_co_triggered_models (el_selection v)))"
  obtains c e where "(c, e) \<in> set pairs" "sl_canonical_evidence_id (el_selection v) = Some (ev_evidence_id e)"
    "sl_canonical_candidate_id (el_selection v) = Some (cd_candidate_id c)" "ev_fidelity e = EXACT" "e \<in> set (el_evidence v)"
proof -
  from assms(1,2) obtain c e where ce: "e \<in> set (el_evidence v)" "c \<in> set (el_candidates v)" "sl_canonical_evidence_id (el_selection v) = Some (ev_evidence_id e)"
    "sl_canonical_candidate_id (el_selection v) = Some (cd_candidate_id c)" "sl_canonical_model (el_selection v) = Some (cd_model c)"
    "ev_candidate_id e = cd_candidate_id c" "ev_fidelity e = EXACT"
    and inj: "inj_on cd_candidate_id (set (el_candidates v))" "inj_on ev_evidence_id (set (el_evidence v))"
    by (rule canonical_evidence)
  have get: "map_get (candidates_by_id (el_candidates v)) (ev_candidate_id e) = Some c" using ce inj(1) by (simp add: map_get_candidates_by_id)
  from assms(3) ce(3,4) assms(2) obtain ps where
    all: "all_results (map (\<lambda>v'. case map_get (candidates_by_id (el_candidates v)) (ev_candidate_id v') of None \<Rightarrow> Inl v3_invalid | Some c \<Rightarrow> Inr (c, v'))
      (filter (\<lambda>v'. ev_fidelity v' = EXACT \<and> ev_observed_trigger_epoch v' = ev_observed_trigger_epoch e \<and> ev_trigger_sequence v' = ev_trigger_sequence e)
        (el_evidence v))) = Inr ps"
    and ps: "pairs = filter (\<lambda>(c, v'). if sl_co_triggered_models (el_selection v) = [] then sl_canonical_model (el_selection v) = Some (cd_model c)
      else cd_model c \<in> set (sl_co_triggered_models (el_selection v))) ps"
    by (auto simp: selectedAuthoritativePairs_def Let_def find_evidence[OF inj(2) ce(1)] wire_iffs)
  from all_results_map[OF all, of e] ce(1,7) get have "(c, e) \<in> set ps" by auto
  with ps ce(5) assms(4) have "(c, e) \<in> set pairs" by auto
  with ce show ?thesis by (intro that)
qed

lemma accepted_evaluation:
  assumes "parseBundle P v unreviewed version = Inr b"
  shows "\<exists>cs es n t. eb_selectionProposal b = decide P (su_setup_id (eb_setup b)) (su_invalidated_before_entry (eb_setup b)) n t
      (su_liquidity_cohort (eb_setup b)) (candidates_by_id cs) (eligible_list P cs es)"
    and "el_selection (eb_evaluation b) = eb_selectionProposal b" and "validateEntryEvaluationV3 (eb_evaluation b) = None"
    and "eb_evidence b = el_evidence (eb_evaluation b)" and "\<not> paper_setup_unfit (eb_setup b) (eb_evaluation b)"
proof (rule parseBundle_Inr[OF assms])
  fix su cs es seed
  assume "arbitrateEntryCandidatesV3 P (su_setup_id su) cs es (su_invalidated_before_entry su) (ss_revision seed) (ss_evaluated_at_epoch seed) None
    (su_liquidity_cohort su) = Inr (eb_selectionProposal b)" "eb_setup b = su"
  thus "\<exists>cs es n t. eb_selectionProposal b = decide P (su_setup_id (eb_setup b)) (su_invalidated_before_entry (eb_setup b)) n t
      (su_liquidity_cohort (eb_setup b)) (candidates_by_id cs) (eligible_list P cs es)"
    by (auto simp: arbitrate_Inr_iff)
qed (rule parseBundle_Inr[OF assms]; simp add: sorted_evaluation_def)+

lemma paper_entry_facts:
  assumes "validateEntryV3Payload P raw = Inr v" "vp_eventRole v = ENTRY_DECISION" "b \<in> set (vp_entryBundles v)"
    "sl_action (eb_selectionProposal b) = PAPER_ELIGIBLE"
  shows "\<exists>e \<in> set (eb_evidence b). sl_canonical_evidence_id (eb_selectionProposal b) = Some (ev_evidence_id e) \<and> ev_fidelity e = EXACT \<and>
    ev_observed_trigger_epoch e = Some (me_epoch (vp_marketEvent v)) \<and> ev_trigger_sequence e = me_sequence (vp_marketEvent v) \<and>
    ev_observed_trigger_ticks e = Some (me_tick_price_ticks (vp_marketEvent v)) \<and> pl_entry_ticks (eb_tradePlan b) = me_tick_price_ticks (vp_marketEvent v) \<and>
    plan_ordered (eb_tradePlan b) \<and> su_common_fidelity (eb_setup b) = EXACT \<and> \<not> su_invalidated_before_entry (eb_setup b) \<and>
    (\<exists>engaged. su_zone_engaged_epoch (eb_setup b) = Some engaged \<and> engaged \<le> me_epoch (vp_marketEvent v))"
proof -
  from assms(1,3) obtain w unreviewed version where w: "parseBundle P (Some w) unreviewed version = Inr b" by (rule accepted_bundle)
  note ev = accepted_evaluation[OF w]
  from assms(1) have "validate_bundles (vp_observedAtEpoch v) (vp_eventRole v) (vp_isRealtime v) (vp_marketEvent v) (vp_entryBundles v) = Inr ()"
    by (rule payload_Inr)
  from validate_bundles_Inr[OF this assms(3)] assms(2,4) ev(2) obtain pairs where pairs: "selectedAuthoritativePairs (eb_evaluation b) = Inr pairs"
    and all: "\<not> list_ex (\<lambda>(c, e). ev_observed_trigger_ticks e \<noteq> Some (pl_entry_ticks (eb_tradePlan b)) \<or>
      ev_observed_trigger_epoch e \<noteq> Some (me_epoch (vp_marketEvent v)) \<or> ev_trigger_sequence e \<noteq> me_sequence (vp_marketEvent v) \<or>
      ev_observed_trigger_ticks e \<noteq> Some (me_tick_price_ticks (vp_marketEvent v))) pairs"
    and price: "pl_entry_ticks (eb_tradePlan b) = me_tick_price_ticks (vp_marketEvent v)"
    by (auto simp: validateAuthoritativePaperFacts_def wire_iffs)
  with decide_co_triggered[OF _ assms(4)] ev pairs assms(4) obtain c e where e: "(c, e) \<in> set pairs" "sl_canonical_evidence_id (eb_selectionProposal b) = Some (ev_evidence_id e)"
      "ev_fidelity e = EXACT" "e \<in> set (eb_evidence b)"
    by (metis canonical_pair)
  with all have t: "ev_observed_trigger_epoch e = Some (me_epoch (vp_marketEvent v))" "ev_trigger_sequence e = me_sequence (vp_marketEvent v)"
    "ev_observed_trigger_ticks e = Some (me_tick_price_ticks (vp_marketEvent v))" by (auto simp: list_ex_iff)
  with ev(2,4,5) assms(4) e(4) have "su_common_fidelity (eb_setup b) = EXACT" "\<not> su_invalidated_before_entry (eb_setup b)"
    "\<exists>engaged. su_zone_engaged_epoch (eb_setup b) = Some engaged \<and> engaged \<le> me_epoch (vp_marketEvent v)"
    by (auto simp: paper_setup_unfit_def list_ex_iff split: option.split_asm)
  with e t price accepted_plan[OF w] show ?thesis by blast
qed


end
