(* ===== verification/Entry_Wire_Round_Trip.thy ===== *)
theory Entry_Wire_Round_Trip
  imports Entry_Wire_Facts
begin

text \<open>
  The canonical payload reads back. The wire reader replaces each bundle by its canonical form, with
  every identifier computed by the edge; reading that form again gives the same bundle. The lemmas go
  from single values over records to the bundle.
\<close>

section \<open>Values read back\<close>

definition strict_members :: "(string \<times> json) list \<Rightarrow> members" where
  "strict_members kvs = map (\<lambda>(k, v). (units_of k, strict_of v)) kvs"

lemma field_of_strict [simp]: "field_of (strict_members kvs) k = map_option strict_of (map_of kvs k)"
  using field_of_members[of kvs k] by (simp add: strict_members_def case_prod_unfold)

lemma record_back: "map fst kvs = keys \<Longrightarrow> v3_record keys (Some (strict_of (JObj kvs))) = Inr (strict_members kvs)"
  by (auto simp: strict_keys_def strict_members_def comp_def case_prod_unfold)

lemma integer_back: "is_safe_integer n \<Longrightarrow> m \<le> n \<Longrightarrow> v3_integer m (Some (strict_of (JNum n))) = Inr n"
  "is_safe_integer n \<Longrightarrow> v3_signed (Some (strict_of (JNum n))) = Inr n"
  by (auto simp: v3_integer_def v3_signed_def number_value_def wire_iffs)

lemma boolean_back: "v3_boolean (Some (strict_of (JBool b))) = Inr b"
  by (simp add: v3_boolean_def)

lemma nullable_back:
  assumes "\<And>z. y = Some z \<Longrightarrow> reader (Some (strict_of (f z))) = Inr z" "\<And>z. f z \<noteq> JNull"
  shows "v3_nullable reader (Some (strict_of (j_opt f y))) = Inr y"
proof (cases y)
  case (Some z)
  have "strict_of (f z) \<noteq> SNull" using assms(2)[of z] by (cases "f z") auto
  with assms(1)[OF Some] Some show ?thesis by (simp add: v3_nullable_def j_opt_def)
qed (simp add: v3_nullable_def j_opt_def)

definition wire_id :: "string \<Rightarrow> bool" where
  "wire_id s \<longleftrightarrow> s \<noteq> [] \<and> length s \<le> 256 \<and> list_all printable_id_char s"

lemma identifier_unit_trim: "identifier_unit u \<Longrightarrow> \<not> trim_unit u"
  by (auto simp: identifier_unit_def trim_unit_def)

lemma identifier_units: "list_all identifier_unit (units_of s) \<longleftrightarrow> list_all printable_id_char s"
  by (simp add: units_of_def list_all_iff identifier_unit_def printable_id_char_def)

lemma identifier_back_iff: "v3_identifier (Some (strict_of (JStr s))) = Inr s \<longleftrightarrow> wire_id s"
proof -
  have "string_of_units (units_of s) = s" by (simp add: string_of_units_def units_of_def comp_def)
  moreover have "\<not> trim_unit (hd (units_of s)) \<and> \<not> trim_unit (last (units_of s))" if "s \<noteq> []" "list_all printable_id_char s"
    using that identifier_units[of s] by (metis identifier_unit_trim last_in_set list.set_sel(1) list_all_iff units_of_def map_is_Nil_conv)
  ultimately show ?thesis
    by (auto simp: v3_identifier_def v3_text_def wire_iffs wire_id_def identifier_units) (auto simp: units_of_def)
qed

lemma identifier_back: "wire_id s \<Longrightarrow> v3_identifier (Some (strict_of (JStr s))) = Inr s"
  by (simp only: identifier_back_iff)

lemma identifier_char: "identifier_unit u \<Longrightarrow> printable_id_char (char_of u)"
  by (auto simp: identifier_unit_def printable_id_char_def code_unit_def)

lemma identifier_read: "v3_identifier v = Inr s \<Longrightarrow> wire_id s"
  by (auto simp: v3_identifier_def v3_text_def wire_iffs wire_id_def string_of_units_def list_all_iff identifier_char
      split: option.split_asm strict_json.split_asm)

lemma hex_chars_units: "c \<in> set hex_chars \<longleftrightarrow> 48 \<le> code_unit c \<and> code_unit c \<le> 57 \<or> 97 \<le> code_unit c \<and> code_unit c \<le> 102"
proof
  assume r: "48 \<le> code_unit c \<and> code_unit c \<le> 57 \<or> 97 \<le> code_unit c \<and> code_unit c \<le> 102"
  hence "code_unit c \<in> code_unit ` set hex_chars"
    by (simp add: hex_chars_def code_unit_def) presburger
  thus "c \<in> set hex_chars" by auto
qed (auto simp: hex_chars_def code_unit_def)

lemma hex_units_of: "hex_units (units_of s) \<longleftrightarrow> is_sha256 s"
  by (auto simp: hex_units_def is_sha256_def hex_string_def units_of_def list_all_iff hex_chars_units)

lemma hex_printable: "hex_string s \<Longrightarrow> list_all printable_id_char s"
  by (auto simp: hex_string_def list_all_iff hex_chars_units printable_id_char_def)

lemma digest_id: "is_sha256 s \<Longrightarrow> wire_id s"
  by (auto simp: wire_id_def is_sha256_def hex_printable)

lemma digest_back: "is_sha256 s \<Longrightarrow> s \<noteq> zero_digest \<Longrightarrow> v3_digest (Some (strict_of (JStr s))) = Inr s"
proof -
  assume s: "is_sha256 s" "s \<noteq> zero_digest"
  have "string_of_units (units_of s) = s" by (simp add: string_of_units_def units_of_def comp_def)
  moreover have "units_of s \<noteq> replicate 64 48"
  proof
    assume "units_of s = replicate 64 48"
    hence "units_of s = units_of zero_digest" by (simp add: zero_digest_def units_of_def code_unit_def)
    with s(2) show False by (simp add: units_of_inject)
  qed
  moreover from digest_id[OF s(1)] have "v3_text 256 (Some (strict_of (JStr s))) = Inr (units_of s)"
    unfolding identifier_back_iff[symmetric] by (auto simp: v3_identifier_def v3_text_def wire_iffs)
  moreover have "length (units_of s) = 64" using s(1) by (simp add: is_sha256_def units_of_def)
  ultimately show ?thesis using s(1) by (simp add: v3_digest_def v3_text_def hex_units_of wire_iffs)
qed

definition wire_strings :: "nat \<Rightarrow> string list \<Rightarrow> bool" where
  "wire_strings n xs \<longleftrightarrow> length xs \<le> n \<and> list_all wire_id xs \<and> distinct xs"

lemma all_results_back: "(\<And>x. x \<in> set xs \<Longrightarrow> f (g x) = Inr x) \<Longrightarrow> all_results (map f (map g xs)) = Inr xs"
  by (induction xs) auto

lemma items_back:
  assumes "lo \<le> length xs" "length xs \<le> hi" "\<And>x. x \<in> set xs \<Longrightarrow> reader (Some (strict_of (g x))) = Inr x"
  shows "v3_items lo hi reader (Some (strict_of (JArr (map g xs)))) = Inr xs"
proof -
  have "all_results (map (reader \<circ> Some) (map (strict_of \<circ> g) xs)) = Inr xs" by (rule all_results_back) (simp add: assms(3))
  with assms(1,2) show ?thesis by (simp add: v3_items_def v3_values_def wire_iffs)
qed

lemma strings_back: "wire_strings n xs \<Longrightarrow> stringValues n (Some (strict_of (j_strings xs))) = Inr xs"
  unfolding stringValues_def j_strings_def
  by (subst items_back) (simp_all add: wire_strings_def list_all_iff identifier_back del: strict_of.simps)

lemma strings_read: "stringValues n v = Inr xs \<Longrightarrow> wire_strings n xs"
  by (auto simp: stringValues_def v3_items_def v3_values_def wire_strings_def wire_iffs list_all_iff comp_def
      dest!: all_results_Inr dest: identifier_read split: option.split_asm strict_json.split_asm)

lemma enum_back:
  assumes "x \<in> set values" "inj_on name (set values)"
  shows "v3_enum name values (Some (strict_of (JStr (name x)))) = Inr x"
proof -
  obtain y where "List.find (\<lambda>y. units_of (name y) = units_of (name x)) values = Some y"
    using assms(1) by (cases "List.find (\<lambda>y. units_of (name y) = units_of (name x)) values") (auto simp: find_None_iff)
  moreover from this have "y = x" using assms by (auto simp: find_Some_iff units_of_inject dest: inj_onD)
  ultimately show ?thesis by (simp add: v3_enum_def enum_of_def)
qed

section \<open>Records read back\<close>

lemma v3_pass [simp]: "v3_fail_if False r = r" "v3_caught None r = r"
  by (simp_all add: v3_caught_def v3_fail_if_def fail_if_def)

lemmas back_simps = integer_back boolean_back identifier_back digest_back strings_back

lemma safe_iff: "safeInteger v name (Some m) = None \<longleftrightarrow> is_safe_integer v \<and> m \<le> v" "safeInteger v name None = None \<longleftrightarrow> is_safe_integer v"
  by (auto simp: safeInteger_None_iff)

lemma record_etas:
  "\<lparr>open_epoch = open_epoch k, close_epoch = close_epoch k, open_ticks = open_ticks k, high_ticks = high_ticks k, low_ticks = low_ticks k,
     close_ticks = close_ticks k\<rparr> = k"
  "\<lparr>cd_candidate_id = cd_candidate_id c, cd_setup_id = cd_setup_id c, cd_model = cd_model c, cd_state = cd_state c, cd_direction = cd_direction c,
     cd_event_anchor_epoch = cd_event_anchor_epoch c, cd_trigger_ordinal = cd_trigger_ordinal c, cd_boc_tier = cd_boc_tier c,
     cd_reference_candle_open_epoch = cd_reference_candle_open_epoch c, cd_source_claim_ids = cd_source_claim_ids c,
     cd_observed_at_epoch = cd_observed_at_epoch c\<rparr> = c"
  by (cases k, simp) (cases c, simp)

lemma candle_back:
  assumes "validateOrderedCandleV3 c name = None"
  shows "parseCandle False (Some (strict_of (candle_json c))) = Inr c"
proof -
  have ok: "validateOrderedCandleV3 c name' = None" for name' using assms by (simp add: validateOrderedCandleV3_None_iff)
  from assms have "is_safe_integer (open_epoch c) \<and> 0 \<le> open_epoch c" "is_safe_integer (close_epoch c) \<and> 0 \<le> close_epoch c"
    "is_safe_integer (open_ticks c)" "is_safe_integer (high_ticks c)" "is_safe_integer (low_ticks c)" "is_safe_integer (close_ticks c)"
    by (simp_all add: validateOrderedCandleV3_def option_case_None_iff safe_iff)
  with ok show ?thesis
    unfolding parseCandle_def candle_json_def
    by (subst record_back) (simp_all add: CANDLE_KEYS_def back_simps record_etas Let_def del: strict_of.simps)
qed

definition candidate_readable :: "candidate \<Rightarrow> bool" where
  "candidate_readable c \<longleftrightarrow> wire_id (cd_setup_id c) \<and> wire_strings 32 (cd_source_claim_ids c)"

lemma enums_back:
  "v3_enum model_name MODELS (Some (strict_of (JStr (model_name m)))) = Inr m"
  "v3_enum state_name [MATCHED, BLOCKED, REJECTED] (Some (strict_of (JStr (state_name st)))) = Inr st"
  "v3_enum direction_name DIRECTIONS (Some (strict_of (JStr (direction_name d)))) = Inr d"
  "v3_enum tier_name TIERS (Some (strict_of (JStr (tier_name t)))) = Inr t"
  "v3_enum fidelity_name FIDELITIES (Some (strict_of (JStr (fidelity_name f)))) = Inr f"
  "v3_enum plane_name PLANES (Some (strict_of (JStr (plane_name p)))) = Inr p"
  "v3_enum replayability_name [REPLAYABLE, LIVE_EXACT_NON_REPLAYABLE] (Some (strict_of (JStr (replayability_name r)))) = Inr r"
  "v3_enum cohort_name [ONE_CANDLE, TWO_PLUS_CANDLES] (Some (strict_of (JStr (cohort_name coh)))) = Inr coh"
proof -
  note defs = MODELS_def DIRECTIONS_def TIERS_def FIDELITIES_def PLANES_def
  show "v3_enum model_name MODELS (Some (strict_of (JStr (model_name m)))) = Inr m" by (rule enum_back) (cases m; simp add: defs)+
  show "v3_enum state_name [MATCHED, BLOCKED, REJECTED] (Some (strict_of (JStr (state_name st)))) = Inr st" by (rule enum_back) (cases st; simp)+
  show "v3_enum direction_name DIRECTIONS (Some (strict_of (JStr (direction_name d)))) = Inr d" by (rule enum_back) (cases d; simp add: defs)+
  show "v3_enum tier_name TIERS (Some (strict_of (JStr (tier_name t)))) = Inr t" by (rule enum_back) (cases t; simp add: defs)+
  show "v3_enum fidelity_name FIDELITIES (Some (strict_of (JStr (fidelity_name f)))) = Inr f" by (rule enum_back) (cases f; simp add: defs)+
  show "v3_enum plane_name PLANES (Some (strict_of (JStr (plane_name p)))) = Inr p" by (rule enum_back) (cases p; simp add: defs)+
  show "v3_enum replayability_name [REPLAYABLE, LIVE_EXACT_NON_REPLAYABLE] (Some (strict_of (JStr (replayability_name r)))) = Inr r"
    by (rule enum_back) (cases r; simp)+
  show "v3_enum cohort_name [ONE_CANDLE, TWO_PLUS_CANDLES] (Some (strict_of (JStr (cohort_name coh)))) = Inr coh" by (rule enum_back) (cases coh; simp)+
qed

lemma candidate_back:
  assumes "validateEntryCandidateV3 c = None" "candidate_readable c"
  shows "parseCandidate (Some (strict_of (candidate_json c))) = Inr c"
proof -
  from assms(1) have f: "is_sha256 (cd_candidate_id c)" "cd_candidate_id c \<noteq> zero_digest" "is_safe_integer (cd_event_anchor_epoch c)" "0 \<le> cd_event_anchor_epoch c"
    "is_safe_integer (cd_trigger_ordinal c)" "1 \<le> cd_trigger_ordinal c" "is_safe_integer (cd_observed_at_epoch c)" "0 \<le> cd_observed_at_epoch c"
    and ref: "\<And>z. cd_reference_candle_open_epoch c = Some z \<Longrightarrow> is_safe_integer z \<and> 0 \<le> z"
    by (auto simp: validateEntryCandidateV3_def option_case_None_iff safe_iff digest_None_iff check_option_None_iff)
  have "v3_nullable (v3_integer 0) (Some (strict_of (j_opt JNum (cd_reference_candle_open_epoch c)))) = Inr (cd_reference_candle_open_epoch c)"
    by (rule nullable_back) (simp_all add: ref integer_back del: strict_of.simps)
  moreover have "v3_nullable (v3_enum tier_name TIERS) (Some (strict_of (j_opt (JStr \<circ> tier_name) (cd_boc_tier c)))) = Inr (cd_boc_tier c)"
    by (rule nullable_back) (simp_all add: enums_back del: strict_of.simps)
  ultimately show ?thesis
    using f assms unfolding parseCandidate_def candidate_json_def candidate_readable_def
    by (subst record_back) (simp_all add: CANDIDATE_KEYS_V3_def back_simps record_etas enums_back Let_def del: strict_of.simps)
qed

definition opt_all :: "('a \<Rightarrow> bool) \<Rightarrow> 'a option \<Rightarrow> bool" where
  "opt_all Q x \<longleftrightarrow> (\<forall>z. x = Some z \<longrightarrow> Q z)"

lemma nullable_read: "v3_nullable reader v = Inr y \<Longrightarrow> (\<And>z. reader v = Inr z \<Longrightarrow> Q z) \<Longrightarrow> opt_all Q y"
  by (auto simp: v3_nullable_def opt_all_def wire_iffs split: if_split_asm)

lemma integer_read: "v3_integer m v = Inr n \<Longrightarrow> is_safe_integer n \<and> m \<le> n" "v3_signed v = Inr n \<Longrightarrow> is_safe_integer n"
  by (auto simp: v3_integer_def v3_signed_def wire_iffs)

lemma v3_digest_read: "v3_digest v = Inr s \<Longrightarrow> is_sha256 s \<and> s \<noteq> zero_digest"
proof -
  assume "v3_digest v = Inr s"
  then obtain u where u: "hex_units u" "u \<noteq> replicate 64 48" "s = string_of_units u" by (auto simp: v3_digest_def wire_iffs)
  have "units_of s = u" using u(1,3) by (auto simp: units_of_def string_of_units_def hex_units_def list_all_iff comp_def code_unit_def intro!: map_idI)
  moreover have "units_of zero_digest = replicate 64 48" by (simp add: zero_digest_def units_of_def code_unit_def)
  ultimately show ?thesis using u(1,2) hex_units_of[of s] by auto
qed

lemma candle_read: "parseCandle five v = Inr c \<Longrightarrow> validateOrderedCandleV3 c ''candle'' = None"
  by (auto simp: parseCandle_def wire_iffs Let_def)

definition signed_opt :: "int option \<Rightarrow> bool" where "signed_opt = opt_all is_safe_integer"
definition epoch_opt :: "int option \<Rightarrow> bool" where "epoch_opt = opt_all (\<lambda>n. is_safe_integer n \<and> 0 \<le> n)"
definition candle_opt :: "ordered_candle option \<Rightarrow> bool" where "candle_opt = opt_all (\<lambda>c. validateOrderedCandleV3 c ''candle'' = None)"

lemma opts_read:
  "v3_nullable v3_signed v = Inr y \<Longrightarrow> signed_opt y" "v3_nullable (v3_integer 0) v = Inr y \<Longrightarrow> epoch_opt y"
  "v3_nullable (parseCandle five) v = Inr k \<Longrightarrow> candle_opt k"
  unfolding signed_opt_def epoch_opt_def candle_opt_def by (erule nullable_read; blast dest: integer_read candle_read)+

lemma opts_back:
  "signed_opt y \<Longrightarrow> v3_nullable v3_signed (Some (strict_of (j_opt JNum y))) = Inr y"
  "epoch_opt y \<Longrightarrow> v3_nullable (v3_integer 0) (Some (strict_of (j_opt JNum y))) = Inr y"
  "candle_opt k \<Longrightarrow> v3_nullable (parseCandle False) (Some (strict_of (j_opt candle_json k))) = Inr k"
  "v3_nullable v3_boolean (Some (strict_of (j_opt JBool b))) = Inr b"
  "v3_nullable (v3_enum tier_name TIERS) (Some (strict_of (j_opt (JStr \<circ> tier_name) t))) = Inr t"
proof -
  note defs = signed_opt_def epoch_opt_def candle_opt_def opt_all_def
  show "signed_opt y \<Longrightarrow> v3_nullable v3_signed (Some (strict_of (j_opt JNum y))) = Inr y"
    by (rule nullable_back) (simp_all add: defs integer_back del: strict_of.simps)
  show "epoch_opt y \<Longrightarrow> v3_nullable (v3_integer 0) (Some (strict_of (j_opt JNum y))) = Inr y"
    by (rule nullable_back) (simp_all add: defs integer_back del: strict_of.simps)
  show "candle_opt k \<Longrightarrow> v3_nullable (parseCandle False) (Some (strict_of (j_opt candle_json k))) = Inr k"
    by (rule nullable_back) (auto simp: defs candle_back, simp add: candle_json_def)
  show "v3_nullable v3_boolean (Some (strict_of (j_opt JBool b))) = Inr b" by (rule nullable_back) (simp_all add: boolean_back del: strict_of.simps)
  show "v3_nullable (v3_enum tier_name TIERS) (Some (strict_of (j_opt (JStr \<circ> tier_name) t))) = Inr t"
    by (rule nullable_back) (simp_all add: enums_back del: strict_of.simps)
qed

definition evidence_readable :: "evidence \<Rightarrow> bool" where
  "evidence_readable e \<longleftrightarrow>
     epoch_opt (ev_observed_trigger_epoch e) \<and> is_safe_integer (ev_trigger_sequence e) \<and> 0 \<le> ev_trigger_sequence e \<and> signed_opt (ev_observed_trigger_ticks e) \<and>
     length (ev_htf_context_minutes e) \<le> 3 \<and> list_all (\<lambda>m. is_safe_integer m \<and> 15 \<le> m) (ev_htf_context_minutes e) \<and>
     is_safe_integer (ev_coverage_start_epoch e) \<and> 0 \<le> ev_coverage_start_epoch e \<and> is_safe_integer (ev_coverage_end_epoch e) \<and> 0 \<le> ev_coverage_end_epoch e \<and>
     wire_strings 3 (map ambiguity_name (ev_ambiguity_codes e)) \<and> epoch_opt (ev_reference_candle_open_epoch e) \<and>
     signed_opt (ev_reference_candle_open_ticks e) \<and> signed_opt (ev_reference_candle_high_ticks e) \<and> signed_opt (ev_reference_candle_low_ticks e) \<and>
     signed_opt (ev_reference_candle_close_ticks e) \<and> signed_opt (ev_htf_open_ticks e) \<and> candle_opt (ev_contact_candle e) \<and> candle_opt (ev_recross_candle e) \<and>
     wire_strings 32 (ev_passed_rule_ids e) \<and> wire_strings 32 (ev_failed_rule_ids e) \<and> wire_strings 32 (ev_source_claim_ids e) \<and>
     is_safe_integer (ev_observed_at_epoch e) \<and> 0 \<le> ev_observed_at_epoch e"

lemma code_read: "read_code s = Inr c \<Longrightarrow> ambiguity_name c = s"
  by (auto simp: read_code_def find_Some_iff)

lemma codes_read: "all_results (map read_code ss) = Inr cs \<Longrightarrow> map ambiguity_name cs = ss"
  by (induction ss arbitrary: cs) (auto simp: wire_iffs dest: code_read)

lemma codes_back: "all_results (map read_code (map ambiguity_name cs)) = Inr cs"
proof -
  have "read_code (ambiguity_name c) = Inr c" for c by (cases c) (simp_all add: read_code_def AMBIGUITIES_def)
  thus ?thesis by (intro all_results_back)
qed

lemma wire_items_read: "v3_items lo hi reader v = Inr ys \<Longrightarrow> (\<And>w y. reader (Some w) = Inr y \<Longrightarrow> Q y) \<Longrightarrow> length ys \<le> hi \<and> list_all Q ys"
  by (auto simp: v3_items_def v3_values_def wire_iffs list_all_iff comp_def dest!: all_results_Inr split: option.split_asm strict_json.split_asm)

lemma contexts_read: "v3_items 0 3 (v3_integer 15) v = Inr ys \<Longrightarrow> length ys \<le> 3 \<and> list_all (\<lambda>m. is_safe_integer m \<and> 15 \<le> m) ys"
  by (erule wire_items_read) (rule integer_read)

lemma evidence_read: "parseEvidence v = Inr e \<Longrightarrow> evidence_readable e"
  unfolding parseEvidence_def evidence_readable_def and_then_Inr_iff Let_def v3_caught_Inr
  by (elim exE conjE) (auto dest!: opts_read integer_read strings_read codes_read contexts_read)

lemma evidence_eta:
  "\<lparr>ev_evidence_id = ev_evidence_id e, ev_candidate_id = ev_candidate_id e, ev_observed_trigger_epoch = ev_observed_trigger_epoch e,
    ev_trigger_sequence = ev_trigger_sequence e, ev_observed_trigger_ticks = ev_observed_trigger_ticks e, ev_htf_context_minutes = ev_htf_context_minutes e,
    ev_fidelity = ev_fidelity e, ev_proof_plane = ev_proof_plane e, ev_replayability = ev_replayability e, ev_coverage_start_epoch = ev_coverage_start_epoch e,
    ev_coverage_end_epoch = ev_coverage_end_epoch e, ev_ambiguity_codes = ev_ambiguity_codes e, ev_boc_tier = ev_boc_tier e,
    ev_reference_candle_open_epoch = ev_reference_candle_open_epoch e, ev_reference_candle_open_ticks = ev_reference_candle_open_ticks e,
    ev_reference_candle_high_ticks = ev_reference_candle_high_ticks e, ev_reference_candle_low_ticks = ev_reference_candle_low_ticks e,
    ev_reference_candle_close_ticks = ev_reference_candle_close_ticks e, ev_htf_open_ticks = ev_htf_open_ticks e, ev_contact_candle = ev_contact_candle e,
    ev_recross_candle = ev_recross_candle e, ev_coverage_gap_detected = ev_coverage_gap_detected e, ev_full_lifecycle_ordered = ev_full_lifecycle_ordered e,
    ev_destination_seen_before_contact = ev_destination_seen_before_contact e, ev_passed_rule_ids = ev_passed_rule_ids e,
    ev_failed_rule_ids = ev_failed_rule_ids e, ev_source_claim_ids = ev_source_claim_ids e, ev_payload_sha256 = ev_payload_sha256 e,
    ev_observed_at_epoch = ev_observed_at_epoch e\<rparr> = e"
  by (cases e) simp

lemma evidence_back:
  assumes "validateEntryEvidenceV3 e = None" "evidence_readable e"
  shows "parseEvidence (Some (strict_of (evidence_json e))) = Inr e"
proof -
  from assms(1) have d: "is_sha256 (ev_evidence_id e)" "ev_evidence_id e \<noteq> zero_digest" "is_sha256 (ev_candidate_id e)" "ev_candidate_id e \<noteq> zero_digest"
    "is_sha256 (ev_payload_sha256 e)" "ev_payload_sha256 e \<noteq> zero_digest"
    by (auto simp: validateEntryEvidenceV3_def option_case_None_iff digest_None_iff)
  from assms(2) have ctx: "v3_items 0 3 (v3_integer 15) (Some (strict_of (JArr (map JNum (ev_htf_context_minutes e))))) = Inr (ev_htf_context_minutes e)"
    by (intro items_back) (auto simp: evidence_readable_def list_all_iff integer_back simp del: strict_of.simps)
  show ?thesis
    using d ctx assms codes_back[of "ev_ambiguity_codes e"] unfolding parseEvidence_def evidence_json_def evidence_readable_def
    by (subst record_back) (simp_all add: EVIDENCE_KEYS_V3_def back_simps opts_back enums_back evidence_eta Let_def del: strict_of.simps map_map)
qed

lemma candidate_read: "parseCandidate v = Inr c \<Longrightarrow> candidate_readable c"
  unfolding parseCandidate_def candidate_readable_def and_then_Inr_iff Let_def v3_caught_Inr
  by (elim exE conjE) (auto dest!: identifier_read strings_read)

lemma edge_candidate_read: "parseEdgeDerivedCandidate P v = Inr c \<Longrightarrow> candidate_readable c"
  by (auto simp: parseEdgeDerivedCandidate_def wire_iffs candidate_readable_def dest!: candidate_read)

lemma edge_evidence_read: "parseEdgeDerivedEvidence P m v = Inr e \<Longrightarrow> evidence_readable e"
  by (auto simp: parseEdgeDerivedEvidence_def wire_iffs evidence_readable_def Let_def dest!: evidence_read split: option.split_asm)

lemma bundle_records_read:
  assumes "parse_candidates P edge r = Inr cs" "parse_evidence_items P edge cs' r = Inr es"
  shows "length cs \<le> 3" "length es \<le> 12" "list_all candidate_readable cs" "list_all evidence_readable es"
proof -
  have "length cs \<le> 3 \<and> list_all candidate_readable cs"
    using assms(1) unfolding parse_candidates_def by (rule wire_items_read) (auto dest: candidate_read edge_candidate_read split: if_split_asm)
  moreover have "length es \<le> 12 \<and> list_all evidence_readable es"
    using assms(2) unfolding parse_evidence_items_def by (rule wire_items_read) (auto dest: evidence_read edge_evidence_read split: if_split_asm)
  ultimately show "length cs \<le> 3" "length es \<le> 12" "list_all candidate_readable cs" "list_all evidence_readable es" by simp_all
qed

section \<open>Selections read back\<close>

definition wire_of :: "selection \<Rightarrow> wire_selection" where
  "wire_of s = \<lparr>ws_selection_id = sl_selection_id s, ws_setup_id = sl_setup_id s, ws_policy_version = j_text (sl_policy_version s),
     ws_revision = sl_revision s, ws_candidate_ids_considered = sl_candidate_ids_considered s, ws_canonical_candidate_id = sl_canonical_candidate_id s,
     ws_canonical_evidence_id = sl_canonical_evidence_id s, ws_canonical_model = strict_of (j_opt (JStr \<circ> model_name) (sl_canonical_model s)),
     ws_reason = j_text (reason_name (sl_reason s)), ws_fidelity = strict_of (j_opt (JStr \<circ> fidelity_name) (sl_fidelity s)),
     ws_action = j_text (action_name (sl_action s)), ws_co_triggered_models = map model_name (sl_co_triggered_models s),
     ws_evaluated_at_epoch = sl_evaluated_at_epoch s\<rparr>"

lemma wire_selection_value_of: "wire_selection_value (wire_of s) = strict_of (selection_json s)"
  by (simp add: wire_selection_value_def wire_of_def selection_json_def j_text_def j_strings_def s_opt_def j_opt_def comp_def split: option.split)

lemma js_set_add_map: "inj f \<Longrightarrow> js_set_add (map f s) (f x) = map f (js_set_add s x)"
  by (auto simp: js_set_add_def inj_def)

lemma js_set_map: "inj f \<Longrightarrow> js_set (map f xs) = map f (js_set xs)"
proof -
  assume f: "inj f"
  have "foldl js_set_add (map f s) (map f xs) = map f (foldl js_set_add s xs)" for s
    by (induction xs arbitrary: s) (simp_all add: js_set_add_map[OF f])
  from this[of "[]"] show ?thesis by (simp add: js_set_def)
qed

lemma js_sort_keyed: "js_sort cmp (map f xs) = map f (js_sort (\<lambda>a b. cmp (f a) (f b)) xs)"
  by (rule js_sort_map) simp

lemma models_sorted: "js_sort compare_units (js_set (map model_name ms)) = map model_name (sort_models (js_set ms))"
  by (simp add: js_set_map inj_def js_sort_keyed sort_models_def)

lemma name_texts: "j_text a = j_text b \<longleftrightarrow> a = b"
  by (simp add: j_text_def units_of_inject)

lemma reason_text: "enum_of reason_name REASONS (Some (SStr (units_of (reason_name r)))) = Some r"
proof -
  have "v3_enum reason_name REASONS (Some (strict_of (JStr (reason_name r)))) = Inr r"
  proof (rule enum_back)
    show "r \<in> set REASONS" by (cases r) (simp_all add: REASONS_def)
    show "inj_on reason_name (set REASONS)" by (simp add: REASONS_def)
  qed
  thus ?thesis by (simp add: v3_enum_def)
qed

lemma reason_name_inject: "reason_name a = reason_name b \<longleftrightarrow> a = b"
  by (metis option.inject reason_text)

lemma shape_back:
  assumes "validateSelectionShapeV3 s = None"
  shows "wire_shape_ok (wire_of s)"
proof -
  have model: "strict_of (j_opt (JStr \<circ> model_name) m) = SNull \<longleftrightarrow> m = None" for m by (cases m) (simp_all add: j_opt_def)
  have fid: "strict_of (j_opt (JStr \<circ> fidelity_name) (Some f)) = j_text (fidelity_name f)" for f by (simp add: j_opt_def j_text_def)
  have null: "strict_of (j_opt (JStr \<circ> fidelity_name) None) = SNull" by (simp add: j_opt_def)
  have empty: "empty_action (j_text (reason_name r)) = map_option (j_text \<circ> action_name) (emptyActions r)" for r
    unfolding empty_action_def by (simp add: j_text_def reason_text del: units_of_simps)
  show ?thesis
    using assms by (auto simp: wire_shape_ok_def wire_of_def validateSelectionShapeV3_def option_case_None_iff model fid null empty models_sorted name_texts
        reason_name_inject simp del: reason_name.simps fidelity_name.simps action_name.simps split: if_split_asm)
qed

lemma selection_back:
  assumes "validateSelectionShapeV3 s = None" "wire_id (sl_setup_id s)" "wire_strings 32 (sl_candidate_ids_considered s)"
    "wire_strings 3 (map model_name (sl_co_triggered_models s))"
  shows "parseSelection (Some (strict_of (selection_json s))) = Inr (wire_of s)"
proof -
  from assms(1) have f: "is_sha256 (sl_selection_id s)" "sl_selection_id s \<noteq> zero_digest" "is_safe_integer (sl_revision s)" "0 \<le> sl_revision s"
    "is_safe_integer (sl_evaluated_at_epoch s)" "0 \<le> sl_evaluated_at_epoch s"
    and ids: "\<And>z. sl_canonical_candidate_id s = Some z \<Longrightarrow> is_sha256 z \<and> z \<noteq> zero_digest"
      "\<And>z. sl_canonical_evidence_id s = Some z \<Longrightarrow> is_sha256 z \<and> z \<noteq> zero_digest"
    by (auto simp: validateSelectionShapeV3_def option_case_None_iff safe_iff digest_None_iff check_option_None_iff)
  have n: "v3_nullable v3_digest (Some (strict_of (j_opt JStr (sl_canonical_candidate_id s)))) = Inr (sl_canonical_candidate_id s)"
    "v3_nullable v3_digest (Some (strict_of (j_opt JStr (sl_canonical_evidence_id s)))) = Inr (sl_canonical_evidence_id s)"
    by (rule nullable_back; simp add: ids digest_back del: strict_of.simps)+
  have req: "v3_require (Some x) = Inr x" for x :: strict_json by simp
  have wire: "\<lparr>ws_selection_id = sl_selection_id s, ws_setup_id = sl_setup_id s, ws_policy_version = strict_of (JStr (sl_policy_version s)),
     ws_revision = sl_revision s, ws_candidate_ids_considered = sl_candidate_ids_considered s, ws_canonical_candidate_id = sl_canonical_candidate_id s,
     ws_canonical_evidence_id = sl_canonical_evidence_id s, ws_canonical_model = strict_of (j_opt (JStr \<circ> model_name) (sl_canonical_model s)),
     ws_reason = strict_of (JStr (reason_name (sl_reason s))), ws_fidelity = strict_of (j_opt (JStr \<circ> fidelity_name) (sl_fidelity s)),
     ws_action = strict_of (JStr (action_name (sl_action s))), ws_co_triggered_models = map model_name (sl_co_triggered_models s),
     ws_evaluated_at_epoch = sl_evaluated_at_epoch s\<rparr> = wire_of s"
    by (simp add: wire_of_def j_text_def)
  show ?thesis
    using f n assms(2-4) shape_back[OF assms(1)] unfolding parseSelection_def selection_json_def
    by (subst record_back) (simp_all add: SELECTION_KEYS_def back_simps req wire Let_def del: strict_of.simps v3_require_Inr)
qed

section \<open>Setups and plans read back\<close>

lemma compare_unit_lists_units: "compare_unit_lists (units_of a) (units_of b) = compare_units a b"
  by (induction a b rule: compare_units.induct) (simp_all add: units_of_def)

lemma record_back_perm:
  assumes "mset (map fst kvs) = mset keys"
  shows "v3_record keys (Some (strict_of (JObj kvs))) = Inr (strict_members kvs)"
proof -
  have sort: "js_sort compare_unit_lists (map units_of ks) = map units_of (js_sort compare_units ks)" for ks
    by (simp add: js_sort_keyed compare_unit_lists_units)
  have "js_sort compare_units (map fst kvs) = js_sort compare_units keys" by (rule units.sort_cong[OF assms]) simp
  moreover have "map fst (strict_members kvs) = map units_of (map fst kvs)" by (simp add: strict_members_def comp_def case_prod_unfold)
  ultimately have "strict_keys (strict_members kvs) keys" by (simp add: strict_keys_def sort del: map_map)
  thus ?thesis by (simp add: strict_members_def)
qed

definition rule_json :: "common_rule \<Rightarrow> json" where
  "rule_json r = JObj [(''rule_id'', JStr (cr_rule_id r)), (''passed'', JBool (cr_passed r))]"

lemma rule_back: "wire_id (cr_rule_id r) \<Longrightarrow> parseCommonRule (Some (strict_of (rule_json r))) = Inr r"
  unfolding parseCommonRule_def rule_json_def by (subst record_back) (simp_all add: back_simps del: strict_of.simps)

lemma rule_read: "parseCommonRule v = Inr r \<Longrightarrow> wire_id (cr_rule_id r)"
  by (auto simp: parseCommonRule_def wire_iffs dest: identifier_read)

lemma items_length: "v3_items lo hi reader v = Inr ys \<Longrightarrow> lo \<le> length ys \<and> length ys \<le> hi"
  by (auto simp: v3_items_def v3_values_def wire_iffs comp_def dest!: all_results_Inr split: option.split_asm strict_json.split_asm)

lemma rules_accepted:
  assumes "length rules = length REQUIRED_COMMON_RULE_IDS_V3" "\<forall>r \<in> set rules. wire_id (cr_rule_id r)"
    "join_strings (map cr_rule_id rules) = join_strings REQUIRED_COMMON_RULE_IDS_V3"
  shows "parseCommonRules (Some (strict_of (JArr (map rule_json rules)))) = Inr rules"
proof -
  have "v3_items (length REQUIRED_COMMON_RULE_IDS_V3) (length REQUIRED_COMMON_RULE_IDS_V3) parseCommonRule (Some (strict_of (JArr (map rule_json rules)))) = Inr rules"
    using assms(1,2) by (intro items_back) (simp_all add: rule_back del: strict_of.simps)
  with assms(3) show ?thesis by (simp add: parseCommonRules_def del: strict_of.simps)
qed

lemma rules_back:
  assumes "parseCommonRules v = Inr rules"
  shows "parseCommonRules (Some (strict_of (JArr (map rule_json rules)))) = Inr rules"
proof -
  from assms have i: "v3_items (length REQUIRED_COMMON_RULE_IDS_V3) (length REQUIRED_COMMON_RULE_IDS_V3) parseCommonRule v = Inr rules"
    and j: "join_strings (map cr_rule_id rules) = join_strings REQUIRED_COMMON_RULE_IDS_V3" by (auto simp: parseCommonRules_def wire_iffs)
  from wire_items_read[OF i, of "\<lambda>r. wire_id (cr_rule_id r)"] rule_read have "\<forall>r \<in> set rules. wire_id (cr_rule_id r)" by (auto simp: list_all_iff)
  with items_length[OF i] j show ?thesis by (intro rules_accepted) simp_all
qed

lemma setup_eta:
  "\<lparr>su_setup_id = su_setup_id s, su_direction = su_direction s, su_zone_top_ticks = su_zone_top_ticks s, su_zone_bottom_ticks = su_zone_bottom_ticks s,
    su_zone_engaged_epoch = su_zone_engaged_epoch s, su_invalidated_before_entry = su_invalidated_before_entry s, su_common_fidelity = su_common_fidelity s,
    su_liquidity_cohort = su_liquidity_cohort s, su_one_candle_enabled = su_one_candle_enabled s\<rparr> = s"
  by (cases s) simp

lemma setup_accepted:
  assumes "wire_id (su_setup_id s)" "is_safe_integer (su_zone_top_ticks s)" "is_safe_integer (su_zone_bottom_ticks s)"
    "epoch_opt (su_zone_engaged_epoch s)" "\<not> su_zone_top_ticks s \<le> su_zone_bottom_ticks s" "validateLiquidityCohortV3 s = None"
    "parseCommonRules (Some (strict_of (JArr (map rule_json rules)))) = Inr rules" "validateCommonRules V31 s rules unreviewed = None"
  shows "parseSetup (Some (strict_of (setup_json s rules))) unreviewed V31 = Inr (s, rules)"
proof -
  have rj: "map (\<lambda>r. JObj [(''rule_id'', JStr (cr_rule_id r)), (''passed'', JBool (cr_passed r))]) rules = map rule_json rules" by (simp add: rule_json_def)
  show ?thesis
    using assms unfolding parseSetup_def setup_json_def rj
    by (subst record_back_perm) (simp_all add: SETUP_KEYS_V31_def SETUP_KEYS_V30_def back_simps opts_back enums_back setup_eta Let_def del: strict_of.simps)
qed

lemma setup_back:
  assumes "parseSetup v unreviewed version = Inr (s, rules)"
  shows "parseSetup (Some (strict_of (setup_json s rules))) unreviewed V31 = Inr (s, rules)" and "wire_id (su_setup_id s)"
proof -
  from assms obtain w where f: "wire_id (su_setup_id s)" "is_safe_integer (su_zone_top_ticks s)" "is_safe_integer (su_zone_bottom_ticks s)"
    "epoch_opt (su_zone_engaged_epoch s)" "\<not> su_zone_top_ticks s \<le> su_zone_bottom_ticks s" "validateLiquidityCohortV3 s = None"
    and r: "parseCommonRules w = Inr rules" and c: "validateCommonRules version s rules unreviewed = None"
    unfolding parseSetup_def and_then_Inr_iff Let_def
    by (auto simp: wire_iffs dest!: identifier_read integer_read opts_read)
  from c have "validateCommonRules V31 s rules unreviewed = None" by (auto simp: validateCommonRules_def option_case_None_iff)
  with f rules_back[OF r] show "parseSetup (Some (strict_of (setup_json s rules))) unreviewed V31 = Inr (s, rules)" by (rule setup_accepted)
  show "wire_id (su_setup_id s)" by (rule f(1))
qed

lemma plan_accepted:
  assumes "is_safe_integer (pl_entry_ticks p)" "is_safe_integer (pl_stop_ticks p)" "is_safe_integer (pl_target_ticks p)" "plan_ordered p"
  shows "parseTradePlan (Some (strict_of (plan_json p))) (pl_direction p) = Inr p"
proof -
  have eta: "\<lparr>pl_direction = pl_direction p, pl_entry_ticks = pl_entry_ticks p, pl_stop_ticks = pl_stop_ticks p, pl_target_ticks = pl_target_ticks p\<rparr> = p"
    by (cases p) simp
  show ?thesis
    using assms unfolding parseTradePlan_def plan_json_def
    by (subst record_back) (simp_all add: TRADE_PLAN_KEYS_def back_simps text_is_def eta Let_def del: strict_of.simps, simp)
qed

lemma plan_back:
  assumes "parseTradePlan v dir = Inr p"
  shows "parseTradePlan (Some (strict_of (plan_json p))) dir = Inr p"
proof -
  from assms have "is_safe_integer (pl_entry_ticks p)" "is_safe_integer (pl_stop_ticks p)" "is_safe_integer (pl_target_ticks p)" "plan_ordered p" "pl_direction p = dir"
    unfolding parseTradePlan_def and_then_Inr_iff Let_def by (auto dest!: integer_read)
  with plan_accepted[of p] show ?thesis by simp
qed

section \<open>Bundles read back\<close>

lemma hex_no_marker: "hex_string s \<Longrightarrow> \<not> isEdgeDerivedMarker (Some (strict_of (JStr s)))"
proof
  assume h: "hex_string s" and "isEdgeDerivedMarker (Some (strict_of (JStr s)))"
  hence "take 12 (units_of s) = units_of EDGE_DERIVED_DIGEST" by (simp add: isEdgeDerivedMarker_def)
  moreover have "units_of EDGE_DERIVED_DIGEST = 69 # units_of ''DGE_DERIVED''" by (simp add: EDGE_DERIVED_DIGEST_def code_unit_def)
  ultimately have "69 \<in> set (take 12 (units_of s))" by (simp del: units_of_simps)
  hence "69 \<in> set (units_of s)" by (rule in_set_takeD)
  thus False using h by (auto simp: units_of_def hex_string_def list_all_iff hex_chars_units)
qed

lemma strict_of_object: "strict_of (JObj kvs) = SObj (strict_members kvs)"
  by (simp add: strict_members_def)

lemma object_members_back: "object_members (Some (strict_of (JObj kvs))) = strict_members kvs"
  by (simp add: object_members_def strict_of_object del: strict_of.simps)

lemma array_items_back: "array_items (Some (strict_of (JArr vs))) = map strict_of vs"
  by (simp add: array_items_def)

lemma null_no_marker: "\<not> isEdgeDerivedMarker (Some (strict_of JNull))"
  by (simp add: isEdgeDerivedMarker_def)

definition bundle_members :: "entry_bundle \<Rightarrow> (string \<times> json) list" where
  "bundle_members b =
     [(''setup'', setup_json (eb_setup b) (eb_commonRuleResults b)), (''candidates'', JArr (map candidate_json (eb_candidates b))),
      (''evidence'', JArr (map evidence_json (eb_evidence b))), (''selection_proposal'', selection_json (eb_selectionProposal b)),
      (''trade_plan'', plan_json (eb_tradePlan b))]"

lemma canonical_not_derived:
  assumes "\<And>c. c \<in> set (eb_candidates b) \<Longrightarrow> hex_string (cd_candidate_id c)"
    "\<And>e. e \<in> set (eb_evidence b) \<Longrightarrow> hex_string (ev_candidate_id e) \<and> hex_string (ev_evidence_id e) \<and> hex_string (ev_payload_sha256 e)"
    "hex_string (sl_selection_id (eb_selectionProposal b))" "\<And>i. sl_canonical_candidate_id (eb_selectionProposal b) = Some i \<Longrightarrow> hex_string i"
    "\<And>i. sl_canonical_evidence_id (eb_selectionProposal b) = Some i \<Longrightarrow> hex_string i"
    "\<And>i. i \<in> set (sl_candidate_ids_considered (eb_selectionProposal b)) \<Longrightarrow> hex_string i"
  shows "\<not> bundleUsesEdgeDerivedIdentity (strict_members (bundle_members b))"
proof -
  have opt: "\<not> isEdgeDerivedMarker (Some (strict_of (j_opt JStr x)))" if "\<And>i. x = Some i \<Longrightarrow> hex_string i" for x
    using that by (cases x) (simp_all add: j_opt_def hex_no_marker null_no_marker del: strict_of.simps)
  show ?thesis
    using assms(1-3,6) opt[of "sl_canonical_candidate_id (eb_selectionProposal b)", OF assms(4)] opt[of "sl_canonical_evidence_id (eb_selectionProposal b)", OF assms(5)]
    by (auto simp: bundleUsesEdgeDerivedIdentity_def bundle_members_def array_items_back list_ex_iff candidate_json_def evidence_json_def selection_json_def
        object_members_back j_strings_def Let_def hex_no_marker simp del: strict_of.simps)
qed

lemma js_sort_idem:
  assumes "collates_hex P" "\<And>x. x \<in> set xs \<Longrightarrow> hex_string (key x)" "inj_on key (set xs)"
  shows "js_sort (\<lambda>a b. localeCompare P (key a) (key b)) (js_sort (\<lambda>a b. localeCompare P (key a) (key b)) xs) = js_sort (\<lambda>a b. localeCompare P (key a) (key b)) xs"
  by (rule strict_comparator.sort_sorted[OF locale_strict_comparator[OF assms]])
    (simp_all add: comparator.sorted_sort[OF strict_comparator.axioms(1)[OF locale_strict_comparator[OF assms]]])

lemma three_models: "distinct (ms :: entry_model list) \<Longrightarrow> length ms \<le> 3"
proof -
  assume "distinct ms"
  moreover have "set ms \<subseteq> {BOC, DIR_CLOSE, HTF_FLIP}" by (auto intro: entry_model.exhaust)
  hence "card (set ms) \<le> 3" by (metis (mono_tags) card_mono card_3_iff entry_model.distinct finite.emptyI finite.insertI)
  ultimately show ?thesis by (simp add: distinct_card)
qed

lemma model_ids: "distinct ms \<Longrightarrow> wire_strings 3 (map model_name ms)"
proof -
  assume d: "distinct ms"
  have "wire_id (model_name m)" for m by (cases m) (simp_all add: wire_id_def printable_id_char_def code_unit_def)
  with d three_models[OF d] show ?thesis by (simp add: wire_strings_def list_all_iff distinct_map inj_on_def)
qed

text \<open>What every selection of the arbitrator has.\<close>

lemma arbitrated_selection:
  assumes "arbitrateEntryCandidatesV3 P i cs es dead r t None coh = Inr s"
  shows "sl_setup_id s = i" "sl_revision s = r" "sl_evaluated_at_epoch s = t" "wire_strings 3 (map model_name (sl_co_triggered_models s))"
    "set (sl_candidate_ids_considered s) = cd_candidate_id ` set cs" "distinct (sl_candidate_ids_considered s)"
proof -
  from assms have s: "s = decide P i dead r t coh (candidates_by_id cs) (eligible_list P cs es)" and inj: "inj_on cd_candidate_id (set cs)"
    by (simp_all add: arbitrate_Inr_iff records_ok_def)
  obtain can reason act cos where f: "s = make_selection P i r t (js_sort compare_units (map_keys (candidates_by_id cs))) can reason act cos" "co_triggers_ok reason cos"
    using decide_form[of P i dead r t coh "candidates_by_id cs" "eligible_list P cs es"] unfolding s by blast
  have "distinct (sort_models (js_set cos))" by (simp add: sort_models_def)
  with f(2) have "distinct cos" by (simp add: co_triggers_ok_def)
  with f(1) show "wire_strings 3 (map model_name (sl_co_triggered_models s))" by (simp add: model_ids)
  show "sl_setup_id s = i" "sl_revision s = r" "sl_evaluated_at_epoch s = t" by (simp_all add: f(1))
  show "set (sl_candidate_ids_considered s) = cd_candidate_id ` set cs" "distinct (sl_candidate_ids_considered s)"
    using candidate_keys[OF inj] by (simp_all add: f(1))
qed

text \<open>The bundles the reader accepts, as far as reading them again depends on it.\<close>

lemma accepted_records:
  assumes "validateEntryEvaluationV3 v = None"
  shows "\<And>c. c \<in> set (el_candidates v) \<Longrightarrow> validateEntryCandidateV3 c = None" "\<And>e. e \<in> set (el_evidence v) \<Longrightarrow> validateEntryEvidenceV3 e = None"
    "validateSelectionShapeV3 (el_selection v) = None" "distinct (map cd_candidate_id (el_candidates v))" "distinct (map ev_evidence_id (el_evidence v))"
  using assms by (simp_all add: validateEntryEvaluationV3_def Let_def option_case_None_iff first_error_map_None_iff)

lemma candidate_hex: "validateEntryCandidateV3 c = None \<Longrightarrow> is_sha256 (cd_candidate_id c)"
  by (simp add: validateEntryCandidateV3_def option_case_None_iff digest_None_iff)

lemma evidence_hex:
  "validateEntryEvidenceV3 e = None \<Longrightarrow> is_sha256 (ev_evidence_id e) \<and> is_sha256 (ev_candidate_id e) \<and> is_sha256 (ev_payload_sha256 e)"
  by (simp add: validateEntryEvidenceV3_def option_case_None_iff digest_None_iff)

lemma selection_hex:
  "validateSelectionShapeV3 s = None \<Longrightarrow> is_sha256 (sl_selection_id s) \<and> (\<forall>i. sl_canonical_candidate_id s = Some i \<longrightarrow> is_sha256 i) \<and>
    (\<forall>i. sl_canonical_evidence_id s = Some i \<longrightarrow> is_sha256 i)"
  by (auto simp: validateSelectionShapeV3_def option_case_None_iff digest_None_iff check_option_None_iff)

lemma bundle_eta:
  assumes "eb_candidates b = el_candidates (eb_evaluation b)" "eb_evidence b = el_evidence (eb_evaluation b)"
  shows "\<lparr>eb_setup = eb_setup b, eb_commonRuleResults = eb_commonRuleResults b, eb_candidates = el_candidates (eb_evaluation b),
    eb_evidence = el_evidence (eb_evaluation b), eb_selectionProposal = eb_selectionProposal b, eb_evaluation = eb_evaluation b, eb_tradePlan = eb_tradePlan b\<rparr> = b"
  using assms by (cases b) simp

lemma canonical_members_back:
  assumes "parseSetup (Some (strict_of (setup_json (eb_setup b) (eb_commonRuleResults b)))) False V31 = Inr (eb_setup b, eb_commonRuleResults b)"
    "\<not> bundleUsesEdgeDerivedIdentity (strict_members (bundle_members b))"
    "v3_items 0 3 parseCandidate (Some (strict_of (JArr (map candidate_json (eb_candidates b))))) = Inr (eb_candidates b)"
    "v3_items 0 12 parseEvidence (Some (strict_of (JArr (map evidence_json (eb_evidence b))))) = Inr (eb_evidence b)"
    "\<not> bundle_conflict False (eb_setup b) (eb_candidates b) (eb_evidence b)"
    "parseSelection (Some (strict_of (selection_json (eb_selectionProposal b)))) = Inr (wire_of (eb_selectionProposal b))"
    "sl_setup_id (eb_selectionProposal b) = su_setup_id (eb_setup b)"
    "arbitrateEntryCandidatesV3 P (su_setup_id (eb_setup b)) (eb_candidates b) (eb_evidence b) (su_invalidated_before_entry (eb_setup b))
       (sl_revision (eb_selectionProposal b)) (sl_evaluated_at_epoch (eb_selectionProposal b)) None (su_liquidity_cohort (eb_setup b)) = Inr (eb_selectionProposal b)"
    "su_liquidity_cohort (eb_setup b) = TWO_PLUS_CANDLES" "sorted_evaluation P (eb_candidates b) (eb_evidence b) (eb_selectionProposal b) = eb_evaluation b"
    "validateEntryEvaluationV3 (eb_evaluation b) = None" "verifyCanonicalDigests P (eb_evaluation b) = None" "\<not> paper_setup_unfit (eb_setup b) (eb_evaluation b)"
    "parseTradePlan (Some (strict_of (plan_json (eb_tradePlan b)))) (su_direction (eb_setup b)) = Inr (eb_tradePlan b)"
    "eb_candidates b = el_candidates (eb_evaluation b)" "eb_evidence b = el_evidence (eb_evaluation b)"
  shows "parseBundle P (Some (strict_of (bundle_json b))) False V31 = Inr b"
proof -
  have r: "v3_record SETUP_BUNDLE_KEYS (Some (strict_of (bundle_json b))) = Inr (strict_members (bundle_members b))"
    unfolding bundle_json_def bundle_members_def[symmetric] by (rule record_back) (simp add: bundle_members_def SETUP_BUNDLE_KEYS_def)
  have f: "field_of (strict_members (bundle_members b)) ''setup'' = Some (strict_of (setup_json (eb_setup b) (eb_commonRuleResults b)))"
    "field_of (strict_members (bundle_members b)) ''candidates'' = Some (strict_of (JArr (map candidate_json (eb_candidates b))))"
    "field_of (strict_members (bundle_members b)) ''evidence'' = Some (strict_of (JArr (map evidence_json (eb_evidence b))))"
    "field_of (strict_members (bundle_members b)) ''selection_proposal'' = Some (strict_of (selection_json (eb_selectionProposal b)))"
    "field_of (strict_members (bundle_members b)) ''trade_plan'' = Some (strict_of (plan_json (eb_tradePlan b)))"
    by (simp_all add: bundle_members_def del: strict_of.simps)
  obtain producer where producer: "v3_object (Some (strict_of (selection_json (eb_selectionProposal b)))) = Inr producer"
    by (simp add: selection_json_def v3_object_def)
  have ws: "ws_setup_id (wire_of s) = sl_setup_id s" "ws_revision (wire_of s) = sl_revision s" "ws_evaluated_at_epoch (wire_of s) = sl_evaluated_at_epoch s" for s
    by (simp_all add: wire_of_def)
  show ?thesis
    unfolding parseBundle_def r and_then_simps f Let_def assms(1) prod.case
    by (simp add: assms(2-7,9-14) assms(8)[unfolded assms(9)] bundle_eta[OF assms(15,16)] parse_candidates_def parse_evidence_items_def read_proposal_def f producer ws wire_selection_value_of fail_if_def Let_def
        del: strict_of.simps v3_object_Inr field_of_strict)
qed

lemma considered_strings:
  assumes "arbitrateEntryCandidatesV3 P i cs es dead r t None coh = Inr s" "length cs \<le> 3" "\<And>c. c \<in> set cs \<Longrightarrow> is_sha256 (cd_candidate_id c)"
  shows "wire_strings 32 (sl_candidate_ids_considered s)"
proof -
  note sel = arbitrated_selection[OF assms(1)]
  have "length (sl_candidate_ids_considered s) \<le> 3"
    using sel(5,6) assms(2) by (metis card_image_le card_length distinct_card le_trans List.finite_set)
  with sel(5,6) assms(3) digest_id show ?thesis by (auto simp: wire_strings_def list_all_iff)
qed


end
