(* ===== verification/Entry_Wire_Pipeline.thy ===== *)
theory Entry_Wire_Pipeline
  imports Entry_Wire_Round_Trip
begin

text \<open>
  The evaluator and the wire reader agree. A bundle built from an evaluation of the edge itself, with
  its candidates, evidence and selection, passes the reader, except where the reader is stricter than
  the matcher: next to an entry eligible for paper trading it tolerates no evidence, not even blocked
  evidence, that was triggered before the zone was engaged.
\<close>

section \<open>Matched records are readable\<close>

definition short_rules :: "string list \<Rightarrow> bool" where
  "short_rules xs \<longleftrightarrow> length xs \<le> 1 \<and> list_all wire_id xs"

lemma short_rules_simps: "short_rules []" "short_rules [i] \<longleftrightarrow> wire_id i"
  by (simp_all add: short_rules_def)

lemma short_rules_wire: "short_rules xs \<Longrightarrow> wire_strings 32 xs"
  by (cases xs) (auto simp: short_rules_def wire_strings_def)

lemma rule_ids:
  "wire_id ''COMMON_SETUP_NOT_EXACT''" "wire_id ''SETUP_INVALIDATED''" "wire_id ''ENTRY_BEFORE_ZONE_ENGAGEMENT''" "wire_id ''REALTIME_EVIDENCE_NOT_LIVE''"
  "wire_id ''EVIDENCE_REPLAYABILITY_MISMATCH''" "wire_id ''MODEL_EVIDENCE_NOT_EXACT''" "wire_id ''BOC_WRONG_DIRECTION''" "wire_id ''BOC_DISCRETIONARY_CONTEXT_UNQUANTIFIED''"
  "wire_id ''ENTRY_BOC_HTF_TIMED''" "wire_id ''DIR_CLOSE_NOT_CONFIRMED_5M''" "wire_id ''ENTRY_DIR_CLOSE''" "wire_id ''ENTRY_HTF_FLIP''"
  "wire_id ''HTF_FLIP_COVERAGE_GAP''" "wire_id ''HTF_FLIP_ORDER_UNPROVEN''" "wire_id ''HTF_FLIP_DESTINATION_BEFORE_CONTACT''" "wire_id ''HTF_FLIP_AMBIGUOUS''"
  "wire_id ''HTF_FLIP_ANCHOR_AFTER_CONTACT''" "wire_id ''HTF_FLIP_TRIGGER_OUTSIDE_CONTEXT''" "wire_id ''HTF_FLIP_CONTACT_OUTSIDE_ZONE''" "wire_id ''HTF_FLIP_CONTACT_ALREADY_RECROSSED''"
  "wire_id ''HTF_FLIP_OPEN_NOT_RECROSSED''" "wire_id ''HTF_FLIP_CONTEXT_MISALIGNED''" "wire_id ''HTF_FLIP_INCOMPLETE_LIFECYCLE''"
  by (simp_all add: wire_id_def printable_id_char_def code_unit_def)

lemma failure_rules:
  "short_rules (commonFailure r t)" "short_rules (realtimeFailure pl rp rt)" "short_rules (flipLifecycleFailure r p)"
  by (simp_all add: short_rules_simps rule_ids commonFailure_def realtimeFailure_def flipLifecycleFailure_def split: option.split)

lemma boc_rules: "boc_outcome r p = (st, fid, passed, failed) \<Longrightarrow> short_rules passed \<and> short_rules failed"
  by (auto simp: boc_outcome_def Let_def short_rules_simps rule_ids failure_rules split: if_splits)

lemma close_rules: "close_outcome r b = (st, passed, failed) \<Longrightarrow> short_rules passed \<and> short_rules failed"
  by (auto simp: close_outcome_def Let_def short_rules_simps rule_ids failure_rules split: if_splits)

lemma flip_rules: "flip_outcome r p = (st, passed, failed) \<Longrightarrow> short_rules passed \<and> short_rules failed"
  by (auto simp: flip_outcome_def Let_def short_rules_simps rule_ids failure_rules split: if_splits)

lemma claims_wire: "wire_strings 32 (expectedSourceClaimsV3 c)"
  by (cases "cd_model c")
    (simp_all add: expectedSourceClaimsV3_def wire_strings_def wire_id_def printable_id_char_def code_unit_def SOURCE_CLAIMS_BOC_HTF_TIMED_def
      SOURCE_CLAIMS_BOC_DISCRETIONARY_5M_def SOURCE_CLAIMS_DIR_CLOSE_def SOURCE_CLAIMS_HTF_FLIP_def)

lemma ambiguities_wire: "distinct cs \<Longrightarrow> wire_strings 3 (map ambiguity_name cs)"
proof -
  assume d: "distinct cs"
  have "set cs \<subseteq> set AMBIGUITIES" by (auto simp: AMBIGUITIES_def intro: ambiguity_code.exhaust)
  hence "card (set cs) \<le> card (set AMBIGUITIES)" by (intro card_mono) simp_all
  hence "length cs \<le> 3" using d by (simp add: distinct_card AMBIGUITIES_def)
  moreover have "wire_id (ambiguity_name c)" for c by (cases c) (simp_all add: wire_id_def printable_id_char_def code_unit_def)
  ultimately show ?thesis using d by (simp add: wire_strings_def list_all_iff)
qed

lemma contexts_wire: "distinct ms \<Longrightarrow> list_all supported_context ms \<Longrightarrow> length ms \<le> 3 \<and> list_all (\<lambda>m. is_safe_integer m \<and> 15 \<le> m) ms"
proof -
  assume d: "distinct ms" and s: "list_all supported_context ms"
  from s have "set ms \<subseteq> {15, 30, 60}" by (auto simp: list_all_iff supported_context_def)
  hence "card (set ms) \<le> card {15, 30, 60 :: int}" by (intro card_mono) simp_all
  with d s show ?thesis by (auto simp: distinct_card list_all_iff supported_context_def is_safe_integer_def MAX_SAFE_INTEGER_def)
qed

text \<open>What the reader needs of evidence beyond what the evidence validator checks.\<close>

definition match_fields_ok :: "candidate \<Rightarrow> evidence \<Rightarrow> bool" where
  "match_fields_ok c e \<longleftrightarrow> signed_opt (ev_observed_trigger_ticks e) \<and> signed_opt (ev_htf_open_ticks e) \<and>
     short_rules (ev_passed_rule_ids e) \<and> short_rules (ev_failed_rule_ids e) \<and>
     ev_source_claim_ids e = expectedSourceClaimsV3 c \<and> cd_source_claim_ids c = expectedSourceClaimsV3 c"

lemma signed_opt_simps: "signed_opt None" "signed_opt (Some n) \<longleftrightarrow> is_safe_integer n"
  by (simp_all add: signed_opt_def opt_all_def)

lemma boc_fields: "validateBocProofV3 p obs = None \<Longrightarrow> match_fields_ok (fst (matchBoc P r p)) (snd (matchBoc P r p))"
  by (cases "boc_outcome r p")
    (auto simp: match_fields_ok_def matchBoc_def Let_def signed_opt_simps expectedSourceClaimsV3_def validateBocProofV3_def validator_iffs dest: boc_rules)

lemma close_fields: "candle_ok b \<Longrightarrow> match_fields_ok (fst (matchClose P r b)) (snd (matchClose P r b))"
  by (cases "close_outcome r b")
    (auto simp: match_fields_ok_def matchClose_def Let_def signed_opt_simps expectedSourceClaimsV3_def candle_ok_def dest: close_rules)

lemma flip_fields: "validateFlipProofV3 p obs = None \<Longrightarrow> match_fields_ok (fst (matchFlip P r p)) (snd (matchFlip P r p))"
  by (cases "flip_outcome r p")
    (auto simp: match_fields_ok_def matchFlip_def Let_def signed_opt_simps expectedSourceClaimsV3_def validateFlipProofV3_def validator_iffs dest: flip_rules)

lemma matched_fields:
  assumes "validateEntryArbitrationInputV3 i = None" "matched_pairs P (match_request_of i) = Inr ps" "p \<in> set ps"
  shows "match_fields_ok (fst p) (snd p)"
  using assms(2,3)
proof (cases rule: matched_pairs_cases)
  case (boc q)
  thus ?thesis using accepted_input(14)[OF assms(1)] boc_fields by simp
next
  case (close b)
  hence "candle_ok b" using accepted_input(13)[OF assms(1), of b] by (simp add: validateOrderedCandleV3_None_iff)
  with close show ?thesis by (simp add: close_fields)
next
  case (flip q)
  thus ?thesis using accepted_input(15)[OF assms(1)] flip_fields by simp
qed

lemma safe_between: "is_safe_integer a \<Longrightarrow> is_safe_integer b \<Longrightarrow> a \<le> t \<Longrightarrow> t \<le> b \<Longrightarrow> is_safe_integer t"
  by (simp add: is_safe_integer_def)

lemma reference_values_ok:
  "validateReferenceValues [a, b, c, d, e] = None \<Longrightarrow> epoch_opt a \<and> signed_opt b \<and> signed_opt c \<and> signed_opt d \<and> signed_opt e"
  by (cases a; cases b; cases c; cases d; cases e) (auto simp: epoch_opt_def opt_all_def signed_opt_simps validator_iffs)

lemma matched_evidence_readable:
  assumes v: "validateEntryEvidenceV3 e = None" and m: "match_fields_ok c e"
  shows "evidence_readable e"
proof -
  from v have num: "is_safe_integer (ev_trigger_sequence e)" "0 \<le> ev_trigger_sequence e" "is_safe_integer (ev_coverage_start_epoch e)"
    "0 \<le> ev_coverage_start_epoch e" "is_safe_integer (ev_coverage_end_epoch e)" "0 \<le> ev_coverage_end_epoch e" "is_safe_integer (ev_observed_at_epoch e)"
    "0 \<le> ev_observed_at_epoch e"
    and trig: "\<And>t. ev_observed_trigger_epoch e = Some t \<Longrightarrow> ev_coverage_start_epoch e \<le> t \<and> t \<le> ev_coverage_end_epoch e"
    and ctx: "distinct (ev_htf_context_minutes e)" "list_all supported_context (ev_htf_context_minutes e)" and amb: "distinct (ev_ambiguity_codes e)"
    by (simp_all add: validateEntryEvidenceV3_def validator_iffs not_less not_le list_ex_iff list_all_iff)
  from v have ref: "if ev_boc_tier e = None then list_all (\<lambda>x. x = None) (evidence_reference_values e) else validateReferenceValues (evidence_reference_values e) = None"
    and lifecycle: "validateFlipFields e = None"
    by (auto simp: validateEntryEvidenceV3_def validator_iffs list_ex_iff list_all_iff)
  have refs: "epoch_opt (ev_reference_candle_open_epoch e) \<and> signed_opt (ev_reference_candle_open_ticks e) \<and> signed_opt (ev_reference_candle_high_ticks e) \<and>
      signed_opt (ev_reference_candle_low_ticks e) \<and> signed_opt (ev_reference_candle_close_ticks e)"
    using ref reference_values_ok by (auto simp: evidence_reference_values_def signed_opt_simps epoch_opt_def opt_all_def split: if_split_asm)
  have candles: "candle_opt (ev_contact_candle e) \<and> candle_opt (ev_recross_candle e)"
    using lifecycle by (auto simp: validateFlipFields_def flip_fields_present_def candle_opt_def opt_all_def validator_iffs split: if_split_asm option.split_asm)
  have "epoch_opt (ev_observed_trigger_epoch e)"
    using trig num by (auto simp: epoch_opt_def opt_all_def intro: safe_between dest: order_trans)
  with num refs candles ambiguities_wire[OF amb] contexts_wire[OF ctx] m short_rules_wire claims_wire show ?thesis
    by (simp add: evidence_readable_def match_fields_ok_def)
qed

section \<open>Computed bundles\<close>

definition computed_bundle :: "arbitration_input \<Rightarrow> common_rule list \<Rightarrow> evaluation \<Rightarrow> trade_plan \<Rightarrow> entry_bundle" where
  "computed_bundle i rules v plan = \<lparr>eb_setup = input_setup i, eb_commonRuleResults = rules, eb_candidates = el_candidates v, eb_evidence = el_evidence v,
     eb_selectionProposal = el_selection v, eb_evaluation = v, eb_tradePlan = plan\<rparr>"

definition rules_passed :: "common_rule list \<Rightarrow> bool" where
  "rules_passed rules \<longleftrightarrow> map cr_rule_id rules = REQUIRED_COMMON_RULE_IDS_V3 \<and> list_all cr_passed rules"

definition plan_sendable :: "trade_plan \<Rightarrow> direction \<Rightarrow> bool" where
  "plan_sendable p dir \<longleftrightarrow> plan_ordered p \<and> pl_direction p = dir \<and> is_safe_integer (pl_entry_ticks p) \<and> is_safe_integer (pl_stop_ticks p) \<and>
     is_safe_integer (pl_target_ticks p)"

lemma required_ids: "i \<in> set REQUIRED_COMMON_RULE_IDS_V3 \<Longrightarrow> wire_id i"
  by (auto simp: REQUIRED_COMMON_RULE_IDS_V3_def wire_id_def printable_id_char_def code_unit_def)

lemma passed_rules_read: "rules_passed rules \<Longrightarrow> parseCommonRules (Some (strict_of (JArr (map rule_json rules)))) = Inr rules"
proof -
  assume r: "rules_passed rules"
  hence ids: "map cr_rule_id rules = REQUIRED_COMMON_RULE_IDS_V3" by (simp add: rules_passed_def)
  hence "cr_rule_id x \<in> set REQUIRED_COMMON_RULE_IDS_V3" if "x \<in> set rules" for x using that by (metis image_eqI list.set_map)
  moreover have "length rules = length REQUIRED_COMMON_RULE_IDS_V3" using ids by (metis length_map)
  ultimately show ?thesis using ids by (intro rules_accepted) (simp_all add: required_ids)
qed

lemma passed_rules_valid: "rules_passed rules \<Longrightarrow> validateCommonRules V31 s rules unreviewed = None"
proof -
  assume r: "rules_passed rules"
  have "''LIQ_ONE_CANDLE_EXCEPTION'' \<in> set (map cr_rule_id rules)"
    using r by (simp add: rules_passed_def REQUIRED_COMMON_RULE_IDS_V3_def)
  then obtain x where "x \<in> set rules" "cr_rule_id x = ''LIQ_ONE_CANDLE_EXCEPTION''" by auto
  hence "(''LIQ_ONE_CANDLE_EXCEPTION'', cr_passed x) \<in> set (map (\<lambda>r. (cr_rule_id r, cr_passed r)) rules)" by force
  then obtain b where b: "map_of (map (\<lambda>r. (cr_rule_id r, cr_passed r)) rules) ''LIQ_ONE_CANDLE_EXCEPTION'' = Some b" by (blast dest: weak_map_of_SomeI)
  moreover from map_of_SomeD[OF b] r have b by (auto simp: rules_passed_def list_all_iff)
  ultimately have "rule_passed rules ''LIQ_ONE_CANDLE_EXCEPTION''" by (simp add: rule_passed_def)
  with r show ?thesis by (auto simp: validateCommonRules_def rules_passed_def list_all_iff list_ex_iff option_case_None_iff)
qed

lemma input_setup_accepted:
  assumes "validateEntryArbitrationInputV3 i = None" "wire_id (ai_setup_id i)" "rules_passed rules"
  shows "parseSetup (Some (strict_of (setup_json (input_setup i) rules))) unreviewed V31 = Inr (input_setup i, rules)"
proof (rule setup_accepted)
  show "epoch_opt (su_zone_engaged_epoch (input_setup i))"
    using assms(1) by (simp add: validateEntryArbitrationInputV3_def input_setup_def epoch_opt_def opt_all_def validator_iffs)
qed (use assms(1,2) passed_rules_read[OF assms(3)] passed_rules_valid[OF assms(3)] in
  \<open>simp_all add: validateEntryArbitrationInputV3_def input_setup_def validator_iffs\<close>)

text \<open>An exact matched pair satisfied the setup-level rules.\<close>

lemma exact_pair_engaged:
  assumes "matched_pairs P (match_request_of i) = Inr ps" "p \<in> set ps" "ev_fidelity (snd p) = EXACT"
  shows "ai_common_fidelity i = EXACT \<and> \<not> ai_setup_invalidated i \<and> ai_zone_engaged_epoch i \<noteq> None"
proof -
  have c: "ai_common_fidelity i = EXACT \<and> \<not> ai_setup_invalidated i \<and> ai_zone_engaged_epoch i \<noteq> None" if "commonFailure (match_request_of i) t = []" for t
    using that by (simp add: commonFailure_def match_request_of_def input_setup_def split: if_split_asm option.split_asm)
  show ?thesis
    using assms(1,2)
  proof (cases rule: matched_pairs_cases)
    case (boc q)
    with assms(3) c show ?thesis
      by (cases "boc_outcome (match_request_of i) q") (auto simp: matchBoc_def Let_def dest!: boc_outcome_cases)
  next
    case (close b)
    with assms(3) c show ?thesis
      by (cases "close_outcome (match_request_of i) b") (auto simp: matchClose_def Let_def dest!: close_outcome_cases split: if_split_asm)
  next
    case (flip q)
    with assms(3) c show ?thesis
      by (cases "flip_outcome (match_request_of i) q") (auto simp: matchFlip_def Let_def dest!: flip_outcome_cases split: if_split_asm)
  qed
qed

text \<open>The parts of a completed evaluation.\<close>

lemma evaluation_sorted:
  assumes "evaluateWithoutOpenedSeed P i = Inr v" "collates_hex P"
  shows "sorted_evaluation P (el_candidates v) (el_evidence v) (el_selection v) = v" "length (el_candidates v) \<le> 3" "length (el_evidence v) \<le> 3"
proof -
  from assms(1) obtain ps where ps: "matched_pairs P (match_request_of i) = Inr ps"
    and v: "el_candidates v = js_sort (\<lambda>a b. localeCompare P (cd_candidate_id a) (cd_candidate_id b)) (map fst ps)"
      "el_evidence v = js_sort (\<lambda>a b. localeCompare P (ev_evidence_id a) (ev_evidence_id b)) (map snd ps)" and ok: "validateEntryEvaluationV3 v = None"
    by (auto simp: evaluateWithoutOpenedSeed_def matchEntryCandidatesV3_def and_then_Inr_iff after_check_Inr_iff Let_def)
  have "length ps \<le> 3" using ps by (auto simp: matched_pairs_def Let_def split: option.split_asm if_split_asm)
  thus "length (el_candidates v) \<le> 3" "length (el_evidence v) \<le> 3" by (simp_all add: v)
  note rec = accepted_records[OF ok]
  have "js_sort (\<lambda>a b. localeCompare P (cd_candidate_id a) (cd_candidate_id b)) (el_candidates v) = el_candidates v"
    unfolding v(1) by (rule js_sort_idem[OF assms(2)]) (use rec(1,4) candidate_hex is_sha256_hex in \<open>auto simp: v(1) distinct_map\<close>)
  moreover have "js_sort (\<lambda>a b. localeCompare P (ev_evidence_id a) (ev_evidence_id b)) (el_evidence v) = el_evidence v"
    unfolding v(2) by (rule js_sort_idem[OF assms(2)]) (use rec(2,5) evidence_hex is_sha256_hex in \<open>auto simp: v(2) distinct_map\<close>)
  ultimately show "sorted_evaluation P (el_candidates v) (el_evidence v) (el_selection v) = v" by (simp add: sorted_evaluation_def)
qed

definition early_trigger :: "arbitration_input \<Rightarrow> evaluation \<Rightarrow> bool" where
  "early_trigger i v \<longleftrightarrow> (\<exists>e \<in> set (el_evidence v). \<exists>t z. ev_observed_trigger_epoch e = Some t \<and> ai_zone_engaged_epoch i = Some z \<and> t < z)"

lemma computed_unfit:
  assumes "evaluateWithoutOpenedSeed P i = Inr v"
  shows "paper_setup_unfit (input_setup i) v \<longleftrightarrow> sl_action (el_selection v) = PAPER_ELIGIBLE \<and> early_trigger i v"
proof -
  obtain ps where ps: "matched_pairs P (match_request_of i) = Inr ps" "set (el_evidence v) = snd ` set ps" and ok: "validateEntryEvaluationV3 v = None"
    using evaluated_parts[OF assms] by metis
  have "ai_common_fidelity i = EXACT \<and> \<not> ai_setup_invalidated i \<and> ai_zone_engaged_epoch i \<noteq> None" if paper: "sl_action (el_selection v) = PAPER_ELIGIBLE"
  proof -
    obtain e where "e \<in> set (el_evidence v)" "ev_fidelity e = EXACT" using canonical_evidence[OF ok paper] by metis
    with ps show ?thesis using exact_pair_engaged[OF ps(1)] by auto
  qed
  thus ?thesis by (auto simp: paper_setup_unfit_def input_setup_def early_trigger_def list_ex_iff split: option.split option.split_asm)
qed

lemma computed_digests:
  assumes "evaluateWithoutOpenedSeed P i = Inr v"
  shows "verifyCanonicalDigests P v = None"
proof -
  obtain ps where ps: "matched_pairs P (match_request_of i) = Inr ps" "set (el_candidates v) = fst ` set ps" "set (el_evidence v) = snd ` set ps"
    and arb: "arbitrateEntryCandidatesV3 P (ai_setup_id i) (el_candidates v) (el_evidence v)
       (ai_setup_invalidated i) (ai_revision i) (ai_evaluated_at_epoch i) None (input_cohort i) = Inr (el_selection v)"
    using evaluated_parts[OF assms] by metis
  from arb have "el_selection v = decide P (ai_setup_id i) (ai_setup_invalidated i) (ai_revision i) (ai_evaluated_at_epoch i) (input_cohort i)
      (candidates_by_id (el_candidates v)) (eligible_list P (el_candidates v) (el_evidence v))" by (simp add: arbitrate_Inr_iff)
  with decide_form obtain can rsn act ms where s: "el_selection v = make_selection P (ai_setup_id i) (ai_revision i) (ai_evaluated_at_epoch i)
      (js_sort compare_units (map_keys (candidates_by_id (el_candidates v)))) can rsn act ms" by metis
  have "selectionIdV3 P (el_selection v) = sl_selection_id (el_selection v)"
    unfolding s by (simp add: make_selection_def Let_def selectionIdV3_def selection_identity_json_def)
  with matched_ids[OF ps(1)] show ?thesis by (auto simp: verifyCanonicalDigests_def ps list_ex_iff fail_if_def)
qed

lemma matched_candidate:
  assumes "validateEntryArbitrationInputV3 i = None" "matched_pairs P (match_request_of i) = Inr ps" "p \<in> set ps" "wire_id (ai_setup_id i)"
  shows "cd_setup_id (fst p) = ai_setup_id i \<and> cd_direction (fst p) = ai_direction i \<and> candidate_readable (fst p)"
proof -
  have "cd_setup_id (fst p) = ai_setup_id i \<and> cd_direction (fst p) = ai_direction i"
    using assms(2,3) by (cases rule: matched_pairs_cases)
      (auto simp: matchBoc_def matchClose_def matchFlip_def Let_def match_request_of_def input_setup_def split: prod.split)
  with matched_fields[OF assms(1-3)] claims_wire[of "fst p"] assms(4) show ?thesis by (simp add: candidate_readable_def match_fields_ok_def)
qed

lemma computed_bundle_accepted:
  assumes inp: "validateEntryArbitrationInputV3 i = None" and run: "evaluateWithoutOpenedSeed P i = Inr v" and coll: "collates_hex P"
    and id: "wire_id (ai_setup_id i)" and cohort: "input_cohort i = TWO_PLUS_CANDLES" and rules: "rules_passed rules" and plan: "plan_sendable plan (ai_direction i)"
    and fit: "\<not> paper_setup_unfit (input_setup i) v"
  shows "parseBundle P (Some (strict_of (bundle_json (computed_bundle i rules v plan)))) False V31 = Inr (computed_bundle i rules v plan)"
proof -
  let ?b = "computed_bundle i rules v plan"
  from run obtain ps where ps: "matched_pairs P (match_request_of i) = Inr ps" "set (el_candidates v) = fst ` set ps" "set (el_evidence v) = snd ` set ps"
    and arb: "arbitrateEntryCandidatesV3 P (ai_setup_id i) (el_candidates v) (el_evidence v) (ai_setup_invalidated i) (ai_revision i)
       (ai_evaluated_at_epoch i) None (input_cohort i) = Inr (el_selection v)" and ok: "validateEntryEvaluationV3 v = None"
    by (rule evaluated_parts)
  note rec = accepted_records[OF ok] and sel = arbitrated_selection[OF arb] and sorted = evaluation_sorted[OF run coll] and mf = matched_fields[OF inp ps(1)]
  have su: "su_setup_id (input_setup i) = ai_setup_id i" "su_direction (input_setup i) = ai_direction i" "su_liquidity_cohort (input_setup i) = input_cohort i"
    "su_invalidated_before_entry (input_setup i) = ai_setup_invalidated i" by (simp_all add: input_setup_def)
  have of_match: "cd_setup_id c = ai_setup_id i \<and> cd_direction c = ai_direction i \<and> candidate_readable c" if "c \<in> set (el_candidates v)" for c
    using that ps(2) matched_candidate[OF inp ps(1) _ id] by auto
  have readable: "evidence_readable e" if "e \<in> set (el_evidence v)" for e
    using matched_evidence_readable[OF rec(2)[OF that]] mf ps(3) that by auto
  show ?thesis
  proof (rule canonical_members_back)
    show "\<not> bundleUsesEdgeDerivedIdentity (strict_members (bundle_members ?b))"
      using rec(1,2) candidate_hex evidence_hex selection_hex[OF rec(3)] is_sha256_hex sel(5) by (intro canonical_not_derived) (auto simp: computed_bundle_def)
    show "v3_items 0 3 parseCandidate (Some (strict_of (JArr (map candidate_json (eb_candidates ?b))))) = Inr (eb_candidates ?b)"
      using sorted(2) rec(1) of_match by (intro items_back candidate_back) (auto simp: computed_bundle_def)
    show "v3_items 0 12 parseEvidence (Some (strict_of (JArr (map evidence_json (eb_evidence ?b))))) = Inr (eb_evidence ?b)"
      using sorted(3) rec(2) readable by (intro items_back evidence_back) (auto simp: computed_bundle_def)
    show "\<not> bundle_conflict False (eb_setup ?b) (eb_candidates ?b) (eb_evidence ?b)"
      using rec(4,5) of_match by (auto simp: bundle_conflict_def computed_bundle_def su list_ex_iff)
    have ids: "wire_strings 32 (sl_candidate_ids_considered (el_selection v))"
      using considered_strings[OF arb sorted(2)] rec(1) candidate_hex by simp
    have "parseSelection (Some (strict_of (selection_json (el_selection v)))) = Inr (wire_of (el_selection v))"
      using id by (intro selection_back rec(3) ids sel(4)) (simp add: sel(1))
    thus "parseSelection (Some (strict_of (selection_json (eb_selectionProposal ?b)))) = Inr (wire_of (eb_selectionProposal ?b))" by (simp add: computed_bundle_def)
    show "parseTradePlan (Some (strict_of (plan_json (eb_tradePlan ?b)))) (su_direction (eb_setup ?b)) = Inr (eb_tradePlan ?b)"
      using plan_accepted[of plan] plan by (simp add: plan_sendable_def computed_bundle_def su)
  qed (use arb sel(1-3) sorted(1) ok computed_digests[OF run] fit cohort input_setup_accepted[OF inp id rules] in \<open>simp_all add: computed_bundle_def su\<close>)
qed


end
