(* ===== verification/Entry_Wire_Samples.thy ===== *)
theory Entry_Wire_Samples
  imports Entry_Wire_Pipeline Rd_Samples
begin

text \<open>
  Payloads the wire reader accepts: a confirmed close that opens a paper position, an exit at the stop
  and a setup of the one-candle cohort. Their identifiers are left to the edge. Each theorem applies a
  property of the reader to such a payload.
\<close>

section \<open>Payload texts\<close>

definition sample_rules :: "common_rule list" where
  "sample_rules = map (\<lambda>i. \<lparr>cr_rule_id = i, cr_passed = True\<rparr>) REQUIRED_COMMON_RULE_IDS_V3"

definition sample_facts :: "fidelity \<Rightarrow> liquidity_cohort \<Rightarrow> setup_facts" where
  "sample_facts fid cohort = \<lparr>su_setup_id = ''setup-1'', su_direction = LONG, su_zone_top_ticks = 105, su_zone_bottom_ticks = 90,
     su_zone_engaged_epoch = Some 600, su_invalidated_before_entry = False, su_common_fidelity = fid, su_liquidity_cohort = cohort,
     su_one_candle_enabled = (cohort = ONE_CANDLE)\<rparr>"

lemma sample_facts_simps [simp]:
  "su_setup_id (sample_facts fid cohort) = ''setup-1''" "su_direction (sample_facts fid cohort) = LONG" "su_zone_engaged_epoch (sample_facts fid cohort) = Some 600"
  "\<not> su_invalidated_before_entry (sample_facts fid cohort)" "su_liquidity_cohort (sample_facts fid cohort) = cohort"
  "su_common_fidelity (sample_facts fid cohort) = fid" "su_zone_top_ticks (sample_facts fid cohort) = 105" "su_zone_bottom_ticks (sample_facts fid cohort) = 90"
  by (simp_all add: sample_facts_def)

definition sample_plan :: trade_plan where
  "sample_plan = \<lparr>pl_direction = LONG, pl_entry_ticks = 108, pl_stop_ticks = 90, pl_target_ticks = 140\<rparr>"

definition wire_proposal :: "string option \<Rightarrow> string \<Rightarrow> string \<Rightarrow> json" where
  "wire_proposal canonical reason action = JObj
     [(''selection_id'', JStr EDGE_DERIVED_DIGEST), (''setup_id'', JStr ''setup-1''), (''policy_version'', JStr POLICY_VERSION_V3), (''revision'', JNum 0),
      (''candidate_ids_considered'', j_strings (case canonical of None \<Rightarrow> [] | Some m \<Rightarrow> [EDGE_DERIVED_DIGEST @ '':'' @ m])),
      (''canonical_candidate_id'', j_opt (\<lambda>m. JStr (EDGE_DERIVED_DIGEST @ '':'' @ m)) canonical),
      (''canonical_evidence_id'', j_opt (\<lambda>m. JStr (EDGE_DERIVED_DIGEST @ '':'' @ m)) canonical), (''canonical_model'', j_opt JStr canonical),
      (''reason'', JStr reason), (''fidelity'', j_opt (\<lambda>m. JStr ''EXACT'') canonical), (''action'', JStr action), (''co_triggered_models'', j_strings []),
      (''evaluated_at_epoch'', JNum 1200)]"

definition empty_bundle :: "fidelity \<Rightarrow> liquidity_cohort \<Rightarrow> string \<Rightarrow> string \<Rightarrow> json" where
  "empty_bundle fid cohort reason action = JObj
     [(''setup'', setup_json (sample_facts fid cohort) sample_rules), (''candidates'', JArr []), (''evidence'', JArr []),
      (''selection_proposal'', wire_proposal None reason action), (''trade_plan'', plan_json sample_plan)]"

section \<open>Reading the parts\<close>

lemma text_back: "text_is (Some (strict_of (JStr a))) b \<longleftrightarrow> a = b"
  by (simp add: text_is_def units_of_inject)

lemma sample_integers: "is_safe_integer (numeral n) \<longleftrightarrow> (numeral n :: int) \<le> 9007199254740991" "is_safe_integer 0" "is_safe_integer 1"
  by (simp_all add: is_safe_integer_def MAX_SAFE_INTEGER_def)

lemma plan_reads: "parseTradePlan (Some (strict_of (plan_json sample_plan))) LONG = Inr sample_plan"
  using plan_accepted[of sample_plan] by (simp add: sample_plan_def sample_integers plan_ordered_def)

lemma sample_rules_passed: "rules_passed sample_rules"
  by (simp add: rules_passed_def sample_rules_def comp_def list_all_iff)

lemma null_reads: "v3_nullable reader (Some (strict_of JNull)) = Inr None" "(strict_of JNull = SNull) = True"
  by (simp_all add: v3_nullable_def)

lemma sample_id: "wire_id ''setup-1''"
  by (simp add: wire_id_def printable_id_char_def code_unit_def)

lemma setup_reads:
  assumes "validateLiquidityCohortV3 (sample_facts fid cohort) = None"
  shows "parseSetup (Some (strict_of (setup_json (sample_facts fid cohort) sample_rules))) unreviewed V31 = Inr (sample_facts fid cohort, sample_rules)"
  using assms passed_rules_read[OF sample_rules_passed] passed_rules_valid[OF sample_rules_passed]
  by (intro setup_accepted) (simp_all add: sample_id sample_integers epoch_opt_def opt_all_def)

lemma seed_reads:
  assumes "(reason, action) \<in> set [(''NO_CANDIDATE'', ''NONE''), (''ONE_CANDLE_EXPERIMENT_NOT_PROMOTED'', ''SHADOW_ONLY'')]"
  shows "parseEdgeDerivedSelectionSeed (Some (strict_of (wire_proposal None reason action))) [] =
    Inr \<lparr>ss_setup_id = ''setup-1'', ss_revision = 0, ss_evaluated_at_epoch = 1200\<rparr>"
proof -
  have r: "one_of_texts SELECTION_REASONS_V3 (Some (strict_of (JStr reason)))" "one_of_texts (map action_name ACTIONS) (Some (strict_of (JStr action)))"
    using assms by (auto simp: one_of_texts_def text_back SELECTION_REASONS_V3_def REASONS_def ACTIONS_def simp del: strict_of.simps)
  have e: "wire_strings 3 []" by (simp add: wire_strings_def)
  show ?thesis
    using r sample_id e unfolding parseEdgeDerivedSelectionSeed_def wire_proposal_def
    by (subst record_back)
      (simp_all add: SELECTION_KEYS_def null_reads j_opt_def text_back POLICY_VERSION_V3_def back_simps sample_integers del: strict_of.simps)
qed

text \<open>A bundle without candidates.\<close>

definition empty_evaluation :: evaluation where
  "empty_evaluation = \<lparr>el_candidates = [], el_evidence = [],
     el_selection = make_selection sample_platform ''setup-1'' 0 1200 [] None NO_CANDIDATE NO_ACTION []\<rparr>"

definition empty_result :: "fidelity \<Rightarrow> liquidity_cohort \<Rightarrow> entry_bundle" where
  "empty_result fid cohort = \<lparr>eb_setup = sample_facts fid cohort, eb_commonRuleResults = sample_rules, eb_candidates = [], eb_evidence = [],
     eb_selectionProposal = el_selection empty_evaluation, eb_evaluation = empty_evaluation, eb_tradePlan = sample_plan\<rparr>"

lemma empty_arbitrated:
  "arbitrateEntryCandidatesV3 sample_platform ''setup-1'' [] [] False 0 1200 None cohort = Inr (el_selection empty_evaluation)"
proof -
  have "candidates_by_id [] = []" by (simp add: candidates_by_id_def)
  thus ?thesis
    by (simp add: arbitrate_Inr_iff records_ok_def sample_integers decide_def Let_def empty_evaluation_def js_trim_def js_whitespace_def code_unit_def map_keys_def)
qed

lemma selection_digest: "selectionIdV3 P (make_selection P i r t ids can rsn act ms) = sl_selection_id (make_selection P i r t ids can rsn act ms)"
  by (simp add: make_selection_def Let_def selectionIdV3_def selection_identity_json_def)

lemma empty_valid: "validateEntryEvaluationV3 empty_evaluation = None" "verifyCanonicalDigests sample_platform empty_evaluation = None"
proof -
  have shape: "validateSelectionShapeV3 (make_selection sample_platform ''setup-1'' 0 1200 [] None NO_CANDIDATE NO_ACTION []) = None"
    by (rule make_selection_ok[OF sample_platform_width sample_nonzero]) (simp_all add: epoch_ok_def sample_integers co_triggers_ok_def js_set_def sort_models_def)
  show "validateEntryEvaluationV3 empty_evaluation = None"
    unfolding empty_evaluation_def validateEntryEvaluationV3_def Let_def by (simp add: shape validateCanonicalSelection_def fail_if_def)
  show "verifyCanonicalDigests sample_platform empty_evaluation = None"
    unfolding empty_evaluation_def verifyCanonicalDigests_def by (simp add: selection_digest)
qed

lemma proposal_derived:
  assumes "field_of m ''selection_proposal'' = Some (strict_of (wire_proposal canonical reason action))"
  shows "bundleUsesEdgeDerivedIdentity m"
proof -
  have "isEdgeDerivedMarker (field_of (object_members (Some (strict_of (wire_proposal canonical reason action)))) ''selection_id'')"
    unfolding wire_proposal_def object_members_back by (simp add: isEdgeDerivedMarker_def EDGE_DERIVED_DIGEST_def)
  thus ?thesis by (simp add: bundleUsesEdgeDerivedIdentity_def assms Let_def)
qed

lemma empty_reads:
  assumes "validateLiquidityCohortV3 (sample_facts fid cohort) = None"
    "(cohort, reason, action) \<in> set [(TWO_PLUS_CANDLES, ''NO_CANDIDATE'', ''NONE''), (ONE_CANDLE, ''ONE_CANDLE_EXPERIMENT_NOT_PROMOTED'', ''SHADOW_ONLY'')]"
    "unreviewed \<Longrightarrow> fid = UNRESOLVED"
  shows "parseBundle sample_platform (Some (strict_of (empty_bundle fid cohort reason action))) unreviewed V31 = Inr (empty_result fid cohort)"
proof -
  let ?m = "strict_members
     [(''setup'', setup_json (sample_facts fid cohort) sample_rules), (''candidates'', JArr []), (''evidence'', JArr []),
      (''selection_proposal'', wire_proposal None reason action), (''trade_plan'', plan_json sample_plan)]"
  have r: "v3_record SETUP_BUNDLE_KEYS (Some (strict_of (empty_bundle fid cohort reason action))) = Inr ?m"
    unfolding empty_bundle_def by (rule record_back) (simp add: SETUP_BUNDLE_KEYS_def)
  have f: "field_of ?m ''setup'' = Some (strict_of (setup_json (sample_facts fid cohort) sample_rules))"
    "field_of ?m ''candidates'' = Some (strict_of (JArr []))" "field_of ?m ''evidence'' = Some (strict_of (JArr []))"
    "field_of ?m ''selection_proposal'' = Some (strict_of (wire_proposal None reason action))" "field_of ?m ''trade_plan'' = Some (strict_of (plan_json sample_plan))"
    by (simp_all del: strict_of.simps)
  obtain p where p: "v3_object (Some (strict_of (wire_proposal None reason action))) = Inr p"
    and t: "\<And>x. text_is (field_of p ''action'') x \<longleftrightarrow> action = x" "\<And>x. text_is (field_of p ''reason'') x \<longleftrightarrow> reason = x" "proposes_nothing p"
    by (auto simp: wire_proposal_def strict_of_object text_back proposes_nothing_def array_items_back j_strings_def null_reads j_opt_def simp del: strict_of.simps)
  have edge: "bundleUsesEdgeDerivedIdentity ?m" by (rule proposal_derived[OF f(4)])
  have items: "v3_items 0 n reader (Some (strict_of (JArr []))) = Inr []" for n and reader :: "strict_json option \<Rightarrow> 'x result"
    by (simp add: v3_items_def v3_values_def)
  have seed: "parseEdgeDerivedSelectionSeed (Some (strict_of (wire_proposal None reason action))) [] =
      Inr \<lparr>ss_setup_id = ''setup-1'', ss_revision = 0, ss_evaluated_at_epoch = 1200\<rparr>"
    using assms(2) by (intro seed_reads) auto
  have sorted: "sorted_evaluation sample_platform [] [] (el_selection empty_evaluation) = empty_evaluation"
    by (simp add: sorted_evaluation_def empty_evaluation_def)
  have un: "unreviewed \<Longrightarrow> validateUnreviewedBundle (sample_facts fid cohort) [] [] p (el_selection empty_evaluation) = None"
    using assms(2,3) by (auto simp: validateUnreviewedBundle_def t fail_if_def empty_evaluation_def)
  have fit: "\<not> paper_setup_unfit (sample_facts fid cohort) empty_evaluation" by (simp add: paper_setup_unfit_def empty_evaluation_def)
  have truthful: "\<not> (cohort = ONE_CANDLE \<and> \<not> truthful_one_candle p)" using assms(2) by (auto simp: truthful_one_candle_def t)
  have lists: "el_candidates empty_evaluation = []" "el_evidence empty_evaluation = []" by (simp_all add: empty_evaluation_def)
  show ?thesis
    unfolding parseBundle_def r and_then_simps f Let_def setup_reads[OF assms(1)] prod.case
    by (simp add: edge parse_candidates_def parse_evidence_items_def read_proposal_def f items bundle_conflict_def seed empty_arbitrated p
        truthful un empty_valid fit plan_reads lists empty_result_def fail_if_def Let_def sorted js_set_def del: strict_of.simps v3_object_Inr field_of_strict)
qed

section \<open>Reading payloads\<close>

definition event_json :: "market_event \<Rightarrow> json" where
  "event_json event = JObj
     [(''epoch'', JNum (me_epoch event)), (''sequence'', JNum (me_sequence event)), (''tick_price_ticks'', JNum (me_tick_price_ticks event)),
      (''barstate_isconfirmed'', JBool (me_barstate_isconfirmed event)), (''confirmed_bar'', j_opt candle_json (me_confirmed_bar event))]"

definition payload_members :: "string \<Rightarrow> market_event \<Rightarrow> json list \<Rightarrow> json list \<Rightarrow> (string \<times> json) list" where
  "payload_members hash event exits bundles =
     [(''schema_version'', JStr ''3.1''), (''strategy_id'', JStr ''rd_liquidity_sd_5m_v1''), (''strategy_version'', JStr ''3.1.0-contract3''),
      (''rule_contract_version'', JStr ''3.1.0''), (''execution_mode'', JStr ''PAPER_ONLY''), (''producer_instance_id'', JStr ''producer-1''),
      (''producer_sequence'', JNum 1), (''event_id'', JStr ''event-1''), (''is_realtime'', JBool True), (''symbol'', JStr ''EURUSD''),
      (''ticker_id'', JStr ''FX:EURUSD''), (''feed'', JStr ''FX''), (''timeframe'', JStr ''5''), (''tick_size'', JStr ''0.0001''),
      (''detector_code_hash'', JStr hash), (''settings_hash'', JStr hash), (''observed_at_epoch'', JNum 1500),
      (''market_event'', event_json event),
      (''exit_events'', JArr exits), (''setups'', JArr bundles)]"

definition sample_payload :: "string \<Rightarrow> market_event \<Rightarrow> json list \<Rightarrow> json list \<Rightarrow> json" where
  "sample_payload hash event exits bundles = JObj (payload_members hash event exits bundles)"

definition payload_metadata :: receipt_metadata where
  "payload_metadata = \<lparr>rm_idempotencyKey = ''event-1'', rm_schemaVersion = V31, rm_strategyVersion = ''3.1.0-contract3'', rm_producerInstanceId = ''producer-1'',
     rm_sequence = 1, rm_symbol = ''EURUSD'', rm_tickerId = ''FX:EURUSD'', rm_feed = ''FX''\<rparr>"

definition stop_event :: market_event where
  "stop_event = \<lparr>me_epoch = 1500, me_sequence = 2, me_tick_price_ticks = 88, me_barstate_isconfirmed = False, me_confirmed_bar = None\<rparr>"

definition stop_exit :: exit_event where
  "stop_exit = \<lparr>xe_event_id = ''exit-1'', xe_setup_id = ''setup-1'', xe_exit_reason = STOP_LOSS, xe_epoch = 1500, xe_sequence = 2, xe_price_ticks = 88\<rparr>"

definition exit_json :: "exit_event \<Rightarrow> json" where
  "exit_json x = JObj [(''event_id'', JStr (xe_event_id x)), (''setup_id'', JStr (xe_setup_id x)), (''exit_reason'', JStr (exit_name (xe_exit_reason x))),
     (''epoch'', JNum (xe_epoch x)), (''sequence'', JNum (xe_sequence x)), (''price_ticks'', JNum (xe_price_ticks x))]"

definition stop_payload :: json where
  "stop_payload = sample_payload ''UNREVIEWED'' stop_event [exit_json stop_exit] [empty_bundle UNRESOLVED TWO_PLUS_CANDLES ''NO_CANDIDATE'' ''NONE'']"

text \<open>A bound on the length of a text: every unit takes at most six units when it is escaped.\<close>

fun json_size :: "json \<Rightarrow> nat" where
  "json_size JNull = 1"
| "json_size (JBool b) = 1"
| "json_size (JNum n) = length (js_number n)"
| "json_size (JStr s) = 1 + length s"
| "json_size (JArr vs) = 1 + sum_list (map (\<lambda>v. 1 + json_size v) vs)"
| "json_size (JObj kvs) = 1 + sum_list (map (\<lambda>(k, v). 1 + length k + json_size v) kvs)"

lemma quoted_length: "length (quote_text (units_of s)) \<le> 2 + 6 * length s"
proof -
  have "length (json_escape c) \<le> 6" for c by (simp add: json_escape_def Let_def)
  hence "length (concat (map json_escape s)) \<le> 6 * length s" by (induction s) (auto simp: add_mono)
  moreover have "length (units_of x) = length x" for x by (simp add: units_of_def)
  ultimately show ?thesis by (simp add: quote_text_of json_quote_def)
qed

lemma json_size_bounds: "stringify_length (strict_of j) \<le> 6 * json_size j"
proof (induction j rule: json_size.induct)
  case (5 vs)
  hence "sum_list (map (stringify_length \<circ> strict_of) vs) \<le> sum_list (map (\<lambda>v. 6 * json_size v) vs)" by (intro sum_list_mono) auto
  moreover have "sum_list (map (\<lambda>v. 1 + json_size v) vs) = length vs + sum_list (map json_size vs)" by (induction vs) auto
  moreover have "sum_list (map (\<lambda>v. 6 * json_size v) vs) = 6 * sum_list (map json_size vs)" by (rule sum_list_const_mult)
  ultimately show ?case by simp
next
  case (6 kvs)
  let ?f = "\<lambda>(k, v). length (quote_text (units_of k)) + 1 + stringify_length (strict_of v)" and ?g = "\<lambda>(k, v). 1 + length k + json_size v"
  have "?f kv + 1 \<le> 6 * ?g kv" if "kv \<in> set kvs" for kv
    using 6 that quoted_length[of "fst kv"] by (cases kv) fastforce
  hence "sum_list (map (\<lambda>kv. ?f kv + 1) kvs) \<le> sum_list (map (\<lambda>kv. 6 * ?g kv) kvs)" by (intro sum_list_mono) auto
  moreover have "sum_list (map (\<lambda>kv. ?f kv + 1) kvs) = length kvs + sum_list (map ?f kvs)" by (induction kvs) auto
  moreover have "sum_list (map (\<lambda>kv. 6 * ?g kv) kvs) = 6 * sum_list (map ?g kvs)" by (rule sum_list_const_mult)
  ultimately show ?case by (simp add: comp_def case_prod_unfold)
next
  case (4 s)
  show ?case using quoted_length[of s] by simp
qed simp_all

lemma event_reads:
  assumes "me_barstate_isconfirmed event \<longleftrightarrow> me_confirmed_bar event \<noteq> None" "is_safe_integer (me_epoch event)" "0 \<le> me_epoch event"
    "is_safe_integer (me_sequence event)" "0 \<le> me_sequence event" "is_safe_integer (me_tick_price_ticks event)"
    "\<And>b. me_confirmed_bar event = Some b \<Longrightarrow> parseCandle True (Some (strict_of (candle_json b))) = Inr b \<and> me_epoch event = close_epoch b \<and>
       me_tick_price_ticks event = close_ticks b"
  shows "parseMarketEvent (Some (strict_of (event_json event))) = Inr event"
proof -
  have "v3_nullable (parseCandle True) (Some (strict_of (j_opt candle_json (me_confirmed_bar event)))) = Inr (me_confirmed_bar event)"
    by (rule nullable_back) (use assms(7) in \<open>simp_all add: candle_json_def\<close>)
  moreover have "\<lparr>me_epoch = me_epoch event, me_sequence = me_sequence event, me_tick_price_ticks = me_tick_price_ticks event,
      me_barstate_isconfirmed = me_barstate_isconfirmed event, me_confirmed_bar = me_confirmed_bar event\<rparr> = event" by (cases event) simp
  ultimately show ?thesis
    using assms unfolding parseMarketEvent_def event_json_def
    by (subst record_back) (auto simp: MARKET_EVENT_KEYS_def back_simps simp del: strict_of.simps split: option.split)
qed

lemma exit_reads:
  assumes "wire_id (xe_event_id x)" "wire_id (xe_setup_id x)" "is_safe_integer (xe_epoch x)" "0 \<le> xe_epoch x" "is_safe_integer (xe_sequence x)" "0 \<le> xe_sequence x"
    "is_safe_integer (xe_price_ticks x)"
  shows "parseExitEvent (Some (strict_of (exit_json x))) = Inr x"
proof -
  have "v3_enum exit_name [STOP_LOSS, TARGET, AMBIGUOUS_SAME_BAR_EXIT] (Some (strict_of (JStr (exit_name (xe_exit_reason x))))) = Inr (xe_exit_reason x)"
    by (rule enum_back) (cases "xe_exit_reason x"; simp)+
  moreover have "\<lparr>xe_event_id = xe_event_id x, xe_setup_id = xe_setup_id x, xe_exit_reason = xe_exit_reason x, xe_epoch = xe_epoch x,
      xe_sequence = xe_sequence x, xe_price_ticks = xe_price_ticks x\<rparr> = x" by (cases x) simp
  ultimately show ?thesis
    using assms unfolding parseExitEvent_def exit_json_def
    by (subst record_back) (simp_all add: EXIT_EVENT_KEYS_def back_simps del: strict_of.simps)
qed

lemma payload_reads:
  assumes "safe_tokens (strict_of (sample_payload hash event xs js))" "json_size (sample_payload hash event xs js) < 5800"
    "hash = ''UNREVIEWED'' \<or> is_sha256 hash \<and> hash \<noteq> zero_digest"
    "parseMarketEvent (Some (strict_of (event_json event))) = Inr event" "me_epoch event \<le> 1500"
    "v3_items 0 32 parseExitEvent (Some (strict_of (JArr xs))) = Inr exits"
    "v3_items 1 32 (\<lambda>v. parseBundle sample_platform v (hash = ''UNREVIEWED'') V31) (Some (strict_of (JArr js))) = Inr bs"
    "distinct (map (su_setup_id \<circ> eb_setup) bs)" "validateExitFollowup exits True event bs = None"
    "validate_bundles 1500 (if exits = [] then ENTRY_DECISION else EXIT_FOLLOWUP) True event bs = Inr ()"
  shows "\<exists>v. validateEntryV3Payload sample_platform (strict_of (sample_payload hash event xs js)) = Inr v \<and> vp_entryBundles v = bs \<and> vp_exitEvents v = exits \<and>
    vp_marketEvent v = event \<and> vp_isRealtime v \<and> vp_detectorCodeHash v = hash \<and> vp_eventRole v = (if exits = [] then ENTRY_DECISION else EXIT_FOLLOWUP) \<and>
    vp_settingsHash v = hash \<and> vp_tickSize v = ''0.0001'' \<and> vp_metadata v = payload_metadata \<and> vp_observedAtEpoch v = 1500"
proof -
  let ?j = "sample_payload hash event xs js"
  have plain: "plain (strict_of ?j) = Inr (strict_of ?j)" by (simp add: plain_def assms(1))
  have size: "\<not> ENTRY_V3_MAX_PAYLOAD_CHARACTERS \<le> stringify_length (strict_of ?j)"
    using json_size_bounds[of ?j] assms(2) by (simp add: ENTRY_V3_MAX_PAYLOAD_CHARACTERS_def)
  define m where "m = strict_members (payload_members hash event xs js)"
  have rec: "v3_record TOP_LEVEL_KEYS (Some (strict_of ?j)) = Inr m"
    unfolding m_def sample_payload_def by (rule record_back) (simp add: TOP_LEVEL_KEYS_def payload_members_def)
  have f: "field_of m k = map_option strict_of (map_of (payload_members hash event xs js) k)" for k by (simp add: m_def)
  note fields = f payload_members_def
  have ids: "wire_id ''producer-1''" "wire_id ''event-1''" "wire_id ''EURUSD''" "wire_id ''FX:EURUSD''" "wire_id ''FX''"
    by (simp_all add: wire_id_def printable_id_char_def code_unit_def)
  have version: "read_version m = Some V31" by (simp add: read_version_def fields text_back del: strict_of.simps)
  have tick: "read_tick_size (Some (strict_of (JStr ''0.0001''))) = Inr ''0.0001''"
    by (simp add: read_tick_size_def v3_text_def trim_unit_def positive_decimal_def digit_unit_def code_unit_def string_of_units_def char_of_def bit_0)
  have md: "read_metadata m V31 = Inr (payload_metadata, True, ''0.0001'')"
    by (simp add: read_metadata_def fields back_simps ids sample_integers tick payload_metadata_def del: strict_of.simps)
  have producer: "read_producer m = Inr (hash = ''UNREVIEWED'', hash, hash)"
    using assms(3) by (auto simp: read_producer_def fields text_back digest_back fail_if_def simp del: strict_of.simps)
  have "\<exists>v. read_payload sample_platform m = Inr v \<and> vp_entryBundles v = bs \<and> vp_exitEvents v = exits \<and>
      vp_marketEvent v = event \<and> vp_isRealtime v \<and> vp_detectorCodeHash v = hash \<and> vp_eventRole v = (if exits = [] then ENTRY_DECISION else EXIT_FOLLOWUP) \<and>
    vp_settingsHash v = hash \<and> vp_tickSize v = ''0.0001'' \<and> vp_metadata v = payload_metadata \<and> vp_observedAtEpoch v = 1500"
    using assms(4-10) unfolding read_payload_def version option.case md producer and_then_simps prod.case Let_def
    by (simp add: fields text_back back_simps sample_integers del: strict_of.simps)
  thus ?thesis unfolding validateEntryV3Payload_def plain and_then_simps rec by (simp add: size fail_if_def)
qed

lemma stop_size: "json_size stop_payload < 4000"
  by code_simp

lemma stop_tokens: "safe_tokens (strict_of stop_payload)"
  by code_simp

lemma stop_accepted:
  "\<exists>v. validateEntryV3Payload sample_platform (strict_of stop_payload) = Inr v \<and> vp_entryBundles v = [empty_result UNRESOLVED TWO_PLUS_CANDLES] \<and>
     vp_exitEvents v = [stop_exit] \<and> vp_marketEvent v = stop_event \<and> vp_isRealtime v \<and> vp_detectorCodeHash v = ''UNREVIEWED'' \<and> vp_eventRole v = EXIT_FOLLOWUP"
proof -
  let ?j = "empty_bundle UNRESOLVED TWO_PLUS_CANDLES ''NO_CANDIDATE'' ''NONE''" and ?b = "empty_result UNRESOLVED TWO_PLUS_CANDLES"
  have b: "parseBundle sample_platform (Some (strict_of ?j)) True V31 = Inr ?b"
    by (rule empty_reads) (simp_all add: validateLiquidityCohortV3_def fail_if_def)
  have bundles: "v3_items 1 32 (\<lambda>v. parseBundle sample_platform v (''UNREVIEWED'' = ''UNREVIEWED'') V31) (Some (strict_of (JArr [?j]))) = Inr [?b]"
    using b by (simp add: v3_items_def v3_values_def)
  have exit: "parseExitEvent (Some (strict_of (exit_json stop_exit))) = Inr stop_exit"
    by (rule exit_reads) (simp_all add: stop_exit_def sample_id sample_integers, simp add: wire_id_def printable_id_char_def code_unit_def)
  have exits: "v3_items 0 32 parseExitEvent (Some (strict_of (JArr [exit_json stop_exit]))) = Inr [stop_exit]"
    using exit by (simp add: v3_items_def v3_values_def)
  have event: "parseMarketEvent (Some (strict_of (event_json stop_event))) = Inr stop_event"
    by (rule event_reads) (simp_all add: stop_event_def sample_integers)
  have followup: "validateExitFollowup [stop_exit] True stop_event [?b] = None"
    by (simp add: validateExitFollowup_def fail_if_def js_set_def js_set_add_def validate_exit_event_def by_setup_def map_get_def Let_def
        empty_result_def stop_exit_def stop_event_def validatedExitCausalEpoch_def empty_evaluation_def stop_hit_def target_hit_def sample_plan_def)
  have facts: "validate_bundles 1500 EXIT_FOLLOWUP True stop_event [?b] = Inr ()"
    by (simp add: bundle_too_late_def validateAuthoritativePaperFacts_def selectedAuthoritativePairs_def empty_result_def empty_evaluation_def)
  show ?thesis
    using payload_reads[OF stop_tokens[unfolded stop_payload_def] _ _ event _ exits bundles _ followup] stop_size facts
    unfolding stop_payload_def by (auto simp: stop_event_def)
qed


theorem exit_reason_is_shown_witness:
  "market_shows sample_plan stop_event True = Some STOP_LOSS"
proof -
  obtain v where v: "validateEntryV3Payload sample_platform (strict_of stop_payload) = Inr v" "vp_entryBundles v = [empty_result UNRESOLVED TWO_PLUS_CANDLES]"
    "vp_exitEvents v = [stop_exit]" "vp_marketEvent v = stop_event" "vp_isRealtime v" using stop_accepted by blast
  have "stop_exit \<in> set (vp_exitEvents v)" by (simp add: v(3))
  from exit_reason_is_shown[OF v(1) this] v show ?thesis by (simp add: empty_result_def stop_exit_def)
qed

theorem one_candle_recorded_only_witness:
  "\<exists>r. strict_of (empty_bundle CALIBRATED ONE_CANDLE ''ONE_CANDLE_EXPERIMENT_NOT_PROMOTED'' ''SHADOW_ONLY'') = SObj r \<and> bundleUsesEdgeDerivedIdentity r \<and>
     sl_action (eb_selectionProposal (empty_result CALIBRATED ONE_CANDLE)) \<noteq> PAPER_ELIGIBLE"
proof -
  let ?j = "empty_bundle CALIBRATED ONE_CANDLE ''ONE_CANDLE_EXPERIMENT_NOT_PROMOTED'' ''SHADOW_ONLY''"
  obtain r where r: "strict_of ?j = SObj r" by (simp add: empty_bundle_def)
  have fields: "validateLiquidityCohortV3 (sample_facts CALIBRATED ONE_CANDLE) = None"
    by (simp add: validateLiquidityCohortV3_def fail_if_def) (simp add: sample_facts_def)
  have "parseBundle sample_platform (Some (SObj r)) False V31 = Inr (empty_result CALIBRATED ONE_CANDLE)"
    unfolding r[symmetric] by (rule empty_reads[OF fields]) simp_all
  from one_candle_recorded_only[OF this] r show ?thesis by (simp add: empty_result_def)
qed


section \<open>A confirmed close\<close>

definition close_pair :: "candidate \<times> evidence" where
  "close_pair = matchClose sample_platform (match_request_of sample_input) sample_bar"

lemma close_request: "close_outcome (match_request_of sample_input) sample_bar = (MATCHED, [''ENTRY_DIR_CLOSE''], [])"
  "matched_pairs sample_platform (match_request_of sample_input) = Inr [close_pair]"
  by (simp_all add: close_outcome_def commonFailure_def match_request_of_def input_setup_def sample_input_def sample_bar_def matched_pairs_def close_pair_def Let_def)

lemma close_digests:
  "proper_ids close_pair" "ev_candidate_id (snd close_pair) = cd_candidate_id (fst close_pair)"
  using proper_matched[OF sample_platform_width sample_nonzero close_request(2), of close_pair] by (simp_all add: close_pair_def matchClose_def Let_def close_request)

lemma close_form: "close_pair =
  (let c = make_candidate sample_platform (match_request_of sample_input) DIR_CLOSE MATCHED 900 None None SOURCE_CLAIMS_DIR_CLOSE in
   (c, make_evidence sample_platform (match_request_of sample_input) c
     \<lparr>ef_observed_trigger_epoch = 1200, ef_trigger_sequence = 0, ef_observed_trigger_ticks = 108, ef_htf_context_minutes = [], ef_fidelity = EXACT,
       ef_proof_plane = CONFIRMED_5M, ef_replayability = REPLAYABLE, ef_coverage_start_epoch = 900, ef_coverage_end_epoch = 1200, ef_boc_tier = None,
       ef_reference_candle = None, ef_ambiguity_codes = [], ef_htf_open_ticks = None, ef_contact_candle = None, ef_recross_candle = None,
       ef_coverage_gap_detected = None, ef_full_lifecycle_ordered = None, ef_destination_seen_before_contact = None,
       ef_passed_rule_ids = [''ENTRY_DIR_CLOSE''], ef_failed_rule_ids = [], ef_source_claim_ids = SOURCE_CLAIMS_DIR_CLOSE\<rparr>))"
  using close_request(1) by (simp add: close_pair_def matchClose_def Let_def) (simp add: match_request_of_def sample_input_def sample_bar_def)

lemma sample_input_fields: "ai_setup_id sample_input = ''setup-1''" "ai_direction sample_input = LONG" "ai_observed_at_epoch sample_input = 1200"
  by (simp_all add: sample_input_def)

lemma close_selected:
  "eligible_list sample_platform [fst close_pair] [snd close_pair] = [close_pair]"
  "decide sample_platform ''setup-1'' False 0 1200 TWO_PLUS_CANDLES (candidates_by_id [fst close_pair]) [close_pair] =
     make_selection sample_platform ''setup-1'' 0 1200 [cd_candidate_id (fst close_pair)] (Some close_pair) ONLY_EXACT_TRIGGER PAPER_ELIGIBLE []"
proof -
  have "exactEligibleV3 (fst close_pair) (snd close_pair)"
    by (simp add: close_form Let_def exactEligibleV3_def eligible_close_def eligible_plane_def flip_fields_present_def)
  thus "eligible_list sample_platform [fst close_pair] [snd close_pair] = [close_pair]"
    by (simp add: eligible_list_def eligible_pairs_def candidates_by_id_def evidence_by_id_def map_values_def map_get_def close_digests(2))
  have "hasBlockedAggressive [fst close_pair] [close_pair] = False" by (simp add: hasBlockedAggressive_def js_set_def js_set_add_def)
  thus "decide sample_platform ''setup-1'' False 0 1200 TWO_PLUS_CANDLES (candidates_by_id [fst close_pair]) [close_pair] =
     make_selection sample_platform ''setup-1'' 0 1200 [cd_candidate_id (fst close_pair)] (Some close_pair) ONLY_EXACT_TRIGGER PAPER_ELIGIBLE []"
    by (simp add: decide_def Let_def candidates_by_id_def map_keys_def map_values_def earliest_pairs_def js_set_def js_set_add_def)
qed

lemma close_evaluated:
  assumes "evaluateEntryV3Bundle sample_platform sample_input = Inr v"
  shows "el_candidates v = [fst close_pair]" "el_evidence v = [snd close_pair]"
    "el_selection v = make_selection sample_platform ''setup-1'' 0 1200 [cd_candidate_id (fst close_pair)] (Some close_pair) ONLY_EXACT_TRIGGER PAPER_ELIGIBLE []"
proof -
  from assms have run: "evaluateWithoutOpenedSeed sample_platform sample_input = Inr v"
    by (simp add: evaluateEntryV3Bundle_def after_check_Inr_iff) (simp add: sample_input_def)
  thus v: "el_candidates v = [fst close_pair]" "el_evidence v = [snd close_pair]"
    by (auto simp: evaluateWithoutOpenedSeed_def matchEntryCandidatesV3_def close_request and_then_Inr_iff after_check_Inr_iff Let_def)
  have i: "ai_setup_id sample_input = ''setup-1''" "\<not> ai_setup_invalidated sample_input" "ai_revision sample_input = 0" "ai_evaluated_at_epoch sample_input = 1200"
    "input_cohort sample_input = TWO_PLUS_CANDLES" by (simp_all add: sample_input_def input_cohort_def)
  from run obtain ps where "arbitrateEntryCandidatesV3 sample_platform (ai_setup_id sample_input) (el_candidates v) (el_evidence v) (ai_setup_invalidated sample_input)
      (ai_revision sample_input) (ai_evaluated_at_epoch sample_input) None (input_cohort sample_input) = Inr (el_selection v)" by (rule evaluated_parts)
  thus "el_selection v = make_selection sample_platform ''setup-1'' 0 1200 [cd_candidate_id (fst close_pair)] (Some close_pair) ONLY_EXACT_TRIGGER PAPER_ELIGIBLE []"
    by (simp add: arbitrate_Inr_iff v i close_selected)
qed

lemma sample_engaged: "evaluateEntryV3Bundle sample_platform sample_input = Inr v \<Longrightarrow> \<not> early_trigger sample_input v"
  by (simp add: early_trigger_def close_evaluated) (simp add: close_form Let_def sample_input_def)

lemma sample_sendable: "plan_sendable sample_plan (ai_direction sample_input)"
  by (simp add: plan_sendable_def sample_plan_def plan_ordered_def sample_integers sample_input_def)

lemma sample_sendable_input: "ai_opened_selection_seed sample_input = None" "wire_id (ai_setup_id sample_input)" "input_cohort sample_input = TWO_PLUS_CANDLES"
  by (simp_all add: sample_input_def sample_id input_cohort_def)


lemma close_computed:
  assumes "evaluateEntryV3Bundle sample_platform sample_input = Inr v"
  shows "parseBundle sample_platform (Some (strict_of (bundle_json (computed_bundle sample_input sample_rules v sample_plan)))) False V31 =
     Inr (computed_bundle sample_input sample_rules v sample_plan)"
proof -
  have "evaluateWithoutOpenedSeed sample_platform sample_input = Inr v"
    using assms sample_sendable_input(1) by (simp add: evaluateEntryV3Bundle_def after_check_Inr_iff)
  with computed_unfit[OF this] sample_engaged[OF assms] show ?thesis
    by (intro computed_bundle_accepted sample_accepted(1) sample_platform_collates sample_sendable_input(2,3) sample_rules_passed sample_sendable) simp_all
qed

definition close_event :: market_event where
  "close_event = \<lparr>me_epoch = 1200, me_sequence = 0, me_tick_price_ticks = 108, me_barstate_isconfirmed = True, me_confirmed_bar = Some sample_bar\<rparr>"

definition close_payload :: "evaluation \<Rightarrow> json" where
  "close_payload v = sample_payload (replicate 64 (CHR ''a'')) close_event [] [bundle_json (computed_bundle sample_input sample_rules v sample_plan)]"

lemma close_id_lengths:
  "length (cd_candidate_id (fst close_pair)) = 64" "length (ev_evidence_id (snd close_pair)) = 64" "length (ev_payload_sha256 (snd close_pair)) = 64"
  "length (sl_selection_id (make_selection sample_platform i r t ids can rsn act ms)) = 64"
proof -
  show "length (cd_candidate_id (fst close_pair)) = 64" "length (ev_evidence_id (snd close_pair)) = 64" "length (ev_payload_sha256 (snd close_pair)) = 64"
    using close_digests(1) by (simp_all add: proper_ids_def proper_digest_def is_sha256_def)
  show "length (sl_selection_id (make_selection sample_platform i r t ids can rsn act ms)) = 64"
    using make_selection_id[of sample_platform i r t ids can rsn act ms] is_sha256_canonicalSha256[OF sample_platform_width] by (auto simp: is_sha256_def)
qed

lemma close_records:
  "cd_setup_id (fst close_pair) = ''setup-1''" "cd_model (fst close_pair) = DIR_CLOSE" "cd_state (fst close_pair) = MATCHED" "cd_direction (fst close_pair) = LONG"
  "cd_event_anchor_epoch (fst close_pair) = 900" "cd_trigger_ordinal (fst close_pair) = 1" "cd_boc_tier (fst close_pair) = None"
  "cd_reference_candle_open_epoch (fst close_pair) = None" "cd_source_claim_ids (fst close_pair) = SOURCE_CLAIMS_DIR_CLOSE" "cd_observed_at_epoch (fst close_pair) = 1200"
  "ev_candidate_id (snd close_pair) = cd_candidate_id (fst close_pair)"
  "ev_observed_trigger_epoch (snd close_pair) = Some 1200" "ev_trigger_sequence (snd close_pair) = 0" "ev_observed_trigger_ticks (snd close_pair) = Some 108"
  "ev_htf_context_minutes (snd close_pair) = []" "ev_fidelity (snd close_pair) = EXACT" "ev_proof_plane (snd close_pair) = CONFIRMED_5M"
  "ev_replayability (snd close_pair) = REPLAYABLE" "ev_coverage_start_epoch (snd close_pair) = 900" "ev_coverage_end_epoch (snd close_pair) = 1200"
  "ev_ambiguity_codes (snd close_pair) = []" "ev_boc_tier (snd close_pair) = None" "ev_reference_candle_open_epoch (snd close_pair) = None"
  "ev_reference_candle_open_ticks (snd close_pair) = None" "ev_reference_candle_high_ticks (snd close_pair) = None" "ev_reference_candle_low_ticks (snd close_pair) = None"
  "ev_reference_candle_close_ticks (snd close_pair) = None" "ev_htf_open_ticks (snd close_pair) = None" "ev_contact_candle (snd close_pair) = None"
  "ev_recross_candle (snd close_pair) = None" "ev_coverage_gap_detected (snd close_pair) = None" "ev_full_lifecycle_ordered (snd close_pair) = None"
  "ev_destination_seen_before_contact (snd close_pair) = None" "ev_passed_rule_ids (snd close_pair) = [''ENTRY_DIR_CLOSE'']" "ev_failed_rule_ids (snd close_pair) = []"
  "ev_source_claim_ids (snd close_pair) = SOURCE_CLAIMS_DIR_CLOSE" "ev_observed_at_epoch (snd close_pair) = 1200"
  by (simp_all add: close_form Let_def sample_input_fields input_setup_def match_request_of_def)

lemma js_number_lengths: "length (js_number 0) = 1" "length (js_number 1) = 1" "length (js_number 90) = 2" "length (js_number 105) = 3" "length (js_number 600) = 3"
  "length (js_number 900) = 3" "length (js_number 108) = 3" "length (js_number 1200) = 4" "length (js_number 140) = 3" "length (js_number 1500) = 4"
  "length (js_number 100) = 3" "length (js_number 110) = 3" "length (js_number 95) = 2"
  by code_simp+

lemma close_bundle_form:
  assumes "evaluateEntryV3Bundle sample_platform sample_input = Inr v"
  shows "bundle_json (computed_bundle sample_input sample_rules v sample_plan) = JObj
     [(''setup'', setup_json (sample_facts EXACT TWO_PLUS_CANDLES) sample_rules), (''candidates'', JArr [candidate_json (fst close_pair)]),
      (''evidence'', JArr [evidence_json (snd close_pair)]),
      (''selection_proposal'', selection_json (make_selection sample_platform ''setup-1'' 0 1200 [cd_candidate_id (fst close_pair)] (Some close_pair) ONLY_EXACT_TRIGGER PAPER_ELIGIBLE [])),
      (''trade_plan'', plan_json sample_plan)]"
  by (simp add: bundle_json_def computed_bundle_def close_evaluated[OF assms])
    (simp add: input_setup_def sample_input_def input_cohort_def input_one_candle_def sample_facts_def)

lemma sample_sizes: "json_size (setup_json (sample_facts EXACT TWO_PLUS_CANDLES) sample_rules) < 1500" "json_size (plan_json sample_plan) < 100"
  by code_simp+

lemma close_sizes: "json_size (candidate_json (fst close_pair)) < 800" "json_size (evidence_json (snd close_pair)) < 1200"
  "json_size (selection_json (make_selection sample_platform ''setup-1'' 0 1200 [cd_candidate_id (fst close_pair)] (Some close_pair) ONLY_EXACT_TRIGGER PAPER_ELIGIBLE [])) < 700"
  by (simp_all add: candidate_json_def evidence_json_def selection_json_def close_records close_id_lengths js_number_lengths j_opt_def j_strings_def
      SOURCE_CLAIMS_DIR_CLOSE_def POLICY_VERSION_V3_def)

lemma close_tokens:
  assumes "evaluateEntryV3Bundle sample_platform sample_input = Inr v"
  shows "safe_tokens (strict_of (close_payload v))" "json_size (close_payload v) < 5800"
proof -
  have "safe_tokens (strict_of (setup_json (sample_facts EXACT TWO_PLUS_CANDLES) sample_rules))" "safe_tokens (strict_of (plan_json sample_plan))"
    "safe_tokens (strict_of (event_json close_event))" by code_simp+
  moreover have "safe_tokens (strict_of (candidate_json (fst close_pair)))" "safe_tokens (strict_of (evidence_json (snd close_pair)))"
    "safe_tokens (strict_of (selection_json (make_selection sample_platform ''setup-1'' 0 1200 [cd_candidate_id (fst close_pair)] (Some close_pair) ONLY_EXACT_TRIGGER PAPER_ELIGIBLE [])))"
    by (simp_all add: candidate_json_def evidence_json_def selection_json_def close_records sample_integers j_opt_def j_strings_def list_all_iff)
  ultimately show "safe_tokens (strict_of (close_payload v))"
    by (simp add: close_payload_def sample_payload_def payload_members_def close_bundle_form[OF assms] sample_integers)
  have "json_size (event_json close_event) < 300" by code_simp
  with sample_sizes close_sizes show "json_size (close_payload v) < 5800"
    by (simp add: close_payload_def sample_payload_def payload_members_def close_bundle_form[OF assms] js_number_lengths)
qed

lemma close_accepted:
  assumes v: "evaluateEntryV3Bundle sample_platform sample_input = Inr v"
    and read: "parseBundle sample_platform (Some (strict_of (bundle_json (computed_bundle sample_input sample_rules v sample_plan)))) False V31 =
       Inr (computed_bundle sample_input sample_rules v sample_plan)"
  shows "\<exists>w. validateEntryV3Payload sample_platform (strict_of (close_payload v)) = Inr w \<and> vp_entryBundles w = [computed_bundle sample_input sample_rules v sample_plan] \<and>
     vp_marketEvent w = close_event \<and> vp_eventRole w = ENTRY_DECISION \<and> vp_isRealtime w \<and> vp_exitEvents w = [] \<and> vp_detectorCodeHash w = replicate 64 (CHR ''a'') \<and>
     vp_settingsHash w = replicate 64 (CHR ''a'') \<and> vp_tickSize w = ''0.0001'' \<and> vp_metadata w = payload_metadata \<and> vp_observedAtEpoch w = 1500"
proof -
  let ?b = "computed_bundle sample_input sample_rules v sample_plan" and ?hash = "replicate 64 (CHR ''a'')"
  have hash: "is_sha256 ?hash" "?hash \<noteq> zero_digest" "?hash \<noteq> ''UNREVIEWED''"
  proof -
    have "length ?hash \<noteq> length ''UNREVIEWED''" by simp
    thus "?hash \<noteq> ''UNREVIEWED''" by metis
  qed (simp_all add: is_sha256_def hex_string_def hex_chars_def zero_digest_def list_all_iff)
  have bundles: "v3_items 1 32 (\<lambda>x. parseBundle sample_platform x (?hash = ''UNREVIEWED'') V31) (Some (strict_of (JArr [bundle_json ?b]))) = Inr [?b]"
    using read hash(3) by (simp add: v3_items_def v3_values_def)
  have event: "parseMarketEvent (Some (strict_of (event_json close_event))) = Inr close_event"
  proof (rule event_reads)
    fix b assume "me_confirmed_bar close_event = Some b"
    hence b: "b = sample_bar" by (simp add: close_event_def)
    have "parseCandle True (Some (strict_of (candle_json sample_bar))) = Inr sample_bar"
      unfolding parseCandle_def candle_json_def
      by (subst record_back) (simp_all add: CANDLE_KEYS_def back_simps sample_bar_def sample_integers validateOrderedCandleV3_None_iff candle_ok_def max3_def min3_def Let_def
          del: strict_of.simps)
    thus "parseCandle True (Some (strict_of (candle_json b))) = Inr b \<and> me_epoch close_event = close_epoch b \<and> me_tick_price_ticks close_event = close_ticks b"
      by (simp add: b) (simp add: close_event_def sample_bar_def)
  qed (simp_all add: close_event_def sample_integers)
  have exits: "v3_items 0 32 parseExitEvent (Some (strict_of (JArr []))) = Inr []" by (simp add: v3_items_def v3_values_def)
  have facts: "validate_bundles 1500 ENTRY_DECISION True close_event [?b] = Inr ()"
    by (simp add: bundle_too_late_def validateAuthoritativePaperFacts_def selectedAuthoritativePairs_def computed_bundle_def close_evaluated[OF v] close_records
        candidates_by_id_def map_get_def sample_plan_def close_event_def sample_bar_def pair_facts_violated_def close_facts_violated_def close_bar_mismatch_def
        input_setup_def sample_input_def case_prod_unfold)
  show ?thesis
    using payload_reads[OF close_tokens[OF v, unfolded close_payload_def] _ event _ exits bundles] hash facts
    unfolding close_payload_def by (auto simp: close_event_def validateExitFollowup_def)
qed


end
