(* ===== verification/Signal_Evidence.thy ===== *)
theory Signal_Evidence
  imports Signal_Admission Entry_Wire_Facts
begin

text \<open>
  Validation of signal evidence (\<open>signal-evidence-v1.ts\<close>, \<open>signal-evidence-identity-v1.ts\<close>): the bytes of an envelope and of
  the reviewed binding become entries for the admission. The observation inside the envelope goes through
  the v3 wire reader, each setup is tied to the formation it claims, and every entry gets its attempt,
  formation and evidence identifiers.

  Functions that throw are computations in the option monad, since every exception becomes the rejection
  code of the place that catches it. A branded number of the strict reader is not an object here; the
  source refuses one a step later, by its keys, with the same code.
\<close>

section \<open>Data\<close>

datatype evidence_reject = INPUT_SIZE | BINDING_SIZE | INVALID_JSON | INVALID_BINDING | INVALID_ENVELOPE | UNSUPPORTED_OBSERVATION
  | INVALID_OBSERVATION | BINDING_MISMATCH | INVALID_FORMATION | INELIGIBLE_SOURCE | INELIGIBLE_EVIDENCE

record reviewed_binding =
  rb_producer_namespace :: string
  rb_ticker_id :: string
  rb_feed :: string
  rb_symbol :: string
  rb_tick_size :: string
  rb_detector_code_hash :: string
  rb_settings_hash :: string

datatype formation_variant = STANDARD | ACCURACY

record formation =
  fm_setup_id :: string
  fm_origin_epoch :: int
  fm_confirmation_epoch :: int
  fm_direction :: direction
  fm_variant :: formation_variant
  fm_origin_open_ticks :: int
  fm_origin_high_ticks :: int
  fm_origin_low_ticks :: int
  fm_origin_close_ticks :: int
  fm_zone_top_ticks :: int
  fm_zone_bottom_ticks :: int
  fm_formation_source_id :: string

definition INPUT_MAX :: nat where "INPUT_MAX = 262144"
definition BINDING_MAX :: nat where "BINDING_MAX = 4096"

section \<open>Formations\<close>

definition FORMATION_KEYS :: "string list" where
  "FORMATION_KEYS = [''setup_id'', ''origin_epoch'', ''confirmation_epoch'', ''direction'', ''variant'', ''origin_open_ticks'', ''origin_high_ticks'',
     ''origin_low_ticks'', ''origin_close_ticks'', ''formation_source_id'']"

fun variant_name :: "formation_variant \<Rightarrow> string" where
  "variant_name STANDARD = ''STANDARD''"
| "variant_name ACCURACY = ''ACCURACY''"

text \<open>\<open>^[!-~]+$\<close> within a length.\<close>

definition printable_unit :: "nat \<Rightarrow> bool" where
  "printable_unit u \<longleftrightarrow> 33 \<le> u \<and> u \<le> 126"

definition printable_text :: "nat \<Rightarrow> strict_json \<Rightarrow> string option" where
  "printable_text maximum v = (case v of
       SStr s \<Rightarrow> if s \<noteq> [] \<and> length s \<le> maximum \<and> list_all printable_unit s then Some (string_of_units s) else None
     | _ \<Rightarrow> None)"

definition positiveInteger :: "strict_json \<Rightarrow> int option" where
  "positiveInteger v = (case v of SNum raw (Some n) \<Rightarrow> if is_safe_integer n \<and> n > 0 then Some n else None | _ \<Rightarrow> None)"

definition sameKeys :: "members \<Rightarrow> bool" where
  "sameKeys value \<longleftrightarrow> js_sort compare_unit_lists (map fst value) = js_sort compare_unit_lists (map units_of FORMATION_KEYS)"

definition expected_top :: "formation_variant \<Rightarrow> direction \<Rightarrow> int \<Rightarrow> int \<Rightarrow> int \<Rightarrow> int" where
  "expected_top variant dir high opn cls = (if variant = STANDARD \<or> dir = SHORT then high else if opn > cls then opn else cls)"

definition expected_bottom :: "formation_variant \<Rightarrow> direction \<Rightarrow> int \<Rightarrow> int \<Rightarrow> int \<Rightarrow> int" where
  "expected_bottom variant dir low opn cls = (if variant = STANDARD \<or> dir = LONG then low else if opn < cls then opn else cls)"

definition read_formation :: "(string, setup_facts) js_map \<Rightarrow> string list \<Rightarrow> strict_json \<Rightarrow> formation option" where
  "read_formation setupById seen v = do {
     input \<leftarrow> strict_record v;
     require (sameKeys input);
     setupId \<leftarrow> read_field input ''setup_id'' (printable_text 256);
     formationSourceId \<leftarrow> read_field input ''formation_source_id'' (printable_text 1024);
     setup \<leftarrow> map_get setupById setupId;
     require (setupId \<notin> set seen);
     originEpoch \<leftarrow> read_field input ''origin_epoch'' positiveInteger;
     confirmationEpoch \<leftarrow> read_field input ''confirmation_epoch'' positiveInteger;
     opn \<leftarrow> read_field input ''origin_open_ticks'' positiveInteger;
     high \<leftarrow> read_field input ''origin_high_ticks'' positiveInteger;
     low \<leftarrow> read_field input ''origin_low_ticks'' positiveInteger;
     cls \<leftarrow> read_field input ''origin_close_ticks'' positiveInteger;
     dir \<leftarrow> enum_of direction_name DIRECTIONS (field_of input ''direction'');
     variant \<leftarrow> enum_of variant_name [STANDARD, ACCURACY] (field_of input ''variant'');
     require (dir = su_direction setup \<and> originEpoch mod 300 = 0 \<and> confirmationEpoch mod 300 = 0 \<and> originEpoch < confirmationEpoch);
     engaged \<leftarrow> su_zone_engaged_epoch setup;
     require (confirmationEpoch \<le> engaged \<and> low < high \<and> low \<le> opn \<and> opn \<le> high \<and> low \<le> cls \<and> cls \<le> high \<and>
       (if dir = LONG then cls < opn else cls > opn));
     require (su_zone_top_ticks setup = expected_top variant dir high opn cls \<and>
       su_zone_bottom_ticks setup = expected_bottom variant dir low opn cls \<and> su_zone_bottom_ticks setup < su_zone_top_ticks setup);
     Some \<lparr>fm_setup_id = setupId, fm_origin_epoch = originEpoch, fm_confirmation_epoch = confirmationEpoch, fm_direction = dir, fm_variant = variant,
       fm_origin_open_ticks = opn, fm_origin_high_ticks = high, fm_origin_low_ticks = low, fm_origin_close_ticks = cls,
       fm_zone_top_ticks = su_zone_top_ticks setup, fm_zone_bottom_ticks = su_zone_bottom_ticks setup, fm_formation_source_id = formationSourceId\<rparr> }"

fun read_formations :: "(string, setup_facts) js_map \<Rightarrow> string list \<Rightarrow> strict_json list \<Rightarrow> formation list option" where
  "read_formations setupById seen [] = Some []"
| "read_formations setupById seen (v # vs) = do {
     f \<leftarrow> read_formation setupById seen v;
     fs \<leftarrow> read_formations setupById (seen @ [fm_setup_id f]) vs;
     Some (f # fs) }"

definition setups_by_id :: "setup_facts list \<Rightarrow> (string, setup_facts) js_map" where
  "setups_by_id setups = fold (\<lambda>s. map_set (su_setup_id s) s) setups []"

definition by_setup_id :: "formation list \<Rightarrow> formation list" where
  "by_setup_id fs = js_sort (\<lambda>l r. compare_units (fm_setup_id l) (fm_setup_id r)) fs"

definition validateSignalEvidenceFormationsV1 :: "strict_json \<Rightarrow> setup_facts list \<Rightarrow> formation list option" where
  "validateSignalEvidenceFormationsV1 value setups = do {
     values \<leftarrow> (case value of SArr vs \<Rightarrow> Some vs | _ \<Rightarrow> None);
     require (length values = length setups \<and> length (setups_by_id setups) = length setups);
     formations \<leftarrow> read_formations (setups_by_id setups) [] values;
     require (length (js_set (map fm_setup_id formations)) = length (setups_by_id setups));
     Some (by_setup_id formations) }"

section \<open>Identity\<close>

definition attempt_json :: "string \<Rightarrow> string \<Rightarrow> string \<Rightarrow> formation \<Rightarrow> json" where
  "attempt_json strategyId tickerId feed f = JObj
     [(''domain'', JStr ''tradeops-demo-attempt-v1''), (''strategy_id'', JStr strategyId), (''ticker_id'', JStr tickerId), (''feed'', JStr feed),
      (''timeframe'', JStr ''5''), (''origin_epoch'', JNum (fm_origin_epoch f)), (''confirmation_epoch'', JNum (fm_confirmation_epoch f)),
      (''direction'', JStr (direction_name (fm_direction f))), (''variant'', JStr (variant_name (fm_variant f))), (''attempt_kind'', JStr ''INITIAL'')]"

definition formation_body_json :: "string \<Rightarrow> formation \<Rightarrow> json" where
  "formation_body_json tickSize f = JObj
     [(''domain'', JStr ''tradeops-demo-formation-v1''), (''origin_epoch'', JNum (fm_origin_epoch f)), (''confirmation_epoch'', JNum (fm_confirmation_epoch f)),
      (''direction'', JStr (direction_name (fm_direction f))), (''variant'', JStr (variant_name (fm_variant f))),
      (''origin_open_ticks'', JNum (fm_origin_open_ticks f)), (''origin_high_ticks'', JNum (fm_origin_high_ticks f)),
      (''origin_low_ticks'', JNum (fm_origin_low_ticks f)), (''origin_close_ticks'', JNum (fm_origin_close_ticks f)), (''tick_size'', JStr tickSize),
      (''zone_top_ticks'', JNum (fm_zone_top_ticks f)), (''zone_bottom_ticks'', JNum (fm_zone_bottom_ticks f))]"

definition evidence_id_json :: "string \<Rightarrow> string \<Rightarrow> string \<Rightarrow> int \<Rightarrow> string \<Rightarrow> json" where
  "evidence_id_json namespace instance event seq attemptKey = JObj
     [(''domain'', JStr ''tradeops-signal-evidence-id-v1''), (''producer_namespace'', JStr namespace), (''producer_instance_id'', JStr instance),
      (''event_id'', JStr event), (''producer_sequence'', JNum seq), (''attempt_key'', JStr attemptKey)]"

record evidence_identity_v1 =
  ei_attempt_key :: string
  ei_formation_body_sha256 :: string
  ei_evidence_id :: string

definition deriveSignalEvidenceIdentityV1 :: "platform \<Rightarrow> reviewed_binding \<Rightarrow> receipt_metadata \<Rightarrow> formation \<Rightarrow> evidence_identity_v1" where
  "deriveSignalEvidenceIdentityV1 P reviewed md f =
     (let attemptKey = canonicalSha256 P (attempt_json ''rd_liquidity_sd_5m_v1'' (rb_ticker_id reviewed) (rb_feed reviewed) f) in
      \<lparr>ei_attempt_key = attemptKey, ei_formation_body_sha256 = canonicalSha256 P (formation_body_json (rb_tick_size reviewed) f),
       ei_evidence_id = canonicalSha256 P (evidence_id_json (rb_producer_namespace reviewed) (rm_producerInstanceId md) (rm_idempotencyKey md)
         (rm_sequence md) attemptKey)\<rparr>)"

section \<open>Envelope and binding\<close>

definition evidence_binding :: "strict_json \<Rightarrow> reviewed_binding option" where
  "evidence_binding v = do {
     item \<leftarrow> strict_record v;
     require (strict_keys item BINDING_KEYS);
     require (is_text item ''schema_version'' ''TradeOpsSignalEvidenceBindingV1'');
     tickSize \<leftarrow> read_field item ''tick_size'' (printable_text 64);
     require (positive_decimal (units_of tickSize) \<and> canonical_tick tickSize = tickSize);
     detector \<leftarrow> read_field item ''detector_code_hash'' (printable_text 64);
     settings \<leftarrow> read_field item ''settings_hash'' (printable_text 64);
     require (is_sha256 detector \<and> detector \<noteq> zero_digest \<and> is_sha256 settings \<and> settings \<noteq> zero_digest);
     namespace \<leftarrow> read_field item ''producer_namespace'' (printable_text 256);
     ticker \<leftarrow> read_field item ''ticker_id'' (printable_text 256);
     feed \<leftarrow> read_field item ''feed'' (printable_text 256);
     symbol \<leftarrow> read_field item ''symbol'' (printable_text 256);
     Some \<lparr>rb_producer_namespace = namespace, rb_ticker_id = ticker, rb_feed = feed, rb_symbol = symbol, rb_tick_size = tickSize,
       rb_detector_code_hash = detector, rb_settings_hash = settings\<rparr> }"

definition read_envelope :: "strict_json \<Rightarrow> (strict_json \<times> strict_json) option" where
  "read_envelope raw = do {
     envelope \<leftarrow> strict_record raw;
     require (strict_keys envelope [''formations'', ''observation'', ''schema_version'']);
     require (is_text envelope ''schema_version'' ''TradeOpsSignalEvidenceInputV1'');
     observation \<leftarrow> field_of envelope ''observation'';
     formations \<leftarrow> field_of envelope ''formations'';
     Some (observation, formations) }"

definition supported_observation :: "strict_json \<Rightarrow> bool" where
  "supported_observation v = (case strict_record v of
       None \<Rightarrow> False
     | Some header \<Rightarrow> is_text header ''schema_version'' ''3.1'' \<and> is_text header ''strategy_version'' ''3.1.0-contract3'' \<and>
         is_text header ''rule_contract_version'' ''3.1.0'')"

fun integerTokens :: "strict_json \<Rightarrow> bool" where
  "integerTokens (SNum raw n) = (case n of None \<Rightarrow> False | Some i \<Rightarrow> is_safe_integer i)"
| "integerTokens (SArr vs) = list_all integerTokens vs"
| "integerTokens (SObj kvs) = list_all (\<lambda>kv. integerTokens (snd kv)) kvs"
| "integerTokens _ = True"

definition sort_texts :: "strict_json \<Rightarrow> strict_json" where
  "sort_texts v = (case v of
       SArr vs \<Rightarrow> if list_all (\<lambda>x. strict_string x \<noteq> None) vs
         then SArr (js_sort (\<lambda>a b. compare_unit_lists (the (strict_string a)) (the (strict_string b))) vs) else v
     | _ \<Rightarrow> v)"

definition normalize_list :: "string \<Rightarrow> members \<Rightarrow> members" where
  "normalize_list k proposal = (case field_of proposal k of None \<Rightarrow> proposal | Some v \<Rightarrow> with_member k (sort_texts v) proposal)"

definition normalize_proposal :: "strict_json \<Rightarrow> strict_json" where
  "normalize_proposal item = (case item of
       SObj kvs \<Rightarrow> (case field_of kvs ''selection_proposal'' of
           Some (SObj proposal) \<Rightarrow>
             SObj (with_member ''selection_proposal'' (SObj (normalize_list ''co_triggered_models'' (normalize_list ''candidate_ids_considered'' proposal))) kvs)
         | _ \<Rightarrow> item)
     | _ \<Rightarrow> item)"

definition normalizeProposalLists :: "strict_json \<Rightarrow> strict_json" where
  "normalizeProposalLists v = (case v of
       SObj header \<Rightarrow> (case field_of header ''setups'' of
           Some (SArr setups) \<Rightarrow> SObj (with_member ''setups'' (SArr (map normalize_proposal setups)) header)
         | _ \<Rightarrow> v)
     | _ \<Rightarrow> v)"

section \<open>Entries\<close>

text \<open>Lists that stand for sets, in the order of their identifiers.\<close>

definition member_key :: "string \<Rightarrow> json \<Rightarrow> string" where
  "member_key k v = (case v of JObj kvs \<Rightarrow> (case map_of kvs k of Some (JStr s) \<Rightarrow> s | _ \<Rightarrow> ''undefined'') | _ \<Rightarrow> ''undefined'')"

definition setup_text :: "json \<Rightarrow> string" where
  "setup_text v = (case v of JObj kvs \<Rightarrow> (case map_of kvs ''setup'' of Some s \<Rightarrow> member_key ''setup_id'' s | None \<Rightarrow> []) | _ \<Rightarrow> [])"

definition item_text :: "json \<Rightarrow> string" where
  "item_text v = (case v of JStr s \<Rightarrow> s | _ \<Rightarrow> [])"

definition sort_values :: "string \<Rightarrow> json list \<Rightarrow> json list" where
  "sort_values key vs =
     (let by = (\<lambda>text. js_sort (\<lambda>a b. compare_units (text a) (text b)) vs) in
      if key = ''setups'' then by setup_text
      else if key = ''formations'' then by (member_key ''setup_id'')
      else if key = ''candidates'' then by (member_key ''candidate_id'')
      else if key = ''evidence'' then by (member_key ''evidence_id'')
      else if key = ''candidate_ids_considered'' \<or> key = ''co_triggered_models'' then by item_text
      else vs)"

fun normalize_json :: "string \<Rightarrow> json \<Rightarrow> json" where
  "normalize_json key (JArr vs) = JArr (sort_values key (map (normalize_json []) vs))"
| "normalize_json key (JObj kvs) = JObj (map (\<lambda>(k, v). (k, normalize_json k v)) kvs)"
| "normalize_json key v = v"

text \<open>\<open>plain\<close>: the strings of an accepted payload are printable ASCII and its numbers integer tokens.\<close>

fun plain_json :: "strict_json \<Rightarrow> json" where
  "plain_json SNull = JNull"
| "plain_json (SBool b) = JBool b"
| "plain_json (SStr s) = JStr (string_of_units s)"
| "plain_json (SNum raw n) = JNum (case number_value (SNum raw n) of Some i \<Rightarrow> i | None \<Rightarrow> 0)"
| "plain_json (SArr vs) = JArr (map plain_json vs)"
| "plain_json (SObj kvs) = JObj (map (\<lambda>(k, v). (string_of_units k, plain_json v)) kvs)"

definition source_of :: "validated_payload \<Rightarrow> json" where
  "source_of v = normalize_json [] (plain_json (SObj (vp_canonicalPayload v)))"

definition evaluation_json :: "evaluation \<Rightarrow> json" where
  "evaluation_json v = JObj [(''candidates'', JArr (map candidate_json (el_candidates v))), (''evidence'', JArr (map evidence_json (el_evidence v))),
     (''selection'', selection_json (el_selection v))]"

definition formation_json :: "formation \<Rightarrow> json" where
  "formation_json f = JObj
     [(''setup_id'', JStr (fm_setup_id f)), (''origin_epoch'', JNum (fm_origin_epoch f)), (''confirmation_epoch'', JNum (fm_confirmation_epoch f)),
      (''direction'', JStr (direction_name (fm_direction f))), (''variant'', JStr (variant_name (fm_variant f))),
      (''origin_open_ticks'', JNum (fm_origin_open_ticks f)), (''origin_high_ticks'', JNum (fm_origin_high_ticks f)),
      (''origin_low_ticks'', JNum (fm_origin_low_ticks f)), (''origin_close_ticks'', JNum (fm_origin_close_ticks f)),
      (''zone_top_ticks'', JNum (fm_zone_top_ticks f)), (''zone_bottom_ticks'', JNum (fm_zone_bottom_ticks f)),
      (''formation_source_id'', JStr (fm_formation_source_id f))]"

definition binding_json :: "reviewed_binding \<Rightarrow> json" where
  "binding_json b = JObj
     [(''schema_version'', JStr ''TradeOpsSignalEvidenceBindingV1''), (''producer_namespace'', JStr (rb_producer_namespace b)),
      (''ticker_id'', JStr (rb_ticker_id b)), (''feed'', JStr (rb_feed b)), (''symbol'', JStr (rb_symbol b)), (''tick_size'', JStr (rb_tick_size b)),
      (''detector_code_hash'', JStr (rb_detector_code_hash b)), (''settings_hash'', JStr (rb_settings_hash b))]"

definition eligibleProof :: "candidate \<Rightarrow> evidence \<Rightarrow> bool" where
  "eligibleProof c e \<longleftrightarrow>
     cd_state c = MATCHED \<and> ev_candidate_id e = cd_candidate_id c \<and> ev_fidelity e = EXACT \<and> ev_failed_rule_ids e = [] \<and>
     (case cd_model c of
        BOC \<Rightarrow> cd_boc_tier c = Some HTF_TIMED \<and> ev_boc_tier e = Some HTF_TIMED \<and> ev_proof_plane e = REALTIME_TICK \<and>
          ev_replayability e = LIVE_EXACT_NON_REPLAYABLE \<and> ev_reference_candle_open_epoch e \<noteq> None \<and> ev_observed_trigger_ticks e \<noteq> None
      | DIR_CLOSE \<Rightarrow> ev_proof_plane e = CONFIRMED_5M \<and> ev_replayability e = REPLAYABLE \<and> ev_observed_trigger_epoch e \<noteq> None
      | HTF_FLIP \<Rightarrow> ev_proof_plane e = REALTIME_TICK \<and> ev_replayability e = LIVE_EXACT_NON_REPLAYABLE \<and>
          (case (ev_contact_candle e, ev_recross_candle e) of
             (Some contact, Some recross) \<Rightarrow> ev_coverage_gap_detected e = Some False \<and> ev_full_lifecycle_ordered e = Some True \<and>
               ev_destination_seen_before_contact e = Some False \<and> close_epoch contact \<le> open_epoch recross
           | _ \<Rightarrow> False))"

text \<open>\<open>None\<close> where the source throws.\<close>

definition selected_pair :: "entry_bundle \<Rightarrow> (candidate \<times> evidence) option option" where
  "selected_pair bundle =
     (let s = el_selection (eb_evaluation bundle) in
      case (sl_canonical_candidate_id s, sl_canonical_evidence_id s, sl_canonical_model s) of
        (Some candidateId, Some evidenceId, Some model) \<Rightarrow> do {
          c \<leftarrow> List.find (\<lambda>c. cd_candidate_id c = candidateId \<and> cd_model c = model) (el_candidates (eb_evaluation bundle));
          e \<leftarrow> List.find (\<lambda>e. ev_evidence_id e = evidenceId \<and> ev_candidate_id e = candidateId) (el_evidence (eb_evaluation bundle));
          require (sl_action s = PAPER_ELIGIBLE \<and> sl_fidelity s = Some EXACT \<and> eligibleProof c e);
          Some (Some (c, e)) }
      | _ \<Rightarrow> Some None)"

definition entry_body :: "evidence_identity_v1 \<Rightarrow> formation \<Rightarrow> reviewed_binding \<Rightarrow> json \<Rightarrow> entry_bundle \<Rightarrow> (candidate \<times> evidence) option
    \<Rightarrow> (string \<times> json) list" where
  "entry_body i f reviewed source bundle chosen =
     [(''schema_version'', JStr ''TradeOpsSignalEvidenceV1''), (''authority'', JStr ''EVIDENCE_ONLY''), (''execution_allowed'', JBool False),
      (''status'', JStr (if chosen = None then ''NO_CANDIDATE'' else ''SELECTED'')), (''attempt_key'', JStr (ei_attempt_key i)),
      (''formation_body_sha256'', JStr (ei_formation_body_sha256 i)), (''evidence_id'', JStr (ei_evidence_id i)), (''formation'', formation_json f),
      (''reviewed_binding'', binding_json reviewed), (''source_observation'', source),
      (''edge_evaluation'', normalize_json [] (evaluation_json (eb_evaluation bundle))),
      (''selected'', j_opt (\<lambda>(c, e). normalize_json [] (JObj [(''candidate'', candidate_json c), (''evidence'', evidence_json e)])) chosen)]"

definition make_entry :: "platform \<Rightarrow> evidence_identity_v1 \<Rightarrow> formation \<Rightarrow> reviewed_binding \<Rightarrow> json \<Rightarrow> entry_bundle \<Rightarrow> (candidate \<times> evidence) option
    \<Rightarrow> signal_entry" where
  "make_entry P i f reviewed source bundle chosen =
     (let body = entry_body i f reviewed source bundle chosen; digest = canonicalSha256 P (JObj body) in
      \<lparr>se_attempt_key = ei_attempt_key i, se_formation_body_sha256 = ei_formation_body_sha256 i, se_evidence_id = ei_evidence_id i,
       se_evidence_body_sha256 = digest,
       se_observed_at_epoch = (case source of JObj kvs \<Rightarrow> (case map_of kvs ''observed_at_epoch'' of Some v \<Rightarrow> v | None \<Rightarrow> JNull) | _ \<Rightarrow> JNull),
       se_selected = chosen, se_json = JObj (body @ [(''evidence_body_sha256'', JStr digest)])\<rparr>)"

fun build_entries :: "platform \<Rightarrow> reviewed_binding \<Rightarrow> validated_payload \<Rightarrow> json \<Rightarrow> string list \<Rightarrow> formation list
    \<Rightarrow> evidence_reject + (formation \<times> signal_entry) list" where
  "build_entries P reviewed v source seen [] = Inr []"
| "build_entries P reviewed v source seen (f # fs) =
     (case Option.bind (List.find (\<lambda>b. su_setup_id (eb_setup b) = fm_setup_id f) (vp_entryBundles v)) (\<lambda>b. map_option (Pair b) (selected_pair b)) of
        None \<Rightarrow> Inl INELIGIBLE_EVIDENCE
      | Some (bundle, chosen) \<Rightarrow>
          (let i = deriveSignalEvidenceIdentityV1 P reviewed (vp_metadata v) f in
           if ei_evidence_id i \<in> set seen then Inl INVALID_FORMATION
           else map_sum id ((#) (f, make_entry P i f reviewed source bundle chosen))
             (build_entries P reviewed v source (seen @ [ei_evidence_id i]) fs)))"

definition binding_conflict :: "validated_payload \<Rightarrow> reviewed_binding \<Rightarrow> bool" where
  "binding_conflict v b \<longleftrightarrow> rm_tickerId (vp_metadata v) \<noteq> rb_ticker_id b \<or> rm_feed (vp_metadata v) \<noteq> rb_feed b \<or> rm_symbol (vp_metadata v) \<noteq> rb_symbol b \<or>
     canonical_tick (vp_tickSize v) \<noteq> rb_tick_size b \<or> vp_detectorCodeHash v \<noteq> rb_detector_code_hash b \<or> vp_settingsHash v \<noteq> rb_settings_hash b"

definition ineligible_source :: "validated_payload \<Rightarrow> bool" where
  "ineligible_source v \<longleftrightarrow> vp_eventRole v \<noteq> ENTRY_DECISION \<or> \<not> vp_isRealtime v \<or> vp_exitEvents v \<noteq> [] \<or>
     list_ex (\<lambda>b. su_common_fidelity (eb_setup b) \<noteq> EXACT \<or> su_liquidity_cohort (eb_setup b) \<noteq> TWO_PLUS_CANDLES \<or>
       su_invalidated_before_entry (eb_setup b) \<or> su_zone_engaged_epoch (eb_setup b) = None \<or> list_ex (\<lambda>r. \<not> cr_passed r) (eb_commonRuleResults b))
       (vp_entryBundles v)"

definition evidence_entries :: "platform \<Rightarrow> reviewed_binding \<Rightarrow> strict_json \<Rightarrow> strict_json \<Rightarrow> evidence_reject + signal_entry list" where
  "evidence_entries P reviewed observation formationsValue =
     (if \<not> supported_observation observation then Inl UNSUPPORTED_OBSERVATION
      else if \<not> integerTokens observation then Inl INVALID_OBSERVATION
      else case validateEntryV3Payload P (normalizeProposalLists observation) of
        Inl _ \<Rightarrow> Inl INVALID_OBSERVATION
      | Inr v \<Rightarrow>
          if binding_conflict v reviewed then Inl BINDING_MISMATCH
          else case validateSignalEvidenceFormationsV1 formationsValue (map eb_setup (vp_entryBundles v)) of
            None \<Rightarrow> Inl INVALID_FORMATION
          | Some formations \<Rightarrow>
              if ineligible_source v then Inl INELIGIBLE_SOURCE
              else map_sum id (\<lambda>es. map snd (js_sort (\<lambda>a b. compare_units (fm_setup_id (fst a)) (fm_setup_id (fst b))) es))
                (build_entries P reviewed v (source_of v) [] formations))"

definition validateSignalEvidenceV1 :: "platform \<Rightarrow> nat list \<Rightarrow> nat list \<Rightarrow> evidence_reject + signal_entry list" where
  "validateSignalEvidenceV1 P inputBytes bindingBytes =
     (if length inputBytes = 0 \<or> length inputBytes > INPUT_MAX then Inl INPUT_SIZE
      else if length bindingBytes = 0 \<or> length bindingBytes > BINDING_MAX then Inl BINDING_SIZE
      else case (parseStrictJson inputBytes, parseStrictJson bindingBytes) of
        (Inr raw, Inr rawBinding) \<Rightarrow>
          (case evidence_binding rawBinding of
             None \<Rightarrow> Inl INVALID_BINDING
           | Some reviewed \<Rightarrow>
               (case read_envelope raw of
                  None \<Rightarrow> Inl INVALID_ENVELOPE
                | Some (observation, formationsValue) \<Rightarrow> evidence_entries P reviewed observation formationsValue))
      | _ \<Rightarrow> Inl INVALID_JSON)"

text \<open>The validator of the admission.\<close>

definition signal_validator :: "platform \<Rightarrow> validator" where
  "signal_validator P inputBytes bindingBytes = (case validateSignalEvidenceV1 P inputBytes bindingBytes of Inl _ \<Rightarrow> None | Inr entries \<Rightarrow> Some entries)"

section \<open>Validated entries\<close>

lemma map_sum_Inr [simp]: "map_sum f g x = Inr y \<longleftrightarrow> (\<exists>z. x = Inr z \<and> y = g z)"
  by (cases x) auto

lemma require_Some [simp]: "require b = Some u \<longleftrightarrow> b"
  by (cases u) (simp add: require_def)

lemma bind_SomeE: "Option.bind x f = Some y \<Longrightarrow> (\<And>z. x = Some z \<Longrightarrow> f z = Some y \<Longrightarrow> R) \<Longrightarrow> R"
  by (cases x) auto

lemma found_member: "List.find p xs = Some x \<Longrightarrow> x \<in> set xs \<and> p x"
  by (auto simp: find_Some_iff)

lemma build_entries_Cons:
  assumes "build_entries P reviewed v source seen (f # fs) = Inr es"
  obtains b chosen es' where "b \<in> set (vp_entryBundles v)" "su_setup_id (eb_setup b) = fm_setup_id f" "selected_pair b = Some chosen"
    "ei_evidence_id (deriveSignalEvidenceIdentityV1 P reviewed (vp_metadata v) f) \<notin> set seen"
    "build_entries P reviewed v source (seen @ [ei_evidence_id (deriveSignalEvidenceIdentityV1 P reviewed (vp_metadata v) f)]) fs = Inr es'"
    "es = (f, make_entry P (deriveSignalEvidenceIdentityV1 P reviewed (vp_metadata v) f) f reviewed source b chosen) # es'"
proof -
  from assms obtain b chosen es' where "List.find (\<lambda>b. su_setup_id (eb_setup b) = fm_setup_id f) (vp_entryBundles v) = Some b" "selected_pair b = Some chosen"
    "ei_evidence_id (deriveSignalEvidenceIdentityV1 P reviewed (vp_metadata v) f) \<notin> set seen"
    "build_entries P reviewed v source (seen @ [ei_evidence_id (deriveSignalEvidenceIdentityV1 P reviewed (vp_metadata v) f)]) fs = Inr es'"
    "es = (f, make_entry P (deriveSignalEvidenceIdentityV1 P reviewed (vp_metadata v) f) f reviewed source b chosen) # es'"
    by (auto simp: Let_def bind_eq_Some_conv split: option.split_asm if_split_asm)
  with found_member[OF this(1)] show thesis by (intro that) simp_all
qed

lemma made_evidence_id [simp]: "se_evidence_id (make_entry P i f reviewed source b chosen) = ei_evidence_id i"
  by (simp add: make_entry_def Let_def)

lemma built_entries:
  assumes "build_entries P reviewed v source seen fs = Inr es"
  shows "map fst es = fs \<and> set seen \<inter> set (map (se_evidence_id \<circ> snd) es) = {} \<and> distinct (map (se_evidence_id \<circ> snd) es) \<and>
    (\<forall>(f, entry) \<in> set es. \<exists>b \<in> set (vp_entryBundles v). \<exists>chosen. su_setup_id (eb_setup b) = fm_setup_id f \<and> selected_pair b = Some chosen \<and>
       entry = make_entry P (deriveSignalEvidenceIdentityV1 P reviewed (vp_metadata v) f) f reviewed source b chosen)"
  using assms
proof (induction fs arbitrary: seen es)
  case (Cons g fs)
  from Cons.prems show ?case
  proof (rule build_entries_Cons)
    fix b chosen es'
    assume b: "b \<in> set (vp_entryBundles v)" "su_setup_id (eb_setup b) = fm_setup_id g" "selected_pair b = Some chosen"
      and i: "ei_evidence_id (deriveSignalEvidenceIdentityV1 P reviewed (vp_metadata v) g) \<notin> set seen"
      and r: "build_entries P reviewed v source (seen @ [ei_evidence_id (deriveSignalEvidenceIdentityV1 P reviewed (vp_metadata v) g)]) fs = Inr es'"
      and es: "es = (g, make_entry P (deriveSignalEvidenceIdentityV1 P reviewed (vp_metadata v) g) g reviewed source b chosen) # es'"
    from Cons.IH[OF r] b i show ?thesis unfolding es by auto
  qed
qed simp

lemma validated_Inr:
  assumes "validateSignalEvidenceV1 P inputBytes bindingBytes = Inr entries"
  obtains raw rawBinding reviewed observation formationsValue v formations es where
    "parseStrictJson inputBytes = Inr raw" "parseStrictJson bindingBytes = Inr rawBinding" "evidence_binding rawBinding = Some reviewed"
    "read_envelope raw = Some (observation, formationsValue)" "supported_observation observation" "integerTokens observation"
    "validateEntryV3Payload P (normalizeProposalLists observation) = Inr v" "\<not> binding_conflict v reviewed"
    "validateSignalEvidenceFormationsV1 formationsValue (map eb_setup (vp_entryBundles v)) = Some formations" "\<not> ineligible_source v"
    "build_entries P reviewed v (source_of v) [] formations = Inr es"
    "entries = map snd (js_sort (\<lambda>a b. compare_units (fm_setup_id (fst a)) (fm_setup_id (fst b))) es)"
  using assms unfolding validateSignalEvidenceV1_def evidence_entries_def
  by (auto split: if_split_asm sum.split_asm option.split_asm prod.split_asm)

lemma validated_entry:
  assumes "validateSignalEvidenceV1 P inputBytes bindingBytes = Inr entries" "entry \<in> set entries"
  obtains raw rawBinding reviewed observation formationsValue v formations f b chosen where
    "parseStrictJson inputBytes = Inr raw" "parseStrictJson bindingBytes = Inr rawBinding" "evidence_binding rawBinding = Some reviewed"
    "read_envelope raw = Some (observation, formationsValue)"
    "validateEntryV3Payload P (normalizeProposalLists observation) = Inr v" "\<not> binding_conflict v reviewed"
    "validateSignalEvidenceFormationsV1 formationsValue (map eb_setup (vp_entryBundles v)) = Some formations" "\<not> ineligible_source v"
    "f \<in> set formations" "b \<in> set (vp_entryBundles v)" "su_setup_id (eb_setup b) = fm_setup_id f" "selected_pair b = Some chosen"
    "entry = make_entry P (deriveSignalEvidenceIdentityV1 P reviewed (vp_metadata v) f) f reviewed (source_of v) b chosen"
proof -
  from assms(1) show thesis
  proof (rule validated_Inr)
    fix raw rawBinding reviewed observation formationsValue v formations es
    assume v: "parseStrictJson inputBytes = Inr raw" "parseStrictJson bindingBytes = Inr rawBinding" "evidence_binding rawBinding = Some reviewed"
      "read_envelope raw = Some (observation, formationsValue)" "validateEntryV3Payload P (normalizeProposalLists observation) = Inr v"
      "\<not> binding_conflict v reviewed" "validateSignalEvidenceFormationsV1 formationsValue (map eb_setup (vp_entryBundles v)) = Some formations" "\<not> ineligible_source v"
      and es: "build_entries P reviewed v (source_of v) [] formations = Inr es"
      "entries = map snd (js_sort (\<lambda>a b. compare_units (fm_setup_id (fst a)) (fm_setup_id (fst b))) es)"
    from assms(2) es(2) obtain f where f: "(f, entry) \<in> set es" by auto
    with built_entries[OF es(1)] have "f \<in> set formations" by force
    moreover from built_entries[OF es(1)] f obtain b chosen where "b \<in> set (vp_entryBundles v)" "su_setup_id (eb_setup b) = fm_setup_id f" "selected_pair b = Some chosen"
      "entry = make_entry P (deriveSignalEvidenceIdentityV1 P reviewed (vp_metadata v) f) f reviewed (source_of v) b chosen"
      by fast
    ultimately show thesis using v by (intro that)
  qed
qed

section \<open>Formations\<close>

text \<open>What ties a formation to the setup it claims.\<close>

definition formation_fits :: "setup_facts \<Rightarrow> formation \<Rightarrow> bool" where
  "formation_fits setup f \<longleftrightarrow>
     fm_direction f = su_direction setup \<and> 0 < fm_origin_epoch f \<and> fm_origin_epoch f mod 300 = 0 \<and> fm_confirmation_epoch f mod 300 = 0 \<and>
     fm_origin_epoch f < fm_confirmation_epoch f \<and> (\<exists>engaged. su_zone_engaged_epoch setup = Some engaged \<and> fm_confirmation_epoch f \<le> engaged) \<and>
     0 < fm_origin_low_ticks f \<and> fm_origin_low_ticks f \<le> min (fm_origin_open_ticks f) (fm_origin_close_ticks f) \<and>
     max (fm_origin_open_ticks f) (fm_origin_close_ticks f) \<le> fm_origin_high_ticks f \<and>
     (case fm_direction f of LONG \<Rightarrow> fm_origin_close_ticks f < fm_origin_open_ticks f | SHORT \<Rightarrow> fm_origin_open_ticks f < fm_origin_close_ticks f) \<and>
     fm_zone_top_ticks f = su_zone_top_ticks setup \<and> fm_zone_bottom_ticks f = su_zone_bottom_ticks setup \<and> fm_zone_bottom_ticks f < fm_zone_top_ticks f \<and>
     fm_zone_top_ticks f = (if fm_variant f = ACCURACY \<and> fm_direction f = LONG then fm_origin_open_ticks f else fm_origin_high_ticks f) \<and>
     fm_zone_bottom_ticks f = (if fm_variant f = ACCURACY \<and> fm_direction f = SHORT then fm_origin_open_ticks f else fm_origin_low_ticks f)"

lemma positiveInteger_Some: "positiveInteger v = Some n \<Longrightarrow> is_safe_integer n \<and> 0 < n"
  by (auto simp: positiveInteger_def split: strict_json.split_asm option.split_asm if_split_asm)

lemma positive_field: "read_field input k positiveInteger = Some n \<Longrightarrow> is_safe_integer n \<and> 0 < n"
  by (auto simp: read_field_def bind_eq_Some_conv dest: positiveInteger_Some)

lemma read_formation_fields:
  assumes "read_formation m seen v = Some f"
  obtains su engaged where "map_get m (fm_setup_id f) = Some su" "fm_setup_id f \<notin> set seen" "fm_direction f = su_direction su"
    "fm_origin_epoch f mod 300 = 0" "fm_confirmation_epoch f mod 300 = 0" "fm_origin_epoch f < fm_confirmation_epoch f"
    "su_zone_engaged_epoch su = Some engaged" "fm_confirmation_epoch f \<le> engaged"
    "fm_origin_low_ticks f \<le> fm_origin_open_ticks f" "fm_origin_open_ticks f \<le> fm_origin_high_ticks f"
    "fm_origin_low_ticks f \<le> fm_origin_close_ticks f" "fm_origin_close_ticks f \<le> fm_origin_high_ticks f"
    "if fm_direction f = LONG then fm_origin_close_ticks f < fm_origin_open_ticks f else fm_origin_close_ticks f > fm_origin_open_ticks f"
    "fm_zone_top_ticks f = su_zone_top_ticks su" "fm_zone_bottom_ticks f = su_zone_bottom_ticks su" "fm_zone_bottom_ticks f < fm_zone_top_ticks f"
    "fm_zone_top_ticks f = expected_top (fm_variant f) (fm_direction f) (fm_origin_high_ticks f) (fm_origin_open_ticks f) (fm_origin_close_ticks f)"
    "fm_zone_bottom_ticks f = expected_bottom (fm_variant f) (fm_direction f) (fm_origin_low_ticks f) (fm_origin_open_ticks f) (fm_origin_close_ticks f)"
    "0 < fm_origin_epoch f" "0 < fm_origin_low_ticks f" "list_all is_safe_integer [fm_origin_epoch f, fm_confirmation_epoch f, fm_origin_open_ticks f,
       fm_origin_high_ticks f, fm_origin_low_ticks f, fm_origin_close_ticks f]"
  using assms unfolding read_formation_def
  by (elim bind_SomeE) (simp, elim conjE, hypsubst, simp add: positive_field)

lemma read_formation_Some:
  assumes "read_formation m seen v = Some f"
  shows "fm_setup_id f \<notin> set seen \<and> (\<exists>setup. map_get m (fm_setup_id f) = Some setup \<and> formation_fits setup f)"
  using assms
proof (rule read_formation_fields)
qed (cases "fm_direction f"; cases "fm_variant f"; simp add: formation_fits_def expected_top_def expected_bottom_def)

lemma read_formations_Some:
  assumes "read_formations m seen vs = Some fs"
  shows "length fs = length vs \<and> distinct (map fm_setup_id fs) \<and> set seen \<inter> set (map fm_setup_id fs) = {} \<and>
    (\<forall>f \<in> set fs. \<exists>setup. map_get m (fm_setup_id f) = Some setup \<and> formation_fits setup f)"
  using assms
proof (induction vs arbitrary: seen fs)
  case (Cons v vs)
  from Cons.prems obtain f gs where f: "read_formation m seen v = Some f" "read_formations m (seen @ [fm_setup_id f]) vs = Some gs" "fs = f # gs"
    by (auto simp: bind_eq_Some_conv)
  from read_formation_Some[OF f(1)] Cons.IH[OF f(2)] show ?case by (auto simp: f(3))
qed simp

lemma setups_by_id_length: "length (setups_by_id setups) = card (su_setup_id ` set setups)"
proof -
  have "distinct (map_keys (setups_by_id setups))" unfolding setups_by_id_def by (rule jsmap.ok_index) (simp add: map_keys_def)
  moreover have "set (map_keys (setups_by_id setups)) = su_setup_id ` set setups" unfolding setups_by_id_def by (rule jsmap.keys_index)
  moreover have "length (setups_by_id setups) = length (map_keys (setups_by_id setups))" by (simp add: map_keys_def)
  ultimately show ?thesis by (metis distinct_card)
qed

lemma sorted_ids:
  assumes "distinct (map fm_setup_id fs)"
  shows "sorted_wrt (\<lambda>f g. compare_units (fm_setup_id f) (fm_setup_id g) < 0) (by_setup_id fs)"
proof -
  have "comparator (\<lambda>l r. compare_units (fm_setup_id l) (fm_setup_id r)) (set fs)"
    using units.total by unfold_locales (blast intro: units.trans)+
  from comparator.sorted_sort[OF this order_refl]
  have "sorted_wrt (\<lambda>f g. compare_units (fm_setup_id f) (fm_setup_id g) \<le> 0) (by_setup_id fs)" by (simp add: by_setup_id_def)
  moreover have "distinct (map fm_setup_id (by_setup_id fs))"
    using assms by (metis by_setup_id_def distinct_map distinct_js_sort set_js_sort)
  ultimately show ?thesis
    unfolding distinct_conv_nth sorted_wrt_iff_nth_less by (auto simp: order.strict_iff_order)
qed

lemma formations_fit:
  assumes "validateSignalEvidenceFormationsV1 formationsValue setups = Some fs"
  shows "sorted_wrt (\<lambda>f g. compare_units (fm_setup_id f) (fm_setup_id g) < 0) fs \<and> set (map fm_setup_id fs) = set (map su_setup_id setups) \<and>
    distinct (map su_setup_id setups) \<and> (\<forall>f \<in> set fs. \<exists>su \<in> set setups. su_setup_id su = fm_setup_id f \<and> formation_fits su f)"
proof -
  from assms obtain vs gs where vs: "length vs = length setups" "length (setups_by_id setups) = length setups" "read_formations (setups_by_id setups) [] vs = Some gs"
    and fs: "fs = by_setup_id gs"
    by (auto simp: validateSignalEvidenceFormationsV1_def bind_eq_Some_conv)
  note gs = read_formations_Some[OF vs(3)]
  from vs(2) have d: "distinct (map su_setup_id setups)" by (simp add: setups_by_id_length card_distinct)
  hence get: "map_get (setups_by_id setups) k = Some su \<longleftrightarrow> su \<in> set setups \<and> su_setup_id su = k" for k su
    unfolding setups_by_id_def by (intro jsmap.get_index_inj) (simp add: distinct_map)
  have "set (map fm_setup_id gs) \<subseteq> set (map su_setup_id setups)" using gs get by force
  moreover have "card (set (map fm_setup_id gs)) = card (set (map su_setup_id setups))"
    using gs vs(1) d by (metis distinct_card length_map)
  ultimately have "set (map fm_setup_id gs) = set (map su_setup_id setups)" by (intro card_subset_eq) simp_all
  with d gs get sorted_ids[of gs] show ?thesis unfolding fs by (auto simp: by_setup_id_def)
qed

text \<open>
  C39.
  Formations are tied to their setups. Whenever the formations of an envelope are accepted, there is
  exactly one for every setup of the observation, in the order of the setup identifiers, and each
  describes its setup: the origin candle opened before the confirmation, which came no later than
  the engagement of the zone, the candle runs against the direction of the trade, and the zone is
  the whole candle, or for the accuracy variant the part between its open and its far extreme.
\<close>

theorem accepted_formations_fit:
  assumes "validateSignalEvidenceFormationsV1 formationsValue setups = Some fs"
  shows "sorted_wrt (\<lambda>f g. compare_units (fm_setup_id f) (fm_setup_id g) < 0) fs \<and> set (map fm_setup_id fs) = set (map su_setup_id setups) \<and>
    distinct (map su_setup_id setups) \<and> (\<forall>f \<in> set fs. \<exists>su \<in> set setups. su_setup_id su = fm_setup_id f \<and> formation_fits su f)"
  using assms by (rule formations_fit)

section \<open>Eligibility\<close>

lemma selected_pair_Some:
  assumes "selected_pair b = Some (Some (c, e))"
  shows "c \<in> set (el_candidates (eb_evaluation b))" "e \<in> set (el_evidence (eb_evaluation b))" "eligibleProof c e"
    "sl_action (el_selection (eb_evaluation b)) = PAPER_ELIGIBLE" "sl_canonical_evidence_id (el_selection (eb_evaluation b)) = Some (ev_evidence_id e)"
  using assms by (auto simp: selected_pair_def Let_def bind_eq_Some_conv split: option.split_asm dest!: found_member)

lemma chosen_at_market:
  assumes "validateEntryV3Payload P raw = Inr v" "vp_eventRole v = ENTRY_DECISION" "b \<in> set (vp_entryBundles v)" "selected_pair b = Some (Some (c, e))"
  shows "ev_observed_trigger_epoch e = Some (me_epoch (vp_marketEvent v))" "ev_observed_trigger_ticks e = Some (me_tick_price_ticks (vp_marketEvent v))"
    "pl_entry_ticks (eb_tradePlan b) = me_tick_price_ticks (vp_marketEvent v)"
    "\<exists>engaged. su_zone_engaged_epoch (eb_setup b) = Some engaged \<and> engaged \<le> me_epoch (vp_marketEvent v)"
proof -
  from assms(1,3) obtain w unreviewed version where w: "parseBundle P (Some w) unreviewed version = Inr b" by (rule accepted_bundle)
  note ev = accepted_evaluation[OF w] and sel = selected_pair_Some[OF assms(4)]
  from sel(4) ev(2) have paper: "sl_action (eb_selectionProposal b) = PAPER_ELIGIBLE" by simp
  from ev(3) have inj: "inj_on ev_evidence_id (set (el_evidence (eb_evaluation b)))"
    by (auto simp: validateEntryEvaluationV3_def Let_def option_case_None_iff distinct_map)
  from paper_entry_facts[OF assms(1-3) paper] obtain e' where e': "e' \<in> set (eb_evidence b)" "sl_canonical_evidence_id (eb_selectionProposal b) = Some (ev_evidence_id e')"
    and facts: "ev_observed_trigger_epoch e' = Some (me_epoch (vp_marketEvent v))" "ev_observed_trigger_ticks e' = Some (me_tick_price_ticks (vp_marketEvent v))"
    "pl_entry_ticks (eb_tradePlan b) = me_tick_price_ticks (vp_marketEvent v)"
    "\<exists>engaged. su_zone_engaged_epoch (eb_setup b) = Some engaged \<and> engaged \<le> me_epoch (vp_marketEvent v)" by blast
  from e' sel(2,5) ev(2,4) inj have "e' = e" by (auto dest: inj_onD)
  with facts show "ev_observed_trigger_epoch e = Some (me_epoch (vp_marketEvent v))" "ev_observed_trigger_ticks e = Some (me_tick_price_ticks (vp_marketEvent v))"
    "pl_entry_ticks (eb_tradePlan b) = me_tick_price_ticks (vp_marketEvent v)"
    "\<exists>engaged. su_zone_engaged_epoch (eb_setup b) = Some engaged \<and> engaged \<le> me_epoch (vp_marketEvent v)" by simp_all
qed

lemma bundle_formation:
  assumes "validateSignalEvidenceFormationsV1 formationsValue (map eb_setup bs) = Some formations" "f \<in> set formations" "b \<in> set bs"
    "su_setup_id (eb_setup b) = fm_setup_id f"
  shows "formation_fits (eb_setup b) f"
proof -
  note fit = formations_fit[OF assms(1)]
  from fit assms(2) obtain x where x: "x \<in> set bs" "su_setup_id (eb_setup x) = fm_setup_id f" "formation_fits (eb_setup x) f" by force
  from fit have "inj_on (su_setup_id \<circ> eb_setup) (set bs)" by (auto simp: distinct_map)
  from inj_onD[OF this, of x b] x assms(3,4) show ?thesis by simp
qed

lemma made_fields [simp]:
  "se_selected (make_entry P i f reviewed source b chosen) = chosen" "se_attempt_key (make_entry P i f reviewed source b chosen) = ei_attempt_key i"
  by (simp_all add: make_entry_def Let_def)

text \<open>
  C9.
  Only live, exact and reviewed proofs are selected. When an envelope is validated and one of its
  entries has a selected candidate, then the observation inside was accepted by the wire reader as an
  entry decision in real time from the producer that the binding names, with the detector and the
  settings of the binding; candidate and proof come from a bundle whose rules all passed, whose
  zone was confirmed before it was engaged and engaged before the trigger; the proof is exact for
  its model, and its trigger and the planned entry are the epoch and the price of the market event.
\<close>

theorem selected_entry_is_proven:
  assumes "validateSignalEvidenceV1 P inputBytes bindingBytes = Inr entries" "entry \<in> set entries" "se_selected entry = Some (c, e)"
  shows "\<exists>raw rawBinding reviewed observation formations v f b. parseStrictJson inputBytes = Inr raw \<and> parseStrictJson bindingBytes = Inr rawBinding \<and>
    evidence_binding rawBinding = Some reviewed \<and> read_envelope raw = Some (observation, formations) \<and>
    validateEntryV3Payload P (normalizeProposalLists observation) = Inr v \<and> vp_eventRole v = ENTRY_DECISION \<and> vp_isRealtime v \<and>
    vp_detectorCodeHash v = rb_detector_code_hash reviewed \<and> vp_settingsHash v = rb_settings_hash reviewed \<and> rm_tickerId (vp_metadata v) = rb_ticker_id reviewed \<and>
    b \<in> set (vp_entryBundles v) \<and> list_all cr_passed (eb_commonRuleResults b) \<and> su_liquidity_cohort (eb_setup b) = TWO_PLUS_CANDLES \<and>
    c \<in> set (el_candidates (eb_evaluation b)) \<and> e \<in> set (el_evidence (eb_evaluation b)) \<and> eligibleProof c e \<and>
    formation_fits (eb_setup b) f \<and> fm_confirmation_epoch f \<le> me_epoch (vp_marketEvent v) \<and> ei_attempt_key (deriveSignalEvidenceIdentityV1 P reviewed (vp_metadata v) f) = se_attempt_key entry \<and>
    ev_observed_trigger_epoch e = Some (me_epoch (vp_marketEvent v)) \<and> ev_observed_trigger_ticks e = Some (me_tick_price_ticks (vp_marketEvent v)) \<and>
    pl_entry_ticks (eb_tradePlan b) = me_tick_price_ticks (vp_marketEvent v)"
  using assms(1,2)
proof (rule validated_entry)
  fix raw rawBinding reviewed observation formationsValue v formations f b chosen
  assume parsed: "parseStrictJson inputBytes = Inr raw" "parseStrictJson bindingBytes = Inr rawBinding" "evidence_binding rawBinding = Some reviewed"
      "read_envelope raw = Some (observation, formationsValue)" "validateEntryV3Payload P (normalizeProposalLists observation) = Inr v"
    and bound: "\<not> binding_conflict v reviewed" and source: "\<not> ineligible_source v" and b: "b \<in> set (vp_entryBundles v)"
    and fs: "validateSignalEvidenceFormationsV1 formationsValue (map eb_setup (vp_entryBundles v)) = Some formations" "f \<in> set formations"
      "su_setup_id (eb_setup b) = fm_setup_id f"
    and chosen: "selected_pair b = Some chosen"
      "entry = make_entry P (deriveSignalEvidenceIdentityV1 P reviewed (vp_metadata v) f) f reviewed (source_of v) b chosen"
  from chosen assms(3) have sel: "selected_pair b = Some (Some (c, e))" by simp
  from source have role: "vp_eventRole v = ENTRY_DECISION" "vp_isRealtime v" by (simp_all add: ineligible_source_def)
  note market = chosen_at_market[OF parsed(5) role(1) b sel]
  note fits = bundle_formation[OF fs(1,2) b fs(3)]
  with market(4) have "fm_confirmation_epoch f \<le> me_epoch (vp_marketEvent v)" by (auto simp: formation_fits_def)
  moreover from source b have "list_all cr_passed (eb_commonRuleResults b)" "su_liquidity_cohort (eb_setup b) = TWO_PLUS_CANDLES"
    by (auto simp: ineligible_source_def list_ex_iff list_all_iff)
  moreover from bound have "vp_detectorCodeHash v = rb_detector_code_hash reviewed" "vp_settingsHash v = rb_settings_hash reviewed" "rm_tickerId (vp_metadata v) = rb_ticker_id reviewed"
    by (simp_all add: binding_conflict_def)
  moreover have "ei_attempt_key (deriveSignalEvidenceIdentityV1 P reviewed (vp_metadata v) f) = se_attempt_key entry" by (simp add: chosen(2))
  ultimately show ?thesis using parsed role b fits market selected_pair_Some[OF sel] by blast
qed

section \<open>Times of validated entries\<close>

lemma units_back: "list_all (\<lambda>u. u < 256) k \<Longrightarrow> units_of (string_of_units k) = k"
  by (induction k) (auto simp: string_of_units_def units_of_def code_unit_def)

lemma join_units_member: "x \<in> set xs \<Longrightarrow> set x \<subseteq> set (join_units sep xs)"
  by (induction sep xs rule: join_units.induct) auto

lemma join_units_bound: "u \<in> set (join_units sep xs) \<Longrightarrow> u = sep \<or> (\<exists>x \<in> set xs. u \<in> set x)"
  by (induction sep xs rule: join_units.induct) auto

lemma strict_keys_narrow:
  assumes "strict_keys r keys" "(k, v) \<in> set r"
  shows "list_all (\<lambda>u. u < 256) k"
proof -
  have "set k \<subseteq> set (join_units 0 (js_sort compare_unit_lists (map fst r)))" using assms(2) by (intro join_units_member) force
  hence "set k \<subseteq> set (join_units 0 (js_sort compare_unit_lists (map units_of keys)))" using assms(1) by (simp add: strict_keys_def)
  moreover have "u < 256" if "u \<in> set (join_units 0 (js_sort compare_unit_lists (map units_of keys)))" for u
    using join_units_bound[OF that] by (auto simp: units_of_def code_unit_def)
  ultimately show ?thesis by (auto simp: list_all_iff)
qed

lemma map_of_narrow:
  assumes "\<And>k v. (k, v) \<in> set m \<Longrightarrow> list_all (\<lambda>u. u < 256) k"
  shows "map_of (map (\<lambda>(k, v). (string_of_units k, g (string_of_units k) v)) m) s = map_option (g s) (map_of m (units_of s))"
  using assms
proof (induction m)
  case (Cons kv m)
  obtain k v where kv: "kv = (k, v)" by force
  with Cons.prems have "units_of (string_of_units k) = k" by (auto intro: units_back)
  hence "string_of_units k = s \<longleftrightarrow> k = units_of s" by (metis units_of_inject)
  with Cons kv show ?case by auto
qed simp

lemma v3_integer_plain:
  assumes "v3_integer m x = Inr n"
  shows "\<exists>w. x = Some w \<and> plain_json w = JNum n" "is_safe_integer n" "m \<le> n"
proof -
  from assms have n: "Option.bind x number_value = Some n" "is_safe_integer n" "m \<le> n" by (auto simp: v3_integer_def v3_signed_def wire_iffs)
  from n(1) obtain w where w: "x = Some w" "number_value w = Some n" by (auto simp: bind_eq_Some_conv)
  from w(2) have "plain_json w = JNum n" by (cases w) (auto simp: number_value_def)
  with w(1) n(2,3) show "\<exists>w. x = Some w \<and> plain_json w = JNum n" "is_safe_integer n" "m \<le> n" by auto
qed

lemma payload_times:
  assumes "validateEntryV3Payload P raw = Inr v"
  obtains r where "strict_keys r TOP_LEVEL_KEYS" "vp_canonicalPayload v = with_member ''setups'' (strict_of (JArr (map bundle_json (vp_entryBundles v)))) r"
    "v3_integer 0 (field_of r ''observed_at_epoch'') = Inr (vp_observedAtEpoch v)" "epoch (me_epoch (vp_marketEvent v))"
proof -
  from assms obtain r where r: "raw = SObj r" "strict_keys r TOP_LEVEL_KEYS" "read_payload P r = Inr v"
    by (auto simp: validateEntryV3Payload_def plain_def wire_iffs)
  from r(3) have "vp_canonicalPayload v = with_member ''setups'' (strict_of (JArr (map bundle_json (vp_entryBundles v)))) r"
      "v3_integer 0 (field_of r ''observed_at_epoch'') = Inr (vp_observedAtEpoch v)" "parseMarketEvent (field_of r ''market_event'') = Inr (vp_marketEvent v)"
    unfolding read_payload_def Let_def by (auto simp: wire_iffs split_beta simp del: strict_of.simps split: option.split_asm prod.split_asm)
  moreover from this(3) obtain x where "v3_integer 0 x = Inr (me_epoch (vp_marketEvent v))"
    by (auto simp: parseMarketEvent_def wire_iffs dest!: arg_cong[of _ _ me_epoch])
  hence "epoch (me_epoch (vp_marketEvent v))" using v3_integer_plain(2,3) by (simp add: epoch_def)
  ultimately show thesis using r(2) that by blast
qed

lemma source_member:
  assumes "strict_keys r TOP_LEVEL_KEYS" "vp_canonicalPayload v = with_member ''setups'' x r"
  shows "source_of v = JObj (map (\<lambda>(k, w). (string_of_units k, normalize_json (string_of_units k) (plain_json w))) (with_member ''setups'' x r))"
    "map_of (map (\<lambda>(k, w). (string_of_units k, normalize_json (string_of_units k) (plain_json w))) (with_member ''setups'' x r)) s =
       map_option (\<lambda>w. normalize_json s (plain_json w)) (if s = ''setups'' then Some x else field_of r s)"
proof -
  show "source_of v = JObj (map (\<lambda>(k, w). (string_of_units k, normalize_json (string_of_units k) (plain_json w))) (with_member ''setups'' x r))"
    by (simp add: source_of_def assms(2) comp_def case_prod_unfold)
  have narrow: "list_all (\<lambda>u. u < 256) k" if "(k, w) \<in> set (with_member ''setups'' x r)" for k w
  proof -
    have "k \<in> set (map fst (with_member ''setups'' x r))" using that by force
    hence "k \<in> fst ` set r \<or> k = units_of ''setups''" by (auto simp: with_member_def map_set_keys split: if_split_asm)
    thus ?thesis using strict_keys_narrow[OF assms(1)] by (auto simp: code_unit_def)
  qed
  have "map_of (with_member ''setups'' x r) (units_of s) = (if s = ''setups'' then Some x else field_of r s)"
    by (simp add: with_member_def map_of_map_set field_of_def units_of_inject del: units_of_simps)
  with map_of_narrow[of "with_member ''setups'' x r" "\<lambda>k w. normalize_json k (plain_json w)" s] narrow
  show "map_of (map (\<lambda>(k, w). (string_of_units k, normalize_json (string_of_units k) (plain_json w))) (with_member ''setups'' x r)) s =
       map_option (\<lambda>w. normalize_json s (plain_json w)) (if s = ''setups'' then Some x else field_of r s)" by presburger
qed

lemma entry_observed:
  assumes "validateEntryV3Payload P raw = Inr v"
  shows "se_observed_at_epoch (make_entry Q i f reviewed (source_of v) b chosen) = JNum (vp_observedAtEpoch v)" "epoch (vp_observedAtEpoch v)"
proof -
  from assms obtain r where r: "strict_keys r TOP_LEVEL_KEYS" "vp_canonicalPayload v = with_member ''setups'' (strict_of (JArr (map bundle_json (vp_entryBundles v)))) r"
    "v3_integer 0 (field_of r ''observed_at_epoch'') = Inr (vp_observedAtEpoch v)" by (rule payload_times)
  from v3_integer_plain[OF r(3)] obtain w where "field_of r ''observed_at_epoch'' = Some w" "plain_json w = JNum (vp_observedAtEpoch v)" "epoch (vp_observedAtEpoch v)"
    by (auto simp: epoch_def)
  with source_member(2)[OF r(1,2), of "''observed_at_epoch''"]
  show "se_observed_at_epoch (make_entry Q i f reviewed (source_of v) b chosen) = JNum (vp_observedAtEpoch v)" "epoch (vp_observedAtEpoch v)"
    by (simp_all add: make_entry_def Let_def source_member(1)[OF r(1,2)])
qed

lemma entry_trigger:
  assumes "validateEntryV3Payload P raw = Inr v" "\<not> ineligible_source v" "b \<in> set (vp_entryBundles v)" "selected_pair b = Some chosen"
  shows "chosen = None \<and> trigger_of (make_entry Q i f reviewed source b chosen) = None \<or>
    chosen \<noteq> None \<and> trigger_of (make_entry Q i f reviewed source b chosen) = Some (me_epoch (vp_marketEvent v)) \<and> epoch (me_epoch (vp_marketEvent v))"
proof (cases chosen)
  case (Some p)
  from assms(2) have role: "vp_eventRole v = ENTRY_DECISION" by (simp add: ineligible_source_def)
  from chosen_at_market(1)[OF assms(1) role assms(3), of "fst p" "snd p"] assms(4) Some
  have "ev_observed_trigger_epoch (snd p) = Some (me_epoch (vp_marketEvent v))" by simp
  with Some payload_times[OF assms(1)] show ?thesis by (auto simp: trigger_of_def)
qed (simp add: trigger_of_def)

text \<open>
  C38.
  Validated evidence reaches the admission well timed. Under a policy that the admission accepts, an
  entry of a validated envelope is refused as INVALID_EVIDENCE only because the age limit of its
  observation or of its trigger does not fit into a safe integer: its observation time is always an
  epoch, and a selected entry always has a trigger, which is an epoch.
\<close>

theorem validated_times_are_epochs:
  assumes "validateSignalEvidenceV1 P inputBytes bindingBytes = Inr entries" "entry \<in> set entries" "policy_ok r"
  shows "entry_expiry r now futureLimit queueLimit entry = Inl INVALID_EVIDENCE \<longleftrightarrow>
    (\<exists>observedAt. se_observed_at_epoch entry = JNum observedAt \<and> observedAt > MAX_SAFE_INTEGER - fr_max_observation_age_seconds (rg_freshness r)) \<or>
    (\<exists>triggerAt. trigger_of entry = Some triggerAt \<and> triggerAt > MAX_SAFE_INTEGER - fr_max_event_age_seconds (rg_freshness r))"
  using assms(1,2)
proof (rule validated_entry)
  fix raw rawBinding reviewed observation formationsValue v formations f b chosen
  assume v: "validateEntryV3Payload P (normalizeProposalLists observation) = Inr v" "\<not> ineligible_source v" "b \<in> set (vp_entryBundles v)" "selected_pair b = Some chosen"
    and entry: "entry = make_entry P (deriveSignalEvidenceIdentityV1 P reviewed (vp_metadata v) f) f reviewed (source_of v) b chosen"
  from assms(3) have ages: "epoch (fr_max_observation_age_seconds (rg_freshness r))" "epoch (fr_max_event_age_seconds (rg_freshness r))"
    by (simp_all add: policy_ok_def Let_def)
  have selected: "se_selected entry = chosen" by (simp add: entry)
  from entry_observed[OF v(1)] have observed: "se_observed_at_epoch entry = JNum (vp_observedAtEpoch v)" "epoch (vp_observedAtEpoch v)" by (auto simp: entry)
  from entry_trigger[OF v] have "chosen = None \<and> trigger_of entry = None \<or>
      chosen \<noteq> None \<and> trigger_of entry = Some (me_epoch (vp_marketEvent v)) \<and> epoch (me_epoch (vp_marketEvent v))" unfolding entry .
  with selected observed ages show ?thesis by (auto simp: entry_expiry_def Let_def epoch_value_def deadline_def split: if_split_asm)
qed

section \<open>Attempts of one envelope\<close>

lemma validated_keys:
  assumes "validateSignalEvidenceV1 P inputBytes bindingBytes = Inr entries"
  shows "distinct (map se_attempt_key entries)"
  using assms
proof (rule validated_Inr)
  fix raw rawBinding reviewed observation formationsValue v formations es
  assume es: "build_entries P reviewed v (source_of v) [] formations = Inr es"
    and entries: "entries = map snd (js_sort (\<lambda>a b. compare_units (fm_setup_id (fst a)) (fm_setup_id (fst b))) es)"
  let ?id = "\<lambda>key. canonicalSha256 P (evidence_id_json (rb_producer_namespace reviewed) (rm_producerInstanceId (vp_metadata v)) (rm_idempotencyKey (vp_metadata v))
         (rm_sequence (vp_metadata v)) key)"
  have "se_evidence_id entry = ?id (se_attempt_key entry)" if "(f, entry) \<in> set es" for f entry
    using built_entries[OF es] that by (fastforce simp: deriveSignalEvidenceIdentityV1_def Let_def)
  hence "map (se_evidence_id \<circ> snd) es = map (?id \<circ> (se_attempt_key \<circ> snd)) es" by auto
  with built_entries[OF es] have "distinct (map ?id (map (se_attempt_key \<circ> snd) es))" by simp
  hence d: "distinct (map (se_attempt_key \<circ> snd) es)" by (simp only: distinct_map)
  have "mset (map se_attempt_key entries) = mset (map (se_attempt_key \<circ> snd) es)" by (simp add: entries)
  with d show ?thesis by (metis mset_eq_imp_distinct_iff)
qed

lemma examined_conflicts:
  assumes "examine r s now fl ql seen conflicts acc entries = Inr (conflicts', acc')" "distinct (map se_attempt_key entries)" "set seen \<inter> set (map se_attempt_key entries) = {}"
  shows "set conflicts' = set conflicts \<union> se_attempt_key ` {entry \<in> set entries. conflicting s [] entry}"
  using assms
proof (induction entries arbitrary: seen conflicts acc)
  case (Cons e es)
  have c: "conflicting s seen e \<longleftrightarrow> conflicting s [] e" using Cons.prems(3) by (auto simp: conflicting_def Let_def)
  from Cons.prems(1) obtain acc2 where
    "examine r s now fl ql (js_set_add seen (se_attempt_key e)) (if conflicting s [] e then js_set_add conflicts (se_attempt_key e) else conflicts) acc2 es = Inr (conflicts', acc')"
    by (auto simp: Let_def c split: sum.split_asm)
  from Cons.IH[OF this] Cons.prems(2,3) show ?case by (auto simp: js_set_add_def split: if_split_asm)
qed simp

lemma examine_code: "examine r s now fl ql seen conflicts acc entries = Inl code \<Longrightarrow> code \<noteq> ATTEMPT_CONFLICT"
proof (induction entries arbitrary: seen conflicts acc)
  case (Cons e es)
  have "entry_expiry r now fl ql e \<noteq> Inl ATTEMPT_CONFLICT" by (auto simp: entry_expiry_def Let_def split: option.split_asm if_split_asm)
  with Cons show ?case by (auto simp: Let_def split: sum.split_asm)
qed simp

text \<open>
  C37.
  An envelope never contradicts itself. When the admission quarantines a stream for conflicting
  attempts of validated evidence, the attempts it names are exactly those that contradict a stored
  attempt or a stored evidence body; two entries of one envelope never share an attempt.
\<close>

theorem conflicts_are_with_stored_facts:
  assumes "validateSignalEvidenceV1 P inputBytes bindingBytes = Inr entries"
    "evaluateAdmission (signal_validator P inputBytes bindingBytes) t r s now = Quarantine ATTEMPT_CONFLICT keys"
  shows "set keys = se_attempt_key ` {entry \<in> set entries. conflicting s [] entry} \<and> keys \<noteq> [] \<and> distinct (map se_attempt_key entries)"
proof -
  note d = validated_keys[OF assms(1)]
  from assms(2) obtain fl ql conflicts acc where x: "examine r s now fl ql [] [] [] entries = Inr (conflicts, acc)" "conflicts \<noteq> []" "keys = js_sort compare_units conflicts"
    by (auto simp: evaluateAdmission_def signal_validator_def assms(1) dest: examine_code split: option.split_asm if_split_asm sum.split_asm)
  from examined_conflicts[OF x(1) d] x(2,3) d show ?thesis by simp
qed

end
