(* ===== verification/Inbox_Parse.thy ===== *)
theory Inbox_Parse
  imports Signal_Wire
begin

text \<open>
  The parser of the signal inbox (\<open>parse\<close> of \<open>signal-evidence-inbox-v1.ts\<close>), a second reader of JSON
  that takes nothing from the observation edge. It works on the code units of the text; an exception
  is \<open>None\<close>. The property is that it reads whatever the strict reader of the observation edge reads
  with canonical integers, as the same value.
\<close>

section \<open>Tokens\<close>

text \<open>The body of a string up to its closing quote. A backslash takes the next unit with it.\<close>

fun scan_body :: "units \<Rightarrow> (units \<times> units) option" where
  "scan_body [] = None"
| "scan_body (c # cs) =
     (if c = 92 then (case cs of [] \<Rightarrow> None | e # es \<Rightarrow> map_option (\<lambda>(body, rest). (c # e # body, rest)) (scan_body es))
      else if c = 34 then Some ([], cs)
      else map_option (\<lambda>(body, rest). (c # body, rest)) (scan_body cs))"

definition inbox_string :: "units \<Rightarrow> (units \<times> units) option" where
  "inbox_string s = (case scan_body s of
       None \<Rightarrow> None
     | Some (body, rest) \<Rightarrow> map_option (\<lambda>decoded. (decoded, rest)) (decode_string body))"

definition inbox_number :: "units \<Rightarrow> (strict_json \<times> units) option" where
  "inbox_number s =
     (let (sign, s1) = match_sign s in
      case match_whole s1 of
        None \<Rightarrow> None
      | Some (whole, rest) \<Rightarrow>
          (let n = (if sign = [] then int (units_value whole) else - int (units_value whole)) in
           if sign @ whole = [45, 48] then None
           else if \<not> is_safe_integer n then None
           else Some (SNum (sign @ whole) (Some n), rest)))"

definition inbox_scalar :: "units \<Rightarrow> (strict_json \<times> units) option" where
  "inbox_scalar s = (case consumeLiteral TRUE_UNITS s of
       Some rest \<Rightarrow> Some (SBool True, rest)
     | None \<Rightarrow> (case consumeLiteral FALSE_UNITS s of
         Some rest \<Rightarrow> Some (SBool False, rest)
       | None \<Rightarrow> (case consumeLiteral NULL_UNITS s of
           Some rest \<Rightarrow> Some (SNull, rest)
         | None \<Rightarrow> inbox_number s)))"

section \<open>Values\<close>

definition next_char :: "units \<Rightarrow> (nat \<times> units) option" where
  "next_char s = (case skipWhitespace s of [] \<Rightarrow> None | c # cs \<Rightarrow> Some (c, cs))"

text \<open>\<open>value\<close>, the loop over the members of an object and the loop over the items of an array.\<close>

function inbox_value :: "nat \<Rightarrow> nat \<Rightarrow> units \<Rightarrow> (strict_json \<times> nat \<times> units) option"
  and inbox_members :: "nat \<Rightarrow> nat \<Rightarrow> (units \<times> strict_json) list \<Rightarrow> units \<Rightarrow> (strict_json \<times> nat \<times> units) option"
  and inbox_items :: "nat \<Rightarrow> nat \<Rightarrow> strict_json list \<Rightarrow> units \<Rightarrow> (strict_json \<times> nat \<times> units) option"
where
  "inbox_value depth nodes s =
     (if depth > 64 \<or> nodes + 1 > 20000 then None
      else Option.bind (next_char s) (\<lambda>(c, cs).
        if c = 34 then map_option (\<lambda>(t, rest). (SStr t, nodes + 1, rest)) (inbox_string cs)
        else if c = 123 then Option.bind (next_char cs) (\<lambda>(d, ds).
          if d = 125 then Some (SObj [], nodes + 1, ds) else inbox_members (depth + 1) (nodes + 1) [] (d # ds))
        else if c = 91 then Option.bind (next_char cs) (\<lambda>(d, ds).
          if d = 93 then Some (SArr [], nodes + 1, ds) else inbox_items (depth + 1) (nodes + 1) [] (d # ds))
        else map_option (\<lambda>(v, rest). (v, nodes + 1, rest)) (inbox_scalar (c # cs))))"
| "inbox_members depth nodes acc s =
     Option.bind (next_char s) (\<lambda>(c, cs).
       if c \<noteq> 34 then None
       else Option.bind (inbox_string cs) (\<lambda>(key, s1).
         if key \<in> fst ` set acc then None
         else Option.bind (next_char s1) (\<lambda>(d, ds).
           if d \<noteq> 58 then None
           else Option.bind (inbox_value depth nodes ds) (\<lambda>(v, nodes', s2).
             Option.bind (next_char s2) (\<lambda>(e, es).
               if e = 125 then Some (SObj (acc @ [(key, v)]), nodes', es)
               else if e \<noteq> 44 then None
               else inbox_members depth nodes' (acc @ [(key, v)]) es)))))"
| "inbox_items depth nodes acc s =
     Option.bind (inbox_value depth nodes s) (\<lambda>(v, nodes', s2).
       Option.bind (next_char s2) (\<lambda>(e, es).
         if e = 93 then Some (SArr (acc @ [v]), nodes', es)
         else if e \<noteq> 44 then None
         else inbox_items depth nodes' (acc @ [v]) es))"
  by pat_completeness auto

lemma next_char_length: "next_char s = Some (c, cs) \<Longrightarrow> length cs < length s"
  using length_skipWhitespace[of s] by (auto simp: next_char_def split: list.splits)

lemma scan_body_length: "scan_body s = Some (body, rest) \<Longrightarrow> length rest < length s"
  by (induction s arbitrary: body rule: scan_body.induct) (fastforce split: if_splits list.splits)+

lemma inbox_string_length: "inbox_string s = Some (t, rest) \<Longrightarrow> length rest < length s"
  by (auto simp: inbox_string_def dest: scan_body_length split: option.splits)

lemma inbox_number_length: "inbox_number s = Some (v, rest) \<Longrightarrow> length rest \<le> length s"
proof -
  have sign: "length (snd (match_sign t)) \<le> length t" for t by (auto simp: match_sign_def split: list.splits)
  have whole: "length r \<le> length t" if "match_whole t = Some (w, r)" for t w r
    using that length_dropWhile_le[of digit_unit t] by (auto simp: match_whole_def split: list.splits if_splits)
  assume "inbox_number s = Some (v, rest)"
  then obtain sg s1 w where "match_sign s = (sg, s1)" "match_whole s1 = Some (w, rest)"
    by (auto simp: inbox_number_def Let_def split: prod.splits option.splits if_splits)
  with sign[of s] whole show ?thesis by fastforce
qed

lemma inbox_scalar_length: "inbox_scalar s = Some (v, rest) \<Longrightarrow> length rest \<le> length s"
  by (auto simp: inbox_scalar_def consumeLiteral_def dest: inbox_number_length split: option.splits if_splits)

lemma inbox_length_partial:
  "inbox_value_inbox_members_inbox_items_dom (Inl (depth, nodes, s)) \<Longrightarrow>
     inbox_value depth nodes s = Some (v, nodes', rest) \<Longrightarrow> length rest \<le> length s"
  "inbox_value_inbox_members_inbox_items_dom (Inr (Inl (depth, nodes, acc, s))) \<Longrightarrow>
     inbox_members depth nodes acc s = Some (v, nodes', rest) \<Longrightarrow> length rest \<le> length s"
  "inbox_value_inbox_members_inbox_items_dom (Inr (Inr (depth, nodes, items, s))) \<Longrightarrow>
     inbox_items depth nodes items s = Some (v, nodes', rest) \<Longrightarrow> length rest \<le> length s"
proof (induction arbitrary: v nodes' rest and v nodes' rest and v nodes' rest rule: inbox_value_inbox_members_inbox_items.pinduct)
  case (1 depth nodes s)
  from 1(4) obtain c cs where "\<not> (depth > 64 \<or> nodes + 1 > 20000)" and n: "next_char s = Some (c, cs)"
    by (auto simp: inbox_value.psimps[OF 1(1)] bind_eq_Some_conv split: if_split_asm)
  with 1 next_char_length[OF n] show ?case
    by (fastforce simp: inbox_value.psimps[OF 1(1)] bind_eq_Some_conv dest: inbox_scalar_length inbox_string_length next_char_length split: if_splits)
next
  case (2 depth nodes acc s)
  from 2(4) obtain cs key s1 ds v1 n1 s2 e es where o: "next_char s = Some (34, cs)" "inbox_string cs = Some (key, s1)" "key \<notin> fst ` set acc"
    "next_char s1 = Some (58, ds)" "inbox_value depth nodes ds = Some (v1, n1, s2)" "next_char s2 = Some (e, es)"
    and rest: "rest = es \<or> e \<noteq> 125 \<and> e = 44 \<and> inbox_members depth n1 (acc @ [(key, v1)]) es = Some (v, nodes', rest)"
    unfolding inbox_members.psimps[OF 2(1)] by (auto simp: bind_eq_Some_conv split: if_split_asm)
  have "length s2 \<le> length ds" using 2(2)[OF o(1) _ _ o(2) _ _ o(4)] o by auto
  moreover have "length rest \<le> length es" using rest 2(3)[OF o(1) _ _ o(2) _ _ o(4) _ _ o(5) _ _ o(6)] o(3) by auto
  ultimately show ?case
    using next_char_length[OF o(1)] inbox_string_length[OF o(2)] next_char_length[OF o(4)] next_char_length[OF o(6)] by auto
next
  case (3 depth nodes items s)
  from 3(4) obtain v1 n1 s2 e es where o: "inbox_value depth nodes s = Some (v1, n1, s2)" "next_char s2 = Some (e, es)"
    and rest: "rest = es \<or> e \<noteq> 93 \<and> e = 44 \<and> inbox_items depth n1 (items @ [v1]) es = Some (v, nodes', rest)"
    unfolding inbox_items.psimps[OF 3(1)] by (auto simp: bind_eq_Some_conv split: if_split_asm)
  have "length s2 \<le> length s" using 3(2) o by auto
  moreover have "length rest \<le> length es" using rest 3(3)[OF o(1) _ _ o(2)] by auto
  ultimately show ?case using next_char_length[OF o(2)] by auto
qed

definition inbox_measure :: "(nat \<times> nat \<times> units) + (nat \<times> nat \<times> (units \<times> strict_json) list \<times> units) + (nat \<times> nat \<times> strict_json list \<times> units) \<Rightarrow> nat" where
  "inbox_measure x = (case x of Inl (_, _, s) \<Rightarrow> 2 * length s
     | Inr (Inl (_, _, _, s)) \<Rightarrow> 2 * length s + 1 | Inr (Inr (_, _, _, s)) \<Rightarrow> 2 * length s + 1)"

termination inbox_value
proof (relation "measure inbox_measure", goal_cases)
  case (2 depth nodes s p c cs q d ds)
  then show ?case by (auto simp: inbox_measure_def dest!: next_char_length)
next
  case (3 depth nodes s p c cs q d ds)
  then show ?case by (auto simp: inbox_measure_def dest!: next_char_length)
next
  case (4 depth nodes acc s p c cs q key s1 r d ds)
  then show ?case by (auto simp: inbox_measure_def dest!: next_char_length inbox_string_length)
next
  case (5 depth nodes acc s p c cs q key s1 r d ds t v t' nodes' s2 u e es)
  then have "length s2 \<le> length ds" by (auto intro: inbox_length_partial(1))
  with 5 show ?case by (auto simp: inbox_measure_def dest!: next_char_length inbox_string_length)
next
  case (7 depth nodes acc s p v q nodes' s2 u e es)
  then have "length s2 \<le> length s" by (auto intro: inbox_length_partial(1))
  with 7 show ?case by (auto simp: inbox_measure_def dest!: next_char_length)
qed (auto simp: inbox_measure_def)

declare inbox_value.simps [simp del] inbox_members.simps [simp del] inbox_items.simps [simp del]

definition inbox_parse :: "nat list \<Rightarrow> strict_json option" where
  "inbox_parse bytes = Option.bind (utf8_decode bytes) (\<lambda>source.
     Option.bind (inbox_value 0 0 source) (\<lambda>(v, _, rest). if skipWhitespace rest = [] then Some v else None))"

section \<open>Agreement with the strict reader\<close>

lemma next_char_next_unit: "next_unit s = Inr (c, cs) \<Longrightarrow> next_char s = Some (c, cs)"
  by (auto simp: next_unit_def next_char_def split: list.splits)

lemma skip_skip: "skipWhitespace (skipWhitespace s) = skipWhitespace s"
  by (simp add: skipWhitespace_def)

lemma next_char_skip: "next_char (skipWhitespace s) = next_char s"
  by (simp add: next_char_def skip_skip)

lemma inbox_value_skip: "inbox_value depth nodes (skipWhitespace s) = inbox_value depth nodes s"
  by (simp add: inbox_value.simps[of depth nodes] next_char_skip)

lemma inbox_items_skip: "inbox_items depth nodes acc (skipWhitespace s) = inbox_items depth nodes acc s"
  by (simp add: inbox_items.simps[of depth nodes acc] inbox_value_skip)

lemma inbox_members_skip: "inbox_members depth nodes acc (skipWhitespace s) = inbox_members depth nodes acc s"
  by (simp add: inbox_members.simps[of depth nodes acc] next_char_skip)

lemma scan_body_of: "scan_string False s = Some (body, rest) \<Longrightarrow> scan_body s = Some (body, rest)"
proof (induction s arbitrary: body rule: scan_body.induct)
  case (2 c cs)
  show ?case
  proof (cases "c = 92")
    case True
    with 2 show ?thesis by (cases cs) (auto split: if_splits)
  next
    case False
    with 2 show ?thesis by (auto split: if_splits)
  qed
qed simp

lemma inbox_string_of: "parseString s = Inr (t, rest) \<Longrightarrow> inbox_string s = Some (t, rest)"
  by (auto simp: parseString_def inbox_string_def dest!: scan_body_of split: option.splits if_splits)

lemma js_number_not_minus_zero: "units_of (js_number n) \<noteq> [45, 48]"
proof
  assume "units_of (js_number n) = [45, 48]"
  hence "js_number n = ''-0''" using units_of_inject[of "js_number n" "''-0''"] by (simp add: code_units)
  moreover obtain c cs where "nat_digits (nat n) = c # cs" "is_digit c" using nat_digits_hd by blast
  moreover have "hd (nat_digits (nat (- n))) \<noteq> CHR ''0''" if "n < 0" using that by (intro nat_digits_no_leading_zero) simp
  ultimately show False by (auto simp: js_number_def is_digit_def code_units split: if_split_asm)
qed

lemma inbox_number_of:
  assumes "parseNumber s = Inr (v, rest)" "canonical_tokens v"
  shows "inbox_number s = Some (v, rest)"
proof -
  from assms(1) obtain m where m: "match_number s = Some (m, rest)" "v = number_token m" "isIntegerToken m \<longrightarrow> is_safe_integer (nm_integer m)"
    by (auto simp: parseNumber_def split: option.split_asm if_split_asm)
  from assms(2) m(2) have t: "isIntegerToken m" "nm_raw m = units_of (js_number (nm_integer m))"
    by (auto simp: number_token_def wire_integer_def split: if_split_asm)
  from m(1) t(1) obtain sg s1 w where "match_sign s = (sg, s1)" "match_whole s1 = Some (w, rest)" "nm_sign m = sg" "nm_whole m = w" "nm_expDigits m = []"
    by (auto simp: match_number_def Let_def isIntegerToken_def match_fraction_def match_exponent_def split: prod.splits option.splits list.splits if_splits)
  with m t js_number_not_minus_zero[of "nm_integer m"] show ?thesis
    by (auto simp: inbox_number_def Let_def number_token_def nm_raw_def isIntegerToken_def nm_integer_def)
qed

lemma inbox_scalar_of:
  assumes "parse_scalar (c # cs) = Inr (v, rest)" "canonical_tokens v" "c \<noteq> 34"
  shows "inbox_scalar (c # cs) = Some (v, rest)"
proof -
  have heads: "c \<noteq> 116 \<Longrightarrow> consumeLiteral TRUE_UNITS (c # cs) = None" "c \<noteq> 102 \<Longrightarrow> consumeLiteral FALSE_UNITS (c # cs) = None"
    "c \<noteq> 110 \<Longrightarrow> consumeLiteral NULL_UNITS (c # cs) = None"
    by (simp_all add: TRUE_UNITS_def FALSE_UNITS_def NULL_UNITS_def consumeLiteral_def)
  show ?thesis
    using assms heads inbox_number_of[of "c # cs"]
    by (auto simp: parse_scalar_def inbox_scalar_def split: if_split_asm option.splits)
qed

text \<open>What the loops have collected is part of their result.\<close>

lemma parse_collects:
  "parseValue depth nodes s = Inr (v, nodes', rest) \<Longrightarrow> True"
  "parse_members depth nodes acc s = Inr (v, nodes', rest) \<Longrightarrow> \<exists>kvs. v = SObj kvs \<and> set acc \<subseteq> set kvs"
  "parse_items depth nodes items s = Inr (v, nodes', rest) \<Longrightarrow> \<exists>vs. v = SArr vs \<and> set items \<subseteq> set vs"
proof (induction depth nodes s and depth nodes acc s and depth nodes items s arbitrary: v nodes' rest and v nodes' rest and v nodes' rest
    rule: parseValue_parse_members_parse_items.induct)
  case (2 depth nodes acc s)
  from 2(3) obtain cs key s1 ds v1 n1 s2 e es where p: "s = 34 # cs" "parseString cs = Inr (key, s1)" "key \<notin> fst ` set acc"
    "next_unit s1 = Inr (58, ds)" "parseValue depth nodes (skipWhitespace ds) = Inr (v1, n1, s2)" "next_unit s2 = Inr (e, es)"
    and r: "v = SObj (acc @ [(key, v1)]) \<or> e \<noteq> 125 \<and> e = 44 \<and> parse_members depth n1 (acc @ [(key, v1)]) (skipWhitespace es) = Inr (v, nodes', rest)"
    unfolding parse_members.simps[of depth nodes acc s] by (auto simp: and_then_Inr_iff split: list.split_asm if_split_asm)
  from r show ?case using 2(2)[OF p(1) _ p(2) _ _ p(4) _ _ p(5) _ _ p(6)] p(3) by fastforce
next
  case (3 depth nodes items s)
  from 3(3) obtain v1 n1 s2 e es where p: "s \<noteq> []" "parseValue depth nodes s = Inr (v1, n1, s2)" "next_unit s2 = Inr (e, es)"
    and r: "v = SArr (items @ [v1]) \<or> e \<noteq> 93 \<and> e = 44 \<and> parse_items depth n1 (items @ [v1]) (skipWhitespace es) = Inr (v, nodes', rest)"
    unfolding parse_items.simps[of depth nodes items s] by (auto simp: and_then_Inr_iff split: if_split_asm)
  from r show ?case using 3(2)[OF p(1,2) _ _ p(3)] by fastforce
qed simp

lemma scalar_visible: "parse_scalar (c # cs) = Inr (v, rest) \<Longrightarrow> \<not> whitespace c"
  by (auto simp: parse_scalar_def parseNumber_def match_number_def match_sign_def match_whole_def digit_unit_def whitespace_def)

lemma inbox_reads:
  "parseValue depth nodes s = Inr (v, nodes', rest) \<Longrightarrow> canonical_tokens v \<Longrightarrow> inbox_value depth nodes s = Some (v, nodes', rest)"
  "parse_members depth nodes acc s = Inr (v, nodes', rest) \<Longrightarrow> canonical_tokens v \<Longrightarrow> inbox_members depth nodes acc s = Some (v, nodes', rest)"
  "parse_items depth nodes items s = Inr (v, nodes', rest) \<Longrightarrow> canonical_tokens v \<Longrightarrow> inbox_items depth nodes items s = Some (v, nodes', rest)"
proof (induction depth nodes s and depth nodes acc s and depth nodes items s arbitrary: v nodes' rest and v nodes' rest and v nodes' rest
    rule: parseValue_parse_members_parse_items.induct)
  case (1 depth nodes s)
  from 1(3) obtain c cs where d: "\<not> depth > MAX_DEPTH" "\<not> nodes + 1 > MAX_NODES" and s: "s = c # cs"
    unfolding parseValue.simps[of depth nodes s] by (auto split: if_split_asm list.split_asm)
  consider (obj) d ds where "c = 123" "next_unit cs = Inr (d, ds)" "d = 125 \<and> v = SObj [] \<and> nodes' = nodes + 1 \<and> rest = ds \<or>
      d \<noteq> 125 \<and> parse_members (depth + 1) (nodes + 1) [] (d # ds) = Inr (v, nodes', rest)"
    | (arr) d ds where "c = 91" "next_unit cs = Inr (d, ds)" "d = 93 \<and> v = SArr [] \<and> nodes' = nodes + 1 \<and> rest = ds \<or>
      d \<noteq> 93 \<and> parse_items (depth + 1) (nodes + 1) [] (d # ds) = Inr (v, nodes', rest)"
    | (scalar) "c \<noteq> 123" "c \<noteq> 91" "parse_scalar (c # cs) = Inr (v, rest)" "nodes' = nodes + 1"
    using 1(3) d s unfolding parseValue.simps[of depth nodes s] by (auto simp: and_then_Inr_iff split: if_split_asm)
  then show ?case
  proof cases
    case obj
    have "next_char s = Some (123, cs)" using s obj(1) by (simp add: next_char_def skipWhitespace_def whitespace_def)
    moreover have "d \<noteq> 125 \<Longrightarrow> inbox_members (depth + 1) (nodes + 1) [] (d # ds) = Some (v, nodes', rest)"
      using obj 1(1)[OF d s obj(1,2)] 1(4) by fastforce
    ultimately show ?thesis
      using obj d next_char_next_unit[OF obj(2)] unfolding inbox_value.simps[of depth nodes s] by (auto simp: MAX_DEPTH_def MAX_NODES_def)
  next
    case arr
    have "next_char s = Some (91, cs)" using s arr(1) by (simp add: next_char_def skipWhitespace_def whitespace_def)
    moreover have "d \<noteq> 93 \<Longrightarrow> inbox_items (depth + 1) (nodes + 1) [] (d # ds) = Some (v, nodes', rest)"
      using arr 1(2)[OF d s _ arr(1,2)] 1(4) by fastforce
    ultimately show ?thesis
      using arr d next_char_next_unit[OF arr(2)] unfolding inbox_value.simps[of depth nodes s] by (auto simp: MAX_DEPTH_def MAX_NODES_def)
  next
    case scalar
    have "next_char s = Some (c, cs)"
      using s scalar_visible[OF scalar(3)] by (simp add: next_char_def skipWhitespace_def)
    moreover have "c = 34 \<Longrightarrow> \<exists>t. v = SStr t \<and> inbox_string cs = Some (t, rest)"
      using scalar(3) inbox_string_of by (auto simp: parse_scalar_def and_then_Inr_iff)
    ultimately show ?thesis
      using scalar d inbox_scalar_of[OF scalar(3) 1(4)] unfolding inbox_value.simps[of depth nodes s] by (auto simp: MAX_DEPTH_def MAX_NODES_def)
  qed
next
  case (2 depth nodes acc s)
  from 2(3) obtain cs key s1 ds v1 n1 s2 e es where p: "s = 34 # cs" "parseString cs = Inr (key, s1)" "key \<notin> fst ` set acc"
    "next_unit s1 = Inr (58, ds)" "parseValue depth nodes (skipWhitespace ds) = Inr (v1, n1, s2)" "next_unit s2 = Inr (e, es)"
    and r: "e = 125 \<and> v = SObj (acc @ [(key, v1)]) \<and> nodes' = n1 \<and> rest = es \<or>
      e \<noteq> 125 \<and> e = 44 \<and> parse_members depth n1 (acc @ [(key, v1)]) (skipWhitespace es) = Inr (v, nodes', rest)"
    unfolding parse_members.simps[of depth nodes acc s] by (auto simp: and_then_Inr_iff split: list.split_asm if_split_asm)
  have "canonical_tokens v1" using r 2(4) parse_collects(2) by (fastforce simp: list_all_iff)
  hence "inbox_value depth nodes ds = Some (v1, n1, s2)"
    using 2(1)[OF p(1) _ p(2) _ _ p(4) _ _ p(5)] p(3) inbox_value_skip by fastforce
  moreover have "next_char s = Some (34, cs)" using p(1) by (simp add: next_char_def skipWhitespace_def whitespace_def)
  moreover have "e = 44 \<Longrightarrow> inbox_members depth n1 (acc @ [(key, v1)]) es = Some (v, nodes', rest)"
    using r 2(2)[OF p(1) _ p(2) _ _ p(4) _ _ p(5) _ _ p(6)] p(3) 2(4) inbox_members_skip by fastforce
  ultimately show ?case
    using r p(3) inbox_string_of[OF p(2)] next_char_next_unit[OF p(4)] next_char_next_unit[OF p(6)]
    unfolding inbox_members.simps[of depth nodes acc s] by auto
next
  case (3 depth nodes items s)
  from 3(3) obtain v1 n1 s2 e es where p: "s \<noteq> []" "parseValue depth nodes s = Inr (v1, n1, s2)" "next_unit s2 = Inr (e, es)"
    and r: "e = 93 \<and> v = SArr (items @ [v1]) \<and> nodes' = n1 \<and> rest = es \<or>
      e \<noteq> 93 \<and> e = 44 \<and> parse_items depth n1 (items @ [v1]) (skipWhitespace es) = Inr (v, nodes', rest)"
    unfolding parse_items.simps[of depth nodes items s] by (auto simp: and_then_Inr_iff split: if_split_asm)
  have "canonical_tokens v1" using r 3(4) parse_collects(3) by (fastforce simp: list_all_iff)
  hence "inbox_value depth nodes s = Some (v1, n1, s2)" using 3(1) p by blast
  moreover have "e = 44 \<Longrightarrow> inbox_items depth n1 (items @ [v1]) es = Some (v, nodes', rest)"
    using r 3(2)[OF p(1,2) _ _ p(3)] 3(4) inbox_items_skip by fastforce
  ultimately show ?case
    using r next_char_next_unit[OF p(3)] unfolding inbox_items.simps[of depth nodes items s] by auto
qed

text \<open>
  The two readers agree. Whatever the strict reader of the observation edge reads from bytes that do
  not begin with a byte order mark, with every number a canonical safe integer, the parser of the inbox
  reads as the same value.
\<close>

theorem inbox_reads_strict:
  assumes "parseStrictJson bytes = Inr v" and "strip_bom bytes = bytes" and "canonical_tokens v"
  shows "inbox_parse bytes = Some v"
proof -
  from assms(1,2) obtain source n rest where "utf8_decode bytes = Some source" "parseValue 0 0 (skipWhitespace source) = Inr (v, n, rest)"
    "skipWhitespace rest = []"
    by (auto simp: parseStrictJson_def parse_units_def and_then_Inr_iff split: option.split_asm if_split_asm)
  with inbox_reads(1)[OF this(2) assms(3)] show ?thesis by (simp add: inbox_parse_def inbox_value_skip)
qed

theorem inbox_reads_strict_witness:
  "inbox_parse (utf8_encode (canonicalStringify (JObj [(''a'', JNum 5)]))) = Some (SObj [([97], SNum [53] (Some 5))])"
proof -
  let ?v = "JObj [(''a'', JNum 5)]"
  have "readable ?v" "nesting (strict_of ?v) \<le> MAX_DEPTH" "count_values (strict_of ?v) \<le> MAX_NODES"
    by (simp_all add: is_safe_integer_def MAX_SAFE_INTEGER_def MAX_DEPTH_def MAX_NODES_def)
  from reads_back[OF this] have "parseStrictJson (utf8_encode (canonicalStringify ?v)) = Inr (strict_of ?v)" by simp
  moreover have "strict_of ?v = SObj [([97], SNum [53] (Some 5))]" by code_simp
  moreover have "canonical_tokens (SObj [([97], SNum [53] (Some 5))])" by code_simp
  ultimately show ?thesis using inbox_reads_strict[of "utf8_encode (canonicalStringify ?v)"] no_bom by simp
qed

end
