(* ===== verification/Signal_Inbox.thy ===== *)
theory Signal_Inbox
  imports Inbox_Parse Signal_Delivery Telemetry_Values
begin

text \<open>
  The receiver of signal deliveries on the execution edge (\<open>signal-evidence-inbox-v1.ts\<close>) with the
  readers it takes from \<open>telemetry-schema-v2.ts\<close>. A reader turns a parsed value into a JSON value whose
  members are in the order of the schema, or throws (\<open>None\<close>); every exception gets the same answer. The
  table is a list of rows. The property joins it with the dispatcher of the observation edge.
\<close>

section \<open>Readers\<close>

type_synonym reader = "strict_json \<Rightarrow> json option"

text \<open>\<open>text\<close>, for patterns that match texts of ASCII characters only.\<close>

definition read_text :: "nat \<Rightarrow> (string \<Rightarrow> bool) \<Rightarrow> reader" where
  "read_text maximum pattern v = (case v of
       SStr u \<Rightarrow> if length u \<le> maximum \<and> list_all (\<lambda>c. c < 128) u \<and> pattern (string_of_units u) then Some (JStr (string_of_units u)) else None
     | _ \<Rightarrow> None)"

definition read_integer :: "int \<Rightarrow> reader" where
  "read_integer minimum v = (case v of
       SNum raw (Some n) \<Rightarrow> (case readCounterV2 n minimum of Inr m \<Rightarrow> Some (JNum m) | Inl _ \<Rightarrow> None)
     | _ \<Rightarrow> None)"

fun read_boolean :: reader where
  "read_boolean (SBool b) = Some (JBool b)"
| "read_boolean _ = None"

fun same_scalar :: "strict_json \<Rightarrow> json \<Rightarrow> bool" where
  "same_scalar (SStr u) (JStr s) = (u = units_of s)"
| "same_scalar (SNum raw (Some n)) (JNum m) = (n = m)"
| "same_scalar (SBool a) (JBool b) = (a = b)"
| "same_scalar SNull JNull = True"
| "same_scalar _ _ = False"

definition read_choice :: "json list \<Rightarrow> reader" where
  "read_choice values v = find (same_scalar v) values"

definition read_nullable :: "reader \<Rightarrow> reader" where
  "read_nullable r v = (if v = SNull then Some JNull else r v)"

definition exact_plain :: "members \<Rightarrow> string list \<Rightarrow> bool" where
  "exact_plain kvs keys \<longleftrightarrow> length kvs = length keys \<and> list_all (\<lambda>kv. fst kv \<in> set (map units_of keys)) kvs"

definition read_object :: "(string \<times> reader) list \<Rightarrow> reader" where
  "read_object shape v = (case v of
       SObj kvs \<Rightarrow>
         if exact_plain kvs (map fst shape)
         then map_option JObj (those (map (\<lambda>(k, r). Option.bind (field_of kvs k) (\<lambda>x. map_option (Pair k) (r x))) shape))
         else None
     | _ \<Rightarrow> None)"

definition read_list :: "reader \<Rightarrow> nat \<Rightarrow> reader" where
  "read_list r maximum v = (case v of
       SArr vs \<Rightarrow> if length vs > maximum then None else map_option JArr (those (map r vs))
     | _ \<Rightarrow> None)"

definition choice_of :: "string list \<Rightarrow> reader" where
  "choice_of names = read_choice (map JStr names)"

section \<open>The schema of a delivery\<close>

definition id_pattern :: "string \<Rightarrow> bool" where
  "id_pattern s \<longleftrightarrow> s \<noteq> [] \<and> list_all (\<lambda>c. identifier_unit (code_unit c)) s"

text \<open>\<open>^(?:0\.[0-9]*[1-9]|[1-9][0-9]*(?:\.[0-9]*[1-9])?)$\<close>.\<close>

definition trimmed_decimal :: "string \<Rightarrow> bool" where
  "trimmed_decimal s \<longleftrightarrow>
     (let whole = takeWhile is_digit s in
      case dropWhile is_digit s of
        [] \<Rightarrow> whole_part whole
      | c # f \<Rightarrow> c = CHR ''.'' \<and> f \<noteq> [] \<and> list_all is_digit f \<and> last f \<noteq> CHR ''0'' \<and> (whole = ''0'' \<or> whole_part whole))"

definition digest_reader :: reader where "digest_reader = read_text 64 is_sha256"
definition identifier_reader :: reader where "identifier_reader = read_text 160 id_pattern"
definition innerId :: reader where "innerId = read_text 256 id_pattern"
definition sourceId :: reader where "sourceId = read_text 1024 id_pattern"
definition counter_reader :: reader where "counter_reader = read_integer 0"
definition positive_reader :: reader where "positive_reader = read_integer 1"
definition models_reader :: reader where "models_reader = choice_of [''BOC'', ''DIR_CLOSE'', ''HTF_FLIP'']"
definition direction_reader :: reader where "direction_reader = choice_of [''LONG'', ''SHORT'']"
definition fidelity_reader :: reader where "fidelity_reader = choice_of [''EXACT'', ''CALIBRATED'', ''DISCRETIONARY'', ''UNRESOLVED'']"
definition plane_reader :: reader where
  "plane_reader = choice_of [''CONFIRMED_5M'', ''LOWER_TIMEFRAME_REPLAY'', ''REALTIME_TICK'', ''EXTERNAL_ARCHIVED_TICK'']"
definition replayability_reader :: reader where "replayability_reader = choice_of [''REPLAYABLE'', ''LIVE_EXACT_NON_REPLAYABLE'']"
definition tier_reader :: reader where "tier_reader = read_nullable (choice_of [''HTF_TIMED'', ''DISCRETIONARY_5M''])"
definition strings_reader :: reader where "strings_reader = read_list innerId 20000"
definition safety_shape :: "(string \<times> reader) list" where
  "safety_shape = [(''authority'', choice_of [''EVIDENCE_ONLY'']), (''execution_allowed'', read_choice [JBool False])]"
definition tickSize_reader :: reader where "tickSize_reader = read_text 64 trimmed_decimal"

definition candle_reader :: reader where
  "candle_reader = read_object [(''open_epoch'', counter_reader), (''close_epoch'', counter_reader), (''open_ticks'', positive_reader),
     (''high_ticks'', positive_reader), (''low_ticks'', positive_reader), (''close_ticks'', positive_reader)]"

definition binding_reader :: reader where
  "binding_reader = read_object [(''schema_version'', choice_of [''TradeOpsSignalEvidenceBindingV1'']), (''producer_namespace'', identifier_reader),
     (''ticker_id'', identifier_reader), (''feed'', innerId), (''symbol'', innerId), (''tick_size'', tickSize_reader),
     (''detector_code_hash'', digest_reader), (''settings_hash'', digest_reader)]"

definition formation_reader :: reader where
  "formation_reader = read_object [(''setup_id'', innerId), (''origin_epoch'', positive_reader), (''confirmation_epoch'', positive_reader),
     (''direction'', direction_reader), (''variant'', choice_of [''STANDARD'', ''ACCURACY'']), (''origin_open_ticks'', positive_reader),
     (''origin_high_ticks'', positive_reader), (''origin_low_ticks'', positive_reader), (''origin_close_ticks'', positive_reader),
     (''zone_top_ticks'', positive_reader), (''zone_bottom_ticks'', positive_reader), (''formation_source_id'', sourceId)]"

definition candidate_reader :: reader where
  "candidate_reader = read_object [(''candidate_id'', innerId), (''setup_id'', innerId), (''model'', models_reader),
     (''state'', choice_of [''MATCHED'', ''BLOCKED'', ''REJECTED'']), (''direction'', direction_reader), (''event_anchor_epoch'', counter_reader),
     (''trigger_ordinal'', counter_reader), (''boc_tier'', tier_reader), (''reference_candle_open_epoch'', read_nullable counter_reader),
     (''source_claim_ids'', strings_reader), (''observed_at_epoch'', counter_reader)]"

definition proof_reader :: reader where
  "proof_reader = read_object
     [(''evidence_id'', innerId), (''candidate_id'', innerId), (''observed_trigger_epoch'', read_nullable counter_reader),
      (''trigger_sequence'', counter_reader), (''observed_trigger_ticks'', read_nullable positive_reader),
      (''htf_context_minutes'', read_list (read_choice [JNum 15, JNum 30, JNum 60]) 3), (''fidelity'', fidelity_reader),
      (''proof_plane'', plane_reader), (''replayability'', replayability_reader), (''coverage_start_epoch'', counter_reader),
      (''coverage_end_epoch'', counter_reader), (''ambiguity_codes'', read_list (choice_of [''SHADOW_SAME_CHILD_BAR_ORDER'',
        ''SHADOW_MISSING_INTRABAR_COVERAGE'', ''SHADOW_REALTIME_ONLY_NOT_REPLAYABLE'']) 3), (''boc_tier'', tier_reader),
      (''reference_candle_open_epoch'', read_nullable counter_reader), (''reference_candle_open_ticks'', read_nullable positive_reader),
      (''reference_candle_high_ticks'', read_nullable positive_reader), (''reference_candle_low_ticks'', read_nullable positive_reader),
      (''reference_candle_close_ticks'', read_nullable positive_reader), (''htf_open_ticks'', read_nullable positive_reader),
      (''contact_candle'', read_nullable candle_reader), (''recross_candle'', read_nullable candle_reader),
      (''coverage_gap_detected'', read_nullable read_boolean), (''full_lifecycle_ordered'', read_nullable read_boolean),
      (''destination_seen_before_contact'', read_nullable read_boolean), (''passed_rule_ids'', strings_reader),
      (''failed_rule_ids'', strings_reader), (''source_claim_ids'', strings_reader), (''payload_sha256'', innerId), (''observed_at_epoch'', counter_reader)]"

definition selection_reader :: reader where
  "selection_reader = read_object
     [(''selection_id'', innerId), (''setup_id'', innerId), (''policy_version'', choice_of [''rd-entry-arbitration-v3'']), (''revision'', counter_reader),
      (''candidate_ids_considered'', strings_reader), (''canonical_candidate_id'', read_nullable innerId), (''canonical_evidence_id'', read_nullable innerId),
      (''canonical_model'', read_nullable models_reader),
      (''reason'', choice_of [''ONLY_EXACT_TRIGGER'', ''EARLIEST_EXACT_TRIGGER'', ''FALLBACK_TO_CONFIRMED_CLOSE'', ''CO_TRIGGER_SAME_EVENT'',
        ''CO_TRIGGER_PRICE_CONFLICT'', ''NO_EXACT_CANDIDATE'', ''SETUP_INVALIDATED'', ''NO_CANDIDATE'']),
      (''fidelity'', read_nullable fidelity_reader), (''action'', choice_of [''OBSERVE'', ''PAPER_ELIGIBLE'', ''SHADOW_ONLY'', ''NONE'']),
      (''co_triggered_models'', read_list models_reader 3), (''evaluated_at_epoch'', counter_reader)]"

definition evaluation_reader :: reader where
  "evaluation_reader = read_object [(''candidates'', read_list candidate_reader 20000), (''evidence'', read_list proof_reader 20000),
     (''selection'', selection_reader)]"

definition setup_reader :: reader where
  "setup_reader = read_object [(''setup_id'', innerId), (''direction'', direction_reader), (''zone_top_ticks'', positive_reader),
     (''zone_bottom_ticks'', positive_reader), (''zone_engaged_epoch'', read_nullable counter_reader), (''invalidated_before_entry'', read_boolean),
     (''common_fidelity'', fidelity_reader), (''liquidity_cohort'', choice_of [''ONE_CANDLE'', ''TWO_PLUS_CANDLES'']),
     (''one_candle_enabled'', read_boolean),
     (''common_rule_results'', read_list (read_object [(''rule_id'', innerId), (''passed'', read_boolean)]) 20000)]"

definition bundle_reader :: reader where
  "bundle_reader = read_object [(''setup'', setup_reader), (''candidates'', read_list candidate_reader 20000), (''evidence'', read_list proof_reader 20000),
     (''selection_proposal'', selection_reader),
     (''trade_plan'', read_nullable (read_object [(''direction'', direction_reader), (''entry_ticks'', positive_reader), (''stop_ticks'', positive_reader),
       (''target_ticks'', positive_reader)]))]"

definition observation_reader :: reader where
  "observation_reader = read_object
     [(''schema_version'', choice_of [''3.1'']), (''strategy_id'', identifier_reader), (''strategy_version'', choice_of [''3.1.0-contract3'']),
      (''rule_contract_version'', choice_of [''3.1.0'']), (''execution_mode'', choice_of [''PAPER_ONLY'']), (''producer_instance_id'', identifier_reader),
      (''producer_sequence'', positive_reader), (''event_id'', innerId), (''is_realtime'', read_choice [JBool True]), (''symbol'', innerId),
      (''ticker_id'', identifier_reader), (''feed'', innerId), (''timeframe'', choice_of [''5'']), (''tick_size'', read_text 64 decimal_text),
      (''detector_code_hash'', digest_reader), (''settings_hash'', digest_reader), (''observed_at_epoch'', counter_reader),
      (''market_event'', read_object [(''epoch'', counter_reader), (''sequence'', counter_reader), (''tick_price_ticks'', read_nullable positive_reader),
        (''barstate_isconfirmed'', read_boolean), (''confirmed_bar'', read_nullable candle_reader)]),
      (''exit_events'', read_list (read_object [(''event_id'', innerId), (''setup_id'', innerId), (''exit_reason'', innerId), (''epoch'', counter_reader),
        (''sequence'', counter_reader), (''price_ticks'', positive_reader)]) 0),
      (''setups'', read_list bundle_reader 20000)]"

definition entry_reader :: reader where
  "entry_reader = read_object ((''schema_version'', choice_of [''TradeOpsSignalEvidenceV1'']) # safety_shape @
     [(''status'', choice_of [''SELECTED'']), (''attempt_key'', digest_reader), (''formation_body_sha256'', digest_reader), (''evidence_id'', digest_reader),
      (''evidence_body_sha256'', digest_reader), (''formation'', formation_reader), (''reviewed_binding'', binding_reader),
      (''source_observation'', observation_reader), (''edge_evaluation'', evaluation_reader),
      (''selected'', read_object [(''candidate'', candidate_reader), (''evidence'', proof_reader)])])"

definition delivery_reader :: reader where
  "delivery_reader = read_object ((''schema_version'', choice_of [''TradeOpsSignalDeliveryV1'']) # safety_shape @
     [(''delivery_id'', digest_reader), (''delivery_body_sha256'', digest_reader), (''receipt_id'', digest_reader), (''registration_id'', identifier_reader),
      (''generation'', positive_reader), (''attempt_key'', digest_reader), (''evidence_id'', digest_reader), (''evidence_body_sha256'', digest_reader),
      (''admitted_at_epoch'', counter_reader), (''expires_at_epoch'', counter_reader), (''evidence'', entry_reader)])"

section \<open>Validation of a delivery\<close>

text \<open>Members of a value that a reader has returned; the readers leave none of them out.\<close>

definition at :: "json \<Rightarrow> string \<Rightarrow> json" where
  "at v k = (case v of JObj kvs \<Rightarrow> (case map_of kvs k of Some x \<Rightarrow> x | None \<Rightarrow> JNull) | _ \<Rightarrow> JNull)"

definition num_at :: "json \<Rightarrow> string \<Rightarrow> int" where
  "num_at v k = (case at v k of JNum n \<Rightarrow> n | _ \<Rightarrow> 0)"

definition items_at :: "json \<Rightarrow> string \<Rightarrow> json list" where
  "items_at v k = (case at v k of JArr vs \<Rightarrow> vs | _ \<Rightarrow> [])"

definition text_at :: "json \<Rightarrow> string \<Rightarrow> string" where
  "text_at v k = (case at v k of JStr s \<Rightarrow> s | _ \<Rightarrow> [])"

definition pick :: "json \<Rightarrow> string list \<Rightarrow> (string \<times> json) list" where
  "pick v keys = map (\<lambda>k. (k, at v k)) keys"

definition without :: "string list \<Rightarrow> json \<Rightarrow> json" where
  "without keys v = (case v of JObj kvs \<Rightarrow> JObj (filter (\<lambda>kv. fst kv \<notin> set keys) kvs) | _ \<Rightarrow> v)"

definition hash_matches :: "platform \<Rightarrow> json \<Rightarrow> json \<Rightarrow> bool" where
  "hash_matches P digest v \<longleftrightarrow> (case edge_sha256 P v of Inl _ \<Rightarrow> False | Inr h \<Rightarrow> digest = JStr h)"

definition same_json :: "json \<Rightarrow> json \<Rightarrow> bool" where
  "same_json a b \<longleftrightarrow> (case (serialize a, serialize b) of (Inr s, Inr t) \<Rightarrow> s = t | _ \<Rightarrow> False)"

definition MAX_BODY :: nat where "MAX_BODY = 278528"
definition MAX_EVIDENCE :: nat where "MAX_EVIDENCE = 262144"

definition valid_evaluation :: "json \<Rightarrow> json \<Rightarrow> bool" where
  "valid_evaluation e setupId \<longleftrightarrow>
     (let candidates = items_at e ''candidates''; evidence = items_at e ''evidence''; selection = at e ''selection'' in
      distinct (map (\<lambda>c. at c ''candidate_id'') candidates) \<and> distinct (map (\<lambda>p. at p ''evidence_id'') evidence) \<and>
      distinct (items_at selection ''candidate_ids_considered'') \<and> distinct (items_at selection ''co_triggered_models'') \<and>
      at selection ''setup_id'' = setupId \<and> list_all (\<lambda>c. at c ''setup_id'' = setupId) candidates \<and>
      list_all (\<lambda>p. list_ex (\<lambda>c. at c ''candidate_id'' = at p ''candidate_id'') candidates) evidence \<and>
      list_all (\<lambda>i. list_ex (\<lambda>c. at c ''candidate_id'' = i) candidates) (items_at selection ''candidate_ids_considered''))"

text \<open>\<open>{ candidates, evidence, selection }\<close> of a setup of the observation.\<close>

definition setup_evaluation :: "json \<Rightarrow> json" where
  "setup_evaluation s = JObj [(''candidates'', at s ''candidates''), (''evidence'', at s ''evidence''), (''selection'', at s ''selection_proposal'')]"

definition attempt_identity :: "json \<Rightarrow> json" where
  "attempt_identity e = (let f = at e ''formation''; b = at e ''reviewed_binding''; o' = at e ''source_observation'' in
     JObj ([(''domain'', JStr ''tradeops-demo-attempt-v1''), (''strategy_id'', at o' ''strategy_id''), (''ticker_id'', at b ''ticker_id''),
       (''feed'', at b ''feed''), (''timeframe'', JStr ''5'')] @
       pick f [''origin_epoch'', ''confirmation_epoch'', ''direction'', ''variant''] @ [(''attempt_kind'', JStr ''INITIAL'')]))"

definition formation_identity :: "json \<Rightarrow> json" where
  "formation_identity e = (let f = at e ''formation'' in
     JObj ((''domain'', JStr ''tradeops-demo-formation-v1'') #
       pick f [''origin_epoch'', ''confirmation_epoch'', ''direction'', ''variant'', ''origin_open_ticks'', ''origin_high_ticks'', ''origin_low_ticks'',
         ''origin_close_ticks''] @
       (''tick_size'', at (at e ''reviewed_binding'') ''tick_size'') # pick f [''zone_top_ticks'', ''zone_bottom_ticks'']))"

definition evidence_identity :: "json \<Rightarrow> json" where
  "evidence_identity e = (let o' = at e ''source_observation'' in
     JObj ([(''domain'', JStr ''tradeops-signal-evidence-id-v1''), (''producer_namespace'', at (at e ''reviewed_binding'') ''producer_namespace'')] @
       pick o' [''producer_instance_id'', ''event_id'', ''producer_sequence''] @ [(''attempt_key'', at e ''attempt_key'')]))"

text \<open>The binding is that of the observation.\<close>

definition binding_matches :: "json \<Rightarrow> json \<Rightarrow> bool" where
  "binding_matches b o' \<longleftrightarrow>
     text_at b ''detector_code_hash'' \<noteq> zero_digest \<and> text_at b ''settings_hash'' \<noteq> zero_digest \<and>
     list_all (\<lambda>k. at b k = at o' k) [''ticker_id'', ''feed'', ''symbol'', ''detector_code_hash'', ''settings_hash''] \<and>
     text_at b ''tick_size'' = canonical_tick (text_at o' ''tick_size'')"

definition identities_match :: "platform \<Rightarrow> json \<Rightarrow> bool" where
  "identities_match P body \<longleftrightarrow>
     (let e = at body ''evidence''; o' = at e ''source_observation'' in
      hash_matches P (at e ''attempt_key'') (attempt_identity e) \<and>
      hash_matches P (at e ''formation_body_sha256'') (formation_identity e) \<and>
      hash_matches P (at e ''evidence_id'') (evidence_identity e) \<and>
      hash_matches P (at body ''delivery_id'')
        (JObj [(''schema_version'', JStr ''TradeOpsSignalDeliveryIdentityV1''), (''attempt_key'', at e ''attempt_key''), (''evidence_id'', at e ''evidence_id'')]) \<and>
      hash_matches P (at body ''receipt_id'')
        (JObj [(''schema_version'', JStr ''TradeOpsSignalReceiptIdentityV1''), (''registration_id'', at body ''registration_id''),
          (''generation'', at body ''generation''), (''sequence'', at o' ''producer_sequence'')]) \<and>
      hash_matches P (at e ''evidence_body_sha256'') (without [''evidence_body_sha256''] e) \<and>
      hash_matches P (at body ''delivery_body_sha256'') (without [''delivery_body_sha256''] body))"

text \<open>The selected candidate and its proof are those of the evaluation, and the evaluation is that of the observed setup.\<close>

definition selection_matches :: "json \<Rightarrow> bool" where
  "selection_matches e \<longleftrightarrow>
     (let f = at e ''formation''; o' = at e ''source_observation''; evaluation = at e ''edge_evaluation''; selected = at evaluation ''selection'';
          c = at (at e ''selected'') ''candidate''; p = at (at e ''selected'') ''evidence''; setups = items_at o' ''setups'' in
      distinct (map (\<lambda>s. at (at s ''setup'') ''setup_id'') setups) \<and>
      list_all (\<lambda>s. valid_evaluation (setup_evaluation s) (at (at s ''setup'') ''setup_id'')) setups \<and>
      valid_evaluation evaluation (at f ''setup_id'') \<and>
      (case find (\<lambda>s. at (at s ''setup'') ''setup_id'' = at f ''setup_id'') setups of
         None \<Rightarrow> False
       | Some s \<Rightarrow> list_all (\<lambda>k. at (at s ''setup'') k = at f k) [''direction'', ''zone_top_ticks'', ''zone_bottom_ticks''] \<and>
           same_json (setup_evaluation s) evaluation) \<and>
      at c ''state'' = JStr ''MATCHED'' \<and> at c ''direction'' = at f ''direction'' \<and> at c ''setup_id'' = at f ''setup_id'' \<and>
      at p ''candidate_id'' = at c ''candidate_id'' \<and>
      at selected ''canonical_model'' = at c ''model'' \<and> at selected ''canonical_candidate_id'' = at c ''candidate_id'' \<and>
      at selected ''canonical_evidence_id'' = at p ''evidence_id'' \<and> at selected ''action'' = JStr ''PAPER_ELIGIBLE'' \<and>
      at selected ''fidelity'' = JStr ''EXACT'' \<and>
      list_ex (\<lambda>x. same_json x c) (items_at evaluation ''candidates'') \<and> list_ex (\<lambda>x. same_json x p) (items_at evaluation ''evidence''))"

definition proof_is_exact :: "platform \<Rightarrow> json \<Rightarrow> bool" where
  "proof_is_exact P e \<longleftrightarrow>
     (let o' = at e ''source_observation''; selected = at (at e ''edge_evaluation'') ''selection'';
          c = at (at e ''selected'') ''candidate''; p = at (at e ''selected'') ''evidence'' in
      at p ''fidelity'' = JStr ''EXACT'' \<and> items_at p ''failed_rule_ids'' = [] \<and> at p ''observed_trigger_epoch'' \<noteq> JNull \<and>
      num_at p ''coverage_start_epoch'' \<le> num_at p ''coverage_end_epoch'' \<and>
      num_at c ''observed_at_epoch'' \<le> num_at selected ''evaluated_at_epoch'' \<and> num_at p ''observed_at_epoch'' \<le> num_at selected ''evaluated_at_epoch'' \<and>
      num_at selected ''evaluated_at_epoch'' \<le> num_at o' ''observed_at_epoch'' \<and>
      list_all is_sha256 [text_at c ''candidate_id'', text_at p ''evidence_id'', text_at p ''payload_sha256'', text_at selected ''selection_id''] \<and>
      hash_matches P (at c ''candidate_id'') (JObj (pick c [''boc_tier'', ''direction'', ''event_anchor_epoch'', ''model'', ''reference_candle_open_epoch'',
        ''setup_id'', ''trigger_ordinal''])) \<and>
      hash_matches P (at p ''payload_sha256'') (without [''evidence_id'', ''payload_sha256'', ''observed_at_epoch''] p) \<and>
      hash_matches P (at p ''evidence_id'') (JObj (pick p [''candidate_id'', ''coverage_end_epoch'', ''coverage_start_epoch'', ''observed_trigger_epoch'',
        ''payload_sha256'', ''proof_plane'', ''trigger_sequence''])) \<and>
      hash_matches P (at selected ''selection_id'') (without [''selection_id'', ''canonical_model'', ''evaluated_at_epoch''] selected) \<and>
      (if at c ''model'' = JStr ''DIR_CLOSE'' then at p ''proof_plane'' = JStr ''CONFIRMED_5M'' \<and> at p ''replayability'' = JStr ''REPLAYABLE''
       else at p ''proof_plane'' = JStr ''REALTIME_TICK'' \<and> at p ''replayability'' = JStr ''LIVE_EXACT_NON_REPLAYABLE'' \<and>
         (if at c ''model'' = JStr ''BOC''
          then at c ''boc_tier'' = JStr ''HTF_TIMED'' \<and> at p ''boc_tier'' = JStr ''HTF_TIMED'' \<and> at p ''reference_candle_open_epoch'' \<noteq> JNull \<and>
            at p ''observed_trigger_ticks'' \<noteq> JNull
          else at p ''contact_candle'' \<noteq> JNull \<and> at p ''recross_candle'' \<noteq> JNull \<and> at p ''coverage_gap_detected'' = JBool False \<and>
            at p ''full_lifecycle_ordered'' = JBool True \<and> at p ''destination_seen_before_contact'' = JBool False \<and>
            num_at (at p ''contact_candle'') ''close_epoch'' \<le> num_at (at p ''recross_candle'') ''open_epoch'')))"

definition decodeSignalDeliveryV1 :: "platform \<Rightarrow> nat list \<Rightarrow> json option" where
  "decodeSignalDeliveryV1 P bytes = do {
     require (length bytes > 0 \<and> length bytes \<le> MAX_BODY);
     raw \<leftarrow> inbox_parse bytes;
     body \<leftarrow> delivery_reader raw;
     let e = at body ''evidence'';
     require (case serialize e of Inl _ \<Rightarrow> False | Inr s \<Rightarrow> length (utf8_encode s) \<le> MAX_EVIDENCE);
     require (list_all (\<lambda>k. at body k = at e k) [''attempt_key'', ''evidence_id'', ''evidence_body_sha256'']);
     require (num_at body ''expires_at_epoch'' > num_at body ''admitted_at_epoch'');
     require (binding_matches (at e ''reviewed_binding'') (at e ''source_observation''));
     require (identities_match P body);
     require (selection_matches e);
     require (proof_is_exact P e);
     Some body }"

section \<open>The endpoint\<close>

record inbox_env =
  ie_enabled :: "string option"
  ie_secret :: "string option"

record inbox_request =
  iq_method :: string
  iq_authorization :: "string option"
  iq_content_type :: "string option"
  iq_content_length :: "string option"
  iq_body :: "nat list list option"

record inbox_row =
  ix_delivery_id :: string
  ix_namespace :: string
  ix_attempt_key :: string
  ix_delivery_body_sha256 :: string
  ix_receipt_id :: string
  ix_evidence_id :: string
  ix_evidence_body_sha256 :: string
  ix_registration_id :: string
  ix_generation :: int
  ix_admitted_at_epoch :: int
  ix_expires_at_epoch :: int
  ix_received_at_epoch :: int
  ix_body :: string

record inbox_reply =
  ir_status :: int
  ir_body :: json

definition inbox_failure :: "string \<Rightarrow> int \<Rightarrow> inbox_reply" where
  "inbox_failure error status = \<lparr>ir_status = status,
     ir_body = JObj [(''authority'', JStr ''EVIDENCE_ONLY''), (''execution_allowed'', JBool False), (''error'', JStr error)]\<rparr>"

definition inbox_ack :: "json \<Rightarrow> bool \<Rightarrow> inbox_reply" where
  "inbox_ack body stored = \<lparr>ir_status = (if stored then 201 else 200),
     ir_body = JObj [(''schema_version'', JStr ''TradeOpsSignalDeliveryAckV1''), (''authority'', JStr ''EVIDENCE_ONLY''), (''execution_allowed'', JBool False),
       (''delivery_id'', at body ''delivery_id''), (''delivery_body_sha256'', at body ''delivery_body_sha256''),
       (''status'', JStr (if stored then ''STORED'' else ''DUPLICATE''))]\<rparr>"

definition bearer_text :: "string \<Rightarrow> bool" where
  "bearer_text s \<longleftrightarrow> take 7 s = ''Bearer '' \<and> 1 \<le> length (drop 7 s) \<and> length (drop 7 s) \<le> 1024 \<and>
     list_all (\<lambda>c. 32 \<le> code_unit c \<and> code_unit c \<le> 126) (drop 7 s)"

definition inbox_authenticated :: "platform \<Rightarrow> inbox_env \<Rightarrow> inbox_request \<Rightarrow> bool" where
  "inbox_authenticated P env request =
     (let authorization = (case iq_authorization request of None \<Rightarrow> [] | Some s \<Rightarrow> s) in
      case ie_secret env of
        None \<Rightarrow> False
      | Some expected \<Rightarrow>
          if \<not> is_sha256 expected \<or> \<not> bearer_text authorization then False
          else fold (\<lambda>(a, b) mismatch. or mismatch (xor (code_unit a) (code_unit b)))
            (zip (sha256Hex P (drop 7 authorization)) expected) 0 = 0)"

definition lower :: "char \<Rightarrow> char" where
  "lower c = (if 65 \<le> code_unit c \<and> code_unit c \<le> 90 then char_of (code_unit c + 32) else c)"

text \<open>\<open>^application\/json(?:\s*;\s*charset=utf-8)?$\<close> without regard to case.\<close>

definition json_content_type :: "string \<Rightarrow> bool" where
  "json_content_type s \<longleftrightarrow> map lower (take 16 s) = ''application/json'' \<and>
     (drop 16 s = [] \<or> (case dropWhile regexp_space (drop 16 s) of
        [] \<Rightarrow> False
      | c # rest \<Rightarrow> c = CHR '';'' \<and> map lower (dropWhile regexp_space rest) = ''charset=utf-8''))"

text \<open>\<open>boundedBody\<close>; \<open>None\<close> is \<open>TELEMETRY_TOO_LARGE\<close>.\<close>

fun collect_chunks :: "nat \<Rightarrow> nat list \<Rightarrow> nat list list \<Rightarrow> nat list option" where
  "collect_chunks maximum acc [] = Some acc"
| "collect_chunks maximum acc (chunk # chunks) =
     (if length acc + length chunk > maximum then None else collect_chunks maximum (acc @ chunk) chunks)"

definition boundedBody :: "nat \<Rightarrow> inbox_request \<Rightarrow> nat list option" where
  "boundedBody maximum request =
     (if (case iq_content_length request of None \<Rightarrow> False | Some l \<Rightarrow> l \<noteq> [] \<and> list_all is_digit l \<and> digits_value l > maximum) then None
      else case iq_body request of None \<Rightarrow> Some [] | Some chunks \<Rightarrow> collect_chunks maximum [] chunks)"

definition inbox_row_of :: "json \<Rightarrow> int \<Rightarrow> inbox_row" where
  "inbox_row_of body now = \<lparr>ix_delivery_id = text_at body ''delivery_id'',
     ix_namespace = text_at (at (at body ''evidence'') ''reviewed_binding'') ''producer_namespace'', ix_attempt_key = text_at body ''attempt_key'',
     ix_delivery_body_sha256 = text_at body ''delivery_body_sha256'', ix_receipt_id = text_at body ''receipt_id'',
     ix_evidence_id = text_at body ''evidence_id'', ix_evidence_body_sha256 = text_at body ''evidence_body_sha256'',
     ix_registration_id = text_at body ''registration_id'', ix_generation = num_at body ''generation'',
     ix_admitted_at_epoch = num_at body ''admitted_at_epoch'', ix_expires_at_epoch = num_at body ''expires_at_epoch'', ix_received_at_epoch = now,
     ix_body = (case serialize body of Inl _ \<Rightarrow> [] | Inr s \<Rightarrow> s)\<rparr>"

text \<open>The constraints of the table that are not conflicts; a violation throws.\<close>

definition inbox_row_ok :: "inbox_row \<Rightarrow> bool" where
  "inbox_row_ok r \<longleftrightarrow>
     list_all is_sha256 [ix_delivery_id r, ix_attempt_key r, ix_delivery_body_sha256 r, ix_receipt_id r, ix_evidence_id r, ix_evidence_body_sha256 r] \<and>
     1 \<le> length (ix_namespace r) \<and> length (ix_namespace r) \<le> 160 \<and> 1 \<le> length (ix_registration_id r) \<and> length (ix_registration_id r) \<le> 160 \<and>
     stored_integer 1 (ix_generation r) \<and> stored_integer 0 (ix_admitted_at_epoch r) \<and> stored_integer 0 (ix_expires_at_epoch r) \<and>
     ix_expires_at_epoch r > ix_admitted_at_epoch r \<and> stored_integer (ix_admitted_at_epoch r) (ix_received_at_epoch r) \<and>
     ix_received_at_epoch r < ix_expires_at_epoch r \<and>
     1 \<le> length (utf8_encode (ix_body r)) \<and> length (utf8_encode (ix_body r)) \<le> 278528"

definition inbox_conflict :: "inbox_row \<Rightarrow> inbox_row \<Rightarrow> bool" where
  "inbox_conflict r q \<longleftrightarrow> ix_delivery_id q = ix_delivery_id r \<or> ix_namespace q = ix_namespace r \<and> ix_attempt_key q = ix_attempt_key r"

text \<open>\<open>INSERT ... ON CONFLICT DO NOTHING\<close>: the new table and the number of changes.\<close>

definition insert_inbox :: "inbox_row \<Rightarrow> inbox_row list \<Rightarrow> (inbox_row list \<times> nat) option" where
  "insert_inbox r rows = (if \<not> inbox_row_ok r then None
     else if list_ex (inbox_conflict r) rows then Some (rows, 0) else Some (rows @ [r], 1))"

text \<open>
  Storing a valid delivery. The three tables are those that its three statements find: at the first
  look, at the insertion and at the second look; \<open>None\<close> is a statement that fails. The result is the
  answer and the table after the insertion.
\<close>

definition store_delivery :: "json \<Rightarrow> int \<Rightarrow> inbox_row list option \<Rightarrow> inbox_row list option \<Rightarrow> inbox_row list option
    \<Rightarrow> inbox_reply \<times> inbox_row list option" where
  "store_delivery body now first second third =
     (let unavailable = inbox_failure ''UNAVAILABLE'' 503; row = inbox_row_of body now in
      case first of
        None \<Rightarrow> (unavailable, second)
      | Some rows \<Rightarrow> (case find (\<lambda>r. ix_delivery_id r = ix_delivery_id row) rows of
          Some existing \<Rightarrow> (if ix_delivery_body_sha256 existing = ix_delivery_body_sha256 row then inbox_ack body False else inbox_failure ''CONFLICT'' 409, second)
        | None \<Rightarrow>
            if now < num_at body ''admitted_at_epoch'' \<or> now \<ge> num_at body ''expires_at_epoch'' then (inbox_failure ''EXPIRED'' 422, second)
            else case Option.bind second (insert_inbox row) of
                None \<Rightarrow> (unavailable, second)
              | Some (rows', changes) \<Rightarrow>
                  if changes = 1 then (inbox_ack body True, Some rows')
                  else case third of
                      None \<Rightarrow> (unavailable, Some rows')
                    | Some rows'' \<Rightarrow> (case find (\<lambda>r. ix_namespace r = ix_namespace row \<and> ix_attempt_key r = ix_attempt_key row) rows'' of
                        None \<Rightarrow> (unavailable, Some rows')
                      | Some winner \<Rightarrow>
                          (if ix_delivery_id winner = ix_delivery_id row \<and> ix_delivery_body_sha256 winner = ix_delivery_body_sha256 row
                           then inbox_ack body False else inbox_failure ''CONFLICT'' 409, Some rows'))))"

definition handleSignalEvidenceInbox :: "platform \<Rightarrow> inbox_env \<Rightarrow> inbox_request \<Rightarrow> int \<Rightarrow> inbox_row list option \<Rightarrow> inbox_row list option
    \<Rightarrow> inbox_row list option \<Rightarrow> inbox_reply \<times> inbox_row list option" where
  "handleSignalEvidenceInbox P env request now first second third =
     (if ie_enabled env \<noteq> Some ''true'' then (inbox_failure ''NOT_FOUND'' 404, second)
      else if iq_method request \<noteq> ''POST'' then (inbox_failure ''METHOD_NOT_ALLOWED'' 405, second)
      else if \<not> inbox_authenticated P env request then (inbox_failure ''UNAUTHORIZED'' 401, second)
      else if \<not> json_content_type (case iq_content_type request of None \<Rightarrow> [] | Some s \<Rightarrow> s) then (inbox_failure ''INVALID_DELIVERY'' 415, second)
      else case boundedBody MAX_BODY request of
          None \<Rightarrow> (inbox_failure ''INVALID_DELIVERY'' 413, second)
        | Some bytes \<Rightarrow> (case decodeSignalDeliveryV1 P bytes of
            None \<Rightarrow> (inbox_failure ''INVALID_DELIVERY'' 422, second)
          | Some body \<Rightarrow>
              if \<not> is_safe_integer now \<or> now < 0 then (inbox_failure ''UNAVAILABLE'' 503, second)
              else store_delivery body now first second third))"

section \<open>What an acknowledgement means\<close>


lemma those_Some: "those xs = Some ys \<longleftrightarrow> xs = map Some ys"
  by (induction xs arbitrary: ys) (auto split: option.split)

lemma read_object_at:
  assumes "read_object shape v = Some j" "distinct (map fst shape)" "(k, r) \<in> set shape"
  shows "\<exists>x. r x = Some (at j k)"
proof -
  from assms(1) obtain kvs ys where j: "j = JObj ys"
    and ys: "map (\<lambda>(k, r). Option.bind (field_of kvs k) (\<lambda>x. map_option (Pair k) (r x))) shape = map Some ys"
    by (auto simp: read_object_def those_Some split: strict_json.split_asm if_split_asm)
  from ys have "list_all2 (\<lambda>(k, r) y. Option.bind (field_of kvs k) (\<lambda>x. map_option (Pair k) (r x)) = Some y) shape ys"
    by (simp add: list_all2_conv_all_nth list_eq_iff_nth_eq case_prod_unfold)
  hence "list_all2 (\<lambda>(k, r) y. fst y = k \<and> (\<exists>x. r x = Some (snd y))) shape ys"
    by (rule list_all2_mono) (auto simp: bind_eq_Some_conv)
  then have "\<exists>y. map_of ys k = Some y \<and> (\<exists>x. r x = Some y)"
    using assms(2,3) by (induction rule: list_all2_induct) (force simp: image_iff)+
  thus ?thesis by (auto simp: j at_def)
qed

lemma digest_read: "digest_reader x = Some y \<Longrightarrow> \<exists>s. y = JStr s \<and> is_sha256 s"
  by (auto simp: digest_reader_def read_text_def split: strict_json.split_asm if_split_asm)

lemma decoded_digests:
  assumes "decodeSignalDeliveryV1 P bytes = Some body"
  shows "at body ''delivery_id'' = JStr (text_at body ''delivery_id'')" "at body ''delivery_body_sha256'' = JStr (text_at body ''delivery_body_sha256'')"
proof -
  from assms obtain raw where r: "delivery_reader raw = Some body"
    by (auto simp: decodeSignalDeliveryV1_def Let_def bind_eq_Some_conv)
  have "\<exists>x. digest_reader x = Some (at body ''delivery_id'')" "\<exists>x. digest_reader x = Some (at body ''delivery_body_sha256'')"
    by (rule read_object_at[OF r[unfolded delivery_reader_def]]; simp add: safety_shape_def)+
  thus "at body ''delivery_id'' = JStr (text_at body ''delivery_id'')" "at body ''delivery_body_sha256'' = JStr (text_at body ''delivery_body_sha256'')"
    by (auto simp: text_at_def dest!: digest_read)
qed

definition inbox_answer :: "inbox_reply \<Rightarrow> receiver_answer" where
  "inbox_answer reply = \<lparr>an_status = ir_status reply, an_redirected = False, an_body = Some (utf8_encode (json_text (ir_body reply)))\<rparr>"

lemma plain_text_parsed:
  assumes "readable (JObj kvs)" "nesting (strict_of (JObj kvs)) \<le> MAX_DEPTH" "count_values (strict_of (JObj kvs)) \<le> MAX_NODES"
  shows "parseStrictJson (utf8_encode (json_text (JObj kvs))) = Inr (strict_of (JObj kvs))"
proof -
  have "parseValue 0 0 (units_of (json_text (JObj kvs)) @ []) = Inr (strict_of (JObj kvs), 0 + count_values (strict_of (JObj kvs)), [])"
    using assms readable_reads[OF assms(1)] unfolding reads_def by (simp add: ends_units_def)
  moreover have "skipWhitespace (units_of (json_text (JObj kvs))) = units_of (json_text (JObj kvs))" using skip_value[of "JObj kvs" "[]"] by simp
  ultimately show ?thesis
    by (simp add: parseStrictJson_def no_bom utf8_round_trip parse_units_def del: json_text.simps strict_of.simps) (simp add: skipWhitespace_def)
qed

lemma plain_text_read:
  assumes "readable (JObj kvs)" "nesting (strict_of (JObj kvs)) \<le> MAX_DEPTH" "count_values (strict_of (JObj kvs)) \<le> MAX_NODES"
  shows "parse_outer (utf8_encode (json_text (JObj kvs))) = Some (map strict_member kvs)"
  using plain_text_parsed[OF assms] by (simp add: parse_outer_def survives_def strict_of_obj del: json_text.simps strict_of.simps)

lemma expected_length: "length (expected_ack claim status) = 6"
  by (simp add: expected_ack_def)

lemma failure_not_acknowledged: "\<not> acknowledgment (inbox_answer (inbox_failure error status)) claim"
proof -
  have "parse_outer (utf8_encode (json_text (ir_body (inbox_failure error status)))) =
      Some (map strict_member [(''authority'', JStr ''EVIDENCE_ONLY''), (''execution_allowed'', JBool False), (''error'', JStr error)])"
    unfolding inbox_failure_def inbox_reply.select_convs by (rule plain_text_read) (simp_all add: MAX_DEPTH_def MAX_NODES_def)
  thus ?thesis by (simp add: acknowledgment_def inbox_answer_def expected_length)
qed

lemma ack_acknowledged:
  assumes "at body ''delivery_id'' = JStr i" "at body ''delivery_body_sha256'' = JStr d" "acknowledgment (inbox_answer (inbox_ack body stored)) claim"
  shows "i = sd_delivery_id claim \<and> d = sd_delivery_body_sha256 claim"
proof -
  let ?kvs = "[(''schema_version'', JStr ''TradeOpsSignalDeliveryAckV1''), (''authority'', JStr ''EVIDENCE_ONLY''), (''execution_allowed'', JBool False),
    (''delivery_id'', JStr i), (''delivery_body_sha256'', JStr d), (''status'', JStr (if stored then ''STORED'' else ''DUPLICATE''))]"
  have "parse_outer (utf8_encode (json_text (ir_body (inbox_ack body stored)))) = Some (map strict_member ?kvs)"
    unfolding inbox_ack_def inbox_reply.select_convs assms(1,2) by (rule plain_text_read) (simp_all add: MAX_DEPTH_def MAX_NODES_def)
  with assms(3) have "list_all (\<lambda>(key, item). field_of (map strict_member ?kvs) key = Some item) (expected_ack claim (if stored then 201 else 200))"
    by (simp add: acknowledgment_def inbox_answer_def inbox_ack_def)
  hence "field_of (map strict_member ?kvs) ''delivery_id'' = Some (SStr (units_of (sd_delivery_id claim)))"
    "field_of (map strict_member ?kvs) ''delivery_body_sha256'' = Some (SStr (units_of (sd_delivery_body_sha256 claim)))"
    by (simp_all add: expected_ack_def del: units_of_simps list.map)
  thus ?thesis unfolding field_of_members by (simp add: units_of_inject del: units_of_simps)
qed

section \<open>Runs of the inbox\<close>

text \<open>A call of the endpoint changes the table at its insertion; what it finds before and after is arbitrary.\<close>

inductive inbox_step :: "platform \<Rightarrow> inbox_row list \<Rightarrow> inbox_reply \<Rightarrow> inbox_row list \<Rightarrow> bool" for P where
  inbox_call: "handleSignalEvidenceInbox P env request now first (Some t) third = (reply, Some t') \<Longrightarrow> inbox_step P t reply t'"

definition inbox_inv :: "inbox_row list \<Rightarrow> bool" where
  "inbox_inv t \<longleftrightarrow> distinct (map ix_delivery_id t) \<and> distinct (map (\<lambda>r. (ix_namespace r, ix_attempt_key r)) t)"

lemma insert_inbox_cases: "insert_inbox r rows = Some (rows', n) \<Longrightarrow> rows' = rows \<and> n = 0 \<or> rows' = rows @ [r] \<and> n = 1 \<and> \<not> list_ex (inbox_conflict r) rows"
  by (auto simp: insert_inbox_def split: if_split_asm)

lemma store_table:
  assumes "store_delivery body now first (Some t) third = (reply, t')"
  shows "t' = Some t \<or> (\<exists>r. t' = Some (t @ [r]) \<and> \<not> list_ex (inbox_conflict r) t)"
  using assms by (auto simp: store_delivery_def Let_def split: option.split_asm if_split_asm prod.split_asm dest!: insert_inbox_cases)

lemma handle_table:
  assumes "handleSignalEvidenceInbox P env request now first (Some t) third = (reply, t')"
  shows "t' = Some t \<or> (\<exists>r. t' = Some (t @ [r]) \<and> \<not> list_ex (inbox_conflict r) t)"
  using assms by (auto simp: handleSignalEvidenceInbox_def split: if_split_asm option.split_asm dest: store_table)

lemma inbox_inv_insert: "inbox_inv t \<Longrightarrow> \<not> list_ex (inbox_conflict r) t \<Longrightarrow> inbox_inv (t @ [r])"
  by (auto simp: inbox_inv_def list_ex_iff inbox_conflict_def)

interpretation ibx: invariant_system "inbox_step P" inbox_inv for P
proof
  fix s l t
  assume "inbox_inv s" "inbox_step P s l t"
  from this(2,1) show "inbox_inv t" by cases (auto dest!: handle_table intro: inbox_inv_insert)
qed

interpretation kept: invariant_system "inbox_step P" "\<lambda>t. A \<subseteq> set t" for P A
proof
  fix s l t
  assume "A \<subseteq> set s" "inbox_step P s l t"
  from this(2,1) show "A \<subseteq> set t" by cases (auto dest!: handle_table)
qed

lemma store_acknowledged:
  assumes "store_delivery body now (Some t0) (Some t1) (Some t2) = (reply, Some t1')" "acknowledgment (inbox_answer reply) claim"
    "at body ''delivery_id'' = JStr i" "at body ''delivery_body_sha256'' = JStr d"
  shows "\<exists>row \<in> set t0 \<union> set t1' \<union> set t2. ix_delivery_id row = sd_delivery_id claim \<and> ix_delivery_body_sha256 row = sd_delivery_body_sha256 claim"
proof -
  note acked = ack_acknowledged[OF assms(3,4), of _ claim]
  have key: "ix_delivery_id (inbox_row_of body now) = i" "ix_delivery_body_sha256 (inbox_row_of body now) = d"
    by (simp_all add: inbox_row_of_def text_at_def assms(3,4))
  from assms(1,2) show ?thesis
    by (auto simp: store_delivery_def Let_def failure_not_acknowledged key find_Some_iff in_set_conv_nth split: option.split_asm if_split_asm prod.split_asm
        dest!: insert_inbox_cases acked intro!: bexI)
qed


lemma stored_once:
  assumes "run (inbox_step P) [] ks t0" "run (inbox_step P) t0 ls t1"
    "store_delivery body now (Some t0) (Some t1) (Some t2) = (reply, Some t1')" "run (inbox_step P) t1' ms t2"
    "at body ''delivery_id'' = JStr i" "at body ''delivery_body_sha256'' = JStr d" "acknowledgment (inbox_answer reply) claim"
  shows "\<exists>row \<in> set t2. ix_delivery_id row = sd_delivery_id claim \<and> ix_delivery_body_sha256 row = sd_delivery_body_sha256 claim \<and>
    (\<forall>other \<in> set t2. inbox_conflict row other \<longrightarrow> other = row)"
proof -
  have start: "inbox_inv []" by (simp add: inbox_inv_def)
  from start assms(1,2) have "inbox_inv t1" by (blast intro: ibx.invariant_run)
  with store_table[OF assms(3)] have "inbox_inv t1'" by (auto intro: inbox_inv_insert)
  with assms(4) have "inbox_inv t2" by (blast intro: ibx.invariant_run)
  moreover from store_table[OF assms(3)] have "set t1 \<subseteq> set t1'" by auto
  with kept.invariant_run[OF assms(2), of "set t0"] kept.invariant_run[OF assms(4), of "set t1'"]
  have "set t0 \<union> set t1' \<union> set t2 \<subseteq> set t2" by auto
  with store_acknowledged[OF assms(3,7,5,6)] obtain row where "row \<in> set t2"
    "ix_delivery_id row = sd_delivery_id claim" "ix_delivery_body_sha256 row = sd_delivery_body_sha256 claim" by blast
  ultimately show ?thesis by (auto simp: inbox_inv_def inbox_conflict_def distinct_map intro!: bexI[of _ row] dest: inj_onD)
qed

text \<open>
  C36.
  An acknowledgement is backed by the one stored row, however calls interleave. The inbox starts
  empty; while a delivery is being stored, other calls may change the table between its first look
  and its insertion and between its insertion and its second look. If the sender of the other worker
  takes the answer as an acknowledgement of its outbox row, then at the end the table holds a row
  with the identifier and the body digest of that outbox row, and no other row shares its delivery
  identifier or its attempt.
\<close>

theorem acknowledged_is_stored_once:
  assumes "run (inbox_step P) [] ks t0" "run (inbox_step P) t0 ls t1"
    "store_delivery body now (Some t0) (Some t1) (Some t2) = (reply, Some t1')" "run (inbox_step P) t1' ms t2"
    "at body ''delivery_id'' = JStr i" "at body ''delivery_body_sha256'' = JStr d" "acknowledgment (inbox_answer reply) claim"
  shows "\<exists>row \<in> set t2. ix_delivery_id row = sd_delivery_id claim \<and> ix_delivery_body_sha256 row = sd_delivery_body_sha256 claim \<and>
    (\<forall>other \<in> set t2. inbox_conflict row other \<longrightarrow> other = row)"
  using assms by (rule stored_once)

text \<open>The same for a whole call of the endpoint, whose delivery is the one it decoded from the request.\<close>

theorem acknowledged_call_is_stored_once:
  assumes "run (inbox_step P) [] ks t0" "run (inbox_step P) t0 ls t1"
    "handleSignalEvidenceInbox P env request now (Some t0) (Some t1) (Some t2) = (reply, Some t1')" "run (inbox_step P) t1' ms t2"
    "acknowledgment (inbox_answer reply) claim"
  shows "\<exists>row \<in> set t2. ix_delivery_id row = sd_delivery_id claim \<and> ix_delivery_body_sha256 row = sd_delivery_body_sha256 claim \<and>
    (\<forall>other \<in> set t2. inbox_conflict row other \<longrightarrow> other = row)"
proof -
  from assms(3,5) obtain bytes body where d: "decodeSignalDeliveryV1 P bytes = Some body"
    and s: "store_delivery body now (Some t0) (Some t1) (Some t2) = (reply, Some t1')"
    by (auto simp: handleSignalEvidenceInbox_def failure_not_acknowledged split: if_split_asm option.split_asm)
  show ?thesis by (rule stored_once[OF assms(1,2) s assms(4) decoded_digests[OF d] assms(5)])
qed


lemma utf8_length: "length s \<le> length (utf8_encode s)" "length (utf8_encode s) \<le> 2 * length s"
  by (induction s) (auto simp: utf8_encode_def utf8_unit_def)

definition witness_digest :: string where "witness_digest = replicate 64 (CHR ''1'')"

lemma witness_digest_ok: "is_sha256 witness_digest" "length (json_quote witness_digest) = 66"
  by code_simp+

definition witness_delivery :: json where
  "witness_delivery = JObj [(''attempt_key'', JStr witness_digest), (''admitted_at_epoch'', JNum 1), (''delivery_body_sha256'', JStr witness_digest),
     (''delivery_id'', JStr witness_digest), (''evidence'', JObj [(''reviewed_binding'', JObj [(''producer_namespace'', JStr ''n'')])]),
     (''evidence_body_sha256'', JStr witness_digest), (''evidence_id'', JStr witness_digest), (''expires_at_epoch'', JNum 9),
     (''generation'', JNum 1), (''receipt_id'', JStr witness_digest), (''registration_id'', JStr ''r'')]"

definition witness_claim :: signal_delivery where
  "witness_claim = \<lparr>sd_delivery_id = witness_digest, sd_namespace = ''n'', sd_attempt_key = witness_digest, sd_registration_id = ''r'',
     sd_generation = 1, sd_receipt_id = witness_digest, sd_evidence_id = witness_digest, sd_delivery_body_sha256 = witness_digest,
     sd_body = [], sd_admitted_at_epoch = 1, sd_expires_at_epoch = 9, sd_status = S_CLAIMED, sd_claim_token = None, sd_lease_until_epoch = None,
     sd_delivery_attempts = 1, sd_next_attempt_at_epoch = 1, sd_last_dispatch_at_epoch = None, sd_failure_reason = None\<rparr>"

lemma witness_row_ok: "inbox_row_ok (inbox_row_of witness_delivery 5)"
proof -
  have "case serialize witness_delivery of Inl _ \<Rightarrow> False | Inr s \<Rightarrow> s \<noteq> [] \<and> length s \<le> 1000" by code_simp
  then obtain s where s: "serialize witness_delivery = Inr s" "s \<noteq> []" "length s \<le> 1000" by (auto split: sum.split_asm)
  have "1 \<le> length (utf8_encode s)" "length (utf8_encode s) \<le> 278528" using utf8_length[of s] s(2,3) by (auto simp: Suc_le_eq intro: order_less_le_trans)
  with s(1) show ?thesis
    by (simp add: inbox_row_ok_def inbox_row_of_def text_at_def num_at_def) (simp add: witness_delivery_def at_def witness_digest_ok stored_integer_def is_safe_integer_def MAX_SAFE_INTEGER_def)
qed

lemma witness_store:
  "store_delivery witness_delivery 5 (Some []) (Some []) (Some [inbox_row_of witness_delivery 5]) = (inbox_ack witness_delivery True, Some [inbox_row_of witness_delivery 5])"
  using witness_row_ok by (simp add: store_delivery_def Let_def insert_inbox_def num_at_def) (simp add: witness_delivery_def at_def)

lemma witness_acknowledged: "acknowledgment (inbox_answer (inbox_ack witness_delivery True)) witness_claim"
proof -
  let ?kvs = "[(''schema_version'', JStr ''TradeOpsSignalDeliveryAckV1''), (''authority'', JStr ''EVIDENCE_ONLY''), (''execution_allowed'', JBool False),
    (''delivery_id'', JStr witness_digest), (''delivery_body_sha256'', JStr witness_digest), (''status'', JStr ''STORED'')]"
  have body: "inbox_ack witness_delivery True = \<lparr>ir_status = 201, ir_body = JObj ?kvs\<rparr>" by (simp add: inbox_ack_def witness_delivery_def at_def)
  have "parse_outer (utf8_encode (json_text (JObj ?kvs))) = Some (map strict_member ?kvs)"
    by (rule plain_text_read) (simp_all add: MAX_DEPTH_def MAX_NODES_def)
  moreover have "length (json_text (JObj ?kvs)) \<le> 1000" by code_simp
  hence "length (utf8_encode (json_text (JObj ?kvs))) \<le> ACK_LIMIT" using utf8_length(2)[of "json_text (JObj ?kvs)"] unfolding ACK_LIMIT_def by linarith
  ultimately show ?thesis
    unfolding acknowledgment_def inbox_answer_def body
    by (simp add: expected_ack_def witness_claim_def field_of_members del: json_text.simps list.map units_of_simps)
qed

theorem acknowledged_is_stored_once_witness:
  "\<exists>row \<in> set [inbox_row_of witness_delivery 5]. ix_delivery_id row = sd_delivery_id witness_claim \<and> ix_delivery_body_sha256 row = sd_delivery_body_sha256 witness_claim \<and>
    (\<forall>other \<in> set [inbox_row_of witness_delivery 5]. inbox_conflict row other \<longrightarrow> other = row)"
  by (rule acknowledged_is_stored_once[OF run_Nil run_Nil witness_store run_Nil _ _ witness_acknowledged, of witness_digest witness_digest])
    (simp_all add: witness_delivery_def at_def)

end
