(* ===== verification/Evidence_Samples.thy ===== *)
theory Evidence_Samples
  imports Entry_Wire_Samples Signal_Evidence Signal_Inbox
begin

text \<open>
  Witnesses for the properties of \<open>Signal_Evidence\<close>: an envelope around the accepted close entry of
  \<open>Entry_Wire_Samples\<close>, with the formation of its setup and the binding of its producer, as bytes.
\<close>

section \<open>Texts\<close>

lemma js_join_length: "length (js_join s xs) \<le> sum_list (map (\<lambda>x. length s + length x) xs)"
  by (induction s xs rule: js_join.induct) auto

lemma json_quote_length: "length (json_quote s) \<le> 2 + 6 * length s"
  using quoted_length[of s] unfolding quote_text_of by (simp add: units_of_def)

lemma json_text_bound: "length (json_text j) \<le> 6 * json_size j"
proof (induction j rule: json_size.induct)
  case (4 s)
  show ?case using json_quote_length[of s] by simp
next
  case (5 vs)
  have "sum_list (map (\<lambda>x. 1 + length (json_text x)) vs) \<le> sum_list (map (\<lambda>v. 6 * (1 + json_size v)) vs)" using 5 by (intro sum_list_mono) force
  moreover have "sum_list (map (\<lambda>v. 6 * (1 + json_size v)) vs) = 6 * sum_list (map (\<lambda>v. 1 + json_size v) vs)" by (rule sum_list_const_mult)
  ultimately show ?case using js_join_length[of "'',''" "map json_text vs"] by (simp add: comp_def)
next
  case (6 kvs)
  let ?f = "\<lambda>(k, v). json_quote k @ '':'' @ json_text v" and ?g = "\<lambda>(k, v). 1 + length k + json_size v"
  have "1 + length (?f kv) \<le> 6 * ?g kv" if "kv \<in> set kvs" for kv
    using 6 that json_quote_length[of "fst kv"] by (cases kv) fastforce
  hence "sum_list (map (\<lambda>kv. 1 + length (?f kv)) kvs) \<le> sum_list (map (\<lambda>kv. 6 * ?g kv) kvs)" by (intro sum_list_mono) auto
  moreover have "sum_list (map (\<lambda>kv. 6 * ?g kv) kvs) = 6 * sum_list (map ?g kvs)" by (rule sum_list_const_mult)
  ultimately show ?case using js_join_length[of "'',''" "map ?f kvs"] by (simp add: comp_def)
qed simp_all

lemma text_bytes: "length (utf8_encode (json_text j)) \<le> 12 * json_size j"
  using utf8_length(2)[of "json_text j"] json_text_bound[of j] by linarith

section \<open>The envelope\<close>

definition sample_hash :: string where "sample_hash = replicate 64 (CHR ''a'')"

definition sample_formation :: formation where
  "sample_formation = \<lparr>fm_setup_id = ''setup-1'', fm_origin_epoch = 300, fm_confirmation_epoch = 600, fm_direction = LONG, fm_variant = STANDARD,
     fm_origin_open_ticks = 100, fm_origin_high_ticks = 105, fm_origin_low_ticks = 90, fm_origin_close_ticks = 95, fm_zone_top_ticks = 105,
     fm_zone_bottom_ticks = 90, fm_formation_source_id = ''chart-1''\<rparr>"

definition formation_wire :: json where
  "formation_wire = JObj [(''setup_id'', JStr ''setup-1''), (''origin_epoch'', JNum 300), (''confirmation_epoch'', JNum 600), (''direction'', JStr ''LONG''),
     (''variant'', JStr ''STANDARD''), (''origin_open_ticks'', JNum 100), (''origin_high_ticks'', JNum 105), (''origin_low_ticks'', JNum 90),
     (''origin_close_ticks'', JNum 95), (''formation_source_id'', JStr ''chart-1'')]"

definition sample_reviewed :: reviewed_binding where
  "sample_reviewed = \<lparr>rb_producer_namespace = ''desk'', rb_ticker_id = ''FX:EURUSD'', rb_feed = ''FX'', rb_symbol = ''EURUSD'', rb_tick_size = ''0.0001'',
     rb_detector_code_hash = sample_hash, rb_settings_hash = sample_hash\<rparr>"

definition envelope_members :: "evaluation \<Rightarrow> (string \<times> json) list" where
  "envelope_members v = [(''schema_version'', JStr ''TradeOpsSignalEvidenceInputV1''), (''observation'', close_payload v), (''formations'', JArr [formation_wire])]"

definition envelope_bytes :: "evaluation \<Rightarrow> nat list" where
  "envelope_bytes v = utf8_encode (json_text (JObj (envelope_members v)))"

definition binding_members :: "(string \<times> json) list" where
  "binding_members = [(''schema_version'', JStr ''TradeOpsSignalEvidenceBindingV1''), (''producer_namespace'', JStr ''desk''), (''ticker_id'', JStr ''FX:EURUSD''),
     (''feed'', JStr ''FX''), (''symbol'', JStr ''EURUSD''), (''tick_size'', JStr ''0.0001''), (''detector_code_hash'', JStr sample_hash), (''settings_hash'', JStr sample_hash)]"

definition binding_bytes :: "nat list" where
  "binding_bytes = utf8_encode (json_text (JObj binding_members))"

lemma sample_hash_ok: "is_sha256 sample_hash" "sample_hash \<noteq> zero_digest" "length sample_hash = 64" "list_all printable_unit (units_of sample_hash)"
  by code_simp+

lemma printable_back:
  assumes "list_all printable_unit (units_of s)" "s \<noteq> []" "length s \<le> n"
  shows "printable_text n (strict_of (JStr s)) = Some s"
proof -
  have "string_of_units (units_of s) = s" by (simp add: string_of_units_def units_of_def comp_def)
  moreover have "units_of s \<noteq> []" "length (units_of s) \<le> n" using assms by (simp_all add: units_of_def)
  ultimately show ?thesis using assms(1) by (simp add: printable_text_def)
qed

lemma hash_back: "printable_text 64 (strict_of (JStr sample_hash)) = Some sample_hash"
  using sample_hash_ok(3) by (intro printable_back sample_hash_ok(4)) auto

lemma is_text_members: "is_text (strict_members kvs) k s \<longleftrightarrow> (\<exists>j. map_of kvs k = Some j \<and> strict_of j = SStr (units_of s))"
  by (auto simp: is_text_def)

lemma sample_texts:
  "s \<in> {''desk'', ''FX:EURUSD'', ''FX'', ''EURUSD'', ''0.0001'', ''setup-1'', ''chart-1''} \<Longrightarrow> list_all printable_unit (units_of s)"
  by (auto simp: printable_unit_def code_unit_def)

lemma read_members: "read_field (strict_members kvs) k r = Option.bind (map_option strict_of (map_of kvs k)) r"
  by (simp add: read_field_def)

lemma binding_reads: "evidence_binding (strict_of (JObj binding_members)) = Some sample_reviewed"
proof -
  define m where "m = strict_members binding_members"
  have r: "strict_record (strict_of (JObj binding_members)) = Some m" by (simp add: strict_members_def m_def)
  have k: "strict_keys m BINDING_KEYS" unfolding m_def by code_simp
  have t: "is_text m ''schema_version'' ''TradeOpsSignalEvidenceBindingV1''" unfolding m_def by (simp add: is_text_members binding_members_def)
  have tick: "positive_decimal (units_of ''0.0001'')" "canonical_tick ''0.0001'' = ''0.0001''" by code_simp+
  have f: "read_field m x g = Option.bind (map_option strict_of (map_of binding_members x)) g" for x and g :: "strict_json \<Rightarrow> string option"
    unfolding m_def by (rule read_members)
  show ?thesis
    unfolding evidence_binding_def r
    by (simp add: k t tick f binding_members_def printable_back sample_texts hash_back sample_hash_ok sample_reviewed_def require_def del: strict_of.simps units_of_simps)
qed

abbreviation "close_selection \<equiv>
  make_selection sample_platform ''setup-1'' 0 1200 [cd_candidate_id (fst close_pair)] (Some close_pair) ONLY_EXACT_TRIGGER PAPER_ELIGIBLE []"

lemma readable_tokens: "readable j \<Longrightarrow> integerTokens (strict_of j)"
  by (induction j rule: readable.induct) (auto simp: list_all_iff)

lemma close_values:
  "readable (candidate_json (fst close_pair)) \<and> nesting (strict_of (candidate_json (fst close_pair))) \<le> 2 \<and> count_values (strict_of (candidate_json (fst close_pair))) \<le> 50"
  "readable (evidence_json (snd close_pair)) \<and> nesting (strict_of (evidence_json (snd close_pair))) \<le> 2 \<and> count_values (strict_of (evidence_json (snd close_pair))) \<le> 50"
  "readable (selection_json close_selection) \<and> nesting (strict_of (selection_json close_selection)) \<le> 2 \<and> count_values (strict_of (selection_json close_selection)) \<le> 50"
  by (simp_all add: candidate_json_def evidence_json_def selection_json_def close_records sample_integers j_opt_def j_strings_def SOURCE_CLAIMS_DIR_CLOSE_def)

lemma fixed_values:
  "readable (setup_json (sample_facts EXACT TWO_PLUS_CANDLES) sample_rules)" "readable (plan_json sample_plan)" "readable (event_json close_event)" "readable formation_wire"
  "nesting (strict_of (setup_json (sample_facts EXACT TWO_PLUS_CANDLES) sample_rules)) \<le> 3" "nesting (strict_of (plan_json sample_plan)) \<le> 2"
  "nesting (strict_of (event_json close_event)) \<le> 3" "nesting (strict_of formation_wire) \<le> 2"
  "count_values (strict_of (setup_json (sample_facts EXACT TWO_PLUS_CANDLES) sample_rules)) \<le> 200" "count_values (strict_of (plan_json sample_plan)) \<le> 20"
  "count_values (strict_of (event_json close_event)) \<le> 20" "count_values (strict_of formation_wire) \<le> 20"
  "json_size formation_wire \<le> 300"
  by code_simp+

lemma envelope_text:
  assumes "evaluateEntryV3Bundle sample_platform sample_input = Inr v"
  shows "readable (JObj (envelope_members v))" "nesting (strict_of (JObj (envelope_members v))) \<le> MAX_DEPTH"
    "count_values (strict_of (JObj (envelope_members v))) \<le> MAX_NODES" "json_size (JObj (envelope_members v)) < 6800"
proof -
  note form = envelope_members_def close_payload_def sample_payload_def payload_members_def close_bundle_form[OF assms]
  show "readable (JObj (envelope_members v))" using close_values fixed_values by (simp add: form sample_integers)
  show "nesting (strict_of (JObj (envelope_members v))) \<le> MAX_DEPTH" using close_values fixed_values by (simp add: form MAX_DEPTH_def)
  show "count_values (strict_of (JObj (envelope_members v))) \<le> MAX_NODES" using close_values fixed_values by (simp add: form MAX_NODES_def)
  show "json_size (JObj (envelope_members v)) < 6800" using close_tokens(2)[OF assms] fixed_values(13) by (simp add: envelope_members_def)
qed

lemma bytes_nonempty: "utf8_encode (json_text (JObj kvs)) \<noteq> []"
  by (simp add: utf8_encode_def utf8_unit_def)

lemma envelope_parsed:
  assumes "evaluateEntryV3Bundle sample_platform sample_input = Inr v"
  shows "parseStrictJson (envelope_bytes v) = Inr (strict_of (JObj (envelope_members v)))" "0 < length (envelope_bytes v)" "length (envelope_bytes v) \<le> INPUT_MAX"
  using plain_text_parsed[OF envelope_text(1-3)[OF assms]] bytes_nonempty[of "envelope_members v"] text_bytes[of "JObj (envelope_members v)"] envelope_text(4)[OF assms]
  unfolding envelope_bytes_def INPUT_MAX_def by (simp_all del: json_text.simps strict_of.simps)

lemma binding_parsed: "parseStrictJson binding_bytes = Inr (strict_of (JObj binding_members))" "0 < length binding_bytes" "length binding_bytes \<le> BINDING_MAX"
proof -
  have "readable (JObj binding_members)" "nesting (strict_of (JObj binding_members)) \<le> MAX_DEPTH" "count_values (strict_of (JObj binding_members)) \<le> MAX_NODES"
    by (simp_all add: binding_members_def MAX_DEPTH_def MAX_NODES_def)
  from plain_text_parsed[OF this] show "parseStrictJson binding_bytes = Inr (strict_of (JObj binding_members))" by (simp add: binding_bytes_def del: json_text.simps)
  show "0 < length binding_bytes" unfolding binding_bytes_def using bytes_nonempty by blast
  have "length (json_text (JObj binding_members)) \<le> 1000" by code_simp
  with utf8_length(2)[of "json_text (JObj binding_members)"] show "length binding_bytes \<le> BINDING_MAX" unfolding binding_bytes_def BINDING_MAX_def by linarith
qed

lemma envelope_read: "read_envelope (strict_of (JObj (envelope_members v))) = Some (strict_of (close_payload v), strict_of (JArr [formation_wire]))"
proof -
  have "strict_keys (strict_members (envelope_members v)) [''formations'', ''observation'', ''schema_version'']"
    by (simp add: strict_keys_def strict_members_def envelope_members_def comp_def)
  thus ?thesis
    by (simp add: read_envelope_def is_text_members require_def flip: strict_members_def) (simp add: envelope_members_def require_def)
qed

lemma payload_supported: "supported_observation (strict_of (close_payload v))"
  by (simp add: supported_observation_def close_payload_def sample_payload_def is_text_members flip: strict_members_def) (simp add: payload_members_def)

lemma map_set_same: "map_of m k = Some x \<Longrightarrow> map_set k x m = m"
  by (induction k x m rule: map_set.induct) auto

lemma with_same: "field_of m k = Some x \<Longrightarrow> with_member k x m = m"
  by (simp add: with_member_def field_of_def map_set_same)

lemma strict_obj: "strict_of (JObj kvs) = SObj (strict_members kvs)"
  by (simp add: strict_members_def)

lemma normalize_list_same: "(\<And>x. field_of m k = Some x \<Longrightarrow> sort_texts x = x) \<Longrightarrow> normalize_list k m = m"
  by (auto simp: normalize_list_def with_same split: option.split)

lemma selection_members:
  obtains kvs where "selection_json s = JObj kvs" "map_of kvs ''candidate_ids_considered'' = Some (j_strings (sl_candidate_ids_considered s))"
    "map_of kvs ''co_triggered_models'' = Some (j_strings (map model_name (sl_co_triggered_models s)))"
  by (rule that[OF selection_json_def]) simp_all

lemma proposal_same:
  assumes "map_of kvs ''selection_proposal'' = Some (selection_json s)" "sort_texts (strict_of (j_strings (sl_candidate_ids_considered s))) = strict_of (j_strings (sl_candidate_ids_considered s))"
    "sort_texts (strict_of (j_strings (map model_name (sl_co_triggered_models s)))) = strict_of (j_strings (map model_name (sl_co_triggered_models s)))"
  shows "normalize_proposal (strict_of (JObj kvs)) = strict_of (JObj kvs)"
proof -
  obtain ps where ps: "selection_json s = JObj ps" "map_of ps ''candidate_ids_considered'' = Some (j_strings (sl_candidate_ids_considered s))"
    "map_of ps ''co_triggered_models'' = Some (j_strings (map model_name (sl_co_triggered_models s)))" by (rule selection_members)
  have lists: "normalize_list ''candidate_ids_considered'' (strict_members ps) = strict_members ps" "normalize_list ''co_triggered_models'' (strict_members ps) = strict_members ps"
    using ps(2,3) assms(2,3) by (auto intro!: normalize_list_same)
  show ?thesis
    unfolding strict_obj normalize_proposal_def by (simp add: assms(1) ps(1) strict_obj lists with_same del: strict_of.simps)
qed

lemma payload_same:
  assumes "map_of kvs ''setups'' = Some (JArr js)" "\<And>j. j \<in> set js \<Longrightarrow> normalize_proposal (strict_of j) = strict_of j"
  shows "normalizeProposalLists (strict_of (JObj kvs)) = strict_of (JObj kvs)"
proof -
  have "map (normalize_proposal \<circ> strict_of) js = map strict_of js" using assms(2) by simp
  thus ?thesis unfolding strict_obj normalizeProposalLists_def by (simp add: assms(1) with_same comp_def)
qed

lemma close_normal:
  assumes "evaluateEntryV3Bundle sample_platform sample_input = Inr v"
  shows "normalizeProposalLists (strict_of (close_payload v)) = strict_of (close_payload v)"
proof -
  have "normalize_proposal (strict_of (bundle_json (computed_bundle sample_input sample_rules v sample_plan))) =
      strict_of (bundle_json (computed_bundle sample_input sample_rules v sample_plan))"
    unfolding close_bundle_form[OF assms] by (rule proposal_same[of _ close_selection]) (simp_all add: sort_texts_def j_strings_def)
  thus ?thesis unfolding close_payload_def sample_payload_def by (intro payload_same) (simp add: payload_members_def, metis empty_iff list.set(1) set_ConsD)
qed

lemma sample_setup: "eb_setup (computed_bundle sample_input sample_rules v sample_plan) = sample_facts EXACT TWO_PLUS_CANDLES"
  by (simp add: computed_bundle_def input_setup_def sample_input_def input_cohort_def input_one_candle_def sample_facts_def)

lemma formations_read:
  "validateSignalEvidenceFormationsV1 (strict_of (JArr [formation_wire])) [sample_facts EXACT TWO_PLUS_CANDLES] = Some [sample_formation]"
  by code_simp

lemma close_eligible:
  assumes "evaluateEntryV3Bundle sample_platform sample_input = Inr v"
  shows "selected_pair (computed_bundle sample_input sample_rules v sample_plan) = Some (Some close_pair)"
  by (simp add: selected_pair_def computed_bundle_def close_evaluated[OF assms] eligibleProof_def close_records require_def)

text \<open>The entry that the envelope gives.\<close>

definition sample_identity :: evidence_identity_v1 where
  "sample_identity = deriveSignalEvidenceIdentityV1 sample_platform sample_reviewed payload_metadata sample_formation"

lemma envelope_validated:
  assumes v: "evaluateEntryV3Bundle sample_platform sample_input = Inr v"
  shows "\<exists>w. validateEntryV3Payload sample_platform (strict_of (close_payload v)) = Inr w \<and> vp_observedAtEpoch w = 1500 \<and>
    validateSignalEvidenceV1 sample_platform (envelope_bytes v) binding_bytes =
      Inr [make_entry sample_platform sample_identity sample_formation sample_reviewed (source_of w) (computed_bundle sample_input sample_rules v sample_plan) (Some close_pair)]"
proof -
  let ?b = "computed_bundle sample_input sample_rules v sample_plan"
  from close_accepted[OF v close_computed[OF v]] obtain w where w: "validateEntryV3Payload sample_platform (strict_of (close_payload v)) = Inr w" "vp_entryBundles w = [?b]"
    "vp_eventRole w = ENTRY_DECISION" "vp_isRealtime w" "vp_exitEvents w = []" "vp_detectorCodeHash w = sample_hash" "vp_settingsHash w = sample_hash"
    "vp_tickSize w = ''0.0001''" "vp_metadata w = payload_metadata" "vp_observedAtEpoch w = 1500" by (auto simp: sample_hash_def)
  have tick: "canonical_tick ''0.0001'' = ''0.0001''" by code_simp
  have bound: "\<not> binding_conflict w sample_reviewed" by (simp add: binding_conflict_def w tick) (simp add: payload_metadata_def sample_reviewed_def)
  have rules: "list_all cr_passed sample_rules" by code_simp
  have source: "\<not> ineligible_source w"
    using rules by (simp add: ineligible_source_def w sample_setup list_ex_iff list_all_iff) (simp add: computed_bundle_def)
  have tokens: "integerTokens (strict_of (close_payload v))"
    using envelope_text(1)[OF v] by (intro readable_tokens) (simp add: envelope_members_def)
  have built: "build_entries sample_platform sample_reviewed w (source_of w) [] [sample_formation] =
      Inr [(sample_formation, make_entry sample_platform sample_identity sample_formation sample_reviewed (source_of w) ?b (Some close_pair))]"
    by (simp add: w sample_setup close_eligible[OF v] sample_identity_def) (simp add: sample_formation_def)
  have "evidence_entries sample_platform sample_reviewed (strict_of (close_payload v)) (strict_of (JArr [formation_wire])) =
      Inr [make_entry sample_platform sample_identity sample_formation sample_reviewed (source_of w) ?b (Some close_pair)]"
    unfolding evidence_entries_def close_normal[OF v] w(1) sum.case
    by (simp add: payload_supported tokens bound source w(2) sample_setup formations_read built del: strict_of.simps build_entries.simps)
  with w(1,10) show ?thesis
    unfolding validateSignalEvidenceV1_def using envelope_parsed[OF v] binding_parsed by (simp add: binding_reads envelope_read del: strict_of.simps)
qed

abbreviation "desk_entry w v \<equiv>
  make_entry sample_platform sample_identity sample_formation sample_reviewed (source_of w) (computed_bundle sample_input sample_rules v sample_plan) (Some close_pair)"

section \<open>A formation the inbox refuses\<close>

definition escaped_wire :: json where
  "escaped_wire = JObj [(''setup_id'', JStr ''setup-1''), (''origin_epoch'', JNum 300), (''confirmation_epoch'', JNum 600), (''direction'', JStr ''LONG''),
     (''variant'', JStr ''STANDARD''), (''origin_open_ticks'', JNum 100), (''origin_high_ticks'', JNum 105), (''origin_low_ticks'', JNum 90),
     (''origin_close_ticks'', JNum 95), (''formation_source_id'', JStr [CHR ''a'', CHR 0x5C])]"

lemma source_read: "sourceId z = Some j \<Longrightarrow> \<exists>s. j = JStr s \<and> id_pattern s"
  by (cases z) (auto simp: sourceId_def read_text_def split: if_split_asm)

lemma decoded_source:
  assumes "decodeSignalDeliveryV1 P bytes = Some body"
  shows "CHR 0x5C \<notin> set (text_at (Signal_Inbox.at (Signal_Inbox.at body ''evidence'') ''formation'') ''formation_source_id'')"
proof -
  from assms obtain raw where r: "delivery_reader raw = Some body"
    by (auto simp: decodeSignalDeliveryV1_def Let_def bind_eq_Some_conv)
  have "\<exists>x. entry_reader x = Some (Signal_Inbox.at body ''evidence'')" by (rule read_object_at[OF r[unfolded delivery_reader_def]]; simp add: safety_shape_def)
  then obtain x where x: "entry_reader x = Some (Signal_Inbox.at body ''evidence'')" ..
  have "\<exists>y. formation_reader y = Some (Signal_Inbox.at (Signal_Inbox.at body ''evidence'') ''formation'')" by (rule read_object_at[OF x[unfolded entry_reader_def]]; simp add: safety_shape_def)
  then obtain y where y: "formation_reader y = Some (Signal_Inbox.at (Signal_Inbox.at body ''evidence'') ''formation'')" ..
  have "\<exists>z. sourceId z = Some (Signal_Inbox.at (Signal_Inbox.at (Signal_Inbox.at body ''evidence'') ''formation'') ''formation_source_id'')" by (rule read_object_at[OF y[unfolded formation_reader_def]]; simp)
  then obtain s where "Signal_Inbox.at (Signal_Inbox.at (Signal_Inbox.at body ''evidence'') ''formation'') ''formation_source_id'' = JStr s" "id_pattern s"
    by (blast dest: source_read)
  thus ?thesis by (auto simp: text_at_def id_pattern_def list_all_iff identifier_unit_def code_unit_def)
qed

text \<open>
  C40.
  The two ends disagree on the source of a formation. The validator of the sender accepts a formation
  whose source identifier contains a backslash, while no bytes at all decode to a delivery whose
  formation has one: an attempt with such a formation is admitted, reserved and never delivered.
\<close>

theorem backslash_source_is_undeliverable:
  "validateSignalEvidenceFormationsV1 (strict_of (JArr [escaped_wire])) [sample_facts EXACT TWO_PLUS_CANDLES] =
     Some [sample_formation\<lparr>fm_formation_source_id := [CHR ''a'', CHR 0x5C]\<rparr>] \<and>
   \<not> (\<exists>P bytes body. decodeSignalDeliveryV1 P bytes = Some body \<and> CHR 0x5C \<in> set (text_at (Signal_Inbox.at (Signal_Inbox.at body ''evidence'') ''formation'') ''formation_source_id''))"
proof
  show "validateSignalEvidenceFormationsV1 (strict_of (JArr [escaped_wire])) [sample_facts EXACT TWO_PLUS_CANDLES] =
     Some [sample_formation\<lparr>fm_formation_source_id := [CHR ''a'', CHR 0x5C]\<rparr>]" by code_simp
qed (use decoded_source in blast)

section \<open>Witnesses\<close>

theorem accepted_formations_fit_witness:
  "validateSignalEvidenceFormationsV1 (strict_of (JArr [formation_wire])) [sample_facts EXACT TWO_PLUS_CANDLES] = Some [sample_formation] \<and>
   formation_fits (sample_facts EXACT TWO_PLUS_CANDLES) sample_formation"
  using accepted_formations_fit[OF formations_read] formations_read by simp

theorem selected_entry_is_proven_witness:
  "\<exists>v entries. evaluateEntryV3Bundle sample_platform sample_input = Inr v \<and> validateSignalEvidenceV1 sample_platform (envelope_bytes v) binding_bytes = Inr entries \<and>
     (\<exists>entry \<in> set entries. \<exists>p. se_selected entry = Some p \<and> eligibleProof (fst p) (snd p))"
proof -
  obtain v where v: "evaluateEntryV3Bundle sample_platform sample_input = Inr v" using sample_completes by blast
  from envelope_validated[OF v] obtain w where w: "validateSignalEvidenceV1 sample_platform (envelope_bytes v) binding_bytes = Inr [desk_entry w v]" by blast
  have "eligibleProof (fst close_pair) (snd close_pair)"
    using selected_entry_is_proven[OF w, of "desk_entry w v" "fst close_pair" "snd close_pair"] by auto
  with v w show ?thesis by force
qed

definition desk_registration :: registration where
  "desk_registration = \<lparr>rg_registration_id = ''desk'', rg_generation = 1, rg_revision = 1, rg_scope_key = [], rg_producer_instance_id = ''producer-1'',
     rg_credential_sha256 = sample_hash, rg_binding = SNull, rg_active_from = 0, rg_active_until = 4000, rg_enabled = True,
     rg_freshness = \<lparr>fr_max_event_age_seconds = 600, fr_max_observation_age_seconds = 600, fr_future_skew_seconds = 0, fr_max_queue_age_seconds = 600\<rparr>\<rparr>"

lemma desk_policy: "policy_ok desk_registration"
  by code_simp

lemma desk_trigger: "trigger_of (desk_entry w v) = Some 1200" "se_selected (desk_entry w v) = Some close_pair"
  by (simp_all add: trigger_of_def close_records)

lemma desk_observed:
  "validateEntryV3Payload sample_platform (strict_of (close_payload v)) = Inr w \<Longrightarrow> vp_observedAtEpoch w = 1500 \<Longrightarrow> se_observed_at_epoch (desk_entry w v) = JNum 1500"
  by (simp add: entry_observed)

theorem validated_times_are_epochs_witness:
  "\<exists>v entry. evaluateEntryV3Bundle sample_platform sample_input = Inr v \<and> validateSignalEvidenceV1 sample_platform (envelope_bytes v) binding_bytes = Inr [entry] \<and>
     policy_ok desk_registration \<and> entry_expiry desk_registration 1550 1550 2150 entry \<noteq> Inl INVALID_EVIDENCE"
proof -
  obtain v where v: "evaluateEntryV3Bundle sample_platform sample_input = Inr v" using sample_completes by blast
  from envelope_validated[OF v] obtain w where w: "validateEntryV3Payload sample_platform (strict_of (close_payload v)) = Inr w" "vp_observedAtEpoch w = 1500"
    "validateSignalEvidenceV1 sample_platform (envelope_bytes v) binding_bytes = Inr [desk_entry w v]" by blast
  have "entry_expiry desk_registration 1550 1550 2150 (desk_entry w v) \<noteq> Inl INVALID_EVIDENCE"
    using validated_times_are_epochs[OF w(3) _ desk_policy, of "desk_entry w v" 1550 1550 2150]
    by (simp add: desk_trigger desk_observed[OF w(1,2)]) (simp add: desk_registration_def MAX_SAFE_INTEGER_def)
  with v w(3) desk_policy show ?thesis by blast
qed

definition desk_transport :: transport where
  "desk_transport = \<lparr>tp_registration_id = ''desk'', tp_generation = 1, tp_credential = [], tp_evidence_bytes = [], tp_sequence = 1,
     tp_producer_instance_id = ''producer-1'', tp_strategy_id = ''rd_liquidity_sd_5m_v1'', tp_body_sha256 = sample_hash\<rparr>"

text \<open>A snapshot in which the attempt of the entry is already disputed.\<close>

definition desk_snapshot :: admission_snapshot where
  "desk_snapshot = \<lparr>sn_state = ACTIVE, sn_revision = 1, sn_next_sequence = 1, sn_last_accepted_at = None, sn_existing_receipt = None,
     sn_attempts = [(ei_attempt_key sample_identity, \<lparr>af_formation_hash = [], af_evidence_id = None, af_evidence_hash = None, af_trigger_epoch = None,
       af_selection_key = None, af_disputed = True\<rparr>)], sn_evidence_facts = []\<rparr>"

theorem conflicts_are_with_stored_facts_witness:
  "\<exists>v entry. evaluateEntryV3Bundle sample_platform sample_input = Inr v \<and> validateSignalEvidenceV1 sample_platform (envelope_bytes v) binding_bytes = Inr [entry] \<and>
     evaluateAdmission (signal_validator sample_platform (envelope_bytes v) binding_bytes) desk_transport desk_registration desk_snapshot 1550 =
       Quarantine ATTEMPT_CONFLICT [se_attempt_key entry] \<and> conflicting desk_snapshot [] entry"
proof -
  obtain v where v: "evaluateEntryV3Bundle sample_platform sample_input = Inr v" using sample_completes by blast
  from envelope_validated[OF v] obtain w where w: "validateEntryV3Payload sample_platform (strict_of (close_payload v)) = Inr w" "vp_observedAtEpoch w = 1500"
    "validateSignalEvidenceV1 sample_platform (envelope_bytes v) binding_bytes = Inr [desk_entry w v]" by blast
  have times: "entry_expiry desk_registration 1550 1550 2150 (desk_entry w v) = Inr 1800"
    by (simp add: entry_expiry_def desk_trigger desk_observed[OF w(1,2)] epoch_value_def) (simp add: desk_registration_def deadline_def epoch_def sample_integers MAX_SAFE_INTEGER_def)
  have conflict: "conflicting desk_snapshot [] (desk_entry w v)" by (simp add: conflicting_def desk_snapshot_def)
  have limits: "deadline 1550 (fr_future_skew_seconds (rg_freshness desk_registration)) = Some 1550" "deadline 1550 (fr_max_queue_age_seconds (rg_freshness desk_registration)) = Some 2150"
    by code_simp+
  have snapshot: "sn_state desk_snapshot = ACTIVE" "sn_revision desk_snapshot = rg_revision desk_registration" "sn_next_sequence desk_snapshot = 1"
    "sn_last_accepted_at desk_snapshot = None" "sn_existing_receipt desk_snapshot = None" "tp_sequence desk_transport = 1"
    by (simp_all add: desk_snapshot_def desk_registration_def desk_transport_def)
  have "evaluateAdmission (signal_validator sample_platform (envelope_bytes v) binding_bytes) desk_transport desk_registration desk_snapshot 1550 =
      Quarantine ATTEMPT_CONFLICT [se_attempt_key (desk_entry w v)]"
    by (simp add: evaluateAdmission_def snapshot limits desk_policy signal_validator_def w(3) times conflict epoch_def sample_integers MAX_SAFE_INTEGER_def js_set_add_def Let_def)
  with conflicts_are_with_stored_facts[OF w(3) this] conflict v w(3) show ?thesis by blast
qed

end
