(* ===== verification/Spec2Isabelle.thy ===== *)
theory Spec2Isabelle
  imports Rd_Samples Paper_Readiness Outbox Edge_Samples Agent_Samples Telemetry_Journal Signal_Samples Evidence_Samples
begin

text \<open>
  \<^bold>\<open>Verification of the TypeScript core of the prop-trading system.\<close>

  The system has two Cloudflare workers. The \<^emph>\<open>observation edge\<close> (\<open>apps/observation-edge/src\<close>) receives
  trading observations by webhook, decides which entry of a setup is canonical, keeps the paper account
  within its limits and delivers accepted candidates to a private receiver. The \<^emph>\<open>execution edge\<close>
  (\<open>apps/execution-edge/src\<close>) compares a candidate with the bars of a broker and synchronizes the agents
  that run beside the broker terminal. The two exchange canonical JSON identified by SHA-256 digests.

  \<^bold>\<open>Theories and the code they model.\<close>

  \<^item> \<open>Js_Prelude\<close>: exceptions, numbers, strings, sorting and insertion-ordered maps of JavaScript, with the
    locales \<open>comparator\<close>, \<open>strict_comparator\<close> and \<open>keyed_store\<close>. \<open>Transition_Systems\<close>: runs of a labelled step
    relation and the locales \<open>invariant_system\<close>, \<open>counted_system\<close> and \<open>ranked_system\<close>, interpreted by the stateful
    components.
  \<^item> \<open>Canonical_Json\<close>: \<open>canonicalStringify\<close> (\<open>validation.ts\<close>) and \<open>canonicalSha256\<close> (\<open>rd-entry-policy.ts\<close>).
    \<open>Edge_Canonical\<close>: the second serializer, of \<open>canonical.ts\<close>. Serialization is injective up to key order
    and the two serializers agree.
  \<^item> \<open>Strict_Json\<close>, \<open>Strict_Round_Trip\<close>: the reader of \<open>strict-json.ts\<close>, from bytes; what it accepts, its round
    trip with the serializer, and which strings its surrogate test lets through. \<open>Json_Parse\<close>: the
    language's \<open>JSON.parse\<close>, which agrees with it.
  \<^item> \<open>Rd_Domain\<close>, \<open>Rd_Validate\<close> (\<open>rd-entry-domain-v3.ts\<close>), \<open>Rd_Matcher\<close> (\<open>rd-entry-matcher-v3.ts\<close>) and \<open>Rd_Arbitrator\<close>
    (\<open>rd-entry-arbitrator-v3.ts\<close>): the v3 entry decision, one definition per function. \<open>Rd_Pipeline\<close> relates the
    composed \<open>evaluateEntryV3Bundle\<close> to a specification over the market proofs, \<open>Rd_Completion\<close> says exactly
    when it returns, \<open>Rd_Samples\<close> holds concrete runs.
  \<^item> \<open>Js_Numbers\<close>: decimal number tokens as doubles. \<open>Entry_Wire\<close> (\<open>rd-entry-wire-v3.ts\<close>): the webhook payload, read into the
    records of the entry decision. \<open>Entry_Wire_Facts\<close> says what an accepted payload guarantees, \<open>Entry_Wire_Round_Trip\<close>
    that its canonical form reads back, \<open>Entry_Wire_Pipeline\<close> that the reader accepts what the evaluator computes;
    \<open>Entry_Wire_Samples\<close> holds concrete payloads.
  \<^item> \<open>Paper_Readiness\<close> (\<open>paper-readiness.ts\<close>): account reports, limits and the readiness state.
  \<^item> \<open>Outbox\<close> (\<open>observation-outbox-dispatcher.ts\<close>): the delivery table under any interleaving of dispatchers.
  \<^item> \<open>Exact_Price\<close> (\<open>exact-price-v1.ts\<close>), \<open>Edge_Contracts\<close> (\<open>contracts-v1.ts\<close>, \<open>broker-symbol-capability-v1.ts\<close>,
    \<open>execution-candidate-v2.ts\<close>), \<open>Broker_Geometry\<close> (\<open>broker-geometry-reconstruction-v1.ts\<close>), \<open>Edge_Samples\<close>: exact
    prices, wire contracts and the reconstruction of a candidate from broker bars.
  \<^item> \<open>Agent_Sync\<close> (\<open>agent-sync-v1.ts\<close>), \<open>Account_Coordinator\<close> (\<open>account-coordinator-v1.ts\<close>), \<open>Agent_Worker\<close>
    (\<open>index.ts\<close>, \<open>agent-health-projection-v1.ts\<close>), \<open>Agent_Samples\<close>: validation of a synchronization request, the durable
    object that numbers the requests of an account, and the worker around it with its audit tables.
  \<^item> \<open>Telemetry_Values\<close> (\<open>telemetry-values-v2.ts\<close>), \<open>Telemetry\<close> (\<open>telemetry-cutover-v2.ts\<close>, \<open>telemetry-coverage-v2.ts\<close>,
    \<open>telemetry-admission-v2.ts\<close>), \<open>Telemetry_Journal\<close> (\<open>telemetry-journal-projection-v2.ts\<close>, types of
    \<open>telemetry-wire-v2.ts\<close>): exact decimals, tracking boundaries, coverage, admission of telemetry requests and
    journal entries.
  \<^item> \<open>Signal_Wire\<close> (\<open>signal-admission-wire-v1.ts\<close>, \<open>signal-admission-registration-v1.ts\<close>), \<open>Signal_Decision\<close>
    (\<open>signal-admission-decision-v1.ts\<close>), \<open>Signal_Store\<close> (the tables of the migrations 0031 to 0033 and their
    statements), \<open>Signal_Admission\<close> and \<open>Signal_Delivery\<close> (\<open>signal-admission-store-v1.ts\<close>,
    \<open>signal-admission-outbox-v1.ts\<close>): the signal path, from the bytes of a request to the acknowledged delivery.
    \<open>Signal_System\<close> makes a transition system of it, \<open>Signal_Runs\<close> holds what is true along its runs,
    \<open>Signal_Samples\<close> a concrete run. \<open>Inbox_Parse\<close> and \<open>Signal_Inbox\<close> (\<open>signal-evidence-inbox-v1.ts\<close>,
    \<open>telemetry-schema-v2.ts\<close>): the receiver on the execution edge, with its own reader and table.
    \<open>Signal_Evidence\<close> (\<open>signal-evidence-v1.ts\<close>, \<open>signal-evidence-identity-v1.ts\<close>): the validator of an envelope of
    evidence, which joins the wire reader with the admission (\<open>signal_validator\<close> is the admission's argument);
    \<open>Evidence_Samples\<close> holds an envelope as bytes and what the inbox makes of an odd formation.

  \<^bold>\<open>How the code is rendered.\<close> A thrown exception is the left value of a \<open>result\<close>, the first failing
  statement of a validator is the one reported. Where the source turns every exception into one error
  the body is a computation in the option monad. Database tables are lists of rows and an SQL statement
  is a guarded update; a call of a durable object is one step. Clocks, random tokens, answers of remote
  parties and success of a database write are arguments. Parsers are total functions, and the bound on the
  unread input in their termination proofs takes the place of fuel.

  \<^bold>\<open>What the lemmas show.\<close> Entry decision: refinement of a specification, completion, safety and
  order-independence of the arbitration, and that an opened selection is kept. Wire reader: it recomputes
  what the producer claims, so unreviewed producers and one-candle setups never trade, a paper entry is
  priced at its trigger and an exit has the reason the market shows; canonical bundles read back, and the
  bundles the evaluator computes are accepted with one stated exception. Accounts: the limits in
  exact arithmetic. Outbox: a well-formedness invariant, at most five sends, superseded and terminal rows,
  progress, and that a dispatcher call is a run. Execution edge: a match is exactly what the bars support
  and its stop covers the buffer. Agents: requests are accepted in sequence, retries get the same bytes,
  only valid requests change anything. Telemetry: sessions without gaps and exact sums. Signals: accepted
  sequence numbers without gaps, one delivery for an attempt, silence of stopped streams, a bound on the
  changes of a delivery, and that a repeated request is a duplicate, all under any interleaving and with
  snapshots that may be out of date; the inbox reads what the sender reads, and an acknowledged delivery is
  stored exactly once. Evidence: a selected entry is proven live and exact and tied to its formation, an
  envelope never contradicts itself, and validated times never quarantine a stream by themselves.

  \<^bold>\<open>Hypotheses on the platform.\<close> SHA-256 and \<open>localeCompare\<close> are fields of the record \<open>platform\<close>.
  \<open>sha256_width\<close> (32 bytes), \<open>collates_hex\<close> (hexadecimal strings collate by characters) and \<open>nonzero_digests\<close> (no digest is
  all zero; \<open>nonzero_payload_digests\<close> at the agents) are named hypotheses; a sample platform satisfies them in the witnesses.

  \<^bold>\<open>Limits.\<close> Numbers are integers, since the sources test for safe integers before they compute; strings
  hold the code units below 256, except in the strict reader, which has all of UTF-16. Tests on the
  dynamic type of a value hold by typing where the model's input is a typed record. The streaming of
  request bodies and the text reader inside \<open>agent-sync-v1.ts\<close> are not modelled; its request parser starts from
  the JSON value.

  \<^bold>\<open>Not modelled.\<close> The readers and the repository of the telemetry session, the paper ledger and
  simulator contracts and the superseded v2 entry stack. The stores and queries of the observation edge,
  HTTP routing and the two consoles are input and output around this logic; the Python package, the MQL5
  agent and the Pine scripts are other programs.
\<close>

section \<open>Identity across the workers\<close>

text \<open>
  C14. Canonical serialization is faithful: two JSON values have the same canonical text exactly when
  they are equal up to the order of their object keys. Every content-derived identifier hashes this
  text, so distinct identities give distinct bytes.
\<close>

theorem canonicalStringify_faithful:
  "canonicalStringify v = canonicalStringify w \<longleftrightarrow> sort_keys v = sort_keys w"
  by (rule canonicalStringify_inject)

end
